(* ===== verification/Prelude.thy ===== *)
theory Prelude
  imports Main "HOL-Library.Word" "HOL-Library.Char_ord" "HOL-Library.List_Lexorder"
begin

text \<open>
  Shared vocabulary of the development: the machine integer types of the C++ sources, lemmas
  about words whose sums do not wrap, an insertion sort over an arbitrary comparator (the model
  of \<open>std::sort\<close> with a comparison function), and the ordered association lists that model
  \<open>std::map\<close>, stated as a locale and interpreted on the concrete functions.
\<close>

section \<open>Machine integers\<close>

type_synonym u8 = "8 word"
type_synonym u16 = "16 word"
type_synonym u32 = "32 word"
type_synonym u64 = "64 word"

text \<open>Facts that turn word arithmetic into arithmetic on \<open>nat\<close>.\<close>

named_theorems word_nat

lemma unat_add_no_wrap:
  fixes a b :: "'a::len word"
  assumes "unat a + unat b < 2 ^ LENGTH('a)"
  shows "unat (a + b) = unat a + unat b"
  using assms by (simp add: unat_word_ariths)

lemma unat_sub_le:
  fixes a b :: "'a::len word"
  shows "b \<le> a \<Longrightarrow> unat (a - b) = unat a - unat b"
  by (rule unat_sub)

lemma word_le_unat [word_nat]: "(a \<le> b) = (unat a \<le> unat b)" for a b :: "'a::len word"
  by (rule word_le_nat_alt)

lemma word_less_unat [word_nat]: "(a < b) = (unat a < unat b)" for a b :: "'a::len word"
  by (rule word_less_nat_alt)

lemma unat_add_capped:
  fixes a b c :: "'a::len word"
  assumes "unat a + unat b \<le> unat c"
  shows "unat (a + b) = unat a + unat b"
proof -
  have "unat c < 2 ^ LENGTH('a)" by (rule unsigned_less)
  with assms show ?thesis by (intro unat_add_no_wrap) linarith
qed

lemma unat_eq_0_iff: "(unat a = 0) = (a = 0)" for a :: "'a::len word"
  by (simp add: unat_eq_0)

section \<open>Sorting with a comparator\<close>

text \<open>
  \<open>std::sort(first, last, lt)\<close>. The order of elements that the comparator does not separate is
  unspecified in C++; the model keeps them in their order of arrival.
\<close>

fun insert_by :: "('a \<Rightarrow> 'a \<Rightarrow> bool) \<Rightarrow> 'a \<Rightarrow> 'a list \<Rightarrow> 'a list" where
  "insert_by lt x [] = [x]"
| "insert_by lt x (y # ys) = (if lt y x then y # insert_by lt x ys else x # y # ys)"

definition sort_by :: "('a \<Rightarrow> 'a \<Rightarrow> bool) \<Rightarrow> 'a list \<Rightarrow> 'a list" where
  "sort_by lt xs = foldr (insert_by lt) xs []"

lemma set_insert_by [simp]: "set (insert_by lt x ys) = insert x (set ys)"
  by (induction ys) auto

lemma set_sort_by [simp]: "set (sort_by lt xs) = set xs"
  unfolding sort_by_def by (induction xs) auto

lemma length_insert_by [simp]: "length (insert_by lt x ys) = Suc (length ys)"
  by (induction ys) auto

lemma length_sort_by [simp]: "length (sort_by lt xs) = length xs"
  unfolding sort_by_def by (induction xs) auto

lemma distinct_map_insert_by [simp]:
  "distinct (map f (insert_by lt x ys)) = (f x \<notin> f ` set ys \<and> distinct (map f ys))"
  by (induction ys) auto

lemma distinct_map_sort_by [simp]: "distinct (map f (sort_by lt xs)) = distinct (map f xs)"
  unfolding sort_by_def by (induction xs) (auto simp flip: sort_by_def)

lemma sort_by_Nil_iff [simp]: "(sort_by lt xs = []) = (xs = [])"
  by (simp flip: length_0_conv)

text \<open>
  \<open>no_better\<close> is what sortedness under a comparator means: no later element precedes an earlier
  one. It holds after sorting whenever the comparator is asymmetric and its negation transitive
  (a strict weak order, what \<open>std::sort\<close> demands).
\<close>

definition no_better :: "('a \<Rightarrow> 'a \<Rightarrow> bool) \<Rightarrow> 'a list \<Rightarrow> bool" where
  "no_better lt xs = sorted_wrt (\<lambda>x y. \<not> lt y x) xs"

definition weak_order :: "('a \<Rightarrow> 'a \<Rightarrow> bool) \<Rightarrow> bool" where
  "weak_order lt \<longleftrightarrow> (\<forall>x y. lt x y \<longrightarrow> \<not> lt y x) \<and>
     (\<forall>x y z. \<not> lt x y \<longrightarrow> \<not> lt y z \<longrightarrow> \<not> lt x z)"

lemma weak_order_asym: "weak_order lt \<Longrightarrow> lt x y \<Longrightarrow> \<not> lt y x"
  unfolding weak_order_def by metis

lemma weak_order_trans: "weak_order lt \<Longrightarrow> \<not> lt x y \<Longrightarrow> \<not> lt y z \<Longrightarrow> \<not> lt x z"
  unfolding weak_order_def by metis

lemma insert_by_no_better:
  assumes "weak_order lt" and "no_better lt ys"
  shows "no_better lt (insert_by lt x ys)"
  using assms(2)
proof (induction ys)
  case Nil
  then show ?case by (simp add: no_better_def)
next
  case (Cons y ys)
  show ?case
  proof (cases "lt y x")
    case True
    with Cons show ?thesis
      by (simp add: no_better_def weak_order_asym [OF assms(1)])
  next
    case False
    have "\<forall>z\<in>set ys. \<not> lt z x"
    proof
      fix z
      assume "z \<in> set ys"
      with Cons.prems have "\<not> lt z y" by (simp add: no_better_def)
      from weak_order_trans [OF assms(1) this False] show "\<not> lt z x" .
    qed
    with False Cons.prems show ?thesis by (simp add: no_better_def)
  qed
qed

lemma sort_by_no_better: "weak_order lt \<Longrightarrow> no_better lt (sort_by lt xs)"
  unfolding sort_by_def by (induction xs) (auto simp: no_better_def intro: insert_by_no_better [unfolded no_better_def])

lemma no_better_head:
  "no_better lt (x # xs) \<Longrightarrow> y \<in> set xs \<Longrightarrow> \<not> lt y x"
  by (simp add: no_better_def)

section \<open>Ordered maps\<close>

text \<open>
  A \<open>std::map<K, V>\<close> is an association list with strictly ascending keys, so iteration visits the
  entries in key order. \<open>find\<close> is \<open>map_of\<close>; \<open>emplace\<close> leaves an existing entry alone;
  \<open>operator[] = v\<close> is \<open>om_set\<close>; writing through a reference to an entry is \<open>om_modify\<close>.
\<close>

type_synonym ('k, 'v) omap = "('k \<times> 'v) list"

fun om_emplace :: "'k::linorder \<Rightarrow> 'v \<Rightarrow> ('k, 'v) omap \<Rightarrow> ('k, 'v) omap" where
  "om_emplace k v [] = [(k, v)]"
| "om_emplace k v ((k', v') # m) =
     (if k < k' then (k, v) # (k', v') # m
      else if k = k' then (k', v') # m
      else (k', v') # om_emplace k v m)"

fun om_set :: "'k::linorder \<Rightarrow> 'v \<Rightarrow> ('k, 'v) omap \<Rightarrow> ('k, 'v) omap" where
  "om_set k v [] = [(k, v)]"
| "om_set k v ((k', v') # m) =
     (if k < k' then (k, v) # (k', v') # m
      else if k = k' then (k, v) # m
      else (k', v') # om_set k v m)"

definition om_modify :: "'k \<Rightarrow> ('v \<Rightarrow> 'v) \<Rightarrow> ('k, 'v) omap \<Rightarrow> ('k, 'v) omap" where
  "om_modify k f m = map (\<lambda>(k', v). (k', if k' = k then f v else v)) m"

definition om_erase :: "'k \<Rightarrow> ('k, 'v) omap \<Rightarrow> ('k, 'v) omap" where
  "om_erase k m = filter (\<lambda>e. fst e \<noteq> k) m"

definition om_keys :: "('k, 'v) omap \<Rightarrow> 'k list" where
  "om_keys m = map fst m"

definition om_values :: "('k, 'v) omap \<Rightarrow> 'v list" where
  "om_values m = map snd m"

definition om_wf :: "('k::linorder, 'v) omap \<Rightarrow> bool" where
  "om_wf m = sorted_wrt (<) (map fst m)"

lemma om_wf_Nil [simp]: "om_wf []"
  by (simp add: om_wf_def)

lemma om_wf_Cons: "om_wf ((k, v) # m) = ((\<forall>k'\<in>fst ` set m. k < k') \<and> om_wf m)"
  by (auto simp: om_wf_def)

lemma om_wf_distinct: "om_wf m \<Longrightarrow> distinct (map fst m)"
  unfolding om_wf_def by (simp add: strict_sorted_iff)

lemma fst_om_modify [simp]: "map fst (om_modify k f m) = map fst m"
  by (induction m) (auto simp: om_modify_def)

lemma length_om_modify [simp]: "length (om_modify k f m) = length m"
  by (simp add: om_modify_def)

lemma fst_set_om_emplace: "fst ` set (om_emplace k v m) = insert k (fst ` set m)"
  by (induction k v m rule: om_emplace.induct) auto

lemma fst_set_om_set: "fst ` set (om_set k v m) = insert k (fst ` set m)"
  by (induction k v m rule: om_set.induct) auto

lemma om_wf_emplace: "om_wf m \<Longrightarrow> om_wf (om_emplace k v m)"
proof (induction k v m rule: om_emplace.induct)
  case (2 k v k' v' m)
  then show ?case
    by (auto simp: om_wf_Cons fst_set_om_emplace dest: less_trans)
qed (simp add: om_wf_Cons)

lemma om_wf_set: "om_wf m \<Longrightarrow> om_wf (om_set k v m)"
proof (induction k v m rule: om_set.induct)
  case (2 k v k' v' m)
  then show ?case
    by (auto simp: om_wf_Cons fst_set_om_set dest: less_trans)
qed (simp add: om_wf_Cons)

lemma om_wf_modify [simp]: "om_wf (om_modify k f m) = om_wf m"
  by (simp add: om_wf_def)

lemma om_wf_erase: "om_wf m \<Longrightarrow> om_wf (om_erase k m)"
  by (induction m) (auto simp: om_erase_def om_wf_Cons)

lemma map_of_om_modify:
  "map_of (om_modify k f m) k' = (if k' = k then map_option f (map_of m k') else map_of m k')"
  by (induction m) (auto simp: om_modify_def)

lemma map_of_None_less: "\<forall>k'\<in>fst ` set m. (k::'k::linorder) < k' \<Longrightarrow> map_of m k = None"
  by (induction m) auto

lemma map_of_om_emplace:
  "om_wf m \<Longrightarrow> map_of (om_emplace k v m) k' =
     (if k' = k \<and> map_of m k = None then Some v else map_of m k')"
proof (induction k v m rule: om_emplace.induct)
  case (2 k v j w m)
  have none: "k < j \<Longrightarrow> map_of m k = None"
    using "2.prems" by (intro map_of_None_less) (auto simp: om_wf_Cons)
  consider "k < j" | "k = j" | "j < k" by (rule linorder_cases)
  then show ?case
  proof cases
    case 1
    then have "j \<noteq> k" by simp
    with 1 none show ?thesis by simp
  next
    case 2
    then show ?thesis by simp
  next
    case 3
    with "2.prems" "2.IH" show ?thesis by (auto simp: om_wf_Cons)
  qed
qed simp

lemma map_of_om_set:
  "om_wf m \<Longrightarrow> map_of (om_set k v m) k' = (if k' = k then Some v else map_of m k')"
  by (induction k v m rule: om_set.induct) (auto simp: om_wf_Cons)

lemma map_of_om_erase: "map_of (om_erase k m) k' = (if k' = k then None else map_of m k')"
  by (induction m) (auto simp: om_erase_def)

lemma map_of_value: "om_wf m \<Longrightarrow> ((k, v) \<in> set m) = (map_of m k = Some v)"
  by (metis map_of_eq_Some_iff om_wf_distinct)

section \<open>The map interface the engine relies on\<close>

text \<open>
  The engine reads a table with \<open>find\<close>, adds fresh entries with \<open>emplace\<close>, writes through
  references with \<open>modify\<close>, and its accounting sums a quantity over the entries. The client lemmas
  below use nothing else.
\<close>

locale ordered_store =
  fixes find :: "'m \<Rightarrow> 'k \<Rightarrow> 'v option"
    and emplace :: "'k \<Rightarrow> 'v \<Rightarrow> 'm \<Rightarrow> 'm"
    and modify :: "'k \<Rightarrow> ('v \<Rightarrow> 'v) \<Rightarrow> 'm \<Rightarrow> 'm"
    and wf :: "'m \<Rightarrow> bool"
  assumes find_emplace: "wf m \<Longrightarrow> find (emplace k v m) k' =
      (if k' = k \<and> find m k = None then Some v else find m k')"
    and find_modify: "find (modify k f m) k' =
      (if k' = k then map_option f (find m k') else find m k')"
    and wf_emplace: "wf m \<Longrightarrow> wf (emplace k v m)"
    and wf_modify: "wf m \<Longrightarrow> wf (modify k f m)"
begin

lemma all_emplace:
  assumes "wf m" and "\<And>j w. find m j = Some w \<Longrightarrow> P j w" and "P k v"
  shows "find (emplace k v m) j = Some w \<Longrightarrow> P j w"
  using assms by (auto simp: find_emplace split: if_splits)

lemma all_modify:
  assumes "\<And>j w. find m j = Some w \<Longrightarrow> P j w"
    and "\<And>w. find m k = Some w \<Longrightarrow> P k (f w)"
  shows "find (modify k f m) j = Some w \<Longrightarrow> P j w"
  using assms by (auto simp: find_modify split: if_splits)

lemma dom_modify: "(find (modify k f m) j = None) = (find m j = None)"
  by (simp add: find_modify)

lemma dom_emplace: "wf m \<Longrightarrow> find m j \<noteq> None \<Longrightarrow> find (emplace k v m) j \<noteq> None"
  by (simp add: find_emplace)

lemma emplace_fresh: "wf m \<Longrightarrow> find m k = None \<Longrightarrow> find (emplace k v m) k = Some v"
  by (simp add: find_emplace)

lemma emplace_other: "wf m \<Longrightarrow> j \<noteq> k \<Longrightarrow> find (emplace k v m) j = find m j"
  by (simp add: find_emplace)

end

locale summed_store = ordered_store find emplace modify wf
  for find :: "'m \<Rightarrow> 'k \<Rightarrow> 'v option"
    and emplace :: "'k \<Rightarrow> 'v \<Rightarrow> 'm \<Rightarrow> 'm"
    and modify :: "'k \<Rightarrow> ('v \<Rightarrow> 'v) \<Rightarrow> 'm \<Rightarrow> 'm"
    and wf :: "'m \<Rightarrow> bool" +
  fixes total :: "('v \<Rightarrow> nat) \<Rightarrow> 'm \<Rightarrow> nat"
  assumes total_emplace: "wf m \<Longrightarrow> find m k = None \<Longrightarrow> total q (emplace k v m) = total q m + q v"
    and total_modify: "wf m \<Longrightarrow> find m k = Some v \<Longrightarrow> total q (modify k f m) + q v = total q m + q (f v)"
    and total_ge: "wf m \<Longrightarrow> find m k = Some v \<Longrightarrow> q v \<le> total q m"
    and total_absent: "find m k = None \<Longrightarrow> modify k f m = m"
begin

lemma total_modify_same:
  assumes "wf m" and "\<And>v. find m k = Some v \<Longrightarrow> q (f v) = q v"
  shows "total q (modify k f m) = total q m"
proof (cases "find m k")
  case None
  then show ?thesis by (simp add: total_absent)
next
  case (Some v)
  with total_modify [OF assms(1) Some, of q f] assms(2) [OF Some] show ?thesis by simp
qed

lemma total_modify_drop:
  assumes "wf m" and "find m k = Some v" and "q (f v) = 0"
  shows "total q (modify k f m) = total q m - q v"
  using total_modify [OF assms(1,2), of q f] assms(3) by simp

end

definition om_total :: "('v \<Rightarrow> nat) \<Rightarrow> ('k, 'v) omap \<Rightarrow> nat" where
  "om_total q m = sum_list (map (q \<circ> snd) m)"

lemma om_total_emplace:
  "om_wf m \<Longrightarrow> map_of m k = None \<Longrightarrow> om_total q (om_emplace k v m) = om_total q m + q v"
  by (induction k v m rule: om_emplace.induct) (auto simp: om_total_def om_wf_Cons split: if_splits)

lemma om_modify_absent: "map_of m k = None \<Longrightarrow> om_modify k f m = m"
  by (induction m) (auto simp: om_modify_def split: if_splits)

lemma om_total_modify:
  "om_wf m \<Longrightarrow> map_of m k = Some v \<Longrightarrow>
     om_total q (om_modify k f m) + q v = om_total q m + q (f v)"
proof (induction m)
  case (Cons e m)
  obtain j w where e: "e = (j, w)" by fastforce
  show ?case
  proof (cases "j = k")
    case True
    with Cons.prems e have "map_of m k = None"
      by (intro map_of_None_less) (auto simp: om_wf_Cons)
    from om_modify_absent [OF this, of f] True Cons.prems e show ?thesis
      by (simp add: om_total_def om_modify_def)
  next
    case False
    with Cons e show ?thesis by (simp add: om_total_def om_modify_def om_wf_Cons)
  qed
qed simp

lemma om_total_ge: "map_of m k = Some v \<Longrightarrow> q v \<le> om_total q m"
  by (induction m) (auto simp: om_total_def split: if_splits)

interpretation omap: summed_store map_of om_emplace om_modify om_wf om_total
  by unfold_locales
    (simp_all add: map_of_om_emplace map_of_om_modify om_wf_emplace om_total_emplace
      om_total_modify om_total_ge om_modify_absent)

section \<open>Enumerations with a printed name\<close>

text \<open>
  Every enumeration of the code has a total printing function and a partial parser over the same
  table. The two laws make printing injective and parsing its exact inverse.
\<close>

locale name_table =
  fixes name :: "'e \<Rightarrow> string" and parse :: "string \<Rightarrow> 'e option"
  assumes parse_name: "parse (name x) = Some x"
    and name_parse: "parse t = Some x \<Longrightarrow> name x = t"
begin

lemma name_inj: "name x = name y \<Longrightarrow> x = y"
  by (metis option.inject parse_name)

lemma parse_iff: "parse t = Some x \<longleftrightarrow> t = name x"
  using name_parse parse_name by auto

lemma parse_None_iff: "parse t = None \<longleftrightarrow> t \<notin> range name"
  by (metis not_Some_eq parse_iff rangeE rangeI)

end

text \<open>The lookup loops of the sources: the first matching row of a table.\<close>

fun table_name :: "('e \<times> string) list \<Rightarrow> string \<Rightarrow> 'e \<Rightarrow> string" where
  "table_name [] dflt x = dflt"
| "table_name ((y, n) # rows) dflt x = (if y = x then n else table_name rows dflt x)"

fun table_parse :: "('e \<times> string) list \<Rightarrow> string \<Rightarrow> 'e option" where
  "table_parse [] t = None"
| "table_parse ((y, n) # rows) t = (if n = t then Some y else table_parse rows t)"

lemma table_parse_name:
  "x \<in> fst ` set rows \<Longrightarrow> distinct (map snd rows) \<Longrightarrow>
     table_parse rows (table_name rows dflt x) = Some x"
proof (induction rows)
  case (Cons r rows)
  obtain y n where r: "r = (y, n)" by fastforce
  show ?case
  proof (cases "y = x")
    case True
    with r show ?thesis by simp
  next
    case False
    with Cons.prems r have x: "x \<in> fst ` set rows" by auto
    have "table_name rows dflt x \<in> snd ` set rows" using x
      by (induction rows dflt x rule: table_name.induct) auto
    with Cons.prems r have "n \<noteq> table_name rows dflt x" by auto
    with False r x Cons show ?thesis by simp
  qed
qed simp

lemma table_name_parse:
  "table_parse rows t = Some x \<Longrightarrow> distinct (map fst rows) \<Longrightarrow> table_name rows dflt x = t"
proof (induction rows t rule: table_parse.induct)
  case (2 y n rows t)
  have "table_parse rows t = Some x \<Longrightarrow> x \<in> fst ` set rows"
    by (induction rows t rule: table_parse.induct) (auto split: if_splits)
  with 2 show ?case by (auto split: if_splits)
qed simp

end
