(* ===== verification/Errors.thy ===== *)
theory Errors
  imports Prelude
begin

text \<open>
  The error vocabulary of \<open>error.hpp\<close> and \<open>error.cpp\<close>: error codes, the rejection reasons of
  the hard filter, \<open>Status\<close> and \<open>Result<T>\<close>. \<open>Result<T>\<close> is a sum with the status on the
  left. Rejection reasons are ordered by their enumeration value, as the keys of
  \<open>std::map<RejectReason, ...>\<close> are.
\<close>

section \<open>Codes and reasons\<close>

datatype error_code =
    E_Ok
  | E_NoPlacement
  | E_ResourceLost
  | E_StaleResource
  | E_StaleEpoch
  | E_StaleWorker
  | E_StalePlacement
  | E_StaleExperiment
  | E_CapacityExhausted
  | E_CapabilityMismatch
  | E_TopologyMismatch
  | E_ModelMismatch
  | E_DatasetMismatch
  | E_EnvironmentUnavailable
  | E_Unsupported
  | E_Cancelled
  | E_Preempted
  | E_ReassignmentRequired
  | E_CorruptPersistence
  | E_ProtocolError
  | E_ResourceExhausted
  | E_InvalidIdentity
  | E_DuplicateIdentity
  | E_NotFound
  | E_GenerationMismatch
  | E_ReservationConflict
  | E_ReservationNotActive
  | E_Unauthorized
  | E_DuplicateCompletion
  | E_InvalidArgument
  | E_LimitExceeded
  | E_HealthRejected
  | E_ExclusivityConflict
  | E_NotReady
  | E_TenantViolation
  | E_IoFailure
  | E_InternalError
  | E_ShuttingDown
  | E_Busy

datatype reject_reason =
    RR_None
  | RR_ResourceClassMismatch
  | RR_CapabilityMismatch
  | RR_CapacityExhausted
  | RR_MemoryExhausted
  | RR_OccupancyExceeded
  | RR_HealthRejected
  | RR_HealthUnknown
  | RR_EvidenceStale
  | RR_EvidenceNotAuthoritative
  | RR_ResourceRetired
  | RR_TopologyMismatch
  | RR_ModelMismatch
  | RR_ModelVersionMismatch
  | RR_ModelNotResident
  | RR_SimulatorMismatch
  | RR_SimulatorNotReady
  | RR_DatasetMismatch
  | RR_DatasetVersionMismatch
  | RR_EnvironmentMismatch
  | RR_EnvironmentDigestMismatch
  | RR_EnvironmentNotReady
  | RR_AcceleratorMismatch
  | RR_ExclusivityConflict
  | RR_ReservationConflict
  | RR_TenantViolation
  | RR_AllowlistExcluded
  | RR_DenylistExcluded
  | RR_AffinityViolation
  | RR_AntiAffinityViolation
  | RR_AlreadySelected
  | RR_Unsupported
  | RR_WorkerIncarnationStale
  | RR_ShuttingDown

definition error_code_table :: "(error_code \<times> string) list" where
  "error_code_table = [
     (E_Ok, ''OK''), (E_NoPlacement, ''NO_PLACEMENT''), (E_ResourceLost, ''RESOURCE_LOST''),
     (E_StaleResource, ''STALE_RESOURCE''), (E_StaleEpoch, ''STALE_EPOCH''),
     (E_StaleWorker, ''STALE_WORKER''), (E_StalePlacement, ''STALE_PLACEMENT''),
     (E_StaleExperiment, ''STALE_EXPERIMENT''), (E_CapacityExhausted, ''CAPACITY_EXHAUSTED''),
     (E_CapabilityMismatch, ''CAPABILITY_MISMATCH''), (E_TopologyMismatch, ''TOPOLOGY_MISMATCH''),
     (E_ModelMismatch, ''MODEL_MISMATCH''), (E_DatasetMismatch, ''DATASET_MISMATCH''),
     (E_EnvironmentUnavailable, ''ENVIRONMENT_UNAVAILABLE''), (E_Unsupported, ''UNSUPPORTED''),
     (E_Cancelled, ''CANCELLED''), (E_Preempted, ''PREEMPTED''),
     (E_ReassignmentRequired, ''REASSIGNMENT_REQUIRED''),
     (E_CorruptPersistence, ''CORRUPT_PERSISTENCE''), (E_ProtocolError, ''PROTOCOL_ERROR''),
     (E_ResourceExhausted, ''RESOURCE_EXHAUSTED''), (E_InvalidIdentity, ''INVALID_IDENTITY''),
     (E_DuplicateIdentity, ''DUPLICATE_IDENTITY''), (E_NotFound, ''NOT_FOUND''),
     (E_GenerationMismatch, ''GENERATION_MISMATCH''),
     (E_ReservationConflict, ''RESERVATION_CONFLICT''),
     (E_ReservationNotActive, ''RESERVATION_NOT_ACTIVE''), (E_Unauthorized, ''UNAUTHORIZED''),
     (E_DuplicateCompletion, ''DUPLICATE_COMPLETION''), (E_InvalidArgument, ''INVALID_ARGUMENT''),
     (E_LimitExceeded, ''LIMIT_EXCEEDED''), (E_HealthRejected, ''HEALTH_REJECTED''),
     (E_ExclusivityConflict, ''EXCLUSIVITY_CONFLICT''), (E_NotReady, ''NOT_READY''),
     (E_TenantViolation, ''TENANT_VIOLATION''), (E_IoFailure, ''IO_FAILURE''),
     (E_InternalError, ''INTERNAL_ERROR''), (E_ShuttingDown, ''SHUTTING_DOWN''), (E_Busy, ''BUSY'')]"

definition error_code_name :: "error_code \<Rightarrow> string" where
  "error_code_name c = table_name error_code_table ''UNKNOWN'' c"

definition parse_error_code :: "string \<Rightarrow> error_code option" where
  "parse_error_code t = table_parse error_code_table t"

definition reject_reason_table :: "(reject_reason \<times> string) list" where
  "reject_reason_table = [
     (RR_None, ''NONE''), (RR_ResourceClassMismatch, ''RESOURCE_CLASS_MISMATCH''),
     (RR_CapabilityMismatch, ''CAPABILITY_MISMATCH''),
     (RR_CapacityExhausted, ''CAPACITY_EXHAUSTED''), (RR_MemoryExhausted, ''MEMORY_EXHAUSTED''),
     (RR_OccupancyExceeded, ''OCCUPANCY_EXCEEDED''), (RR_HealthRejected, ''HEALTH_REJECTED''),
     (RR_HealthUnknown, ''HEALTH_UNKNOWN''), (RR_EvidenceStale, ''EVIDENCE_STALE''),
     (RR_EvidenceNotAuthoritative, ''EVIDENCE_NOT_AUTHORITATIVE''),
     (RR_ResourceRetired, ''RESOURCE_RETIRED''), (RR_TopologyMismatch, ''TOPOLOGY_MISMATCH''),
     (RR_ModelMismatch, ''MODEL_MISMATCH''), (RR_ModelVersionMismatch, ''MODEL_VERSION_MISMATCH''),
     (RR_ModelNotResident, ''MODEL_NOT_RESIDENT''), (RR_SimulatorMismatch, ''SIMULATOR_MISMATCH''),
     (RR_SimulatorNotReady, ''SIMULATOR_NOT_READY''), (RR_DatasetMismatch, ''DATASET_MISMATCH''),
     (RR_DatasetVersionMismatch, ''DATASET_VERSION_MISMATCH''),
     (RR_EnvironmentMismatch, ''ENVIRONMENT_MISMATCH''),
     (RR_EnvironmentDigestMismatch, ''ENVIRONMENT_DIGEST_MISMATCH''),
     (RR_EnvironmentNotReady, ''ENVIRONMENT_NOT_READY''),
     (RR_AcceleratorMismatch, ''ACCELERATOR_MISMATCH''),
     (RR_ExclusivityConflict, ''EXCLUSIVITY_CONFLICT''),
     (RR_ReservationConflict, ''RESERVATION_CONFLICT''),
     (RR_TenantViolation, ''TENANT_VIOLATION''), (RR_AllowlistExcluded, ''ALLOWLIST_EXCLUDED''),
     (RR_DenylistExcluded, ''DENYLIST_EXCLUDED''), (RR_AffinityViolation, ''AFFINITY_VIOLATION''),
     (RR_AntiAffinityViolation, ''ANTI_AFFINITY_VIOLATION''),
     (RR_AlreadySelected, ''ALREADY_SELECTED''), (RR_Unsupported, ''UNSUPPORTED''),
     (RR_WorkerIncarnationStale, ''WORKER_INCARNATION_STALE''), (RR_ShuttingDown, ''SHUTTING_DOWN'')]"

definition reject_reason_name :: "reject_reason \<Rightarrow> string" where
  "reject_reason_name r = table_name reject_reason_table ''UNKNOWN'' r"

definition parse_reject_reason :: "string \<Rightarrow> reject_reason option" where
  "parse_reject_reason t = table_parse reject_reason_table t"

interpretation error_names: name_table error_code_name parse_error_code
proof
  fix x
  have "x \<in> set (map fst error_code_table)"
    unfolding error_code_table_def list.map fst_conv by (cases x) simp_all
  then have "x \<in> fst ` set error_code_table" by simp
  moreover have "distinct (map snd error_code_table)" by (simp add: error_code_table_def)
  ultimately show "parse_error_code (error_code_name x) = Some x"
    by (simp add: parse_error_code_def error_code_name_def table_parse_name)
next
  fix t x
  have "distinct (map fst error_code_table)" by (simp add: error_code_table_def)
  then show "parse_error_code t = Some x \<Longrightarrow> error_code_name x = t"
    by (simp add: parse_error_code_def error_code_name_def table_name_parse)
qed

interpretation reject_names: name_table reject_reason_name parse_reject_reason
proof
  fix x
  have "x \<in> set (map fst reject_reason_table)"
    unfolding reject_reason_table_def list.map fst_conv by (cases x) simp_all
  then have "x \<in> fst ` set reject_reason_table" by simp
  moreover have "distinct (map snd reject_reason_table)" by (simp add: reject_reason_table_def)
  ultimately show "parse_reject_reason (reject_reason_name x) = Some x"
    by (simp add: parse_reject_reason_def reject_reason_name_def table_parse_name)
next
  fix t x
  have "distinct (map fst reject_reason_table)" by (simp add: reject_reason_table_def)
  then show "parse_reject_reason t = Some x \<Longrightarrow> reject_reason_name x = t"
    by (simp add: parse_reject_reason_def reject_reason_name_def table_name_parse)
qed

section \<open>The order of rejection reasons\<close>

primrec reject_reason_value :: "reject_reason \<Rightarrow> nat" where
  "reject_reason_value RR_None = 0"
| "reject_reason_value RR_ResourceClassMismatch = 1"
| "reject_reason_value RR_CapabilityMismatch = 2"
| "reject_reason_value RR_CapacityExhausted = 3"
| "reject_reason_value RR_MemoryExhausted = 4"
| "reject_reason_value RR_OccupancyExceeded = 5"
| "reject_reason_value RR_HealthRejected = 6"
| "reject_reason_value RR_HealthUnknown = 7"
| "reject_reason_value RR_EvidenceStale = 8"
| "reject_reason_value RR_EvidenceNotAuthoritative = 9"
| "reject_reason_value RR_ResourceRetired = 10"
| "reject_reason_value RR_TopologyMismatch = 11"
| "reject_reason_value RR_ModelMismatch = 12"
| "reject_reason_value RR_ModelVersionMismatch = 13"
| "reject_reason_value RR_ModelNotResident = 14"
| "reject_reason_value RR_SimulatorMismatch = 15"
| "reject_reason_value RR_SimulatorNotReady = 16"
| "reject_reason_value RR_DatasetMismatch = 17"
| "reject_reason_value RR_DatasetVersionMismatch = 18"
| "reject_reason_value RR_EnvironmentMismatch = 19"
| "reject_reason_value RR_EnvironmentDigestMismatch = 20"
| "reject_reason_value RR_EnvironmentNotReady = 21"
| "reject_reason_value RR_AcceleratorMismatch = 22"
| "reject_reason_value RR_ExclusivityConflict = 23"
| "reject_reason_value RR_ReservationConflict = 24"
| "reject_reason_value RR_TenantViolation = 25"
| "reject_reason_value RR_AllowlistExcluded = 26"
| "reject_reason_value RR_DenylistExcluded = 27"
| "reject_reason_value RR_AffinityViolation = 28"
| "reject_reason_value RR_AntiAffinityViolation = 29"
| "reject_reason_value RR_AlreadySelected = 30"
| "reject_reason_value RR_Unsupported = 31"
| "reject_reason_value RR_WorkerIncarnationStale = 32"
| "reject_reason_value RR_ShuttingDown = 33"

lemma reject_reason_value_inj: "reject_reason_value x = reject_reason_value y \<Longrightarrow> x = y"
  by (cases x; cases y) simp_all

instantiation reject_reason :: linorder
begin

definition less_eq_reject_reason :: "reject_reason \<Rightarrow> reject_reason \<Rightarrow> bool" where
  "less_eq_reject_reason x y = (reject_reason_value x \<le> reject_reason_value y)"

definition less_reject_reason :: "reject_reason \<Rightarrow> reject_reason \<Rightarrow> bool" where
  "less_reject_reason x y = (reject_reason_value x < reject_reason_value y)"

instance
  by standard (auto simp: less_eq_reject_reason_def less_reject_reason_def
      dest: reject_reason_value_inj)

end

section \<open>Status and Result\<close>

datatype status = Status (st_code: error_code) (st_message: string)

definition ok_status :: status where
  "ok_status = Status E_Ok []"

definition error_status :: "error_code \<Rightarrow> string \<Rightarrow> status" where
  "error_status c msg = Status c msg"

definition status_ok :: "status \<Rightarrow> bool" where
  "status_ok s = (st_code s = E_Ok)"

definition status_to_string :: "status \<Rightarrow> string" where
  "status_to_string s = error_code_name (st_code s) @
     (if st_message s = [] then [] else '': '' @ st_message s)"

type_synonym 'a result = "status + 'a"

text \<open>
  The idiom \<open>status = f(); if (!status.ok()) return status;\<close> followed by the rest of the body.
\<close>

definition check_then :: "status \<Rightarrow> status \<Rightarrow> status" where
  "check_then s k = (if status_ok s then k else s)"

fun check_all :: "status list \<Rightarrow> status" where
  "check_all [] = ok_status"
| "check_all (s # ss) = check_then s (check_all ss)"

definition fail_if :: "bool \<Rightarrow> error_code \<Rightarrow> string \<Rightarrow> status" where
  "fail_if b c msg = (if b then Status c msg else ok_status)"

lemma status_ok_simps [simp]:
  "status_ok ok_status"
  "status_ok (Status c m) = (c = E_Ok)"
  by (simp_all add: status_ok_def ok_status_def)

lemma status_ok_check_then [simp]:
  "status_ok (check_then s k) = (status_ok s \<and> status_ok k)"
  by (simp add: check_then_def)

lemma status_ok_check_all [simp]: "status_ok (check_all ss) = list_all status_ok ss"
  by (induction ss) simp_all

lemma status_ok_fail_if [simp]: "status_ok (fail_if b c m) = (b \<longrightarrow> c = E_Ok)"
  by (simp add: fail_if_def)

text \<open>A failing sequence of checks returns the status of its first failing check.\<close>

lemma check_all_first_failure:
  "\<not> status_ok (check_all ss) \<Longrightarrow>
     \<exists>pre s post. ss = pre @ s # post \<and> list_all status_ok pre \<and> \<not> status_ok s \<and> check_all ss = s"
proof (induction ss)
  case (Cons s ss)
  show ?case
  proof (cases "status_ok s")
    case True
    with Cons obtain pre t post where "ss = pre @ t # post" "list_all status_ok pre"
      "\<not> status_ok t" "check_all ss = t" by auto
    with True have "s # ss = (s # pre) @ t # post \<and> list_all status_ok (s # pre) \<and>
        \<not> status_ok t \<and> check_all (s # ss) = t"
      by (simp add: check_then_def)
    then show ?thesis by blast
  next
    case False
    then have "s # ss = [] @ s # ss \<and> list_all status_ok [] \<and> \<not> status_ok s \<and>
        check_all (s # ss) = s"
      by (simp add: check_then_def)
    then show ?thesis by blast
  qed
qed simp

end
