(* ===== verification/Canonical.thy ===== *)
theory Canonical
  imports Prelude
begin

unbundle bit_operations_syntax

text \<open>
  \<open>canonical.hpp\<close> and \<open>canonical.cpp\<close>: FNV-1a hashing, the 64-bit mixer, fixed width hexadecimal
  text and canonical decimal text. Bytes are \<open>u8\<close>, hash values and parsed numbers \<open>u64\<close>, so
  multiplication and addition wrap as in the code; \<open>int64_t\<close> values are integers.
\<close>

section \<open>Hashing\<close>

definition kFnvOffsetBasis :: u64 where "kFnvOffsetBasis = 0xcbf29ce484222325"
definition kFnvPrime :: u64 where "kFnvPrime = 0x100000001b3"

fun fnv1a64_continue :: "u64 \<Rightarrow> u8 list \<Rightarrow> u64" where
  "fnv1a64_continue hash [] = hash"
| "fnv1a64_continue hash (b # bs) = fnv1a64_continue ((hash XOR ucast b) * kFnvPrime) bs"

definition fnv1a64 :: "u8 list \<Rightarrow> u64" where
  "fnv1a64 bytes = fnv1a64_continue kFnvOffsetBasis bytes"

definition byte_of_char :: "char \<Rightarrow> u8" where
  "byte_of_char c = of_char c"

definition char_of_byte :: "u8 \<Rightarrow> char" where
  "char_of_byte b = char_of (unat b)"

definition text_bytes :: "string \<Rightarrow> u8 list" where
  "text_bytes t = map byte_of_char t"

definition fnv1a64_text :: "string \<Rightarrow> u64" where
  "fnv1a64_text t = fnv1a64_continue kFnvOffsetBasis (text_bytes t)"

lemma odd_cancel:
  fixes x y p q :: "'a::len word"
  assumes "p * q = 1" and "x * p = y * p"
  shows "x = y"
proof -
  have "x * p * q = y * p * q" using assms(2) by simp
  then show ?thesis using assms(1) by (simp add: mult.assoc)
qed

lemma xor_cancel: "x XOR a = y XOR a \<Longrightarrow> x = y" for x y a :: "'a::len word"
  by (metis xor.assoc xor_self_eq xor.right_neutral)

lemma xor_cancel_left: "a XOR x = a XOR y \<Longrightarrow> x = y" for x y a :: "'a::len word"
  by (metis xor.commute xor_cancel)

definition mix64 :: "u64 \<Rightarrow> u64" where
  "mix64 value =
     (let v1 = value + 0x9e3779b97f4a7c15;
          v2 = (v1 XOR drop_bit 30 v1) * 0xbf58476d1ce4e5b9;
          v3 = (v2 XOR drop_bit 27 v2) * 0x94d049bb133111eb
      in v3 XOR drop_bit 31 v3)"

lemma fnv1a64_continue_append:
  "fnv1a64_continue h (xs @ ys) = fnv1a64_continue (fnv1a64_continue h xs) ys"
  by (induction h xs rule: fnv1a64_continue.induct) simp_all

section \<open>Hexadecimal text\<close>

definition kHexDigits :: string where "kHexDigits = ''0123456789abcdef''"

definition hex_value :: "char \<Rightarrow> int" where
  "hex_value c =
     (let n = int (of_char c) in
      if 48 \<le> n \<and> n \<le> 57 then n - 48
      else if 97 \<le> n \<and> n \<le> 102 then n - 97 + 10
      else -1)"

definition hex_digit :: "u64 \<Rightarrow> char" where
  "hex_digit nibble = kHexDigits ! unat (nibble AND 15)"

definition hex_u64 :: "u64 \<Rightarrow> nat \<Rightarrow> string" where
  "hex_u64 value width = map (\<lambda>i. hex_digit (drop_bit ((width - 1 - i) * 4) value)) [0..<width]"

fun hex_decode_loop :: "u64 \<Rightarrow> string \<Rightarrow> u64 option" where
  "hex_decode_loop value [] = Some value"
| "hex_decode_loop value (c # cs) =
     (let digit = hex_value c in
      if digit < 0 then None
      else hex_decode_loop (push_bit 4 value OR word_of_int digit) cs)"

definition hex_u64_decode :: "string \<Rightarrow> nat \<Rightarrow> u64 option" where
  "hex_u64_decode text width = (if length text \<noteq> width then None else hex_decode_loop 0 text)"

definition is_lower_hex :: "string \<Rightarrow> bool" where
  "is_lower_hex text = (text \<noteq> [] \<and> list_all (\<lambda>c. \<not> hex_value c < 0) text)"

section \<open>ASCII case\<close>

definition lower_char :: "char \<Rightarrow> char" where
  "lower_char c =
     (let n = (of_char c :: nat) in if 65 \<le> n \<and> n \<le> 90 then char_of (n - 65 + 97) else c)"

definition to_lower_ascii :: "string \<Rightarrow> string" where
  "to_lower_ascii text = map lower_char text"

fun equals_ascii_loop :: "string \<Rightarrow> string \<Rightarrow> bool" where
  "equals_ascii_loop (a # as) (b # bs) =
     (if lower_char a \<noteq> lower_char b then False else equals_ascii_loop as bs)"
| "equals_ascii_loop as bs = True"

definition equals_ascii_case_insensitive :: "string \<Rightarrow> string \<Rightarrow> bool" where
  "equals_ascii_case_insensitive a b =
     (if length a \<noteq> length b then False else equals_ascii_loop a b)"

lemma equals_ascii_iff: "equals_ascii_case_insensitive a b = (to_lower_ascii a = to_lower_ascii b)"
proof -
  have "length a = length b \<Longrightarrow> equals_ascii_loop a b = (map lower_char a = map lower_char b)"
    by (induction a b rule: list_induct2) auto
  then show ?thesis
    by (auto simp: equals_ascii_case_insensitive_def to_lower_ascii_def dest: map_eq_imp_length_eq)
qed

section \<open>Decimal text\<close>

definition decimal_digit :: "u64 \<Rightarrow> char" where
  "decimal_digit d = char_of (48 + unat d)"

function decimal_loop :: "u64 \<Rightarrow> string" where
  "decimal_loop value =
     (if value = 0 then [] else decimal_loop (value div 10) @ [decimal_digit (value mod 10)])"
  by pat_completeness auto
termination
proof (relation "measure unat")
  fix v :: u64
  assume "v \<noteq> 0"
  then have "0 < unat v" by (simp add: unat_gt_0)
  then show "(v div 10, v) \<in> measure unat" by (simp add: unat_div)
qed simp

declare decimal_loop.simps [simp del]

definition decimal_u64 :: "u64 \<Rightarrow> string" where
  "decimal_u64 value = (if value = 0 then ''0'' else decimal_loop value)"

definition decimal_i64 :: "int \<Rightarrow> string" where
  "decimal_i64 value =
     (if value < 0 then ''-'' @ decimal_u64 (word_of_int (- (value + 1)) + 1)
      else decimal_u64 (word_of_int value))"

definition digit_value :: "char \<Rightarrow> u64" where
  "digit_value c = word_of_nat (of_char c - 48)"

fun parse_decimal_loop :: "u64 \<Rightarrow> string \<Rightarrow> u64 option" where
  "parse_decimal_loop value [] = Some value"
| "parse_decimal_loop value (c # cs) =
     (if (of_char c :: nat) < 48 \<or> 57 < (of_char c :: nat) then None
      else let digit = digit_value c in
        if (- 1 - digit) div 10 < value then None
        else parse_decimal_loop (value * 10 + digit) cs)"

definition parse_decimal_u64 :: "string \<Rightarrow> u64 option" where
  "parse_decimal_u64 text =
     (if text = [] \<or> 20 < length text then None
      else if 1 < length text \<and> hd text = CHR ''0'' then None
      else parse_decimal_loop 0 text)"

definition parse_decimal_u32 :: "string \<Rightarrow> u32 option" where
  "parse_decimal_u32 text =
     (case parse_decimal_u64 text of None \<Rightarrow> None
      | Some wide \<Rightarrow> if 0xffffffff < wide then None else Some (ucast wide))"

definition parse_decimal_i64 :: "string \<Rightarrow> int option" where
  "parse_decimal_i64 text =
     (if text = [] then None
      else let negative = (hd text = CHR ''-'');
               digits = (if negative then tl text else text)
      in case parse_decimal_u64 digits of
           None \<Rightarrow> None
         | Some magnitude \<Rightarrow>
             if negative then
               (if 0x8000000000000000 < magnitude then None
                else if magnitude = 0x8000000000000000 then Some (- (2 ^ 63))
                else Some (- uint magnitude))
             else (if 0x7fffffffffffffff < magnitude then None else Some (uint magnitude)))"

section \<open>Hexadecimal round trip\<close>

lemma word_nibble_split: "push_bit 4 (drop_bit 4 w) OR (w AND 15) = w" for w :: u64
proof -
  have m: "(15 :: u64) = mask 4" by (simp add: mask_eq_exp_minus_1)
  show ?thesis unfolding m by (rule bit_word_eqI) (auto simp: bit_simps)
qed

lemma nibble_lt: "unat (w AND 15) < 16" for w :: u64
proof -
  have "w AND 15 \<le> 15" by (rule word_and_le1)
  then have "unat (w AND 15) \<le> unat (15 :: u64)" by (simp only: word_le_nat_alt)
  then show ?thesis by simp
qed

lemma hex_value_digit: "hex_value (hex_digit w) = int (unat (w AND 15))"
proof -
  have "\<forall>n\<in>set [0..<16]. hex_value (kHexDigits ! n) = int n" by code_simp
  with nibble_lt [of w] show ?thesis by (simp add: hex_digit_def)
qed

lemma hex_decode_loop_digit:
  "hex_decode_loop v (hex_digit w # cs) = hex_decode_loop (push_bit 4 v OR (w AND 15)) cs"
  by (simp add: hex_value_digit Let_def)

lemma hex_decode_loop_append:
  "hex_decode_loop v (xs @ ys) =
     (case hex_decode_loop v xs of None \<Rightarrow> None | Some w \<Rightarrow> hex_decode_loop w ys)"
  by (induction v xs rule: hex_decode_loop.induct) (simp_all add: Let_def)

lemma hex_u64_Suc: "hex_u64 v (Suc n) = hex_u64 (drop_bit 4 v) n @ [hex_digit v]"
proof -
  have "hex_digit (drop_bit ((Suc n - 1 - i) * 4) v) =
      hex_digit (drop_bit ((n - 1 - i) * 4) (drop_bit 4 v))" if "i < n" for i
  proof -
    have "(Suc n - 1 - i) * 4 = (n - 1 - i) * 4 + 4" using that by simp
    then show ?thesis by (simp add: drop_bit_drop_bit add.commute)
  qed
  then show ?thesis by (simp add: hex_u64_def)
qed

lemma length_hex_u64 [simp]: "length (hex_u64 v n) = n"
  by (simp add: hex_u64_def)

lemma hex_decode_hex: "drop_bit (4 * n) v = 0 \<Longrightarrow> hex_decode_loop 0 (hex_u64 v n) = Some v"
proof (induction n arbitrary: v)
  case 0
  then show ?case by (simp add: hex_u64_def)
next
  case (Suc n)
  from Suc.prems have "drop_bit (4 * n) (drop_bit 4 v) = 0"
    by (simp add: drop_bit_drop_bit add.commute)
  with Suc.IH have "hex_decode_loop 0 (hex_u64 (drop_bit 4 v) n) = Some (drop_bit 4 v)" .
  then show ?case
    by (simp add: hex_u64_Suc hex_decode_loop_append hex_decode_loop_digit word_nibble_split
        del: hex_decode_loop.simps(2))
qed

lemma hex_u64_decode_encode: "hex_u64_decode (hex_u64 v 16) 16 = Some v"
proof -
  have "drop_bit (4 * 16) v = 0" by (rule bit_word_eqI) (simp add: bit_simps)
  from hex_decode_hex [OF this] show ?thesis by (simp add: hex_u64_decode_def)
qed

lemma hex_char_cases: "\<not> hex_value c < 0 \<Longrightarrow> \<exists>n<16. hex_value c = int n \<and> c = kHexDigits ! n"
proof -
  assume nn: "\<not> hex_value c < 0"
  let ?m = "of_char c :: nat"
  have c: "c = char_of ?m" by simp
  have d: "\<forall>m\<in>set [0..<10]. char_of (48 + m :: nat) = kHexDigits ! m" by code_simp
  have l: "\<forall>m\<in>set [0..<6]. char_of (97 + m :: nat) = kHexDigits ! (10 + m)" by code_simp
  from nn consider "48 \<le> ?m \<and> ?m \<le> 57" | "97 \<le> ?m \<and> ?m \<le> 102"
    by (auto simp: hex_value_def Let_def split: if_splits)
  then show ?thesis
  proof cases
    case 1
    define k where "k = ?m - 48"
    from 1 have k: "?m = 48 + k" "k < 10" unfolding k_def by linarith+
    from d k(2) have "char_of (48 + k :: nat) = kHexDigits ! k" by simp
    with k(1) c have "c = kHexDigits ! k" by metis
    moreover from k have "hex_value c = int k" by (simp add: hex_value_def Let_def)
    ultimately show ?thesis using k(2) by (intro exI [of _ k]) simp
  next
    case 2
    define k where "k = ?m - 97"
    from 2 have k: "?m = 97 + k" "k < 6" unfolding k_def by linarith+
    from l k(2) have "char_of (97 + k :: nat) = kHexDigits ! (10 + k)" by simp
    with k(1) c have "c = kHexDigits ! (10 + k)" by metis
    moreover from k have "hex_value c = int (10 + k)" by (simp add: hex_value_def Let_def)
    ultimately show ?thesis using k(2) by (intro exI [of _ "10 + k"]) simp
  qed
qed

lemma hex_decode_inverse:
  "hex_decode_loop 0 t = Some v \<Longrightarrow> length t \<le> 16 \<Longrightarrow> hex_u64 v (length t) = t \<and> drop_bit (4 * length t) v = 0"
proof (induction t arbitrary: v rule: rev_induct)
  case Nil
  then show ?case by (simp add: hex_u64_def)
next
  case (snoc c t)
  from snoc.prems obtain u where u: "hex_decode_loop 0 t = Some u"
    and nn: "\<not> hex_value c < 0" and v: "v = push_bit 4 u OR word_of_int (hex_value c)"
    by (auto simp: hex_decode_loop_append Let_def split: option.splits if_splits)
  from snoc.IH [OF u] snoc.prems have ih: "hex_u64 u (length t) = t" "drop_bit (4 * length t) u = 0"
    by simp_all
  from hex_char_cases [OF nn] obtain n where n: "n < 16" "hex_value c = int n" "c = kHexDigits ! n"
    by blast
  have m: "(15 :: u64) = mask 4" by (simp add: mask_eq_exp_minus_1)
  have w: "(word_of_int (int n) :: u64) = take_bit 4 (word_of_nat n)"
    using n(1) by (simp add: take_bit_of_nat take_bit_nat_eq_self)
  have un: "unat (take_bit 4 (word_of_nat n :: u64)) = n"
    using n(1) by (simp add: unsigned_take_bit_eq take_bit_of_nat unat_of_nat take_bit_nat_eq_self)
  have low: "v AND 15 = take_bit 4 (word_of_nat n)"
    unfolding v n(2) w m by (auto intro!: bit_word_eqI simp: bit_simps)
  have tl4: "4 * length t + 4 \<le> 64" using snoc.prems(2) by simp
  have top: "\<not> bit u i" if "4 * length t \<le> i" for i
  proof -
    from ih(2) have "\<not> bit (drop_bit (4 * length t) u) (i - 4 * length t)" by simp
    with that show ?thesis by (simp add: bit_simps)
  qed
  have u60: "bit u i \<Longrightarrow> i < 60" for i
  proof -
    assume "bit u i"
    with top [of i] have "i < 4 * length t" by (meson linorder_not_le)
    with tl4 show "i < 60" by simp
  qed
  have high: "drop_bit 4 v = u"
    unfolding v n(2) w using u60 by (auto intro!: bit_word_eqI simp: bit_simps)
  have "hex_digit v = c" using un n(3) by (simp add: hex_digit_def low)
  moreover have "drop_bit (4 * length (t @ [c])) v = drop_bit (4 * length t) (drop_bit 4 v)"
    by (simp add: drop_bit_drop_bit add.commute)
  ultimately show ?case using ih high by (simp add: hex_u64_Suc)
qed

lemma hex_u64_encode_decode: "hex_u64_decode t 16 = Some v \<Longrightarrow> hex_u64 v 16 = t"
  using hex_decode_inverse [of t v] by (auto simp: hex_u64_decode_def split: if_splits)

section \<open>Decimal round trip\<close>

lemma of_char_decimal_digit: "unat d < 10 \<Longrightarrow> (of_char (decimal_digit d) :: nat) = 48 + unat d"
  by (simp add: decimal_digit_def)

lemma digit_value_decimal_digit: "unat d < 10 \<Longrightarrow> digit_value (decimal_digit d) = d"
  by (simp add: digit_value_def of_char_decimal_digit)

lemma unat_mod10: "unat (v mod 10 :: u64) < 10"
  by (simp add: unat_mod)

lemma parse_decimal_loop_append:
  "parse_decimal_loop v (xs @ ys) =
     (case parse_decimal_loop v xs of None \<Rightarrow> None | Some w \<Rightarrow> parse_decimal_loop w ys)"
  by (induction v xs rule: parse_decimal_loop.induct) (simp_all add: Let_def)

text \<open>The overflow test admits exactly the values whose next step stays below \<open>2 ^ 64\<close>.\<close>

lemma overflow_test:
  fixes v d :: u64
  assumes "unat d < 10"
  shows "((- 1 - d) div 10 < v) = (2 ^ 64 \<le> unat v * 10 + unat d)"
proof -
  have le: "d \<le> - 1" by simp
  have m: "unat (- 1 :: u64) = 2 ^ 64 - 1" by (simp add: unsigned_minus_1_eq_mask mask_eq_exp_minus_1)
  have "unat ((- 1 - d) div 10) = (2 ^ 64 - 1 - unat d) div 10"
    by (simp only: unat_div unat_sub [OF le] m) simp
  then show ?thesis using assms by (simp add: word_less_nat_alt) linarith
qed

lemma no_overflow_value:
  fixes v d :: u64
  assumes "unat v * 10 + unat d < 2 ^ 64"
  shows "unat (v * 10 + d) = unat v * 10 + unat d"
  using assms by (simp add: unat_word_ariths)

lemma parse_decimal_step:
  fixes v :: u64
  shows "parse_decimal_loop (v div 10) [decimal_digit (v mod 10)] = Some v"
proof -
  have eq: "unat (v div 10) * 10 + unat (v mod 10) = unat v"
    by (simp add: unat_div unat_mod)
  have lt: "unat (v div 10) * 10 + unat (v mod 10) < 2 ^ 64"
    unfolding eq by (rule order_less_le_trans [OF unsigned_less]) simp
  have "v div 10 * 10 + v mod 10 = v" by (simp only: word_unat_eq_iff no_overflow_value [OF lt] eq)
  then show ?thesis
    using lt overflow_test [OF unat_mod10, of v "v div 10"] unat_mod10 [of v]
    by (simp add: of_char_decimal_digit digit_value_decimal_digit Let_def)
qed

lemma parse_decimal_loop_print: "parse_decimal_loop 0 (decimal_loop v) = Some v"
proof (induction v rule: decimal_loop.induct)
  case (1 v)
  show ?case
  proof (cases "v = 0")
    case True
    then show ?thesis by (simp add: decimal_loop.simps [of 0])
  next
    case False
    with 1 have "parse_decimal_loop 0 (decimal_loop (v div 10)) = Some (v div 10)" by simp
    with False show ?thesis
      by (simp only: decimal_loop.simps [of v] if_False parse_decimal_loop_append option.case
          parse_decimal_step)
  qed
qed

lemma decimal_loop_head: "v \<noteq> 0 \<Longrightarrow> decimal_loop v \<noteq> [] \<and> hd (decimal_loop v) \<noteq> CHR ''0''"
proof (induction v rule: decimal_loop.induct)
  case (1 v)
  show ?case
  proof (cases "v div 10 = 0")
    case True
    then have "unat (v div 10) = 0" by simp
    then have "unat v < 10" by (simp add: unat_div div_eq_0_iff)
    then have "v mod 10 = v" by (simp add: word_less_nat_alt mod_word_less)
    with \<open>unat v < 10\<close> 1 True have "(of_char (decimal_digit (v mod 10)) :: nat) \<noteq> 48"
      by (simp add: of_char_decimal_digit unat_eq_0_iff)
    then have "decimal_digit (v mod 10) \<noteq> CHR ''0''" by auto
    with True 1 show ?thesis by (simp add: decimal_loop.simps [of v] decimal_loop.simps [of 0])
  next
    case False
    with 1 show ?thesis by (simp add: decimal_loop.simps [of v])
  qed
qed

lemma decimal_loop_length: "unat v < 10 ^ n \<Longrightarrow> length (decimal_loop v) \<le> n"
proof (induction n arbitrary: v)
  case 0
  then have "v = 0" by (simp add: unat_eq_0_iff)
  then show ?case by (simp add: decimal_loop.simps [of 0])
next
  case (Suc n)
  then have "unat (v div 10) < 10 ^ n" by (simp add: unat_div)
  with Suc.IH [of "v div 10"] show ?case by (simp add: decimal_loop.simps [of v])
qed

lemma parse_decimal_u64_print: "parse_decimal_u64 (decimal_u64 v) = Some v"
proof (cases "v = 0")
  case True
  then show ?thesis
    by (simp add: parse_decimal_u64_def decimal_u64_def digit_value_def Let_def)
next
  case False
  have "unat v < 10 ^ 20" by (rule order_less_le_trans [OF unsigned_less]) simp
  then have "length (decimal_loop v) \<le> 20" by (rule decimal_loop_length)
  with False decimal_loop_head [OF False] parse_decimal_loop_print [of v] show ?thesis
    by (simp add: parse_decimal_u64_def decimal_u64_def)
qed

lemma parse_decimal_loop_inverse:
  "parse_decimal_loop 0 t = Some v \<Longrightarrow> (t \<noteq> [] \<Longrightarrow> hd t \<noteq> CHR ''0'') \<Longrightarrow>
     decimal_loop v = t \<and> (t \<noteq> [] \<longrightarrow> v \<noteq> 0)"
proof (induction t arbitrary: v rule: rev_induct)
  case Nil
  then show ?case by (simp add: decimal_loop.simps [of 0])
next
  case (snoc c t)
  from snoc.prems(1) obtain u where u: "parse_decimal_loop 0 t = Some u"
    and rng: "48 \<le> (of_char c :: nat)" "(of_char c :: nat) \<le> 57"
    and nov: "\<not> (- 1 - digit_value c) div 10 < u" and v: "v = u * 10 + digit_value c"
    by (auto simp: parse_decimal_loop_append Let_def split: option.splits if_splits)
  have d: "unat (digit_value c) = of_char c - 48"
    using rng(2) by (simp add: digit_value_def unat_of_nat)
  with rng have d10: "unat (digit_value c) < 10" by simp
  from nov overflow_test [OF d10, of u] have lt: "unat u * 10 + unat (digit_value c) < 2 ^ 64" by simp
  have uv: "unat v = unat u * 10 + unat (digit_value c)"
    unfolding v by (rule no_overflow_value [OF lt])
  have dm: "v div 10 = u" "v mod 10 = digit_value c"
    using uv d10 by (simp_all add: word_unat_eq_iff unat_div unat_mod)
  have dig: "decimal_digit (digit_value c) = c"
    using d rng by (simp add: decimal_digit_def)
  have nz: "v \<noteq> 0"
  proof (cases t)
    case Nil
    with u have "u = 0" by simp
    with snoc.prems(2) Nil have "c \<noteq> CHR ''0''" by simp
    then have "(of_char c :: nat) \<noteq> of_char (CHR ''0'')" by (simp only: of_char_eq_iff) simp
    then have "(of_char c :: nat) \<noteq> 48" by simp
    with uv d rng show ?thesis by auto
  next
    case (Cons a as)
    with snoc.prems(2) snoc.IH [OF u] have "u \<noteq> 0" by simp
    then have "0 < unat u" by (simp add: unat_gt_0)
    with uv show ?thesis by auto
  qed
  from snoc.IH [OF u] snoc.prems(2) have "decimal_loop u = t" by (cases t) simp_all
  with nz dm dig show ?case by (simp add: decimal_loop.simps [of v])
qed

lemma parse_decimal_u64_canonical:
  assumes "parse_decimal_u64 t = Some v"
  shows "decimal_u64 v = t"
proof (cases "t = ''0''")
  case True
  with assms show ?thesis
    by (simp add: parse_decimal_u64_def decimal_u64_def digit_value_def Let_def)
next
  case False
  from assms have loop: "parse_decimal_loop 0 t = Some v" and ne: "t \<noteq> []"
    and hd: "1 < length t \<Longrightarrow> hd t \<noteq> CHR ''0''"
    by (auto simp: parse_decimal_u64_def split: if_splits)
  have "hd t \<noteq> CHR ''0''"
  proof (cases "1 < length t")
    case True
    then show ?thesis by (rule hd)
  next
    case short: False
    with ne obtain c where "t = [c]" by (cases t) auto
    with False show ?thesis by simp
  qed
  with parse_decimal_loop_inverse [OF loop] ne show ?thesis by (simp add: decimal_u64_def)
qed

end
