(* ===== verification/Identity.thy ===== *)
theory Identity
  imports Errors Canonical
begin

text \<open>
  \<open>identity.hpp\<close>, \<open>identity.cpp\<close> and \<open>limits.hpp\<close>. An identity is a 64-bit value; the tag of
  \<open>StrongId<Tag>\<close> is the type synonym a value is used at and, where the text form matters, a
  constructor of \<open>id_kind\<close>. What the process entropy token is mixed from is an input of the model.
\<close>

section \<open>Strong identities\<close>

datatype id_kind =
    K_ScheduleRequestId
  | K_ExperimentId
  | K_ExperimentGeneration
  | K_TrialId
  | K_DecisionId
  | K_PlacementId
  | K_PlacementGeneration
  | K_CoordinatorEpoch
  | K_ResourceId
  | K_ResourceGeneration
  | K_AcceleratorId
  | K_ModelResourceId
  | K_SimulatorId
  | K_DatasetId
  | K_DatasetVersionId
  | K_EnvironmentId
  | K_PhysicalEnvironmentId
  | K_VirtualEnvironmentId
  | K_CapabilityId
  | K_TopologyDomainId
  | K_HealthGeneration
  | K_CapacityGeneration
  | K_WorkerId
  | K_WorkerBootId
  | K_ReservationId
  | K_LeaseId

type_synonym schedule_request_id = u64
type_synonym experiment_id = u64
type_synonym experiment_generation = u64
type_synonym trial_id = u64
type_synonym decision_id = u64
type_synonym placement_id = u64
type_synonym placement_generation = u64
type_synonym coordinator_epoch = u64
type_synonym resource_id = u64
type_synonym resource_generation = u64
type_synonym accelerator_id = u64
type_synonym model_resource_id = u64
type_synonym simulator_id = u64
type_synonym dataset_id = u64
type_synonym dataset_version_id = u64
type_synonym environment_id = u64
type_synonym physical_environment_id = u64
type_synonym virtual_environment_id = u64
type_synonym capability_id = u64
type_synonym topology_domain_id = u64
type_synonym health_generation = u64
type_synonym capacity_generation = u64
type_synonym worker_id = u64
type_synonym worker_boot_id = u64
type_synonym reservation_id = u64
type_synonym lease_id = u64

primrec id_prefix :: "id_kind \<Rightarrow> string" where
  "id_prefix K_ScheduleRequestId = ''sreq''"
| "id_prefix K_ExperimentId = ''exp''"
| "id_prefix K_ExperimentGeneration = ''expg''"
| "id_prefix K_TrialId = ''trial''"
| "id_prefix K_DecisionId = ''dec''"
| "id_prefix K_PlacementId = ''plc''"
| "id_prefix K_PlacementGeneration = ''plcg''"
| "id_prefix K_CoordinatorEpoch = ''epoch''"
| "id_prefix K_ResourceId = ''res''"
| "id_prefix K_ResourceGeneration = ''resg''"
| "id_prefix K_AcceleratorId = ''acc''"
| "id_prefix K_ModelResourceId = ''mdl''"
| "id_prefix K_SimulatorId = ''sim''"
| "id_prefix K_DatasetId = ''ds''"
| "id_prefix K_DatasetVersionId = ''dsv''"
| "id_prefix K_EnvironmentId = ''env''"
| "id_prefix K_PhysicalEnvironmentId = ''phys''"
| "id_prefix K_VirtualEnvironmentId = ''virt''"
| "id_prefix K_CapabilityId = ''cap''"
| "id_prefix K_TopologyDomainId = ''topo''"
| "id_prefix K_HealthGeneration = ''hgen''"
| "id_prefix K_CapacityGeneration = ''cgen''"
| "id_prefix K_WorkerId = ''wrk''"
| "id_prefix K_WorkerBootId = ''boot''"
| "id_prefix K_ReservationId = ''rsv''"
| "id_prefix K_LeaseId = ''lease''"

primrec id_type_name :: "id_kind \<Rightarrow> string" where
  "id_type_name K_ScheduleRequestId = ''ScheduleRequestId''"
| "id_type_name K_ExperimentId = ''ExperimentId''"
| "id_type_name K_ExperimentGeneration = ''ExperimentGeneration''"
| "id_type_name K_TrialId = ''TrialId''"
| "id_type_name K_DecisionId = ''DecisionId''"
| "id_type_name K_PlacementId = ''PlacementId''"
| "id_type_name K_PlacementGeneration = ''PlacementGeneration''"
| "id_type_name K_CoordinatorEpoch = ''CoordinatorEpoch''"
| "id_type_name K_ResourceId = ''ResourceId''"
| "id_type_name K_ResourceGeneration = ''ResourceGeneration''"
| "id_type_name K_AcceleratorId = ''AcceleratorId''"
| "id_type_name K_ModelResourceId = ''ModelResourceId''"
| "id_type_name K_SimulatorId = ''SimulatorId''"
| "id_type_name K_DatasetId = ''DatasetId''"
| "id_type_name K_DatasetVersionId = ''DatasetVersionId''"
| "id_type_name K_EnvironmentId = ''EnvironmentId''"
| "id_type_name K_PhysicalEnvironmentId = ''PhysicalEnvironmentId''"
| "id_type_name K_VirtualEnvironmentId = ''VirtualEnvironmentId''"
| "id_type_name K_CapabilityId = ''CapabilityId''"
| "id_type_name K_TopologyDomainId = ''TopologyDomainId''"
| "id_type_name K_HealthGeneration = ''HealthGeneration''"
| "id_type_name K_CapacityGeneration = ''CapacityGeneration''"
| "id_type_name K_WorkerId = ''WorkerId''"
| "id_type_name K_WorkerBootId = ''WorkerBootId''"
| "id_type_name K_ReservationId = ''ReservationId''"
| "id_type_name K_LeaseId = ''LeaseId''"

definition id_to_string :: "id_kind \<Rightarrow> u64 \<Rightarrow> string" where
  "id_to_string k v = id_prefix k @ ''-'' @ hex_u64 v 16"

definition id_parse :: "id_kind \<Rightarrow> string \<Rightarrow> u64 option" where
  "id_parse k text =
     (let prefix = id_prefix k in
      if length text \<noteq> length prefix + 1 + 16 then None
      else if take (length prefix) text \<noteq> prefix then None
      else if text ! length prefix \<noteq> CHR ''-'' then None
      else case hex_u64_decode (drop (length prefix + 1) text) 16 of
          None \<Rightarrow> None
        | Some v \<Rightarrow> if v = 0 then None else Some v)"

definition is_null :: "u64 \<Rightarrow> bool" where
  "is_null v = (v = 0)"

definition id_validate :: "id_kind \<Rightarrow> u64 \<Rightarrow> status" where
  "id_validate k v =
     (if v = 0 then Status E_InvalidIdentity (''null '' @ id_type_name k) else ok_status)"

section \<open>Identity generator\<close>

text \<open>The generator is its counter.\<close>

type_synonym id_generator = u64

definition ids_next :: "id_generator \<Rightarrow> u64 \<times> id_generator" where
  "ids_next counter = (counter + 1, counter + 1)"

definition ids_observe :: "u64 \<Rightarrow> id_generator \<Rightarrow> id_generator" where
  "ids_observe v counter = (if counter < v then v else counter)"

section \<open>Content addressed identities\<close>

definition hash_name :: "string \<Rightarrow> u64" where
  "hash_name name =
     (let lowered = to_lower_ascii name;
          hash = mix64 (fnv1a64_text lowered)
      in if hash = 0 then 1 else hash)"

definition capability_id_from_name :: "string \<Rightarrow> capability_id" where
  "capability_id_from_name name = hash_name name"

definition topology_domain_from_name :: "string \<Rightarrow> topology_domain_id" where
  "topology_domain_from_name name = hash_name name"

definition make_worker_boot_id :: "worker_id \<Rightarrow> u64 \<Rightarrow> u64 \<Rightarrow> worker_boot_id" where
  "make_worker_boot_id worker boot_counter process_token =
     (let v1 = mix64 (worker XOR (boot_counter * 0x9e3779b97f4a7c15));
          v2 = mix64 (v1 XOR process_token)
      in if v2 = 0 then 1 else v2)"

text \<open>
  The process token, computed once per process: \<open>device\<close> is the value of \<open>std::random_device\<close>,
  \<open>now\<close> the steady clock, \<open>thread\<close> the hash of the identity of the thread; the sequence counter is
  one because the token is computed once.
\<close>

definition process_entropy_token :: "u32 \<Rightarrow> u64 \<Rightarrow> u64 \<Rightarrow> u64" where
  "process_entropy_token device now thread =
     (let mixed = mix64 (ucast device) XOR mix64 now XOR mix64 thread XOR mix64 1
      in if mixed = 0 then 1 else mixed)"

text \<open>
  Mixing loses nothing, so the incarnations of a worker under one token differ unless the mix is one
  of the two values that are both mapped to one.
\<close>

lemma xorshift_inj:
  fixes x y :: u64
  assumes "x XOR drop_bit n x = y XOR drop_bit n y" and "0 < n"
  shows "x = y"
proof -
  let ?z = "x XOR y"
  have "?z = drop_bit n x XOR drop_bit n y"
    using arg_cong [OF assms(1), of "\<lambda>v. v XOR drop_bit n x XOR y"] by (simp add: ac_simps)
  also have "\<dots> = drop_bit n ?z" by (simp only: drop_bit_xor)
  finally have "?z = drop_bit n ?z" .
  then have z: "unat ?z = unat ?z div 2 ^ n" by (metis unat_drop_bit_eq drop_bit_eq_div)
  have "unat ?z = 0"
  proof (rule ccontr)
    assume "unat ?z \<noteq> 0"
    then have "unat ?z div 2 ^ n < unat ?z" 
      using one_less_power [of "2 :: nat" n] assms(2) by (intro div_less_dividend) auto
    with z show False by simp
  qed
  then have "?z = 0" by (simp only: unat_eq_0)
  then show ?thesis using xor_cancel [of x y y] by simp
qed

lemma mix64_inj: "mix64 x = mix64 y \<Longrightarrow> x = y"
  unfolding mix64_def Let_def
  by (drule xorshift_inj, simp, drule odd_cancel [where q = "0x319642b2d24d8ec3", rotated], simp,
      drule xorshift_inj, simp, drule odd_cancel [where q = "0x96de1b173f119089", rotated], simp,
      drule xorshift_inj, simp) simp

lemma make_worker_boot_id_distinct:
  assumes "make_worker_boot_id worker counter token = make_worker_boot_id worker counter' token"
    and "make_worker_boot_id worker counter token \<noteq> 1"
  shows "counter = counter'"
proof -
  from assms have "mix64 (mix64 (worker XOR (counter * 0x9e3779b97f4a7c15)) XOR token) =
      mix64 (mix64 (worker XOR (counter' * 0x9e3779b97f4a7c15)) XOR token)"
    by (auto simp: make_worker_boot_id_def Let_def split: if_splits)
  then have "mix64 (worker XOR (counter * 0x9e3779b97f4a7c15)) XOR token =
      mix64 (worker XOR (counter' * 0x9e3779b97f4a7c15)) XOR token" by (rule mix64_inj)
  then have "mix64 (worker XOR (counter * 0x9e3779b97f4a7c15)) = mix64 (worker XOR (counter' * 0x9e3779b97f4a7c15))"
    by (rule xor_cancel)
  then have "worker XOR (counter * 0x9e3779b97f4a7c15) = worker XOR (counter' * 0x9e3779b97f4a7c15)"
    by (rule mix64_inj)
  then have "counter * 0x9e3779b97f4a7c15 = counter' * 0x9e3779b97f4a7c15"
    by (intro xor_cancel [of "counter * 0x9e3779b97f4a7c15" worker]) (simp only: xor.commute)
  then show ?thesis by (rule odd_cancel [where q = "0xf1de83e19937733d", rotated]) simp
qed

lemma make_worker_boot_id_nonzero: "make_worker_boot_id worker counter token \<noteq> 0"
  by (simp add: make_worker_boot_id_def Let_def)

section \<open>Limits\<close>

record limits =
  max_resources :: u32
  max_capabilities_per_resource :: u32
  max_accelerators_per_resource :: u32
  max_local_datasets_per_resource :: u32
  max_resident_models_per_resource :: u32
  max_simulator_scenarios :: u32
  max_retained_requests :: u32
  max_active_requests :: u32
  max_requirements_per_request :: u32
  max_allowlist_entries :: u32
  max_denylist_entries :: u32
  max_anti_affinity_pairs :: u32
  max_affinity_groups :: u32
  max_candidate_resources_per_requirement :: u32
  max_candidates_evaluated :: u32
  max_candidates_ranked :: u32
  max_rejected_entries_per_requirement :: u32
  max_rejection_reasons_per_entry :: u32
  max_ranking_factors :: u32
  max_placements :: u32
  max_active_placements :: u32
  max_reservations :: u32
  max_active_reservations :: u32
  max_placement_history_per_unit :: u32
  max_audit_records :: u32
  max_topology_records :: u32
  max_topology_depth :: u32
  max_string_length :: u32
  max_digest_length :: u32
  max_explanation_entries :: u32
  max_frame_size :: u32
  max_worker_connections :: u32
  max_inflight_assignments :: u32
  max_persistence_records :: u32
  max_persistence_bytes :: u64
  max_placement_commit_attempts :: u32

definition default_limits :: limits where
  "default_limits = \<lparr>
    max_resources = 4096,
    max_capabilities_per_resource = 64,
    max_accelerators_per_resource = 8,
    max_local_datasets_per_resource = 32,
    max_resident_models_per_resource = 32,
    max_simulator_scenarios = 64,
    max_retained_requests = 4096,
    max_active_requests = 1024,
    max_requirements_per_request = 16,
    max_allowlist_entries = 64,
    max_denylist_entries = 64,
    max_anti_affinity_pairs = 16,
    max_affinity_groups = 8,
    max_candidate_resources_per_requirement = 512,
    max_candidates_evaluated = 20000,
    max_candidates_ranked = 256,
    max_rejected_entries_per_requirement = 16,
    max_rejection_reasons_per_entry = 8,
    max_ranking_factors = 16,
    max_placements = 8192,
    max_active_placements = 1024,
    max_reservations = 8192,
    max_active_reservations = 4096,
    max_placement_history_per_unit = 32,
    max_audit_records = 4096,
    max_topology_records = 4096,
    max_topology_depth = 8,
    max_string_length = 256,
    max_digest_length = 128,
    max_explanation_entries = 4096,
    max_frame_size = 1048576,
    max_worker_connections = 64,
    max_inflight_assignments = 256,
    max_persistence_records = 65536,
    max_persistence_bytes = 67108864,
    max_placement_commit_attempts = 4 \<rparr>"

section \<open>Laws\<close>

lemma id_validate_ok [simp]: "status_ok (id_validate k v) = (v \<noteq> 0)"
  by (simp add: id_validate_def)

lemma id_prefix_inj: "id_prefix k = id_prefix k' \<Longrightarrow> k = k'"
  by (cases k; cases k') simp_all

lemma id_parse_to_string:
  assumes "v \<noteq> 0"
  shows "id_parse k (id_to_string k v) = Some v"
  using assms by (simp add: id_parse_def id_to_string_def Let_def hex_u64_decode_encode nth_append)

lemma id_parse_shape:
  assumes "id_parse k t = Some v"
  shows "t = id_prefix k @ CHR ''-'' # drop (length (id_prefix k) + 1) t \<and>
    hex_u64_decode (drop (length (id_prefix k) + 1) t) 16 = Some v \<and> v \<noteq> 0"
proof -
  let ?n = "length (id_prefix k)"
  from assms have len: "length t = ?n + 1 + 16" and pre: "take ?n t = id_prefix k"
    and sep: "t ! ?n = CHR ''-''"
    and dec: "hex_u64_decode (drop (?n + 1) t) 16 = Some v" "v \<noteq> 0"
    by (auto simp: id_parse_def Let_def split: if_splits option.splits)
  have "t = take ?n t @ t ! ?n # drop (Suc ?n) t"
    using len by (intro id_take_nth_drop) simp
  with pre sep dec show ?thesis by simp
qed

lemma id_to_string_parse: "id_parse k t = Some v \<Longrightarrow> id_to_string k v = t \<and> v \<noteq> 0"
  using id_parse_shape [of k t v] hex_u64_encode_decode by (fastforce simp: id_to_string_def)

lemma id_prefix_no_dash: "CHR ''-'' \<notin> set (id_prefix k)"
  by (cases k) simp_all

lemma split_at_sep:
  "xs @ c # us = ys @ c # vs \<Longrightarrow> c \<notin> set xs \<Longrightarrow> c \<notin> set ys \<Longrightarrow> xs = ys \<and> us = vs"
proof (induction xs arbitrary: ys)
  case Nil
  then show ?case by (cases ys) auto
next
  case (Cons x xs)
  then show ?case by (cases ys) auto
qed

lemma id_to_string_inj: "id_to_string k v = id_to_string k' v' \<Longrightarrow> k = k' \<and> v = v'"
proof -
  assume eq: "id_to_string k v = id_to_string k' v'"
  then have "id_prefix k @ CHR ''-'' # hex_u64 v 16 = id_prefix k' @ CHR ''-'' # hex_u64 v' 16"
    by (simp add: id_to_string_def)
  from split_at_sep [OF this id_prefix_no_dash id_prefix_no_dash]
  have "id_prefix k = id_prefix k'" "hex_u64 v 16 = hex_u64 v' 16" by simp_all
  with id_prefix_inj hex_u64_decode_encode show ?thesis by (metis option.inject)
qed

lemma hash_name_nonzero [simp]: "hash_name n \<noteq> 0"
  by (simp add: hash_name_def Let_def)

text \<open>A generated identity is ahead of the counter unless the counter is at its maximum.\<close>

lemma ids_next_fresh:
  "counter \<noteq> - 1 \<Longrightarrow> ids_next counter = (v, c) \<Longrightarrow> counter < v \<and> c = v \<and> v \<noteq> 0"
proof -
  assume a: "counter \<noteq> - 1" and b: "ids_next counter = (v, c)"
  from b have v: "v = 1 + counter" "c = 1 + counter" by (auto simp: ids_next_def)
  from a have ne: "1 + counter \<noteq> 0" by (simp add: add.commute eq_neg_iff_add_eq_0)
  from unatSuc [OF ne] ne v show ?thesis by (simp add: word_less_nat_alt)
qed

lemma ids_observe_ge: "v \<le> ids_observe v c \<and> c \<le> ids_observe v c"
  by (auto simp: ids_observe_def)

end
