(* ===== verification/Capability.thy ===== *)
theory Capability
  imports Identity
begin

text \<open>
  \<open>capability.hpp\<close>, \<open>capability.cpp\<close>, \<open>topology.hpp\<close> and \<open>topology.cpp\<close>: canonical capability
  names, the ordered duplicate-rejecting capability set, and topology evidence with its UNKNOWN
  domains. \<open>std::lower_bound\<close> on the entries is the length of the longest prefix below the key,
  which is its result on every range the class keeps ordered.
\<close>

section \<open>Capability names\<close>

definition canonical_capability_char :: "char \<Rightarrow> bool" where
  "canonical_capability_char c =
     (let n = (of_char c :: nat);
          alpha = (97 \<le> n \<and> n \<le> 122);
          digit = (48 \<le> n \<and> n \<le> 57);
          separator = (c = CHR ''.'' \<or> c = CHR ''_'' \<or> c = CHR ''-'')
      in alpha \<or> digit \<or> separator)"

definition is_canonical_capability_name :: "string \<Rightarrow> bool" where
  "is_canonical_capability_name name =
     (if name = [] \<or> 64 < length name then False
      else list_all canonical_capability_char name)"

definition validate_capability_name :: "string \<Rightarrow> status" where
  "validate_capability_name name =
     (if name = [] then Status E_InvalidArgument ''capability name is empty''
      else if 64 < length name then
        Status E_InvalidArgument ''capability name exceeds 64 characters''
      else if \<not> is_canonical_capability_name name then
        Status E_InvalidArgument (''capability name is not canonical lowercase ascii: '' @ name)
      else ok_status)"

lemma validate_capability_name_ok [simp]:
  "status_ok (validate_capability_name name) = is_canonical_capability_name name"
  by (simp add: validate_capability_name_def is_canonical_capability_name_def)

section \<open>Capability sets\<close>

record capability =
  cap_id :: capability_id
  cap_name :: string

type_synonym capability_set = "capability list"

definition cap_lower_bound :: "capability_set \<Rightarrow> capability_id \<Rightarrow> nat" where
  "cap_lower_bound entries i = length (takeWhile (\<lambda>e. cap_id e < i) entries)"

definition cap_add :: "limits \<Rightarrow> capability \<Rightarrow> capability_set \<Rightarrow> capability_set result" where
  "cap_add lim c entries =
     (if cap_id c = 0 then Inl (Status E_InvalidIdentity ''capability identity is null'')
      else if \<not> status_ok (validate_capability_name (cap_name c)) then
        Inl (validate_capability_name (cap_name c))
      else if capability_id_from_name (cap_name c) \<noteq> cap_id c then
        Inl (Status E_InvalidIdentity
          (''capability identity does not match its canonical name: '' @ cap_name c))
      else if unat (max_capabilities_per_resource lim) \<le> length entries then
        Inl (Status E_LimitExceeded ''capability set exceeds configured maximum'')
      else
        let existing = cap_lower_bound entries (cap_id c) in
        if existing < length entries \<and> cap_id (entries ! existing) = cap_id c then
          Inl (Status E_DuplicateIdentity (''duplicate capability: '' @ cap_name c))
        else Inr (take existing entries @ c # drop existing entries))"

definition cap_add_name :: "limits \<Rightarrow> string \<Rightarrow> capability_set \<Rightarrow> capability_set result" where
  "cap_add_name lim name entries =
     (let status = validate_capability_name name in
      if \<not> status_ok status then Inl status
      else cap_add lim \<lparr>cap_id = capability_id_from_name name, cap_name = name\<rparr> entries)"

definition cap_contains :: "capability_set \<Rightarrow> capability_id \<Rightarrow> bool" where
  "cap_contains entries i =
     (let found = cap_lower_bound entries i
      in found < length entries \<and> cap_id (entries ! found) = i)"

definition cap_contains_all :: "capability_set \<Rightarrow> capability_set \<Rightarrow> bool" where
  "cap_contains_all entries required = list_all (\<lambda>c. cap_contains entries (cap_id c)) required"

definition cap_contains_name :: "capability_set \<Rightarrow> string \<Rightarrow> bool" where
  "cap_contains_name entries name = cap_contains entries (capability_id_from_name name)"

definition cap_names :: "capability_set \<Rightarrow> string list" where
  "cap_names entries = map cap_name entries"

fun cap_validate_loop :: "capability option \<Rightarrow> capability_set \<Rightarrow> status" where
  "cap_validate_loop prev [] = ok_status"
| "cap_validate_loop prev (c # cs) =
     check_then (validate_capability_name (cap_name c))
      (if cap_id c = 0 \<or> capability_id_from_name (cap_name c) \<noteq> cap_id c then
         Status E_InvalidIdentity
           (''capability identity does not match its canonical name: '' @ cap_name c)
       else if (case prev of None \<Rightarrow> False | Some p \<Rightarrow> \<not> cap_id p < cap_id c) then
         Status E_InvalidArgument ''capability set is not canonically ordered''
       else cap_validate_loop (Some c) cs)"

definition cap_validate :: "limits \<Rightarrow> capability_set \<Rightarrow> status" where
  "cap_validate lim entries =
     (if unat (max_capabilities_per_resource lim) < length entries then
        Status E_LimitExceeded ''capability set exceeds configured maximum''
      else cap_validate_loop None entries)"

text \<open>What the class keeps: strictly ascending identities, each the hash of a canonical name.\<close>

definition cap_entry_wf :: "capability \<Rightarrow> bool" where
  "cap_entry_wf c \<longleftrightarrow> is_canonical_capability_name (cap_name c) \<and>
     cap_id c = capability_id_from_name (cap_name c)"

definition cap_set_wf :: "capability_set \<Rightarrow> bool" where
  "cap_set_wf entries \<longleftrightarrow>
     sorted_wrt (<) (map cap_id entries) \<and> (\<forall>c\<in>set entries. cap_entry_wf c)"

lemma capability_id_nonzero [simp]: "capability_id_from_name n \<noteq> 0"
  by (simp add: capability_id_from_name_def)

lemma lower_bound_split:
  fixes f :: "'a \<Rightarrow> 'b::linorder" and k :: 'b
  assumes "sorted_wrt (<) (map f xs)"
  defines "n \<equiv> length (takeWhile (\<lambda>e. f e < k) xs)"
  shows "(\<forall>e\<in>set (take n xs). f e < k) \<and> (\<forall>e\<in>set (drop n xs). k \<le> f e)"
proof -
  have tk: "take n xs = takeWhile (\<lambda>e. f e < k) xs"
    unfolding n_def by (metis takeWhile_eq_take)
  have dr: "drop n xs = dropWhile (\<lambda>e. f e < k) xs"
    unfolding n_def by (metis dropWhile_eq_drop)
  have "\<forall>e\<in>set (dropWhile (\<lambda>e. f e < k) xs). k \<le> f e"
    using assms(1)
  proof (induction xs)
    case (Cons x xs)
    then show ?case by (cases "f x < k") (auto simp: not_less intro: order_less_imp_le order_trans)
  qed simp
  with tk dr show ?thesis by (auto dest: set_takeWhileD)
qed

lemma cap_contains_iff:
  assumes "sorted_wrt (<) (map cap_id entries)"
  shows "cap_contains entries i = (i \<in> cap_id ` set entries)"
proof -
  let ?n = "cap_lower_bound entries i"
  have n: "?n = length (takeWhile (\<lambda>e. cap_id e < i) entries)" by (simp add: cap_lower_bound_def)
  from lower_bound_split [OF assms, of i, folded n]
  have lo: "\<forall>e\<in>set (take ?n entries). cap_id e < i"
    and hi: "\<forall>e\<in>set (drop ?n entries). i \<le> cap_id e" by simp_all
  show ?thesis
  proof
    assume "cap_contains entries i"
    then have "?n < length entries" "cap_id (entries ! ?n) = i"
      by (simp_all add: cap_contains_def Let_def)
    then show "i \<in> cap_id ` set entries" by (metis image_eqI nth_mem)
  next
    assume "i \<in> cap_id ` set entries"
    then obtain e where e: "e \<in> set entries" "cap_id e = i" by blast
    have "set entries = set (take ?n entries) \<union> set (drop ?n entries)"
      by (metis append_take_drop_id set_append)
    with e lo have ed: "e \<in> set (drop ?n entries)" by auto
    then have lt: "?n < length entries" by (metis drop_all empty_iff empty_set not_le_imp_less)
    have d: "drop ?n entries = entries ! ?n # drop (Suc ?n) entries"
      by (rule Cons_nth_drop_Suc [symmetric, OF lt])
    have "sorted_wrt (<) (map cap_id (drop ?n entries))"
      using assms by (metis drop_map sorted_wrt_drop)
    with d ed e(2) hi have "cap_id (entries ! ?n) = i" by auto
    with lt show "cap_contains entries i" by (simp add: cap_contains_def Let_def)
  qed
qed

lemma cap_contains_all_iff:
  "sorted_wrt (<) (map cap_id entries) \<Longrightarrow>
     cap_contains_all entries required = (cap_id ` set required \<subseteq> cap_id ` set entries)"
  by (auto simp: cap_contains_all_def list_all_iff cap_contains_iff)

text \<open>Validation accepts exactly the well-formed sets within the bound.\<close>

lemma cap_validate_loop_ok:
  "status_ok (cap_validate_loop prev cs) =
     ((\<forall>c\<in>set cs. cap_entry_wf c) \<and>
      sorted_wrt (<) (map cap_id (case prev of None \<Rightarrow> cs | Some p \<Rightarrow> p # cs)))"
proof (induction prev cs rule: cap_validate_loop.induct)
  case (1 prev)
  then show ?case by (simp split: option.splits)
next
  case (2 prev c cs)
  show ?case
  proof (cases prev)
    case None
    with 2 show ?thesis by (auto simp: cap_entry_wf_def)
  next
    case (Some p)
    with 2 show ?thesis by (auto simp: cap_entry_wf_def)
  qed
qed

lemma cap_validate_ok_iff:
  "status_ok (cap_validate lim entries) =
     (cap_set_wf entries \<and> length entries \<le> unat (max_capabilities_per_resource lim))"
  by (auto simp: cap_validate_def cap_validate_loop_ok cap_set_wf_def)

lemma cap_add_ok:
  assumes "cap_set_wf entries" and "cap_add lim c entries = Inr entries'"
  shows "cap_set_wf entries' \<and> set entries' = insert c (set entries) \<and>
    cap_id c \<notin> cap_id ` set entries \<and>
    length entries' \<le> unat (max_capabilities_per_resource lim)"
proof -
  let ?n = "cap_lower_bound entries (cap_id c)"
  from assms(1) have srt: "sorted_wrt (<) (map cap_id entries)" by (simp add: cap_set_wf_def)
  from assms(2) have wf: "cap_entry_wf c" and room: "length entries < unat (max_capabilities_per_resource lim)"
    and nc: "\<not> cap_contains entries (cap_id c)"
    and e': "entries' = take ?n entries @ c # drop ?n entries"
    by (auto simp: cap_add_def cap_entry_wf_def cap_contains_def Let_def split: if_splits)
  from nc cap_contains_iff [OF srt] have fresh: "cap_id c \<notin> cap_id ` set entries" by simp
  have n: "?n = length (takeWhile (\<lambda>e. cap_id e < cap_id c) entries)"
    by (simp add: cap_lower_bound_def)
  from lower_bound_split [OF srt, of "cap_id c", folded n] fresh
  have lo: "\<forall>e\<in>set (take ?n entries). cap_id e < cap_id c"
    and hi: "\<forall>e\<in>set (drop ?n entries). cap_id c < cap_id e"
    by (auto dest!: in_set_dropD simp: less_le)
  have parts: "sorted_wrt (<) (map cap_id (take ?n entries @ drop ?n entries))" using srt by simp
  have set': "set entries' = insert c (set entries)"
    unfolding e' by (metis append_take_drop_id list.set(2) set_append Un_insert_right)
  have "sorted_wrt (<) (map cap_id entries')"
    using parts lo hi unfolding e' map_append sorted_wrt_append
    by (auto simp: sorted_wrt_append)
  with set' wf assms(1) have "cap_set_wf entries'" by (simp add: cap_set_wf_def)
  moreover have "length entries' = Suc (length entries)" unfolding e' by simp
  ultimately show ?thesis using set' fresh room by simp
qed

section \<open>Topology\<close>

datatype topology_scope = TS_Host | TS_NumaDomain | TS_RootComplex | TS_Rack | TS_Cluster

definition topology_scope_table :: "(topology_scope \<times> string) list" where
  "topology_scope_table = [(TS_Host, ''HOST''), (TS_NumaDomain, ''NUMA''),
     (TS_RootComplex, ''ROOT_COMPLEX''), (TS_Rack, ''RACK''), (TS_Cluster, ''CLUSTER'')]"

definition topology_scope_name :: "topology_scope \<Rightarrow> string" where
  "topology_scope_name s = table_name topology_scope_table ''UNKNOWN_SCOPE'' s"

definition parse_topology_scope :: "string \<Rightarrow> topology_scope option" where
  "parse_topology_scope t = table_parse topology_scope_table t"

record topology_domain =
  td_id :: topology_domain_id
  td_name :: string

definition topology_domain_known :: "topology_domain \<Rightarrow> bool" where
  "topology_domain_known d = (td_id d \<noteq> 0)"

definition topology_domain_matches :: "topology_domain \<Rightarrow> topology_domain \<Rightarrow> bool" where
  "topology_domain_matches d other = (td_id d \<noteq> 0 \<and> td_id d = td_id other)"

record topology_descriptor =
  topo_host :: topology_domain
  topo_numa :: topology_domain
  topo_root_complex :: topology_domain
  topo_rack :: topology_domain
  topo_cluster :: topology_domain
  topo_supplied :: bool

primrec topology_domain_at :: "topology_scope \<Rightarrow> topology_descriptor \<Rightarrow> topology_domain" where
  "topology_domain_at TS_Host t = topo_host t"
| "topology_domain_at TS_NumaDomain t = topo_numa t"
| "topology_domain_at TS_RootComplex t = topo_root_complex t"
| "topology_domain_at TS_Rack t = topo_rack t"
| "topology_domain_at TS_Cluster t = topo_cluster t"

definition topology_domain_check :: "limits \<Rightarrow> topology_domain \<Rightarrow> status" where
  "topology_domain_check lim d =
     (if unat (max_string_length lim) < length (td_name d) then
        Status E_InvalidArgument ''topology domain name exceeds maximum length''
      else if td_id d = 0 \<and> td_name d \<noteq> [] then
        Status E_InvalidArgument ''topology domain name supplied without a domain identity''
      else ok_status)"

definition topology_validate :: "limits \<Rightarrow> topology_descriptor \<Rightarrow> status" where
  "topology_validate lim t =
     check_all (map (topology_domain_check lim)
       [topo_host t, topo_numa t, topo_root_complex t, topo_rack t, topo_cluster t])"

definition topology_domains_equal :: "topology_domain \<Rightarrow> topology_domain \<Rightarrow> bool" where
  "topology_domains_equal a b = (td_id a \<noteq> 0 \<and> td_id a = td_id b)"

definition unknown_domain :: topology_domain where
  "unknown_domain = \<lparr>td_id = 0, td_name = []\<rparr>"

definition unknown_topology :: topology_descriptor where
  "unknown_topology = \<lparr>topo_host = unknown_domain, topo_numa = unknown_domain,
     topo_root_complex = unknown_domain, topo_rack = unknown_domain,
     topo_cluster = unknown_domain, topo_supplied = False\<rparr>"

interpretation scope_names: name_table topology_scope_name parse_topology_scope
proof
  fix x
  have "x \<in> fst ` set topology_scope_table" by (cases x) (simp_all add: topology_scope_table_def)
  then show "parse_topology_scope (topology_scope_name x) = Some x"
    unfolding parse_topology_scope_def topology_scope_name_def
    by (rule table_parse_name) (simp add: topology_scope_table_def)
next
  fix t x
  assume "parse_topology_scope t = Some x"
  then show "topology_scope_name x = t"
    unfolding parse_topology_scope_def topology_scope_name_def
    by (rule table_name_parse) (simp add: topology_scope_table_def)
qed

end
