(* ===== verification/Resource.thy ===== *)
theory Resource
  imports Capability
begin

text \<open>
  \<open>resource.hpp\<close> and \<open>resource.cpp\<close>: the resource classes and states with their printed names,
  the advertisement a worker publishes, the scheduler's record of a resource, validation and
  normalisation. The two structs are kept as two records with their own field names (\<open>adv_\<close> and
  \<open>res_\<close>), as the code keeps them as two types.
\<close>

section \<open>Enumerations\<close>

datatype resource_class =
    RC_Model | RC_Gpu | RC_Simulator | RC_Dataset | RC_PhysicalEnvironment
  | RC_VirtualEnvironment | RC_Worker

datatype sharing_mode = SM_Shared | SM_Exclusive

datatype health_state = HS_Unknown | HS_Healthy | HS_Degraded | HS_Unhealthy

datatype readiness_state = RD_Unknown | RD_Ready | RD_NotReady | RD_Unsupported

datatype provenance = PV_Unsupported | PV_Synthetic | PV_Real

datatype resource_lifecycle = RL_Registered | RL_Current | RL_Retired | RL_Lost

definition resource_class_table :: "(resource_class \<times> string) list" where
  "resource_class_table = [(RC_Model, ''MODEL''), (RC_Gpu, ''GPU''), (RC_Simulator, ''SIMULATOR''),
     (RC_Dataset, ''DATASET''), (RC_PhysicalEnvironment, ''PHYSICAL_ENVIRONMENT''),
     (RC_VirtualEnvironment, ''VIRTUAL_ENVIRONMENT''), (RC_Worker, ''WORKER'')]"

definition resource_class_name :: "resource_class \<Rightarrow> string" where
  "resource_class_name c = table_name resource_class_table ''UNKNOWN_CLASS'' c"

definition parse_resource_class :: "string \<Rightarrow> resource_class option" where
  "parse_resource_class t = table_parse resource_class_table t"

primrec sharing_mode_name :: "sharing_mode \<Rightarrow> string" where
  "sharing_mode_name SM_Exclusive = ''EXCLUSIVE''"
| "sharing_mode_name SM_Shared = ''SHARED''"

definition parse_sharing_mode :: "string \<Rightarrow> sharing_mode option" where
  "parse_sharing_mode t =
     (if t = ''SHARED'' then Some SM_Shared
      else if t = ''EXCLUSIVE'' then Some SM_Exclusive else None)"

primrec health_state_name :: "health_state \<Rightarrow> string" where
  "health_state_name HS_Unknown = ''UNKNOWN''"
| "health_state_name HS_Healthy = ''HEALTHY''"
| "health_state_name HS_Degraded = ''DEGRADED''"
| "health_state_name HS_Unhealthy = ''UNHEALTHY''"

definition parse_health_state :: "string \<Rightarrow> health_state option" where
  "parse_health_state t =
     (if t = ''UNKNOWN'' then Some HS_Unknown
      else if t = ''HEALTHY'' then Some HS_Healthy
      else if t = ''DEGRADED'' then Some HS_Degraded
      else if t = ''UNHEALTHY'' then Some HS_Unhealthy else None)"

primrec readiness_state_name :: "readiness_state \<Rightarrow> string" where
  "readiness_state_name RD_Unknown = ''UNKNOWN''"
| "readiness_state_name RD_Ready = ''READY''"
| "readiness_state_name RD_NotReady = ''NOT_READY''"
| "readiness_state_name RD_Unsupported = ''UNSUPPORTED''"

definition parse_readiness_state :: "string \<Rightarrow> readiness_state option" where
  "parse_readiness_state t =
     (if t = ''UNKNOWN'' then Some RD_Unknown
      else if t = ''READY'' then Some RD_Ready
      else if t = ''NOT_READY'' then Some RD_NotReady
      else if t = ''UNSUPPORTED'' then Some RD_Unsupported else None)"

primrec provenance_name :: "provenance \<Rightarrow> string" where
  "provenance_name PV_Unsupported = ''UNSUPPORTED''"
| "provenance_name PV_Synthetic = ''SYNTHETIC''"
| "provenance_name PV_Real = ''REAL''"

definition parse_provenance :: "string \<Rightarrow> provenance option" where
  "parse_provenance t =
     (if t = ''UNSUPPORTED'' then Some PV_Unsupported
      else if t = ''SYNTHETIC'' then Some PV_Synthetic
      else if t = ''REAL'' then Some PV_Real else None)"

primrec resource_lifecycle_name :: "resource_lifecycle \<Rightarrow> string" where
  "resource_lifecycle_name RL_Registered = ''REGISTERED''"
| "resource_lifecycle_name RL_Current = ''CURRENT''"
| "resource_lifecycle_name RL_Retired = ''RETIRED''"
| "resource_lifecycle_name RL_Lost = ''LOST''"

definition parse_resource_lifecycle :: "string \<Rightarrow> resource_lifecycle option" where
  "parse_resource_lifecycle t =
     (if t = ''REGISTERED'' then Some RL_Registered
      else if t = ''CURRENT'' then Some RL_Current
      else if t = ''RETIRED'' then Some RL_Retired
      else if t = ''LOST'' then Some RL_Lost else None)"

interpretation class_names: name_table resource_class_name parse_resource_class
proof
  fix x
  have "x \<in> fst ` set resource_class_table" by (cases x) (simp_all add: resource_class_table_def)
  then show "parse_resource_class (resource_class_name x) = Some x"
    unfolding parse_resource_class_def resource_class_name_def
    by (rule table_parse_name) (simp add: resource_class_table_def)
next
  fix t x
  assume "parse_resource_class t = Some x"
  then show "resource_class_name x = t"
    unfolding parse_resource_class_def resource_class_name_def
    by (rule table_name_parse) (simp add: resource_class_table_def)
qed

interpretation sharing_names: name_table sharing_mode_name parse_sharing_mode
proof
  show "parse_sharing_mode (sharing_mode_name x) = Some x" for x
    by (cases x) (simp_all add: parse_sharing_mode_def)
  show "parse_sharing_mode t = Some x \<Longrightarrow> sharing_mode_name x = t" for t x
    by (auto simp: parse_sharing_mode_def split: if_splits)
qed

interpretation health_names: name_table health_state_name parse_health_state
proof
  show "parse_health_state (health_state_name x) = Some x" for x
    by (cases x) (simp_all add: parse_health_state_def)
  show "parse_health_state t = Some x \<Longrightarrow> health_state_name x = t" for t x
    by (auto simp: parse_health_state_def split: if_splits)
qed

interpretation readiness_names: name_table readiness_state_name parse_readiness_state
proof
  show "parse_readiness_state (readiness_state_name x) = Some x" for x
    by (cases x) (simp_all add: parse_readiness_state_def)
  show "parse_readiness_state t = Some x \<Longrightarrow> readiness_state_name x = t" for t x
    by (auto simp: parse_readiness_state_def split: if_splits)
qed

interpretation provenance_names: name_table provenance_name parse_provenance
proof
  show "parse_provenance (provenance_name x) = Some x" for x
    by (cases x) (simp_all add: parse_provenance_def)
  show "parse_provenance t = Some x \<Longrightarrow> provenance_name x = t" for t x
    by (auto simp: parse_provenance_def split: if_splits)
qed

interpretation lifecycle_names: name_table resource_lifecycle_name parse_resource_lifecycle
proof
  show "parse_resource_lifecycle (resource_lifecycle_name x) = Some x" for x
    by (cases x) (simp_all add: parse_resource_lifecycle_def)
  show "parse_resource_lifecycle t = Some x \<Longrightarrow> resource_lifecycle_name x = t" for t x
    by (auto simp: parse_resource_lifecycle_def split: if_splits)
qed

section \<open>Records\<close>

record resource_capacity =
  rcap_slots :: u32
  rcap_memory_bytes :: u64
  rcap_max_sessions :: u32

record accelerator_attachment =
  acc_id :: accelerator_id
  acc_model :: string
  acc_memory_bytes :: u64
  acc_compute_capability_major :: u32
  acc_compute_capability_minor :: u32
  acc_root_complex :: topology_domain_id

record model_descriptor =
  mdl_id :: model_resource_id
  mdl_version :: string
  mdl_context_window :: u32
  mdl_tool_support :: bool
  mdl_resident :: bool
  mdl_modalities :: capability_set

record simulator_descriptor =
  sim_id :: simulator_id
  sim_version :: string
  sim_scenarios :: "string list"
  sim_max_sessions :: u32

record dataset_descriptor =
  ds_id :: dataset_id
  ds_version :: dataset_version_id
  ds_digest :: string
  ds_size_bytes :: u64

record environment_descriptor =
  env_id :: environment_id
  env_image_digest :: string
  env_virtual_environment :: virtual_environment_id
  env_physical_environment :: physical_environment_id
  env_eligibility_token :: string

record locality_descriptor =
  loc_local_dataset_versions :: "dataset_version_id list"
  loc_resident_models :: "model_resource_id list"
  loc_colocated_simulators :: "simulator_id list"

record resource_advertisement =
  adv_id :: resource_id
  adv_resource_class :: resource_class
  adv_name :: string
  adv_worker :: worker_id
  adv_boot :: worker_boot_id
  adv_provenance :: provenance
  adv_sharing :: sharing_mode
  adv_capabilities :: capability_set
  adv_capacity :: resource_capacity
  adv_current_occupancy :: u32
  adv_health :: health_state
  adv_health_detail :: string
  adv_readiness :: readiness_state
  adv_topology :: topology_descriptor
  adv_locality :: locality_descriptor
  adv_accelerators :: "accelerator_attachment list"
  adv_model :: "model_descriptor option"
  adv_simulator :: "simulator_descriptor option"
  adv_dataset :: "dataset_descriptor option"
  adv_environment :: "environment_descriptor option"
  adv_tenant :: string
  adv_labels :: "string list"

record resource_record =
  res_id :: resource_id
  res_resource_class :: resource_class
  res_name :: string
  res_worker :: worker_id
  res_boot :: worker_boot_id
  res_provenance :: provenance
  res_sharing :: sharing_mode
  res_capabilities :: capability_set
  res_capacity :: resource_capacity
  res_advertised_occupancy :: u32
  res_health :: health_state
  res_health_detail :: string
  res_readiness :: readiness_state
  res_topology :: topology_descriptor
  res_locality :: locality_descriptor
  res_accelerators :: "accelerator_attachment list"
  res_model :: "model_descriptor option"
  res_simulator :: "simulator_descriptor option"
  res_dataset :: "dataset_descriptor option"
  res_environment :: "environment_descriptor option"
  res_tenant :: string
  res_labels :: "string list"
  res_lifecycle :: resource_lifecycle
  res_generation :: resource_generation
  res_health_generation :: health_generation
  res_capacity_generation :: capacity_generation
  res_state_sequence :: u64
  res_validated_epoch :: coordinator_epoch
  res_dynamic_authoritative :: bool
  res_authority_detail :: string
  res_reserved_slots :: u32

text \<open>\<open>total_occupancy\<close> is a 32-bit sum: it wraps.\<close>

definition total_occupancy :: "resource_record \<Rightarrow> u32" where
  "total_occupancy r = res_advertised_occupancy r + res_reserved_slots r"

definition is_compound :: "resource_record \<Rightarrow> bool" where
  "is_compound r = (res_resource_class r = RC_Gpu \<or> res_resource_class r = RC_Worker)"

definition empty_locality :: locality_descriptor where
  "empty_locality = \<lparr>loc_local_dataset_versions = [], loc_resident_models = [],
     loc_colocated_simulators = []\<rparr>"

text \<open>A default-constructed \<open>ResourceRecord\<close>.\<close>

definition empty_resource_record :: resource_record where
  "empty_resource_record = \<lparr>
     res_id = 0, res_resource_class = RC_Worker, res_name = [], res_worker = 0, res_boot = 0,
     res_provenance = PV_Synthetic, res_sharing = SM_Shared, res_capabilities = [],
     res_capacity = \<lparr>rcap_slots = 1, rcap_memory_bytes = 0, rcap_max_sessions = 1\<rparr>,
     res_advertised_occupancy = 0, res_health = HS_Unknown, res_health_detail = [],
     res_readiness = RD_Unknown, res_topology = unknown_topology, res_locality = empty_locality,
     res_accelerators = [], res_model = None, res_simulator = None, res_dataset = None,
     res_environment = None, res_tenant = [], res_labels = [],
     res_lifecycle = RL_Registered, res_generation = 0, res_health_generation = 0,
     res_capacity_generation = 0, res_state_sequence = 0, res_validated_epoch = 0,
     res_dynamic_authoritative = False, res_authority_detail = [], res_reserved_slots = 0\<rparr>"

section \<open>Validation\<close>

definition check_text :: "string \<Rightarrow> string \<Rightarrow> u32 \<Rightarrow> bool \<Rightarrow> status" where
  "check_text v field maximum allow_empty =
     (if \<not> allow_empty \<and> v = [] then
        Status E_InvalidArgument (field @ '' must not be empty'')
      else if unat maximum < length v then
        Status E_InvalidArgument (field @ '' exceeds the configured maximum length'')
      else ok_status)"

definition validate_accelerator :: "limits \<Rightarrow> accelerator_attachment \<Rightarrow> status" where
  "validate_accelerator lim a =
     check_all [id_validate K_AcceleratorId (acc_id a),
       check_text (acc_model a) ''accelerator model'' (max_string_length lim) True]"

definition validate_model_part :: "limits \<Rightarrow> resource_advertisement \<Rightarrow> status" where
  "validate_model_part lim a =
     (case adv_model a of
        None \<Rightarrow> Status E_InvalidArgument ''MODEL resource must carry a model descriptor''
      | Some m \<Rightarrow> check_all [id_validate K_ModelResourceId (mdl_id m),
          check_text (mdl_version m) ''model version'' (max_digest_length lim) False,
          cap_validate lim (mdl_modalities m)])"

definition validate_simulator_part :: "limits \<Rightarrow> resource_advertisement \<Rightarrow> status" where
  "validate_simulator_part lim a =
     (case adv_simulator a of
        None \<Rightarrow> Status E_InvalidArgument ''SIMULATOR resource must carry a simulator descriptor''
      | Some m \<Rightarrow> check_all ([id_validate K_SimulatorId (sim_id m),
          check_text (sim_version m) ''simulator version'' (max_digest_length lim) False,
          fail_if (unat (max_simulator_scenarios lim) < length (sim_scenarios m)) E_LimitExceeded
            ''simulator scenario count exceeds configured maximum''] @
          map (\<lambda>s. check_text s ''simulator scenario'' (max_string_length lim) False)
            (sim_scenarios m) @
          [fail_if (sim_max_sessions m = 0 \<or>
              rcap_max_sessions (adv_capacity a) < sim_max_sessions m) E_InvalidArgument
            ''simulator session limit is inconsistent with resource capacity'']))"

definition validate_dataset_part :: "limits \<Rightarrow> resource_advertisement \<Rightarrow> status" where
  "validate_dataset_part lim a =
     (case adv_dataset a of
        None \<Rightarrow> Status E_InvalidArgument ''DATASET resource must carry a dataset descriptor''
      | Some m \<Rightarrow> check_all [id_validate K_DatasetId (ds_id m),
          id_validate K_DatasetVersionId (ds_version m),
          check_text (ds_digest m) ''dataset digest'' (max_digest_length lim) True])"

definition validate_physical_part :: "limits \<Rightarrow> resource_advertisement \<Rightarrow> status" where
  "validate_physical_part lim a =
     (case adv_environment a of
        None \<Rightarrow> Status E_InvalidArgument
          ''PHYSICAL_ENVIRONMENT resource must carry an environment descriptor''
      | Some m \<Rightarrow> check_all [id_validate K_EnvironmentId (env_id m),
          id_validate K_PhysicalEnvironmentId (env_physical_environment m),
          check_text (env_eligibility_token m) ''eligibility token'' (max_string_length lim) True])"

definition validate_virtual_part :: "limits \<Rightarrow> resource_advertisement \<Rightarrow> status" where
  "validate_virtual_part lim a =
     (case adv_environment a of
        None \<Rightarrow> Status E_InvalidArgument
          ''VIRTUAL_ENVIRONMENT resource must carry an environment descriptor''
      | Some m \<Rightarrow> check_all [id_validate K_EnvironmentId (env_id m),
          id_validate K_VirtualEnvironmentId (env_virtual_environment m),
          check_text (env_image_digest m) ''environment image digest'' (max_digest_length lim) False])"

definition validate_class_part :: "limits \<Rightarrow> resource_advertisement \<Rightarrow> status" where
  "validate_class_part lim a =
     (case adv_resource_class a of
        RC_Model \<Rightarrow> validate_model_part lim a
      | RC_Gpu \<Rightarrow> fail_if (adv_accelerators a = []) E_InvalidArgument
          ''GPU resource must carry at least one accelerator attachment''
      | RC_Simulator \<Rightarrow> validate_simulator_part lim a
      | RC_Dataset \<Rightarrow> validate_dataset_part lim a
      | RC_PhysicalEnvironment \<Rightarrow> validate_physical_part lim a
      | RC_VirtualEnvironment \<Rightarrow> validate_virtual_part lim a
      | RC_Worker \<Rightarrow> ok_status)"

definition validate_locality :: "limits \<Rightarrow> locality_descriptor \<Rightarrow> status" where
  "validate_locality lim l =
     check_all ([
       fail_if (unat (max_local_datasets_per_resource lim) < length (loc_local_dataset_versions l))
         E_LimitExceeded ''local dataset count exceeds configured maximum'',
       fail_if (unat (max_resident_models_per_resource lim) < length (loc_resident_models l))
         E_LimitExceeded ''resident model count exceeds configured maximum'',
       fail_if (unat (max_simulator_scenarios lim) < length (loc_colocated_simulators l))
         E_LimitExceeded ''co-located simulator count exceeds configured maximum''] @
       map (id_validate K_DatasetVersionId) (loc_local_dataset_versions l) @
       map (id_validate K_ModelResourceId) (loc_resident_models l) @
       map (id_validate K_SimulatorId) (loc_colocated_simulators l))"

definition validate_advertisement :: "limits \<Rightarrow> resource_advertisement \<Rightarrow> status" where
  "validate_advertisement lim a =
     check_all ([
       id_validate K_ResourceId (adv_id a),
       check_text (adv_name a) ''resource name'' (max_string_length lim) False,
       check_text (adv_health_detail a) ''health detail'' (max_string_length lim) True,
       check_text (adv_tenant a) ''tenant'' (max_string_length lim) True,
       fail_if (adv_worker a \<noteq> 0 \<and> adv_boot a = 0) E_InvalidIdentity
         ''worker owned resource must carry the boot identity of its incarnation'',
       fail_if (adv_worker a = 0 \<and> adv_boot a \<noteq> 0) E_InvalidIdentity
         ''boot identity supplied for a resource that has no worker owner'',
       cap_validate lim (adv_capabilities a),
       fail_if (rcap_slots (adv_capacity a) = 0) E_InvalidArgument
         ''resource capacity must declare at least one slot'',
       fail_if (rcap_max_sessions (adv_capacity a) = 0) E_InvalidArgument
         ''resource max_sessions must be at least one'',
       fail_if (rcap_slots (adv_capacity a) < adv_current_occupancy a) E_InvalidArgument
         ''advertised occupancy exceeds advertised capacity'',
       topology_validate lim (adv_topology a),
       fail_if (unat (max_accelerators_per_resource lim) < length (adv_accelerators a))
         E_LimitExceeded ''accelerator count exceeds configured maximum''] @
       map (validate_accelerator lim) (adv_accelerators a) @
       [validate_locality lim (adv_locality a),
        fail_if (unat (max_capabilities_per_resource lim) < length (adv_labels a))
          E_LimitExceeded ''label count exceeds configured maximum''] @
       map (\<lambda>l. check_text l ''label'' (max_string_length lim) True) (adv_labels a) @
       [validate_class_part lim a])"

definition advertisement_of_record :: "resource_record \<Rightarrow> resource_advertisement" where
  "advertisement_of_record r = \<lparr>
     adv_id = res_id r, adv_resource_class = res_resource_class r, adv_name = res_name r,
     adv_worker = res_worker r, adv_boot = res_boot r, adv_provenance = res_provenance r,
     adv_sharing = res_sharing r, adv_capabilities = res_capabilities r,
     adv_capacity = res_capacity r, adv_current_occupancy = res_advertised_occupancy r,
     adv_health = res_health r, adv_health_detail = res_health_detail r,
     adv_readiness = res_readiness r, adv_topology = res_topology r,
     adv_locality = res_locality r, adv_accelerators = res_accelerators r,
     adv_model = res_model r, adv_simulator = res_simulator r, adv_dataset = res_dataset r,
     adv_environment = res_environment r, adv_tenant = res_tenant r, adv_labels = res_labels r\<rparr>"

definition validate_resource_record :: "limits \<Rightarrow> resource_record \<Rightarrow> status" where
  "validate_resource_record lim r =
     check_all [
       validate_advertisement lim (advertisement_of_record r),
       fail_if (res_lifecycle r = RL_Retired \<and> res_reserved_slots r \<noteq> 0) E_ReservationConflict
         ''retired resource still holds reserved capacity'',
       fail_if (rcap_slots (res_capacity r) < total_occupancy r) E_CapacityExhausted
         ''resource occupancy exceeds declared capacity'']"

section \<open>Normalisation\<close>

definition normalize_locality :: "locality_descriptor \<Rightarrow> locality_descriptor" where
  "normalize_locality l = l\<lparr>
     loc_local_dataset_versions := sort_by (<) (loc_local_dataset_versions l),
     loc_resident_models := sort_by (<) (loc_resident_models l),
     loc_colocated_simulators := sort_by (<) (loc_colocated_simulators l)\<rparr>"

definition normalize_advertisement :: "resource_advertisement \<Rightarrow> resource_advertisement" where
  "normalize_advertisement a = a\<lparr>
     adv_accelerators := sort_by (\<lambda>x y. acc_id x < acc_id y) (adv_accelerators a),
     adv_locality := normalize_locality (adv_locality a),
     adv_labels := sort_by (<) (adv_labels a),
     adv_simulator := map_option
       (\<lambda>m. m\<lparr>sim_scenarios := sort_by (<) (sim_scenarios m)\<rparr>) (adv_simulator a)\<rparr>"

section \<open>Laws\<close>

text \<open>Normalisation only permutes lists, so it never changes the verdict of validation.\<close>

lemma list_all_sort_by [simp]: "list_all P (sort_by lt xs) = list_all P xs"
  by (simp add: list_all_iff)

lemma list_all_map_sort_by: "list_all P (map f (sort_by lt xs)) = list_all P (map f xs)"
  by (simp add: list_all_iff)

lemma validate_locality_normalize:
  "status_ok (validate_locality lim (normalize_locality l)) = status_ok (validate_locality lim l)"
  by (simp add: validate_locality_def normalize_locality_def list_all_map_sort_by)

lemma validate_class_normalize:
  "status_ok (validate_class_part lim (normalize_advertisement a)) =
     status_ok (validate_class_part lim a)"
  by (cases "adv_resource_class a")
    (simp_all add: validate_class_part_def normalize_advertisement_def validate_model_part_def
      validate_simulator_part_def validate_dataset_part_def validate_physical_part_def
      validate_virtual_part_def list_all_map_sort_by split: option.splits)

lemma validate_normalize:
  "status_ok (validate_advertisement lim (normalize_advertisement a)) =
     status_ok (validate_advertisement lim a)"
proof -
  have "status_ok (validate_locality lim (adv_locality (normalize_advertisement a))) =
      status_ok (validate_locality lim (adv_locality a))"
    by (simp add: normalize_advertisement_def validate_locality_normalize)
  moreover have "list_all status_ok (map (validate_accelerator lim)
        (adv_accelerators (normalize_advertisement a))) =
      list_all status_ok (map (validate_accelerator lim) (adv_accelerators a))"
    by (simp add: normalize_advertisement_def list_all_map_sort_by)
  moreover have "list_all status_ok (map (\<lambda>l. check_text l ''label'' (max_string_length lim) True)
        (adv_labels (normalize_advertisement a))) =
      list_all status_ok (map (\<lambda>l. check_text l ''label'' (max_string_length lim) True)
        (adv_labels a))"
    by (simp add: normalize_advertisement_def list_all_map_sort_by)
  ultimately show ?thesis
    unfolding validate_advertisement_def status_ok_check_all list_all_append list.pred_inject
      validate_class_normalize
    by (simp add: normalize_advertisement_def)
qed

text \<open>What an accepted advertisement guarantees about capacity.\<close>

lemma validate_advertisement_capacity:
  assumes "status_ok (validate_advertisement lim a)"
  shows "rcap_slots (adv_capacity a) \<noteq> 0"
    and "adv_current_occupancy a \<le> rcap_slots (adv_capacity a)"
    and "adv_id a \<noteq> 0"
    and "(adv_worker a = 0) = (adv_boot a = 0)"
  using assms by (auto simp: validate_advertisement_def)

lemma validate_record_simps:
  "status_ok (validate_resource_record lim r) =
     (status_ok (validate_advertisement lim (advertisement_of_record r)) \<and>
      (res_lifecycle r = RL_Retired \<longrightarrow> res_reserved_slots r = 0) \<and>
      total_occupancy r \<le> rcap_slots (res_capacity r))"
  by (auto simp: validate_resource_record_def)

end
