(* ===== verification/Request.thy ===== *)
theory Request
  imports Resource
begin

text \<open>
  \<open>request.hpp\<close>, \<open>request.cpp\<close>, \<open>placement.hpp\<close> and \<open>placement.cpp\<close>: requirements, requests
  with their validation and normalisation, ranking weights, placements, reservations and the state
  enumerations of all three.
\<close>

section \<open>Ranking factors and weights\<close>

datatype ranking_factor =
    RF_Locality | RF_Occupancy | RF_ResidualCapacity | RF_AcceleratorFit | RF_ModelWarmth
  | RF_DatasetLocality | RF_SimulatorReadiness | RF_TopologyDistance | RF_Fragmentation
  | RF_Reuse | RF_Fairness | RF_Priority

definition ranking_factor_table :: "(ranking_factor \<times> string) list" where
  "ranking_factor_table = [(RF_Locality, ''locality''), (RF_Occupancy, ''occupancy''),
     (RF_ResidualCapacity, ''residual_capacity''), (RF_AcceleratorFit, ''accelerator_fit''),
     (RF_ModelWarmth, ''model_warmth''), (RF_DatasetLocality, ''dataset_locality''),
     (RF_SimulatorReadiness, ''simulator_readiness''), (RF_TopologyDistance, ''topology_distance''),
     (RF_Fragmentation, ''fragmentation''), (RF_Reuse, ''reuse''), (RF_Fairness, ''fairness''),
     (RF_Priority, ''priority'')]"

definition ranking_factor_name :: "ranking_factor \<Rightarrow> string" where
  "ranking_factor_name f = table_name ranking_factor_table ''unknown'' f"

definition parse_ranking_factor :: "string \<Rightarrow> ranking_factor option" where
  "parse_ranking_factor t = table_parse ranking_factor_table t"

text \<open>The twelve factors in the order of the enumeration.\<close>

definition all_factors :: "ranking_factor list" where
  "all_factors = map fst ranking_factor_table"

text \<open>\<open>int32_t values[12]\<close>, one weight per factor; weights are integers within the checked range.\<close>

type_synonym ranking_weights = "ranking_factor \<Rightarrow> int"

primrec default_weights :: ranking_weights where
  "default_weights RF_Locality = 100"
| "default_weights RF_Occupancy = 100"
| "default_weights RF_ResidualCapacity = 60"
| "default_weights RF_AcceleratorFit = 80"
| "default_weights RF_ModelWarmth = 80"
| "default_weights RF_DatasetLocality = 90"
| "default_weights RF_SimulatorReadiness = 70"
| "default_weights RF_TopologyDistance = 50"
| "default_weights RF_Fragmentation = 40"
| "default_weights RF_Reuse = 30"
| "default_weights RF_Fairness = 20"
| "default_weights RF_Priority = 0"

section \<open>Requests\<close>

record resource_requirement =
  rq_name :: string
  rq_resource_class :: resource_class
  rq_required_capabilities :: capability_set
  rq_min_slots :: u32
  rq_min_memory_bytes :: u64
  rq_require_exclusive :: bool
  rq_require_current_evidence :: bool
  rq_minimum_health :: health_state
  rq_max_occupancy_percent :: u32
  rq_accelerator :: "accelerator_id option"
  rq_model :: "model_resource_id option"
  rq_model_version :: string
  rq_require_model_resident :: bool
  rq_simulator :: "simulator_id option"
  rq_simulator_version :: string
  rq_simulator_scenario :: string
  rq_require_simulator_ready :: bool
  rq_dataset :: "dataset_id option"
  rq_dataset_version :: "dataset_version_id option"
  rq_environment :: "environment_id option"
  rq_environment_digest :: string
  rq_physical_environment :: "physical_environment_id option"
  rq_virtual_environment :: "virtual_environment_id option"
  rq_required_domain :: "topology_domain_id option"
  rq_required_domain_scope :: topology_scope
  rq_allowlist :: "resource_id list"
  rq_denylist :: "resource_id list"
  rq_affinity_group :: u32

text \<open>\<open>AffinityConstraint\<close> and \<open>AntiAffinityConstraint\<close> have the same three fields.\<close>

record affinity_constraint =
  aff_group_a :: u32
  aff_group_b :: u32
  aff_scope :: topology_scope

record schedule_request =
  sr_id :: schedule_request_id
  sr_experiment :: experiment_id
  sr_experiment_generation :: experiment_generation
  sr_trial :: trial_id
  sr_workload :: string
  sr_tenant :: string
  sr_priority :: int
  sr_requirements :: "resource_requirement list"
  sr_affinity :: "affinity_constraint list"
  sr_anti_affinity :: "affinity_constraint list"
  sr_experiment_anti_affinity :: bool
  sr_exclusive :: bool
  sr_reproducibility_required :: bool
  sr_allow_preemption :: bool
  sr_max_reassignments :: u32
  sr_weights :: ranking_weights
  sr_caller_authority :: string
  sr_request_provenance :: string

text \<open>Default-constructed requirement and request, as the structs initialise them.\<close>

definition default_requirement :: resource_requirement where
  "default_requirement = \<lparr>
     rq_name = [], rq_resource_class = RC_Worker, rq_required_capabilities = [], rq_min_slots = 1,
     rq_min_memory_bytes = 0, rq_require_exclusive = False, rq_require_current_evidence = True,
     rq_minimum_health = HS_Healthy, rq_max_occupancy_percent = 100, rq_accelerator = None,
     rq_model = None, rq_model_version = [], rq_require_model_resident = False,
     rq_simulator = None, rq_simulator_version = [], rq_simulator_scenario = [],
     rq_require_simulator_ready = True, rq_dataset = None, rq_dataset_version = None,
     rq_environment = None, rq_environment_digest = [], rq_physical_environment = None,
     rq_virtual_environment = None, rq_required_domain = None,
     rq_required_domain_scope = TS_Host, rq_allowlist = [], rq_denylist = [],
     rq_affinity_group = 0\<rparr>"

definition default_request :: schedule_request where
  "default_request = \<lparr>
     sr_id = 0, sr_experiment = 0, sr_experiment_generation = 0, sr_trial = 0, sr_workload = [],
     sr_tenant = [], sr_priority = 0, sr_requirements = [], sr_affinity = [],
     sr_anti_affinity = [], sr_experiment_anti_affinity = False, sr_exclusive = False,
     sr_reproducibility_required = False, sr_allow_preemption = False, sr_max_reassignments = 3,
     sr_weights = default_weights, sr_caller_authority = [], sr_request_provenance = []\<rparr>"

datatype request_state = RQ_Submitted | RQ_Placed | RQ_Completed | RQ_Failed | RQ_Cancelled
  | RQ_NoPlacement

definition request_state_table :: "(request_state \<times> string) list" where
  "request_state_table = [(RQ_Submitted, ''SUBMITTED''), (RQ_Placed, ''PLACED''),
     (RQ_Completed, ''COMPLETED''), (RQ_Failed, ''FAILED''), (RQ_Cancelled, ''CANCELLED''),
     (RQ_NoPlacement, ''NO_PLACEMENT'')]"

definition request_state_name :: "request_state \<Rightarrow> string" where
  "request_state_name s = table_name request_state_table ''UNKNOWN'' s"

definition parse_request_state :: "string \<Rightarrow> request_state option" where
  "parse_request_state t = table_parse request_state_table t"

record stored_request =
  st_request :: schedule_request
  st_state :: request_state
  st_submitted_sequence :: u64
  st_current_placement :: placement_id
  st_placement_count :: u32
  st_detail :: string

section \<open>Validation of requests\<close>

text \<open>The request source has its own \<open>check_text\<close>, without the emptiness test.\<close>

definition check_request_text :: "string \<Rightarrow> string \<Rightarrow> u32 \<Rightarrow> status" where
  "check_request_text v field maximum =
     (if unat maximum < length v then
        Status E_InvalidArgument (field @ '' exceeds the configured maximum length'')
      else ok_status)"

fun adjacent_duplicate :: "u64 list \<Rightarrow> u64 option" where
  "adjacent_duplicate (x # y # zs) = (if y = x then Some y else adjacent_duplicate (y # zs))"
| "adjacent_duplicate xs = None"

definition check_sorted_unique :: "id_kind \<Rightarrow> u64 list \<Rightarrow> string \<Rightarrow> status" where
  "check_sorted_unique k vs field =
     (case adjacent_duplicate (sort_by (<) vs) of
        None \<Rightarrow> ok_status
      | Some v \<Rightarrow> Status E_DuplicateIdentity
          (field @ '' contains a duplicate identity: '' @ id_to_string k v))"

definition check_optional_id :: "id_kind \<Rightarrow> u64 option \<Rightarrow> status" where
  "check_optional_id k v = (case v of None \<Rightarrow> ok_status | Some i \<Rightarrow> id_validate k i)"

definition validate_requirement :: "limits \<Rightarrow> string list \<Rightarrow> resource_requirement \<Rightarrow> status" where
  "validate_requirement lim seen r =
     check_all ([
       check_request_text (rq_name r) ''requirement name'' (max_string_length lim),
       fail_if (rq_name r = []) E_InvalidArgument ''every requirement must carry a name'',
       fail_if (rq_name r \<in> set seen) E_DuplicateIdentity
         (''duplicate requirement name: '' @ rq_name r),
       cap_validate lim (rq_required_capabilities r),
       fail_if (rq_min_slots r = 0) E_InvalidArgument
         (''requirement '' @ [CHR 0x27] @ rq_name r @ [CHR 0x27] @
          '' must request at least one slot''),
       fail_if (0xffff < rq_min_slots r) E_InvalidArgument
         ''requirement slot count is implausible'',
       fail_if (rq_max_occupancy_percent r = 0 \<or> 100 < rq_max_occupancy_percent r)
         E_InvalidArgument
         (''max_occupancy_percent must be within [1, 100] for requirement '' @ [CHR 0x27] @
          rq_name r @ [CHR 0x27]),
       fail_if (unat (max_allowlist_entries lim) < length (rq_allowlist r) \<or>
           unat (max_denylist_entries lim) < length (rq_denylist r)) E_LimitExceeded
         ''allowlist or denylist exceeds the configured maximum'',
       check_sorted_unique K_ResourceId (rq_allowlist r) ''allowlist'',
       check_sorted_unique K_ResourceId (rq_denylist r) ''denylist''] @
       map (id_validate K_ResourceId) (rq_allowlist r) @
       map (id_validate K_ResourceId) (rq_denylist r) @
       [check_optional_id K_ModelResourceId (rq_model r),
        check_optional_id K_SimulatorId (rq_simulator r),
        check_optional_id K_DatasetId (rq_dataset r),
        check_optional_id K_DatasetVersionId (rq_dataset_version r),
        check_optional_id K_EnvironmentId (rq_environment r),
        check_optional_id K_AcceleratorId (rq_accelerator r),
        check_optional_id K_PhysicalEnvironmentId (rq_physical_environment r),
        check_optional_id K_VirtualEnvironmentId (rq_virtual_environment r),
        check_request_text (rq_model_version r) ''model version'' (max_digest_length lim),
        check_request_text (rq_simulator_version r) ''simulator version'' (max_digest_length lim),
        check_request_text (rq_simulator_scenario r) ''simulator scenario'' (max_string_length lim),
        check_request_text (rq_environment_digest r) ''environment digest'' (max_digest_length lim),
        check_optional_id K_TopologyDomainId (rq_required_domain r),
        fail_if (0 < rq_affinity_group r \<and> max_affinity_groups lim < rq_affinity_group r)
          E_LimitExceeded ''affinity group index exceeds the configured maximum''])"

text \<open>The requirement loop collects the names already seen.\<close>

fun validate_requirements :: "limits \<Rightarrow> string list \<Rightarrow> resource_requirement list \<Rightarrow> status" where
  "validate_requirements lim seen [] = ok_status"
| "validate_requirements lim seen (r # rs) =
     check_then (validate_requirement lim seen r)
       (validate_requirements lim (rq_name r # seen) rs)"

definition declared_groups :: "resource_requirement list \<Rightarrow> u32 list" where
  "declared_groups rs = filter (\<lambda>g. 0 < g) (map rq_affinity_group rs)"

definition validate_constraint :: "string \<Rightarrow> u32 list \<Rightarrow> affinity_constraint \<Rightarrow> status" where
  "validate_constraint what groups c =
     check_all [
       fail_if (aff_group_a c = 0 \<or> aff_group_b c = 0) E_InvalidArgument
         (what @ '' constraints must reference non-zero groups''),
       fail_if (aff_group_a c \<notin> set groups \<or> aff_group_b c \<notin> set groups) E_InvalidArgument
         (what @ '' constraint references a group that no requirement declares'')]"

definition validate_schedule_request :: "limits \<Rightarrow> schedule_request \<Rightarrow> status" where
  "validate_schedule_request lim r =
     check_all ([
       id_validate K_ScheduleRequestId (sr_id r),
       id_validate K_ExperimentId (sr_experiment r),
       id_validate K_ExperimentGeneration (sr_experiment_generation r),
       (if sr_trial r \<noteq> 0 then id_validate K_TrialId (sr_trial r) else ok_status),
       check_request_text (sr_workload r) ''workload'' (max_string_length lim),
       check_request_text (sr_tenant r) ''tenant'' (max_string_length lim),
       check_request_text (sr_caller_authority r) ''caller authority'' (max_string_length lim),
       check_request_text (sr_request_provenance r) ''request provenance'' (max_string_length lim),
       fail_if (sr_priority r < -1000 \<or> 1000 < sr_priority r) E_InvalidArgument
         ''priority must be within [-1000, 1000]'',
       fail_if (sr_requirements r = []) E_InvalidArgument
         ''a scheduling request must declare at least one requirement'',
       fail_if (unat (max_requirements_per_request lim) < length (sr_requirements r))
         E_LimitExceeded ''requirement count exceeds the configured maximum'',
       fail_if (16 < sr_max_reassignments r) E_InvalidArgument
         ''max_reassignments must not exceed 16''] @
       map (\<lambda>f. fail_if (sr_weights r f < -1000 \<or> 1000 < sr_weights r f) E_InvalidArgument
         ''ranking weights must be within [-1000, 1000]'') all_factors @
       [validate_requirements lim [] (sr_requirements r),
        fail_if (unat (max_anti_affinity_pairs lim) < length (sr_affinity r) \<or>
            unat (max_anti_affinity_pairs lim) < length (sr_anti_affinity r)) E_LimitExceeded
          ''affinity constraint count exceeds the configured maximum''] @
       map (validate_constraint ''affinity'' (declared_groups (sr_requirements r)))
         (sr_affinity r) @
       map (validate_constraint ''anti-affinity'' (declared_groups (sr_requirements r)))
         (sr_anti_affinity r) @
       (if sr_exclusive r then
          map (\<lambda>q. fail_if (rq_min_slots q = 0) E_InvalidArgument
            ''exclusive requests must claim at least one slot'') (sr_requirements r)
        else []))"

definition normalize_requirement :: "resource_requirement \<Rightarrow> resource_requirement" where
  "normalize_requirement r = r\<lparr>rq_allowlist := sort_by (<) (rq_allowlist r),
     rq_denylist := sort_by (<) (rq_denylist r)\<rparr>"

definition normalize_schedule_request :: "schedule_request \<Rightarrow> schedule_request" where
  "normalize_schedule_request r =
     r\<lparr>sr_requirements := map normalize_requirement (sr_requirements r)\<rparr>"

fun join_with :: "string \<Rightarrow> string list \<Rightarrow> string" where
  "join_with sep [] = []"
| "join_with sep [x] = x"
| "join_with sep (x # y # zs) = x @ sep @ join_with sep (y # zs)"

definition describe_requirement :: "resource_requirement \<Rightarrow> string" where
  "describe_requirement r =
     rq_name r @ '' ['' @ resource_class_name (rq_resource_class r) @ '' slots='' @
     decimal_u64 (ucast (rq_min_slots r)) @
     (if rq_min_memory_bytes r \<noteq> 0 then '' mem='' @ decimal_u64 (rq_min_memory_bytes r) else []) @
     (if rq_require_exclusive r then '' exclusive'' else []) @
     (if rq_required_capabilities r \<noteq> [] then
        '' caps='' @ join_with ''|'' (cap_names (rq_required_capabilities r)) else []) @ '']''"

section \<open>Placements and reservations\<close>

record selected_resource =
  sel_resource :: resource_id
  sel_resource_class :: resource_class
  sel_generation :: resource_generation
  sel_slots :: u32
  sel_exclusive :: bool
  sel_requirement_name :: string
  sel_worker :: worker_id
  sel_worker_boot :: worker_boot_id
  sel_resource_name :: string

record authority_envelope =
  ae_request :: schedule_request_id
  ae_experiment :: experiment_id
  ae_experiment_generation :: experiment_generation
  ae_placement :: placement_id
  ae_placement_generation :: placement_generation
  ae_epoch :: coordinator_epoch
  ae_lease :: lease_id
  ae_reservation :: reservation_id
  ae_worker :: worker_id
  ae_worker_boot :: worker_boot_id
  ae_resources :: "selected_resource list"

datatype placement_state = PL_Reserved | PL_Assigned | PL_Running | PL_Completed | PL_Failed
  | PL_Cancelled | PL_Preempted | PL_ReassignmentRequired | PL_Lost

definition placement_state_table :: "(placement_state \<times> string) list" where
  "placement_state_table = [(PL_Reserved, ''RESERVED''), (PL_Assigned, ''ASSIGNED''),
     (PL_Running, ''RUNNING''), (PL_Completed, ''COMPLETED''), (PL_Failed, ''FAILED''),
     (PL_Cancelled, ''CANCELLED''), (PL_Preempted, ''PREEMPTED''),
     (PL_ReassignmentRequired, ''REASSIGNMENT_REQUIRED''), (PL_Lost, ''LOST'')]"

definition placement_state_name :: "placement_state \<Rightarrow> string" where
  "placement_state_name s = table_name placement_state_table ''UNKNOWN'' s"

definition parse_placement_state :: "string \<Rightarrow> placement_state option" where
  "parse_placement_state t = table_parse placement_state_table t"

primrec placement_state_is_terminal :: "placement_state \<Rightarrow> bool" where
  "placement_state_is_terminal PL_Completed = True"
| "placement_state_is_terminal PL_Failed = True"
| "placement_state_is_terminal PL_Cancelled = True"
| "placement_state_is_terminal PL_Preempted = True"
| "placement_state_is_terminal PL_ReassignmentRequired = True"
| "placement_state_is_terminal PL_Lost = True"
| "placement_state_is_terminal PL_Reserved = False"
| "placement_state_is_terminal PL_Assigned = False"
| "placement_state_is_terminal PL_Running = False"

definition placement_state_is_current :: "placement_state \<Rightarrow> bool" where
  "placement_state_is_current s = (\<not> placement_state_is_terminal s)"

record placement_record =
  pl_id :: placement_id
  pl_generation :: placement_generation
  pl_request :: schedule_request_id
  pl_decision :: decision_id
  pl_experiment :: experiment_id
  pl_experiment_generation :: experiment_generation
  pl_trial :: trial_id
  pl_epoch :: coordinator_epoch
  pl_resources :: "selected_resource list"
  pl_reservation :: reservation_id
  pl_lease :: lease_id
  pl_worker :: worker_id
  pl_worker_boot :: worker_boot_id
  pl_state :: placement_state
  pl_reassignment_count :: u32
  pl_completion_recorded :: bool
  pl_detail :: string
  pl_transition_sequence :: u64
  pl_completion_detail :: string

datatype reservation_state = RV_Active | RV_Released | RV_Revoked

definition reservation_state_table :: "(reservation_state \<times> string) list" where
  "reservation_state_table = [(RV_Active, ''ACTIVE''), (RV_Released, ''RELEASED''),
     (RV_Revoked, ''REVOKED'')]"

definition reservation_state_name :: "reservation_state \<Rightarrow> string" where
  "reservation_state_name s = table_name reservation_state_table ''UNKNOWN'' s"

definition parse_reservation_state :: "string \<Rightarrow> reservation_state option" where
  "parse_reservation_state t = table_parse reservation_state_table t"

record reservation_claim =
  cl_resource :: resource_id
  cl_slots :: u32
  cl_exclusive :: bool
  cl_generation_at_acquire :: resource_generation

record reservation_record =
  rv_id :: reservation_id
  rv_lease :: lease_id
  rv_placement :: placement_id
  rv_placement_generation :: placement_generation
  rv_request :: schedule_request_id
  rv_experiment :: experiment_id
  rv_experiment_generation :: experiment_generation
  rv_epoch :: coordinator_epoch
  rv_claims :: "reservation_claim list"
  rv_state :: reservation_state
  rv_acquire_sequence :: u64
  rv_detail :: string

section \<open>Laws\<close>

interpretation factor_names: name_table ranking_factor_name parse_ranking_factor
proof
  fix x
  have "x \<in> fst ` set ranking_factor_table" by (cases x) (simp_all add: ranking_factor_table_def)
  then show "parse_ranking_factor (ranking_factor_name x) = Some x"
    unfolding parse_ranking_factor_def ranking_factor_name_def
    by (rule table_parse_name) (simp add: ranking_factor_table_def)
next
  fix t x
  assume "parse_ranking_factor t = Some x"
  then show "ranking_factor_name x = t"
    unfolding parse_ranking_factor_def ranking_factor_name_def
    by (rule table_name_parse) (simp add: ranking_factor_table_def)
qed

interpretation request_state_names: name_table request_state_name parse_request_state
proof
  fix x
  have "x \<in> fst ` set request_state_table" by (cases x) (simp_all add: request_state_table_def)
  then show "parse_request_state (request_state_name x) = Some x"
    unfolding parse_request_state_def request_state_name_def
    by (rule table_parse_name) (simp add: request_state_table_def)
next
  fix t x
  assume "parse_request_state t = Some x"
  then show "request_state_name x = t"
    unfolding parse_request_state_def request_state_name_def
    by (rule table_name_parse) (simp add: request_state_table_def)
qed

interpretation placement_state_names: name_table placement_state_name parse_placement_state
proof
  fix x
  have "x \<in> fst ` set placement_state_table" by (cases x) (simp_all add: placement_state_table_def)
  then show "parse_placement_state (placement_state_name x) = Some x"
    unfolding parse_placement_state_def placement_state_name_def
    by (rule table_parse_name) (simp add: placement_state_table_def)
next
  fix t x
  assume "parse_placement_state t = Some x"
  then show "placement_state_name x = t"
    unfolding parse_placement_state_def placement_state_name_def
    by (rule table_name_parse) (simp add: placement_state_table_def)
qed

interpretation reservation_state_names: name_table reservation_state_name parse_reservation_state
proof
  fix x
  have "x \<in> fst ` set reservation_state_table"
    by (cases x) (simp_all add: reservation_state_table_def)
  then show "parse_reservation_state (reservation_state_name x) = Some x"
    unfolding parse_reservation_state_def reservation_state_name_def
    by (rule table_parse_name) (simp add: reservation_state_table_def)
next
  fix t x
  assume "parse_reservation_state t = Some x"
  then show "reservation_state_name x = t"
    unfolding parse_reservation_state_def reservation_state_name_def
    by (rule table_name_parse) (simp add: reservation_state_table_def)
qed

lemma all_factors_complete: "f \<in> set all_factors"
  by (cases f) (simp_all add: all_factors_def ranking_factor_table_def)

lemma all_factors_list:
  "all_factors = [RF_Locality, RF_Occupancy, RF_ResidualCapacity, RF_AcceleratorFit,
     RF_ModelWarmth, RF_DatasetLocality, RF_SimulatorReadiness, RF_TopologyDistance,
     RF_Fragmentation, RF_Reuse, RF_Fairness, RF_Priority]"
  by (simp add: all_factors_def ranking_factor_table_def)

text \<open>What an accepted request guarantees to the scheduler.\<close>

lemma validate_requirements_all:
  "status_ok (validate_requirements lim seen rs) \<Longrightarrow> r \<in> set rs \<Longrightarrow>
     rq_min_slots r \<noteq> 0 \<and> cap_set_wf (rq_required_capabilities r) \<and>
     rq_max_occupancy_percent r \<le> 100"
  by (induction lim seen rs rule: validate_requirements.induct)
    (auto simp: validate_requirement_def cap_validate_ok_iff)

lemma validate_request_facts:
  assumes "status_ok (validate_schedule_request lim r)"
  shows "sr_id r \<noteq> 0" and "sr_experiment r \<noteq> 0" and "sr_experiment_generation r \<noteq> 0"
    and "sr_requirements r \<noteq> []"
    and "length (sr_requirements r) \<le> unat (max_requirements_per_request lim)"
    and "-1000 \<le> sr_weights r f" and "sr_weights r f \<le> 1000"
    and "-1000 \<le> sr_priority r" and "sr_priority r \<le> 1000"
    and "q \<in> set (sr_requirements r) \<Longrightarrow>
      rq_min_slots q \<noteq> 0 \<and> cap_set_wf (rq_required_capabilities q) \<and>
      rq_max_occupancy_percent q \<le> 100"
proof -
  from assms have reqs: "status_ok (validate_requirements lim [] (sr_requirements r))"
    and w: "\<forall>f\<in>set all_factors. \<not> (sr_weights r f < -1000 \<or> 1000 < sr_weights r f)"
    and basic: "sr_id r \<noteq> 0" "sr_experiment r \<noteq> 0" "sr_experiment_generation r \<noteq> 0"
      "sr_requirements r \<noteq> []"
      "length (sr_requirements r) \<le> unat (max_requirements_per_request lim)"
      "-1000 \<le> sr_priority r" "sr_priority r \<le> 1000"
    by (simp_all add: validate_schedule_request_def list_all_iff not_less ball_Un)
  from basic show "sr_id r \<noteq> 0" "sr_experiment r \<noteq> 0" "sr_experiment_generation r \<noteq> 0"
    "sr_requirements r \<noteq> []" "length (sr_requirements r) \<le> unat (max_requirements_per_request lim)"
    "-1000 \<le> sr_priority r" "sr_priority r \<le> 1000" .
  from w all_factors_complete [of f] show "-1000 \<le> sr_weights r f" "sr_weights r f \<le> 1000"
    by (auto simp: not_less)
  show "q \<in> set (sr_requirements r) \<Longrightarrow>
      rq_min_slots q \<noteq> 0 \<and> cap_set_wf (rq_required_capabilities q) \<and>
      rq_max_occupancy_percent q \<le> 100"
    by (rule validate_requirements_all [OF reqs])
qed

lemma placement_state_current_iff:
  "placement_state_is_current s = (s \<in> {PL_Reserved, PL_Assigned, PL_Running})"
  by (cases s) (simp_all add: placement_state_is_current_def)

end
