(* ===== verification/EngineState.thy ===== *)
theory EngineState
  imports Request
begin

text \<open>
  \<open>engine.hpp\<close>, \<open>engine_internal.hpp\<close>, \<open>explanation.hpp\<close>, \<open>engine_state.cpp\<close> and
  \<open>terminate_placement\<close> of \<open>engine_lifecycle.cpp\<close>: the scheduler state, the audit log, the
  exactly-once release of a reservation, the termination of a placement and the change of a worker
  incarnation. A C++ reference into one of the maps is the key of the entry; writing through it is
  \<open>om_modify\<close>. Every public operation holds the engine mutex for its whole body, so it is one
  function from engine to engine.
\<close>

section \<open>Explanations\<close>

datatype decision_outcome = DO_Placed | DO_NoPlacement

record rejected_resource_entry =
  rje_resource :: resource_id
  rje_name :: string
  rje_reasons :: "reject_reason list"

record requirement_explanation =
  rex_requirement_name :: string
  rex_resource_class :: resource_class
  rex_considered :: u32
  rex_eligible :: u32
  rex_rejected :: "rejected_resource_entry list"

record ranking_factor_value =
  rfv_name :: string
  rfv_weight :: int
  rfv_value :: int
  rfv_weighted :: int

record candidate_explanation =
  cex_resources :: "resource_id list"
  cex_score :: int
  cex_factors :: "ranking_factor_value list"
  cex_selected :: bool
  cex_tie_break :: string

record explanation =
  ex_decision :: decision_id
  ex_request :: schedule_request_id
  ex_experiment :: experiment_id
  ex_experiment_generation :: experiment_generation
  ex_outcome :: decision_outcome
  ex_failure :: error_code
  ex_failure_detail :: string
  ex_requirements :: "requirement_explanation list"
  ex_candidates :: "candidate_explanation list"
  ex_selected :: "selected_resource list"
  ex_notes :: "string list"

section \<open>Engine state\<close>

record engine_config =
  cfg_limits :: limits
  cfg_default_weights :: ranking_weights
  cfg_id_seed :: u64
  cfg_record_audit :: bool

record audit_record =
  au_sequence :: u64
  au_kind :: string
  au_detail :: string

record worker_record =
  wk_id :: worker_id
  wk_boot :: worker_boot_id
  wk_connected :: bool
  wk_registration_sequence :: u64
  wk_detail :: string

datatype unit_key = UnitKey (uk_experiment: experiment_id) (uk_generation: experiment_generation)
  (uk_trial: trial_id)

text \<open>The defaulted \<open>operator<=>\<close> of \<open>UnitKey\<close> compares the members in order.\<close>

definition unit_key_less :: "unit_key \<Rightarrow> unit_key \<Rightarrow> bool" where
  "unit_key_less a b \<longleftrightarrow>
     uk_experiment a < uk_experiment b \<or>
     (uk_experiment a = uk_experiment b \<and>
      (uk_generation a < uk_generation b \<or>
       (uk_generation a = uk_generation b \<and> uk_trial a < uk_trial b)))"

instantiation unit_key :: linorder
begin

definition less_unit_key :: "unit_key \<Rightarrow> unit_key \<Rightarrow> bool" where
  "less_unit_key = unit_key_less"

definition less_eq_unit_key :: "unit_key \<Rightarrow> unit_key \<Rightarrow> bool" where
  "less_eq_unit_key a b \<longleftrightarrow> a = b \<or> a < (b :: unit_key)"

instance
proof
  fix x y z :: unit_key
  show "(x < y) = (x \<le> y \<and> \<not> y \<le> x)"
    by (cases x; cases y) (auto simp: less_unit_key_def unit_key_less_def less_eq_unit_key_def)
  show "x \<le> x" by (simp add: less_eq_unit_key_def)
  show "x \<le> y \<Longrightarrow> y \<le> z \<Longrightarrow> x \<le> z"
    by (cases x; cases y; cases z) (auto simp: less_unit_key_def unit_key_less_def less_eq_unit_key_def)
  show "x \<le> y \<Longrightarrow> y \<le> x \<Longrightarrow> x = y"
    by (cases x; cases y) (auto simp: less_unit_key_def unit_key_less_def less_eq_unit_key_def)
  show "x \<le> y \<or> y \<le> x"
    by (cases x; cases y) (auto simp: less_unit_key_def unit_key_less_def less_eq_unit_key_def)
qed

end

record scheduler_state =
  ss_epoch :: coordinator_epoch
  ss_shutting_down :: bool
  ss_workers :: "(worker_id, worker_record) omap"
  ss_resources :: "(resource_id, resource_record) omap"
  ss_requests :: "(schedule_request_id, stored_request) omap"
  ss_placements :: "(placement_id, placement_record) omap"
  ss_reservations :: "(reservation_id, reservation_record) omap"
  ss_decisions :: "(decision_id, explanation) omap"
  ss_unit_current :: "(unit_key, placement_id) omap"
  ss_tenant_service :: "(string, u64) omap"
  ss_audit :: "audit_record list"
  ss_audit_sequence :: u64
  ss_request_sequence :: u64
  ss_placement_sequence :: u64
  ss_transition_sequence :: u64
  ss_reservation_sequence :: u64
  ss_worker_sequence :: u64

definition empty_state :: scheduler_state where
  "empty_state = \<lparr>ss_epoch = 1, ss_shutting_down = False, ss_workers = [], ss_resources = [],
     ss_requests = [], ss_placements = [], ss_reservations = [], ss_decisions = [],
     ss_unit_current = [], ss_tenant_service = [], ss_audit = [], ss_audit_sequence = 0,
     ss_request_sequence = 0, ss_placement_sequence = 0, ss_transition_sequence = 0,
     ss_reservation_sequence = 0, ss_worker_sequence = 0\<rparr>"

record engine =
  eng_config :: engine_config
  eng_ids :: id_generator
  eng_state :: scheduler_state

definition make_engine :: "engine_config \<Rightarrow> engine" where
  "make_engine cfg = \<lparr>eng_config = cfg, eng_ids = cfg_id_seed cfg, eng_state = empty_state\<rparr>"

section \<open>Audit log\<close>

definition push_audit :: "engine_config \<Rightarrow> string \<Rightarrow> string \<Rightarrow> scheduler_state \<Rightarrow> scheduler_state" where
  "push_audit cfg kind detail st =
     (if \<not> cfg_record_audit cfg then st
      else
        let seqn = ss_audit_sequence st + 1;
            log = ss_audit st @ [\<lparr>au_sequence = seqn, au_kind = kind, au_detail = detail\<rparr>];
            maximum = unat (max_audit_records (cfg_limits cfg));
            trimmed = (if maximum < length log then drop (length log - maximum) log else log)
        in st\<lparr>ss_audit_sequence := seqn, ss_audit := trimmed\<rparr>)"

section \<open>Helpers\<close>

definition available_slots :: "resource_record \<Rightarrow> u32" where
  "available_slots r =
     (let used = res_advertised_occupancy r + res_reserved_slots r in
      if rcap_slots (res_capacity r) \<le> used then 0 else rcap_slots (res_capacity r) - used)"

primrec placement_state_is_live :: "placement_state \<Rightarrow> bool" where
  "placement_state_is_live PL_Reserved = True"
| "placement_state_is_live PL_Assigned = True"
| "placement_state_is_live PL_Running = True"
| "placement_state_is_live PL_Completed = False"
| "placement_state_is_live PL_Failed = False"
| "placement_state_is_live PL_Cancelled = False"
| "placement_state_is_live PL_Preempted = False"
| "placement_state_is_live PL_ReassignmentRequired = False"
| "placement_state_is_live PL_Lost = False"

definition check_epoch :: "scheduler_state \<Rightarrow> coordinator_epoch \<Rightarrow> status" where
  "check_epoch st epoch =
     (let status = id_validate K_CoordinatorEpoch epoch in
      if \<not> status_ok status then status
      else if epoch \<noteq> ss_epoch st then
        Status E_StaleEpoch (''coordinator epoch '' @ id_to_string K_CoordinatorEpoch epoch @
          '' is not the current epoch '' @ id_to_string K_CoordinatorEpoch (ss_epoch st))
      else ok_status)"

definition resource_summary :: "resource_record \<Rightarrow> string" where
  "resource_summary r =
     id_to_string K_ResourceId (res_id r) @ '' '' @ resource_class_name (res_resource_class r) @
     '' '' @ [CHR 0x27] @ res_name r @ [CHR 0x27] @ '' gen='' @ decimal_u64 (res_generation r) @
     '' cap='' @ decimal_u64 (ucast (rcap_slots (res_capacity r))) @
     '' occ='' @ decimal_u64 (ucast (total_occupancy r)) @
     '' '' @ health_state_name (res_health r) @ '' '' @ readiness_state_name (res_readiness r) @
     (if res_dynamic_authoritative r then '' authoritative'' else '' NOT_AUTHORITATIVE'')"

definition placement_summary :: "placement_record \<Rightarrow> string" where
  "placement_summary p =
     id_to_string K_PlacementId (pl_id p) @ '' gen='' @ decimal_u64 (pl_generation p) @ '' '' @
     placement_state_name (pl_state p) @ '' request='' @
     id_to_string K_ScheduleRequestId (pl_request p) @ '' resources='' @
     join_with '','' (map (\<lambda>s. id_to_string K_ResourceId (sel_resource s)) (pl_resources p))"

section \<open>Reservations\<close>

text \<open>One iteration of the release loop; a claim on an unregistered resource is skipped.\<close>

definition release_claim_slots :: "u32 \<Rightarrow> resource_record \<Rightarrow> resource_record" where
  "release_claim_slots slots r =
     (if slots \<le> res_reserved_slots r
      then r\<lparr>res_reserved_slots := res_reserved_slots r - slots\<rparr>
      else r\<lparr>res_reserved_slots := 0\<rparr>)"

fun release_claims ::
  "reservation_claim list \<Rightarrow> (resource_id, resource_record) omap \<Rightarrow> (resource_id, resource_record) omap"
where
  "release_claims [] resources = resources"
| "release_claims (c # cs) resources =
     release_claims cs (om_modify (cl_resource c) (release_claim_slots (cl_slots c)) resources)"

definition release_reservation ::
  "reservation_id \<Rightarrow> reservation_state \<Rightarrow> string \<Rightarrow> scheduler_state \<Rightarrow> bool \<times> scheduler_state"
where
  "release_reservation rid target detail st =
     (case map_of (ss_reservations st) rid of
        None \<Rightarrow> (False, st)
      | Some v \<Rightarrow>
          if rv_state v \<noteq> RV_Active then (False, st)
          else (True, st\<lparr>
            ss_resources := release_claims (rv_claims v) (ss_resources st),
            ss_reservations := om_modify rid (\<lambda>w. w\<lparr>rv_state := target, rv_detail := detail\<rparr>)
              (ss_reservations st)\<rparr>))"

definition revoke_reservation :: "reservation_id \<Rightarrow> string \<Rightarrow> scheduler_state \<Rightarrow> scheduler_state" where
  "revoke_reservation rid detail st = snd (release_reservation rid RV_Revoked detail st)"

section \<open>Termination of a placement\<close>

definition termination_revokes :: "placement_state \<Rightarrow> bool" where
  "termination_revokes target =
     (target = PL_Preempted \<or> target = PL_ReassignmentRequired \<or> target = PL_Lost)"

primrec request_state_after :: "placement_state \<Rightarrow> request_state option" where
  "request_state_after PL_Completed = Some RQ_Completed"
| "request_state_after PL_Failed = Some RQ_Failed"
| "request_state_after PL_Cancelled = Some RQ_Cancelled"
| "request_state_after PL_Preempted = Some RQ_Submitted"
| "request_state_after PL_ReassignmentRequired = Some RQ_Submitted"
| "request_state_after PL_Lost = Some RQ_Submitted"
| "request_state_after PL_Reserved = None"
| "request_state_after PL_Assigned = None"
| "request_state_after PL_Running = None"

definition detach_request ::
  "placement_id \<Rightarrow> placement_state \<Rightarrow> string \<Rightarrow> stored_request \<Rightarrow> stored_request" where
  "detach_request pid target detail s =
     (if st_current_placement s = pid then
        (case request_state_after target of
           None \<Rightarrow> s\<lparr>st_current_placement := 0\<rparr>
         | Some rs \<Rightarrow> s\<lparr>st_current_placement := 0, st_state := rs, st_detail := detail\<rparr>)
      else s)"

definition placement_unit :: "placement_record \<Rightarrow> unit_key" where
  "placement_unit p = UnitKey (pl_experiment p) (pl_experiment_generation p) (pl_trial p)"

definition detach_unit ::
  "unit_key \<Rightarrow> placement_id \<Rightarrow> (unit_key, placement_id) omap \<Rightarrow> (unit_key, placement_id) omap" where
  "detach_unit key pid units =
     (case map_of units key of
        None \<Rightarrow> units
      | Some cur \<Rightarrow> if cur = pid then om_erase key units else units)"

definition terminate_placement ::
  "placement_id \<Rightarrow> placement_state \<Rightarrow> string \<Rightarrow> scheduler_state \<Rightarrow> scheduler_state" where
  "terminate_placement pid target detail st =
     (case map_of (ss_placements st) pid of
        None \<Rightarrow> st
      | Some p \<Rightarrow>
          if \<not> placement_state_is_live (pl_state p) then st
          else
            let seqn = ss_transition_sequence st + 1;
                st1 = st\<lparr>ss_transition_sequence := seqn,
                  ss_placements := om_modify pid
                    (\<lambda>q. q\<lparr>pl_state := target, pl_detail := detail, pl_transition_sequence := seqn\<rparr>)
                    (ss_placements st)\<rparr>;
                st2 = (if termination_revokes target
                       then revoke_reservation (pl_reservation p) detail st1
                       else snd (release_reservation (pl_reservation p) RV_Released detail st1));
                st3 = st2\<lparr>ss_requests := om_modify (pl_request p) (detach_request (pl_id p) target detail)
                  (ss_requests st2)\<rparr>
            in st3\<lparr>ss_unit_current :=
                 detach_unit (placement_unit p) (pl_id p) (ss_unit_current st3)\<rparr>)"

section \<open>Worker incarnations\<close>

record affected_placement =
  ap_placement :: placement_id
  ap_generation :: placement_generation
  ap_state :: placement_state
  ap_detail :: string

record resource_loss_report =
  lr_status :: status
  lr_worker :: worker_id
  lr_boot :: worker_boot_id
  lr_incarnation_adopted :: bool
  lr_invalidated_resources :: "resource_id list"
  lr_affected_placements :: "affected_placement list"
  lr_released_reservations :: "reservation_id list"
  lr_detail :: string

definition empty_loss_report :: resource_loss_report where
  "empty_loss_report = \<lparr>lr_status = ok_status, lr_worker = 0, lr_boot = 0,
     lr_incarnation_adopted = False, lr_invalidated_resources = [], lr_affected_placements = [],
     lr_released_reservations = [], lr_detail = []\<rparr>"

definition incarnation_holds :: "worker_id \<Rightarrow> worker_boot_id \<Rightarrow> resource_record \<Rightarrow> bool" where
  "incarnation_holds worker boot r =
     (res_worker r = worker \<and> res_boot r = boot \<and>
      (res_dynamic_authoritative r \<or> res_lifecycle r = RL_Current))"

definition lose_incarnation :: "resource_record \<Rightarrow> resource_record" where
  "lose_incarnation r = r\<lparr>
     res_dynamic_authoritative := False,
     res_lifecycle := RL_Lost,
     res_health := HS_Unknown,
     res_readiness := RD_Unknown,
     res_health_detail := ''incarnation lost'',
     res_generation := res_generation r + 1,
     res_health_generation := res_health_generation r + 1,
     res_capacity_generation := res_capacity_generation r + 1,
     res_validated_epoch := 0,
     res_authority_detail := ''incarnation lost; fresh registration required''\<rparr>"

text \<open>The resource loop: every iteration reads and writes its own entry only.\<close>

definition lose_resources ::
  "worker_id \<Rightarrow> worker_boot_id \<Rightarrow> (resource_id, resource_record) omap \<Rightarrow>
     (resource_id, resource_record) omap" where
  "lose_resources worker boot m =
     map (\<lambda>(k, r). (k, if incarnation_holds worker boot r then lose_incarnation r else r)) m"

definition lost_resource_ids ::
  "worker_id \<Rightarrow> worker_boot_id \<Rightarrow> (resource_id, resource_record) omap \<Rightarrow> resource_id list" where
  "lost_resource_ids worker boot m =
     map (res_id \<circ> snd) (filter (incarnation_holds worker boot \<circ> snd) m)"

definition placement_touches ::
  "worker_id \<Rightarrow> worker_boot_id \<Rightarrow> resource_id list \<Rightarrow> placement_record \<Rightarrow> bool" where
  "placement_touches worker boot affected p =
     ((pl_worker p = worker \<and> pl_worker_boot p = boot) \<or>
      list_ex (\<lambda>s. sel_resource s \<in> set affected) (pl_resources p))"

definition lost_placement_detail :: string where
  "lost_placement_detail = ''resource incarnation lost; reassignment required''"

definition invalidate_placement_step ::
  "worker_id \<Rightarrow> worker_boot_id \<Rightarrow> resource_id list \<Rightarrow> placement_id \<Rightarrow>
     scheduler_state \<times> resource_loss_report \<Rightarrow> scheduler_state \<times> resource_loss_report" where
  "invalidate_placement_step worker boot affected pid = (\<lambda>(st, report).
     case map_of (ss_placements st) pid of
       None \<Rightarrow> (st, report)
     | Some p \<Rightarrow>
         if \<not> placement_state_is_live (pl_state p) then (st, report)
         else if \<not> placement_touches worker boot affected p then (st, report)
         else
           let st' = terminate_placement pid PL_ReassignmentRequired lost_placement_detail st;
               report' = (case map_of (ss_placements st') pid of
                   None \<Rightarrow> report
                 | Some q \<Rightarrow> report\<lparr>lr_affected_placements := lr_affected_placements report @
                     [\<lparr>ap_placement = pl_id q, ap_generation = pl_generation q,
                       ap_state = pl_state q, ap_detail = pl_detail q\<rparr>]\<rparr>);
               report'' = (case map_of (ss_reservations st') (pl_reservation p) of
                   None \<Rightarrow> report'
                 | Some v \<Rightarrow> if rv_state v = RV_Revoked
                     then report'\<lparr>lr_released_reservations :=
                       lr_released_reservations report' @ [pl_reservation p]\<rparr>
                     else report')
           in (st', report''))"

definition disconnect_worker :: "worker_boot_id \<Rightarrow> string \<Rightarrow> worker_record \<Rightarrow> worker_record" where
  "disconnect_worker boot detail w =
     (if wk_boot w = boot then w\<lparr>wk_connected := False, wk_detail := detail\<rparr> else w)"

definition invalidate_worker_incarnation ::
  "engine_config \<Rightarrow> worker_id \<Rightarrow> worker_boot_id \<Rightarrow> string \<Rightarrow> scheduler_state \<Rightarrow>
     scheduler_state \<times> resource_loss_report" where
  "invalidate_worker_incarnation cfg worker boot detail st =
     (let report = empty_loss_report\<lparr>lr_worker := worker, lr_boot := boot, lr_detail := detail\<rparr>;
          affected = lost_resource_ids worker boot (ss_resources st);
          st1 = st\<lparr>ss_resources := lose_resources worker boot (ss_resources st)\<rparr>;
          report1 = report\<lparr>lr_invalidated_resources := affected\<rparr>;
          (st2, report2) = fold (invalidate_placement_step worker boot affected)
            (om_keys (ss_placements st1)) (st1, report1);
          st3 = st2\<lparr>ss_workers := om_modify worker (disconnect_worker boot detail) (ss_workers st2)\<rparr>;
          st4 = push_audit cfg ''worker.incarnation_invalidated''
            (id_to_string K_WorkerId worker @ '' boot='' @ id_to_string K_WorkerBootId boot @
             '' '' @ detail) st3
      in (st4, report2\<lparr>lr_status := ok_status\<rparr>))"

definition adopt_worker_incarnation ::
  "engine_config \<Rightarrow> worker_id \<Rightarrow> worker_boot_id \<Rightarrow> string \<Rightarrow> scheduler_state \<Rightarrow>
     scheduler_state \<times> resource_loss_report" where
  "adopt_worker_incarnation cfg worker boot detail st =
     (case map_of (ss_workers st) worker of
        None \<Rightarrow>
          let seqn = ss_worker_sequence st + 1;
              w = \<lparr>wk_id = worker, wk_boot = boot, wk_connected = True,
                   wk_registration_sequence = seqn,
                   wk_detail = ''first incarnation observed by this coordinator''\<rparr>;
              st1 = st\<lparr>ss_worker_sequence := seqn,
                       ss_workers := om_emplace worker w (ss_workers st)\<rparr>;
              st2 = push_audit cfg ''worker.connected''
                (id_to_string K_WorkerId worker @ '' boot='' @ id_to_string K_WorkerBootId boot @
                 '' (first incarnation)'') st1
          in (st2, empty_loss_report\<lparr>lr_worker := worker, lr_boot := boot,
                lr_incarnation_adopted := True,
                lr_detail := ''first incarnation observed by this coordinator''\<rparr>)
      | Some w \<Rightarrow>
          if wk_boot w = boot then
            (st\<lparr>ss_workers := om_modify worker
               (\<lambda>u. u\<lparr>wk_connected := True, wk_detail := detail\<rparr>) (ss_workers st)\<rparr>,
             empty_loss_report\<lparr>lr_worker := worker, lr_boot := boot, lr_detail := detail\<rparr>)
          else
            let previous = wk_boot w;
                (st1, report) = invalidate_worker_incarnation cfg worker previous detail st;
                seqn = ss_worker_sequence st1 + 1;
                st2 = st1\<lparr>ss_worker_sequence := seqn,
                  ss_workers := om_modify worker
                    (\<lambda>u. u\<lparr>wk_boot := boot, wk_connected := True,
                           wk_registration_sequence := seqn,
                           wk_detail := ''new incarnation adopted''\<rparr>) (ss_workers st1)\<rparr>;
                st3 = push_audit cfg ''worker.reincarnated''
                  (id_to_string K_WorkerId worker @ '' boot='' @ id_to_string K_WorkerBootId boot @
                   '' replaced boot='' @ id_to_string K_WorkerBootId previous) st2
            in (st3, report\<lparr>lr_incarnation_adopted := True\<rparr>))"

section \<open>Public operations of \<open>engine_state.cpp\<close>\<close>

definition engine_epoch :: "engine \<Rightarrow> coordinator_epoch" where
  "engine_epoch e = ss_epoch (eng_state e)"

definition adopt_epoch :: "coordinator_epoch \<Rightarrow> engine \<Rightarrow> status \<times> engine" where
  "adopt_epoch epoch e =
     (let status = id_validate K_CoordinatorEpoch epoch; st = eng_state e in
      if \<not> status_ok status then (status, e)
      else if epoch \<le> ss_epoch st then
        (Status E_GenerationMismatch
          (''refusing to adopt epoch '' @ id_to_string K_CoordinatorEpoch epoch @
           '' that does not advance the current epoch '' @
           id_to_string K_CoordinatorEpoch (ss_epoch st)), e)
      else (ok_status, e\<lparr>eng_state := push_audit (eng_config e) ''epoch.adopted''
             (id_to_string K_CoordinatorEpoch epoch) (st\<lparr>ss_epoch := epoch\<rparr>)\<rparr>))"

definition begin_shutdown :: "engine \<Rightarrow> status \<times> engine" where
  "begin_shutdown e =
     (let st = eng_state e in
      if ss_shutting_down st then
        (Status E_ShuttingDown ''coordinator is already shutting down'', e)
      else (ok_status, e\<lparr>eng_state := push_audit (eng_config e) ''coordinator.shutdown''
             ''scheduler entered shutdown'' (st\<lparr>ss_shutting_down := True\<rparr>)\<rparr>))"

definition engine_shutting_down :: "engine \<Rightarrow> bool" where
  "engine_shutting_down e = ss_shutting_down (eng_state e)"

definition list_workers :: "engine \<Rightarrow> worker_record list" where
  "list_workers e = om_values (ss_workers (eng_state e))"

definition list_audit :: "engine \<Rightarrow> audit_record list" where
  "list_audit e = ss_audit (eng_state e)"

definition list_resources :: "engine \<Rightarrow> resource_record list" where
  "list_resources e = om_values (ss_resources (eng_state e))"

definition list_stale_resources :: "engine \<Rightarrow> resource_record list" where
  "list_stale_resources e =
     filter (\<lambda>r. \<not> res_dynamic_authoritative r \<or> res_lifecycle r = RL_Lost \<or>
         res_lifecycle r = RL_Registered) (om_values (ss_resources (eng_state e)))"

definition list_requests :: "engine \<Rightarrow> stored_request list" where
  "list_requests e = om_values (ss_requests (eng_state e))"

definition list_placements :: "engine \<Rightarrow> placement_record list" where
  "list_placements e = om_values (ss_placements (eng_state e))"

definition list_placements_for_experiment :: "experiment_id \<Rightarrow> engine \<Rightarrow> placement_record list" where
  "list_placements_for_experiment experiment e =
     filter (\<lambda>p. pl_experiment p = experiment) (om_values (ss_placements (eng_state e)))"

definition list_reservations :: "engine \<Rightarrow> reservation_record list" where
  "list_reservations e = om_values (ss_reservations (eng_state e))"

record scheduler_snapshot =
  sn_epoch :: coordinator_epoch
  sn_shutting_down :: bool
  sn_workers :: "worker_record list"
  sn_resources :: "resource_record list"
  sn_requests :: "stored_request list"
  sn_placements :: "placement_record list"
  sn_reservations :: "reservation_record list"
  sn_audit :: "audit_record list"

definition engine_snapshot :: "engine \<Rightarrow> scheduler_snapshot" where
  "engine_snapshot e = (let st = eng_state e in \<lparr>
     sn_epoch = ss_epoch st, sn_shutting_down = ss_shutting_down st,
     sn_workers = om_values (ss_workers st), sn_resources = om_values (ss_resources st),
     sn_requests = om_values (ss_requests st), sn_placements = om_values (ss_placements st),
     sn_reservations = om_values (ss_reservations st), sn_audit = ss_audit st\<rparr>)"

text \<open>The five lookups share one shape: validate the identity, find it, or report it unknown.\<close>

definition lookup_record :: "id_kind \<Rightarrow> string \<Rightarrow> u64 \<Rightarrow> (u64, 'v) omap \<Rightarrow> 'v result" where
  "lookup_record k what i m =
     (let status = id_validate k i in
      if \<not> status_ok status then Inl status
      else case map_of m i of
          None \<Rightarrow> Inl (Status E_NotFound (what @ id_to_string k i))
        | Some v \<Rightarrow> Inr v)"

definition get_resource :: "resource_id \<Rightarrow> engine \<Rightarrow> resource_record result" where
  "get_resource i e = lookup_record K_ResourceId ''no such resource: '' i (ss_resources (eng_state e))"

definition get_request :: "schedule_request_id \<Rightarrow> engine \<Rightarrow> stored_request result" where
  "get_request i e =
     lookup_record K_ScheduleRequestId ''no such scheduling request: '' i (ss_requests (eng_state e))"

definition get_placement :: "placement_id \<Rightarrow> engine \<Rightarrow> placement_record result" where
  "get_placement i e =
     lookup_record K_PlacementId ''no such placement: '' i (ss_placements (eng_state e))"

definition get_reservation :: "reservation_id \<Rightarrow> engine \<Rightarrow> reservation_record result" where
  "get_reservation i e =
     lookup_record K_ReservationId ''no such reservation: '' i (ss_reservations (eng_state e))"

record durable_state =
  du_format_version :: u32
  du_epoch :: coordinator_epoch
  du_limits :: limits
  du_default_weights :: ranking_weights
  du_id_counter :: u64
  du_resources :: "resource_record list"
  du_requests :: "stored_request list"
  du_placements :: "placement_record list"
  du_reservations :: "reservation_record list"
  du_integrity_note :: string

definition kPersistenceFormatVersion :: u32 where "kPersistenceFormatVersion = 1"

definition export_state :: "engine \<Rightarrow> durable_state" where
  "export_state e = (let st = eng_state e in \<lparr>
     du_format_version = kPersistenceFormatVersion, du_epoch = ss_epoch st,
     du_limits = cfg_limits (eng_config e),
     du_default_weights = cfg_default_weights (eng_config e),
     du_id_counter = eng_ids e,
     du_resources = om_values (ss_resources st), du_requests = om_values (ss_requests st),
     du_placements = om_values (ss_placements st),
     du_reservations = om_values (ss_reservations st), du_integrity_note = []\<rparr>)"

definition worker_connected ::
  "worker_id \<Rightarrow> worker_boot_id \<Rightarrow> engine \<Rightarrow> resource_loss_report \<times> engine" where
  "worker_connected worker boot e =
     (let s1 = id_validate K_WorkerId worker; s2 = id_validate K_WorkerBootId boot in
      if \<not> status_ok s1 then (empty_loss_report\<lparr>lr_status := s1\<rparr>, e)
      else if \<not> status_ok s2 then (empty_loss_report\<lparr>lr_status := s2\<rparr>, e)
      else let (st, report) = adopt_worker_incarnation (eng_config e) worker boot
             ''worker connected'' (eng_state e)
        in (report, e\<lparr>eng_state := st\<rparr>))"

definition mark_worker_lost ::
  "worker_id \<Rightarrow> worker_boot_id \<Rightarrow> string \<Rightarrow> engine \<Rightarrow> resource_loss_report \<times> engine" where
  "mark_worker_lost worker boot detail e =
     (let s1 = id_validate K_WorkerId worker; s2 = id_validate K_WorkerBootId boot in
      if \<not> status_ok s1 then (empty_loss_report\<lparr>lr_status := s1\<rparr>, e)
      else if \<not> status_ok s2 then (empty_loss_report\<lparr>lr_status := s2\<rparr>, e)
      else case map_of (ss_workers (eng_state e)) worker of
          None \<Rightarrow> (empty_loss_report\<lparr>lr_status :=
            Status E_NotFound (''unknown worker: '' @ id_to_string K_WorkerId worker)\<rparr>, e)
        | Some w \<Rightarrow>
            if wk_boot w \<noteq> boot then
              (empty_loss_report\<lparr>lr_status := Status E_StaleWorker
                 (''worker '' @ id_to_string K_WorkerId worker @ '' boot='' @
                  id_to_string K_WorkerBootId boot @ '' is not the current incarnation'')\<rparr>, e)
            else let (st, report) = invalidate_worker_incarnation (eng_config e) worker boot
                   detail (eng_state e)
              in (report, e\<lparr>eng_state := st\<rparr>))"

definition worker_disconnected ::
  "worker_id \<Rightarrow> worker_boot_id \<Rightarrow> string \<Rightarrow> engine \<Rightarrow> resource_loss_report \<times> engine" where
  "worker_disconnected worker boot detail e = mark_worker_lost worker boot detail e"

end
