(* ===== verification/Eligibility.thy ===== *)
theory Eligibility
  imports EngineState
begin

text \<open>
  The hard filter of \<open>engine_scheduling.cpp\<close>: \<open>evaluate_resource\<close> collects the reasons why one
  resource cannot serve one requirement, up to the configured maximum per entry, and the resource
  is eligible when none was collected. The specification \<open>meets_hard_constraints\<close> is the
  conjunction of the constraints the README lists; the filter is proved equivalent to it.
\<close>

section \<open>The filter\<close>

record eligibility =
  el_eligible :: bool
  el_slots :: u32
  el_exclusive :: bool
  el_reasons :: "reject_reason list"

primrec health_rank :: "health_state \<Rightarrow> int" where
  "health_rank HS_Healthy = 3"
| "health_rank HS_Degraded = 2"
| "health_rank HS_Unknown = 1"
| "health_rank HS_Unhealthy = 0"

definition reject :: "nat \<Rightarrow> reject_reason \<Rightarrow> reject_reason list \<Rightarrow> reject_reason list" where
  "reject maximum reason reasons =
     (if length reasons < maximum then reasons @ [reason] else reasons)"

definition reject_when ::
  "bool \<Rightarrow> nat \<Rightarrow> reject_reason \<Rightarrow> reject_reason list \<Rightarrow> reject_reason list" where
  "reject_when b maximum reason reasons = (if b then reject maximum reason reasons else reasons)"

definition effective_memory_bytes :: "resource_record \<Rightarrow> u64" where
  "effective_memory_bytes r =
     fold (\<lambda>a memory. if memory < acc_memory_bytes a then acc_memory_bytes a else memory)
       (res_accelerators r) (rcap_memory_bytes (res_capacity r))"

definition model_reason :: "resource_record \<Rightarrow> resource_requirement \<Rightarrow> reject_reason option" where
  "model_reason r q =
     (case res_model r of
        None \<Rightarrow> Some RR_ModelMismatch
      | Some m \<Rightarrow>
          if rq_model q \<noteq> None \<and> rq_model q \<noteq> Some (mdl_id m) then Some RR_ModelMismatch
          else if rq_model_version q \<noteq> [] \<and> mdl_version m \<noteq> rq_model_version q then
            Some RR_ModelVersionMismatch
          else if rq_require_model_resident q \<and> \<not> mdl_resident m then Some RR_ModelNotResident
          else None)"

definition gpu_reason :: "resource_record \<Rightarrow> resource_requirement \<Rightarrow> reject_reason option" where
  "gpu_reason r q =
     (case rq_accelerator q of
        None \<Rightarrow> None
      | Some a \<Rightarrow> if a \<in> set (map acc_id (res_accelerators r)) then None
                  else Some RR_AcceleratorMismatch)"

definition simulator_reason :: "resource_record \<Rightarrow> resource_requirement \<Rightarrow> reject_reason option" where
  "simulator_reason r q =
     (case res_simulator r of
        None \<Rightarrow> Some RR_SimulatorMismatch
      | Some m \<Rightarrow>
          if rq_simulator q \<noteq> None \<and> rq_simulator q \<noteq> Some (sim_id m) then
            Some RR_SimulatorMismatch
          else if rq_simulator_version q \<noteq> [] \<and> sim_version m \<noteq> rq_simulator_version q then
            Some RR_SimulatorMismatch
          else if rq_simulator_scenario q \<noteq> [] \<and>
              rq_simulator_scenario q \<notin> set (sim_scenarios m) then Some RR_Unsupported
          else if rq_require_simulator_ready q \<and> res_readiness r \<noteq> RD_Ready then
            Some RR_SimulatorNotReady
          else None)"

definition dataset_reason :: "resource_record \<Rightarrow> resource_requirement \<Rightarrow> reject_reason option" where
  "dataset_reason r q =
     (case res_dataset r of
        None \<Rightarrow> Some RR_DatasetMismatch
      | Some m \<Rightarrow>
          if rq_dataset q \<noteq> None \<and> rq_dataset q \<noteq> Some (ds_id m) then Some RR_DatasetMismatch
          else if rq_dataset_version q \<noteq> None \<and> rq_dataset_version q \<noteq> Some (ds_version m) then
            Some RR_DatasetVersionMismatch
          else None)"

definition physical_reason :: "resource_record \<Rightarrow> resource_requirement \<Rightarrow> reject_reason option" where
  "physical_reason r q =
     (case res_environment r of
        None \<Rightarrow> Some RR_EnvironmentMismatch
      | Some m \<Rightarrow>
          if rq_environment q \<noteq> None \<and> rq_environment q \<noteq> Some (env_id m) then
            Some RR_EnvironmentMismatch
          else if rq_physical_environment q \<noteq> None \<and>
              rq_physical_environment q \<noteq> Some (env_physical_environment m) then
            Some RR_EnvironmentMismatch
          else if rq_require_current_evidence q \<and> res_readiness r \<noteq> RD_Ready then
            Some RR_EnvironmentNotReady
          else None)"

definition virtual_reason :: "resource_record \<Rightarrow> resource_requirement \<Rightarrow> reject_reason option" where
  "virtual_reason r q =
     (case res_environment r of
        None \<Rightarrow> Some RR_EnvironmentMismatch
      | Some m \<Rightarrow>
          if rq_environment q \<noteq> None \<and> rq_environment q \<noteq> Some (env_id m) then
            Some RR_EnvironmentMismatch
          else if rq_virtual_environment q \<noteq> None \<and>
              rq_virtual_environment q \<noteq> Some (env_virtual_environment m) then
            Some RR_EnvironmentMismatch
          else if rq_environment_digest q \<noteq> [] \<and> env_image_digest m \<noteq> rq_environment_digest q then
            Some RR_EnvironmentDigestMismatch
          else if rq_require_current_evidence q \<and> res_readiness r \<noteq> RD_Ready then
            Some RR_EnvironmentNotReady
          else None)"

definition class_specific_reason ::
  "resource_record \<Rightarrow> resource_requirement \<Rightarrow> reject_reason option" where
  "class_specific_reason r q =
     (case res_resource_class r of
        RC_Model \<Rightarrow> model_reason r q
      | RC_Gpu \<Rightarrow> gpu_reason r q
      | RC_Simulator \<Rightarrow> simulator_reason r q
      | RC_Dataset \<Rightarrow> dataset_reason r q
      | RC_PhysicalEnvironment \<Rightarrow> physical_reason r q
      | RC_VirtualEnvironment \<Rightarrow> virtual_reason r q
      | RC_Worker \<Rightarrow> None)"

text \<open>The claim a placement would take: all slots when exclusive.\<close>

definition claim_exclusive :: "schedule_request \<Rightarrow> resource_requirement \<Rightarrow> resource_record \<Rightarrow> bool" where
  "claim_exclusive req q r =
     (let exclusive_requested = (rq_require_exclusive q \<or> sr_exclusive req)
      in exclusive_requested \<or> res_sharing r = SM_Exclusive)"

definition claim_slots :: "schedule_request \<Rightarrow> resource_requirement \<Rightarrow> resource_record \<Rightarrow> u32" where
  "claim_slots req q r =
     (if claim_exclusive req q r then rcap_slots (res_capacity r) else rq_min_slots q)"

definition occupancy_exceeded ::
  "resource_requirement \<Rightarrow> resource_record \<Rightarrow> u32 \<Rightarrow> bool" where
  "occupancy_exceeded q r slots =
     (let occupancy_after = (ucast (total_occupancy r) + ucast slots :: u64)
      in ucast (rcap_slots (res_capacity r)) * ucast (rq_max_occupancy_percent q)
         < occupancy_after * 100)"

definition collect_reasons ::
  "schedule_request \<Rightarrow> resource_requirement \<Rightarrow> resource_record \<Rightarrow> nat \<Rightarrow> reject_reason list" where
  "collect_reasons req q r maximum =
     (let slots = claim_slots req q r;
          rs0 = [];
          rs1 = reject_when (rq_allowlist q \<noteq> [] \<and> res_id r \<notin> set (rq_allowlist q))
                  maximum RR_AllowlistExcluded rs0;
          rs2 = reject_when (res_id r \<in> set (rq_denylist q)) maximum RR_DenylistExcluded rs1;
          rs3 = reject_when (res_lifecycle r = RL_Retired) maximum RR_ResourceRetired rs2;
          rs4 = reject_when (res_lifecycle r = RL_Lost) maximum RR_WorkerIncarnationStale rs3;
          rs5 = reject_when (rq_require_current_evidence q \<and> \<not> res_dynamic_authoritative r) maximum
                  (if res_lifecycle r = RL_Registered then RR_EvidenceStale
                   else RR_EvidenceNotAuthoritative) rs4;
          rs6 = reject_when (sr_tenant req \<noteq> [] \<and> res_tenant r \<noteq> [] \<and> sr_tenant req \<noteq> res_tenant r)
                  maximum RR_TenantViolation rs5;
          rs7 = reject_when (\<not> cap_contains_all (res_capabilities r) (rq_required_capabilities q))
                  maximum RR_CapabilityMismatch rs6;
          rs8 = reject_when (health_rank (res_health r) < health_rank (rq_minimum_health q)) maximum
                  (if res_health r = HS_Unknown then RR_HealthUnknown else RR_HealthRejected) rs7;
          rs9 = reject_when (res_readiness r = RD_Unsupported \<and> rq_require_current_evidence q)
                  maximum RR_Unsupported rs8;
          rs10 = reject_when (case rq_required_domain q of None \<Rightarrow> False
                    | Some d \<Rightarrow> td_id (topology_domain_at (rq_required_domain_scope q)
                        (res_topology r)) \<noteq> d) maximum RR_TopologyMismatch rs9;
          rs11 = (case class_specific_reason r q of None \<Rightarrow> rs10
                    | Some reason \<Rightarrow> reject maximum reason rs10);
          rs12 = reject_when (claim_exclusive req q r \<and> total_occupancy r \<noteq> 0)
                  maximum RR_ExclusivityConflict rs11;
          rs13 = reject_when (available_slots r < slots) maximum RR_CapacityExhausted rs12;
          rs14 = reject_when (effective_memory_bytes r < rq_min_memory_bytes q)
                  maximum RR_MemoryExhausted rs13
      in reject_when (occupancy_exceeded q r slots) maximum RR_OccupancyExceeded rs14)"

definition evaluate_resource ::
  "schedule_request \<Rightarrow> resource_requirement \<Rightarrow> resource_record \<Rightarrow> limits \<Rightarrow> eligibility" where
  "evaluate_resource req q r lim =
     (let maximum = unat (max_rejection_reasons_per_entry lim) in
      if res_resource_class r \<noteq> rq_resource_class q then
        \<lparr>el_eligible = False, el_slots = 1, el_exclusive = False,
         el_reasons = reject maximum RR_ResourceClassMismatch []\<rparr>
      else
        let reasons = collect_reasons req q r maximum in
        if reasons \<noteq> [] then
          \<lparr>el_eligible = False, el_slots = 1, el_exclusive = False, el_reasons = reasons\<rparr>
        else
          \<lparr>el_eligible = True, el_slots = claim_slots req q r,
           el_exclusive = claim_exclusive req q r, el_reasons = []\<rparr>)"

section \<open>Specification\<close>

definition meets_hard_constraints ::
  "schedule_request \<Rightarrow> resource_requirement \<Rightarrow> resource_record \<Rightarrow> bool" where
  "meets_hard_constraints req q r \<longleftrightarrow>
     res_resource_class r = rq_resource_class q \<and>
     (rq_allowlist q = [] \<or> res_id r \<in> set (rq_allowlist q)) \<and>
     res_id r \<notin> set (rq_denylist q) \<and>
     res_lifecycle r \<noteq> RL_Retired \<and> res_lifecycle r \<noteq> RL_Lost \<and>
     (rq_require_current_evidence q \<longrightarrow> res_dynamic_authoritative r) \<and>
     (sr_tenant req = [] \<or> res_tenant r = [] \<or> sr_tenant req = res_tenant r) \<and>
     cap_contains_all (res_capabilities r) (rq_required_capabilities q) \<and>
     health_rank (rq_minimum_health q) \<le> health_rank (res_health r) \<and>
     \<not> (res_readiness r = RD_Unsupported \<and> rq_require_current_evidence q) \<and>
     (\<forall>d. rq_required_domain q = Some d \<longrightarrow>
        td_id (topology_domain_at (rq_required_domain_scope q) (res_topology r)) = d) \<and>
     class_specific_reason r q = None \<and>
     (claim_exclusive req q r \<longrightarrow> total_occupancy r = 0) \<and>
     claim_slots req q r \<le> available_slots r \<and>
     rq_min_memory_bytes q \<le> effective_memory_bytes r \<and>
     \<not> occupancy_exceeded q r (claim_slots req q r)"

lemma reject_Nil_iff [simp]: "0 < maximum \<Longrightarrow> (reject maximum x rs = []) = False"
  by (cases rs) (simp_all add: reject_def)

lemma reject_when_Nil_iff [simp]:
  "0 < maximum \<Longrightarrow> (reject_when b maximum x rs = []) = (\<not> b \<and> rs = [])"
  by (simp add: reject_when_def)

lemma class_reason_Nil_iff:
  "0 < maximum \<Longrightarrow>
     ((case c of None \<Rightarrow> rs | Some reason \<Rightarrow> reject maximum reason rs) = []) = (c = None \<and> rs = [])"
  by (cases c) simp_all

lemma collect_reasons_Nil_iff:
  assumes "0 < maximum" and "res_resource_class r = rq_resource_class q"
  shows "(collect_reasons req q r maximum = []) = meets_hard_constraints req q r"
proof -
  have dom: "(\<not> (case rq_required_domain q of None \<Rightarrow> False
        | Some d \<Rightarrow> td_id (topology_domain_at (rq_required_domain_scope q) (res_topology r)) \<noteq> d)) =
      (\<forall>d. rq_required_domain q = Some d \<longrightarrow>
        td_id (topology_domain_at (rq_required_domain_scope q) (res_topology r)) = d)"
    by (cases "rq_required_domain q") simp_all
  show ?thesis
    unfolding collect_reasons_def Let_def reject_when_Nil_iff [OF assms(1)]
      class_reason_Nil_iff [OF assms(1)] dom meets_hard_constraints_def not_less
    using assms(2) by auto
qed

lemma evaluate_resource_eligible_iff:
  assumes "max_rejection_reasons_per_entry lim \<noteq> 0"
  shows "el_eligible (evaluate_resource req q r lim) = meets_hard_constraints req q r"
proof -
  have pos: "0 < unat (max_rejection_reasons_per_entry lim)" using assms by (simp add: unat_gt_0)
  show ?thesis
  proof (cases "res_resource_class r = rq_resource_class q")
    case True
    with collect_reasons_Nil_iff [OF pos True] show ?thesis
      by (simp add: evaluate_resource_def Let_def)
  next
    case False
    then show ?thesis by (simp add: evaluate_resource_def Let_def meets_hard_constraints_def)
  qed
qed

lemma evaluate_resource_claim:
  assumes "el_eligible (evaluate_resource req q r lim)"
  shows "el_slots (evaluate_resource req q r lim) = claim_slots req q r"
    and "el_exclusive (evaluate_resource req q r lim) = claim_exclusive req q r"
    and "res_resource_class r = rq_resource_class q"
  using assms by (auto simp: evaluate_resource_def Let_def split: if_splits)

text \<open>The number of reported reasons never exceeds the configured bound.\<close>

lemma length_reject: "length rs \<le> n \<Longrightarrow> length (reject n x rs) \<le> n"
  by (simp add: reject_def)

lemma length_reject_when: "length rs \<le> n \<Longrightarrow> length (reject_when b n x rs) \<le> n"
  by (simp add: reject_when_def length_reject)

lemma length_collect_reasons: "length (collect_reasons req q r n) \<le> n"
  unfolding collect_reasons_def Let_def
  by (intro length_reject_when) (auto intro!: length_reject length_reject_when split: option.splits)

lemma evaluate_resource_reason_bound:
  "length (el_reasons (evaluate_resource req q r lim)) \<le> unat (max_rejection_reasons_per_entry lim)"
  by (simp add: evaluate_resource_def Let_def length_collect_reasons length_reject)

lemma evaluate_resource_reasons_nonempty:
  assumes "max_rejection_reasons_per_entry lim \<noteq> 0"
    and "\<not> el_eligible (evaluate_resource req q r lim)"
  shows "el_reasons (evaluate_resource req q r lim) \<noteq> []"
  using assms by (auto simp: evaluate_resource_def Let_def unat_gt_0 split: if_splits)

text \<open>
  What eligibility means for the ledger: the claimed slots fit beside the advertised occupancy and
  the slots already reserved.
\<close>

lemma available_slots_unat:
  assumes "unat (res_advertised_occupancy r) + unat (res_reserved_slots r)
    \<le> unat (rcap_slots (res_capacity r))"
  shows "unat (available_slots r) = unat (rcap_slots (res_capacity r)) -
    (unat (res_advertised_occupancy r) + unat (res_reserved_slots r))"
proof -
  from unat_add_capped [OF assms]
  have "unat (res_advertised_occupancy r + res_reserved_slots r) =
      unat (res_advertised_occupancy r) + unat (res_reserved_slots r)" .
  then show ?thesis
    using assms
    by (auto simp: available_slots_def Let_def word_le_nat_alt unat_sub_if')
qed

lemma eligible_fits:
  assumes "meets_hard_constraints req q r"
    and "unat (res_advertised_occupancy r) + unat (res_reserved_slots r)
      \<le> unat (rcap_slots (res_capacity r))"
  shows "unat (res_advertised_occupancy r) + unat (res_reserved_slots r) +
    unat (claim_slots req q r) \<le> unat (rcap_slots (res_capacity r))"
proof -
  from assms(1) have "unat (claim_slots req q r) \<le> unat (available_slots r)"
    by (simp add: meets_hard_constraints_def word_le_nat_alt)
  with available_slots_unat [OF assms(2)] assms(2) show ?thesis by simp
qed

end
