(* ===== verification/Ranking.thy ===== *)
theory Ranking
  imports Eligibility
begin

text \<open>
  Scoring of \<open>engine_scheduling.cpp\<close>: the additive factors of one candidate resource, the cross
  factors of a whole selection, the interchangeability and tie-break keys, and the compound
  constraints. Scores are \<open>int64_t\<close> in the code and integers here; \<open>score_in_int64\<close> shows that
  no score of an accepted request leaves the 64-bit range, so both agree. Products of 64-bit
  unsigned values (accelerator memory, tenant service) keep their width and wrap.
\<close>

definition kUnit :: int where "kUnit = 1000000"

text \<open>C++ integer division truncates towards zero.\<close>

definition trunc_div :: "int \<Rightarrow> int \<Rightarrow> int" where
  "trunc_div a b = sgn a * sgn b * (\<bar>a\<bar> div \<bar>b\<bar>)"

datatype factor_scope = FS_Additive | FS_Cross

primrec kFactorScope :: "ranking_factor \<Rightarrow> factor_scope" where
  "kFactorScope RF_Locality = FS_Cross"
| "kFactorScope RF_Occupancy = FS_Additive"
| "kFactorScope RF_ResidualCapacity = FS_Additive"
| "kFactorScope RF_AcceleratorFit = FS_Additive"
| "kFactorScope RF_ModelWarmth = FS_Additive"
| "kFactorScope RF_DatasetLocality = FS_Cross"
| "kFactorScope RF_SimulatorReadiness = FS_Additive"
| "kFactorScope RF_TopologyDistance = FS_Cross"
| "kFactorScope RF_Fragmentation = FS_Additive"
| "kFactorScope RF_Reuse = FS_Additive"
| "kFactorScope RF_Fairness = FS_Cross"
| "kFactorScope RF_Priority = FS_Cross"

definition clamp_unit :: "int \<Rightarrow> int" where
  "clamp_unit v = (if v < 0 then 0 else if kUnit < v then kUnit else v)"

record candidate_resource =
  cr_id :: resource_id
  cr_generation :: resource_generation
  cr_resource_class :: resource_class
  cr_name :: string
  cr_slots :: u32
  cr_exclusive :: bool
  cr_partial :: int
  cr_additive :: "ranking_factor \<Rightarrow> int"

section \<open>Reuse\<close>

definition reserved_by_other_placement ::
  "scheduler_state \<Rightarrow> experiment_id \<Rightarrow> resource_id \<Rightarrow> schedule_request_id \<Rightarrow> bool" where
  "reserved_by_other_placement st experiment resource exclude_request =
     list_ex (\<lambda>p. \<not> (pl_experiment p \<noteq> experiment \<or> pl_request p = exclude_request) \<and>
        placement_state_is_live (pl_state p) \<and>
        (case map_of (ss_reservations st) (pl_reservation p) of
           None \<Rightarrow> False
         | Some v \<Rightarrow> rv_state v = RV_Active \<and>
             list_ex (\<lambda>c. cl_resource c = resource) (rv_claims v)))
       (om_values (ss_placements st))"

section \<open>Additive factors\<close>

definition total_after :: "resource_record \<Rightarrow> eligibility \<Rightarrow> u32" where
  "total_after r el = total_occupancy r + el_slots el"

definition residual_slots :: "resource_record \<Rightarrow> eligibility \<Rightarrow> u32" where
  "residual_slots r el =
     (if total_after r el < rcap_slots (res_capacity r)
      then rcap_slots (res_capacity r) - total_after r el else 0)"

definition occupancy_value :: "resource_record \<Rightarrow> eligibility \<Rightarrow> int" where
  "occupancy_value r el =
     clamp_unit (kUnit - trunc_div (uint (total_after r el) * kUnit)
       (uint (rcap_slots (res_capacity r))))"

definition residual_value :: "resource_record \<Rightarrow> eligibility \<Rightarrow> int" where
  "residual_value r el =
     clamp_unit (trunc_div (uint (residual_slots r el) * kUnit)
       (uint (rcap_slots (res_capacity r))))"

definition accelerator_fit_value :: "resource_requirement \<Rightarrow> resource_record \<Rightarrow> int" where
  "accelerator_fit_value q r =
     (if res_resource_class r = RC_Gpu \<and> 0 < rq_min_memory_bytes q then
        let memory = fold (\<lambda>a m. if m < acc_memory_bytes a then acc_memory_bytes a else m)
              (res_accelerators r) 0 in
        if rq_min_memory_bytes q \<le> memory \<and> 0 < memory then
          let excess = sint (((memory - rq_min_memory_bytes q) * word_of_int kUnit) div memory)
          in clamp_unit (kUnit - excess)
        else kUnit
      else kUnit)"

definition model_warmth_value :: "resource_record \<Rightarrow> int" where
  "model_warmth_value r =
     (if res_resource_class r = RC_Model then
        (if (case res_model r of None \<Rightarrow> False | Some m \<Rightarrow> mdl_resident m) then kUnit
         else if res_readiness r = RD_Ready then kUnit div 2
         else 0)
      else kUnit)"

definition simulator_readiness_value :: "resource_record \<Rightarrow> int" where
  "simulator_readiness_value r =
     (if res_resource_class r = RC_Simulator then
        (case res_readiness r of RD_Ready \<Rightarrow> kUnit | RD_NotReady \<Rightarrow> 0
         | RD_Unknown \<Rightarrow> kUnit div 4 | RD_Unsupported \<Rightarrow> kUnit div 4)
      else kUnit)"

definition fragmentation_value :: "resource_record \<Rightarrow> eligibility \<Rightarrow> int" where
  "fragmentation_value r el =
     (if \<not> el_exclusive el then
        let residual_after = residual_slots r el in
        if 0 < residual_after \<and> residual_after < el_slots el then 0 else kUnit
      else kUnit)"

definition compute_additive_values ::
  "scheduler_state \<Rightarrow> schedule_request \<Rightarrow> resource_requirement \<Rightarrow> resource_record \<Rightarrow> eligibility \<Rightarrow>
     (ranking_factor \<Rightarrow> int)" where
  "compute_additive_values st req q r el = (\<lambda>f. case f of
       RF_Occupancy \<Rightarrow> occupancy_value r el
     | RF_ResidualCapacity \<Rightarrow> residual_value r el
     | RF_AcceleratorFit \<Rightarrow> accelerator_fit_value q r
     | RF_ModelWarmth \<Rightarrow> model_warmth_value r
     | RF_SimulatorReadiness \<Rightarrow> simulator_readiness_value r
     | RF_Fragmentation \<Rightarrow> fragmentation_value r el
     | RF_Reuse \<Rightarrow>
         (if reserved_by_other_placement st (sr_experiment req) (res_id r) (sr_id req)
          then kUnit else 0)
     | _ \<Rightarrow> kUnit)"

definition additive_partial :: "ranking_weights \<Rightarrow> (ranking_factor \<Rightarrow> int) \<Rightarrow> int" where
  "additive_partial w additive =
     sum_list (map (\<lambda>f. additive f * w f) (filter (\<lambda>f. kFactorScope f = FS_Additive) all_factors))"

section \<open>Topology between records\<close>

definition domains_are_equal :: "resource_record \<Rightarrow> resource_record \<Rightarrow> topology_scope \<Rightarrow> bool" where
  "domains_are_equal a b scope =
     topology_domains_equal (topology_domain_at scope (res_topology a))
       (topology_domain_at scope (res_topology b))"

definition domains_are_disjoint :: "resource_record \<Rightarrow> resource_record \<Rightarrow> topology_scope \<Rightarrow> bool" where
  "domains_are_disjoint a b scope =
     (let left = topology_domain_at scope (res_topology a);
          right = topology_domain_at scope (res_topology b)
      in if td_id left = 0 \<or> td_id right = 0 then False else td_id left \<noteq> td_id right)"

section \<open>Keys\<close>

definition interchangeability_key :: "candidate_resource \<Rightarrow> resource_record \<Rightarrow> string" where
  "interchangeability_key c r =
     concat (map (\<lambda>f. decimal_i64 (cr_additive c f) @ '':'') all_factors) @
     decimal_u64 (ucast (cr_slots c)) @ '':'' @ (if cr_exclusive c then ''1'' else ''0'') @ '':'' @
     decimal_u64 (td_id (topo_host (res_topology r))) @ '':'' @
     decimal_u64 (td_id (topo_rack (res_topology r))) @ '':'' @
     decimal_u64 (td_id (topo_cluster (res_topology r))) @ '':'' @
     decimal_u64 (res_worker r) @ '':'' @ decimal_u64 (res_boot r) @ '':'' @
     decimal_u64 (res_generation r)"

definition canonical_resource_key :: "resource_id list \<Rightarrow> string" where
  "canonical_resource_key ids = join_with '','' (sort_by (<) (map (id_to_string K_ResourceId) ids))"

section \<open>Cross factors\<close>

record host_tally =
  ht_hosts :: "(topology_domain_id, u32) omap"
  ht_racks :: "(topology_domain_id, u32) omap"
  ht_clusters :: "(topology_domain_id, u32) omap"
  ht_unknown_hosts :: u32
  ht_unknown_racks :: u32
  ht_unknown_clusters :: u32
  ht_dominant :: u32

definition empty_tally :: host_tally where
  "empty_tally = \<lparr>ht_hosts = [], ht_racks = [], ht_clusters = [], ht_unknown_hosts = 0,
     ht_unknown_racks = 0, ht_unknown_clusters = 0, ht_dominant = 0\<rparr>"

text \<open>\<open>++counts[key]\<close>, a missing entry starting at zero.\<close>

definition count_key :: "'k::linorder \<Rightarrow> ('k, u32) omap \<Rightarrow> ('k, u32) omap" where
  "count_key k m = om_set k ((case map_of m k of None \<Rightarrow> 0 | Some n \<Rightarrow> n) + 1) m"

definition tally_record :: "resource_record \<Rightarrow> host_tally \<Rightarrow> host_tally" where
  "tally_record r t =
     (let host = td_id (topo_host (res_topology r));
          rack = td_id (topo_rack (res_topology r));
          cluster = td_id (topo_cluster (res_topology r));
          t1 = (if host = 0
                then t\<lparr>ht_unknown_hosts := ht_unknown_hosts t + 1,
                       ht_dominant := max (ht_dominant t) 1\<rparr>
                else let hosts = count_key host (ht_hosts t);
                         share = (case map_of hosts host of None \<Rightarrow> 0 | Some n \<Rightarrow> n)
                     in t\<lparr>ht_hosts := hosts, ht_dominant := max (ht_dominant t) share\<rparr>);
          t2 = (if rack = 0 then t1\<lparr>ht_unknown_racks := ht_unknown_racks t1 + 1\<rparr>
                else t1\<lparr>ht_racks := count_key rack (ht_racks t1)\<rparr>)
      in if cluster = 0 then t2\<lparr>ht_unknown_clusters := ht_unknown_clusters t2 + 1\<rparr>
         else t2\<lparr>ht_clusters := count_key cluster (ht_clusters t2)\<rparr>)"

definition locality_value :: "nat \<Rightarrow> host_tally \<Rightarrow> int" where
  "locality_value n t =
     (if 1 < n then clamp_unit (trunc_div (uint (ht_dominant t - 1) * kUnit) (int n - 1)) else kUnit)"

definition topology_distance_value :: "host_tally \<Rightarrow> int" where
  "topology_distance_value t =
     (let host_count = int (length (ht_hosts t)) + uint (ht_unknown_hosts t);
          rack_count = int (length (ht_racks t)) + uint (ht_unknown_racks t);
          cluster_count = int (length (ht_clusters t)) + uint (ht_unknown_clusters t)
      in clamp_unit (kUnit - (host_count - 1) * 250000 - (rack_count - 1) * 125000 -
           (cluster_count - 1) * 62500))"

definition is_dataset_at :: "resource_requirement list \<Rightarrow> nat \<Rightarrow> bool" where
  "is_dataset_at qs i = (rq_resource_class (qs ! i) = RC_Dataset)"

definition dataset_value_at ::
  "resource_requirement list \<Rightarrow> resource_record list \<Rightarrow> nat \<Rightarrow> int" where
  "dataset_value_at qs records i =
     (let n = length records; dataset = records ! i;
          colocated = list_ex (\<lambda>j. \<not> (j = i \<or> is_dataset_at qs j) \<and>
             domains_are_equal (records ! j) dataset TS_Host) [0..<n]
      in if colocated then kUnit
         else if loc_local_dataset_versions (res_locality dataset) \<noteq> [] then kUnit div 2
         else kUnit div 4)"

definition dataset_locality_value :: "resource_requirement list \<Rightarrow> resource_record list \<Rightarrow> int" where
  "dataset_locality_value qs records =
     (let ds = filter (is_dataset_at qs) [0..<min (length records) (length qs)] in
      if ds = [] then kUnit
      else trunc_div (sum_list (map (dataset_value_at qs records) ds)) (int (length ds)))"

definition fairness_value :: "scheduler_state \<Rightarrow> schedule_request \<Rightarrow> int" where
  "fairness_value st req =
     (if sr_tenant req = [] then kUnit
      else
        let served = (case map_of (ss_tenant_service st) (sr_tenant req) of None \<Rightarrow> 0 | Some n \<Rightarrow> n);
            maximum = fold max (om_values (ss_tenant_service st)) 1
        in clamp_unit (kUnit - sint ((served * word_of_int kUnit) div maximum)))"

definition priority_value :: "schedule_request \<Rightarrow> int" where
  "priority_value req = clamp_unit (trunc_div ((sr_priority req + 1000) * kUnit) 2000)"

definition cross_values ::
  "scheduler_state \<Rightarrow> schedule_request \<Rightarrow> resource_record list \<Rightarrow> (ranking_factor \<Rightarrow> int)" where
  "cross_values st req records =
     (let n = length records; t = fold tally_record records empty_tally in
      (\<lambda>f. case f of
         RF_Locality \<Rightarrow> locality_value n t
       | RF_TopologyDistance \<Rightarrow> topology_distance_value t
       | RF_DatasetLocality \<Rightarrow> dataset_locality_value (sr_requirements req) records
       | RF_Fairness \<Rightarrow> fairness_value st req
       | RF_Priority \<Rightarrow> priority_value req
       | _ \<Rightarrow> 0))"

definition additive_total :: "candidate_resource list \<Rightarrow> ranking_factor \<Rightarrow> int" where
  "additive_total selection f = sum_list (map (\<lambda>c. cr_additive c f) selection)"

definition raw_score ::
  "scheduler_state \<Rightarrow> schedule_request \<Rightarrow> candidate_resource list \<Rightarrow> resource_record list \<Rightarrow> int" where
  "raw_score st req selection records =
     (let n = int (length selection); cross = cross_values st req records in
      sum_list (map (\<lambda>f.
        if kFactorScope f = FS_Additive then additive_total selection f * sr_weights req f
        else n * cross f * sr_weights req f) all_factors))"

definition factor_values ::
  "scheduler_state \<Rightarrow> schedule_request \<Rightarrow> candidate_resource list \<Rightarrow> resource_record list \<Rightarrow>
     ranking_factor_value list" where
  "factor_values st req selection records =
     (let n = int (length selection); cross = cross_values st req records in
      map (\<lambda>f.
        let v = (if kFactorScope f = FS_Additive
                 then (if n = 0 then 0 else trunc_div (additive_total selection f) n)
                 else cross f)
        in \<lparr>rfv_name = ranking_factor_name f, rfv_weight = sr_weights req f, rfv_value = v,
            rfv_weighted = trunc_div (v * sr_weights req f) 1000\<rparr>) all_factors)"

definition cross_bound :: "schedule_request \<Rightarrow> nat \<Rightarrow> int" where
  "cross_bound req n =
     sum_list (map (\<lambda>f. if 0 < sr_weights req f then int n * sr_weights req f * kUnit else 0)
       (filter (\<lambda>f. kFactorScope f = FS_Cross) all_factors))"

section \<open>Compound constraints\<close>

definition grouped_pairs :: "resource_requirement list \<Rightarrow> nat \<Rightarrow> affinity_constraint \<Rightarrow> (nat \<times> nat) list" where
  "grouped_pairs qs n c =
     (let idx = [0..<min n (length qs)] in
      concat (map (\<lambda>i. if rq_affinity_group (qs ! i) \<noteq> aff_group_a c then []
        else map (Pair i) (filter (\<lambda>j. rq_affinity_group (qs ! j) = aff_group_b c) idx)) idx))"

definition affinity_violated ::
  "resource_requirement list \<Rightarrow> resource_record list \<Rightarrow> affinity_constraint \<Rightarrow> bool" where
  "affinity_violated qs records c =
     list_ex (\<lambda>(i, j). \<not> domains_are_equal (records ! i) (records ! j) (aff_scope c))
       (grouped_pairs qs (length records) c)"

definition anti_affinity_violated ::
  "resource_requirement list \<Rightarrow> resource_record list \<Rightarrow> affinity_constraint \<Rightarrow> bool" where
  "anti_affinity_violated qs records c =
     list_ex (\<lambda>(i, j). \<not> domains_are_disjoint (records ! i) (records ! j) (aff_scope c))
       (grouped_pairs qs (length records) c)"

text \<open>\<open>None\<close> is the verdict \<open>true\<close>; a failure carries the reason of the out parameter.\<close>

definition validate_selection ::
  "scheduler_state \<Rightarrow> schedule_request \<Rightarrow> resource_record list \<Rightarrow> candidate_resource list \<Rightarrow>
     reject_reason option" where
  "validate_selection st req records selection =
     (let qs = sr_requirements req in
      if \<not> distinct (map res_id records) then Some RR_AlreadySelected
      else if list_ex (affinity_violated qs records) (sr_affinity req) then
        Some RR_AffinityViolation
      else if list_ex (anti_affinity_violated qs records) (sr_anti_affinity req) then
        Some RR_AntiAffinityViolation
      else if sr_experiment_anti_affinity req \<and>
          list_ex (\<lambda>r. reserved_by_other_placement st (sr_experiment req) (res_id r) (sr_id req))
            records then Some RR_AntiAffinityViolation
      else if sr_exclusive req \<and> list_ex (\<lambda>c. \<not> cr_exclusive c) selection then
        Some RR_ExclusivityConflict
      else None)"

section \<open>Ranges\<close>

lemma clamp_unit_range: "0 \<le> clamp_unit v" "clamp_unit v \<le> kUnit"
  by (simp_all add: clamp_unit_def kUnit_def)

lemma kUnit_pos [simp]: "0 \<le> kUnit" "0 \<le> kUnit div 2" "kUnit div 2 \<le> kUnit" "0 \<le> kUnit div 4"
    "kUnit div 4 \<le> kUnit"
  by (simp_all add: kUnit_def)

lemma accelerator_fit_range: "0 \<le> accelerator_fit_value q r \<and> accelerator_fit_value q r \<le> kUnit"
  by (simp add: accelerator_fit_value_def Let_def clamp_unit_range)

lemma additive_range:
  "0 \<le> compute_additive_values st req q r el f \<and> compute_additive_values st req q r el f \<le> kUnit"
proof (cases f)
  case RF_AcceleratorFit
  with accelerator_fit_range show ?thesis by (simp add: compute_additive_values_def)
qed (auto simp: compute_additive_values_def occupancy_value_def residual_value_def
    model_warmth_value_def simulator_readiness_value_def fragmentation_value_def Let_def
    clamp_unit_range split: readiness_state.split)

lemma trunc_div_nonneg: "0 \<le> a \<Longrightarrow> 0 < b \<Longrightarrow> trunc_div a b = a div b"
  by (cases "a = 0") (simp_all add: trunc_div_def)

lemma dataset_value_range: "0 \<le> dataset_value_at qs rs i \<and> dataset_value_at qs rs i \<le> kUnit"
  by (simp add: dataset_value_at_def Let_def kUnit_def)

lemma sum_list_range:
  fixes f :: "'a \<Rightarrow> int"
  assumes "\<And>x. x \<in> set xs \<Longrightarrow> 0 \<le> f x \<and> f x \<le> k"
  shows "0 \<le> sum_list (map f xs) \<and> sum_list (map f xs) \<le> int (length xs) * k"
  using assms by (induction xs) (auto simp: algebra_simps intro: add_mono)

lemma dataset_locality_range:
  "0 \<le> dataset_locality_value qs rs \<and> dataset_locality_value qs rs \<le> kUnit"
proof -
  let ?ds = "filter (is_dataset_at qs) [0..<min (length rs) (length qs)]"
  let ?s = "sum_list (map (dataset_value_at qs rs) ?ds)"
  have s: "0 \<le> ?s \<and> ?s \<le> int (length ?ds) * kUnit"
    by (rule sum_list_range) (rule dataset_value_range)
  show ?thesis
  proof (cases "?ds = []")
    case True
    then show ?thesis by (simp add: dataset_locality_value_def Let_def kUnit_def)
  next
    case False
    then have pos: "0 < int (length ?ds)" by simp
    from s pos have "?s div int (length ?ds) \<le> int (length ?ds) * kUnit div int (length ?ds)"
      by (intro zdiv_mono1) simp_all
    with pos have "?s div int (length ?ds) \<le> kUnit" by simp
    moreover from s pos have "0 \<le> ?s div int (length ?ds)" by (simp add: pos_imp_zdiv_nonneg_iff)
    ultimately show ?thesis
      using False s pos by (simp add: dataset_locality_value_def Let_def trunc_div_nonneg)
  qed
qed

lemma cross_range: "0 \<le> cross_values st req rs f \<and> cross_values st req rs f \<le> kUnit"
proof (cases f)
  case RF_DatasetLocality
  then show ?thesis using dataset_locality_range by (simp add: cross_values_def Let_def)
qed (use clamp_unit_range in \<open>auto simp: cross_values_def Let_def locality_value_def
      topology_distance_value_def fairness_value_def priority_value_def kUnit_def\<close>)

section \<open>Scores\<close>

text \<open>
  A candidate built by the engine has its additive values within \<open>[0, kUnit]\<close> and its partial
  score equal to their weighted sum. \<open>scored\<close> says so for one weight vector.
\<close>

definition scored :: "ranking_weights \<Rightarrow> candidate_resource \<Rightarrow> bool" where
  "scored w c \<longleftrightarrow> cr_partial c = additive_partial w (cr_additive c) \<and>
     (\<forall>f\<in>set all_factors. 0 \<le> cr_additive c f \<and> cr_additive c f \<le> kUnit)"

definition weights_checked :: "ranking_weights \<Rightarrow> bool" where
  "weights_checked w \<longleftrightarrow> (\<forall>f\<in>set all_factors. -1000 \<le> w f \<and> w f \<le> 1000)"

lemma scored_range: "scored w c \<Longrightarrow> 0 \<le> cr_additive c f \<and> cr_additive c f \<le> kUnit"
  unfolding scored_def using all_factors_complete [of f] by blast

lemma weights_range: "weights_checked w \<Longrightarrow> \<bar>w f\<bar> \<le> 1000"
  unfolding weights_checked_def using all_factors_complete [of f] by force

lemma additive_total_range:
  assumes "\<forall>c\<in>set sel. scored w c"
  shows "0 \<le> additive_total sel f \<and> additive_total sel f \<le> int (length sel) * kUnit"
  unfolding additive_total_def by (rule sum_list_range) (use assms scored_range in blast)

lemma abs_mult_le:
  fixes a b :: int
  shows "\<bar>a\<bar> \<le> x \<Longrightarrow> \<bar>b\<bar> \<le> y \<Longrightarrow> \<bar>a * b\<bar> \<le> x * y"
  by (simp add: abs_mult mult_mono)

lemma raw_score_term:
  assumes "weights_checked (sr_weights req)" and "\<forall>c\<in>set sel. scored (sr_weights req) c"
  shows "\<bar>if kFactorScope f = FS_Additive then additive_total sel f * sr_weights req f
      else int (length sel) * cross_values st req rs f * sr_weights req f\<bar>
    \<le> int (length sel) * kUnit * 1000"
proof -
  have w: "\<bar>sr_weights req f\<bar> \<le> 1000" using assms(1) by (rule weights_range)
  have "\<bar>additive_total sel f\<bar> \<le> int (length sel) * kUnit"
    using additive_total_range [OF assms(2)] by simp
  moreover have "\<bar>int (length sel) * cross_values st req rs f\<bar> \<le> int (length sel) * kUnit"
    using cross_range [of st req rs f] by (simp add: abs_mult mult_left_mono)
  ultimately show ?thesis using w by (simp add: abs_mult_le)
qed

lemma raw_score_bound:
  assumes "weights_checked (sr_weights req)" and "\<forall>c\<in>set sel. scored (sr_weights req) c"
  shows "\<bar>raw_score st req sel rs\<bar> \<le> int (length sel) * 12000000000"
proof -
  have bound: "\<And>xs. \<bar>sum_list (map (\<lambda>f. if kFactorScope f = FS_Additive
      then additive_total sel f * sr_weights req f
      else int (length sel) * cross_values st req rs f * sr_weights req f) xs)\<bar>
    \<le> int (length xs) * (int (length sel) * kUnit * 1000)"
  proof -
    fix xs
    show "?thesis xs"
    proof (induction xs)
      case (Cons f xs)
      from Cons raw_score_term [OF assms, of f st rs] show ?case
        by (simp add: distrib_right)
    qed simp
  qed
  show ?thesis
    using bound [of all_factors]
    by (simp add: raw_score_def Let_def all_factors_list kUnit_def algebra_simps)
qed

text \<open>The bound that prunes the search: additive part plus the best cross part.\<close>

lemma sum_partials:
  assumes "\<forall>c\<in>set sel. scored w c"
  shows "sum_list (map cr_partial sel) =
    sum_list (map (\<lambda>f. additive_total sel f * w f)
      (filter (\<lambda>f. kFactorScope f = FS_Additive) all_factors))"
  using assms
proof (induction sel)
  case Nil
  then show ?case by (simp add: additive_total_def all_factors_list)
next
  case (Cons c sel)
  then have "cr_partial c = additive_partial w (cr_additive c)" by (simp add: scored_def)
  with Cons show ?case
    by (simp add: additive_partial_def additive_total_def all_factors_list algebra_simps)
qed

lemma cross_term_le:
  assumes "0 \<le> c" and "c \<le> kUnit" and "0 \<le> n"
  shows "n * c * w \<le> (if 0 < w then n * w * kUnit else (0::int))"
proof (cases "0 < w")
  case True
  have "n * w * c \<le> n * w * kUnit" using assms True by (intro mult_left_mono) simp_all
  with True show ?thesis by (simp add: mult.assoc mult.commute mult.left_commute)
next
  case False
  then show ?thesis using assms by (simp add: mult_nonneg_nonpos)
qed

lemma raw_score_le_bound:
  assumes "\<forall>c\<in>set sel. scored (sr_weights req) c"
  shows "raw_score st req sel rs \<le> sum_list (map cr_partial sel) + cross_bound req (length sel)"
proof -
  note t = cross_term_le [of "cross_values st req rs f" "int (length sel)" "sr_weights req f" for f]
  have x: "int (length sel) * cross_values st req rs f * sr_weights req f
      \<le> (if 0 < sr_weights req f then int (length sel) * sr_weights req f * kUnit else 0)" for f
    using t [of f] cross_range [of st req rs f] by simp
  show ?thesis
    unfolding sum_partials [OF assms] raw_score_def cross_bound_def Let_def all_factors_list
    using x [of RF_Locality] x [of RF_DatasetLocality] x [of RF_TopologyDistance]
      x [of RF_Fairness] x [of RF_Priority]
    by simp
qed

end
