(* ===== verification/Search.thy ===== *)
theory Search
  imports Ranking
begin

text \<open>
  The combination search of \<open>engine_scheduling.cpp\<close>: a depth-first walk over one candidate per
  requirement that scores complete selections, keeps the best \<open>max_candidates_ranked\<close> of them,
  stops at \<open>max_candidates_evaluated\<close> and prunes with an upper bound on the remaining score. The
  recursion follows the list of requirements, the inner loop the list of candidates, so both
  are structural. The main lemmas: the counters stay within their limits, every kept candidate is
  a valid selection, and an untruncated search keeps a candidate that no valid selection beats.
\<close>

section \<open>Ranked candidates\<close>

record ranking_candidate =
  rkc_selection :: "candidate_resource list"
  rkc_resources :: "resource_id list"
  rkc_raw :: int
  rkc_factors :: "ranking_factor_value list"
  rkc_tie_break :: string

record search_outcome =
  so_candidates :: "ranking_candidate list"
  so_cross_rejections :: "(reject_reason, u32) omap"
  so_evaluations :: u32
  so_truncated :: bool

definition empty_outcome :: search_outcome where
  "empty_outcome = \<lparr>so_candidates = [], so_cross_rejections = [], so_evaluations = 0,
     so_truncated = False\<rparr>"

definition candidate_is_better :: "ranking_candidate \<Rightarrow> ranking_candidate \<Rightarrow> bool" where
  "candidate_is_better left right =
     (if rkc_raw left \<noteq> rkc_raw right then rkc_raw right < rkc_raw left
      else rkc_tie_break left < rkc_tie_break right)"

section \<open>A complete selection\<close>

text \<open>The records of a selection, absent when one of them is no longer registered.\<close>

definition selection_records ::
  "scheduler_state \<Rightarrow> candidate_resource list \<Rightarrow> resource_record list option" where
  "selection_records st sel = those (map (\<lambda>c. map_of (ss_resources st) (cr_id c)) sel)"

definition rank_selection ::
  "scheduler_state \<Rightarrow> schedule_request \<Rightarrow> candidate_resource list \<Rightarrow> resource_record list \<Rightarrow>
     ranking_candidate" where
  "rank_selection st req sel records =
     (let ids = sort_by (<) (map cr_id sel) in
      \<lparr>rkc_selection = sel, rkc_resources = ids, rkc_raw = raw_score st req sel records,
       rkc_factors = factor_values st req sel records,
       rkc_tie_break = canonical_resource_key ids\<rparr>)"

text \<open>The position of the element no other element is worse than, as the loop finds it.\<close>

definition worst_index :: "ranking_candidate list \<Rightarrow> nat" where
  "worst_index cs =
     fold (\<lambda>i w. if candidate_is_better (cs ! w) (cs ! i) then i else w) [0..<length cs] 0"

text \<open>With \<open>max_candidates_ranked\<close> zero the source compares with the last element of an empty vector,
  which is undefined; the list stays empty here, and \<open>config_ok\<close> excludes the case.\<close>

definition keep_candidate ::
  "limits \<Rightarrow> ranking_candidate \<Rightarrow> ranking_candidate list \<Rightarrow> ranking_candidate list" where
  "keep_candidate lim cand cs =
     (if length cs < unat (max_candidates_ranked lim) then cs @ [cand]
      else let w = worst_index cs in
        if candidate_is_better cand (cs ! w) then cs[w := cand] else cs)"

type_synonym search_state = "search_outcome \<times> int"

definition search_leaf ::
  "scheduler_state \<Rightarrow> schedule_request \<Rightarrow> limits \<Rightarrow> candidate_resource list \<Rightarrow> search_state \<Rightarrow>
     search_state" where
  "search_leaf st req lim current = (\<lambda>(out, best).
     let out1 = out\<lparr>so_evaluations := so_evaluations out + 1\<rparr> in
     case selection_records st current of
       None \<Rightarrow> (out1, best)
     | Some records \<Rightarrow>
         (case validate_selection st req records current of
            Some failure \<Rightarrow>
              (out1\<lparr>so_cross_rejections := count_key failure (so_cross_rejections out1)\<rparr>, best)
          | None \<Rightarrow>
              let cand = rank_selection st req current records;
                  best1 = (if best < rkc_raw cand then rkc_raw cand else best)
              in (out1\<lparr>so_candidates := keep_candidate lim cand (so_candidates out1)\<rparr>, best1)))"

section \<open>The search\<close>

primrec search_loop ::
  "(candidate_resource \<Rightarrow> int \<Rightarrow> bool) \<Rightarrow> (candidate_resource \<Rightarrow> search_state \<Rightarrow> search_state) \<Rightarrow>
     candidate_resource list \<Rightarrow> search_state \<Rightarrow> search_state" where
  "search_loop prune visit [] s = s"
| "search_loop prune visit (c # cs) s =
     (if prune c (snd s) then s
      else let s' = visit c s in
        if so_truncated (fst s') then s' else search_loop prune visit cs s')"

text \<open>The two tests at the head of every call.\<close>

definition search_guard :: "limits \<Rightarrow> (search_state \<Rightarrow> search_state) \<Rightarrow> search_state \<Rightarrow> search_state" where
  "search_guard lim body s =
     (if so_truncated (fst s) then s
      else if max_candidates_evaluated lim \<le> so_evaluations (fst s)
      then ((fst s)\<lparr>so_truncated := True\<rparr>, snd s)
      else body s)"

text \<open>
  \<open>search_recursive(index, ...)\<close> with the plans and \<open>remaining_max\<close> from \<open>index\<close> on:
  \<open>hd (tl rem)\<close> is \<open>remaining_max[index + 1]\<close>.
\<close>

primrec search_recursive ::
  "scheduler_state \<Rightarrow> schedule_request \<Rightarrow> limits \<Rightarrow> int \<Rightarrow> candidate_resource list list \<Rightarrow>
     int list \<Rightarrow> int \<Rightarrow> candidate_resource list \<Rightarrow> search_state \<Rightarrow> search_state" where
  "search_recursive st req lim bound [] rem partial current s =
     search_guard lim (search_leaf st req lim current) s"
| "search_recursive st req lim bound (plan # plans) rem partial current s =
     search_guard lim
       (search_loop (\<lambda>c best. partial + cr_partial c + hd (tl rem) + bound < best)
         (\<lambda>c. search_recursive st req lim bound plans (tl rem) (partial + cr_partial c)
            (current @ [c])) plan) s"

primrec remaining_max :: "candidate_resource list list \<Rightarrow> int list" where
  "remaining_max [] = [0]"
| "remaining_max (plan # plans) =
     (let rest = remaining_max plans
      in (hd rest + (if plan = [] then 0 else cr_partial (hd plan))) # rest)"

definition int64_min :: int where "int64_min = - 9223372036854775808"

definition run_search ::
  "scheduler_state \<Rightarrow> schedule_request \<Rightarrow> limits \<Rightarrow> candidate_resource list list \<Rightarrow> search_outcome"
where
  "run_search st req lim plans =
     fst (search_recursive st req lim (cross_bound req (length plans)) plans
       (remaining_max plans) 0 [] (empty_outcome, int64_min))"

section \<open>Order of candidates\<close>

lemma candidate_is_better_weak_order: "weak_order candidate_is_better"
  unfolding weak_order_def candidate_is_better_def by (auto split: if_splits)

lemma better_trans:
  "candidate_is_better x y \<Longrightarrow> \<not> candidate_is_better z y \<Longrightarrow> \<not> candidate_is_better z x"
  unfolding candidate_is_better_def by (auto split: if_splits)

lemma not_better_refl [simp]: "\<not> candidate_is_better x x"
  by (simp add: candidate_is_better_def)

lemma not_better_raw: "\<not> candidate_is_better x y \<Longrightarrow> rkc_raw x \<le> rkc_raw y"
  unfolding candidate_is_better_def by (auto split: if_splits)

section \<open>Selections\<close>

text \<open>All selections of one candidate per plan, and the valid ones with their rank.\<close>

primrec selections :: "'a list list \<Rightarrow> 'a list list" where
  "selections [] = [[]]"
| "selections (plan # plans) = concat (map (\<lambda>c. map (Cons c) (selections plans)) plan)"

definition valid_rank ::
  "scheduler_state \<Rightarrow> schedule_request \<Rightarrow> candidate_resource list \<Rightarrow> ranking_candidate \<Rightarrow> bool" where
  "valid_rank st req sel cand \<longleftrightarrow>
     (\<exists>records. selection_records st sel = Some records \<and>
        validate_selection st req records sel = None \<and> cand = rank_selection st req sel records)"

lemma set_selections_Cons:
  "set (selections (plan # plans)) = {c # sel |c sel. c \<in> set plan \<and> sel \<in> set (selections plans)}"
  by auto

lemma length_selections: "sel \<in> set (selections plans) \<Longrightarrow> length sel = length plans"
  by (induction plans arbitrary: sel) auto

lemma valid_rank_selection: "valid_rank st req sel cand \<Longrightarrow> rkc_selection cand = sel"
  by (auto simp: valid_rank_def rank_selection_def Let_def)

lemma valid_rank_raw:
  "valid_rank st req sel cand \<Longrightarrow> \<exists>records. rkc_raw cand = raw_score st req sel records"
  by (auto simp: valid_rank_def rank_selection_def Let_def)

section \<open>Worst candidate\<close>

lemma worst_index_bound: "cs \<noteq> [] \<Longrightarrow> worst_index cs < length cs"
proof -
  assume "cs \<noteq> []"
  have "fold (\<lambda>i w. if candidate_is_better (cs ! w) (cs ! i) then i else w) is w0 < length cs"
    if "w0 < length cs" "\<forall>i\<in>set is. i < length cs" for "is" w0
    using that by (induction "is" arbitrary: w0) auto
  with \<open>cs \<noteq> []\<close> show ?thesis by (auto simp: worst_index_def)
qed

lemma length_keep_candidate:
  "length cs \<le> unat (max_candidates_ranked lim) \<Longrightarrow>
     length (keep_candidate lim cand cs) \<le> unat (max_candidates_ranked lim)"
  by (simp add: keep_candidate_def Let_def)

lemma set_keep_candidate: "set (keep_candidate lim cand cs) \<subseteq> insert cand (set cs)"
  by (auto simp: keep_candidate_def Let_def dest: subsetD [OF set_update_subset_insert])

text \<open>Keeping a candidate never loses coverage: what was not better than a kept one still is not.\<close>

lemma keep_candidate_covers:
  assumes "max_candidates_ranked lim \<noteq> 0"
    and "x = cand \<or> (\<exists>c\<in>set cs. \<not> candidate_is_better x c)"
  shows "\<exists>c\<in>set (keep_candidate lim cand cs). \<not> candidate_is_better x c"
proof (cases "length cs < unat (max_candidates_ranked lim)")
  case True
  with assms(2) show ?thesis by (auto simp: keep_candidate_def)
next
  case False
  with assms(1) have ne: "cs \<noteq> []" by (auto simp: unat_gt_0)
  let ?w = "worst_index cs"
  have w: "?w < length cs" using ne by (rule worst_index_bound)
  show ?thesis
  proof (cases "candidate_is_better cand (cs ! ?w)")
    case better: True
    have eq: "keep_candidate lim cand cs = cs[?w := cand]"
      using False better by (simp add: keep_candidate_def Let_def)
    have mem: "cand \<in> set (cs[?w := cand])" using w by (simp add: set_update_memI)
    show ?thesis
    proof (cases "x = cand")
      case True
      with eq mem show ?thesis by (metis not_better_refl)
    next
      case False
      with assms(2) obtain c where c: "c \<in> set cs" "\<not> candidate_is_better x c" by auto
      then obtain i where i: "i < length cs" "c = cs ! i" by (auto simp: in_set_conv_nth)
      show ?thesis
      proof (cases "i = ?w")
        case True
        with c i have "\<not> candidate_is_better x (cs ! ?w)" by simp
        from better_trans [OF better this] have "\<not> candidate_is_better x cand" .
        with eq mem show ?thesis by auto
      next
        case False
        with i have "c = cs[?w := cand] ! i" "i < length (cs[?w := cand])" by auto
        then have "c \<in> set (cs[?w := cand])" by (metis nth_mem)
        with eq c show ?thesis by auto
      qed
    qed
  next
    case worse: False
    have eq: "keep_candidate lim cand cs = cs"
      using False worse by (simp add: keep_candidate_def Let_def)
    from w have "cs ! ?w \<in> set cs" by simp
    with assms(2) worse eq show ?thesis by auto
  qed
qed

section \<open>Bounds\<close>

definition search_bounded :: "limits \<Rightarrow> search_state \<Rightarrow> bool" where
  "search_bounded lim s \<longleftrightarrow>
     so_evaluations (fst s) \<le> max_candidates_evaluated lim \<and>
     length (so_candidates (fst s)) \<le> unat (max_candidates_ranked lim)"

lemma search_loop_invariant:
  assumes "\<And>c s. P s \<Longrightarrow> P (visit c s)" and "P s"
  shows "P (search_loop prune visit cs s)"
  using assms(2) by (induction cs arbitrary: s) (auto simp: Let_def assms(1))

lemma search_leaf_bounded:
  assumes "search_bounded lim s" and "so_evaluations (fst s) < max_candidates_evaluated lim"
  shows "search_bounded lim (search_leaf st req lim current s)"
proof -
  obtain out best where s: "s = (out, best)" by fastforce
  have "so_evaluations out + 1 \<le> max_candidates_evaluated lim"
    using assms(2) s by (simp add: inc_le)
  with assms s show ?thesis
    by (auto simp: search_bounded_def search_leaf_def Let_def length_keep_candidate
        split: option.split)
qed

lemma search_guard_bounded:
  assumes "search_bounded lim s"
    and "so_evaluations (fst s) < max_candidates_evaluated lim \<Longrightarrow> search_bounded lim (body s)"
  shows "search_bounded lim (search_guard lim body s)"
  using assms by (auto simp: search_guard_def search_bounded_def not_le)

lemma search_recursive_bounded:
  "search_bounded lim s \<Longrightarrow>
     search_bounded lim (search_recursive st req lim bound plans rem partial current s)"
proof (induction plans arbitrary: rem partial current s)
  case Nil
  then show ?case by (auto intro!: search_guard_bounded search_leaf_bounded)
next
  case (Cons plan plans)
  from Cons.prems show ?case
    by (auto intro!: search_guard_bounded search_loop_invariant [where P = "search_bounded lim"]
        Cons.IH)
qed

lemma run_search_bounds:
  "so_evaluations (run_search st req lim plans) \<le> max_candidates_evaluated lim"
  "length (so_candidates (run_search st req lim plans)) \<le> unat (max_candidates_ranked lim)"
proof -
  have "search_bounded lim (empty_outcome, int64_min)"
    by (simp add: search_bounded_def empty_outcome_def)
  from search_recursive_bounded [OF this]
  show "so_evaluations (run_search st req lim plans) \<le> max_candidates_evaluated lim"
    "length (so_candidates (run_search st req lim plans)) \<le> unat (max_candidates_ranked lim)"
    by (simp_all add: run_search_def search_bounded_def)
qed

section \<open>Soundness\<close>

definition kept_valid ::
  "scheduler_state \<Rightarrow> schedule_request \<Rightarrow> candidate_resource list set \<Rightarrow> search_state \<Rightarrow> bool" where
  "kept_valid st req pool s \<longleftrightarrow>
     (\<forall>cand\<in>set (so_candidates (fst s)). rkc_selection cand \<in> pool \<and>
        valid_rank st req (rkc_selection cand) cand)"

lemma search_leaf_valid:
  assumes "kept_valid st req pool s" and "current \<in> pool"
  shows "kept_valid st req pool (search_leaf st req lim current s)"
proof -
  obtain out best where s: "s = (out, best)" by fastforce
  have "rkc_selection c \<in> pool \<and> valid_rank st req (rkc_selection c) c"
    if "selection_records st current = Some rs" "validate_selection st req rs current = None"
      "c \<in> set (keep_candidate lim (rank_selection st req current rs) (so_candidates out))" for rs c
  proof -
    from that(3) set_keep_candidate
    consider "c = rank_selection st req current rs" | "c \<in> set (so_candidates out)" by blast
    then show ?thesis
    proof cases
      case 1
      with that have v: "valid_rank st req current c" by (auto simp: valid_rank_def)
      from valid_rank_selection [OF v] v assms(2) show ?thesis by simp
    next
      case 2
      with assms(1) s show ?thesis by (simp add: kept_valid_def)
    qed
  qed
  with assms s show ?thesis
    by (auto simp: kept_valid_def search_leaf_def Let_def split: option.split)
qed

lemma search_guard_valid:
  "kept_valid st req pool s \<Longrightarrow> kept_valid st req pool (body s) \<Longrightarrow>
     kept_valid st req pool (search_guard lim body s)"
  by (simp add: search_guard_def kept_valid_def)

lemma search_loop_members:
  assumes "\<And>c s. c \<in> set cs \<Longrightarrow> P s \<Longrightarrow> P (visit c s)" and "P s"
  shows "P (search_loop prune visit cs s)"
  using assms by (induction cs arbitrary: s) (auto simp: Let_def)

lemma search_recursive_valid:
  assumes "\<forall>sel\<in>set (selections plans). current @ sel \<in> pool" and "kept_valid st req pool s"
  shows "kept_valid st req pool
    (search_recursive st req lim bound plans rem partial current s)"
  using assms
proof (induction plans arbitrary: rem partial current s)
  case Nil
  then show ?case by (simp add: search_guard_valid search_leaf_valid)
next
  case (Cons plan plans)
  have "kept_valid st req pool (search_recursive st req lim bound plans (tl rem)
      (partial + cr_partial c) (current @ [c]) s')"
    if "c \<in> set plan" "kept_valid st req pool s'" for c s'
  proof (rule Cons.IH)
    show "\<forall>sel\<in>set (selections plans). (current @ [c]) @ sel \<in> pool"
    proof
      fix sel
      assume "sel \<in> set (selections plans)"
      with that(1) have "c # sel \<in> set (selections (plan # plans))" by auto
      with Cons.prems(1) have "current @ (c # sel) \<in> pool" by blast
      then show "(current @ [c]) @ sel \<in> pool" by simp
    qed
  qed (rule that(2))
  with Cons.prems(2) show ?case
    by (auto intro!: search_guard_valid search_loop_members [where P = "kept_valid st req pool"])
qed

lemma run_search_valid:
  assumes "cand \<in> set (so_candidates (run_search st req lim plans))"
  shows "rkc_selection cand \<in> set (selections plans)"
    and "valid_rank st req (rkc_selection cand) cand"
proof -
  have "kept_valid st req (set (selections plans)) (search_recursive st req lim
      (cross_bound req (length plans)) plans (remaining_max plans) 0 [] (empty_outcome, int64_min))"
    by (rule search_recursive_valid) (simp_all add: kept_valid_def empty_outcome_def)
  with assms show "rkc_selection cand \<in> set (selections plans)"
    "valid_rank st req (rkc_selection cand) cand"
    by (auto simp: kept_valid_def run_search_def)
qed

section \<open>Optimality\<close>

text \<open>
  What the scheduler hands to the search: every plan is in descending order of the partial score
  and every candidate carries the scores of the request's weights.
\<close>

definition plans_ranked :: "ranking_weights \<Rightarrow> candidate_resource list list \<Rightarrow> bool" where
  "plans_ranked w plans \<longleftrightarrow>
     (\<forall>plan\<in>set plans. sorted_wrt (\<lambda>a b. cr_partial b \<le> cr_partial a) plan \<and>
        (\<forall>c\<in>set plan. scored w c))"

lemma plans_ranked_Cons:
  "plans_ranked w (plan # plans) \<longleftrightarrow>
     sorted_wrt (\<lambda>a b. cr_partial b \<le> cr_partial a) plan \<and> (\<forall>c\<in>set plan. scored w c) \<and>
     plans_ranked w plans"
  by (auto simp: plans_ranked_def)

lemma selections_scored:
  "plans_ranked w plans \<Longrightarrow> sel \<in> set (selections plans) \<Longrightarrow> c \<in> set sel \<Longrightarrow> scored w c"
  by (induction plans arbitrary: sel c) (auto simp: plans_ranked_Cons)

lemma front_is_maximum:
  "sorted_wrt (\<lambda>a b. cr_partial b \<le> cr_partial a) plan \<Longrightarrow> c \<in> set plan \<Longrightarrow>
     cr_partial c \<le> cr_partial (hd plan)"
  by (cases plan) auto

lemma remaining_max_bound:
  "plans_ranked w plans \<Longrightarrow> sel \<in> set (selections plans) \<Longrightarrow>
     sum_list (map cr_partial sel) \<le> hd (remaining_max plans)"
proof (induction plans arbitrary: sel)
  case (Cons plan plans)
  from Cons.prems(2) obtain c rest where sel: "sel = c # rest" "c \<in> set plan"
      "rest \<in> set (selections plans)" by auto
  from Cons.prems(1) sel have "cr_partial c \<le> cr_partial (hd plan)"
    by (auto simp: plans_ranked_Cons intro: front_is_maximum)
  moreover from Cons sel have "sum_list (map cr_partial rest) \<le> hd (remaining_max plans)"
    by (simp add: plans_ranked_Cons)
  ultimately show ?case using sel by (auto simp: Let_def)
qed simp

text \<open>\<open>explored X s\<close>: no valid selection of \<open>X\<close> beats every kept candidate of \<open>s\<close>.\<close>

definition explored ::
  "scheduler_state \<Rightarrow> schedule_request \<Rightarrow> candidate_resource list set \<Rightarrow> search_state \<Rightarrow> bool" where
  "explored st req X s \<longleftrightarrow>
     (\<forall>sel\<in>X. \<forall>cand. valid_rank st req sel cand \<longrightarrow>
        (\<exists>c\<in>set (so_candidates (fst s)). \<not> candidate_is_better cand c)) \<and>
     (snd s = int64_min \<or> (\<exists>c\<in>set (so_candidates (fst s)). snd s \<le> rkc_raw c))"

lemma explored_Un:
  "explored st req X s \<Longrightarrow> explored st req Y s \<Longrightarrow> explored st req (X \<union> Y) s"
  by (auto simp: explored_def)

lemma keep_candidate_best:
  assumes "max_candidates_ranked lim \<noteq> 0"
    and "b \<le> rkc_raw cand \<or> (\<exists>c\<in>set cs. b \<le> rkc_raw c)"
  shows "\<exists>c\<in>set (keep_candidate lim cand cs). b \<le> rkc_raw c"
proof -
  from assms(2) obtain x where x: "x = cand \<or> x \<in> set cs" "b \<le> rkc_raw x" by auto
  then have "x = cand \<or> (\<exists>c\<in>set cs. \<not> candidate_is_better x c)"
    using not_better_refl by blast
  from keep_candidate_covers [OF assms(1) this] obtain c
    where c: "c \<in> set (keep_candidate lim cand cs)" "\<not> candidate_is_better x c" by auto
  from not_better_raw [OF c(2)] x(2) have "b \<le> rkc_raw c" by simp
  with c(1) show ?thesis by blast
qed

lemma search_leaf_explored:
  assumes ne: "max_candidates_ranked lim \<noteq> 0" and ex: "explored st req X s"
  shows "explored st req (insert current X) (search_leaf st req lim current s)"
proof -
  obtain out best where s: "s = (out, best)" by fastforce
  show ?thesis
  proof (cases "\<exists>rs. selection_records st current = Some rs \<and>
      validate_selection st req rs current = None")
    case False
    then have "\<not> valid_rank st req current cand" for cand by (auto simp: valid_rank_def)
    moreover have "so_candidates (fst (search_leaf st req lim current s)) = so_candidates out"
      "snd (search_leaf st req lim current s) = best"
      using False s by (auto simp: search_leaf_def Let_def split: option.split)
    ultimately show ?thesis using ex s by (simp add: explored_def)
  next
    case True
    then obtain rs where rs: "selection_records st current = Some rs"
      "validate_selection st req rs current = None" by auto
    let ?cand = "rank_selection st req current rs"
    let ?kept = "keep_candidate lim ?cand (so_candidates out)"
    let ?best = "if best < rkc_raw ?cand then rkc_raw ?cand else best"
    have leaf: "so_candidates (fst (search_leaf st req lim current s)) = ?kept"
      "snd (search_leaf st req lim current s) = ?best"
      using rs s by (simp_all add: search_leaf_def Let_def)
    have unique: "valid_rank st req current cand \<Longrightarrow> cand = ?cand" for cand
      using rs by (auto simp: valid_rank_def)
    have "\<exists>c\<in>set ?kept. \<not> candidate_is_better cand c"
      if "sel \<in> insert current X" "valid_rank st req sel cand" for sel cand
      using that unique ex s
      by (intro keep_candidate_covers [OF ne]) (auto simp: explored_def)
    moreover have "?best = int64_min \<or> (\<exists>c\<in>set ?kept. ?best \<le> rkc_raw c)"
    proof (cases "?best = int64_min")
      case False
      with ex s have "?best \<le> rkc_raw ?cand \<or> (\<exists>c\<in>set (so_candidates out). ?best \<le> rkc_raw c)"
        by (auto simp: explored_def split: if_splits)
      with keep_candidate_best [OF ne] show ?thesis by blast
    qed simp
    ultimately show ?thesis using leaf by (simp add: explored_def)
  qed
qed

lemma explored_truncate [simp]:
  "explored st req X (out\<lparr>so_truncated := True\<rparr>, best) = explored st req X (out, best)"
  by (simp add: explored_def)

text \<open>One search call: what was explored stays explored, and a call that did not stop early has
  explored every completion of the current selection.\<close>

definition explores ::
  "scheduler_state \<Rightarrow> schedule_request \<Rightarrow> candidate_resource list set \<Rightarrow>
     (search_state \<Rightarrow> search_state) \<Rightarrow> bool" where
  "explores st req Y f \<longleftrightarrow>
     (\<forall>X s. explored st req X s \<longrightarrow> explored st req X (f s) \<and>
        (\<not> so_truncated (fst (f s)) \<longrightarrow> explored st req (X \<union> Y) (f s)))"

lemma explored_mono: "explored st req X s \<Longrightarrow> Y \<subseteq> X \<Longrightarrow> explored st req Y s"
  by (auto simp: explored_def)

lemma explores_guard:
  assumes "explores st req Y body"
  shows "explores st req Y (search_guard lim body)"
  unfolding explores_def
proof (intro allI impI)
  fix X s
  assume ex: "explored st req X s"
  let ?g = "search_guard lim body s"
  consider "so_truncated (fst s)" | "\<not> so_truncated (fst s)" "max_candidates_evaluated lim \<le> so_evaluations (fst s)"
    | "?g = body s"
    unfolding search_guard_def by (metis (full_types))
  then show "explored st req X ?g \<and> (\<not> so_truncated (fst ?g) \<longrightarrow> explored st req (X \<union> Y) ?g)"
  proof cases
    case 1
    with ex show ?thesis by (simp add: search_guard_def)
  next
    case 2
    with ex show ?thesis by (simp add: search_guard_def)
  next
    case 3
    with assms ex show ?thesis unfolding explores_def by metis
  qed
qed

lemma explores_loop:
  assumes visit: "\<And>c. c \<in> set cs \<Longrightarrow> explores st req (Y c) (visit c)"
    and prune: "\<And>pre c post X s. cs = pre @ c # post \<Longrightarrow> explored st req X s \<Longrightarrow> prune c (snd s) \<Longrightarrow>
      explored st req (\<Union>(Y ` set (c # post))) s"
  shows "explores st req (\<Union>(Y ` set cs)) (search_loop prune visit cs)"
  using assms
proof (induction cs)
  case Nil
  then show ?case by (simp add: explores_def)
next
  case (Cons c cs)
  have IH: "explores st req (\<Union>(Y ` set cs)) (search_loop prune visit cs)"
  proof (rule Cons.IH)
    show "explores st req (Y d) (visit d)" if "d \<in> set cs" for d using Cons.prems(1) that by simp
    show "explored st req (\<Union>(Y ` set (d # post))) s"
      if "cs = pre @ d # post" "explored st req X s" "prune d (snd s)" for pre d post X s
      using Cons.prems(2) [of "c # pre" d post X s] that by simp
  qed
  show ?case
    unfolding explores_def
  proof (intro allI impI)
    fix X s
    assume ex: "explored st req X s"
    let ?r = "search_loop prune visit (c # cs) s"
    show "explored st req X ?r \<and>
      (\<not> so_truncated (fst ?r) \<longrightarrow> explored st req (X \<union> \<Union>(Y ` set (c # cs))) ?r)"
    proof (cases "prune c (snd s)")
      case True
      from Cons.prems(2) [of "[]" c cs X s] ex True
      have "explored st req (\<Union>(Y ` set (c # cs))) s" by simp
      from explored_Un [OF ex this] True ex show ?thesis by simp
    next
      case False
      let ?s = "visit c s"
      have "explores st req (Y c) (visit c)" using Cons.prems(1) by simp
      then have v: "explored st req X ?s"
        "\<not> so_truncated (fst ?s) \<Longrightarrow> explored st req (X \<union> Y c) ?s"
        using ex unfolding explores_def by blast+
      show ?thesis
      proof (cases "so_truncated (fst ?s)")
        case True
        with False v show ?thesis by (simp add: Let_def)
      next
        case nt: False
        have eq: "?r = search_loop prune visit cs ?s" using False nt by (simp add: Let_def)
        from IH v(2) [OF nt] have
          "explored st req (X \<union> Y c) ?r"
          "\<not> so_truncated (fst ?r) \<Longrightarrow> explored st req ((X \<union> Y c) \<union> \<Union>(Y ` set cs)) ?r"
          unfolding eq explores_def by blast+
        then show ?thesis by (auto simp: Un_assoc elim: explored_mono)
      qed
    qed
  qed
qed

lemma selections_image:
  "{current @ sel |sel. sel \<in> set (selections (plan # plans))} =
     \<Union>((\<lambda>c. {(current @ [c]) @ sel |sel. sel \<in> set (selections plans)}) ` set plan)"
  by auto

text \<open>Pruned selections are beaten by the best score seen.\<close>

lemma pruned_explored:
  assumes ex: "explored st req X s"
    and low: "\<And>sel rs. sel \<in> Y \<Longrightarrow> int64_min \<le> raw_score st req sel rs \<and> raw_score st req sel rs < snd s"
  shows "explored st req Y s"
proof -
  have "\<exists>c\<in>set (so_candidates (fst s)). \<not> candidate_is_better cand c"
    if "sel \<in> Y" "valid_rank st req sel cand" for sel cand
  proof -
    from valid_rank_raw [OF that(2)] obtain rs where "rkc_raw cand = raw_score st req sel rs" ..
    with low [OF that(1), of rs] have c: "int64_min \<le> rkc_raw cand" "rkc_raw cand < snd s" by simp_all
    with ex obtain c where "c \<in> set (so_candidates (fst s))" "snd s \<le> rkc_raw c"
      by (auto simp: explored_def)
    with c have "\<not> candidate_is_better cand c" by (simp add: candidate_is_better_def)
    with \<open>c \<in> _\<close> show ?thesis by blast
  qed
  with ex show ?thesis by (auto simp: explored_def)
qed

lemma search_recursive_explores:
  assumes ne: "max_candidates_ranked lim \<noteq> 0" and w: "weights_checked (sr_weights req)"
    and "plans_ranked (sr_weights req) plans" and "\<forall>c\<in>set current. scored (sr_weights req) c"
    and "length current + length plans \<le> 2 ^ 29"
    and "bound = cross_bound req (length current + length plans)"
    and "partial = sum_list (map cr_partial current)" and "rem = remaining_max plans"
  shows "explores st req {current @ sel |sel. sel \<in> set (selections plans)}
    (search_recursive st req lim bound plans rem partial current)"
  using assms(3-)
proof (induction plans arbitrary: rem partial current)
  case Nil
  have "explores st req {current} (search_leaf st req lim current)"
    unfolding explores_def
    using search_leaf_explored [OF ne] explored_mono by (metis Un_insert_right sup_bot_right subset_insertI)
  then show ?case by (simp add: explores_guard)
next
  case (Cons plan plans)
  let ?w = "sr_weights req"
  let ?Y = "\<lambda>c. {(current @ [c]) @ sel |sel. sel \<in> set (selections plans)}"
  from Cons.prems have ranked: "plans_ranked ?w plans" and sorted:
    "sorted_wrt (\<lambda>a b. cr_partial b \<le> cr_partial a) plan"
    and sc: "\<forall>c\<in>set plan. scored ?w c"
    by (simp_all add: plans_ranked_Cons)
  have "explores st req (\<Union>(?Y ` set plan))
    (search_loop (\<lambda>c best. partial + cr_partial c + hd (tl rem) + bound < best)
      (\<lambda>c. search_recursive st req lim bound plans (tl rem) (partial + cr_partial c)
        (current @ [c])) plan)"
  proof (rule explores_loop)
    show "explores st req (?Y c) (search_recursive st req lim bound plans (tl rem)
        (partial + cr_partial c) (current @ [c]))" if "c \<in> set plan" for c
      by (rule Cons.IH) (use Cons.prems ranked sc that in \<open>auto simp: Let_def\<close>)
  next
    fix pre c post X s
    assume plan: "plan = pre @ c # post" and ex: "explored st req X s"
      and pr: "partial + cr_partial c + hd (tl rem) + bound < snd s"
    show "explored st req (\<Union>(?Y ` set (c # post))) s"
    proof (rule pruned_explored [OF ex])
      fix sel rs
      assume "sel \<in> \<Union>(?Y ` set (c # post))"
      then obtain d rest where d: "d \<in> set (c # post)" "rest \<in> set (selections plans)"
        "sel = current @ d # rest" by auto
      have all: "\<forall>x\<in>set sel. scored ?w x"
        using d plan sc Cons.prems(2) selections_scored [OF ranked d(2)] by auto
      have len: "length sel = length current + length (plan # plans)"
        using d length_selections by auto
      have "cr_partial d \<le> cr_partial c" using d(1) sorted plan by (auto simp: sorted_wrt_append)
      moreover have "sum_list (map cr_partial rest) \<le> hd (tl rem)"
        using remaining_max_bound [OF ranked d(2)] Cons.prems(6) by (simp add: Let_def)
      ultimately have "raw_score st req sel rs \<le> partial + cr_partial c + hd (tl rem) + bound"
        using raw_score_le_bound [OF all, of st rs] len d(3) Cons.prems(4,5) by simp
      moreover have "int64_min \<le> raw_score st req sel rs"
        using raw_score_bound [OF w all, of st rs] len Cons.prems(3) by (simp add: int64_min_def)
      ultimately show "int64_min \<le> raw_score st req sel rs \<and> raw_score st req sel rs < snd s"
        using pr by simp
    qed
  qed
  then show ?case unfolding selections_image by (simp add: explores_guard)
qed

text \<open>The pruned search loses nothing: unless it was truncated, no valid selection beats every
  kept candidate.\<close>

lemma run_search_optimal:
  assumes "max_candidates_ranked lim \<noteq> 0" and "weights_checked (sr_weights req)"
    and "plans_ranked (sr_weights req) plans" and "length plans \<le> 2 ^ 29"
    and "\<not> so_truncated (run_search st req lim plans)"
    and "sel \<in> set (selections plans)" and "valid_rank st req sel cand"
  shows "\<exists>c\<in>set (so_candidates (run_search st req lim plans)). \<not> candidate_is_better cand c"
proof -
  have "explores st req {[] @ sel |sel. sel \<in> set (selections plans)}
    (search_recursive st req lim (cross_bound req (length plans)) plans (remaining_max plans) 0 [])"
    by (rule search_recursive_explores) (use assms in simp_all)
  moreover have "explored st req {} (empty_outcome, int64_min)" by (simp add: explored_def)
  ultimately have "explored st req (set (selections plans)) (search_recursive st req lim
      (cross_bound req (length plans)) plans (remaining_max plans) 0 [] (empty_outcome, int64_min))"
    using assms(5) unfolding explores_def run_search_def by force
  with assms(6,7) show ?thesis by (auto simp: explored_def run_search_def)
qed

end
