(* ===== verification/Plan.thy ===== *)
theory Plan
  imports Search
begin

text \<open>
  The first half of \<open>schedule_locked\<close> in \<open>engine_scheduling.cpp\<close>: the eligible set of every
  requirement with its order, its deduplication and its bound, and the choice of the reported
  rejection reason. The lemmas say that a plan holds exactly claims of eligible registered
  resources and that the plans have the order the search relies on.
\<close>

section \<open>Reported failure\<close>

primrec map_reject_reason :: "reject_reason \<Rightarrow> error_code" where
  "map_reject_reason RR_None = E_NoPlacement"
| "map_reject_reason RR_ResourceClassMismatch = E_NoPlacement"
| "map_reject_reason RR_AllowlistExcluded = E_NoPlacement"
| "map_reject_reason RR_DenylistExcluded = E_NoPlacement"
| "map_reject_reason RR_AlreadySelected = E_NoPlacement"
| "map_reject_reason RR_AntiAffinityViolation = E_NoPlacement"
| "map_reject_reason RR_CapabilityMismatch = E_CapabilityMismatch"
| "map_reject_reason RR_CapacityExhausted = E_CapacityExhausted"
| "map_reject_reason RR_MemoryExhausted = E_CapacityExhausted"
| "map_reject_reason RR_OccupancyExceeded = E_CapacityExhausted"
| "map_reject_reason RR_HealthRejected = E_HealthRejected"
| "map_reject_reason RR_HealthUnknown = E_HealthRejected"
| "map_reject_reason RR_EvidenceStale = E_StaleResource"
| "map_reject_reason RR_EvidenceNotAuthoritative = E_StaleResource"
| "map_reject_reason RR_ResourceRetired = E_StaleResource"
| "map_reject_reason RR_WorkerIncarnationStale = E_StaleResource"
| "map_reject_reason RR_TopologyMismatch = E_TopologyMismatch"
| "map_reject_reason RR_AffinityViolation = E_TopologyMismatch"
| "map_reject_reason RR_ModelMismatch = E_ModelMismatch"
| "map_reject_reason RR_ModelVersionMismatch = E_ModelMismatch"
| "map_reject_reason RR_ModelNotResident = E_ModelMismatch"
| "map_reject_reason RR_SimulatorMismatch = E_Unsupported"
| "map_reject_reason RR_AcceleratorMismatch = E_Unsupported"
| "map_reject_reason RR_Unsupported = E_Unsupported"
| "map_reject_reason RR_SimulatorNotReady = E_EnvironmentUnavailable"
| "map_reject_reason RR_EnvironmentMismatch = E_EnvironmentUnavailable"
| "map_reject_reason RR_EnvironmentDigestMismatch = E_EnvironmentUnavailable"
| "map_reject_reason RR_EnvironmentNotReady = E_EnvironmentUnavailable"
| "map_reject_reason RR_DatasetMismatch = E_DatasetMismatch"
| "map_reject_reason RR_DatasetVersionMismatch = E_DatasetMismatch"
| "map_reject_reason RR_ExclusivityConflict = E_ExclusivityConflict"
| "map_reject_reason RR_ReservationConflict = E_ReservationConflict"
| "map_reject_reason RR_TenantViolation = E_TenantViolation"
| "map_reject_reason RR_ShuttingDown = E_ShuttingDown"

primrec reason_priority :: "reject_reason \<Rightarrow> int" where
  "reason_priority RR_WorkerIncarnationStale = 0"
| "reason_priority RR_EvidenceNotAuthoritative = 1"
| "reason_priority RR_EvidenceStale = 2"
| "reason_priority RR_ResourceRetired = 3"
| "reason_priority RR_ExclusivityConflict = 4"
| "reason_priority RR_ReservationConflict = 5"
| "reason_priority RR_CapacityExhausted = 6"
| "reason_priority RR_MemoryExhausted = 7"
| "reason_priority RR_OccupancyExceeded = 8"
| "reason_priority RR_HealthRejected = 9"
| "reason_priority RR_HealthUnknown = 10"
| "reason_priority RR_EnvironmentNotReady = 12"
| "reason_priority RR_SimulatorNotReady = 13"
| "reason_priority RR_TopologyMismatch = 14"
| "reason_priority RR_AffinityViolation = 15"
| "reason_priority RR_AntiAffinityViolation = 16"
| "reason_priority RR_TenantViolation = 17"
| "reason_priority RR_ModelMismatch = 18"
| "reason_priority RR_ModelVersionMismatch = 18"
| "reason_priority RR_ModelNotResident = 18"
| "reason_priority RR_SimulatorMismatch = 19"
| "reason_priority RR_DatasetMismatch = 20"
| "reason_priority RR_DatasetVersionMismatch = 20"
| "reason_priority RR_EnvironmentMismatch = 21"
| "reason_priority RR_EnvironmentDigestMismatch = 21"
| "reason_priority RR_AcceleratorMismatch = 22"
| "reason_priority RR_CapabilityMismatch = 23"
| "reason_priority RR_ResourceClassMismatch = 24"
| "reason_priority RR_AllowlistExcluded = 24"
| "reason_priority RR_DenylistExcluded = 24"
| "reason_priority RR_AlreadySelected = 24"
| "reason_priority RR_Unsupported = 24"
| "reason_priority RR_ShuttingDown = 24"
| "reason_priority RR_None = 24"

definition dominant_step ::
  "reject_reason \<times> u32 \<Rightarrow> reject_reason \<times> u32 \<times> int \<Rightarrow> reject_reason \<times> u32 \<times> int" where
  "dominant_step entry acc =
     (case (entry, acc) of ((reason, count), (best, best_count, best_priority)) \<Rightarrow>
        let priority = reason_priority reason;
            better = best_count < count \<or>
              (count = best_count \<and> best \<noteq> RR_None \<and>
               (priority < best_priority \<or> (priority = best_priority \<and> reason < best)))
        in if better then (reason, count, priority) else acc)"

definition dominant_reason :: "(reject_reason, u32) omap \<Rightarrow> reject_reason" where
  "dominant_reason counts = fst (fold dominant_step counts (RR_None, 0, 0))"

section \<open>Requirement plans\<close>

record requirement_plan =
  rp_requirement :: resource_requirement
  rp_candidates :: "candidate_resource list"
  rp_considered :: u32
  rp_rejected :: "rejected_resource_entry list"
  rp_reason_counts :: "(reject_reason, u32) omap"

definition make_candidate ::
  "scheduler_state \<Rightarrow> schedule_request \<Rightarrow> resource_requirement \<Rightarrow> resource_record \<Rightarrow> eligibility \<Rightarrow>
     candidate_resource" where
  "make_candidate st req q r el =
     (let additive = compute_additive_values st req q r el in
      \<lparr>cr_id = res_id r, cr_generation = res_generation r,
       cr_resource_class = res_resource_class r, cr_name = res_name r, cr_slots = el_slots el,
       cr_exclusive = el_exclusive el, cr_partial = additive_partial (sr_weights req) additive,
       cr_additive = additive\<rparr>)"

definition consider_resource ::
  "scheduler_state \<Rightarrow> schedule_request \<Rightarrow> limits \<Rightarrow> resource_record \<Rightarrow> requirement_plan \<Rightarrow>
     requirement_plan" where
  "consider_resource st req lim r plan =
     (let q = rp_requirement plan in
      if res_resource_class r \<noteq> rq_resource_class q then plan
      else
        let plan1 = plan\<lparr>rp_considered := rp_considered plan + 1\<rparr>;
            el = evaluate_resource req q r lim in
        if \<not> el_eligible el then
          let plan2 = plan1\<lparr>rp_reason_counts :=
                fold count_key (el_reasons el) (rp_reason_counts plan1)\<rparr> in
          if length (rp_rejected plan2) < unat (max_rejected_entries_per_requirement lim)
          then plan2\<lparr>rp_rejected := rp_rejected plan2 @
                 [\<lparr>rje_resource = res_id r, rje_name = res_name r, rje_reasons = el_reasons el\<rparr>]\<rparr>
          else plan2
        else plan1\<lparr>rp_candidates := rp_candidates plan1 @ [make_candidate st req q r el]\<rparr>)"

definition candidate_order :: "candidate_resource \<Rightarrow> candidate_resource \<Rightarrow> bool" where
  "candidate_order a b =
     (if cr_partial a \<noteq> cr_partial b then cr_partial b < cr_partial a else cr_id a < cr_id b)"

text \<open>The deduplication loop with the set \<open>seen\<close> of keys.\<close>

fun distinct_candidates ::
  "scheduler_state \<Rightarrow> string set \<Rightarrow> candidate_resource list \<Rightarrow> candidate_resource list" where
  "distinct_candidates st seen [] = []"
| "distinct_candidates st seen (c # cs) =
     (case map_of (ss_resources st) (cr_id c) of
        None \<Rightarrow> distinct_candidates st seen cs
      | Some r \<Rightarrow>
          let key = interchangeability_key c r in
          if key \<in> seen then distinct_candidates st seen cs
          else c # distinct_candidates st (insert key seen) cs)"

definition eligible_plan ::
  "scheduler_state \<Rightarrow> schedule_request \<Rightarrow> limits \<Rightarrow> resource_requirement \<Rightarrow> requirement_plan" where
  "eligible_plan st req lim q =
     fold (consider_resource st req lim) (om_values (ss_resources st))
       \<lparr>rp_requirement = q, rp_candidates = [], rp_considered = 0, rp_rejected = [],
        rp_reason_counts = []\<rparr>"

definition distinct_plan ::
  "scheduler_state \<Rightarrow> schedule_request \<Rightarrow> limits \<Rightarrow> resource_requirement \<Rightarrow> requirement_plan" where
  "distinct_plan st req lim q =
     (let plan = eligible_plan st req lim q in
      plan\<lparr>rp_candidates := distinct_candidates st {}
        (sort_by candidate_order (rp_candidates plan))\<rparr>)"

definition plan_truncated :: "limits \<Rightarrow> requirement_plan \<Rightarrow> bool" where
  "plan_truncated lim plan =
     (unat (max_candidate_resources_per_requirement lim) < length (rp_candidates plan))"

definition truncation_note :: "resource_requirement \<Rightarrow> string" where
  "truncation_note q = ''eligible set for requirement '' @ [CHR 0x27] @ rq_name q @ [CHR 0x27] @
     '' was truncated to the configured candidate bound''"

definition build_plan ::
  "scheduler_state \<Rightarrow> schedule_request \<Rightarrow> limits \<Rightarrow> resource_requirement \<Rightarrow>
     requirement_plan \<times> string list" where
  "build_plan st req lim q =
     (let plan = distinct_plan st req lim q in
      if plan_truncated lim plan then
        (plan\<lparr>rp_candidates := take (unat (max_candidate_resources_per_requirement lim))
           (rp_candidates plan)\<rparr>, [truncation_note q])
      else (plan, []))"

text \<open>The loop over the requirements: plans, notes and the first plan without a candidate.\<close>

definition build_plans ::
  "scheduler_state \<Rightarrow> schedule_request \<Rightarrow> limits \<Rightarrow> requirement_plan list" where
  "build_plans st req lim = map (fst \<circ> build_plan st req lim) (sr_requirements req)"

definition plan_notes :: "scheduler_state \<Rightarrow> schedule_request \<Rightarrow> limits \<Rightarrow> string list" where
  "plan_notes st req lim =
     (if ss_shutting_down st then [''coordinator is shutting down''] else []) @
     concat (map (snd \<circ> build_plan st req lim) (sr_requirements req))"

definition blocked_plan :: "requirement_plan list \<Rightarrow> requirement_plan option" where
  "blocked_plan plans = List.find (\<lambda>plan. rp_candidates plan = []) plans"

definition fill_requirement_explanations :: "requirement_plan list \<Rightarrow> requirement_explanation list" where
  "fill_requirement_explanations plans = map (\<lambda>plan.
     \<lparr>rex_requirement_name = rq_name (rp_requirement plan),
      rex_resource_class = rq_resource_class (rp_requirement plan),
      rex_considered = rp_considered plan,
      rex_eligible = word_of_nat (length (rp_candidates plan)),
      rex_rejected = rp_rejected plan\<rparr>) plans"

section \<open>Contents of a plan\<close>

text \<open>\<open>claim_of st req q c\<close>: the candidate is the claim of one eligible registered resource.\<close>

definition claim_of ::
  "scheduler_state \<Rightarrow> schedule_request \<Rightarrow> limits \<Rightarrow> resource_requirement \<Rightarrow> candidate_resource \<Rightarrow> bool"
where
  "claim_of st req lim q c \<longleftrightarrow>
     (\<exists>r\<in>set (om_values (ss_resources st)). el_eligible (evaluate_resource req q r lim) \<and>
        c = make_candidate st req q r (evaluate_resource req q r lim))"

lemma consider_requirement [simp]:
  "rp_requirement (consider_resource st req lim r plan) = rp_requirement plan"
  by (simp add: consider_resource_def Let_def)

lemma fold_consider_requirement [simp]:
  "rp_requirement (fold (consider_resource st req lim) rs plan) = rp_requirement plan"
  by (induction rs arbitrary: plan) simp_all

lemma consider_candidates:
  "rp_candidates (consider_resource st req lim r plan) = rp_candidates plan @
     (let q = rp_requirement plan; el = evaluate_resource req q r lim
      in if el_eligible el then [make_candidate st req q r el] else [])"
  by (auto simp: consider_resource_def Let_def evaluate_resource_claim(3))

lemma fold_consider_candidates:
  "rp_candidates (fold (consider_resource st req lim) rs plan) = rp_candidates plan @
     (let q = rp_requirement plan
      in map (\<lambda>r. make_candidate st req q r (evaluate_resource req q r lim))
        (filter (\<lambda>r. el_eligible (evaluate_resource req q r lim)) rs))"
  by (induction rs arbitrary: plan) (simp_all add: consider_candidates Let_def)

lemma eligible_plan_candidates:
  "rp_candidates (eligible_plan st req lim q) =
     map (\<lambda>r. make_candidate st req q r (evaluate_resource req q r lim))
       (filter (\<lambda>r. el_eligible (evaluate_resource req q r lim)) (om_values (ss_resources st)))"
  by (simp add: eligible_plan_def fold_consider_candidates)

lemma set_distinct_candidates: "set (distinct_candidates st seen cs) \<subseteq> set cs"
proof (induction cs arbitrary: seen)
  case (Cons c cs)
  show ?case
    using Cons.IH by (simp add: Let_def subset_insertI2 split: option.split)
qed simp

lemma sorted_distinct_candidates:
  "sorted_wrt P cs \<Longrightarrow> sorted_wrt P (distinct_candidates st seen cs)"
proof (induction cs arbitrary: seen)
  case (Cons c cs)
  then have all: "\<forall>d\<in>set cs. P c d" and IH: "\<And>seen. sorted_wrt P (distinct_candidates st seen cs)"
    by simp_all
  have "\<forall>d\<in>set (distinct_candidates st s cs). P c d" for s
    using all set_distinct_candidates by blast
  with IH show ?case by (simp add: Let_def split: option.split)
qed simp

lemma candidate_order_weak_order: "weak_order candidate_order"
  unfolding weak_order_def candidate_order_def by (auto split: if_splits)

lemma candidate_order_partial: "\<not> candidate_order b a \<Longrightarrow> cr_partial b \<le> cr_partial a"
  by (auto simp: candidate_order_def split: if_splits)

lemma distinct_plan_candidates:
  "rp_candidates (distinct_plan st req lim q) =
     distinct_candidates st {} (sort_by candidate_order (rp_candidates (eligible_plan st req lim q)))"
  by (simp add: distinct_plan_def Let_def)

lemma build_plan_candidates:
  "rp_candidates (fst (build_plan st req lim q)) =
     take (unat (max_candidate_resources_per_requirement lim))
       (rp_candidates (distinct_plan st req lim q))"
  by (simp add: build_plan_def Let_def plan_truncated_def)

lemma build_plan_requirement [simp]: "rp_requirement (fst (build_plan st req lim q)) = q"
  by (simp add: build_plan_def distinct_plan_def eligible_plan_def Let_def)

lemma build_plan_claims:
  assumes "c \<in> set (rp_candidates (fst (build_plan st req lim q)))"
  shows "claim_of st req lim q c"
proof -
  from assms have "c \<in> set (rp_candidates (eligible_plan st req lim q))"
    unfolding build_plan_candidates distinct_plan_candidates
    using set_distinct_candidates by (fastforce dest: in_set_takeD)
  then show ?thesis by (auto simp: eligible_plan_candidates claim_of_def)
qed

lemma build_plan_bound:
  "length (rp_candidates (fst (build_plan st req lim q)))
     \<le> unat (max_candidate_resources_per_requirement lim)"
  by (simp add: build_plan_candidates)

lemma build_plan_sorted:
  "sorted_wrt (\<lambda>a b. cr_partial b \<le> cr_partial a) (rp_candidates (fst (build_plan st req lim q)))"
proof -
  have "no_better candidate_order
      (sort_by candidate_order (rp_candidates (eligible_plan st req lim q)))"
    by (rule sort_by_no_better) (rule candidate_order_weak_order)
  then have "sorted_wrt (\<lambda>a b. cr_partial b \<le> cr_partial a)
      (sort_by candidate_order (rp_candidates (eligible_plan st req lim q)))"
    unfolding no_better_def by (rule sorted_wrt_mono_rel [rotated]) (rule candidate_order_partial)
  then show ?thesis
    unfolding build_plan_candidates distinct_plan_candidates
    by (intro sorted_wrt_take sorted_distinct_candidates)
qed

lemma make_candidate_scored: "scored (sr_weights req) (make_candidate st req q r el)"
  by (simp add: scored_def make_candidate_def Let_def additive_range)

lemma claim_of_scored: "claim_of st req lim q c \<Longrightarrow> scored (sr_weights req) c"
  by (auto simp: claim_of_def make_candidate_scored)

lemma build_plans_ranked:
  "plans_ranked (sr_weights req) (map rp_candidates (build_plans st req lim))"
  by (auto simp: plans_ranked_def build_plans_def build_plan_sorted
      dest: build_plan_claims intro: claim_of_scored)

text \<open>A selection of the built plans claims an eligible resource for every requirement.\<close>

lemma selections_nth:
  "sel \<in> set (selections plans) \<Longrightarrow> i < length plans \<Longrightarrow> sel ! i \<in> set (plans ! i)"
proof (induction plans arbitrary: sel i)
  case (Cons plan plans)
  then show ?case by (cases i) auto
qed simp

lemma selection_claims:
  assumes "sel \<in> set (selections (map rp_candidates (build_plans st req lim)))"
  shows "length sel = length (sr_requirements req)"
    and "i < length (sr_requirements req) \<Longrightarrow> claim_of st req lim (sr_requirements req ! i) (sel ! i)"
proof -
  show "length sel = length (sr_requirements req)"
    using length_selections [OF assms] by (simp add: build_plans_def)
  show "i < length (sr_requirements req) \<Longrightarrow> claim_of st req lim (sr_requirements req ! i) (sel ! i)"
    using selections_nth [OF assms, of i] by (simp add: build_plans_def build_plan_claims)
qed

lemma blocked_plan_Some:
  "blocked_plan plans = Some plan \<Longrightarrow> plan \<in> set plans \<and> rp_candidates plan = []"
  by (auto simp: blocked_plan_def find_Some_iff)

lemma blocked_plan_None: "blocked_plan plans = None \<longleftrightarrow> (\<forall>plan\<in>set plans. rp_candidates plan \<noteq> [])"
  by (auto simp: blocked_plan_def find_None_iff)

section \<open>The dominant reason\<close>

text \<open>The reported reason has the largest count; among those the smallest priority, then the
  smallest value.\<close>

definition reason_beats :: "reject_reason \<times> u32 \<Rightarrow> reject_reason \<times> u32 \<Rightarrow> bool" where
  "reason_beats x y \<longleftrightarrow> snd y < snd x \<or> (snd x = snd y \<and>
     (reason_priority (fst x) < reason_priority (fst y) \<or>
      (reason_priority (fst x) = reason_priority (fst y) \<and> fst x < fst y)))"

lemma reason_beats_weak_order: "weak_order reason_beats"
  unfolding weak_order_def reason_beats_def by (auto simp: not_less)

lemma dominant_fold:
  assumes "b \<noteq> RR_None" and "\<forall>e\<in>set counts. fst e \<noteq> RR_None \<and> snd e \<noteq> 0"
  shows "\<exists>x\<in>insert (b, n) (set counts).
     fold dominant_step counts (b, n, reason_priority b) = (fst x, snd x, reason_priority (fst x)) \<and>
     (\<forall>y\<in>insert (b, n) (set counts). \<not> reason_beats y x)"
  using assms
proof (induction counts arbitrary: b n)
  case Nil
  then show ?case by (simp add: reason_beats_def)
next
  case (Cons e counts)
  obtain r k where e: "e = (r, k)" by fastforce
  have step: "dominant_step e (b, n, reason_priority b) =
      (if reason_beats e (b, n) then (r, k, reason_priority r) else (b, n, reason_priority b))"
    using Cons.prems(1) e by (auto simp: dominant_step_def reason_beats_def Let_def)
  note asym = weak_order_asym [OF reason_beats_weak_order]
    and trans = weak_order_trans [OF reason_beats_weak_order]
  show ?case
  proof (cases "reason_beats e (b, n)")
    case True
    from Cons.IH [of r k] Cons.prems e obtain x where x: "x \<in> insert (r, k) (set counts)"
      "fold dominant_step counts (r, k, reason_priority r) =
        (fst x, snd x, reason_priority (fst x))"
      "\<forall>y\<in>insert (r, k) (set counts). \<not> reason_beats y x" by auto
    from asym [OF True] e have "\<not> reason_beats (b, n) (r, k)" by simp
    from trans [OF this] x(3) have "\<not> reason_beats (b, n) x" by simp
    with x step True e show ?thesis by (intro bexI [of _ x]) auto
  next
    case False
    from Cons.IH [of b n] Cons.prems obtain x where x: "x \<in> insert (b, n) (set counts)"
      "fold dominant_step counts (b, n, reason_priority b) =
        (fst x, snd x, reason_priority (fst x))"
      "\<forall>y\<in>insert (b, n) (set counts). \<not> reason_beats y x" by auto
    from trans [OF False] x(3) have "\<not> reason_beats e x" by simp
    with x step False show ?thesis by (intro bexI [of _ x]) auto
  qed
qed

lemma dominant_reason_best:
  assumes "counts \<noteq> []" and "\<forall>e\<in>set counts. fst e \<noteq> RR_None \<and> snd e \<noteq> 0"
  shows "\<exists>n. (dominant_reason counts, n) \<in> set counts \<and>
     (\<forall>y\<in>set counts. \<not> reason_beats y (dominant_reason counts, n))"
proof -
  obtain r k rest where c: "counts = (r, k) # rest" using assms(1) by (cases counts) auto
  from assms(2) c have "dominant_step (r, k) (RR_None, 0, 0) = (r, k, reason_priority r)"
    by (simp add: dominant_step_def Let_def word_gt_0)
  with dominant_fold [of r rest k] assms(2) c show ?thesis
    by (auto simp: dominant_reason_def)
qed

end
