(* ===== verification/Schedule.thy ===== *)
theory Schedule
  imports Plan
begin

text \<open>
  The second half of \<open>schedule_locked\<close> and \<open>submit_request\<close> of \<open>engine_scheduling.cpp\<close>: the
  outcome without a placement, the limits, the commit loop that writes the reservation into the
  resource records, and the decision with its explanation. The reference to the stored request is
  its key; the identity generator is threaded through explicitly. An error inside the commit loop
  leaves the slots taken so far, as the code does; \<open>EngineInv\<close> shows that it cannot occur.
\<close>

section \<open>Decisions\<close>

record decision =
  dc_id :: decision_id
  dc_outcome :: decision_outcome
  dc_failure :: error_code
  dc_failure_detail :: string
  dc_placement :: placement_record
  dc_authority :: authority_envelope
  dc_explanation :: explanation

definition empty_placement :: placement_record where
  "empty_placement = \<lparr>pl_id = 0, pl_generation = 0, pl_request = 0, pl_decision = 0,
     pl_experiment = 0, pl_experiment_generation = 0, pl_trial = 0, pl_epoch = 0,
     pl_resources = [], pl_reservation = 0, pl_lease = 0, pl_worker = 0, pl_worker_boot = 0,
     pl_state = PL_Reserved, pl_reassignment_count = 0, pl_completion_recorded = False,
     pl_detail = [], pl_transition_sequence = 0, pl_completion_detail = []\<rparr>"

definition empty_authority :: authority_envelope where
  "empty_authority = \<lparr>ae_request = 0, ae_experiment = 0, ae_experiment_generation = 0,
     ae_placement = 0, ae_placement_generation = 0, ae_epoch = 0, ae_lease = 0,
     ae_reservation = 0, ae_worker = 0, ae_worker_boot = 0, ae_resources = []\<rparr>"

definition initial_explanation :: "decision_id \<Rightarrow> schedule_request \<Rightarrow> string list \<Rightarrow> explanation" where
  "initial_explanation did req notes = \<lparr>ex_decision = did, ex_request = sr_id req,
     ex_experiment = sr_experiment req,
     ex_experiment_generation = sr_experiment_generation req, ex_outcome = DO_NoPlacement,
     ex_failure = E_Ok, ex_failure_detail = [], ex_requirements = [], ex_candidates = [],
     ex_selected = [], ex_notes = notes\<rparr>"

definition empty_explanation :: explanation where
  "empty_explanation = \<lparr>ex_decision = 0, ex_request = 0, ex_experiment = 0,
     ex_experiment_generation = 0, ex_outcome = DO_NoPlacement,
     ex_failure = E_Ok, ex_failure_detail = [], ex_requirements = [], ex_candidates = [],
     ex_selected = [], ex_notes = []\<rparr>"

definition empty_decision :: decision where
  "empty_decision = \<lparr>dc_id = 0, dc_outcome = DO_NoPlacement, dc_failure = E_Ok,
     dc_failure_detail = [], dc_placement = empty_placement, dc_authority = empty_authority,
     dc_explanation = empty_explanation\<rparr>"

definition make_no_placement_decision ::
  "decision \<Rightarrow> explanation \<Rightarrow> error_code \<Rightarrow> string \<Rightarrow> decision" where
  "make_no_placement_decision d e code detail =
     d\<lparr>dc_outcome := DO_NoPlacement, dc_failure := code, dc_failure_detail := detail,
       dc_explanation := e\<lparr>ex_outcome := DO_NoPlacement, ex_failure := code,
         ex_failure_detail := detail\<rparr>\<rparr>"

section \<open>No placement\<close>

definition quoted :: "string \<Rightarrow> string" where
  "quoted s = [CHR 0x27] @ s @ [CHR 0x27]"

definition blocked_detail :: "requirement_plan \<Rightarrow> string" where
  "blocked_detail plan =
     ''requirement '' @ quoted (rq_name (rp_requirement plan)) @ '' has no eligible resource: '' @
     reject_reason_name (dominant_reason (rp_reason_counts plan)) @
     (if rp_considered plan = 0 then '' (no resource of class '' @
        resource_class_name (rq_resource_class (rp_requirement plan)) @ '' is registered)''
      else [])"

definition compound_detail :: "reject_reason \<Rightarrow> string" where
  "compound_detail reason =
     ''no combination of eligible resources satisfies the compound placement constraints'' @
     (if reason \<noteq> RR_None then '': '' @ reject_reason_name reason else [])"

definition refuse_request :: "string \<Rightarrow> stored_request \<Rightarrow> stored_request" where
  "refuse_request detail s =
     s\<lparr>st_state := RQ_NoPlacement, st_current_placement := 0, st_detail := detail\<rparr>"

definition no_placement ::
  "schedule_request_id \<Rightarrow> decision \<Rightarrow> explanation \<Rightarrow> error_code \<Rightarrow> string \<Rightarrow> scheduler_state \<Rightarrow>
     decision \<times> scheduler_state" where
  "no_placement rid d e code detail st =
     (let d' = make_no_placement_decision d e code detail in
      (d', st\<lparr>ss_decisions := om_emplace (dc_id d') (dc_explanation d') (ss_decisions st),
              ss_requests := om_modify rid (refuse_request (dc_failure_detail d'))
                (ss_requests st)\<rparr>))"

section \<open>Limits\<close>

definition count_live_placements :: "scheduler_state \<Rightarrow> nat" where
  "count_live_placements st =
     length (filter (\<lambda>p. placement_state_is_live (pl_state p)) (om_values (ss_placements st)))"

definition count_active_reservations :: "scheduler_state \<Rightarrow> nat" where
  "count_active_reservations st =
     length (filter (\<lambda>v. rv_state v = RV_Active) (om_values (ss_reservations st)))"

definition commit_limits :: "limits \<Rightarrow> scheduler_state \<Rightarrow> status" where
  "commit_limits lim st =
     check_all [
       fail_if (unat (max_placements lim) \<le> length (ss_placements st)) E_ResourceExhausted
         ''placement log has reached its configured bound'',
       fail_if (unat (max_reservations lim) \<le> length (ss_reservations st)) E_ResourceExhausted
         ''reservation ledger has reached its configured bound'',
       fail_if (unat (max_active_placements lim) \<le> count_live_placements st) E_ResourceExhausted
         ''active placement bound reached'',
       fail_if (unat (max_active_reservations lim) \<le> count_active_reservations st)
         E_ResourceExhausted ''active reservation bound reached'']"

section \<open>Commit\<close>

definition select_resource ::
  "candidate_resource \<Rightarrow> string \<Rightarrow> resource_record \<Rightarrow> selected_resource" where
  "select_resource c name r = \<lparr>sel_resource = res_id r, sel_resource_class = res_resource_class r,
     sel_generation = res_generation r, sel_slots = cr_slots c, sel_exclusive = cr_exclusive c,
     sel_requirement_name = name, sel_worker = res_worker r, sel_worker_boot = res_boot r,
     sel_resource_name = res_name r\<rparr>"

definition claim_resource :: "candidate_resource \<Rightarrow> resource_record \<Rightarrow> reservation_claim" where
  "claim_resource c r = \<lparr>cl_resource = res_id r, cl_slots = cr_slots c,
     cl_exclusive = cr_exclusive c, cl_generation_at_acquire = res_generation r\<rparr>"

definition reserve_slots :: "u32 \<Rightarrow> resource_record \<Rightarrow> resource_record" where
  "reserve_slots slots r = r\<lparr>res_reserved_slots := res_reserved_slots r + slots\<rparr>"

type_synonym commit_state =
  "(resource_id, resource_record) omap \<times> selected_resource list \<times> reservation_claim list"

fun commit_selection ::
  "(candidate_resource \<times> string) list \<Rightarrow> commit_state \<Rightarrow> status option \<times> commit_state" where
  "commit_selection [] acc = (None, acc)"
| "commit_selection ((c, name) # rest) (resources, selected, claims) =
     (case map_of resources (cr_id c) of
        None \<Rightarrow> (Some (Status E_InternalError ''selected resource disappeared before commit''),
                 (resources, selected, claims))
      | Some r \<Rightarrow>
          let selected' = selected @ [select_resource c name r];
              claims' = claims @ [claim_resource c r]
          in if rcap_slots (res_capacity r) - cr_slots c < res_reserved_slots r then
               (Some (Status E_CapacityExhausted
                  (''reservation would exceed capacity on '' @ id_to_string K_ResourceId (res_id r))),
                (resources, selected', claims'))
             else commit_selection rest
               (om_modify (cr_id c) (reserve_slots (cr_slots c)) resources, selected', claims'))"

text \<open>The worker of a placement: the first non-dataset resource with an owner, else the first
  resource with an owner.\<close>

definition choose_worker :: "selected_resource list \<Rightarrow> worker_id \<times> worker_boot_id" where
  "choose_worker selected =
     (case List.find (\<lambda>s. sel_resource_class s \<noteq> RC_Dataset \<and> sel_worker s \<noteq> 0) selected of
        Some s \<Rightarrow> (sel_worker s, sel_worker_boot s)
      | None \<Rightarrow> (case List.find (\<lambda>s. sel_worker s \<noteq> 0) selected of
          Some s \<Rightarrow> (sel_worker s, sel_worker_boot s)
        | None \<Rightarrow> (0, 0)))"

definition candidate_explanations ::
  "limits \<Rightarrow> nat \<Rightarrow> ranking_candidate list \<Rightarrow> candidate_explanation list" where
  "candidate_explanations lim requirement_count cands =
     (let display_divisor = 1000 * (if requirement_count = 0 then 1 else int requirement_count);
          shown = take (max 1 (unat (max_explanation_entries lim))) cands
      in map (\<lambda>(i, c). \<lparr>cex_resources = rkc_resources c,
           cex_score = trunc_div (rkc_raw c) display_divisor,
           cex_factors = (if i = 0 then rkc_factors c else []), cex_selected = (i = 0),
           cex_tie_break = rkc_tie_break c\<rparr>) (enumerate 0 shown))"

definition request_unit :: "schedule_request \<Rightarrow> unit_key" where
  "request_unit req = UnitKey (sr_experiment req) (sr_experiment_generation req) (sr_trial req)"

definition place_request :: "placement_id \<Rightarrow> stored_request \<Rightarrow> stored_request" where
  "place_request pid s = s\<lparr>st_state := RQ_Placed, st_current_placement := pid,
     st_placement_count := st_placement_count s + 1, st_detail := ''placed''\<rparr>"

definition serve_tenant :: "string \<Rightarrow> (string, u64) omap \<Rightarrow> (string, u64) omap" where
  "serve_tenant tenant m =
     (if tenant = [] then m
      else om_set tenant ((case map_of m tenant of None \<Rightarrow> 0 | Some n \<Rightarrow> n) + 1) m)"

definition make_placement ::
  "schedule_request \<Rightarrow> scheduler_state \<Rightarrow> decision_id \<Rightarrow> placement_id \<Rightarrow> reservation_id \<Rightarrow> lease_id \<Rightarrow>
     placement_generation \<Rightarrow> u32 \<Rightarrow> selected_resource list \<Rightarrow> placement_record" where
  "make_placement req st did pid rvid lease gen rcount selected =
     \<lparr>pl_id = pid, pl_generation = (if gen = 0 then 1 else gen), pl_request = sr_id req,
      pl_decision = did, pl_experiment = sr_experiment req,
      pl_experiment_generation = sr_experiment_generation req, pl_trial = sr_trial req,
      pl_epoch = ss_epoch st, pl_resources = selected, pl_reservation = rvid, pl_lease = lease,
      pl_worker = fst (choose_worker selected), pl_worker_boot = snd (choose_worker selected),
      pl_state = PL_Reserved, pl_reassignment_count = rcount, pl_completion_recorded = False,
      pl_detail = ''reserved and awaiting assignment'',
      pl_transition_sequence = ss_transition_sequence st + 1, pl_completion_detail = []\<rparr>"

definition make_reservation ::
  "placement_record \<Rightarrow> scheduler_state \<Rightarrow> reservation_claim list \<Rightarrow> reservation_record" where
  "make_reservation p st claims =
     \<lparr>rv_id = pl_reservation p, rv_lease = pl_lease p, rv_placement = pl_id p,
      rv_placement_generation = pl_generation p, rv_request = pl_request p,
      rv_experiment = pl_experiment p, rv_experiment_generation = pl_experiment_generation p,
      rv_epoch = ss_epoch st, rv_claims = claims, rv_state = RV_Active,
      rv_acquire_sequence = ss_reservation_sequence st + 1,
      rv_detail = ''committed with placement '' @ id_to_string K_PlacementId (pl_id p)\<rparr>"

definition make_authority :: "placement_record \<Rightarrow> authority_envelope" where
  "make_authority p = \<lparr>ae_request = pl_request p, ae_experiment = pl_experiment p,
     ae_experiment_generation = pl_experiment_generation p, ae_placement = pl_id p,
     ae_placement_generation = pl_generation p, ae_epoch = pl_epoch p, ae_lease = pl_lease p,
     ae_reservation = pl_reservation p, ae_worker = pl_worker p,
     ae_worker_boot = pl_worker_boot p, ae_resources = pl_resources p\<rparr>"

text \<open>The state after a successful commit loop.\<close>

definition record_placement ::
  "schedule_request_id \<Rightarrow> schedule_request \<Rightarrow> placement_record \<Rightarrow> reservation_record \<Rightarrow>
     (resource_id, resource_record) omap \<Rightarrow> scheduler_state \<Rightarrow> scheduler_state" where
  "record_placement rid req p v resources st = st\<lparr>
     ss_resources := resources,
     ss_transition_sequence := ss_transition_sequence st + 1,
     ss_reservation_sequence := ss_reservation_sequence st + 1,
     ss_reservations := om_emplace (rv_id v) v (ss_reservations st),
     ss_placements := om_emplace (pl_id p) p (ss_placements st),
     ss_unit_current := om_set (request_unit req) (pl_id p) (ss_unit_current st),
     ss_requests := om_modify rid (place_request (pl_id p)) (ss_requests st),
     ss_placement_sequence := ss_placement_sequence st + 1,
     ss_tenant_service := serve_tenant (sr_tenant req) (ss_tenant_service st)\<rparr>"

definition placed_explanation ::
  "limits \<Rightarrow> nat \<Rightarrow> ranking_candidate list \<Rightarrow> placement_record \<Rightarrow> explanation \<Rightarrow> explanation" where
  "placed_explanation lim n cands p e =
     e\<lparr>ex_outcome := DO_Placed, ex_failure := E_Ok, ex_failure_detail := [],
       ex_selected := pl_resources p, ex_candidates := candidate_explanations lim n cands\<rparr>"

definition commit_best ::
  "engine_config \<Rightarrow> schedule_request_id \<Rightarrow> schedule_request \<Rightarrow> placement_generation \<Rightarrow> u32 \<Rightarrow>
     decision \<Rightarrow> explanation \<Rightarrow> ranking_candidate list \<Rightarrow> scheduler_state \<Rightarrow> id_generator \<Rightarrow>
     decision result \<times> scheduler_state \<times> id_generator" where
  "commit_best cfg rid req gen rcount d e cands st ids =
     (let lim = cfg_limits cfg; limits_status = commit_limits lim st in
      if \<not> status_ok limits_status then (Inl limits_status, st, ids)
      else
        let (pid, ids1) = ids_next ids;
            (rvid, ids2) = ids_next ids1;
            (lease, ids3) = ids_next ids2;
            best = hd cands;
            (failure, resources, selected, claims) = commit_selection
              (zip (rkc_selection best) (map rq_name (sr_requirements req))) (ss_resources st, [], [])
        in case failure of
             Some status \<Rightarrow> (Inl status, st\<lparr>ss_resources := resources,
               ss_transition_sequence := ss_transition_sequence st + 1,
               ss_reservation_sequence := ss_reservation_sequence st + 1\<rparr>, ids3)
           | None \<Rightarrow>
               let p = make_placement req st (dc_id d) pid rvid lease gen rcount selected;
                   v = make_reservation p st claims;
                   st1 = record_placement rid req p v resources st;
                   e1 = placed_explanation lim (length (sr_requirements req)) cands p e;
                   d1 = d\<lparr>dc_outcome := DO_Placed, dc_failure := E_Ok, dc_placement := p,
                     dc_authority := make_authority p, dc_explanation := e1\<rparr>;
                   st2 = st1\<lparr>ss_decisions := om_emplace (dc_id d1) e1 (ss_decisions st1)\<rparr>
               in (Inr d1, push_audit cfg ''placement.committed'' (placement_summary p) st2, ids3))"

section \<open>Scheduling\<close>

definition search_notes :: "search_outcome \<Rightarrow> string list" where
  "search_notes out =
     (if so_truncated out then
        [''candidate exploration stopped at the configured evaluation bound''] else []) @
     map (\<lambda>(reason, n). ''cross-constraint rejections: '' @ reject_reason_name reason @ ''='' @
       decimal_u64 (ucast n)) (so_cross_rejections out)"

definition schedule_locked ::
  "engine_config \<Rightarrow> schedule_request_id \<Rightarrow> schedule_request \<Rightarrow> placement_generation \<Rightarrow> u32 \<Rightarrow>
     scheduler_state \<Rightarrow> id_generator \<Rightarrow> decision result \<times> scheduler_state \<times> id_generator" where
  "schedule_locked cfg rid req gen rcount st ids =
     (let lim = cfg_limits cfg;
          (did, ids1) = ids_next ids;
          d = empty_decision\<lparr>dc_id := did\<rparr>;
          plans = build_plans st req lim;
          e = (initial_explanation did req (plan_notes st req lim))\<lparr>
            ex_requirements := fill_requirement_explanations plans\<rparr>
      in case blocked_plan plans of
           Some plan \<Rightarrow>
             let (d', st') = no_placement rid d e
                   (map_reject_reason (dominant_reason (rp_reason_counts plan)))
                   (blocked_detail plan) st
             in (Inr d', st', ids1)
         | None \<Rightarrow>
             let out = run_search st req lim (map rp_candidates plans);
                 e1 = e\<lparr>ex_notes := sort_by (<) (ex_notes e @ search_notes out)\<rparr>
             in if so_candidates out = [] then
                  let reason = dominant_reason (so_cross_rejections out);
                      (d', st') = no_placement rid d e1 (map_reject_reason reason)
                        (compound_detail reason) st
                  in (Inr d', st', ids1)
                else commit_best cfg rid req gen rcount d e1
                  (sort_by candidate_is_better (so_candidates out)) st ids1)"

definition active_request :: "stored_request \<Rightarrow> bool" where
  "active_request s = (st_state s = RQ_Submitted \<or> st_state s = RQ_Placed)"

text \<open>The guards of \<open>submit_request\<close>, in their order.\<close>

definition submit_checks :: "limits \<Rightarrow> schedule_request \<Rightarrow> scheduler_state \<Rightarrow> status" where
  "submit_checks lim req st =
     check_all [
       validate_schedule_request lim req,
       fail_if (ss_shutting_down st) E_ShuttingDown
         ''coordinator is shutting down: scheduling requests are rejected'',
       fail_if (unat (max_retained_requests lim) \<le> length (ss_requests st)) E_ResourceExhausted
         ''scheduling request log has reached its configured bound'',
       fail_if (map_of (ss_requests st) (sr_id req) \<noteq> None) E_DuplicateIdentity
         (''duplicate scheduling request identity: '' @ id_to_string K_ScheduleRequestId (sr_id req)),
       fail_if (unat (max_active_requests lim) \<le>
           length (filter active_request (om_values (ss_requests st)))) E_ResourceExhausted
         ''active scheduling request bound reached'',
       (case map_of (ss_unit_current st) (request_unit req) of
          None \<Rightarrow> ok_status
        | Some pid \<Rightarrow> (case map_of (ss_placements st) pid of
            None \<Rightarrow> ok_status
          | Some p \<Rightarrow> fail_if (placement_state_is_live (pl_state p)) E_Busy
              (''a placement is already current for this scheduling unit: '' @
               id_to_string K_PlacementId (pl_id p))))]"

definition store_request :: "engine_config \<Rightarrow> schedule_request \<Rightarrow> scheduler_state \<Rightarrow> scheduler_state" where
  "store_request cfg req st =
     (let seqn = ss_request_sequence st + 1;
          stored = \<lparr>st_request = req, st_state = RQ_Submitted, st_submitted_sequence = seqn,
            st_current_placement = 0, st_placement_count = 0, st_detail = ''submitted''\<rparr>
      in push_audit cfg ''request.submitted''
           (id_to_string K_ScheduleRequestId (sr_id req) @ '' experiment='' @
            id_to_string K_ExperimentId (sr_experiment req))
           (st\<lparr>ss_request_sequence := seqn,
               ss_requests := om_emplace (sr_id req) stored (ss_requests st)\<rparr>))"

definition submit_request :: "schedule_request \<Rightarrow> engine \<Rightarrow> decision result \<times> engine" where
  "submit_request request e =
     (let req = normalize_schedule_request request;
          status = submit_checks (cfg_limits (eng_config e)) req (eng_state e) in
      if \<not> status_ok status then (Inl status, e)
      else
        let (d, st, ids) = schedule_locked (eng_config e) (sr_id req) req 0 0
              (store_request (eng_config e) req (eng_state e)) (eng_ids e)
        in (d, e\<lparr>eng_state := st, eng_ids := ids\<rparr>))"

definition get_decision :: "decision_id \<Rightarrow> engine \<Rightarrow> decision result" where
  "get_decision i e =
     (case lookup_record K_DecisionId ''no such decision: '' i (ss_decisions (eng_state e)) of
        Inl status \<Rightarrow> Inl status
      | Inr x \<Rightarrow>
          let out = empty_decision\<lparr>dc_id := i, dc_outcome := ex_outcome x,
                dc_failure := ex_failure x, dc_failure_detail := ex_failure_detail x,
                dc_explanation := x\<rparr>
          in Inr (if ex_outcome x = DO_Placed \<and> ex_selected x \<noteq> [] then
                (case List.find (\<lambda>p. pl_decision p = i) (om_values (ss_placements (eng_state e))) of
                   None \<Rightarrow> out
                 | Some p \<Rightarrow> out\<lparr>dc_placement := p\<rparr>)
              else out))"

end
