(* ===== verification/EngineResources.thy ===== *)
theory EngineResources
  imports Schedule
begin

text \<open>
  \<open>engine_resources.cpp\<close>: registration, publication of dynamic state and retirement of a
  resource. Validation is done on the advertisement before the lock and on the resulting record
  after the write; the lemmas show that the second check never fails where the first passed, so no
  operation reports an error after it changed a record.
\<close>

section \<open>Operations\<close>

definition copy_advertisement :: "resource_advertisement \<Rightarrow> resource_record \<Rightarrow> resource_record" where
  "copy_advertisement a r = r\<lparr>
     res_id := adv_id a, res_resource_class := adv_resource_class a, res_name := adv_name a,
     res_worker := adv_worker a, res_boot := adv_boot a, res_provenance := adv_provenance a,
     res_sharing := adv_sharing a, res_capabilities := adv_capabilities a,
     res_capacity := adv_capacity a, res_advertised_occupancy := adv_current_occupancy a,
     res_health := adv_health a, res_health_detail := adv_health_detail a,
     res_readiness := adv_readiness a, res_topology := adv_topology a,
     res_locality := adv_locality a, res_accelerators := adv_accelerators a,
     res_model := adv_model a, res_simulator := adv_simulator a, res_dataset := adv_dataset a,
     res_environment := adv_environment a, res_tenant := adv_tenant a, res_labels := adv_labels a\<rparr>"

definition capacity_matches :: "resource_capacity \<Rightarrow> resource_capacity \<Rightarrow> bool" where
  "capacity_matches a b = (rcap_slots a = rcap_slots b \<and> rcap_memory_bytes a = rcap_memory_bytes b \<and>
     rcap_max_sessions a = rcap_max_sessions b)"

text \<open>The record a registration stores.\<close>

definition registered_record :: "coordinator_epoch \<Rightarrow> resource_advertisement \<Rightarrow> resource_record" where
  "registered_record epoch a = (copy_advertisement a empty_resource_record)\<lparr>
     res_lifecycle := RL_Current, res_generation := 1, res_health_generation := 1,
     res_capacity_generation := 1, res_state_sequence := 1, res_validated_epoch := epoch,
     res_dynamic_authoritative := True,
     res_authority_detail := ''registered in coordinator epoch '' @ id_to_string K_CoordinatorEpoch epoch,
     res_reserved_slots := 0\<rparr>"

definition register_resource ::
  "resource_advertisement \<Rightarrow> engine \<Rightarrow> resource_record result \<times> engine" where
  "register_resource advertisement e =
     (let cfg = eng_config e; lim = cfg_limits cfg; st = eng_state e;
          status = validate_advertisement lim advertisement;
          a = normalize_advertisement advertisement in
      if \<not> status_ok status then (Inl status, e)
      else if ss_shutting_down st then
        (Inl (Status E_ShuttingDown ''coordinator is shutting down''), e)
      else if unat (max_resources lim) \<le> length (ss_resources st) then
        (Inl (Status E_ResourceExhausted ''resource registry has reached its configured bound''), e)
      else if map_of (ss_resources st) (adv_id a) \<noteq> None then
        (Inl (Status E_DuplicateIdentity
          (''resource is already registered: '' @ id_to_string K_ResourceId (adv_id a))), e)
      else
        let st1 = (if adv_worker a \<noteq> 0
              then fst (adopt_worker_incarnation cfg (adv_worker a) (adv_boot a)
                ''resource registration'' st)
              else st);
            record = registered_record (ss_epoch st1) a;
            check = validate_resource_record lim record
        in if \<not> status_ok check then (Inl check, e\<lparr>eng_state := st1\<rparr>)
           else (Inr record, e\<lparr>eng_state := push_audit cfg ''resource.registered''
              (resource_summary record)
              (st1\<lparr>ss_resources := om_emplace (res_id record) record (ss_resources st1)\<rparr>)\<rparr>))"

text \<open>The record a publication leaves, computed from the live one.\<close>

definition published_record ::
  "coordinator_epoch \<Rightarrow> resource_advertisement \<Rightarrow> resource_record \<Rightarrow> resource_record" where
  "published_record epoch a live =
     (let r = (copy_advertisement a live)\<lparr>
            res_lifecycle := RL_Current,
            res_generation := res_generation live + 1,
            res_state_sequence := res_state_sequence live + 1,
            res_validated_epoch := epoch,
            res_dynamic_authoritative := True,
            res_authority_detail := ''state published in coordinator epoch '' @
              id_to_string K_CoordinatorEpoch epoch\<rparr>;
          r1 = (if \<not> capacity_matches (res_capacity live) (res_capacity r)
                then r\<lparr>res_capacity_generation := res_capacity_generation r + 1\<rparr> else r)
      in if res_health live \<noteq> res_health r1 \<or> res_readiness live \<noteq> res_readiness r1
         then r1\<lparr>res_health_generation := res_health_generation r1 + 1\<rparr> else r1)"

definition publish_live ::
  "engine_config \<Rightarrow> resource_advertisement \<Rightarrow> scheduler_state \<Rightarrow>
     resource_record result \<times> scheduler_state" where
  "publish_live cfg a st =
     (case map_of (ss_resources st) (adv_id a) of
        None \<Rightarrow> (Inl (Status E_InternalError ''resource disappeared during incarnation adoption''), st)
      | Some live \<Rightarrow>
          if res_resource_class live \<noteq> adv_resource_class a then
            (Inl (Status E_InvalidArgument ''resource class cannot change after registration''), st)
          else if rcap_slots (adv_capacity a) < res_reserved_slots live then
            (Inl (Status E_CapacityExhausted
              (''advertised capacity would invalidate active reservations on '' @
               id_to_string K_ResourceId (res_id live))), st)
          else if (ucast (rcap_slots (adv_capacity a)) :: u64) <
              ucast (adv_current_occupancy a) + ucast (res_reserved_slots live) then
            (Inl (Status E_CapacityExhausted
              (''advertised occupancy plus active reservations exceeds capacity on '' @
               id_to_string K_ResourceId (res_id live))), st)
          else
            let record = published_record (ss_epoch st) a live;
                st1 = st\<lparr>ss_resources := om_modify (adv_id a) (\<lambda>_. record) (ss_resources st)\<rparr>;
                check = validate_resource_record (cfg_limits cfg) record
            in if \<not> status_ok check then (Inl check, st1)
               else (Inr record, push_audit cfg ''resource.published'' (resource_summary record) st1))"

definition publish_resource_state ::
  "resource_advertisement \<Rightarrow> engine \<Rightarrow> resource_record result \<times> engine" where
  "publish_resource_state advertisement e =
     (let cfg = eng_config e; st = eng_state e;
          status = validate_advertisement (cfg_limits cfg) advertisement;
          a = normalize_advertisement advertisement in
      if \<not> status_ok status then (Inl status, e)
      else if ss_shutting_down st then
        (Inl (Status E_ShuttingDown ''coordinator is shutting down''), e)
      else case map_of (ss_resources st) (adv_id a) of
          None \<Rightarrow> (Inl (Status E_NotFound
            (''unknown resource: '' @ id_to_string K_ResourceId (adv_id a))), e)
        | Some r \<Rightarrow>
            if res_worker r \<noteq> adv_worker a then
              (Inl (Status E_Unauthorized (''resource '' @ id_to_string K_ResourceId (res_id r) @
                '' is owned by a different worker'')), e)
            else if res_lifecycle r = RL_Retired then
              (Inl (Status E_Unauthorized
                (''resource is retired and no longer accepts advertisements: '' @
                 id_to_string K_ResourceId (res_id r))), e)
            else
              let st1 = (if res_worker r \<noteq> 0 \<and> res_boot r \<noteq> adv_boot a
                    then fst (adopt_worker_incarnation cfg (adv_worker a) (adv_boot a)
                      ''resource state publication'' st)
                    else st);
                  (result, st2) = publish_live cfg a st1
              in (result, e\<lparr>eng_state := st2\<rparr>))"

definition retire_record :: "resource_record \<Rightarrow> resource_record" where
  "retire_record r = r\<lparr>res_lifecycle := RL_Retired, res_dynamic_authoritative := False,
     res_generation := res_generation r + 1, res_validated_epoch := 0,
     res_authority_detail := ''retired''\<rparr>"

definition retire_resource ::
  "resource_id \<Rightarrow> resource_generation \<Rightarrow> engine \<Rightarrow> resource_record result \<times> engine" where
  "retire_resource resource expected e =
     (let st = eng_state e; status = id_validate K_ResourceId resource in
      if \<not> status_ok status then (Inl status, e)
      else case map_of (ss_resources st) resource of
          None \<Rightarrow> (Inl (Status E_NotFound
            (''unknown resource: '' @ id_to_string K_ResourceId resource)), e)
        | Some r \<Rightarrow>
            if expected \<noteq> 0 \<and> res_generation r \<noteq> expected then
              (Inl (Status E_StaleResource (''resource generation '' @
                id_to_string K_ResourceGeneration expected @ '' is not the current generation '' @
                id_to_string K_ResourceGeneration (res_generation r))), e)
            else if res_reserved_slots r \<noteq> 0 then
              (Inl (Status E_ReservationConflict
                (''resource still holds reserved capacity: '' @ id_to_string K_ResourceId (res_id r))), e)
            else (Inr (retire_record r), e\<lparr>eng_state := push_audit (eng_config e) ''resource.retired''
              (resource_summary (retire_record r))
              (st\<lparr>ss_resources := om_modify resource retire_record (ss_resources st)\<rparr>)\<rparr>))"

section \<open>The second validation\<close>

text \<open>A copied advertisement is recovered from the record; the scheduler's own fields are apart.\<close>

lemma advertisement_of_update [simp]:
  "advertisement_of_record (r\<lparr>res_lifecycle := x0\<rparr>) = advertisement_of_record r"
  "advertisement_of_record (r\<lparr>res_generation := x1\<rparr>) = advertisement_of_record r"
  "advertisement_of_record (r\<lparr>res_health_generation := x2\<rparr>) = advertisement_of_record r"
  "advertisement_of_record (r\<lparr>res_capacity_generation := x3\<rparr>) = advertisement_of_record r"
  "advertisement_of_record (r\<lparr>res_state_sequence := x4\<rparr>) = advertisement_of_record r"
  "advertisement_of_record (r\<lparr>res_validated_epoch := x5\<rparr>) = advertisement_of_record r"
  "advertisement_of_record (r\<lparr>res_dynamic_authoritative := x6\<rparr>) = advertisement_of_record r"
  "advertisement_of_record (r\<lparr>res_authority_detail := x7\<rparr>) = advertisement_of_record r"
  "advertisement_of_record (r\<lparr>res_reserved_slots := x8\<rparr>) = advertisement_of_record r"
  by (simp_all add: advertisement_of_record_def)

lemma copy_advertisement_simps [simp]:
  "advertisement_of_record (copy_advertisement a r) = a"
  "res_id (copy_advertisement a r) = adv_id a"
  "res_capacity (copy_advertisement a r) = adv_capacity a"
  "res_advertised_occupancy (copy_advertisement a r) = adv_current_occupancy a"
  "res_resource_class (copy_advertisement a r) = adv_resource_class a"
  "res_worker (copy_advertisement a r) = adv_worker a"
  "res_boot (copy_advertisement a r) = adv_boot a"
  "res_lifecycle (copy_advertisement a r) = res_lifecycle r"
  "res_generation (copy_advertisement a r) = res_generation r"
  "res_health_generation (copy_advertisement a r) = res_health_generation r"
  "res_capacity_generation (copy_advertisement a r) = res_capacity_generation r"
  "res_state_sequence (copy_advertisement a r) = res_state_sequence r"
  "res_validated_epoch (copy_advertisement a r) = res_validated_epoch r"
  "res_dynamic_authoritative (copy_advertisement a r) = res_dynamic_authoritative r"
  "res_authority_detail (copy_advertisement a r) = res_authority_detail r"
  "res_reserved_slots (copy_advertisement a r) = res_reserved_slots r"
  by (simp_all add: copy_advertisement_def advertisement_of_record_def)

lemma registered_record_simps [simp]:
  "advertisement_of_record (registered_record epoch a) = a"
  "res_lifecycle (registered_record epoch a) = RL_Current"
  "res_capacity (registered_record epoch a) = adv_capacity a"
  "res_advertised_occupancy (registered_record epoch a) = adv_current_occupancy a"
  "res_reserved_slots (registered_record epoch a) = 0"
  "res_id (registered_record epoch a) = adv_id a"
  by (simp_all add: registered_record_def)

lemma registered_record_valid:
  assumes "status_ok (validate_advertisement lim a)"
  shows "status_ok (validate_resource_record lim (registered_record epoch (normalize_advertisement a)))"
proof -
  from assms have v: "status_ok (validate_advertisement lim (normalize_advertisement a))"
    by (simp add: validate_normalize)
  from validate_advertisement_capacity(2) [OF v] v
  show ?thesis unfolding validate_record_simps by (simp add: total_occupancy_def)
qed

lemma published_record_simps [simp]:
  "res_lifecycle (published_record epoch a r) = RL_Current"
  "res_capacity (published_record epoch a r) = adv_capacity a"
  "res_advertised_occupancy (published_record epoch a r) = adv_current_occupancy a"
  "res_reserved_slots (published_record epoch a r) = res_reserved_slots r"
  "res_dynamic_authoritative (published_record epoch a r)"
  "res_id (published_record epoch a r) = adv_id a"
  "res_boot (published_record epoch a r) = adv_boot a"
  "res_generation (published_record epoch a r) = res_generation r + 1"
  "advertisement_of_record (published_record epoch a r) = a"
  by (simp_all add: published_record_def Let_def)

lemma retire_record_simps [simp]:
  "res_id (retire_record r) = res_id r"
  "res_capacity (retire_record r) = res_capacity r"
  "res_advertised_occupancy (retire_record r) = res_advertised_occupancy r"
  "res_reserved_slots (retire_record r) = res_reserved_slots r"
  by (simp_all add: retire_record_def)

text \<open>The 64-bit sum of the guard is exact.\<close>

lemma unat_u64: "unat (ucast a :: u64) = unat a" for a :: u32
  using unsigned_less [of a, where ?'a = nat] by (simp add: unsigned_ucast_eq take_bit_nat_eq_self)

lemma occupancy_guard_iff:
  fixes a b c :: u32
  shows "((ucast c :: u64) < ucast a + ucast b) = (unat c < unat a + unat b)"
proof -
  have "unat a < 2 ^ 32" "unat b < 2 ^ 32" using unsigned_less [of a] unsigned_less [of b] by simp_all
  then have "unat (ucast a + ucast b :: u64) = unat a + unat b"
    by (subst unat_add_no_wrap) (simp_all add: unat_u64)
  then show ?thesis by (simp add: word_less_nat_alt unat_u64)
qed

lemma published_record_valid:
  assumes "status_ok (validate_advertisement lim a)"
    and "\<not> (ucast (rcap_slots (adv_capacity a)) :: u64) <
      ucast (adv_current_occupancy a) + ucast (res_reserved_slots r)"
  shows "status_ok (validate_resource_record lim (published_record epoch a r))"
proof -
  from assms(2) have le: "unat (adv_current_occupancy a) + unat (res_reserved_slots r)
      \<le> unat (rcap_slots (adv_capacity a))"
    unfolding occupancy_guard_iff by simp
  from unat_add_capped [OF le] le
  have "adv_current_occupancy a + res_reserved_slots r \<le> rcap_slots (adv_capacity a)"
    by (simp add: word_le_nat_alt)
  with assms(1) show ?thesis unfolding validate_record_simps by (simp add: total_occupancy_def)
qed

text \<open>A failing publication leaves the state it was given.\<close>

lemma publish_live_atomic:
  assumes "status_ok (validate_advertisement (cfg_limits cfg) a)"
    and "publish_live cfg a st = (Inl s, st')"
  shows "st' = st"
  using assms(2) published_record_valid [OF assms(1)]
  by (auto simp: publish_live_def Let_def split: option.splits if_splits)

end
