(* ===== verification/Lifecycle.thy ===== *)
theory Lifecycle
  imports Schedule
begin

text \<open>
  \<open>engine_lifecycle.cpp\<close> after \<open>terminate_placement\<close>: assignment, start, completion, cancellation,
  reassignment and preemption of placements. Each operation is one function whose guards follow
  the order of the code; a reference to a placement or a stored request is its key.
\<close>

section \<open>Reports\<close>

record completion_claim =
  cc_placement :: placement_id
  cc_placement_generation :: placement_generation
  cc_experiment :: experiment_id
  cc_experiment_generation :: experiment_generation
  cc_epoch :: coordinator_epoch
  cc_worker_boot :: worker_boot_id
  cc_resources :: "resource_id list"
  cc_resource_generations :: "resource_generation list"
  cc_succeeded :: bool
  cc_detail :: string

record completion_outcome =
  co_status :: status
  co_accepted :: bool
  co_duplicate :: bool
  co_placement :: placement_id
  co_state :: placement_state
  co_released_reservations :: "reservation_id list"

record cancellation_report =
  cn_status :: status
  cn_request :: schedule_request_id
  cn_placement :: placement_id
  cn_state :: placement_state
  cn_cancelled_placements :: "placement_id list"
  cn_released_reservations :: "reservation_id list"
  cn_detail :: string

record reassignment_report =
  rr_status :: status
  rr_previous_placement :: placement_id
  rr_previous_generation :: placement_generation
  rr_new_placement :: placement_id
  rr_new_generation :: placement_generation
  rr_decision :: decision
  rr_revoked_reservations :: "reservation_id list"
  rr_reason :: string

definition empty_completion :: completion_outcome where
  "empty_completion = \<lparr>co_status = ok_status, co_accepted = False, co_duplicate = False,
     co_placement = 0, co_state = PL_Reserved, co_released_reservations = []\<rparr>"

definition empty_cancellation :: cancellation_report where
  "empty_cancellation = \<lparr>cn_status = ok_status, cn_request = 0, cn_placement = 0,
     cn_state = PL_Reserved, cn_cancelled_placements = [], cn_released_reservations = [],
     cn_detail = []\<rparr>"

definition empty_reassignment :: reassignment_report where
  "empty_reassignment = \<lparr>rr_status = ok_status, rr_previous_placement = 0,
     rr_previous_generation = 0, rr_new_placement = 0, rr_new_generation = 0,
     rr_decision = empty_decision, rr_revoked_reservations = [], rr_reason = []\<rparr>"

definition no_such_placement :: "placement_id \<Rightarrow> status" where
  "no_such_placement pid = Status E_NotFound (''no such placement: '' @ id_to_string K_PlacementId pid)"

section \<open>Assignment and start\<close>

definition progress_checks ::
  "bool \<Rightarrow> placement_generation \<Rightarrow> worker_boot_id \<Rightarrow> placement_record \<Rightarrow> status" where
  "progress_checks reject_running generation worker_boot p =
     check_all [
       fail_if (pl_generation p \<noteq> generation) E_StalePlacement
         ''placement generation does not match the current generation'',
       fail_if (worker_boot \<noteq> 0 \<and> pl_worker_boot p \<noteq> worker_boot) E_StaleWorker
         ''placement is not bound to this worker incarnation'',
       fail_if (\<not> placement_state_is_live (pl_state p))
         (if pl_state p = PL_Cancelled then E_Cancelled else E_StalePlacement)
         (''placement is not live: '' @ placement_state_name (pl_state p)),
       fail_if (reject_running \<and> pl_state p = PL_Running) E_StalePlacement
         ''placement is already running'']"

definition progress_record ::
  "placement_state \<Rightarrow> string \<Rightarrow> u64 \<Rightarrow> placement_record \<Rightarrow> placement_record" where
  "progress_record target detail seqn p =
     p\<lparr>pl_state := target, pl_detail := detail, pl_transition_sequence := seqn\<rparr>"

text \<open>The common body of the two operations: they differ in the extra guard, the state and texts.\<close>

definition progress_placement ::
  "bool \<Rightarrow> placement_state \<Rightarrow> string \<Rightarrow> string \<Rightarrow> placement_id \<Rightarrow> placement_generation \<Rightarrow>
     coordinator_epoch \<Rightarrow> worker_boot_id \<Rightarrow> engine \<Rightarrow> placement_record result \<times> engine" where
  "progress_placement reject_running target detail kind pid generation epoch worker_boot e =
     (let st = eng_state e;
          s1 = id_validate K_PlacementId pid;
          s2 = id_validate K_PlacementGeneration generation;
          s3 = check_epoch st epoch in
      if \<not> status_ok s1 then (Inl s1, e)
      else if \<not> status_ok s2 then (Inl s2, e)
      else if \<not> status_ok s3 then (Inl s3, e)
      else case map_of (ss_placements st) pid of
          None \<Rightarrow> (Inl (no_such_placement pid), e)
        | Some p \<Rightarrow>
            let s4 = progress_checks reject_running generation worker_boot p in
            if \<not> status_ok s4 then (Inl s4, e)
            else
              let seqn = ss_transition_sequence st + 1;
                  p' = progress_record target detail seqn p;
                  st1 = st\<lparr>ss_transition_sequence := seqn,
                    ss_placements := om_modify pid (progress_record target detail seqn)
                      (ss_placements st)\<rparr>
              in (Inr p', e\<lparr>eng_state :=
                   push_audit (eng_config e) kind (placement_summary p') st1\<rparr>))"

definition mark_assigned ::
  "placement_id \<Rightarrow> placement_generation \<Rightarrow> coordinator_epoch \<Rightarrow> worker_boot_id \<Rightarrow> engine \<Rightarrow>
     placement_record result \<times> engine" where
  "mark_assigned = progress_placement True PL_Assigned ''assigned to worker'' ''placement.assigned''"

definition mark_running ::
  "placement_id \<Rightarrow> placement_generation \<Rightarrow> coordinator_epoch \<Rightarrow> worker_boot_id \<Rightarrow> engine \<Rightarrow>
     placement_record result \<times> engine" where
  "mark_running = progress_placement False PL_Running ''running on worker'' ''placement.running''"

section \<open>Completion\<close>

text \<open>The state-dependent part of the refusal of a placement that is no longer live.\<close>

primrec not_live_status :: "placement_state \<Rightarrow> status" where
  "not_live_status PL_Cancelled = Status E_Cancelled ''placement was cancelled; completion rejected''"
| "not_live_status PL_Preempted = Status E_Preempted ''placement was preempted; completion rejected''"
| "not_live_status PL_ReassignmentRequired =
     Status E_ReassignmentRequired ''placement lost its authority; completion rejected''"
| "not_live_status PL_Reserved = Status E_StalePlacement ''placement is no longer current''"
| "not_live_status PL_Assigned = Status E_StalePlacement ''placement is no longer current''"
| "not_live_status PL_Running = Status E_StalePlacement ''placement is no longer current''"
| "not_live_status PL_Completed = Status E_StalePlacement ''placement is no longer current''"
| "not_live_status PL_Failed = Status E_StalePlacement ''placement is no longer current''"
| "not_live_status PL_Lost = Status E_StalePlacement ''placement is no longer current''"

definition already_recorded :: "placement_record \<Rightarrow> bool" where
  "already_recorded p = (pl_completion_recorded p \<or> pl_state p = PL_Completed \<or> pl_state p = PL_Failed)"

definition check_claimed_resources :: "resource_id list \<Rightarrow> placement_record \<Rightarrow> status" where
  "check_claimed_resources claimed p =
     (if claimed = [] then ok_status
      else fail_if (length claimed \<noteq> length (pl_resources p) \<or>
          sort_by (<) claimed \<noteq> sort_by (<) (map sel_resource (pl_resources p)))
        E_Unauthorized ''completion names the wrong resource set'')"

definition check_one_generation ::
  "(resource_id, resource_record) omap \<Rightarrow> selected_resource \<times> resource_generation \<Rightarrow> status" where
  "check_one_generation resources sg =
     (case map_of resources (sel_resource (fst sg)) of
        None \<Rightarrow> Status E_ResourceLost ''a bound resource is no longer registered''
      | Some r \<Rightarrow> fail_if (res_generation r \<noteq> snd sg) E_StaleResource
          (''completion observes a stale resource generation on '' @
           id_to_string K_ResourceId (sel_resource (fst sg))))"

definition check_claimed_generations ::
  "(resource_id, resource_record) omap \<Rightarrow> resource_generation list \<Rightarrow> placement_record \<Rightarrow> status" where
  "check_claimed_generations resources gens p =
     (if gens = [] then ok_status
      else if length gens \<noteq> length (pl_resources p) then
        Status E_Unauthorized ''completion carries the wrong number of generations''
      else check_all (map (check_one_generation resources) (zip (pl_resources p) gens)))"

definition check_backing_reservation :: "scheduler_state \<Rightarrow> placement_record \<Rightarrow> status" where
  "check_backing_reservation st p =
     (let refused = Status E_ReservationNotActive
            ''the reservation backing this placement is no longer active''
      in case map_of (ss_reservations st) (pl_reservation p) of
           None \<Rightarrow> refused
         | Some v \<Rightarrow> if rv_state v \<noteq> RV_Active then refused else ok_status)"

text \<open>The authority checks in their documented order.\<close>

definition completion_authority :: "scheduler_state \<Rightarrow> completion_claim \<Rightarrow> placement_record \<Rightarrow> status" where
  "completion_authority st claim p =
     check_all [
       check_epoch st (cc_epoch claim),
       fail_if (cc_experiment claim = 0 \<or> cc_experiment claim \<noteq> pl_experiment p) E_StaleExperiment
         ''completion names a different experiment'',
       fail_if (cc_experiment_generation claim = 0 \<or>
           cc_experiment_generation claim \<noteq> pl_experiment_generation p) E_StaleExperiment
         ''completion names a different experiment generation'',
       fail_if (cc_placement_generation claim \<noteq> pl_generation p) E_StalePlacement
         ''completion names a superseded placement generation'',
       fail_if (already_recorded p) E_DuplicateCompletion
         ''completion for this placement generation was already recorded'',
       (if placement_state_is_live (pl_state p) then ok_status else not_live_status (pl_state p)),
       fail_if (cc_worker_boot claim \<noteq> 0 \<and> cc_worker_boot claim \<noteq> pl_worker_boot p) E_StaleWorker
         ''completion arrives from a stale worker incarnation'',
       check_claimed_resources (cc_resources claim) p,
       check_claimed_generations (ss_resources st) (cc_resource_generations claim) p,
       check_backing_reservation st p]"

definition record_completion :: "string \<Rightarrow> placement_record \<Rightarrow> placement_record" where
  "record_completion detail p = p\<lparr>pl_completion_recorded := True, pl_completion_detail := detail\<rparr>"

definition complete_placement ::
  "completion_claim \<Rightarrow> scheduler_state \<Rightarrow> scheduler_state" where
  "complete_placement claim st =
     terminate_placement (cc_placement claim)
       (if cc_succeeded claim then PL_Completed else PL_Failed)
       (if cc_succeeded claim then ''completion reported by worker'' else ''failure reported by worker'')
       (st\<lparr>ss_placements := om_modify (cc_placement claim) (record_completion (cc_detail claim))
          (ss_placements st)\<rparr>)"

definition report_completion :: "completion_claim \<Rightarrow> engine \<Rightarrow> completion_outcome \<times> engine" where
  "report_completion claim e =
     (let st = eng_state e; s1 = id_validate K_PlacementId (cc_placement claim);
          out = empty_completion\<lparr>co_placement := cc_placement claim\<rparr> in
      if \<not> status_ok s1 then (empty_completion\<lparr>co_status := s1\<rparr>, e)
      else case map_of (ss_placements st) (cc_placement claim) of
          None \<Rightarrow> (out\<lparr>co_status := no_such_placement (cc_placement claim)\<rparr>, e)
        | Some p \<Rightarrow>
            let s2 = completion_authority st claim p in
            if \<not> status_ok s2 then
              (out\<lparr>co_status := s2, co_state := pl_state p,
                   co_duplicate := (st_code s2 = E_DuplicateCompletion)\<rparr>, e)
            else
              let st1 = complete_placement claim st;
                  target = (if cc_succeeded claim then PL_Completed else PL_Failed);
                  summary = (case map_of (ss_placements st1) (cc_placement claim) of
                    None \<Rightarrow> [] | Some q \<Rightarrow> placement_summary q)
              in (out\<lparr>co_accepted := True, co_state := target, co_status := ok_status,
                      co_released_reservations := [pl_reservation p]\<rparr>,
                  e\<lparr>eng_state := push_audit (eng_config e)
                    (if cc_succeeded claim then ''placement.completed'' else ''placement.failed'')
                    summary st1\<rparr>))"

section \<open>Cancellation\<close>

definition or_default :: "string \<Rightarrow> string \<Rightarrow> string" where
  "or_default dflt reason = (if reason = [] then dflt else reason)"

definition cancel_placement ::
  "placement_id \<Rightarrow> placement_generation \<Rightarrow> coordinator_epoch \<Rightarrow> string \<Rightarrow> engine \<Rightarrow>
     cancellation_report \<times> engine" where
  "cancel_placement pid generation epoch reason e =
     (let st = eng_state e; s1 = id_validate K_PlacementId pid; s2 = check_epoch st epoch;
          report = empty_cancellation\<lparr>cn_placement := pid\<rparr> in
      if \<not> status_ok s1 then (empty_cancellation\<lparr>cn_status := s1\<rparr>, e)
      else if \<not> status_ok s2 then (report\<lparr>cn_status := s2\<rparr>, e)
      else case map_of (ss_placements st) pid of
          None \<Rightarrow> (report\<lparr>cn_status := no_such_placement pid\<rparr>, e)
        | Some p \<Rightarrow>
            let report1 = report\<lparr>cn_state := pl_state p\<rparr> in
            if generation \<noteq> 0 \<and> pl_generation p \<noteq> generation then
              (report1\<lparr>cn_status := Status E_StalePlacement
                ''cancellation names a superseded placement generation''\<rparr>, e)
            else if pl_state p = PL_Cancelled then
              (report1\<lparr>cn_status := Status E_Cancelled ''placement was already cancelled'',
                 cn_detail := ''duplicate cancellation ignored''\<rparr>, e)
            else if \<not> placement_state_is_live (pl_state p) then
              (report1\<lparr>cn_status := Status E_StalePlacement
                 (''placement already reached terminal state '' @ placement_state_name (pl_state p)),
                 cn_detail := ''cancellation had no effect''\<rparr>, e)
            else
              let detail = or_default ''cancelled by controller'' reason;
                  st1 = terminate_placement pid PL_Cancelled detail st;
                  summary = (case map_of (ss_placements st1) pid of
                    None \<Rightarrow> [] | Some q \<Rightarrow> placement_summary q)
              in (report1\<lparr>cn_cancelled_placements := [pl_id p],
                    cn_released_reservations := [pl_reservation p], cn_state := PL_Cancelled,
                    cn_detail := detail, cn_status := ok_status\<rparr>,
                  e\<lparr>eng_state := push_audit (eng_config e) ''placement.cancelled'' summary st1\<rparr>))"

definition cancel_request_step ::
  "schedule_request_id \<Rightarrow> string \<Rightarrow> placement_id \<Rightarrow> scheduler_state \<times> cancellation_report \<Rightarrow>
     scheduler_state \<times> cancellation_report" where
  "cancel_request_step rid reason pid = (\<lambda>(st, report).
     case map_of (ss_placements st) pid of
       None \<Rightarrow> (st, report)
     | Some p \<Rightarrow>
         if pl_request p \<noteq> rid \<or> \<not> placement_state_is_live (pl_state p) then (st, report)
         else (terminate_placement pid PL_Cancelled
                 (or_default ''request cancelled by controller'' reason) st,
               report\<lparr>cn_cancelled_placements := cn_cancelled_placements report @ [pl_id p],
                 cn_released_reservations := cn_released_reservations report @ [pl_reservation p]\<rparr>))"

definition cancel_stored :: "string \<Rightarrow> stored_request \<Rightarrow> stored_request" where
  "cancel_stored detail s =
     s\<lparr>st_state := RQ_Cancelled, st_current_placement := 0, st_detail := detail\<rparr>"

definition cancel_request ::
  "schedule_request_id \<Rightarrow> string \<Rightarrow> engine \<Rightarrow> cancellation_report \<times> engine" where
  "cancel_request rid reason e =
     (let st = eng_state e; s1 = id_validate K_ScheduleRequestId rid;
          report = empty_cancellation\<lparr>cn_request := rid\<rparr> in
      if \<not> status_ok s1 then (empty_cancellation\<lparr>cn_status := s1\<rparr>, e)
      else if map_of (ss_requests st) rid = None then
        (report\<lparr>cn_status := Status E_NotFound
          (''no such scheduling request: '' @ id_to_string K_ScheduleRequestId rid)\<rparr>, e)
      else
        let (st1, report1) = fold (cancel_request_step rid reason) (om_keys (ss_placements st)) (st, report);
            detail = or_default ''cancelled by controller'' reason;
            st2 = st1\<lparr>ss_requests := om_modify rid (cancel_stored detail) (ss_requests st1)\<rparr>
        in (report1\<lparr>cn_detail := detail, cn_status := ok_status\<rparr>,
            e\<lparr>eng_state := push_audit (eng_config e) ''request.cancelled''
              (id_to_string K_ScheduleRequestId rid @ '' '' @ detail) st2\<rparr>))"

section \<open>Reassignment and preemption\<close>

text \<open>Scheduling the stored request of a placement again, with the next generation.\<close>

definition reschedule ::
  "engine_config \<Rightarrow> placement_record \<Rightarrow> stored_request \<Rightarrow> scheduler_state \<Rightarrow> id_generator \<Rightarrow>
     decision result \<times> scheduler_state \<times> id_generator" where
  "reschedule cfg p stored st ids =
     schedule_locked cfg (pl_request p) (st_request stored) (pl_generation p + 1)
       (pl_reassignment_count p + 1) st ids"

definition reassign_recorded ::
  "placement_record \<Rightarrow> reassignment_report \<Rightarrow> scheduler_state \<Rightarrow> engine \<Rightarrow>
     reassignment_report result \<times> engine" where
  "reassign_recorded p report st e =
     (case map_of (ss_requests st) (pl_request p) of
        None \<Rightarrow> (Inl (Status E_NotFound ''the placement's scheduling request is no longer recorded''),
                 e\<lparr>eng_state := st\<rparr>)
      | Some stored \<Rightarrow>
          if sr_max_reassignments (st_request stored) \<le> pl_reassignment_count p then
            (Inl (Status E_ReassignmentRequired ''reassignment budget exhausted for this placement''),
             e\<lparr>eng_state := st\<rparr>)
          else
            (case reschedule (eng_config e) p stored st (eng_ids e) of
               (Inl status, st1, ids) \<Rightarrow> (Inl status, e\<lparr>eng_state := st1, eng_ids := ids\<rparr>)
             | (Inr d, st1, ids) \<Rightarrow>
                 let report1 = report\<lparr>rr_decision := d\<rparr> in
                 if dc_outcome d \<noteq> DO_Placed then
                   (Inr (report1\<lparr>rr_status := Status (dc_failure d)
                      (''reassignment could not find a valid placement: '' @ dc_failure_detail d)\<rparr>),
                    e\<lparr>eng_state := st1, eng_ids := ids\<rparr>)
                 else
                   (Inr (report1\<lparr>rr_new_placement := pl_id (dc_placement d),
                      rr_new_generation := pl_generation (dc_placement d), rr_status := ok_status\<rparr>),
                    e\<lparr>eng_state := push_audit (eng_config e) ''placement.reassigned''
                        (id_to_string K_PlacementId (rr_previous_placement report) @ '' -> '' @
                         id_to_string K_PlacementId (pl_id (dc_placement d))) st1,
                      eng_ids := ids\<rparr>)))"

definition reassign_placement ::
  "placement_id \<Rightarrow> placement_generation \<Rightarrow> coordinator_epoch \<Rightarrow> string \<Rightarrow> engine \<Rightarrow>
     reassignment_report result \<times> engine" where
  "reassign_placement pid generation epoch reason e =
     (let st = eng_state e; s1 = id_validate K_PlacementId pid; s2 = check_epoch st epoch in
      if \<not> status_ok s1 then (Inl s1, e)
      else if \<not> status_ok s2 then (Inl s2, e)
      else case map_of (ss_placements st) pid of
          None \<Rightarrow> (Inl (no_such_placement pid), e)
        | Some p \<Rightarrow>
            let report = empty_reassignment\<lparr>rr_reason := reason, rr_previous_placement := pl_id p,
                  rr_previous_generation := pl_generation p\<rparr> in
            if generation \<noteq> 0 \<and> pl_generation p \<noteq> generation then
              (Inl (Status E_StalePlacement
                ''reassignment names a superseded placement generation''), e)
            else if placement_state_is_live (pl_state p) then
              reassign_recorded p (report\<lparr>rr_revoked_reservations := [pl_reservation p]\<rparr>)
                (terminate_placement pid PL_ReassignmentRequired
                  (or_default ''reassigned by controller'' reason) st) e
            else if pl_state p \<noteq> PL_ReassignmentRequired then
              (Inl (Status E_StalePlacement (''placement cannot be reassigned from state '' @
                placement_state_name (pl_state p))), e)
            else reassign_recorded p report st e)"

definition preempt_terminated ::
  "placement_record \<Rightarrow> string \<Rightarrow> reassignment_report \<Rightarrow> scheduler_state \<Rightarrow> engine \<Rightarrow>
     reassignment_report result \<times> engine" where
  "preempt_terminated p reason report st e =
     (case map_of (ss_requests st) (pl_request p) of
        None \<Rightarrow> (Inr (report\<lparr>rr_status := ok_status\<rparr>), e\<lparr>eng_state := st\<rparr>)
      | Some stored \<Rightarrow>
          let st1 = st\<lparr>ss_requests := om_modify (pl_request p)
                (\<lambda>s. s\<lparr>st_state := RQ_Submitted\<rparr>) (ss_requests st)\<rparr> in
          if \<not> sr_allow_preemption (st_request stored) \<or>
              sr_max_reassignments (st_request stored) \<le> pl_reassignment_count p then
            (Inr (report\<lparr>rr_status := ok_status\<rparr>), e\<lparr>eng_state := st1\<rparr>)
          else
            (case reschedule (eng_config e) p stored st1 (eng_ids e) of
               (Inl status, st2, ids) \<Rightarrow> (Inl status, e\<lparr>eng_state := st2, eng_ids := ids\<rparr>)
             | (Inr d, st2, ids) \<Rightarrow>
                 let report1 = report\<lparr>rr_decision := d\<rparr>;
                     report2 = (if dc_outcome d = DO_Placed
                       then report1\<lparr>rr_new_placement := pl_id (dc_placement d),
                         rr_new_generation := pl_generation (dc_placement d)\<rparr>
                       else report1)
                 in (Inr (report2\<lparr>rr_status := ok_status\<rparr>),
                     e\<lparr>eng_state := push_audit (eng_config e) ''placement.preempted''
                         (id_to_string K_PlacementId (pl_id p) @ '' '' @ or_default ''preempted'' reason) st2,
                       eng_ids := ids\<rparr>)))"

definition preempt_placement ::
  "placement_id \<Rightarrow> placement_generation \<Rightarrow> coordinator_epoch \<Rightarrow> string \<Rightarrow> engine \<Rightarrow>
     reassignment_report result \<times> engine" where
  "preempt_placement pid generation epoch reason e =
     (let st = eng_state e; s1 = id_validate K_PlacementId pid; s2 = check_epoch st epoch in
      if \<not> status_ok s1 then (Inl s1, e)
      else if \<not> status_ok s2 then (Inl s2, e)
      else case map_of (ss_placements st) pid of
          None \<Rightarrow> (Inl (no_such_placement pid), e)
        | Some p \<Rightarrow>
            if generation \<noteq> 0 \<and> pl_generation p \<noteq> generation then
              (Inl (Status E_StalePlacement ''preemption names a superseded placement generation''), e)
            else if \<not> placement_state_is_live (pl_state p) then
              (Inl (Status (if pl_state p = PL_Cancelled then E_Cancelled else E_StalePlacement)
                ''placement is not live and cannot be preempted''), e)
            else preempt_terminated p reason
              (empty_reassignment\<lparr>rr_reason := reason, rr_previous_placement := pl_id p,
                 rr_previous_generation := pl_generation p,
                 rr_revoked_reservations := [pl_reservation p]\<rparr>)
              (terminate_placement pid PL_Preempted
                (or_default ''preempted to free a constrained resource'' reason) st) e)"

end
