(* ===== verification/Recovery.thy ===== *)
theory Recovery
  imports EngineResources Lifecycle
begin

text \<open>
  \<open>durable.cpp\<close> and \<open>engine_recovery.cpp\<close>: the checks a persisted image must pass and its import
  into an empty engine, which advances the coordinator epoch and revokes every authority of the
  previous coordinator. The loops with their growing sets are recursive functions over the record
  lists with the set as an argument.
\<close>

section \<open>Validation of a durable state\<close>

definition corrupt :: "string \<Rightarrow> status" where
  "corrupt msg = Status E_CorruptPersistence msg"

definition insert_unique :: "id_kind \<Rightarrow> string \<Rightarrow> u64 list \<Rightarrow> u64 \<Rightarrow> status" where
  "insert_unique k what seen i =
     (if \<not> status_ok (id_validate k i) then corrupt (''persisted '' @ what @ '' identity is null'')
      else if i \<in> set seen then
        Status E_DuplicateIdentity
          (''persisted '' @ what @ '' identity is duplicated: '' @ id_to_string k i)
      else ok_status)"

fun durable_resources :: "limits \<Rightarrow> u64 list \<Rightarrow> resource_record list \<Rightarrow> status" where
  "durable_resources lim seen [] = ok_status"
| "durable_resources lim seen (r # rs) =
     check_all [
       insert_unique K_ResourceId ''resource'' seen (res_id r),
       validate_resource_record lim r,
       durable_resources lim (res_id r # seen) rs]"

fun durable_requests :: "limits \<Rightarrow> u64 list \<Rightarrow> stored_request list \<Rightarrow> status" where
  "durable_requests lim seen [] = ok_status"
| "durable_requests lim seen (s # ss) =
     check_all [
       insert_unique K_ScheduleRequestId ''scheduling request'' seen (sr_id (st_request s)),
       validate_schedule_request lim (st_request s),
       durable_requests lim (sr_id (st_request s) # seen) ss]"

definition durable_selected :: "u64 list \<Rightarrow> selected_resource \<Rightarrow> status" where
  "durable_selected resource_ids s =
     check_all [
       fail_if (sel_resource s \<notin> set resource_ids) E_CorruptPersistence
         ''persisted placement references an unknown resource'',
       fail_if (\<not> status_ok (id_validate K_ResourceGeneration (sel_generation s))) E_CorruptPersistence
         ''persisted placement resource generation is null'']"

definition durable_placement :: "u64 list \<Rightarrow> u64 list \<Rightarrow> u64 list \<Rightarrow> placement_record \<Rightarrow> status" where
  "durable_placement resource_ids request_ids seen p =
     check_all ([
       insert_unique K_PlacementId ''placement'' seen (pl_id p),
       fail_if (\<not> status_ok (id_validate K_PlacementGeneration (pl_generation p))) E_CorruptPersistence
         ''persisted placement generation is null'',
       fail_if (pl_request p \<notin> set request_ids) E_CorruptPersistence
         ''persisted placement references an unknown scheduling request'',
       fail_if (pl_resources p = []) E_CorruptPersistence
         ''persisted placement has no selected resources''] @
       map (durable_selected resource_ids) (pl_resources p))"

fun durable_placements :: "u64 list \<Rightarrow> u64 list \<Rightarrow> u64 list \<Rightarrow> placement_record list \<Rightarrow> status" where
  "durable_placements resource_ids request_ids seen [] = ok_status"
| "durable_placements resource_ids request_ids seen (p # ps) =
     check_all [durable_placement resource_ids request_ids seen p,
       durable_placements resource_ids request_ids (pl_id p # seen) ps]"

type_synonym claim_totals = "(resource_id, u64) omap"

definition claimed_total :: "claim_totals \<Rightarrow> resource_id \<Rightarrow> u64" where
  "claimed_total totals i = (case map_of totals i of None \<Rightarrow> 0 | Some n \<Rightarrow> n)"

definition add_claim :: "reservation_claim \<Rightarrow> claim_totals \<Rightarrow> claim_totals" where
  "add_claim c totals =
     om_set (cl_resource c) (claimed_total totals (cl_resource c) + ucast (cl_slots c)) totals"

fun durable_claims ::
  "(resource_id, u32) omap \<Rightarrow> bool \<Rightarrow> reservation_claim list \<Rightarrow> claim_totals \<Rightarrow> status \<times> claim_totals"
where
  "durable_claims caps active [] totals = (ok_status, totals)"
| "durable_claims caps active (c # cs) totals =
     (case map_of caps (cl_resource c) of
        None \<Rightarrow> (corrupt ''persisted reservation claims an unknown resource'', totals)
      | Some capacity \<Rightarrow>
          if cl_slots c = 0 then (corrupt ''persisted reservation claims zero slots'', totals)
          else if active then
            let totals' = add_claim c totals in
            if ucast capacity < claimed_total totals' (cl_resource c) then
              (corrupt ''persisted active reservations exceed resource capacity'', totals')
            else durable_claims caps active cs totals'
          else durable_claims caps active cs totals)"

definition durable_reservation :: "u64 list \<Rightarrow> u64 list \<Rightarrow> reservation_record \<Rightarrow> status" where
  "durable_reservation placement_ids seen v =
     check_all [
       insert_unique K_ReservationId ''reservation'' seen (rv_id v),
       fail_if (\<not> status_ok (id_validate K_LeaseId (rv_lease v))) E_CorruptPersistence
         ''persisted reservation lease identity is null'',
       fail_if (rv_claims v = []) E_CorruptPersistence ''persisted reservation has no claims'',
       fail_if (rv_placement v \<notin> set placement_ids) E_CorruptPersistence
         ''persisted reservation references an unknown placement'']"

fun durable_reservations ::
  "(resource_id, u32) omap \<Rightarrow> u64 list \<Rightarrow> u64 list \<Rightarrow> reservation_record list \<Rightarrow> claim_totals \<Rightarrow>
     status \<times> claim_totals" where
  "durable_reservations caps placement_ids seen [] totals = (ok_status, totals)"
| "durable_reservations caps placement_ids seen (v # vs) totals =
     (let s1 = durable_reservation placement_ids seen v in
      if \<not> status_ok s1 then (s1, totals)
      else
        let (s2, totals1) = durable_claims caps (rv_state v = RV_Active) (rv_claims v) totals in
        if \<not> status_ok s2 then (s2, totals1)
        else durable_reservations caps placement_ids (rv_id v # seen) vs totals1)"

definition durable_mirror :: "claim_totals \<Rightarrow> resource_record \<Rightarrow> status" where
  "durable_mirror totals r =
     fail_if (ucast (res_reserved_slots r) \<noteq> claimed_total totals (res_id r)) E_CorruptPersistence
       ''persisted reserved capacity does not match the active reservation claims''"

definition durable_capacities :: "resource_record list \<Rightarrow> (resource_id, u32) omap" where
  "durable_capacities rs =
     fold (\<lambda>r m. om_emplace (res_id r) (rcap_slots (res_capacity r)) m) rs []"

definition durable_bounds :: "durable_state \<Rightarrow> status" where
  "durable_bounds d =
     (let maximum = unat (max_persistence_records (du_limits d)) in
      fail_if (maximum < length (du_resources d) \<or> maximum < length (du_requests d) \<or>
          maximum < length (du_placements d) \<or> maximum < length (du_reservations d))
        E_CorruptPersistence ''persisted record count exceeds the configured bound'')"

definition validate_durable_state :: "durable_state \<Rightarrow> status" where
  "validate_durable_state d =
     (let resource_ids = map res_id (du_resources d);
          request_ids = map (sr_id \<circ> st_request) (du_requests d);
          placement_ids = map pl_id (du_placements d);
          head = check_all [
            fail_if (du_format_version d \<noteq> kPersistenceFormatVersion) E_CorruptPersistence
              ''unsupported durable state format version'',
            fail_if (\<not> status_ok (id_validate K_CoordinatorEpoch (du_epoch d))) E_CorruptPersistence
              ''persisted coordinator epoch is null'',
            durable_bounds d,
            durable_resources (du_limits d) [] (du_resources d),
            durable_requests (du_limits d) [] (du_requests d),
            durable_placements resource_ids request_ids [] (du_placements d)]
      in if \<not> status_ok head then head
         else
           let (s, totals) = durable_reservations (durable_capacities (du_resources d)) placement_ids []
                 (du_reservations d) []
           in if \<not> status_ok s then s else check_all (map (durable_mirror totals) (du_resources d)))"

section \<open>Import\<close>

record recovery_report =
  rc_status :: status
  rc_previous_epoch :: coordinator_epoch
  rc_current_epoch :: coordinator_epoch
  rc_resources_requiring_revalidation :: "resource_id list"
  rc_reconciled_placements :: "affected_placement list"
  rc_revoked_reservations :: "reservation_id list"
  rc_requests_preserved :: u32
  rc_placement_history_preserved :: u32
  rc_detail :: string

definition empty_recovery :: recovery_report where
  "empty_recovery = \<lparr>rc_status = ok_status, rc_previous_epoch = 0, rc_current_epoch = 0,
     rc_resources_requiring_revalidation = [], rc_reconciled_placements = [],
     rc_revoked_reservations = [], rc_requests_preserved = 0, rc_placement_history_preserved = 0,
     rc_detail = []\<rparr>"

text \<open>The dynamic part of a persisted record is dropped; only unowned static resources stay current.\<close>

definition recover_record :: "coordinator_epoch \<Rightarrow> resource_record \<Rightarrow> resource_record" where
  "recover_record epoch persisted =
     (let r = persisted\<lparr>res_reserved_slots := 0, res_generation := res_generation persisted + 1,
            res_validated_epoch := 0\<rparr> in
      if res_worker r = 0 then
        (let r1 = (if res_lifecycle r \<noteq> RL_Retired then r\<lparr>res_lifecycle := RL_Current\<rparr> else r) in
         r1\<lparr>res_dynamic_authoritative := (res_lifecycle r1 = RL_Current),
            res_validated_epoch := epoch,
            res_authority_detail := ''coordinator owned static resource restored as current''\<rparr>)
      else
        (let r1 = (if res_lifecycle r \<noteq> RL_Retired then r\<lparr>res_lifecycle := RL_Registered\<rparr> else r) in
         r1\<lparr>res_dynamic_authoritative := False, res_authority_detail :=
           ''dynamic state is not authoritative until the owning worker re-registers after coordinator restart''\<rparr>))"

definition observe_ids :: "u64 list \<Rightarrow> u64 \<Rightarrow> u64" where
  "observe_ids ids floor = fold ids_observe ids floor"

definition recover_worker :: "resource_record \<Rightarrow> scheduler_state \<Rightarrow> scheduler_state" where
  "recover_worker r st =
     (case map_of (ss_workers st) (res_worker r) of
        Some w \<Rightarrow> st
      | None \<Rightarrow>
          let seqn = ss_worker_sequence st + 1 in
          st\<lparr>ss_worker_sequence := seqn,
             ss_workers := om_emplace (res_worker r)
               \<lparr>wk_id = res_worker r, wk_boot = res_boot r, wk_connected = False,
                wk_registration_sequence = seqn,
                wk_detail = ''restored from durable state; incarnation is not connected''\<rparr>
               (ss_workers st)\<rparr>)"

type_synonym import_state_acc = "scheduler_state \<times> recovery_report \<times> u64"

definition import_resource :: "resource_record \<Rightarrow> import_state_acc \<Rightarrow> import_state_acc" where
  "import_resource persisted = (\<lambda>(st, report, floor).
     let r = recover_record (ss_epoch st) persisted;
         floor1 = observe_ids [res_id r] floor;
         known = map_of (ss_workers st) (res_worker r) \<noteq> None;
         (st1, report1, floor2) =
           (if res_worker r = 0 then (st, report, floor1)
            else (recover_worker r st,
              report\<lparr>rc_resources_requiring_revalidation :=
                rc_resources_requiring_revalidation report @ [res_id r]\<rparr>,
              if known then floor1 else observe_ids [res_worker r, res_boot r] floor1))
     in (st1\<lparr>ss_resources := om_emplace (res_id r) r (ss_resources st1)\<rparr>, report1, floor2))"

definition recover_request :: "stored_request \<Rightarrow> stored_request" where
  "recover_request persisted =
     (let s = (if st_state persisted = RQ_Placed
            then persisted\<lparr>st_state := RQ_Submitted,
              st_detail := ''placement authority revoked by coordinator restart''\<rparr>
            else persisted)
      in s\<lparr>st_current_placement := 0\<rparr>)"

definition import_request :: "stored_request \<Rightarrow> import_state_acc \<Rightarrow> import_state_acc" where
  "import_request persisted = (\<lambda>(st, report, floor).
     let s = recover_request persisted; q = st_request s in
     (st\<lparr>ss_requests := om_emplace (sr_id q) s (ss_requests st)\<rparr>,
      report\<lparr>rc_requests_preserved := rc_requests_preserved report + 1\<rparr>,
      observe_ids [sr_id q, sr_experiment q, sr_experiment_generation q, sr_trial q] floor))"

definition restart_placement_detail :: string where
  "restart_placement_detail =
     ''coordinator restart revoked placement authority; reassignment required''"

definition import_placement :: "placement_record \<Rightarrow> import_state_acc \<Rightarrow> import_state_acc" where
  "import_placement persisted = (\<lambda>(st, report, floor).
     let floor1 = observe_ids [pl_id persisted, pl_request persisted, pl_decision persisted,
           pl_reservation persisted, pl_lease persisted] floor;
         report0 = report\<lparr>rc_placement_history_preserved := rc_placement_history_preserved report + 1\<rparr>
     in if placement_state_is_live (pl_state persisted) then
          let seqn = ss_transition_sequence st + 1;
              p = persisted\<lparr>pl_state := PL_ReassignmentRequired,
                pl_detail := restart_placement_detail, pl_transition_sequence := seqn\<rparr>
          in (st\<lparr>ss_transition_sequence := seqn,
                 ss_placements := om_emplace (pl_id p) p (ss_placements st)\<rparr>,
              report0\<lparr>rc_reconciled_placements := rc_reconciled_placements report0 @
                [\<lparr>ap_placement = pl_id p, ap_generation = pl_generation p, ap_state = pl_state p,
                  ap_detail = pl_detail p\<rparr>]\<rparr>, floor1)
        else (st\<lparr>ss_placements := om_emplace (pl_id persisted) persisted (ss_placements st)\<rparr>,
              report0, floor1))"

definition recover_reservation :: "reservation_record \<Rightarrow> reservation_record" where
  "recover_reservation v =
     (if rv_state v = RV_Active
      then v\<lparr>rv_state := RV_Revoked, rv_detail := ''revoked by coordinator restart''\<rparr> else v)"

definition import_reservation :: "reservation_record \<Rightarrow> import_state_acc \<Rightarrow> import_state_acc" where
  "import_reservation persisted = (\<lambda>(st, report, floor).
     (st\<lparr>ss_reservations := om_emplace (rv_id persisted) (recover_reservation persisted)
           (ss_reservations st)\<rparr>,
      (if rv_state persisted = RV_Active
       then report\<lparr>rc_revoked_reservations := rc_revoked_reservations report @ [rv_id persisted]\<rparr>
       else report),
      observe_ids [rv_id persisted, rv_lease persisted, rv_placement persisted] floor))"

definition import_records :: "durable_state \<Rightarrow> import_state_acc \<Rightarrow> import_state_acc" where
  "import_records d acc =
     fold import_reservation (du_reservations d)
       (fold import_placement (du_placements d)
         (fold import_request (du_requests d)
           (fold import_resource (du_resources d) acc)))"

definition scheduler_empty :: "scheduler_state \<Rightarrow> bool" where
  "scheduler_empty st = (ss_resources st = [] \<and> ss_requests st = [] \<and> ss_placements st = [] \<and>
     ss_reservations st = [])"

definition import_state :: "durable_state \<Rightarrow> engine \<Rightarrow> recovery_report result \<times> engine" where
  "import_state d e =
     (let status = validate_durable_state d; st = eng_state e in
      if \<not> status_ok status then (Inl status, e)
      else if \<not> scheduler_empty st then
        (Inl (Status E_Busy ''import_state requires an empty scheduler state''), e)
      else
        let epoch = du_epoch d + 1;
            report = empty_recovery\<lparr>rc_previous_epoch := du_epoch d, rc_current_epoch := epoch\<rparr>;
            (st1, report1, floor) =
              import_records d (st\<lparr>ss_epoch := epoch\<rparr>, report, du_id_counter d);
            report2 = report1\<lparr>rc_status := ok_status, rc_detail :=
              ''durable state restored; coordinator epoch advanced and prior live authority revoked''\<rparr>
        in (Inr report2, e\<lparr>eng_ids := ids_observe (floor + 1) (eng_ids e),
              eng_state := push_audit (eng_config e) ''coordinator.recovered''
                (id_to_string K_CoordinatorEpoch (du_epoch d) @ '' -> '' @
                 id_to_string K_CoordinatorEpoch epoch) st1\<rparr>))"

end
