(* ===== verification/Accounting.thy ===== *)
theory Accounting
  imports Recovery
begin

text \<open>
  \<open>engine_accounting.cpp\<close>: the ledger of active claims, the accounting report and the nine checks
  of \<open>validate_invariants\<close>. A check collects one message per violation; it is ok when there is
  none.
\<close>

section \<open>Ledger and report\<close>

record resource_ledger =
  lg_claimed_slots :: u32
  lg_active_claims :: u32

definition ledger_claim ::
  "reservation_claim \<Rightarrow> (resource_id, resource_ledger) omap \<Rightarrow> (resource_id, resource_ledger) omap" where
  "ledger_claim c ledger =
     (let slot = (case map_of ledger (cl_resource c) of
            None \<Rightarrow> \<lparr>lg_claimed_slots = 0, lg_active_claims = 0\<rparr> | Some l \<Rightarrow> l)
      in om_set (cl_resource c)
           \<lparr>lg_claimed_slots = lg_claimed_slots slot + cl_slots c,
            lg_active_claims = lg_active_claims slot + 1\<rparr> ledger)"

definition active_claims :: "scheduler_state \<Rightarrow> reservation_claim list" where
  "active_claims st =
     concat (map (\<lambda>v. if rv_state v = RV_Active then rv_claims v else [])
       (om_values (ss_reservations st)))"

definition build_ledger :: "scheduler_state \<Rightarrow> (resource_id, resource_ledger) omap" where
  "build_ledger st = fold ledger_claim (active_claims st) []"

definition ledger_slots :: "(resource_id, resource_ledger) omap \<Rightarrow> resource_id \<Rightarrow> u32" where
  "ledger_slots ledger i = (case map_of ledger i of None \<Rightarrow> 0 | Some l \<Rightarrow> lg_claimed_slots l)"

definition ledger_claims :: "(resource_id, resource_ledger) omap \<Rightarrow> resource_id \<Rightarrow> u32" where
  "ledger_claims ledger i = (case map_of ledger i of None \<Rightarrow> 0 | Some l \<Rightarrow> lg_active_claims l)"

record resource_accounting =
  ra_resource :: resource_id
  ra_resource_class :: resource_class
  ra_name :: string
  ra_capacity_slots :: u32
  ra_capacity_memory_bytes :: u64
  ra_advertised_occupancy :: u32
  ra_reserved_slots :: u32
  ra_active_reservations :: u32
  ra_lifecycle :: resource_lifecycle
  ra_dynamic_authoritative :: bool
  ra_generation :: u64

record accounting_report =
  ar_epoch :: coordinator_epoch
  ar_placements_recorded :: u64
  ar_active_placements :: u64
  ar_requests_recorded :: u64
  ar_reservations_recorded :: u64
  ar_active_reservations :: u64
  ar_total_capacity_slots :: u64
  ar_total_reserved_slots :: u64
  ar_resources :: "resource_accounting list"

definition account_resource ::
  "(resource_id, resource_ledger) omap \<Rightarrow> resource_record \<Rightarrow> resource_accounting" where
  "account_resource ledger r = \<lparr>ra_resource = res_id r, ra_resource_class = res_resource_class r,
     ra_name = res_name r, ra_capacity_slots = rcap_slots (res_capacity r),
     ra_capacity_memory_bytes = rcap_memory_bytes (res_capacity r),
     ra_advertised_occupancy = res_advertised_occupancy r, ra_reserved_slots = res_reserved_slots r,
     ra_active_reservations = ledger_claims ledger (res_id r), ra_lifecycle = res_lifecycle r,
     ra_dynamic_authoritative = res_dynamic_authoritative r, ra_generation = res_generation r\<rparr>"

definition sum_u64 :: "('a \<Rightarrow> u32) \<Rightarrow> 'a list \<Rightarrow> u64" where
  "sum_u64 f xs = fold (\<lambda>x total. total + ucast (f x)) xs 0"

definition accounting :: "engine \<Rightarrow> accounting_report" where
  "accounting e =
     (let st = eng_state e; resources = om_values (ss_resources st) in
      \<lparr>ar_epoch = ss_epoch st,
       ar_placements_recorded = word_of_nat (length (ss_placements st)),
       ar_active_placements = word_of_nat (count_live_placements st),
       ar_requests_recorded = word_of_nat (length (ss_requests st)),
       ar_reservations_recorded = word_of_nat (length (ss_reservations st)),
       ar_active_reservations = word_of_nat (count_active_reservations st),
       ar_total_capacity_slots = sum_u64 (\<lambda>r. rcap_slots (res_capacity r)) resources,
       ar_total_reserved_slots = sum_u64 res_reserved_slots resources,
       ar_resources = map (account_resource (build_ledger st)) resources\<rparr>)"

section \<open>Invariant checks\<close>

record invariant_check =
  ic_name :: string
  ic_ok :: bool
  ic_detail :: string

definition violation :: "bool \<Rightarrow> string \<Rightarrow> string list" where
  "violation b msg = (if b then [msg] else [])"

definition make_check :: "string \<Rightarrow> string list \<Rightarrow> invariant_check" where
  "make_check name violations =
     \<lparr>ic_name = name, ic_ok = (violations = []), ic_detail = concat violations\<rparr>"

definition each_violation :: "('a \<Rightarrow> string list) \<Rightarrow> 'a list \<Rightarrow> string list" where
  "each_violation f xs = concat (map f xs)"

definition rid_text :: "resource_record \<Rightarrow> string" where
  "rid_text r = id_to_string K_ResourceId (res_id r)"

definition wide_occupancy :: "resource_record \<Rightarrow> u64" where
  "wide_occupancy r = ucast (res_advertised_occupancy r) + ucast (res_reserved_slots r)"

definition check_capacity :: "scheduler_state \<Rightarrow> invariant_check" where
  "check_capacity st =
     make_check ''capacity_never_negative_or_over_committed'' (each_violation (\<lambda>r.
       violation (ucast (rcap_slots (res_capacity r)) < wide_occupancy r)
         (rid_text r @ '' occupancy '' @ decimal_u64 (wide_occupancy r) @ '' exceeds capacity '' @
          decimal_u64 (ucast (rcap_slots (res_capacity r))) @ ''; ''))
       (om_values (ss_resources st)))"

definition check_mirror :: "scheduler_state \<Rightarrow> invariant_check" where
  "check_mirror st =
     (let ledger = build_ledger st in
      make_check ''reserved_slots_match_active_claims'' (each_violation (\<lambda>r.
        violation (ledger_slots ledger (res_id r) \<noteq> res_reserved_slots r)
          (rid_text r @ '' mirrored '' @ decimal_u64 (ucast (res_reserved_slots r)) @ '' != ledger '' @
           decimal_u64 (ucast (ledger_slots ledger (res_id r))) @ ''; ''))
        (om_values (ss_resources st))))"

definition check_exclusive :: "scheduler_state \<Rightarrow> invariant_check" where
  "check_exclusive st =
     (let ledger = build_ledger st in
      make_check ''exclusive_resources_have_at_most_one_claim'' (each_violation (\<lambda>r.
        let claims = ledger_claims ledger (res_id r) in
        violation (res_sharing r = SM_Exclusive \<and> 1 < claims)
          (rid_text r @ '' has '' @ decimal_u64 (ucast claims) @ '' active claims; '') @
        violation (1 < claims \<and> rcap_slots (res_capacity r) < ledger_slots ledger (res_id r))
          (rid_text r @ '' over claimed; ''))
        (om_values (ss_resources st))))"

definition check_live_placements :: "scheduler_state \<Rightarrow> invariant_check" where
  "check_live_placements st =
     make_check ''live_placements_reference_active_reservations'' (each_violation (\<lambda>p.
       if \<not> placement_state_is_live (pl_state p) then []
       else case map_of (ss_reservations st) (pl_reservation p) of
           None \<Rightarrow> [id_to_string K_PlacementId (pl_id p) @ '' references a missing reservation; '']
         | Some v \<Rightarrow>
             violation (rv_state v \<noteq> RV_Active)
               (id_to_string K_PlacementId (pl_id p) @ '' references a non-active reservation; '') @
             violation (rv_placement v \<noteq> pl_id p \<or> rv_placement_generation v \<noteq> pl_generation p)
               (id_to_string K_PlacementId (pl_id p) @ '' reservation binding mismatch; ''))
       (om_values (ss_placements st)))"

definition check_active_reservations :: "scheduler_state \<Rightarrow> invariant_check" where
  "check_active_reservations st =
     make_check ''active_reservations_reference_live_placements'' (each_violation (\<lambda>v.
       if rv_state v \<noteq> RV_Active then []
       else case map_of (ss_placements st) (rv_placement v) of
           None \<Rightarrow> [id_to_string K_ReservationId (rv_id v) @ '' references a missing placement; '']
         | Some p \<Rightarrow>
             violation (\<not> placement_state_is_live (pl_state p))
               (id_to_string K_ReservationId (rv_id v) @ '' backs a non-live placement; '') @
             violation (pl_generation p \<noteq> rv_placement_generation v)
               (id_to_string K_ReservationId (rv_id v) @ '' generation mismatch; '') @
             violation (rv_claims v = [])
               (id_to_string K_ReservationId (rv_id v) @ '' has no claims; ''))
       (om_values (ss_reservations st)))"

definition placement_reference_violations ::
  "scheduler_state \<Rightarrow> placement_record \<Rightarrow> string list" where
  "placement_reference_violations st p =
     (let name = id_to_string K_PlacementId (pl_id p) in
      violation (pl_resources p = []) (name @ '' selects no resources; '') @
      violation (map_of (ss_requests st) (pl_request p) = None)
        (name @ '' references an unknown request; '') @
      each_violation (\<lambda>s.
        violation (map_of (ss_resources st) (sel_resource s) = None)
          (name @ '' references an unknown resource; '') @
        violation (sel_slots s = 0) (name @ '' claims zero slots; '')) (pl_resources p) @
      violation (adjacent_duplicate (sort_by (<) (map sel_resource (pl_resources p))) \<noteq> None)
        (name @ '' selects a resource twice; ''))"

definition check_references :: "scheduler_state \<Rightarrow> invariant_check" where
  "check_references st =
     make_check ''placements_reference_registered_resources_and_requests''
       (each_violation (placement_reference_violations st) (om_values (ss_placements st)))"

definition check_units :: "scheduler_state \<Rightarrow> invariant_check" where
  "check_units st =
     make_check ''one_current_placement_per_schedulable_unit'' (each_violation (\<lambda>pid.
       case map_of (ss_placements st) pid of
         None \<Rightarrow> [''unit map references a missing placement; '']
       | Some p \<Rightarrow> violation (\<not> placement_state_is_live (pl_state p))
           ''unit map references a non-live placement; '')
       (om_values (ss_unit_current st)))"

definition check_counters :: "scheduler_state \<Rightarrow> invariant_check" where
  "check_counters st =
     (let resources = om_values (ss_resources st);
          claimed_total = sum_u64 res_reserved_slots resources;
          capacity_total = sum_u64 (\<lambda>r. rcap_slots (res_capacity r)) resources in
      make_check ''resource_counters_are_monotonic_and_bounded'' (each_violation (\<lambda>r.
        violation (res_generation r = 0 \<or> res_health_generation r = 0 \<or> res_capacity_generation r = 0)
          (rid_text r @ '' has a null generation; '') @
        violation (res_lifecycle r = RL_Retired \<and> res_reserved_slots r \<noteq> 0)
          (rid_text r @ '' is retired but still reserved; '')) resources @
        violation (capacity_total < claimed_total)
          ''aggregate reserved capacity exceeds aggregate capacity; ''))"

definition check_stale_authority :: "scheduler_state \<Rightarrow> invariant_check" where
  "check_stale_authority st =
     make_check ''stale_authority_cannot_hold_reserved_capacity'' (each_violation (\<lambda>r.
       violation (\<not> res_dynamic_authoritative r \<and> res_reserved_slots r \<noteq> 0)
         (rid_text r @ '' holds reserved capacity while its evidence is not authoritative; ''))
       (om_values (ss_resources st)))"

definition validate_invariants :: "engine \<Rightarrow> invariant_check list" where
  "validate_invariants e =
     (let st = eng_state e in
      [check_capacity st, check_mirror st, check_exclusive st, check_live_placements st,
       check_active_reservations st, check_references st, check_units st, check_counters st,
       check_stale_authority st])"

section \<open>What the checks say\<close>

named_theorems check_ok

lemma violation_Nil [simp]: "(violation b msg = []) = (\<not> b)"
  by (simp add: violation_def)

lemma each_violation_Nil [simp]: "(each_violation f xs = []) = (\<forall>x\<in>set xs. f x = [])"
  by (simp add: each_violation_def)

lemma make_check_ok [simp]: "ic_ok (make_check name vs) = (vs = [])"
  by (simp add: make_check_def)

lemma check_capacity_ok [check_ok]:
  "ic_ok (check_capacity st) = (\<forall>r\<in>set (om_values (ss_resources st)).
     unat (res_advertised_occupancy r) + unat (res_reserved_slots r) \<le> unat (rcap_slots (res_capacity r)))"
  by (simp add: check_capacity_def wide_occupancy_def occupancy_guard_iff not_less)

lemma check_mirror_ok [check_ok]:
  "ic_ok (check_mirror st) = (\<forall>r\<in>set (om_values (ss_resources st)).
     ledger_slots (build_ledger st) (res_id r) = res_reserved_slots r)"
  by (simp add: check_mirror_def Let_def)

lemma check_live_placements_ok [check_ok]:
  "ic_ok (check_live_placements st) = (\<forall>p\<in>set (om_values (ss_placements st)).
     placement_state_is_live (pl_state p) \<longrightarrow> (\<exists>v. map_of (ss_reservations st) (pl_reservation p) = Some v \<and>
       rv_state v = RV_Active \<and> rv_placement v = pl_id p \<and> rv_placement_generation v = pl_generation p))"
  by (auto simp: check_live_placements_def split: option.split)

lemma check_active_reservations_ok [check_ok]:
  "ic_ok (check_active_reservations st) = (\<forall>v\<in>set (om_values (ss_reservations st)).
     rv_state v = RV_Active \<longrightarrow> (\<exists>p. map_of (ss_placements st) (rv_placement v) = Some p \<and>
       placement_state_is_live (pl_state p) \<and> pl_generation p = rv_placement_generation v \<and>
       rv_claims v \<noteq> []))"
  by (auto simp: check_active_reservations_def split: option.split)

lemma adjacent_duplicate_sorted:
  "sorted_wrt (\<lambda>x y. \<not> y < x) xs \<Longrightarrow> (adjacent_duplicate xs = None) = distinct (xs :: u64 list)"
proof (induction xs rule: adjacent_duplicate.induct)
  case (1 x y zs)
  show ?case
  proof (cases "x = y")
    case False
    with 1 have IH: "(adjacent_duplicate (y # zs) = None) = distinct (y # zs)" by auto
    from False 1 have "x < y" "\<forall>z\<in>set zs. y \<le> z" by (auto simp: not_less)
    then have "x \<notin> set (y # zs)" by auto
    with IH False show ?thesis by simp
  qed simp
qed simp_all

lemma less_weak_order: "weak_order ((<) :: 'a::linorder \<Rightarrow> 'a \<Rightarrow> bool)"
  by (auto simp: weak_order_def)

lemma adjacent_duplicate_sort:
  "(adjacent_duplicate (sort_by (<) xs) = None) = distinct (xs :: u64 list)"
proof -
  have "no_better (<) (sort_by (<) xs)" by (rule sort_by_no_better) (rule less_weak_order)
  then have "(adjacent_duplicate (sort_by (<) xs) = None) = distinct (sort_by (<) xs)"
    unfolding no_better_def by (rule adjacent_duplicate_sorted)
  then show ?thesis using distinct_map_sort_by [of "\<lambda>x. x" "(<)" xs] by simp
qed

lemma check_references_ok [check_ok]:
  "ic_ok (check_references st) = (\<forall>p\<in>set (om_values (ss_placements st)).
     pl_resources p \<noteq> [] \<and> map_of (ss_requests st) (pl_request p) \<noteq> None \<and>
     (\<forall>s\<in>set (pl_resources p). map_of (ss_resources st) (sel_resource s) \<noteq> None \<and> sel_slots s \<noteq> 0) \<and>
     distinct (map sel_resource (pl_resources p)))"
  by (simp add: check_references_def placement_reference_violations_def Let_def
      adjacent_duplicate_sort del: not_None_eq)

lemma check_units_ok [check_ok]:
  "ic_ok (check_units st) = (\<forall>pid\<in>set (om_values (ss_unit_current st)).
     \<exists>p. map_of (ss_placements st) pid = Some p \<and> placement_state_is_live (pl_state p))"
  by (auto simp: check_units_def split: option.split)

lemma check_stale_authority_ok [check_ok]:
  "ic_ok (check_stale_authority st) = (\<forall>r\<in>set (om_values (ss_resources st)).
     res_reserved_slots r \<noteq> 0 \<longrightarrow> res_dynamic_authoritative r)"
  by (auto simp: check_stale_authority_def)

section \<open>The ledger as a sum\<close>

lemma ledger_wf: "om_wf m \<Longrightarrow> om_wf (fold ledger_claim cs m)"
  by (induction cs arbitrary: m) (simp_all add: ledger_claim_def Let_def om_wf_set)

definition claims_on :: "resource_id \<Rightarrow> reservation_claim list \<Rightarrow> nat" where
  "claims_on i cs = sum_list (map (\<lambda>c. if cl_resource c = i then unat (cl_slots c) else 0) cs)"

lemma claims_on_simps [simp]:
  "claims_on i [] = 0"
  "claims_on i (c # cs) = (if cl_resource c = i then unat (cl_slots c) else 0) + claims_on i cs"
  "claims_on i (xs @ ys) = claims_on i xs + claims_on i ys"
  by (simp_all add: claims_on_def)

text \<open>The 32-bit ledger is the sum of the claims modulo \<open>2 ^ 32\<close>.\<close>

lemma ledger_slots_claim:
  "om_wf m \<Longrightarrow> ledger_slots (ledger_claim c m) i =
     (if cl_resource c = i then ledger_slots m i + cl_slots c else ledger_slots m i)"
  by (auto simp: ledger_slots_def ledger_claim_def Let_def map_of_om_set split: option.split)

lemma ledger_slots_fold:
  "om_wf m \<Longrightarrow> ledger_slots (fold ledger_claim cs m) i = ledger_slots m i + word_of_nat (claims_on i cs)"
proof (induction cs arbitrary: m)
  case (Cons c cs)
  have "om_wf (ledger_claim c m)" using Cons.prems by (simp add: ledger_claim_def Let_def om_wf_set)
  from Cons.IH [OF this] Cons.prems show ?case by (simp add: ledger_slots_claim add.assoc)
qed simp

lemma build_ledger_slots:
  "ledger_slots (build_ledger st) i = word_of_nat (claims_on i (active_claims st))"
proof -
  have "ledger_slots [] i = 0" by (simp add: ledger_slots_def)
  with ledger_slots_fold [of "[]" "active_claims st" i] show ?thesis by (simp add: build_ledger_def)
qed

text \<open>The claimed slots of a resource as a sum over the reservation table.\<close>

definition reservation_claims :: "resource_id \<Rightarrow> reservation_record \<Rightarrow> nat" where
  "reservation_claims i v = (if rv_state v = RV_Active then claims_on i (rv_claims v) else 0)"

lemma claims_on_active: "claims_on i (active_claims st) = om_total (reservation_claims i) (ss_reservations st)"
proof -
  have "claims_on i (concat (map (\<lambda>v. if rv_state v = RV_Active then rv_claims v else []) vs)) =
      sum_list (map (reservation_claims i) vs)" for vs
    by (induction vs) (simp_all add: reservation_claims_def)
  from this [of "om_values (ss_reservations st)"] show ?thesis
    by (simp add: active_claims_def om_total_def om_values_def comp_def)
qed

end
