(* ===== verification/EngineInv.thy ===== *)
theory EngineInv
  imports Accounting
begin

text \<open>
  The ledger invariant of the engine and its preservation by the primitives every operation is
  built from: termination of a placement, changes of resource records, new requests and the commit
  of a placement. It ties the reserved slots of each resource to the active claims, live placements
  to active reservations, the unit table to live placements and the fresh identities to the
  generator.
\<close>

section \<open>The invariant\<close>

definition keyed :: "('v \<Rightarrow> 'k) \<Rightarrow> ('k::linorder, 'v) omap \<Rightarrow> bool" where
  "keyed f m \<longleftrightarrow> om_wf m \<and> (\<forall>k v. map_of m k = Some v \<longrightarrow> f v = k)"

definition resource_ok :: "resource_record \<Rightarrow> bool" where
  "resource_ok r \<longleftrightarrow> rcap_slots (res_capacity r) \<noteq> 0 \<and>
     unat (res_advertised_occupancy r) + unat (res_reserved_slots r) \<le> unat (rcap_slots (res_capacity r)) \<and>
     (res_lifecycle r = RL_Retired \<longrightarrow> res_reserved_slots r = 0)"

definition resources_inv ::
  "(resource_id, resource_record) omap \<Rightarrow> (reservation_id, reservation_record) omap \<Rightarrow> bool" where
  "resources_inv rs vs \<longleftrightarrow> keyed res_id rs \<and>
     (\<forall>k r. map_of rs k = Some r \<longrightarrow> resource_ok r \<and>
        unat (res_reserved_slots r) = om_total (reservation_claims k) vs)"

definition request_ok :: "schedule_request \<Rightarrow> bool" where
  "request_ok q \<longleftrightarrow> sr_requirements q \<noteq> [] \<and> (\<forall>r\<in>set (sr_requirements q). rq_min_slots r \<noteq> 0)"

definition requests_inv :: "(schedule_request_id, stored_request) omap \<Rightarrow> bool" where
  "requests_inv qs \<longleftrightarrow> keyed (\<lambda>s. sr_id (st_request s)) qs \<and>
     (\<forall>k s. map_of qs k = Some s \<longrightarrow> request_ok (st_request s))"

definition reservation_ok :: "(resource_id, resource_record) omap \<Rightarrow> reservation_record \<Rightarrow> bool" where
  "reservation_ok rs v \<longleftrightarrow> rv_claims v \<noteq> [] \<and>
     (\<forall>c\<in>set (rv_claims v). map_of rs (cl_resource c) \<noteq> None \<and> cl_slots c \<noteq> 0)"

definition backs :: "(placement_id, placement_record) omap \<Rightarrow> reservation_record \<Rightarrow> bool" where
  "backs ps v \<longleftrightarrow> (\<exists>p. map_of ps (rv_placement v) = Some p \<and>
     (rv_state v = RV_Active \<longrightarrow> placement_state_is_live (pl_state p) \<and> pl_reservation p = rv_id v \<and>
        pl_generation p = rv_placement_generation v))"

definition reservations_inv ::
  "(resource_id, resource_record) omap \<Rightarrow> (placement_id, placement_record) omap \<Rightarrow>
     (reservation_id, reservation_record) omap \<Rightarrow> bool" where
  "reservations_inv rs ps vs \<longleftrightarrow> keyed rv_id vs \<and>
     (\<forall>k v. map_of vs k = Some v \<longrightarrow> reservation_ok rs v \<and> backs ps v)"

definition placement_ok ::
  "(resource_id, resource_record) omap \<Rightarrow> (schedule_request_id, stored_request) omap \<Rightarrow>
     placement_record \<Rightarrow> bool" where
  "placement_ok rs qs p \<longleftrightarrow> pl_resources p \<noteq> [] \<and> map_of qs (pl_request p) \<noteq> None \<and>
     (\<forall>s\<in>set (pl_resources p). map_of rs (sel_resource s) \<noteq> None \<and> sel_slots s \<noteq> 0) \<and>
     distinct (map sel_resource (pl_resources p))"

definition backed :: "(reservation_id, reservation_record) omap \<Rightarrow> placement_record \<Rightarrow> bool" where
  "backed vs p \<longleftrightarrow> (\<exists>v. map_of vs (pl_reservation p) = Some v \<and> rv_state v = RV_Active \<and>
     rv_placement v = pl_id p \<and> rv_placement_generation v = pl_generation p \<and>
     map cl_resource (rv_claims v) = map sel_resource (pl_resources p))"

definition placements_inv ::
  "(resource_id, resource_record) omap \<Rightarrow> (schedule_request_id, stored_request) omap \<Rightarrow>
     (reservation_id, reservation_record) omap \<Rightarrow> (placement_id, placement_record) omap \<Rightarrow> bool" where
  "placements_inv rs qs vs ps \<longleftrightarrow> keyed pl_id ps \<and>
     (\<forall>k p. map_of ps k = Some p \<longrightarrow> placement_ok rs qs p \<and>
        (placement_state_is_live (pl_state p) \<longrightarrow> backed vs p))"

definition units_inv ::
  "(placement_id, placement_record) omap \<Rightarrow> (unit_key, placement_id) omap \<Rightarrow> bool" where
  "units_inv ps us \<longleftrightarrow> om_wf us \<and> (\<forall>u k. map_of us u = Some k \<longrightarrow>
     (\<exists>p. map_of ps k = Some p \<and> placement_state_is_live (pl_state p) \<and> placement_unit p = u))"

definition ids_inv ::
  "id_generator \<Rightarrow> (placement_id, placement_record) omap \<Rightarrow> (reservation_id, reservation_record) omap \<Rightarrow>
     bool" where
  "ids_inv ids ps vs \<longleftrightarrow>
     (\<forall>k. (map_of ps k \<noteq> None \<longrightarrow> k \<le> ids) \<and> (map_of vs k \<noteq> None \<longrightarrow> k \<le> ids))"

definition state_inv :: "id_generator \<Rightarrow> scheduler_state \<Rightarrow> bool" where
  "state_inv ids st \<longleftrightarrow>
     resources_inv (ss_resources st) (ss_reservations st) \<and>
     requests_inv (ss_requests st) \<and>
     reservations_inv (ss_resources st) (ss_placements st) (ss_reservations st) \<and>
     placements_inv (ss_resources st) (ss_requests st) (ss_reservations st) (ss_placements st) \<and>
     units_inv (ss_placements st) (ss_unit_current st) \<and>
     ids_inv ids (ss_placements st) (ss_reservations st) \<and>
     keyed wk_id (ss_workers st)"

text \<open>The two limits the filter and the search divide their work by must not be zero.\<close>

definition config_ok :: "engine_config \<Rightarrow> bool" where
  "config_ok cfg \<longleftrightarrow> max_rejection_reasons_per_entry (cfg_limits cfg) \<noteq> 0 \<and>
     max_candidates_ranked (cfg_limits cfg) \<noteq> 0"

definition engine_inv :: "engine \<Rightarrow> bool" where
  "engine_inv e \<longleftrightarrow> config_ok (eng_config e) \<and> state_inv (eng_ids e) (eng_state e)"

lemma engine_inv_make: "config_ok cfg \<Longrightarrow> engine_inv (make_engine cfg)"
  by (simp add: engine_inv_def make_engine_def empty_state_def state_inv_def resources_inv_def
      requests_inv_def reservations_inv_def placements_inv_def units_inv_def ids_inv_def keyed_def)

section \<open>Tables\<close>

lemma keyed_emplace: "keyed f m \<Longrightarrow> f v = k \<Longrightarrow> keyed f (om_emplace k v m)"
  by (auto simp: keyed_def om_wf_emplace map_of_om_emplace split: if_splits)

lemma keyed_modify:
  "keyed f m \<Longrightarrow> (\<And>v. map_of m k = Some v \<Longrightarrow> f (g v) = f v) \<Longrightarrow> keyed f (om_modify k g m)"
  by (auto simp: keyed_def map_of_om_modify split: if_splits)

lemma keyed_wf: "keyed f m \<Longrightarrow> om_wf m"
  by (simp add: keyed_def)

lemma keyed_key: "keyed f m \<Longrightarrow> map_of m k = Some v \<Longrightarrow> f v = k"
  by (simp add: keyed_def)

lemma set_om_values: "om_wf m \<Longrightarrow> (v \<in> set (om_values m)) = (\<exists>k. map_of m k = Some v)"
proof -
  have "(v \<in> set (om_values m)) = (\<exists>k. (k, v) \<in> set m)" by (force simp: om_values_def)
  then show "om_wf m \<Longrightarrow> ?thesis" by (simp add: map_of_value)
qed

text \<open>Two tables with the same keys.\<close>

definition same_dom :: "('k, 'v) omap \<Rightarrow> ('k, 'w) omap \<Rightarrow> bool" where
  "same_dom m m' \<longleftrightarrow> (\<forall>k. (map_of m k = None) = (map_of m' k = None))"

lemma same_dom_modify [simp]: "same_dom m (om_modify k f m)"
  by (simp add: same_dom_def map_of_om_modify)

lemma reservations_inv_dom:
  "same_dom rs rs' \<Longrightarrow> reservations_inv rs ps vs = reservations_inv rs' ps vs"
  by (simp add: reservations_inv_def reservation_ok_def same_dom_def)

lemma placements_inv_dom:
  "same_dom rs rs' \<Longrightarrow> same_dom qs qs' \<Longrightarrow> placements_inv rs qs vs ps = placements_inv rs' qs' vs ps"
  by (simp add: placements_inv_def placement_ok_def same_dom_def)

text \<open>Growing tables keep every reference.\<close>

lemma reservations_inv_grow:
  "reservations_inv rs ps vs \<Longrightarrow> (\<And>k. map_of rs k \<noteq> None \<Longrightarrow> map_of rs' k \<noteq> None) \<Longrightarrow>
     reservations_inv rs' ps vs"
  unfolding reservations_inv_def reservation_ok_def by blast

lemma placements_inv_grow:
  "placements_inv rs qs vs ps \<Longrightarrow> (\<And>k. map_of rs k \<noteq> None \<Longrightarrow> map_of rs' k \<noteq> None) \<Longrightarrow>
     (\<And>k. map_of qs k \<noteq> None \<Longrightarrow> map_of qs' k \<noteq> None) \<Longrightarrow> placements_inv rs' qs' vs ps"
  unfolding placements_inv_def placement_ok_def by blast

section \<open>Fields outside the ledger\<close>

lemma push_audit_simps [simp]:
  "ss_epoch (push_audit cfg k d st) = ss_epoch st"
  "ss_shutting_down (push_audit cfg k d st) = ss_shutting_down st"
  "ss_workers (push_audit cfg k d st) = ss_workers st"
  "ss_resources (push_audit cfg k d st) = ss_resources st"
  "ss_requests (push_audit cfg k d st) = ss_requests st"
  "ss_placements (push_audit cfg k d st) = ss_placements st"
  "ss_reservations (push_audit cfg k d st) = ss_reservations st"
  "ss_decisions (push_audit cfg k d st) = ss_decisions st"
  "ss_unit_current (push_audit cfg k d st) = ss_unit_current st"
  "ss_tenant_service (push_audit cfg k d st) = ss_tenant_service st"
  "ss_transition_sequence (push_audit cfg k d st) = ss_transition_sequence st"
  "ss_reservation_sequence (push_audit cfg k d st) = ss_reservation_sequence st"
  "ss_worker_sequence (push_audit cfg k d st) = ss_worker_sequence st"
  "ss_request_sequence (push_audit cfg k d st) = ss_request_sequence st"
  "ss_placement_sequence (push_audit cfg k d st) = ss_placement_sequence st"
  by (simp_all add: push_audit_def Let_def)

lemma state_inv_push_audit [simp]: "state_inv ids (push_audit cfg k d st) = state_inv ids st"
  by (simp add: state_inv_def)

lemma state_inv_later: "state_inv ids st \<Longrightarrow> ids \<le> ids' \<Longrightarrow> state_inv ids' st"
  unfolding state_inv_def ids_inv_def by (meson order_trans)

section \<open>Changes of resource records\<close>

text \<open>A rewrite of the records that keeps identity and reserved slots keeps the whole invariant.\<close>

lemma state_inv_resources:
  assumes inv: "state_inv ids st" and wf: "om_wf rs'"
    and dom: "same_dom (ss_resources st) rs'"
    and rec: "\<And>k r r'. map_of (ss_resources st) k = Some r \<Longrightarrow> map_of rs' k = Some r' \<Longrightarrow> resource_ok r \<Longrightarrow>
      res_id r' = res_id r \<and> res_reserved_slots r' = res_reserved_slots r \<and> resource_ok r'"
  shows "state_inv ids (st\<lparr>ss_resources := rs'\<rparr>)"
proof -
  have old: "\<exists>r. map_of (ss_resources st) k = Some r" if "map_of rs' k = Some r'" for k r'
    using dom that unfolding same_dom_def by (metis not_None_eq option.distinct(1))
  have "res_id r' = k \<and> resource_ok r' \<and>
      unat (res_reserved_slots r') = om_total (reservation_claims k) (ss_reservations st)"
    if r': "map_of rs' k = Some r'" for k r'
  proof -
    from old [OF r'] obtain r where r: "map_of (ss_resources st) k = Some r" ..
    with inv have "res_id r = k" "resource_ok r"
      "unat (res_reserved_slots r) = om_total (reservation_claims k) (ss_reservations st)"
      by (simp_all add: state_inv_def resources_inv_def keyed_def)
    with rec [OF r r'] show ?thesis by simp
  qed
  with wf have "resources_inv rs' (ss_reservations st)" by (simp add: resources_inv_def keyed_def)
  moreover have "same_dom (ss_requests st) (ss_requests st)" by (simp add: same_dom_def)
  ultimately show ?thesis
    using inv reservations_inv_dom [OF dom] placements_inv_dom [OF dom]
    by (simp add: state_inv_def)
qed

lemma state_inv_modify_resource:
  assumes inv: "state_inv ids st"
    and rec: "\<And>r. map_of (ss_resources st) k = Some r \<Longrightarrow> resource_ok r \<Longrightarrow>
      res_id (f r) = res_id r \<and> res_reserved_slots (f r) = res_reserved_slots r \<and> resource_ok (f r)"
  shows "state_inv ids (st\<lparr>ss_resources := om_modify k f (ss_resources st)\<rparr>)"
  using inv
proof (rule state_inv_resources)
  show "om_wf (om_modify k f (ss_resources st))"
    using inv by (simp add: state_inv_def resources_inv_def keyed_def)
  show "res_id r' = res_id r \<and> res_reserved_slots r' = res_reserved_slots r \<and> resource_ok r'"
    if "map_of (ss_resources st) j = Some r" "map_of (om_modify k f (ss_resources st)) j = Some r'"
      "resource_ok r" for j r r'
    using that rec by (auto simp: map_of_om_modify split: if_splits)
qed simp

lemma state_inv_emplace_resource:
  assumes inv: "state_inv ids st" and fresh: "map_of (ss_resources st) (res_id r) = None"
    and ok: "resource_ok r" "res_reserved_slots r = 0"
  shows "state_inv ids (st\<lparr>ss_resources := om_emplace (res_id r) r (ss_resources st)\<rparr>)"
proof -
  let ?rs = "ss_resources st" and ?vs = "ss_reservations st"
  from inv have i: "resources_inv ?rs ?vs" "reservations_inv ?rs (ss_placements st) ?vs"
    "placements_inv ?rs (ss_requests st) ?vs (ss_placements st)"
    by (simp_all add: state_inv_def)
  then have wf: "om_wf ?rs" "om_wf ?vs"
    by (simp_all add: resources_inv_def reservations_inv_def keyed_def)
  have "reservation_claims (res_id r) v = 0" if "v \<in> set (om_values ?vs)" for v
  proof -
    from that wf obtain k where "map_of ?vs k = Some v" by (auto simp: set_om_values)
    with i(2) have "\<forall>c\<in>set (rv_claims v). map_of ?rs (cl_resource c) \<noteq> None"
      by (simp add: reservations_inv_def reservation_ok_def)
    with fresh show ?thesis by (auto simp: reservation_claims_def claims_on_def)
  qed
  then have "om_total (reservation_claims (res_id r)) ?vs = 0"
    by (auto simp: om_total_def om_values_def)
  with i(1) wf fresh ok have "resources_inv (om_emplace (res_id r) r ?rs) ?vs"
    by (auto simp: resources_inv_def keyed_emplace map_of_om_emplace split: if_splits)
  moreover have "map_of (om_emplace (res_id r) r ?rs) k \<noteq> None" if "map_of ?rs k \<noteq> None" for k
    using that wf by (simp add: map_of_om_emplace)
  ultimately show ?thesis
    using inv reservations_inv_grow [OF i(2)] placements_inv_grow [OF i(3)]
    by (simp add: state_inv_def)
qed

section \<open>Changes of stored requests\<close>

lemma state_inv_modify_request:
  assumes inv: "state_inv ids st" and rec: "\<And>s. st_request (f s) = st_request s"
  shows "state_inv ids (st\<lparr>ss_requests := om_modify k f (ss_requests st)\<rparr>)"
proof -
  from inv have "requests_inv (om_modify k f (ss_requests st))"
    by (auto simp: state_inv_def requests_inv_def rec map_of_om_modify intro!: keyed_modify
        split: if_splits)
  moreover have "same_dom (ss_resources st) (ss_resources st)" by (simp add: same_dom_def)
  ultimately show ?thesis
    using inv placements_inv_dom [OF _ same_dom_modify] by (simp add: state_inv_def)
qed

lemma state_inv_emplace_request:
  assumes inv: "state_inv ids st" and ok: "request_ok (st_request s)"
  shows "state_inv ids (st\<lparr>ss_requests := om_emplace (sr_id (st_request s)) s (ss_requests st)\<rparr>)"
proof -
  from inv have i: "requests_inv (ss_requests st)"
    "placements_inv (ss_resources st) (ss_requests st) (ss_reservations st) (ss_placements st)"
    by (simp_all add: state_inv_def)
  then have wf: "om_wf (ss_requests st)" by (simp add: requests_inv_def keyed_def)
  with i(1) ok have "requests_inv (om_emplace (sr_id (st_request s)) s (ss_requests st))"
    by (auto simp: requests_inv_def keyed_emplace map_of_om_emplace split: if_splits)
  moreover have "map_of (om_emplace (sr_id (st_request s)) s (ss_requests st)) k \<noteq> None"
    if "map_of (ss_requests st) k \<noteq> None" for k
    using that wf by (simp add: map_of_om_emplace)
  ultimately show ?thesis using inv placements_inv_grow [OF i(2)] by (simp add: state_inv_def)
qed

section \<open>Release of a reservation\<close>

text \<open>Releasing claims that are covered by the reserved slots subtracts exactly their sum.\<close>

lemma release_claims_map:
  assumes "\<And>k r. map_of m k = Some r \<Longrightarrow> claims_on k cs \<le> unat (res_reserved_slots r)"
  shows "map_of (release_claims cs m) k = map_option
    (\<lambda>r. r\<lparr>res_reserved_slots := res_reserved_slots r - word_of_nat (claims_on k cs)\<rparr>) (map_of m k)"
  using assms
proof (induction cs arbitrary: m)
  case Nil
  then show ?case by (cases "map_of m k") simp_all
next
  case (Cons c cs)
  let ?m = "om_modify (cl_resource c) (release_claim_slots (cl_slots c)) m"
  have enough: "unat (cl_slots c) + claims_on j cs \<le> unat (res_reserved_slots r)"
    if "map_of m j = Some r" "cl_resource c = j" for j r
    using Cons.prems [OF that(1)] that(2) by simp
  have "claims_on j cs \<le> unat (res_reserved_slots r)" if "map_of ?m j = Some r" for j r
  proof (cases "j = cl_resource c")
    case True
    with that obtain r0 where r0: "map_of m j = Some r0" "r = release_claim_slots (cl_slots c) r0"
      by (auto simp: map_of_om_modify)
    from enough [OF r0(1)] True
    have e: "unat (cl_slots c) + claims_on j cs \<le> unat (res_reserved_slots r0)" by simp
    then have le: "cl_slots c \<le> res_reserved_slots r0" by (simp add: word_le_nat_alt)
    with r0(2) have "unat (res_reserved_slots r) = unat (res_reserved_slots r0) - unat (cl_slots c)"
      by (simp add: release_claim_slots_def unat_sub_le)
    with e show ?thesis by simp
  next
    case False
    with that Cons.prems [of j r] show ?thesis by (simp add: map_of_om_modify)
  qed
  from Cons.IH [OF this] have IH: "map_of (release_claims cs ?m) k = map_option
    (\<lambda>r. r\<lparr>res_reserved_slots := res_reserved_slots r - word_of_nat (claims_on k cs)\<rparr>) (map_of ?m k)"
    by blast
  show ?case
  proof (cases "map_of m k")
    case (Some r)
    show ?thesis
    proof (cases "cl_resource c = k")
      case True
      with enough [OF Some True] have "cl_slots c \<le> res_reserved_slots r"
        by (simp add: word_le_nat_alt)
      with IH Some True show ?thesis
        by (simp add: map_of_om_modify release_claim_slots_def diff_diff_eq)
    next
      case False
      with IH Some show ?thesis by (simp add: map_of_om_modify)
    qed
  qed (use IH in \<open>auto simp: map_of_om_modify\<close>)
qed

lemma om_wf_release_claims: "om_wf m \<Longrightarrow> om_wf (release_claims cs m)"
  by (induction cs arbitrary: m) simp_all

lemma release_reservation_inactive:
  "(case map_of (ss_reservations st) rid of None \<Rightarrow> True | Some v \<Rightarrow> rv_state v \<noteq> RV_Active) \<Longrightarrow>
     release_reservation rid target detail st = (False, st)"
  by (auto simp: release_reservation_def split: option.splits)

section \<open>Termination of a placement\<close>

lemma reserved_covers_claims:
  assumes "resources_inv rs vs" and "om_wf vs" and "map_of vs i = Some v" and "rv_state v = RV_Active"
    and "map_of rs k = Some r"
  shows "claims_on k (rv_claims v) \<le> unat (res_reserved_slots r)"
proof -
  from omap.total_ge [OF assms(2,3), of "reservation_claims k"] assms(4)
  have "claims_on k (rv_claims v) \<le> om_total (reservation_claims k) vs"
    by (simp add: reservation_claims_def)
  with assms(1,5) show ?thesis by (simp add: resources_inv_def)
qed

lemma release_resources_inv:
  assumes inv: "resources_inv rs vs" and wf: "om_wf vs" and v: "map_of vs i = Some v"
    and act: "rv_state v = RV_Active"
    and off: "\<And>w. rv_state (f w) \<noteq> RV_Active"
  shows "resources_inv (release_claims (rv_claims v) rs) (om_modify i f vs)"
    and "same_dom rs (release_claims (rv_claims v) rs)"
proof -
  note m = release_claims_map [of rs "rv_claims v", OF reserved_covers_claims [OF inv wf v act]]
  show "same_dom rs (release_claims (rv_claims v) rs)" using m by (simp add: same_dom_def)
  have "resource_ok r' \<and> res_id r' = k \<and>
      unat (res_reserved_slots r') = om_total (reservation_claims k) (om_modify i f vs)"
    if r': "map_of (release_claims (rv_claims v) rs) k = Some r'" for k r'
  proof -
    from m [of k] r' obtain r where r: "map_of rs k = Some r"
      and eq: "r' = r\<lparr>res_reserved_slots := res_reserved_slots r - word_of_nat (claims_on k (rv_claims v))\<rparr>"
      by (metis (no_types, lifting) map_option_eq_Some)
    from reserved_covers_claims [OF inv wf v act r]
    have le: "claims_on k (rv_claims v) \<le> unat (res_reserved_slots r)" .
    then have "unat (word_of_nat (claims_on k (rv_claims v)) :: u32) = claims_on k (rv_claims v)"
      using unsigned_less [of "res_reserved_slots r", where ?'a = nat]
      by (simp add: unsigned_of_nat take_bit_nat_eq_self)
    with le have sub: "unat (res_reserved_slots r') = unat (res_reserved_slots r) - claims_on k (rv_claims v)"
      unfolding eq by (simp add: unat_sub_le word_le_nat_alt)
    have "om_total (reservation_claims k) (om_modify i f vs) =
        om_total (reservation_claims k) vs - claims_on k (rv_claims v)"
      using omap.total_modify_drop [OF wf v, of "reservation_claims k" f] off act
      by (simp add: reservation_claims_def)
    moreover from inv r have ok: "resource_ok r" "res_id r = k"
      "unat (res_reserved_slots r) = om_total (reservation_claims k) vs"
      by (simp_all add: resources_inv_def keyed_def)
    moreover have "resource_ok r'"
      using ok(1) sub unfolding resource_ok_def eq by (auto simp: unat_eq_0)
    ultimately show ?thesis using sub eq by simp
  qed
  moreover have "om_wf (release_claims (rv_claims v) rs)"
    using inv by (simp add: resources_inv_def keyed_def om_wf_release_claims)
  ultimately show "resources_inv (release_claims (rv_claims v) rs) (om_modify i f vs)"
    by (simp add: resources_inv_def keyed_def)
qed

text \<open>A live placement and its reservation name each other.\<close>

lemma live_placement_reservation:
  assumes "state_inv ids st" and "map_of (ss_placements st) pid = Some p"
    and "placement_state_is_live (pl_state p)"
  obtains v where "map_of (ss_reservations st) (pl_reservation p) = Some v" "rv_state v = RV_Active"
    "rv_placement v = pid" "rv_id v = pl_reservation p" "pl_id p = pid"
    "rv_placement_generation v = pl_generation p"
    "map cl_resource (rv_claims v) = map sel_resource (pl_resources p)"
proof -
  from assms(1) have i: "placements_inv (ss_resources st) (ss_requests st) (ss_reservations st) (ss_placements st)"
    "reservations_inv (ss_resources st) (ss_placements st) (ss_reservations st)"
    by (simp_all add: state_inv_def)
  from i(1) assms(2,3) have "backed (ss_reservations st) p" "pl_id p = pid"
    by (simp_all add: placements_inv_def keyed_def)
  then obtain v where "map_of (ss_reservations st) (pl_reservation p) = Some v" "rv_state v = RV_Active"
    "rv_placement v = pid" "rv_placement_generation v = pl_generation p"
    "map cl_resource (rv_claims v) = map sel_resource (pl_resources p)"
    by (auto simp: backed_def)
  with i(2) \<open>pl_id p = pid\<close> that show thesis by (simp add: reservations_inv_def keyed_def)
qed

definition retire_placement ::
  "placement_state \<Rightarrow> string \<Rightarrow> u64 \<Rightarrow> placement_record \<Rightarrow> placement_record" where
  "retire_placement target detail seqn q =
     q\<lparr>pl_state := target, pl_detail := detail, pl_transition_sequence := seqn\<rparr>"

definition end_reservation ::
  "reservation_state \<Rightarrow> string \<Rightarrow> reservation_record \<Rightarrow> reservation_record" where
  "end_reservation target detail w = w\<lparr>rv_state := target, rv_detail := detail\<rparr>"

definition ended_state :: "placement_state \<Rightarrow> reservation_state" where
  "ended_state target = (if termination_revokes target then RV_Revoked else RV_Released)"

text \<open>Under the invariant, termination of a live placement releases exactly its own claims.\<close>

lemma terminate_placement_live:
  assumes "map_of (ss_placements st) pid = Some p" and "placement_state_is_live (pl_state p)"
    and "map_of (ss_reservations st) (pl_reservation p) = Some v" and "rv_state v = RV_Active"
  shows "terminate_placement pid target detail st = st\<lparr>
    ss_transition_sequence := ss_transition_sequence st + 1,
    ss_placements := om_modify pid (retire_placement target detail (ss_transition_sequence st + 1))
      (ss_placements st),
    ss_resources := release_claims (rv_claims v) (ss_resources st),
    ss_reservations := om_modify (pl_reservation p) (end_reservation (ended_state target) detail)
      (ss_reservations st),
    ss_requests := om_modify (pl_request p) (detach_request (pl_id p) target detail) (ss_requests st),
    ss_unit_current := detach_unit (placement_unit p) (pl_id p) (ss_unit_current st)\<rparr>"
  using assms
  by (simp add: terminate_placement_def Let_def revoke_reservation_def release_reservation_def
      retire_placement_def [abs_def] end_reservation_def [abs_def] ended_state_def)

lemma terminate_placement_dead:
  "map_of (ss_placements st) pid = None \<or>
   (\<exists>p. map_of (ss_placements st) pid = Some p \<and> \<not> placement_state_is_live (pl_state p)) \<Longrightarrow>
     terminate_placement pid target detail st = st"
  by (auto simp: terminate_placement_def)

lemma retire_placement_simps [simp]:
  "pl_id (retire_placement t d s q) = pl_id q"
  "pl_state (retire_placement t d s q) = t"
  "pl_resources (retire_placement t d s q) = pl_resources q"
  "pl_request (retire_placement t d s q) = pl_request q"
  "pl_reservation (retire_placement t d s q) = pl_reservation q"
  "pl_generation (retire_placement t d s q) = pl_generation q"
  "pl_detail (retire_placement t d s q) = d"
  "placement_unit (retire_placement t d s q) = placement_unit q"
  by (simp_all add: retire_placement_def placement_unit_def)

lemma end_reservation_simps [simp]:
  "rv_id (end_reservation t d w) = rv_id w"
  "rv_state (end_reservation t d w) = t"
  "rv_claims (end_reservation t d w) = rv_claims w"
  "rv_placement (end_reservation t d w) = rv_placement w"
  "rv_placement_generation (end_reservation t d w) = rv_placement_generation w"
  by (simp_all add: end_reservation_def)

lemma ended_state_inactive [simp]: "ended_state target \<noteq> RV_Active"
  by (simp add: ended_state_def)

lemma detach_request_request [simp]: "st_request (detach_request pid t d s) = st_request s"
  by (simp add: detach_request_def split: option.split)

lemma map_of_detach_unit:
  "map_of (detach_unit u pid us) w =
     (if w = u \<and> map_of us u = Some pid then None else map_of us w)"
  by (auto simp: detach_unit_def map_of_om_erase split: option.split)

lemma om_wf_detach_unit: "om_wf us \<Longrightarrow> om_wf (detach_unit u pid us)"
  by (simp add: detach_unit_def om_wf_erase split: option.split)

lemma state_inv_terminate:
  assumes inv: "state_inv ids st" and dead: "\<not> placement_state_is_live target"
  shows "state_inv ids (terminate_placement pid target detail st)"
proof (cases "\<exists>p. map_of (ss_placements st) pid = Some p \<and> placement_state_is_live (pl_state p)")
  case False
  then have "terminate_placement pid target detail st = st"
    by (intro terminate_placement_dead) (cases "map_of (ss_placements st) pid", auto)
  with inv show ?thesis by simp
next
  case True
  then obtain p where p: "map_of (ss_placements st) pid = Some p"
    and live: "placement_state_is_live (pl_state p)" by auto
  let ?rs = "ss_resources st" and ?qs = "ss_requests st" and ?ps = "ss_placements st"
    and ?vs = "ss_reservations st" and ?us = "ss_unit_current st"
  obtain v where v: "map_of ?vs (pl_reservation p) = Some v" "rv_state v = RV_Active"
    and names: "rv_placement v = pid" "rv_id v = pl_reservation p" "pl_id p = pid"
    using live_placement_reservation [OF inv p live] by metis
  let ?f = "retire_placement target detail (ss_transition_sequence st + 1)"
  let ?g = "end_reservation (ended_state target) detail"
  let ?rs' = "release_claims (rv_claims v) ?rs" and ?ps' = "om_modify pid ?f ?ps"
    and ?vs' = "om_modify (pl_reservation p) ?g ?vs"
    and ?qs' = "om_modify (pl_request p) (detach_request (pl_id p) target detail) ?qs"
    and ?us' = "detach_unit (placement_unit p) (pl_id p) ?us"
  from inv have i: "resources_inv ?rs ?vs" "requests_inv ?qs" "reservations_inv ?rs ?ps ?vs"
    "placements_inv ?rs ?qs ?vs ?ps" "units_inv ?ps ?us" "ids_inv ids ?ps ?vs"
    by (simp_all add: state_inv_def)
  have wf: "om_wf ?vs" using i(3) by (simp add: reservations_inv_def keyed_def)
  note rel = release_resources_inv [OF i(1) wf v, of ?g]
  have resources: "resources_inv ?rs' ?vs'" and dom: "same_dom ?rs ?rs'" by (rule rel; simp)+
  have requests: "requests_inv ?qs'"
    using i(2) by (auto simp: requests_inv_def map_of_om_modify intro!: keyed_modify split: if_splits)
  have bk: "reservation_ok ?rs w \<and> backs ?ps' w" if w: "map_of ?vs' k = Some w" for k w
  proof -
    from w obtain w0 where w0: "map_of ?vs k = Some w0"
      and w_eq: "w = (if k = pl_reservation p then ?g w0 else w0)"
      by (auto simp: map_of_om_modify split: if_splits)
    from i(3) w0 have old: "reservation_ok ?rs w0" "backs ?ps w0" "rv_id w0 = k"
      by (simp_all add: reservations_inv_def keyed_def)
    then obtain q where q: "map_of ?ps (rv_placement w0) = Some q"
      and act: "rv_state w0 = RV_Active \<Longrightarrow> placement_state_is_live (pl_state q) \<and>
        pl_reservation q = k \<and> pl_generation q = rv_placement_generation w0"
      by (auto simp: backs_def)
    have "k = pl_reservation p" if "rv_placement w0 = pid" "rv_state w0 = RV_Active"
      using act that q p by auto
    then have "backs ?ps' w"
      using q act w_eq old(3) by (auto simp: backs_def map_of_om_modify)
    with old(1) w_eq show ?thesis by (simp add: reservation_ok_def split: if_splits)
  qed
  have "keyed rv_id ?vs'" using i(3) by (intro keyed_modify) (simp_all add: reservations_inv_def)
  with bk have "reservations_inv ?rs ?ps' ?vs'" by (simp add: reservations_inv_def)
  then have reservations: "reservations_inv ?rs' ?ps' ?vs'" using reservations_inv_dom [OF dom] by simp
  have place: "placement_ok ?rs ?qs q \<and> (placement_state_is_live (pl_state q) \<longrightarrow> backed ?vs' q)"
    if q: "map_of ?ps' k = Some q" for k q
  proof (cases "k = pid")
    case True
    with q p have "q = ?f p" by (simp add: map_of_om_modify)
    moreover have "placement_ok ?rs ?qs p" using i(4) p by (simp add: placements_inv_def)
    ultimately show ?thesis using dead by (simp add: placement_ok_def)
  next
    case False
    with q have q0: "map_of ?ps k = Some q" by (simp add: map_of_om_modify)
    with i(4) have old: "placement_ok ?rs ?qs q" "placement_state_is_live (pl_state q) \<Longrightarrow> backed ?vs q"
      "pl_id q = k" by (simp_all add: placements_inv_def keyed_def)
    have "backed ?vs' q" if lq: "placement_state_is_live (pl_state q)"
    proof -
      from old(2) [OF lq] obtain w where w: "map_of ?vs (pl_reservation q) = Some w"
        "rv_placement w = k" "rv_state w = RV_Active" "rv_placement_generation w = pl_generation q"
        "map cl_resource (rv_claims w) = map sel_resource (pl_resources q)"
        using old(3) by (auto simp: backed_def)
      from w(1,2) v(1) names(1) False have "pl_reservation q \<noteq> pl_reservation p" by auto
      with w old(3) show ?thesis by (simp add: backed_def map_of_om_modify)
    qed
    with old show ?thesis by blast
  qed
  have "keyed pl_id ?ps'" using i(4) by (intro keyed_modify) (simp_all add: placements_inv_def)
  with place have "placements_inv ?rs ?qs ?vs' ?ps'" by (simp add: placements_inv_def)
  then have placements: "placements_inv ?rs' ?qs' ?vs' ?ps'"
    using placements_inv_dom [OF dom same_dom_modify] by simp
  have units: "units_inv ?ps' ?us'"
    unfolding units_inv_def
  proof (intro conjI allI impI)
    show "om_wf ?us'" using i(5) by (simp add: units_inv_def om_wf_detach_unit)
    fix u k
    assume a: "map_of ?us' u = Some k"
    then have old: "map_of ?us u = Some k" and ne: "\<not> (u = placement_unit p \<and> k = pid)"
      by (auto simp: map_of_detach_unit names split: if_splits)
    from i(5) old obtain q where q: "map_of ?ps k = Some q" "placement_state_is_live (pl_state q)"
      "placement_unit q = u" by (auto simp: units_inv_def)
    with p ne have "k \<noteq> pid" by auto
    with q show "\<exists>q. map_of ?ps' k = Some q \<and> placement_state_is_live (pl_state q) \<and> placement_unit q = u"
      by (simp add: map_of_om_modify)
  qed
  have ids: "ids_inv ids ?ps' ?vs'" using i(6) by (simp add: ids_inv_def map_of_om_modify)
  from inv resources requests reservations placements units ids show ?thesis
    unfolding terminate_placement_live [OF p live v] by (simp add: state_inv_def)
qed

end
