(* ===== verification/CommitInv.thy ===== *)
theory CommitInv
  imports EngineInv
begin

text \<open>
  The commit of a placement under the ledger invariant: the selection found by the search always
  fits, so the commit loop never reports an error, and the new placement, its reservation and the
  reserved slots keep the invariant.
\<close>

section \<open>The commit loop\<close>

definition fits :: "(resource_id, resource_record) omap \<Rightarrow> candidate_resource \<Rightarrow> bool" where
  "fits rs c \<longleftrightarrow> (\<exists>r. map_of rs (cr_id c) = Some r \<and> res_id r = cr_id c \<and>
     unat (res_advertised_occupancy r) + unat (res_reserved_slots r) + unat (cr_slots c)
       \<le> unat (rcap_slots (res_capacity r)))"

definition reserve_all ::
  "candidate_resource list \<Rightarrow> (resource_id, resource_record) omap \<Rightarrow> (resource_id, resource_record) omap"
where
  "reserve_all cs rs = fold (\<lambda>c. om_modify (cr_id c) (reserve_slots (cr_slots c))) cs rs"

lemma reserve_slots_simps [simp]:
  "res_id (reserve_slots n r) = res_id r"
  "res_capacity (reserve_slots n r) = res_capacity r"
  "res_advertised_occupancy (reserve_slots n r) = res_advertised_occupancy r"
  "res_lifecycle (reserve_slots n r) = res_lifecycle r"
  "res_reserved_slots (reserve_slots n r) = res_reserved_slots r + n"
  by (simp_all add: reserve_slots_def)

lemma fits_other:
  "fits rs d \<Longrightarrow> cr_id d \<noteq> cr_id c \<Longrightarrow> fits (om_modify (cr_id c) (reserve_slots (cr_slots c)) rs) d"
  by (simp add: fits_def map_of_om_modify)

lemma fits_guard:
  assumes "unat (res_advertised_occupancy r) + unat (res_reserved_slots r) + unat n
    \<le> unat (rcap_slots (res_capacity r))"
  shows "\<not> rcap_slots (res_capacity r) - n < res_reserved_slots r"
proof -
  from assms have "n \<le> rcap_slots (res_capacity r)" by (simp add: word_le_nat_alt)
  with assms show ?thesis by (simp add: word_less_nat_alt unat_sub_le)
qed

definition committed ::
  "(resource_id, resource_record) omap \<Rightarrow> (candidate_resource \<times> string) list \<Rightarrow>
     selected_resource list \<Rightarrow> reservation_claim list \<Rightarrow> bool" where
  "committed rs cs sels claims \<longleftrightarrow>
     sels = map (\<lambda>e. select_resource (fst e) (snd e) (the (map_of rs (cr_id (fst e))))) cs \<and>
     claims = map (\<lambda>e. claim_resource (fst e) (the (map_of rs (cr_id (fst e))))) cs \<and>
     map sel_resource sels = map (cr_id \<circ> fst) cs \<and> map sel_slots sels = map (cr_slots \<circ> fst) cs \<and>
     map sel_requirement_name sels = map snd cs \<and>
     map cl_resource claims = map (cr_id \<circ> fst) cs \<and> map cl_slots claims = map (cr_slots \<circ> fst) cs"

lemma commit_selection_ok:
  assumes "distinct (map (cr_id \<circ> fst) cs)" and "\<forall>e\<in>set cs. fits rs (fst e)"
  shows "\<exists>sels claims. commit_selection cs (rs, ss, cl) =
      (None, reserve_all (map fst cs) rs, ss @ sels, cl @ claims) \<and> committed rs cs sels claims"
  using assms
proof (induction cs arbitrary: rs ss cl)
  case Nil
  then show ?case by (simp add: reserve_all_def committed_def)
next
  case (Cons e cs)
  obtain c name where e: "e = (c, name)" by fastforce
  with Cons.prems(2) obtain r where r: "map_of rs (cr_id c) = Some r" "res_id r = cr_id c"
    and fit: "unat (res_advertised_occupancy r) + unat (res_reserved_slots r) + unat (cr_slots c)
      \<le> unat (rcap_slots (res_capacity r))"
    by (auto simp: fits_def)
  let ?rs = "om_modify (cr_id c) (reserve_slots (cr_slots c)) rs"
  have "cr_id c \<notin> (\<lambda>a. cr_id (fst a)) ` set cs" using Cons.prems(1) e by (simp add: comp_def)
  then have other: "\<forall>e\<in>set cs. cr_id (fst e) \<noteq> cr_id c" by (metis imageI)
  then have same: "\<forall>e\<in>set cs. map_of ?rs (cr_id (fst e)) = map_of rs (cr_id (fst e))"
    by (simp add: map_of_om_modify)
  with Cons.prems(2) other have "\<forall>e\<in>set cs. fits ?rs (fst e)"
    by (simp add: fits_other)
  with Cons.IH [of ?rs "ss @ [select_resource c name r]" "cl @ [claim_resource c r]"] Cons.prems(1)
  obtain sels claims where IH:
    "commit_selection cs (?rs, ss @ [select_resource c name r], cl @ [claim_resource c r]) =
      (None, reserve_all (map fst cs) ?rs, (ss @ [select_resource c name r]) @ sels,
       (cl @ [claim_resource c r]) @ claims)" "committed ?rs cs sels claims"
    by auto
  note parts = IH(2) [unfolded committed_def]
  have "sels = map (\<lambda>e. select_resource (fst e) (snd e) (the (map_of rs (cr_id (fst e))))) cs"
    using conjunct1 [OF parts] same by simp
  moreover have "claims = map (\<lambda>e. claim_resource (fst e) (the (map_of rs (cr_id (fst e))))) cs"
    using conjunct1 [OF conjunct2 [OF parts]] same by simp
  moreover note conjunct2 [OF conjunct2 [OF parts]]
  moreover have "select_resource (fst e) (snd e) (the (map_of rs (cr_id (fst e)))) = select_resource c name r"
    "claim_resource (fst e) (the (map_of rs (cr_id (fst e)))) = claim_resource c r"
    "sel_resource (select_resource c name r) = cr_id c" "sel_slots (select_resource c name r) = cr_slots c"
    "sel_requirement_name (select_resource c name r) = name"
    "cl_resource (claim_resource c r) = cr_id c" "cl_slots (claim_resource c r) = cr_slots c"
    using e r by (simp_all add: select_resource_def claim_resource_def)
  ultimately have "committed rs (e # cs) (select_resource c name r # sels) (claim_resource c r # claims)"
    unfolding committed_def list.map comp_apply using e by (simp only: fst_conv snd_conv simp_thms)
  moreover have "commit_selection (e # cs) (rs, ss, cl) = (None, reserve_all (map fst (e # cs)) rs,
      ss @ (select_resource c name r # sels), cl @ (claim_resource c r # claims))"
    using IH(1) e r(1) fits_guard [OF fit] by (simp add: reserve_all_def)
  ultimately show ?case by blast
qed

definition candidate_claims :: "resource_id \<Rightarrow> candidate_resource list \<Rightarrow> nat" where
  "candidate_claims k cs = sum_list (map (\<lambda>c. if cr_id c = k then unat (cr_slots c) else 0) cs)"

lemma reserve_all_map:
  "map_of (reserve_all cs rs) k = map_option
     (\<lambda>r. r\<lparr>res_reserved_slots := res_reserved_slots r + word_of_nat (candidate_claims k cs)\<rparr>) (map_of rs k)"
proof (induction cs arbitrary: rs)
  case Nil
  show ?case by (cases "map_of rs k") (simp_all add: reserve_all_def candidate_claims_def)
next
  case (Cons c cs)
  have step: "reserve_all (c # cs) rs =
      reserve_all cs (om_modify (cr_id c) (reserve_slots (cr_slots c)) rs)"
    by (simp add: reserve_all_def)
  have claims: "candidate_claims k (c # cs) =
      (if cr_id c = k then unat (cr_slots c) else 0) + candidate_claims k cs"
    by (simp add: candidate_claims_def)
  show ?case
    unfolding step Cons.IH claims
    by (cases "map_of rs k") (auto simp: map_of_om_modify reserve_slots_def add.assoc)
qed

lemma om_wf_reserve_all: "om_wf rs \<Longrightarrow> om_wf (reserve_all cs rs)"
  by (induction cs arbitrary: rs) (simp_all add: reserve_all_def)

lemma same_dom_reserve_all: "same_dom rs (reserve_all cs rs)"
  by (simp add: same_dom_def reserve_all_map)

lemma candidate_claims_fit:
  assumes "distinct (map cr_id cs)" and "\<forall>c\<in>set cs. fits rs c" and "map_of rs k = Some r"
    and "resource_ok r"
  shows "unat (res_advertised_occupancy r) + unat (res_reserved_slots r) + candidate_claims k cs
    \<le> unat (rcap_slots (res_capacity r))"
proof (cases "\<exists>c\<in>set cs. cr_id c = k")
  case True
  then obtain c where c: "c \<in> set cs" "cr_id c = k" by blast
  then obtain pre post where cs: "cs = pre @ c # post" by (meson split_list)
  from assms(1) cs have "cr_id c \<notin> cr_id ` (set pre \<union> set post)" by auto
  with c(2) have other: "\<forall>d\<in>set pre \<union> set post. cr_id d \<noteq> k" by blast
  have zero: "candidate_claims k ds = 0" if "\<forall>d\<in>set ds. cr_id d \<noteq> k" for ds
    using that by (induction ds) (simp_all add: candidate_claims_def)
  have "candidate_claims k cs = candidate_claims k pre + unat (cr_slots c) + candidate_claims k post"
    using c(2) by (simp add: candidate_claims_def cs)
  with zero [of pre] zero [of post] other have "candidate_claims k cs = unat (cr_slots c)" by simp
  moreover have "fits rs c" using assms(2) c(1) by blast
  then have "unat (res_advertised_occupancy r) + unat (res_reserved_slots r) +
      unat (cr_slots c) \<le> unat (rcap_slots (res_capacity r))"
    using assms(3) c(2) by (simp add: fits_def)
  ultimately show ?thesis by simp
next
  case False
  then have "candidate_claims k cs = 0" by (induction cs) (simp_all add: candidate_claims_def)
  with assms(4) show ?thesis by (simp add: resource_ok_def)
qed

lemma claims_on_candidates:
  "map cl_resource claims = map cr_id cs \<Longrightarrow> map cl_slots claims = map cr_slots cs \<Longrightarrow>
     claims_on k claims = candidate_claims k cs"
proof (induction claims arbitrary: cs)
  case (Cons a claims)
  then obtain c ds where "cs = c # ds" by (cases cs) auto
  with Cons show ?case by (simp add: candidate_claims_def)
qed (simp add: candidate_claims_def)

section \<open>Recording the placement\<close>

text \<open>What the commit needs to know of the chosen selection.\<close>

definition selection_fits :: "scheduler_state \<Rightarrow> candidate_resource list \<Rightarrow> bool" where
  "selection_fits st sel \<longleftrightarrow> sel \<noteq> [] \<and> distinct (map cr_id sel) \<and>
     (\<forall>c\<in>set sel. fits (ss_resources st) c \<and> cr_slots c \<noteq> 0 \<and>
        (\<forall>r. map_of (ss_resources st) (cr_id c) = Some r \<longrightarrow> res_lifecycle r \<noteq> RL_Retired))"

lemma reserve_resources_inv:
  assumes inv: "resources_inv rs vs" and wf: "om_wf vs" and sel: "distinct (map cr_id sel)"
    "\<forall>c\<in>set sel. fits rs c \<and> (\<forall>r. map_of rs (cr_id c) = Some r \<longrightarrow> res_lifecycle r \<noteq> RL_Retired)"
    and fresh: "map_of vs (rv_id v) = None" and act: "rv_state v = RV_Active"
    and claims: "\<And>k. claims_on k (rv_claims v) = candidate_claims k sel"
  shows "resources_inv (reserve_all sel rs) (om_emplace (rv_id v) v vs)"
proof -
  have "resource_ok r' \<and> res_id r' = k \<and>
      unat (res_reserved_slots r') = om_total (reservation_claims k) (om_emplace (rv_id v) v vs)"
    if r': "map_of (reserve_all sel rs) k = Some r'" for k r'
  proof -
    from r' obtain r where r: "map_of rs k = Some r"
      and eq: "r' = r\<lparr>res_reserved_slots := res_reserved_slots r + word_of_nat (candidate_claims k sel)\<rparr>"
      unfolding reserve_all_map by (metis (no_types, lifting) map_option_eq_Some)
    from inv r have ok: "resource_ok r" "res_id r = k"
      "unat (res_reserved_slots r) = om_total (reservation_claims k) vs"
      by (simp_all add: resources_inv_def keyed_def)
    have bound: "unat (res_advertised_occupancy r) + unat (res_reserved_slots r) + candidate_claims k sel
        \<le> unat (rcap_slots (res_capacity r))"
      using candidate_claims_fit [OF sel(1) _ r ok(1)] sel(2) by blast
    have cap: "unat (rcap_slots (res_capacity r)) < 2 ^ 32"
      using unsigned_less [of "rcap_slots (res_capacity r)", where ?'a = nat] by simp
    then have w: "unat (word_of_nat (candidate_claims k sel) :: u32) = candidate_claims k sel"
      using bound by (simp add: unsigned_of_nat take_bit_nat_eq_self)
    have sum: "unat (res_reserved_slots r') = unat (res_reserved_slots r) + candidate_claims k sel"
      unfolding eq using bound cap by (simp add: unat_add_no_wrap w)
    have retired: "candidate_claims k sel = 0" if "res_lifecycle r = RL_Retired"
    proof -
      have "\<forall>c\<in>set sel. cr_id c \<noteq> k" using sel(2) r that by blast
      then show ?thesis by (simp add: candidate_claims_def)
    qed
    have "resource_ok r'"
      using ok(1) bound sum retired unfolding resource_ok_def eq by auto
    moreover have "om_total (reservation_claims k) (om_emplace (rv_id v) v vs) =
        om_total (reservation_claims k) vs + candidate_claims k sel"
      using omap.total_emplace [OF wf fresh, of "reservation_claims k"] act claims
      by (simp add: reservation_claims_def)
    ultimately show ?thesis using sum ok eq by simp
  qed
  moreover have "om_wf (reserve_all sel rs)"
    using inv by (simp add: resources_inv_def keyed_def om_wf_reserve_all)
  ultimately show ?thesis by (simp add: resources_inv_def keyed_def)
qed

text \<open>A new placement that matches its reservation.\<close>

definition matching :: "placement_record \<Rightarrow> reservation_record \<Rightarrow> bool" where
  "matching p v \<longleftrightarrow> rv_state v = RV_Active \<and> rv_placement v = pl_id p \<and> rv_id v = pl_reservation p \<and>
     rv_placement_generation v = pl_generation p \<and> placement_state_is_live (pl_state p) \<and>
     map cl_resource (rv_claims v) = map sel_resource (pl_resources p)"

lemma state_inv_record_placement:
  assumes inv: "state_inv ids st" and fit: "selection_fits st sel"
    and match: "matching p v"
    and sels: "map sel_resource (pl_resources p) = map cr_id sel" "map sel_slots (pl_resources p) = map cr_slots sel"
    and claims: "map cl_resource (rv_claims v) = map cr_id sel" "map cl_slots (rv_claims v) = map cr_slots sel"
    and fresh: "map_of (ss_placements st) (pl_id p) = None" "map_of (ss_reservations st) (rv_id v) = None"
    and ids: "pl_id p \<le> ids'" "rv_id v \<le> ids'" "ids \<le> ids'"
    and known: "map_of (ss_requests st) (pl_request p) \<noteq> None"
    and unit: "placement_unit p = request_unit req"
  shows "state_inv ids' (record_placement rid req p v (reserve_all sel (ss_resources st)) st)"
proof -
  let ?rs = "ss_resources st" and ?qs = "ss_requests st" and ?ps = "ss_placements st"
    and ?vs = "ss_reservations st" and ?us = "ss_unit_current st"
  let ?rs' = "reserve_all sel ?rs" and ?ps' = "om_emplace (pl_id p) p ?ps"
    and ?vs' = "om_emplace (rv_id v) v ?vs" and ?us' = "om_set (request_unit req) (pl_id p) ?us"
    and ?qs' = "om_modify rid (place_request (pl_id p)) ?qs"
  from inv have i: "resources_inv ?rs ?vs" "requests_inv ?qs" "reservations_inv ?rs ?ps ?vs"
    "placements_inv ?rs ?qs ?vs ?ps" "units_inv ?ps ?us" "ids_inv ids ?ps ?vs"
    by (simp_all add: state_inv_def)
  have wf: "om_wf ?vs" "om_wf ?ps" "om_wf ?us"
    using i by (simp_all add: reservations_inv_def placements_inv_def units_inv_def keyed_def)
  note dom = same_dom_reserve_all [of ?rs sel]
  from fit have sel: "sel \<noteq> []" "distinct (map cr_id sel)" "\<forall>c\<in>set sel. fits ?rs c \<and> cr_slots c \<noteq> 0"
    by (simp_all add: selection_fits_def)
  have known_sel: "map_of ?rs (cr_id c) \<noteq> None" if "c \<in> set sel" for c
    using sel(3) that by (auto simp: fits_def)
  have fits': "\<forall>c\<in>set sel. fits ?rs c \<and> (\<forall>r. map_of ?rs (cr_id c) = Some r \<longrightarrow> res_lifecycle r \<noteq> RL_Retired)"
    using fit by (simp add: selection_fits_def)
  have act: "rv_state v = RV_Active" using match by (simp add: matching_def)
  have resources: "resources_inv ?rs' ?vs'"
    by (rule reserve_resources_inv [OF i(1) wf(1) sel(2) fits' fresh(2) act])
      (rule claims_on_candidates [OF claims])
  have requests: "requests_inv ?qs'"
    using i(2) by (auto simp: requests_inv_def map_of_om_modify place_request_def intro!: keyed_modify
        split: if_splits)
  have vok: "reservation_ok ?rs v"
    unfolding reservation_ok_def
  proof (intro conjI ballI)
    show "rv_claims v \<noteq> []" using claims(1) sel(1) by auto
    fix c
    assume c: "c \<in> set (rv_claims v)"
    then have "cl_resource c \<in> cr_id ` set sel" "cl_slots c \<in> cr_slots ` set sel"
      using claims by (metis image_eqI list.set_map)+
    then show "map_of ?rs (cl_resource c) \<noteq> None" "cl_slots c \<noteq> 0"
      using known_sel sel(3) by auto
  qed
  have "backs ?ps' v" using match fresh(1) wf(2) by (auto simp: backs_def matching_def map_of_om_emplace)
  moreover have "backs ?ps' w" if "map_of ?vs k = Some w" for k w
    using i(3) that fresh(1) wf(2) by (fastforce simp: reservations_inv_def backs_def map_of_om_emplace)
  ultimately have "reservations_inv ?rs ?ps' ?vs'"
    using i(3) vok wf(1) by (auto simp: reservations_inv_def keyed_emplace map_of_om_emplace split: if_splits)
  then have reservations: "reservations_inv ?rs' ?ps' ?vs'" using reservations_inv_dom [OF dom] by simp
  have pok: "placement_ok ?rs ?qs p"
    unfolding placement_ok_def
  proof (intro conjI ballI)
    show "pl_resources p \<noteq> []" using sels(1) sel(1) by auto
    show "distinct (map sel_resource (pl_resources p))" using sels(1) sel(2) by simp
    fix s
    assume "s \<in> set (pl_resources p)"
    then have "sel_resource s \<in> cr_id ` set sel" "sel_slots s \<in> cr_slots ` set sel"
      using sels by (metis image_eqI list.set_map)+
    then show "map_of ?rs (sel_resource s) \<noteq> None" "sel_slots s \<noteq> 0"
      using known_sel sel(3) by auto
  qed (rule known)
  have "backed ?vs' p" using match fresh(2) wf(1) by (auto simp: backed_def matching_def map_of_om_emplace)
  moreover have "backed ?vs' q" if "backed ?vs q" for q
    using that fresh(2) wf(1) by (auto simp: backed_def map_of_om_emplace)
  ultimately have "placements_inv ?rs ?qs ?vs' ?ps'"
    using i(4) pok wf(2) by (auto simp: placements_inv_def keyed_emplace map_of_om_emplace split: if_splits)
  then have placements: "placements_inv ?rs' ?qs' ?vs' ?ps'"
    using placements_inv_dom [OF dom same_dom_modify] by simp
  have units: "units_inv ?ps' ?us'"
    unfolding units_inv_def
  proof (intro conjI allI impI)
    show "om_wf ?us'" using wf(3) by (rule om_wf_set)
    fix u k
    assume a: "map_of ?us' u = Some k"
    show "\<exists>q. map_of ?ps' k = Some q \<and> placement_state_is_live (pl_state q) \<and> placement_unit q = u"
    proof (cases "u = request_unit req")
      case True
      with a wf(2,3) fresh(1) match unit show ?thesis
        by (simp add: map_of_om_set map_of_om_emplace matching_def)
    next
      case False
      with a wf(3) have "map_of ?us u = Some k" by (simp add: map_of_om_set)
      with i(5) obtain q where q: "map_of ?ps k = Some q" "placement_state_is_live (pl_state q)"
        "placement_unit q = u" by (auto simp: units_inv_def)
      with fresh(1) have "k \<noteq> pl_id p" by auto
      with q wf(2) show ?thesis by (simp add: map_of_om_emplace)
    qed
  qed
  have idsv: "ids_inv ids' ?ps' ?vs'"
    using i(6) ids wf(1,2) unfolding ids_inv_def
    by (auto simp: map_of_om_emplace split: if_splits intro: order_trans)
  from inv resources requests reservations placements units idsv show ?thesis
    by (simp add: state_inv_def record_placement_def)
qed

end
