(* ===== verification/ScheduleInv.thy ===== *)
theory ScheduleInv
  imports CommitInv
begin

text \<open>
  Scheduling under the ledger invariant: the candidate the engine commits fits, so the only errors
  of a scheduling step are the four limits; every outcome keeps the invariant; and a placement
  consists of eligible resources that satisfy the compound constraints, one per requirement.
\<close>

section \<open>The chosen candidate\<close>

definition chosen :: "scheduler_state \<Rightarrow> schedule_request \<Rightarrow> limits \<Rightarrow> ranking_candidate \<Rightarrow> bool" where
  "chosen st req lim cand \<longleftrightarrow>
     cand \<in> set (so_candidates (run_search st req lim (map rp_candidates (build_plans st req lim))))"

lemma chosen_facts:
  assumes "chosen st req lim cand"
  shows "length (rkc_selection cand) = length (sr_requirements req)"
    and "i < length (sr_requirements req) \<Longrightarrow>
      claim_of st req lim (sr_requirements req ! i) (rkc_selection cand ! i)"
    and "valid_rank st req (rkc_selection cand) cand"
proof -
  note sel = run_search_valid [OF assms [unfolded chosen_def]]
  show "length (rkc_selection cand) = length (sr_requirements req)"
    by (rule selection_claims(1) [OF sel(1)])
  show "i < length (sr_requirements req) \<Longrightarrow>
      claim_of st req lim (sr_requirements req ! i) (rkc_selection cand ! i)"
    by (rule selection_claims(2) [OF sel(1)])
  show "valid_rank st req (rkc_selection cand) cand" by (rule sel(2))
qed

lemma those_map_Some: "those (map f xs) = Some ys \<Longrightarrow> length ys = length xs \<and> (\<forall>i<length xs. f (xs ! i) = Some (ys ! i))"
proof (induction xs arbitrary: ys)
  case (Cons x xs)
  then obtain z zs where "f x = Some z" "those (map f xs) = Some zs" "ys = z # zs"
    by (auto split: option.splits)
  with Cons.IH [of zs] show ?case by (auto simp: nth_Cons split: nat.split)
qed simp

lemma valid_rank_distinct:
  assumes "valid_rank st req sel cand" and "keyed res_id (ss_resources st)"
  shows "distinct (map cr_id sel)"
proof -
  from assms(1) obtain rs where rs: "selection_records st sel = Some rs"
    "validate_selection st req rs sel = None" by (auto simp: valid_rank_def)
  from those_map_Some [OF rs(1) [unfolded selection_records_def]]
  have "length rs = length sel" "\<forall>i<length sel. map_of (ss_resources st) (cr_id (sel ! i)) = Some (rs ! i)"
    by simp_all
  with assms(2) have "map res_id rs = map cr_id sel"
    by (intro nth_equalityI) (auto simp: keyed_def)
  moreover have "distinct (map res_id rs)"
    using rs(2) by (auto simp: validate_selection_def Let_def split: if_splits)
  ultimately show ?thesis by simp
qed

lemma claim_of_eligible:
  assumes "claim_of st req lim q c" and "max_rejection_reasons_per_entry lim \<noteq> 0"
    and "keyed res_id (ss_resources st)"
  obtains r where "map_of (ss_resources st) (cr_id c) = Some r" "res_id r = cr_id c"
    "meets_hard_constraints req q r" "cr_slots c = claim_slots req q r"
    "cr_exclusive c = claim_exclusive req q r"
proof -
  from assms(1) obtain r where r: "r \<in> set (om_values (ss_resources st))"
    "el_eligible (evaluate_resource req q r lim)"
    "c = make_candidate st req q r (evaluate_resource req q r lim)"
    by (auto simp: claim_of_def)
  from r(1) assms(3) obtain k where k: "map_of (ss_resources st) k = Some r" "res_id r = k"
    by (auto simp: set_om_values keyed_def)
  have c: "cr_id c = res_id r" "cr_slots c = claim_slots req q r" "cr_exclusive c = claim_exclusive req q r"
    using evaluate_resource_claim [OF r(2)] r(3) by (simp_all add: make_candidate_def Let_def)
  have "meets_hard_constraints req q r"
    using evaluate_resource_eligible_iff [OF assms(2)] r(2) by blast
  with k c that show thesis by simp
qed

lemma chosen_fits:
  assumes inv: "state_inv ids st" and lim: "max_rejection_reasons_per_entry lim \<noteq> 0"
    and ok: "request_ok req" and ch: "chosen st req lim cand"
  shows "selection_fits st (rkc_selection cand)"
proof -
  let ?sel = "rkc_selection cand"
  have keyed: "keyed res_id (ss_resources st)" using inv by (simp add: state_inv_def resources_inv_def)
  have "fits (ss_resources st) c \<and> cr_slots c \<noteq> 0 \<and>
      (\<forall>r. map_of (ss_resources st) (cr_id c) = Some r \<longrightarrow> res_lifecycle r \<noteq> RL_Retired)"
    if c: "c \<in> set ?sel" for c
  proof -
    from c obtain i where i: "i < length ?sel" "c = ?sel ! i" by (auto simp: in_set_conv_nth)
    let ?q = "sr_requirements req ! i"
    have len: "i < length (sr_requirements req)" using i chosen_facts(1) [OF ch] by simp
    with chosen_facts(2) [OF ch] i have "claim_of st req lim ?q c" by simp
    then obtain r where r: "map_of (ss_resources st) (cr_id c) = Some r" "res_id r = cr_id c"
      "meets_hard_constraints req ?q r" "cr_slots c = claim_slots req ?q r"
      using claim_of_eligible [OF _ lim keyed] by metis
    from inv r(1) have rok: "resource_ok r" by (simp add: state_inv_def resources_inv_def)
    have "unat (res_advertised_occupancy r) + unat (res_reserved_slots r) + unat (cr_slots c)
        \<le> unat (rcap_slots (res_capacity r))"
      using eligible_fits [OF r(3)] rok r(4) by (simp add: resource_ok_def)
    moreover have "cr_slots c \<noteq> 0"
      using r(4) rok ok len by (auto simp: claim_slots_def resource_ok_def request_ok_def)
    ultimately show ?thesis using r by (auto simp: fits_def meets_hard_constraints_def)
  qed
  moreover have "?sel \<noteq> []" using chosen_facts(1) [OF ch] ok by (auto simp: request_ok_def)
  ultimately show ?thesis
    using valid_rank_distinct [OF chosen_facts(3) [OF ch] keyed] by (simp add: selection_fits_def)
qed

section \<open>The commit step\<close>

text \<open>\<open>commits\<close>: a placement of one candidate, as the engine records it.\<close>

definition commits ::
  "schedule_request \<Rightarrow> scheduler_state \<Rightarrow> id_generator \<Rightarrow> placement_generation \<Rightarrow> u32 \<Rightarrow>
     candidate_resource list \<Rightarrow> placement_record \<Rightarrow> reservation_record \<Rightarrow> bool" where
  "commits req st ids gen rcount sel p v \<longleftrightarrow>
     (\<exists>did sels claims. committed (ss_resources st) (zip sel (map rq_name (sr_requirements req))) sels claims \<and>
        p = make_placement req st did (ids + 1) (ids + 1 + 1) (ids + 1 + 1 + 1) gen rcount sels \<and>
        v = make_reservation p st claims)"

lemma committed_zip:
  assumes "committed rs (zip sel names) sels claims" and "length sel = length names"
  shows "map sel_resource sels = map cr_id sel" "map sel_slots sels = map cr_slots sel"
    "map sel_requirement_name sels = names"
    "map cl_resource claims = map cr_id sel" "map cl_slots claims = map cr_slots sel"
    "i < length sel \<Longrightarrow> sels ! i = select_resource (sel ! i) (names ! i) (the (map_of rs (cr_id (sel ! i))))"
    "i < length sel \<Longrightarrow> claims ! i = claim_resource (sel ! i) (the (map_of rs (cr_id (sel ! i))))"
proof -
  have z: "map (f \<circ> fst) (zip sel names) = map f sel" for f :: "candidate_resource \<Rightarrow> 'z"
    using assms(2) by (metis list.map_comp map_fst_zip)
  have n: "map snd (zip sel names) = names" using assms(2) by simp
  from assms(1) show "map sel_resource sels = map cr_id sel" "map sel_slots sels = map cr_slots sel"
    "map sel_requirement_name sels = names"
    "map cl_resource claims = map cr_id sel" "map cl_slots claims = map cr_slots sel"
    unfolding committed_def z n by blast+
  from assms show
    "i < length sel \<Longrightarrow> sels ! i = select_resource (sel ! i) (names ! i) (the (map_of rs (cr_id (sel ! i))))"
    "i < length sel \<Longrightarrow> claims ! i = claim_resource (sel ! i) (the (map_of rs (cr_id (sel ! i))))"
    by (simp_all add: committed_def)
qed

lemma commits_facts:
  assumes "commits req st ids gen rcount sel p v" and "length sel = length (sr_requirements req)"
  shows "matching p v" and "map sel_resource (pl_resources p) = map cr_id sel"
    and "map sel_slots (pl_resources p) = map cr_slots sel"
    and "map sel_requirement_name (pl_resources p) = map rq_name (sr_requirements req)"
    and "map cl_resource (rv_claims v) = map cr_id sel" and "map cl_slots (rv_claims v) = map cr_slots sel"
    and "pl_id p = ids + 1" and "rv_id v = ids + 1 + 1" and "pl_request p = sr_id req"
    and "placement_unit p = request_unit req"
    and "pl_generation p = (if gen = 0 then 1 else gen)" and "pl_reassignment_count p = rcount"
    and "pl_epoch p = ss_epoch st" and "pl_state p = PL_Reserved" and "rv_state v = RV_Active"
    and "pl_reservation p = ids + 1 + 1"
    and "i < length sel \<Longrightarrow> pl_resources p ! i = select_resource (sel ! i)
      (rq_name (sr_requirements req ! i)) (the (map_of (ss_resources st) (cr_id (sel ! i))))"
    and "i < length sel \<Longrightarrow> rv_claims v ! i = claim_resource (sel ! i)
      (the (map_of (ss_resources st) (cr_id (sel ! i))))"
proof -
  from assms(1) obtain did sels claims where
    c: "committed (ss_resources st) (zip sel (map rq_name (sr_requirements req))) sels claims" and
    p: "p = make_placement req st did (ids + 1) (ids + 1 + 1) (ids + 1 + 1 + 1) gen rcount sels" and
    v: "v = make_reservation p st claims"
    by (auto simp: commits_def)
  have "length sel = length (map rq_name (sr_requirements req))" using assms(2) by simp
  note z = committed_zip [OF c this]
  show "matching p v" "map sel_resource (pl_resources p) = map cr_id sel"
    "map sel_slots (pl_resources p) = map cr_slots sel"
    "map sel_requirement_name (pl_resources p) = map rq_name (sr_requirements req)"
    "map cl_resource (rv_claims v) = map cr_id sel" "map cl_slots (rv_claims v) = map cr_slots sel"
    "pl_id p = ids + 1" "rv_id v = ids + 1 + 1" "pl_request p = sr_id req"
    "placement_unit p = request_unit req"
    "pl_generation p = (if gen = 0 then 1 else gen)" "pl_reassignment_count p = rcount"
    "pl_epoch p = ss_epoch st" "pl_state p = PL_Reserved" "rv_state v = RV_Active"
    "pl_reservation p = ids + 1 + 1"
    using z by (simp_all add: p v make_placement_def make_reservation_def matching_def
        placement_unit_def request_unit_def)
  show "i < length sel \<Longrightarrow> pl_resources p ! i = select_resource (sel ! i)
      (rq_name (sr_requirements req ! i)) (the (map_of (ss_resources st) (cr_id (sel ! i))))"
    "i < length sel \<Longrightarrow> rv_claims v ! i = claim_resource (sel ! i)
      (the (map_of (ss_resources st) (cr_id (sel ! i))))"
    using z(6,7) assms(2) by (simp_all add: p v make_placement_def make_reservation_def)
qed

lemma commit_best_ok:
  assumes inv: "state_inv ids st" and fit: "selection_fits st (rkc_selection (hd cands))"
    and len: "length (rkc_selection (hd cands)) = length (sr_requirements req)"
    and lim: "status_ok (commit_limits (cfg_limits cfg) st)"
  obtains d' p v decisions where
    "commit_best cfg rid req gen rcount d e cands st ids = (Inr d', push_audit cfg ''placement.committed''
       (placement_summary p) ((record_placement rid req p v
         (reserve_all (rkc_selection (hd cands)) (ss_resources st)) st)\<lparr>ss_decisions := decisions\<rparr>),
       ids + 1 + 1 + 1)"
    "commits req st ids gen rcount (rkc_selection (hd cands)) p v"
    "dc_outcome d' = DO_Placed" "dc_placement d' = p" "dc_failure d' = E_Ok"
    "dc_authority d' = make_authority p"
proof -
  let ?sel = "rkc_selection (hd cands)" and ?names = "map rq_name (sr_requirements req)"
  let ?cs = "zip ?sel ?names"
  have z: "map fst ?cs = ?sel" using len by simp
  have ids_eq: "map (cr_id \<circ> fst) ?cs = map cr_id ?sel" by (metis list.map_comp z)
  have d1: "distinct (map (cr_id \<circ> fst) ?cs)"
    using fit unfolding ids_eq by (simp add: selection_fits_def)
  have "\<forall>e\<in>set ?cs. fst e \<in> set ?sel" by (auto dest: set_zip_leftD)
  with fit have d2: "\<forall>e\<in>set ?cs. fits (ss_resources st) (fst e)" by (auto simp: selection_fits_def)
  from commit_selection_ok [OF d1 d2, of "[]" "[]"] z obtain sels claims where
    c: "commit_selection ?cs (ss_resources st, [], []) =
      (None, reserve_all ?sel (ss_resources st), sels, claims)" "committed (ss_resources st) ?cs sels claims"
    by auto
  let ?p = "make_placement req st (dc_id d) (ids + 1) (ids + 1 + 1) (ids + 1 + 1 + 1) gen rcount sels"
  let ?v = "make_reservation ?p st claims"
  let ?e = "placed_explanation (cfg_limits cfg) (length (sr_requirements req)) cands ?p e"
  let ?d = "d\<lparr>dc_outcome := DO_Placed, dc_failure := E_Ok, dc_placement := ?p,
    dc_authority := make_authority ?p, dc_explanation := ?e\<rparr>"
  let ?rs = "reserve_all ?sel (ss_resources st)"
  let ?decisions = "om_emplace (dc_id ?d) ?e (ss_decisions (record_placement rid req ?p ?v ?rs st))"
  have run: "commit_best cfg rid req gen rcount d e cands st ids = (Inr ?d,
      push_audit cfg ''placement.committed'' (placement_summary ?p)
        ((record_placement rid req ?p ?v ?rs st)\<lparr>ss_decisions := ?decisions\<rparr>), ids + 1 + 1 + 1)"
    using c(1) lim by (simp add: commit_best_def ids_next_def Let_def)
  have com: "commits req st ids gen rcount ?sel ?p ?v" using c(2) unfolding commits_def by blast
  show thesis by (rule that [OF run com]) simp_all
qed

section \<open>Scheduling\<close>

text \<open>Room for the four identities of one scheduling step.\<close>

definition ids_room :: "id_generator \<Rightarrow> bool" where
  "ids_room ids \<longleftrightarrow> unat ids + 4 < 2 ^ 64"

lemma ids_room_steps:
  assumes "ids_room ids"
  shows "unat (ids + 1) = unat ids + 1" "unat (ids + 1 + 1) = unat ids + 2"
    "unat (ids + 1 + 1 + 1) = unat ids + 3" "unat (ids + 1 + 1 + 1 + 1) = unat ids + 4"
proof -
  from assms have a: "unat ids + 4 < 2 ^ LENGTH(64)" by (simp add: ids_room_def)
  show 1: "unat (ids + 1) = unat ids + 1" using a by (subst unat_add_no_wrap) simp_all
  show 2: "unat (ids + 1 + 1) = unat ids + 2" using a 1 by (subst unat_add_no_wrap) simp_all
  show 3: "unat (ids + 1 + 1 + 1) = unat ids + 3" using a 2 by (subst unat_add_no_wrap) simp_all
  show "unat (ids + 1 + 1 + 1 + 1) = unat ids + 4" using a 3 by (subst unat_add_no_wrap) simp_all
qed

text \<open>The three outcomes of a scheduling step on a state that satisfies the invariant.\<close>

definition refused ::
  "schedule_request_id \<Rightarrow> scheduler_state \<Rightarrow> id_generator \<Rightarrow> decision result \<times> scheduler_state \<times> id_generator \<Rightarrow> bool"
where
  "refused rid st ids r \<longleftrightarrow> (\<exists>d decisions. r = (Inr d, st\<lparr>ss_decisions := decisions,
     ss_requests := om_modify rid (refuse_request (dc_failure_detail d)) (ss_requests st)\<rparr>, ids + 1) \<and>
     dc_outcome d = DO_NoPlacement \<and> dc_failure d \<noteq> E_Ok)"

definition limited ::
  "engine_config \<Rightarrow> scheduler_state \<Rightarrow> id_generator \<Rightarrow> decision result \<times> scheduler_state \<times> id_generator \<Rightarrow> bool"
where
  "limited cfg st ids r \<longleftrightarrow> r = (Inl (commit_limits (cfg_limits cfg) st), st, ids + 1) \<and>
     \<not> status_ok (commit_limits (cfg_limits cfg) st)"

definition placed ::
  "engine_config \<Rightarrow> schedule_request_id \<Rightarrow> schedule_request \<Rightarrow> placement_generation \<Rightarrow> u32 \<Rightarrow>
     scheduler_state \<Rightarrow> id_generator \<Rightarrow> decision result \<times> scheduler_state \<times> id_generator \<Rightarrow>
     ranking_candidate \<Rightarrow> placement_record \<Rightarrow> reservation_record \<Rightarrow> bool" where
  "placed cfg rid req gen rcount st ids r cand p v \<longleftrightarrow> (\<exists>d decisions.
     r = (Inr d, push_audit cfg ''placement.committed'' (placement_summary p)
       ((record_placement rid req p v (reserve_all (rkc_selection cand) (ss_resources st)) st)
         \<lparr>ss_decisions := decisions\<rparr>), ids + 1 + 1 + 1 + 1) \<and>
     dc_outcome d = DO_Placed \<and> dc_placement d = p \<and> dc_failure d = E_Ok \<and>
     dc_authority d = make_authority p \<and>
     commits req st (ids + 1) gen rcount (rkc_selection cand) p v \<and>
     chosen st req (cfg_limits cfg) cand \<and>
     (\<forall>other. chosen st req (cfg_limits cfg) other \<longrightarrow> \<not> candidate_is_better other cand))"

lemma map_reject_reason_error: "map_reject_reason r \<noteq> E_Ok"
  by (cases r) simp_all

lemma no_placement_simps:
  "no_placement rid d e code detail st = (d', st') \<Longrightarrow>
     dc_outcome d' = DO_NoPlacement \<and> dc_failure d' = code \<and>
     st' = st\<lparr>ss_decisions := ss_decisions st',
       ss_requests := om_modify rid (refuse_request (dc_failure_detail d')) (ss_requests st)\<rparr>"
  by (auto simp: no_placement_def make_no_placement_decision_def Let_def)

lemma hd_sort_best:
  assumes "cands \<noteq> []"
  shows "hd (sort_by candidate_is_better cands) \<in> set cands"
    and "x \<in> set cands \<Longrightarrow> \<not> candidate_is_better x (hd (sort_by candidate_is_better cands))"
proof -
  let ?s = "sort_by candidate_is_better cands"
  have ne: "?s \<noteq> []" using assms by simp
  then show "hd ?s \<in> set cands" using hd_in_set [OF ne] by simp
  have "no_better candidate_is_better ?s" by (rule sort_by_no_better) (rule candidate_is_better_weak_order)
  moreover obtain y ys where s: "?s = y # ys" using ne by (cases ?s) auto
  ultimately have "\<forall>z\<in>set ys. \<not> candidate_is_better z y" by (simp add: no_better_def)
  moreover assume "x \<in> set cands"
  then have "x \<in> set (y # ys)" using s by (metis set_sort_by)
  ultimately show "\<not> candidate_is_better x (hd ?s)" using s by auto
qed

lemma schedule_locked_outcomes:
  assumes inv: "state_inv ids st" and cfg: "config_ok cfg" and ok: "request_ok req"
    and room: "ids_room ids"
  shows "refused rid st ids (schedule_locked cfg rid req gen rcount st ids) \<or>
    limited cfg st ids (schedule_locked cfg rid req gen rcount st ids) \<or>
    (\<exists>cand p v. placed cfg rid req gen rcount st ids (schedule_locked cfg rid req gen rcount st ids) cand p v)"
proof -
  let ?lim = "cfg_limits cfg" and ?plans = "build_plans st req (cfg_limits cfg)"
  let ?e = "(initial_explanation (ids + 1) req (plan_notes st req ?lim))\<lparr>
      ex_requirements := fill_requirement_explanations ?plans\<rparr>"
  let ?d = "empty_decision\<lparr>dc_id := ids + 1\<rparr>"
  let ?out = "run_search st req ?lim (map rp_candidates ?plans)"
  let ?e1 = "?e\<lparr>ex_notes := sort_by (<) (ex_notes ?e @ search_notes ?out)\<rparr>"
  have refuse: "refused rid st ids (Inr d', st', ids + 1)"
    if "no_placement rid ?d e (map_reject_reason r) detail st = (d', st')" for e r detail d' st'
    using no_placement_simps [OF that] map_reject_reason_error [of r] unfolding refused_def by metis
  show ?thesis
  proof (cases "blocked_plan ?plans")
    case (Some plan)
    obtain d' st' where n: "no_placement rid ?d ?e (map_reject_reason (dominant_reason (rp_reason_counts plan)))
        (blocked_detail plan) st = (d', st')" by fastforce
    with Some have "schedule_locked cfg rid req gen rcount st ids = (Inr d', st', ids + 1)"
      by (simp add: schedule_locked_def ids_next_def Let_def)
    with refuse [OF n] show ?thesis by simp
  next
    case None
    show ?thesis
    proof (cases "so_candidates ?out = []")
      case True
      obtain d' st' where n: "no_placement rid ?d ?e1 (map_reject_reason (dominant_reason (so_cross_rejections ?out)))
          (compound_detail (dominant_reason (so_cross_rejections ?out))) st = (d', st')" by fastforce
      with None True have "schedule_locked cfg rid req gen rcount st ids = (Inr d', st', ids + 1)"
        by (simp add: schedule_locked_def ids_next_def Let_def)
      with refuse [OF n] show ?thesis by simp
    next
      case False
      let ?cands = "sort_by candidate_is_better (so_candidates ?out)"
      have eq: "schedule_locked cfg rid req gen rcount st ids =
          commit_best cfg rid req gen rcount ?d ?e1 ?cands st (ids + 1)"
        using None False by (simp add: schedule_locked_def ids_next_def Let_def)
      have ch: "chosen st req ?lim (hd ?cands)"
        using hd_sort_best(1) [OF False] by (simp add: chosen_def)
      have best: "\<forall>other. chosen st req ?lim other \<longrightarrow> \<not> candidate_is_better other (hd ?cands)"
        using hd_sort_best(2) [OF False] by (simp add: chosen_def)
      show ?thesis
      proof (cases "status_ok (commit_limits ?lim st)")
        case limok: True
        have fit: "selection_fits st (rkc_selection (hd ?cands))"
          using chosen_fits [OF inv _ ok ch] cfg by (simp add: config_ok_def)
        have "ids \<le> ids + 1" using ids_room_steps(1) [OF room] by (simp add: word_le_nat_alt)
        with inv have inv1: "state_inv (ids + 1) st" by (rule state_inv_later)
        obtain d' p v decisions where run:
          "commit_best cfg rid req gen rcount ?d ?e1 ?cands st (ids + 1) =
            (Inr d', push_audit cfg ''placement.committed'' (placement_summary p)
              ((record_placement rid req p v (reserve_all (rkc_selection (hd ?cands)) (ss_resources st)) st)
                \<lparr>ss_decisions := decisions\<rparr>), ids + 1 + 1 + 1 + 1)"
          and com: "commits req st (ids + 1) gen rcount (rkc_selection (hd ?cands)) p v"
          and d: "dc_outcome d' = DO_Placed" "dc_placement d' = p" "dc_failure d' = E_Ok"
          "dc_authority d' = make_authority p"
          by (rule commit_best_ok [OF inv1 fit chosen_facts(1) [OF ch] limok])
        have "placed cfg rid req gen rcount st ids
            (schedule_locked cfg rid req gen rcount st ids) (hd ?cands) p v"
          unfolding placed_def eq run using com d ch best by blast
        then show ?thesis by blast
      next
        case False
        then have "limited cfg st ids (schedule_locked cfg rid req gen rcount st ids)"
          unfolding eq limited_def by (simp add: commit_best_def Let_def)
        then show ?thesis by blast
      qed
    qed
  qed
qed

lemma fresh_ids:
  assumes "state_inv ids st" and "ids < i"
  shows "map_of (ss_placements st) i = None" and "map_of (ss_reservations st) i = None"
proof -
  have "\<not> i \<le> ids" using assms(2) by simp
  with assms(1) show "map_of (ss_placements st) i = None" "map_of (ss_reservations st) i = None"
    unfolding state_inv_def ids_inv_def by blast+
qed

lemma placed_inv:
  assumes inv: "state_inv ids st" and cfg: "config_ok cfg" and ok: "request_ok req"
    and room: "ids_room ids" and known: "map_of (ss_requests st) (sr_id req) \<noteq> None"
    and pl: "placed cfg rid req gen rcount st ids (r, st', ids') cand p v"
  shows "state_inv ids' st'"
proof -
  from pl obtain decisions where
    st': "st' = push_audit cfg ''placement.committed'' (placement_summary p)
      ((record_placement rid req p v (reserve_all (rkc_selection cand) (ss_resources st)) st)
        \<lparr>ss_decisions := decisions\<rparr>)"
    and ids': "ids' = ids + 1 + 1 + 1 + 1"
    and c: "commits req st (ids + 1) gen rcount (rkc_selection cand) p v"
    and ch: "chosen st req (cfg_limits cfg) cand"
    by (auto simp: placed_def)
  note facts = commits_facts [OF c chosen_facts(1) [OF ch]]
  note steps = ids_room_steps [OF room]
  have fit: "selection_fits st (rkc_selection cand)"
    using chosen_fits [OF inv _ ok ch] cfg by (simp add: config_ok_def)
  have "ids < pl_id p" "ids < rv_id v" "pl_id p \<le> ids'" "rv_id v \<le> ids'" "ids \<le> ids'"
    using steps facts(7,8) by (simp_all add: word_less_nat_alt word_le_nat_alt ids')
  then have "state_inv ids' (record_placement rid req p v
      (reserve_all (rkc_selection cand) (ss_resources st)) st)"
    using known facts(9)
    by (intro state_inv_record_placement [OF inv fit facts(1,2,3,5,6) fresh_ids(1) [OF inv] fresh_ids(2) [OF inv]
        _ _ _ _ facts(10)]) simp_all
  then show ?thesis unfolding st' by (simp add: state_inv_def)
qed

lemma schedule_locked_inv:
  assumes inv: "state_inv ids st" and cfg: "config_ok cfg" and ok: "request_ok req"
    and room: "ids_room ids" and known: "map_of (ss_requests st) (sr_id req) \<noteq> None"
    and run: "schedule_locked cfg rid req gen rcount st ids = (r, st', ids')"
  shows "state_inv ids' st'"
proof -
  have later: "state_inv (ids + 1) st"
    using ids_room_steps(1) [OF room] by (intro state_inv_later [OF inv]) (simp add: word_le_nat_alt)
  from schedule_locked_outcomes [OF inv cfg ok room, of rid gen rcount] run
  consider "refused rid st ids (r, st', ids')" | "limited cfg st ids (r, st', ids')"
    | cand p v where "placed cfg rid req gen rcount st ids (r, st', ids') cand p v"
    by metis
  then show ?thesis
  proof cases
    case 1
    have "state_inv (ids + 1) (st\<lparr>ss_requests := om_modify rid (refuse_request detail) (ss_requests st)\<rparr>)" for detail
      by (rule state_inv_modify_request [OF later]) (simp add: refuse_request_def)
    with 1 show ?thesis by (auto simp: refused_def state_inv_def)
  next
    case 2
    with later show ?thesis by (simp add: limited_def)
  next
    case 3
    then show ?thesis by (rule placed_inv [OF inv cfg ok room known])
  qed
qed

end
