(* ===== verification/EngineSteps.thy ===== *)
theory EngineSteps
  imports ScheduleInv
begin

text \<open>
  Every public operation that changes the engine keeps the ledger invariant, and with it the
  reachable engines: a step relation with one rule per operation, a locale for transition systems
  with an invariant and its interpretation on the engine. The only side conditions are room in the
  identity generator and, for the import of a durable image, selections as the engine writes them.
\<close>

section \<open>Workers\<close>

lemma fold_keeps:
  assumes "\<And>x s. P s \<Longrightarrow> P (f x s)" and "P s"
  shows "P (fold f xs s)"
  using assms(2) by (induction xs arbitrary: s) (simp_all add: assms(1))

lemma map_of_lose_resources:
  "map_of (lose_resources w b m) k =
     map_option (\<lambda>r. if incarnation_holds w b r then lose_incarnation r else r) (map_of m k)"
  by (induction m) (auto simp: lose_resources_def)

lemma fst_lose_resources [simp]: "map fst (lose_resources w b m) = map fst m"
  by (induction m) (auto simp: lose_resources_def)

lemma lose_incarnation_simps [simp]:
  "res_id (lose_incarnation r) = res_id r"
  "res_reserved_slots (lose_incarnation r) = res_reserved_slots r"
  "res_capacity (lose_incarnation r) = res_capacity r"
  "res_advertised_occupancy (lose_incarnation r) = res_advertised_occupancy r"
  "res_lifecycle (lose_incarnation r) = RL_Lost"
  "\<not> res_dynamic_authoritative (lose_incarnation r)"
  "res_worker (lose_incarnation r) = res_worker r"
  "res_boot (lose_incarnation r) = res_boot r"
  by (simp_all add: lose_incarnation_def)

lemma state_inv_lose:
  assumes "state_inv ids st"
  shows "state_inv ids (st\<lparr>ss_resources := lose_resources w b (ss_resources st)\<rparr>)"
  using assms
proof (rule state_inv_resources)
  have "om_wf (ss_resources st)" using assms by (simp add: state_inv_def resources_inv_def keyed_def)
  then show "om_wf (lose_resources w b (ss_resources st))" by (simp add: om_wf_def)
  show "same_dom (ss_resources st) (lose_resources w b (ss_resources st))"
    by (simp add: same_dom_def map_of_lose_resources)
  show "res_id r' = res_id r \<and> res_reserved_slots r' = res_reserved_slots r \<and> resource_ok r'"
    if "map_of (ss_resources st) k = Some r"
      "map_of (lose_resources w b (ss_resources st)) k = Some r'" "resource_ok r" for k r r'
    using that by (auto simp: map_of_lose_resources resource_ok_def split: if_splits)
qed

lemma state_inv_workers:
  assumes "state_inv ids st" and "\<And>w. wk_id (f w) = wk_id w"
  shows "state_inv ids (st\<lparr>ss_workers := om_modify k f (ss_workers st)\<rparr>)"
  using assms by (simp add: state_inv_def keyed_modify)

lemma invalidate_step_state:
  "fst (invalidate_placement_step w b affected pid (st, report)) = st \<or>
   fst (invalidate_placement_step w b affected pid (st, report)) =
     terminate_placement pid PL_ReassignmentRequired lost_placement_detail st"
  by (auto simp: invalidate_placement_step_def Let_def split: option.split)

lemma state_inv_invalidate_step:
  "state_inv ids (fst s) \<Longrightarrow> state_inv ids (fst (invalidate_placement_step w b affected pid s))"
  using invalidate_step_state [of w b affected pid "fst s" "snd s"]
  by (auto simp: state_inv_terminate)

lemma state_inv_invalidate:
  assumes "state_inv ids st"
  shows "state_inv ids (fst (invalidate_worker_incarnation cfg w b detail st))"
proof -
  let ?st1 = "st\<lparr>ss_resources := lose_resources w b (ss_resources st)\<rparr>"
  have "state_inv ids (fst (fold (invalidate_placement_step w b affected) pids (?st1, report)))"
    for affected pids report
    by (rule fold_keeps [where P = "\<lambda>s. state_inv ids (fst s)"])
      (use state_inv_invalidate_step state_inv_lose [OF assms] in auto)
  moreover have "wk_id (disconnect_worker b detail u) = wk_id u" for u
    by (simp add: disconnect_worker_def)
  ultimately show ?thesis
    by (auto simp: invalidate_worker_incarnation_def Let_def case_prod_beta intro!: state_inv_workers)
qed

lemma state_inv_emplace_worker:
  assumes "state_inv ids st" and "wk_id w = k"
  shows "state_inv ids (st\<lparr>ss_worker_sequence := n, ss_workers := om_emplace k w (ss_workers st)\<rparr>)"
  using assms by (simp add: state_inv_def keyed_emplace)

lemma state_inv_adopt:
  assumes "state_inv ids st"
  shows "state_inv ids (fst (adopt_worker_incarnation cfg w b detail st))"
proof (cases "map_of (ss_workers st) w")
  case None
  with state_inv_emplace_worker [OF assms] show ?thesis
    by (simp add: adopt_worker_incarnation_def Let_def)
next
  case (Some u)
  show ?thesis
  proof (cases "wk_boot u = b")
    case True
    with Some state_inv_workers [OF assms] show ?thesis by (simp add: adopt_worker_incarnation_def)
  next
    case False
    obtain st1 report where i: "invalidate_worker_incarnation cfg w (wk_boot u) detail st = (st1, report)"
      by fastforce
    with state_inv_invalidate [OF assms, of cfg w "wk_boot u" detail] have "state_inv ids st1" by simp
    with i Some False show ?thesis
      by (auto simp: adopt_worker_incarnation_def Let_def state_inv_def intro!: keyed_modify)
  qed
qed

section \<open>Operations\<close>

text \<open>What is proved of every operation: the configuration stays and the invariant is kept.\<close>

definition keeps_inv :: "engine \<Rightarrow> engine \<Rightarrow> bool" where
  "keeps_inv e e' \<longleftrightarrow> eng_config e' = eng_config e \<and> (engine_inv e \<longrightarrow> engine_inv e')"

lemma keeps_inv_refl [simp]: "keeps_inv e e"
  by (simp add: keeps_inv_def)

lemma keeps_inv_state:
  "(\<And>ids. state_inv ids (eng_state e) \<Longrightarrow> state_inv ids st) \<Longrightarrow> keeps_inv e (e\<lparr>eng_state := st\<rparr>)"
  by (simp add: keeps_inv_def engine_inv_def)

lemma keeps_adopt_epoch: "keeps_inv e (snd (adopt_epoch epoch e))"
  by (auto simp: adopt_epoch_def Let_def state_inv_def intro!: keeps_inv_state)

lemma keeps_begin_shutdown: "keeps_inv e (snd (begin_shutdown e))"
  by (auto simp: begin_shutdown_def Let_def state_inv_def intro!: keeps_inv_state)

lemma keeps_worker_connected: "keeps_inv e (snd (worker_connected w b e))"
  using state_inv_adopt [of _ "eng_state e" "eng_config e" w b "''worker connected''"]
  by (auto simp: worker_connected_def Let_def case_prod_beta intro!: keeps_inv_state)

lemma keeps_mark_worker_lost: "keeps_inv e (snd (mark_worker_lost w b detail e))"
  using state_inv_invalidate [of _ "eng_state e" "eng_config e" w b detail]
  by (auto simp: mark_worker_lost_def Let_def case_prod_beta split: option.split intro!: keeps_inv_state)

lemma registered_record_ok:
  assumes "status_ok (validate_advertisement lim a)"
  shows "resource_ok (registered_record epoch (normalize_advertisement a))"
proof -
  have "status_ok (validate_advertisement lim (normalize_advertisement a))"
    using assms by (simp add: validate_normalize)
  from validate_advertisement_capacity [OF this] show ?thesis
    by (simp add: resource_ok_def word_le_nat_alt)
qed

lemma ss_resources_adopt_dom:
  "map_of (ss_resources st) k = None \<Longrightarrow>
     map_of (ss_resources (fst (adopt_worker_incarnation cfg w b detail st))) k = None"
proof -
  assume none: "map_of (ss_resources st) k = None"
  have rel: "map_of (release_claims cs m) k = None" if "map_of m k = None" for cs m
    using that
  proof (induction cs arbitrary: m)
    case (Cons c cs)
    then have "map_of (om_modify (cl_resource c) (release_claim_slots (cl_slots c)) m) k = None"
      by (auto simp: map_of_om_modify)
    from Cons.IH [OF this] show ?case by simp
  qed simp
  have res: "map_of (ss_resources (snd (release_reservation i t d s))) k = None"
    if "map_of (ss_resources s) k = None" for i t d s
    using that rel by (simp add: release_reservation_def split: option.split)
  have ended: "map_of (ss_resources (terminate_placement pid t d s)) k = None"
    if "map_of (ss_resources s) k = None" for pid t d s
    using that by (simp add: terminate_placement_def Let_def revoke_reservation_def res split: option.split)
  have step: "map_of (ss_resources (fst (invalidate_placement_step w b' af pid s))) k = None"
    if "map_of (ss_resources (fst s)) k = None" for b' af pid s
    using that invalidate_step_state [of w b' af pid "fst s" "snd s"] ended by auto
  have inval: "map_of (ss_resources (fst (invalidate_worker_incarnation cfg w b' detail st))) k = None" for b'
  proof -
    have "map_of (ss_resources (fst (fold (invalidate_placement_step w b' af) pids
        (st\<lparr>ss_resources := lose_resources w b' (ss_resources st)\<rparr>, report)))) k = None" for af pids report
      by (rule fold_keeps [where P = "\<lambda>s. map_of (ss_resources (fst s)) k = None"])
        (use step none in \<open>simp_all add: map_of_lose_resources\<close>)
    then show ?thesis by (simp add: invalidate_worker_incarnation_def Let_def case_prod_beta)
  qed
  show ?thesis
    using none inval
    by (auto simp: adopt_worker_incarnation_def Let_def case_prod_beta split: option.split)
qed

lemma keeps_register_resource: "keeps_inv e (snd (register_resource a e))"
proof (cases "engine_inv e")
  case False
  then show ?thesis by (auto simp: keeps_inv_def register_resource_def Let_def)
next
  case True
  let ?n = "normalize_advertisement a" and ?cfg = "eng_config e" and ?st = "eng_state e"
  let ?st1 = "if adv_worker ?n \<noteq> 0 then fst (adopt_worker_incarnation ?cfg (adv_worker ?n) (adv_boot ?n)
      ''resource registration'' ?st) else ?st"
  show ?thesis
  proof (cases "status_ok (validate_advertisement (cfg_limits ?cfg) a) \<and>
      map_of (ss_resources ?st) (adv_id ?n) = None")
    case valid: True
    have inv1: "state_inv (eng_ids e) ?st1" using True by (auto simp: engine_inv_def state_inv_adopt)
    have none: "map_of (ss_resources ?st1) (adv_id ?n) = None" using valid ss_resources_adopt_dom by auto
    have "state_inv (eng_ids e) (?st1\<lparr>ss_resources := om_emplace (res_id (registered_record epoch ?n))
        (registered_record epoch ?n) (ss_resources ?st1)\<rparr>)" for epoch
      by (rule state_inv_emplace_resource [OF inv1]) (use none valid registered_record_ok in auto)
    with valid True inv1 registered_record_valid show ?thesis
      by (simp add: keeps_inv_def register_resource_def Let_def engine_inv_def)
  next
    case False
    then show ?thesis by (auto simp: register_resource_def Let_def)
  qed
qed

lemma published_record_ok:
  assumes "status_ok (validate_advertisement lim a)"
    and "\<not> (ucast (rcap_slots (adv_capacity a)) :: u64) < ucast (adv_current_occupancy a) + ucast (res_reserved_slots r)"
  shows "resource_ok (published_record epoch a r)"
  using validate_advertisement_capacity(1) [OF assms(1)] assms(2)
  unfolding occupancy_guard_iff by (simp add: resource_ok_def)

lemma state_inv_publish_live:
  assumes inv: "state_inv ids st" and valid: "status_ok (validate_advertisement (cfg_limits cfg) a)"
  shows "state_inv ids (snd (publish_live cfg a st))"
proof (cases "map_of (ss_resources st) (adv_id a)")
  case None
  with inv show ?thesis by (simp add: publish_live_def)
next
  case (Some live)
  have "res_id live = adv_id a"
    using inv Some by (simp add: state_inv_def resources_inv_def keyed_def)
  with Some have "state_inv ids (st\<lparr>ss_resources :=
      om_modify (adv_id a) (\<lambda>_. published_record (ss_epoch st) a live) (ss_resources st)\<rparr>)"
    if "\<not> (ucast (rcap_slots (adv_capacity a)) :: u64) < ucast (adv_current_occupancy a) + ucast (res_reserved_slots live)"
    by (intro state_inv_modify_resource [OF inv]) (simp add: published_record_ok [OF valid that])
  with Some inv show ?thesis by (simp add: publish_live_def Let_def)
qed

lemma keeps_publish_resource_state: "keeps_inv e (snd (publish_resource_state a e))"
proof (cases "status_ok (validate_advertisement (cfg_limits (eng_config e)) a)")
  case True
  then have v: "status_ok (validate_advertisement (cfg_limits (eng_config e)) (normalize_advertisement a))"
    by (simp add: validate_normalize)
  have "state_inv ids (snd (publish_live (eng_config e) (normalize_advertisement a)
      (fst (adopt_worker_incarnation (eng_config e) w boot d (eng_state e)))))"
    "state_inv ids (snd (publish_live (eng_config e) (normalize_advertisement a) (eng_state e)))"
    if "state_inv ids (eng_state e)" for ids w boot d
    by (rule state_inv_publish_live [OF _ v], simp add: that state_inv_adopt)+
  then show ?thesis
    unfolding publish_resource_state_def Let_def case_prod_beta
    by (auto split: option.split intro!: keeps_inv_state)
qed (simp add: publish_resource_state_def Let_def)

lemma keeps_retire_resource: "keeps_inv e (snd (retire_resource i g e))"
proof (cases "map_of (ss_resources (eng_state e)) i")
  case (Some r)
  have "state_inv ids ((eng_state e)\<lparr>ss_resources := om_modify i retire_record (ss_resources (eng_state e))\<rparr>)"
    if "state_inv ids (eng_state e)" "res_reserved_slots r = 0" for ids
    by (rule state_inv_modify_resource [OF that(1)]) (use Some that(2) in \<open>simp add: resource_ok_def\<close>)
  with Some show ?thesis by (auto simp: retire_resource_def Let_def intro!: keeps_inv_state)
qed (simp add: retire_resource_def Let_def)

section \<open>Lifecycle operations\<close>

text \<open>A live placement that moves to another live state.\<close>

lemma state_inv_progress:
  assumes inv: "state_inv ids st" and p: "map_of (ss_placements st) pid = Some p"
    and live: "placement_state_is_live (pl_state p)" "placement_state_is_live target"
  shows "state_inv ids (st\<lparr>ss_transition_sequence := seqn,
    ss_placements := om_modify pid (progress_record target detail seqn) (ss_placements st)\<rparr>)"
proof -
  let ?ps' = "om_modify pid (progress_record target detail seqn) (ss_placements st)"
  have same: "\<exists>q'. map_of ?ps' k = Some q' \<and> pl_id q' = pl_id q \<and> pl_resources q' = pl_resources q \<and>
      pl_request q' = pl_request q \<and> pl_reservation q' = pl_reservation q \<and> pl_generation q' = pl_generation q \<and>
      placement_unit q' = placement_unit q \<and>
      placement_state_is_live (pl_state q') = placement_state_is_live (pl_state q)"
    if "map_of (ss_placements st) k = Some q" for k q
    using that p live by (auto simp: map_of_om_modify progress_record_def placement_unit_def)
  have old: "\<exists>q. map_of (ss_placements st) k = Some q" if "map_of ?ps' k = Some q'" for k q'
    using that by (auto simp: map_of_om_modify split: if_splits)
  from inv have i: "reservations_inv (ss_resources st) (ss_placements st) (ss_reservations st)"
    "placements_inv (ss_resources st) (ss_requests st) (ss_reservations st) (ss_placements st)"
    "units_inv (ss_placements st) (ss_unit_current st)"
    "ids_inv ids (ss_placements st) (ss_reservations st)"
    by (simp_all add: state_inv_def)
  have "backs ?ps' v" if b: "backs (ss_placements st) v" for v
  proof -
    from b obtain q where q: "map_of (ss_placements st) (rv_placement v) = Some q"
      "rv_state v = RV_Active \<longrightarrow> placement_state_is_live (pl_state q) \<and> pl_reservation q = rv_id v \<and>
        pl_generation q = rv_placement_generation v" by (auto simp: backs_def)
    from same [OF q(1)] q(2) show ?thesis by (auto simp: backs_def)
  qed
  with i(1) have "reservations_inv (ss_resources st) ?ps' (ss_reservations st)"
    by (simp add: reservations_inv_def)
  moreover have "placements_inv (ss_resources st) (ss_requests st) (ss_reservations st) ?ps'"
    unfolding placements_inv_def
  proof (intro conjI allI impI)
    show "keyed pl_id ?ps'"
      using i(2) by (intro keyed_modify) (simp_all add: placements_inv_def progress_record_def)
    fix k q'
    assume q': "map_of ?ps' k = Some q'"
    then obtain q where q: "map_of (ss_placements st) k = Some q" using old by blast
    from same [OF q] q' have e: "pl_id q' = pl_id q" "pl_resources q' = pl_resources q"
      "pl_request q' = pl_request q" "pl_reservation q' = pl_reservation q" "pl_generation q' = pl_generation q"
      "placement_state_is_live (pl_state q') = placement_state_is_live (pl_state q)" by auto
    from i(2) q have "placement_ok (ss_resources st) (ss_requests st) q"
      "placement_state_is_live (pl_state q) \<longrightarrow> backed (ss_reservations st) q"
      by (simp_all add: placements_inv_def)
    with e show "placement_ok (ss_resources st) (ss_requests st) q'"
      "placement_state_is_live (pl_state q') \<Longrightarrow> backed (ss_reservations st) q'"
      by (simp_all add: placement_ok_def backed_def)
  qed
  moreover have "units_inv ?ps' (ss_unit_current st)"
    using i(3) same unfolding units_inv_def by metis
  moreover have "ids_inv ids ?ps' (ss_reservations st)"
    using i(4) by (simp add: ids_inv_def map_of_om_modify)
  ultimately show ?thesis using inv by (simp add: state_inv_def)
qed

lemma keeps_progress:
  assumes "placement_state_is_live target"
  shows "keeps_inv e (snd (progress_placement rej target detail kind pid g epoch b e))"
proof (cases "map_of (ss_placements (eng_state e)) pid")
  case (Some p)
  have "placement_state_is_live (pl_state p)" if "status_ok (progress_checks rej g b p)"
    using that by (auto simp: progress_checks_def split: if_splits)
  with Some show ?thesis
    by (auto simp: progress_placement_def Let_def assms intro!: keeps_inv_state state_inv_progress)
qed (simp add: progress_placement_def Let_def)

lemma keeps_mark_assigned: "keeps_inv e (snd (mark_assigned pid g epoch b e))"
  by (simp add: mark_assigned_def keeps_progress)

lemma keeps_mark_running: "keeps_inv e (snd (mark_running pid g epoch b e))"
  by (simp add: mark_running_def keeps_progress)

lemma not_live_status_error: "\<not> status_ok (not_live_status s)"
  by (cases s) simp_all

lemma completion_authority_live:
  "status_ok (completion_authority st claim p) \<Longrightarrow> placement_state_is_live (pl_state p)"
  by (auto simp: completion_authority_def not_live_status_error split: if_splits)

text \<open>Completion marks the record and then terminates it; the mark touches no ledger field.\<close>

lemma state_inv_record_completion:
  assumes inv: "state_inv ids st"
  shows "state_inv ids (st\<lparr>ss_placements := om_modify pid (record_completion d) (ss_placements st)\<rparr>)"
proof -
  let ?ps' = "om_modify pid (record_completion d) (ss_placements st)"
  have m: "map_of ?ps' k = map_option (\<lambda>q. if k = pid then record_completion d q else q)
      (map_of (ss_placements st) k)" for k
    by (cases "map_of (ss_placements st) k") (auto simp: map_of_om_modify)
  have f: "pl_id (record_completion d q) = pl_id q" "pl_state (record_completion d q) = pl_state q"
    "pl_resources (record_completion d q) = pl_resources q" "pl_request (record_completion d q) = pl_request q"
    "pl_reservation (record_completion d q) = pl_reservation q"
    "pl_generation (record_completion d q) = pl_generation q"
    "placement_unit (record_completion d q) = placement_unit q" for q
    by (simp_all add: record_completion_def placement_unit_def)
  from inv have i: "reservations_inv (ss_resources st) (ss_placements st) (ss_reservations st)"
    "placements_inv (ss_resources st) (ss_requests st) (ss_reservations st) (ss_placements st)"
    "units_inv (ss_placements st) (ss_unit_current st)"
    "ids_inv ids (ss_placements st) (ss_reservations st)"
    by (simp_all add: state_inv_def)
  have "backs ?ps' v" if b: "backs (ss_placements st) v" for v
  proof -
    from b obtain q where "map_of (ss_placements st) (rv_placement v) = Some q"
      "rv_state v = RV_Active \<longrightarrow> placement_state_is_live (pl_state q) \<and> pl_reservation q = rv_id v \<and>
        pl_generation q = rv_placement_generation v" by (auto simp: backs_def)
    with m [of "rv_placement v"] show ?thesis
      unfolding backs_def by (cases "rv_placement v = pid") (simp_all add: f)
  qed
  with i(1) have "reservations_inv (ss_resources st) ?ps' (ss_reservations st)"
    by (simp add: reservations_inv_def)
  moreover have "keyed pl_id ?ps'"
    using i(2) by (intro keyed_modify) (simp_all add: placements_inv_def f)
  then have "placements_inv (ss_resources st) (ss_requests st) (ss_reservations st) ?ps'"
    using i(2) by (auto simp: placements_inv_def m f placement_ok_def backed_def)
  moreover have "units_inv ?ps' (ss_unit_current st)"
    unfolding units_inv_def
  proof (intro conjI allI impI)
    show "om_wf (ss_unit_current st)" using i(3) by (simp add: units_inv_def)
    fix u k
    assume "map_of (ss_unit_current st) u = Some k"
    with i(3) obtain q where "map_of (ss_placements st) k = Some q"
      "placement_state_is_live (pl_state q)" "placement_unit q = u" by (auto simp: units_inv_def)
    with m [of k] show "\<exists>q. map_of ?ps' k = Some q \<and> placement_state_is_live (pl_state q) \<and>
        placement_unit q = u"
      by (cases "k = pid") (simp_all add: f)
  qed
  moreover have "ids_inv ids ?ps' (ss_reservations st)" using i(4) by (simp add: ids_inv_def m)
  ultimately show ?thesis using inv by (simp add: state_inv_def)
qed

lemma state_inv_complete: "state_inv ids st \<Longrightarrow> state_inv ids (complete_placement claim st)"
  by (simp add: complete_placement_def state_inv_terminate state_inv_record_completion)

lemma keeps_report_completion: "keeps_inv e (snd (report_completion claim e))"
  by (auto simp: report_completion_def Let_def split: option.split intro!: keeps_inv_state state_inv_complete)

lemma keeps_cancel_placement: "keeps_inv e (snd (cancel_placement pid g epoch reason e))"
  by (auto simp: cancel_placement_def Let_def split: option.split intro!: keeps_inv_state state_inv_terminate)

lemma state_inv_cancel_step:
  "state_inv ids (fst s) \<Longrightarrow> state_inv ids (fst (cancel_request_step rid reason pid s))"
  by (cases s) (auto simp: cancel_request_step_def state_inv_terminate split: option.split)

lemma keeps_cancel_request: "keeps_inv e (snd (cancel_request rid reason e))"
proof -
  have "state_inv ids (fst (fold (cancel_request_step rid reason) pids (eng_state e, report)))"
    if "state_inv ids (eng_state e)" for ids pids report
    by (rule fold_keeps [where P = "\<lambda>s. state_inv ids (fst s)"]) (use state_inv_cancel_step that in auto)
  then show ?thesis
    by (auto simp: cancel_request_def Let_def cancel_stored_def case_prod_beta
        intro!: keeps_inv_state state_inv_modify_request)
qed

section \<open>Scheduling operations\<close>

lemma request_ok_validated:
  "status_ok (validate_schedule_request lim req) \<Longrightarrow> request_ok req"
  using validate_request_facts [of lim req] by (simp add: request_ok_def)

lemma state_inv_store_request:
  assumes "state_inv ids st" and "request_ok req"
  shows "state_inv ids (store_request cfg req st)"
proof -
  let ?s = "\<lparr>st_request = req, st_state = RQ_Submitted, st_submitted_sequence = ss_request_sequence st + 1,
      st_current_placement = 0, st_placement_count = 0, st_detail = ''submitted''\<rparr>"
  from state_inv_emplace_request [OF assms(1), of ?s] assms(2)
  have "state_inv ids (st\<lparr>ss_requests := om_emplace (sr_id req) ?s (ss_requests st)\<rparr>)" by simp
  then show ?thesis by (simp add: store_request_def Let_def state_inv_def)
qed

lemma store_request_known:
  "om_wf (ss_requests st) \<Longrightarrow> map_of (ss_requests (store_request cfg req st)) (sr_id req) \<noteq> None"
  by (simp add: store_request_def Let_def map_of_om_emplace)

lemma keeps_submit_request:
  assumes room: "ids_room (eng_ids e)"
  shows "keeps_inv e (snd (submit_request request e))"
proof (cases "engine_inv e \<and> status_ok (submit_checks (cfg_limits (eng_config e))
    (normalize_schedule_request request) (eng_state e))")
  case True
  let ?req = "normalize_schedule_request request" and ?st = "eng_state e"
  from True have ok: "request_ok ?req"
    by (auto simp: submit_checks_def intro: request_ok_validated)
  from True have inv: "config_ok (eng_config e)" "state_inv (eng_ids e) ?st" by (simp_all add: engine_inv_def)
  have wf: "om_wf (ss_requests ?st)" using inv(2) by (simp add: state_inv_def requests_inv_def keyed_def)
  obtain d st' ids' where run: "schedule_locked (eng_config e) (sr_id ?req) ?req 0 0
      (store_request (eng_config e) ?req ?st) (eng_ids e) = (d, st', ids')"
    by (cases "schedule_locked (eng_config e) (sr_id ?req) ?req 0 0
      (store_request (eng_config e) ?req ?st) (eng_ids e)") auto
  have "state_inv ids' st'"
    by (rule schedule_locked_inv [OF state_inv_store_request [OF inv(2) ok] inv(1) ok room
          store_request_known [OF wf] run])
  with True run inv show ?thesis
    by (simp add: keeps_inv_def submit_request_def Let_def engine_inv_def)
next
  case False
  then show ?thesis
    by (auto simp: keeps_inv_def submit_request_def Let_def split: prod.split)
qed

lemma stored_request_facts:
  assumes "state_inv ids st" and "map_of (ss_requests st) k = Some s"
  shows "sr_id (st_request s) = k" and "request_ok (st_request s)"
  using assms by (simp_all add: state_inv_def requests_inv_def keyed_def)

lemma reschedule_inv:
  assumes inv: "state_inv ids st" and cfg: "config_ok cfg" and room: "ids_room ids"
    and s: "map_of (ss_requests st) (pl_request p) = Some stored"
    and run: "reschedule cfg p stored st' ids = (r, st2, ids')"
    and st': "state_inv ids st'" "map_of (ss_requests st') (pl_request p) \<noteq> None"
  shows "state_inv ids' st2"
  using schedule_locked_inv [OF st'(1) cfg _ room _ run [unfolded reschedule_def]]
    stored_request_facts [OF inv s] st'(2) by simp

lemma keeps_reassign_recorded:
  assumes inv: "engine_inv e" and room: "ids_room (eng_ids e)" and st: "state_inv (eng_ids e) st"
  shows "eng_config (snd (reassign_recorded p report st e)) = eng_config e \<and>
    engine_inv (snd (reassign_recorded p report st e))"
proof (cases "map_of (ss_requests st) (pl_request p)")
  case None
  with inv st show ?thesis by (simp add: reassign_recorded_def engine_inv_def)
next
  case (Some stored)
  have cfg: "config_ok (eng_config e)" using inv by (simp add: engine_inv_def)
  obtain r st2 ids' where run: "reschedule (eng_config e) p stored st (eng_ids e) = (r, st2, ids')"
    by (cases "reschedule (eng_config e) p stored st (eng_ids e)") auto
  have "state_inv ids' st2"
    by (rule reschedule_inv [OF st cfg room Some run st]) (simp add: Some)
  with inv st run Some cfg show ?thesis
    by (simp add: reassign_recorded_def engine_inv_def Let_def split: sum.split)
qed

lemma keeps_reassign_placement:
  assumes room: "ids_room (eng_ids e)"
  shows "engine_inv e \<Longrightarrow> engine_inv (snd (reassign_placement pid g epoch reason e))"
proof -
  assume inv: "engine_inv e"
  then have st: "state_inv (eng_ids e) (eng_state e)" by (simp add: engine_inv_def)
  then have "state_inv (eng_ids e) (terminate_placement pid PL_ReassignmentRequired d (eng_state e))" for d
    by (rule state_inv_terminate) simp
  with keeps_reassign_recorded [OF inv room] st inv show ?thesis
    by (auto simp: reassign_placement_def Let_def split: option.split)
qed

lemma keeps_preempt_terminated:
  assumes inv: "engine_inv e" and room: "ids_room (eng_ids e)" and st: "state_inv (eng_ids e) st"
  shows "engine_inv (snd (preempt_terminated p reason report st e))"
proof (cases "map_of (ss_requests st) (pl_request p)")
  case None
  with inv st show ?thesis by (simp add: preempt_terminated_def engine_inv_def)
next
  case (Some stored)
  have cfg: "config_ok (eng_config e)" using inv by (simp add: engine_inv_def)
  let ?st1 = "st\<lparr>ss_requests := om_modify (pl_request p) (\<lambda>s. s\<lparr>st_state := RQ_Submitted\<rparr>) (ss_requests st)\<rparr>"
  have st1: "state_inv (eng_ids e) ?st1" by (rule state_inv_modify_request [OF st]) simp
  obtain r st2 ids' where run: "reschedule (eng_config e) p stored ?st1 (eng_ids e) = (r, st2, ids')"
    by (cases "reschedule (eng_config e) p stored ?st1 (eng_ids e)") auto
  have "state_inv ids' st2"
    by (rule reschedule_inv [OF st cfg room Some run st1]) (simp add: Some map_of_om_modify)
  with inv st1 run Some cfg show ?thesis
    by (simp add: preempt_terminated_def engine_inv_def Let_def split: sum.split)
qed

lemma keeps_preempt_placement:
  assumes room: "ids_room (eng_ids e)"
  shows "engine_inv e \<Longrightarrow> engine_inv (snd (preempt_placement pid g epoch reason e))"
proof -
  assume inv: "engine_inv e"
  then have st: "state_inv (eng_ids e) (eng_state e)" by (simp add: engine_inv_def)
  then have "state_inv (eng_ids e) (terminate_placement pid PL_Preempted d (eng_state e))" for d
    by (rule state_inv_terminate) simp
  with keeps_preempt_terminated [OF inv room] st inv show ?thesis
    by (auto simp: preempt_placement_def Let_def split: option.split)
qed

end
