(* ===== verification/RecoveryInv.thy ===== *)
theory RecoveryInv
  imports EngineSteps
begin

text \<open>
  What the validation of a durable image guarantees, and what the engine looks like after it
  imported one: the tables hold exactly the recovered records, nothing is live or reserved, and
  the ledger invariant holds again.
\<close>

section \<open>What validation guarantees\<close>

lemma insert_unique_ok [simp]:
  "status_ok (insert_unique k what seen i) = (i \<noteq> 0 \<and> i \<notin> set seen)"
  by (simp add: insert_unique_def corrupt_def)

lemma durable_resources_ok:
  "status_ok (durable_resources lim seen rs) \<Longrightarrow>
     distinct (map res_id rs) \<and> set (map res_id rs) \<inter> set seen = {} \<and>
     (\<forall>r\<in>set rs. res_id r \<noteq> 0 \<and> status_ok (validate_resource_record lim r))"
  by (induction lim seen rs rule: durable_resources.induct) auto

lemma durable_requests_ok:
  "status_ok (durable_requests lim seen ss) \<Longrightarrow>
     distinct (map (sr_id \<circ> st_request) ss) \<and> set (map (sr_id \<circ> st_request) ss) \<inter> set seen = {} \<and>
     (\<forall>s\<in>set ss. status_ok (validate_schedule_request lim (st_request s)))"
  by (induction lim seen ss rule: durable_requests.induct) auto

lemma durable_placement_ok:
  "status_ok (durable_placement rids qids seen p) \<longleftrightarrow>
     pl_id p \<noteq> 0 \<and> pl_id p \<notin> set seen \<and> pl_generation p \<noteq> 0 \<and> pl_request p \<in> set qids \<and>
     pl_resources p \<noteq> [] \<and>
     (\<forall>s\<in>set (pl_resources p). sel_resource s \<in> set rids \<and> sel_generation s \<noteq> 0)"
  by (auto simp: durable_placement_def durable_selected_def list_all_iff)

lemma durable_placements_ok:
  "status_ok (durable_placements rids qids seen ps) \<Longrightarrow>
     distinct (map pl_id ps) \<and> set (map pl_id ps) \<inter> set seen = {} \<and>
     (\<forall>p\<in>set ps. pl_request p \<in> set qids \<and> pl_resources p \<noteq> [] \<and>
        (\<forall>s\<in>set (pl_resources p). sel_resource s \<in> set rids))"
  by (induction rids qids seen ps rule: durable_placements.induct) (auto simp: durable_placement_ok)

lemma durable_claims_ok:
  "status_ok (fst (durable_claims caps active cs totals)) \<Longrightarrow>
     \<forall>c\<in>set cs. map_of caps (cl_resource c) \<noteq> None \<and> cl_slots c \<noteq> 0"
proof (induction cs arbitrary: totals)
  case (Cons c cs)
  then obtain cap where cap: "map_of caps (cl_resource c) = Some cap" "cl_slots c \<noteq> 0"
    by (auto simp: corrupt_def split: option.splits if_splits)
  with Cons.prems have "\<exists>t. status_ok (fst (durable_claims caps active cs t))"
    by (auto simp: corrupt_def Let_def split: if_splits)
  with Cons.IH cap show ?case by auto
qed simp

lemma durable_reservations_ok:
  "status_ok (fst (durable_reservations caps pids seen vs totals)) \<Longrightarrow>
     distinct (map rv_id vs) \<and> set (map rv_id vs) \<inter> set seen = {} \<and>
     (\<forall>v\<in>set vs. rv_claims v \<noteq> [] \<and> rv_placement v \<in> set pids \<and>
        (\<forall>c\<in>set (rv_claims v). map_of caps (cl_resource c) \<noteq> None \<and> cl_slots c \<noteq> 0))"
proof (induction vs arbitrary: seen totals)
  case (Cons v vs)
  obtain s2 t1 where c: "durable_claims caps (rv_state v = RV_Active) (rv_claims v) totals = (s2, t1)"
    by fastforce
  from Cons.prems c have 1: "status_ok (durable_reservation pids seen v)" "status_ok s2"
    "status_ok (fst (durable_reservations caps pids (rv_id v # seen) vs t1))"
    by (auto simp: Let_def split: if_splits)
  from durable_claims_ok [of caps "rv_state v = RV_Active" "rv_claims v" totals] c 1(2)
  have "\<forall>c\<in>set (rv_claims v). map_of caps (cl_resource c) \<noteq> None \<and> cl_slots c \<noteq> 0" by simp
  with Cons.IH [OF 1(3)] 1(1) show ?case by (auto simp: durable_reservation_def)
qed simp

text \<open>Tables built by repeated insertion.\<close>

lemma fold_emplace:
  assumes "om_wf m"
  shows "om_wf (fold (\<lambda>x. om_emplace (k x) (g x)) xs m)"
    and "map_of (fold (\<lambda>x. om_emplace (k x) (g x)) xs m) j =
      (case map_of m j of None \<Rightarrow> map_of (map (\<lambda>x. (k x, g x)) xs) j | Some v \<Rightarrow> Some v)"
  using assms
proof (induction xs arbitrary: m)
  case Nil
  {
    case 1
    then show ?case by simp
  next
    case 2
    then show ?case by (simp split: option.split)
  }
next
  case (Cons x xs)
  {
    case 1
    then show ?case by (simp add: Cons.IH om_wf_emplace)
  next
    case 2
    then show ?case by (auto simp: Cons.IH om_wf_emplace map_of_om_emplace split: option.split)
  }
qed

lemma map_of_keys_None: "(map_of (map (\<lambda>x. (k x, g x)) xs) j = None) = (j \<notin> k ` set xs)"
  by (induction xs) auto

lemma map_of_keys_Some:
  "map_of (map (\<lambda>x. (k x, g x)) xs) j = Some v \<Longrightarrow> \<exists>x\<in>set xs. j = k x \<and> v = g x"
  by (induction xs) (auto split: if_splits)

lemma durable_capacities_dom: "(map_of (durable_capacities rs) j \<noteq> None) = (j \<in> res_id ` set rs)"
proof -
  have "durable_capacities rs = fold (\<lambda>r. om_emplace (res_id r) (rcap_slots (res_capacity r))) rs []"
    by (simp add: durable_capacities_def)
  then show ?thesis by (simp add: fold_emplace(2) map_of_keys_None)
qed

definition durable_facts :: "durable_state \<Rightarrow> bool" where
  "durable_facts d \<longleftrightarrow>
     (\<forall>r\<in>set (du_resources d). status_ok (validate_resource_record (du_limits d) r)) \<and>
     (\<forall>s\<in>set (du_requests d). request_ok (st_request s)) \<and>
     (\<forall>p\<in>set (du_placements d). pl_request p \<in> (sr_id \<circ> st_request) ` set (du_requests d) \<and>
        pl_resources p \<noteq> [] \<and> (\<forall>s\<in>set (pl_resources p). sel_resource s \<in> res_id ` set (du_resources d))) \<and>
     (\<forall>v\<in>set (du_reservations d). rv_claims v \<noteq> [] \<and> rv_placement v \<in> pl_id ` set (du_placements d) \<and>
        (\<forall>c\<in>set (rv_claims v). cl_resource c \<in> res_id ` set (du_resources d) \<and> cl_slots c \<noteq> 0))"

lemma validate_durable_facts:
  assumes "status_ok (validate_durable_state d)"
  shows "durable_facts d"
proof -
  obtain s totals where res: "durable_reservations (durable_capacities (du_resources d))
      (map pl_id (du_placements d)) [] (du_reservations d) [] = (s, totals)" by fastforce
  with assms have head: "status_ok (durable_resources (du_limits d) [] (du_resources d))"
    "status_ok (durable_requests (du_limits d) [] (du_requests d))"
    "status_ok (durable_placements (map res_id (du_resources d)) (map (sr_id \<circ> st_request) (du_requests d))
      [] (du_placements d))" "status_ok s"
    by (auto simp: validate_durable_state_def Let_def split: if_splits)
  from durable_reservations_ok [of "durable_capacities (du_resources d)" "map pl_id (du_placements d)" "[]"
      "du_reservations d" "[]"] res head(4)
  have "\<forall>v\<in>set (du_reservations d). rv_claims v \<noteq> [] \<and> rv_placement v \<in> pl_id ` set (du_placements d) \<and>
      (\<forall>c\<in>set (rv_claims v). cl_resource c \<in> res_id ` set (du_resources d) \<and> cl_slots c \<noteq> 0)"
    by (simp flip: durable_capacities_dom)
  moreover have "\<forall>s\<in>set (du_requests d). request_ok (st_request s)"
    using durable_requests_ok [OF head(2)] request_ok_validated by blast
  ultimately show ?thesis
    using durable_resources_ok [OF head(1)] durable_placements_ok [OF head(3)]
    unfolding durable_facts_def by auto
qed

section \<open>The tables after the import\<close>

lemma import_resource_fields:
  "ss_resources (fst (import_resource p acc)) =
     om_emplace (res_id p) (recover_record (ss_epoch (fst acc)) p) (ss_resources (fst acc))"
  "ss_epoch (fst (import_resource p acc)) = ss_epoch (fst acc)"
  "ss_requests (fst (import_resource p acc)) = ss_requests (fst acc)"
  "ss_placements (fst (import_resource p acc)) = ss_placements (fst acc)"
  "ss_reservations (fst (import_resource p acc)) = ss_reservations (fst acc)"
  "ss_unit_current (fst (import_resource p acc)) = ss_unit_current (fst acc)"
proof -
  have [simp]: "res_id (recover_record ep p) = res_id p" for ep
    by (simp add: recover_record_def Let_def)
  have [simp]: "ss_resources (recover_worker r st) = ss_resources st"
    "ss_epoch (recover_worker r st) = ss_epoch st"
    "ss_requests (recover_worker r st) = ss_requests st"
    "ss_placements (recover_worker r st) = ss_placements st"
    "ss_reservations (recover_worker r st) = ss_reservations st"
    "ss_unit_current (recover_worker r st) = ss_unit_current st" for r st
    by (simp_all add: recover_worker_def Let_def split: option.split)
  show "ss_resources (fst (import_resource p acc)) =
     om_emplace (res_id p) (recover_record (ss_epoch (fst acc)) p) (ss_resources (fst acc))"
    "ss_epoch (fst (import_resource p acc)) = ss_epoch (fst acc)"
    "ss_requests (fst (import_resource p acc)) = ss_requests (fst acc)"
    "ss_placements (fst (import_resource p acc)) = ss_placements (fst acc)"
    "ss_reservations (fst (import_resource p acc)) = ss_reservations (fst acc)"
    "ss_unit_current (fst (import_resource p acc)) = ss_unit_current (fst acc)"
    by (simp_all add: import_resource_def case_prod_beta Let_def)
qed

lemma import_resources_fields:
  "ss_resources (fst (fold import_resource rs acc)) =
     fold (\<lambda>p. om_emplace (res_id p) (recover_record (ss_epoch (fst acc)) p)) rs (ss_resources (fst acc))"
  "ss_epoch (fst (fold import_resource rs acc)) = ss_epoch (fst acc)"
  "ss_requests (fst (fold import_resource rs acc)) = ss_requests (fst acc)"
  "ss_placements (fst (fold import_resource rs acc)) = ss_placements (fst acc)"
  "ss_reservations (fst (fold import_resource rs acc)) = ss_reservations (fst acc)"
  "ss_unit_current (fst (fold import_resource rs acc)) = ss_unit_current (fst acc)"
  by (induction rs arbitrary: acc) (simp_all add: import_resource_fields)

lemma import_requests_fields:
  "ss_requests (fst (fold import_request ss acc)) =
     fold (\<lambda>s. om_emplace (sr_id (st_request s)) (recover_request s)) ss (ss_requests (fst acc))"
  "ss_epoch (fst (fold import_request ss acc)) = ss_epoch (fst acc)"
  "ss_resources (fst (fold import_request ss acc)) = ss_resources (fst acc)"
  "ss_placements (fst (fold import_request ss acc)) = ss_placements (fst acc)"
  "ss_reservations (fst (fold import_request ss acc)) = ss_reservations (fst acc)"
  "ss_unit_current (fst (fold import_request ss acc)) = ss_unit_current (fst acc)"
  "ss_workers (fst (fold import_request ss acc)) = ss_workers (fst acc)"
  by (induction ss arbitrary: acc)
    (simp_all add: import_request_def case_prod_beta Let_def recover_request_def)

lemma import_placement_other:
  "ss_epoch (fst (import_placement p acc)) = ss_epoch (fst acc)"
  "ss_resources (fst (import_placement p acc)) = ss_resources (fst acc)"
  "ss_requests (fst (import_placement p acc)) = ss_requests (fst acc)"
  "ss_reservations (fst (import_placement p acc)) = ss_reservations (fst acc)"
  "ss_unit_current (fst (import_placement p acc)) = ss_unit_current (fst acc)"
  "ss_workers (fst (import_placement p acc)) = ss_workers (fst acc)"
  by (simp_all add: import_placement_def case_prod_beta Let_def)

lemma import_placements_other:
  "ss_epoch (fst (fold import_placement ps acc)) = ss_epoch (fst acc)"
  "ss_resources (fst (fold import_placement ps acc)) = ss_resources (fst acc)"
  "ss_requests (fst (fold import_placement ps acc)) = ss_requests (fst acc)"
  "ss_reservations (fst (fold import_placement ps acc)) = ss_reservations (fst acc)"
  "ss_unit_current (fst (fold import_placement ps acc)) = ss_unit_current (fst acc)"
  "ss_workers (fst (fold import_placement ps acc)) = ss_workers (fst acc)"
  by (induction ps arbitrary: acc) (simp_all add: import_placement_other)

text \<open>A restored placement is the persisted one, not live any more.\<close>

definition restored_from :: "placement_record \<Rightarrow> placement_record \<Rightarrow> bool" where
  "restored_from p q \<longleftrightarrow> pl_id q = pl_id p \<and> pl_resources q = pl_resources p \<and>
     pl_request q = pl_request p \<and> pl_generation q = pl_generation p \<and>
     \<not> placement_state_is_live (pl_state q) \<and>
     (if placement_state_is_live (pl_state p) then pl_state q = PL_ReassignmentRequired else q = p)"

lemma import_placement_emplace:
  "\<exists>q. ss_placements (fst (import_placement p acc)) = om_emplace (pl_id p) q (ss_placements (fst acc)) \<and>
     restored_from p q"
  by (cases "placement_state_is_live (pl_state p)")
    (auto simp: import_placement_def case_prod_beta Let_def restored_from_def)

lemma import_placements_table:
  assumes "om_wf (ss_placements (fst acc))"
    and "\<forall>k q. map_of (ss_placements (fst acc)) k = Some q \<longrightarrow> (\<exists>p\<in>P. k = pl_id p \<and> restored_from p q)"
    and "set ps \<subseteq> P"
  shows "om_wf (ss_placements (fst (fold import_placement ps acc))) \<and>
    (\<forall>k q. map_of (ss_placements (fst (fold import_placement ps acc))) k = Some q \<longrightarrow>
      (\<exists>p\<in>P. k = pl_id p \<and> restored_from p q)) \<and>
    (\<forall>k. (map_of (ss_placements (fst (fold import_placement ps acc))) k \<noteq> None) =
      (k \<in> pl_id ` set ps \<or> map_of (ss_placements (fst acc)) k \<noteq> None))"
  using assms
proof (induction ps arbitrary: acc)
  case (Cons p ps)
  let ?acc = "import_placement p acc"
  obtain q where q: "ss_placements (fst ?acc) = om_emplace (pl_id p) q (ss_placements (fst acc))"
    "restored_from p q" using import_placement_emplace by blast
  have "om_wf (ss_placements (fst ?acc))" using Cons.prems(1) q(1) by (simp add: om_wf_emplace)
  moreover have "\<forall>k q. map_of (ss_placements (fst ?acc)) k = Some q \<longrightarrow> (\<exists>p\<in>P. k = pl_id p \<and> restored_from p q)"
    using Cons.prems q by (auto simp: map_of_om_emplace)
  moreover have "set ps \<subseteq> P" using Cons.prems(3) by simp
  ultimately have IH: "om_wf (ss_placements (fst (fold import_placement ps ?acc))) \<and>
    (\<forall>k q. map_of (ss_placements (fst (fold import_placement ps ?acc))) k = Some q \<longrightarrow>
      (\<exists>p\<in>P. k = pl_id p \<and> restored_from p q)) \<and>
    (\<forall>k. (map_of (ss_placements (fst (fold import_placement ps ?acc))) k \<noteq> None) =
      (k \<in> pl_id ` set ps \<or> map_of (ss_placements (fst ?acc)) k \<noteq> None))"
    by (rule Cons.IH)
  moreover have "(map_of (ss_placements (fst ?acc)) k \<noteq> None) =
      (k = pl_id p \<or> map_of (ss_placements (fst acc)) k \<noteq> None)" for k
    using Cons.prems(1) q(1) by (auto simp: map_of_om_emplace)
  ultimately show ?case by auto
qed simp

lemma import_reservations_fields:
  "ss_reservations (fst (fold import_reservation vs acc)) =
     fold (\<lambda>v. om_emplace (rv_id v) (recover_reservation v)) vs (ss_reservations (fst acc))"
  "ss_epoch (fst (fold import_reservation vs acc)) = ss_epoch (fst acc)"
  "ss_resources (fst (fold import_reservation vs acc)) = ss_resources (fst acc)"
  "ss_requests (fst (fold import_reservation vs acc)) = ss_requests (fst acc)"
  "ss_placements (fst (fold import_reservation vs acc)) = ss_placements (fst acc)"
  "ss_unit_current (fst (fold import_reservation vs acc)) = ss_unit_current (fst acc)"
  "ss_workers (fst (fold import_reservation vs acc)) = ss_workers (fst acc)"
  by (induction vs arbitrary: acc) (simp_all add: import_reservation_def case_prod_beta Let_def)

lemma import_resources_workers:
  "keyed wk_id (ss_workers (fst acc)) \<Longrightarrow> keyed wk_id (ss_workers (fst (fold import_resource rs acc)))"
proof (induction rs arbitrary: acc)
  case (Cons r rs)
  have "keyed wk_id (ss_workers (fst (import_resource r acc)))"
    using Cons.prems
    by (auto simp: import_resource_def case_prod_beta Let_def recover_worker_def keyed_emplace split: option.split)
  from Cons.IH [OF this] show ?case by simp
qed simp

text \<open>The identity floor covers every restored placement and reservation.\<close>

lemma fold_observe_ge: "floor \<le> fold ids_observe ids floor"
proof (induction ids arbitrary: floor)
  case (Cons i ids)
  have "floor \<le> ids_observe i floor" using ids_observe_ge by blast
  also have "ids_observe i floor \<le> fold ids_observe ids (ids_observe i floor)" by (rule Cons.IH)
  finally show ?case by simp
qed simp

lemma observe_ids_ge: "floor \<le> observe_ids ids floor" "i \<in> set ids \<Longrightarrow> i \<le> observe_ids ids floor"
proof -
  show "floor \<le> observe_ids ids floor" unfolding observe_ids_def by (rule fold_observe_ge)
  show "i \<in> set ids \<Longrightarrow> i \<le> observe_ids ids floor"
    unfolding observe_ids_def
  proof (induction ids arbitrary: floor)
    case (Cons j ids)
    show ?case
    proof (cases "i = j")
      case True
      have "j \<le> ids_observe j floor" using ids_observe_ge by blast
      also have "ids_observe j floor \<le> fold ids_observe ids (ids_observe j floor)"
        by (rule fold_observe_ge)
      finally show ?thesis using True by simp
    qed (use Cons in simp)
  qed simp
qed

lemma fold_floor:
  assumes "\<And>x acc. snd (snd acc) \<le> snd (snd (f x acc))"
    and "\<And>x acc. i x \<le> (snd (snd (f x acc)) :: u64)"
  shows "snd (snd acc) \<le> snd (snd (fold f xs acc))"
    and "x \<in> set xs \<Longrightarrow> i x \<le> snd (snd (fold f xs acc))"
proof -
  have mono: "snd (snd acc) \<le> snd (snd (fold f xs acc))" for xs acc
  proof (induction xs arbitrary: acc)
    case (Cons x xs)
    from order_trans [OF assms(1) Cons.IH] show ?case by simp
  qed simp
  then show "snd (snd acc) \<le> snd (snd (fold f xs acc))" .
  show "x \<in> set xs \<Longrightarrow> i x \<le> snd (snd (fold f xs acc))"
  proof (induction xs arbitrary: acc)
    case (Cons y ys)
    show ?case
    proof (cases "x = y")
      case True
      with mono [of "f y acc" ys] assms(2) [of y acc] show ?thesis by simp
    qed (use Cons in simp)
  qed simp
qed

lemma import_placement_floor:
  "snd (snd acc) \<le> snd (snd (import_placement p acc))" "pl_id p \<le> snd (snd (import_placement p acc))"
  by (simp_all add: import_placement_def case_prod_beta Let_def observe_ids_ge)

lemma import_reservation_floor:
  "snd (snd acc) \<le> snd (snd (import_reservation v acc))" "rv_id v \<le> snd (snd (import_reservation v acc))"
  by (simp_all add: import_reservation_def case_prod_beta observe_ids_ge)

lemma import_records_floor:
  "p \<in> set (du_placements d) \<Longrightarrow> pl_id p \<le> snd (snd (import_records d acc))"
  "v \<in> set (du_reservations d) \<Longrightarrow> rv_id v \<le> snd (snd (import_records d acc))"
proof -
  note pf = fold_floor [where f = import_placement and i = pl_id, OF import_placement_floor]
  note rf = fold_floor [where f = import_reservation and i = rv_id, OF import_reservation_floor]
  show "p \<in> set (du_placements d) \<Longrightarrow> pl_id p \<le> snd (snd (import_records d acc))"
    unfolding import_records_def by (rule order_trans [OF pf(2) rf(1)])
  show "v \<in> set (du_reservations d) \<Longrightarrow> rv_id v \<le> snd (snd (import_records d acc))"
    unfolding import_records_def by (rule rf(2))
qed

text \<open>The imported tables, on an empty scheduler.\<close>

lemma imported_tables:
  fixes d :: durable_state and acc :: import_state_acc
  assumes "scheduler_empty (fst acc)"
  defines "st' \<equiv> fst (import_records d acc)"
  shows "om_wf (ss_resources st')" and "om_wf (ss_requests st')" and "om_wf (ss_placements st')"
    and "om_wf (ss_reservations st')"
    and "map_of (ss_resources st') k = Some r \<Longrightarrow>
      \<exists>r0\<in>set (du_resources d). k = res_id r0 \<and> r = recover_record (ss_epoch (fst acc)) r0"
    and "map_of (ss_requests st') k = Some s \<Longrightarrow>
      \<exists>s0\<in>set (du_requests d). k = sr_id (st_request s0) \<and> s = recover_request s0"
    and "map_of (ss_placements st') k = Some q \<Longrightarrow>
      \<exists>p\<in>set (du_placements d). k = pl_id p \<and> restored_from p q"
    and "map_of (ss_reservations st') k = Some v \<Longrightarrow>
      \<exists>v0\<in>set (du_reservations d). k = rv_id v0 \<and> v = recover_reservation v0"
    and "(map_of (ss_resources st') k \<noteq> None) = (k \<in> res_id ` set (du_resources d))"
    and "(map_of (ss_requests st') k \<noteq> None) = (k \<in> (sr_id \<circ> st_request) ` set (du_requests d))"
    and "(map_of (ss_placements st') k \<noteq> None) = (k \<in> pl_id ` set (du_placements d))"
    and "ss_unit_current st' = ss_unit_current (fst acc)" and "ss_epoch st' = ss_epoch (fst acc)"
    and "keyed wk_id (ss_workers (fst acc)) \<Longrightarrow> keyed wk_id (ss_workers st')"
proof -
  from assms(1) have e: "ss_resources (fst acc) = []" "ss_requests (fst acc) = []"
    "ss_placements (fst acc) = []" "ss_reservations (fst acc) = []"
    by (simp_all add: scheduler_empty_def)
  note f = import_resources_fields import_requests_fields import_placements_other import_reservations_fields e
  have rs: "ss_resources st' =
      fold (\<lambda>p. om_emplace (res_id p) (recover_record (ss_epoch (fst acc)) p)) (du_resources d) []"
    and qs: "ss_requests st' =
      fold (\<lambda>s. om_emplace (sr_id (st_request s)) (recover_request s)) (du_requests d) []"
    and vs: "ss_reservations st' =
      fold (\<lambda>v. om_emplace (rv_id v) (recover_reservation v)) (du_reservations d) []"
    and ps: "ss_placements st' = ss_placements (fst (fold import_placement (du_placements d)
        (fold import_request (du_requests d) (fold import_resource (du_resources d) acc))))"
    by (simp_all add: st'_def import_records_def f)
  show "ss_unit_current st' = ss_unit_current (fst acc)" "ss_epoch st' = ss_epoch (fst acc)"
    by (simp_all add: st'_def import_records_def f)
  show "keyed wk_id (ss_workers (fst acc)) \<Longrightarrow> keyed wk_id (ss_workers st')"
    by (simp add: st'_def import_records_def f import_resources_workers)
  show "om_wf (ss_resources st')" "om_wf (ss_requests st')" "om_wf (ss_reservations st')"
    by (simp_all add: rs qs vs fold_emplace(1))
  show "map_of (ss_resources st') k = Some r \<Longrightarrow>
      \<exists>r0\<in>set (du_resources d). k = res_id r0 \<and> r = recover_record (ss_epoch (fst acc)) r0"
    unfolding rs fold_emplace(2) [OF om_wf_Nil] by (simp add: map_of_keys_Some)
  show "map_of (ss_requests st') k = Some s \<Longrightarrow>
      \<exists>s0\<in>set (du_requests d). k = sr_id (st_request s0) \<and> s = recover_request s0"
    unfolding qs fold_emplace(2) [OF om_wf_Nil] by (simp add: map_of_keys_Some)
  show "map_of (ss_reservations st') k = Some v \<Longrightarrow>
      \<exists>v0\<in>set (du_reservations d). k = rv_id v0 \<and> v = recover_reservation v0"
    unfolding vs fold_emplace(2) [OF om_wf_Nil] by (simp add: map_of_keys_Some)
  show "(map_of (ss_resources st') k \<noteq> None) = (k \<in> res_id ` set (du_resources d))"
    unfolding rs fold_emplace(2) [OF om_wf_Nil] by (simp add: map_of_keys_None)
  show "(map_of (ss_requests st') k \<noteq> None) = (k \<in> (sr_id \<circ> st_request) ` set (du_requests d))"
    unfolding qs fold_emplace(2) [OF om_wf_Nil] by (simp add: map_of_keys_None comp_def)
  have "om_wf (ss_placements st') \<and>
    (\<forall>k q. map_of (ss_placements st') k = Some q \<longrightarrow> (\<exists>p\<in>set (du_placements d). k = pl_id p \<and> restored_from p q)) \<and>
    (\<forall>k. (map_of (ss_placements st') k \<noteq> None) = (k \<in> pl_id ` set (du_placements d)))"
    using import_placements_table [of "fold import_request (du_requests d)
        (fold import_resource (du_resources d) acc)" "set (du_placements d)" "du_placements d"]
    unfolding ps by (simp add: f)
  then show "om_wf (ss_placements st')"
    "map_of (ss_placements st') k = Some q \<Longrightarrow> \<exists>p\<in>set (du_placements d). k = pl_id p \<and> restored_from p q"
    "(map_of (ss_placements st') k \<noteq> None) = (k \<in> pl_id ` set (du_placements d))"
    by blast+
qed

section \<open>The invariant after an import\<close>

lemma recover_record_simps [simp]:
  "res_id (recover_record ep r) = res_id r"
  "res_capacity (recover_record ep r) = res_capacity r"
  "res_advertised_occupancy (recover_record ep r) = res_advertised_occupancy r"
  "res_reserved_slots (recover_record ep r) = 0"
  "res_worker (recover_record ep r) = res_worker r"
  "res_dynamic_authoritative (recover_record ep r) = (res_worker r = 0 \<and> res_lifecycle r \<noteq> RL_Retired)"
  by (simp_all add: recover_record_def Let_def)

lemma recover_request_simps [simp]:
  "st_request (recover_request s) = st_request s" "st_current_placement (recover_request s) = 0"
  "st_state (recover_request s) \<noteq> RQ_Placed"
  by (simp_all add: recover_request_def Let_def)

lemma recover_reservation_simps [simp]:
  "rv_id (recover_reservation v) = rv_id v" "rv_claims (recover_reservation v) = rv_claims v"
  "rv_placement (recover_reservation v) = rv_placement v" "rv_state (recover_reservation v) \<noteq> RV_Active"
  by (simp_all add: recover_reservation_def)

text \<open>Selections as the engine writes them: no zero slot and no resource twice.\<close>

definition selections_ok :: "durable_state \<Rightarrow> bool" where
  "selections_ok d \<longleftrightarrow> (\<forall>p\<in>set (du_placements d).
     (\<forall>s\<in>set (pl_resources p). sel_slots s \<noteq> 0) \<and> distinct (map sel_resource (pl_resources p)))"

definition import_acc :: "durable_state \<Rightarrow> engine \<Rightarrow> import_state_acc" where
  "import_acc d e = ((eng_state e)\<lparr>ss_epoch := du_epoch d + 1\<rparr>,
     empty_recovery\<lparr>rc_previous_epoch := du_epoch d, rc_current_epoch := du_epoch d + 1\<rparr>, du_id_counter d)"

definition import_floor :: "durable_state \<Rightarrow> engine \<Rightarrow> u64" where
  "import_floor d e = snd (snd (import_records d (import_acc d e)))"

lemma import_state_inv:
  assumes inv: "state_inv ids st" and facts: "durable_facts d" and sels: "selections_ok d"
    and empty: "scheduler_empty (fst acc)" and units: "ss_unit_current (fst acc) = ss_unit_current st"
    "ss_workers (fst acc) = ss_workers st" and none: "ss_placements st = []"
    and ids: "snd (snd (import_records d acc)) \<le> ids'"
  shows "state_inv ids' (fst (import_records d acc))"
proof -
  let ?st = "fst (import_records d acc)"
  note t = imported_tables [OF empty, of d]
  have inactive: "rv_state v \<noteq> RV_Active" if "map_of (ss_reservations ?st) k = Some v" for k v
    using t(8) [OF that] by auto
  have total: "om_total (reservation_claims k) (ss_reservations ?st) = 0" for k
  proof -
    have "reservation_claims k v = 0" if "v \<in> set (om_values (ss_reservations ?st))" for v
      using that inactive t(4) by (auto simp: set_om_values reservation_claims_def)
    then show ?thesis by (auto simp: om_total_def om_values_def)
  qed
  have resources: "resources_inv (ss_resources ?st) (ss_reservations ?st)"
    unfolding resources_inv_def keyed_def
  proof (intro conjI allI impI)
    fix k r
    assume r: "map_of (ss_resources ?st) k = Some r"
    from t(5) [OF r] obtain r0 where r0: "r0 \<in> set (du_resources d)" "k = res_id r0"
      "r = recover_record (ss_epoch (fst acc)) r0" by blast
    with facts have "status_ok (validate_resource_record (du_limits d) r0)" by (simp add: durable_facts_def)
    then have "status_ok (validate_advertisement (du_limits d) (advertisement_of_record r0))"
      by (simp add: validate_record_simps)
    from validate_advertisement_capacity [OF this] r0 show "resource_ok r"
      by (simp add: resource_ok_def advertisement_of_record_def word_le_nat_alt)
    from r0 show "res_id r = k" "unat (res_reserved_slots r) = om_total (reservation_claims k) (ss_reservations ?st)"
      using total by simp_all
  qed (rule t(1))
  have requests: "requests_inv (ss_requests ?st)"
    using t(2) t(6) facts by (fastforce simp: requests_inv_def keyed_def durable_facts_def)
  have reservations: "reservations_inv (ss_resources ?st) (ss_placements ?st) (ss_reservations ?st)"
    unfolding reservations_inv_def keyed_def
  proof (intro conjI allI impI)
    fix k v
    assume v: "map_of (ss_reservations ?st) k = Some v"
    from t(8) [OF v] obtain v0 where v0: "v0 \<in> set (du_reservations d)" "k = rv_id v0"
      "v = recover_reservation v0" by blast
    with facts have f: "rv_claims v0 \<noteq> []" "rv_placement v0 \<in> pl_id ` set (du_placements d)"
      "\<forall>c\<in>set (rv_claims v0). cl_resource c \<in> res_id ` set (du_resources d) \<and> cl_slots c \<noteq> 0"
      by (simp_all add: durable_facts_def)
    from v0 show "rv_id v = k" by simp
    show "reservation_ok (ss_resources ?st) v" using f v0 t(9) by (simp add: reservation_ok_def)
    show "backs (ss_placements ?st) v"
      using f(2) v0 t(11) [of "rv_placement v0"] by (auto simp: backs_def)
  qed (rule t(4))
  have dead: "\<not> placement_state_is_live (pl_state q)" if "map_of (ss_placements ?st) k = Some q" for k q
    using t(7) [OF that] by (auto simp: restored_from_def)
  have placements: "placements_inv (ss_resources ?st) (ss_requests ?st) (ss_reservations ?st) (ss_placements ?st)"
    unfolding placements_inv_def keyed_def
  proof (intro conjI allI impI)
    fix k q
    assume q: "map_of (ss_placements ?st) k = Some q"
    from t(7) [OF q] obtain p where p: "p \<in> set (du_placements d)" "k = pl_id p" "restored_from p q" by blast
    then have e: "pl_id q = k" "pl_resources q = pl_resources p" "pl_request q = pl_request p"
      by (simp_all add: restored_from_def)
    from e show "pl_id q = k" by simp
    from facts p(1) have f: "pl_request p \<in> (sr_id \<circ> st_request) ` set (du_requests d)" "pl_resources p \<noteq> []"
      "\<forall>s\<in>set (pl_resources p). sel_resource s \<in> res_id ` set (du_resources d)"
      by (simp_all add: durable_facts_def)
    with sels p(1) show "placement_ok (ss_resources ?st) (ss_requests ?st) q"
      unfolding placement_ok_def e selections_ok_def using t(9) t(10) by simp
    assume "placement_state_is_live (pl_state q)"
    with dead [OF q] show "backed (ss_reservations ?st) q" by simp
  qed (rule t(3))
  have no_units: "map_of (ss_unit_current ?st) u = None" for u
    using inv t(12) units none by (fastforce simp: state_inv_def units_inv_def)
  have "om_wf (ss_unit_current ?st)" using inv t(12) units by (simp add: state_inv_def units_inv_def)
  with no_units have units': "units_inv (ss_placements ?st) (ss_unit_current ?st)"
    by (simp add: units_inv_def)
  have "k \<le> ids'" if "map_of (ss_placements ?st) k \<noteq> None" for k
    using that t(11) [of k] import_records_floor(1) [of _ d acc] ids by (auto intro: order_trans)
  moreover have "k \<le> ids'" if "map_of (ss_reservations ?st) k \<noteq> None" for k
  proof -
    from that t(8) [of k] obtain v0 where "v0 \<in> set (du_reservations d)" "k = rv_id v0" by auto
    with order_trans [OF import_records_floor(2) [of _ d acc] ids] show ?thesis by simp
  qed
  ultimately have "ids_inv ids' (ss_placements ?st) (ss_reservations ?st)" by (simp add: ids_inv_def)
  moreover have "keyed wk_id (ss_workers ?st)"
    using inv units(2) by (intro t(14)) (simp add: state_inv_def)
  ultimately show ?thesis
    using resources requests reservations placements units' by (simp add: state_inv_def)
qed

lemma import_state_success:
  assumes "import_state d e = (Inr report, e')"
  shows "status_ok (validate_durable_state d)" and "scheduler_empty (eng_state e)"
    and "eng_config e' = eng_config e"
    and "eng_ids e' = ids_observe (import_floor d e + 1) (eng_ids e)"
    and "\<exists>kind detail. eng_state e' =
      push_audit (eng_config e) kind detail (fst (import_records d (import_acc d e)))"
proof -
  from assms have "status_ok (validate_durable_state d)" "scheduler_empty (eng_state e)"
    by (auto simp: import_state_def Let_def split: if_splits)
  moreover from calculation assms have e': "e' = e\<lparr>
      eng_ids := ids_observe (import_floor d e + 1) (eng_ids e),
      eng_state := push_audit (eng_config e) ''coordinator.recovered''
        (id_to_string K_CoordinatorEpoch (du_epoch d) @ '' -> '' @
         id_to_string K_CoordinatorEpoch (du_epoch d + 1)) (fst (import_records d (import_acc d e)))\<rparr>"
    by (simp add: import_state_def Let_def case_prod_beta import_acc_def import_floor_def)
  ultimately show "status_ok (validate_durable_state d)" "scheduler_empty (eng_state e)"
    "eng_config e' = eng_config e" "eng_ids e' = ids_observe (import_floor d e + 1) (eng_ids e)"
    "\<exists>kind detail. eng_state e' =
      push_audit (eng_config e) kind detail (fst (import_records d (import_acc d e)))"
    by simp_all blast
qed

lemma import_state_failure:
  "import_state d e = (Inl s, e') \<Longrightarrow> e' = e"
  by (auto simp: import_state_def Let_def case_prod_beta split: if_splits)

lemma keeps_import_state:
  assumes inv: "engine_inv e" and sels: "selections_ok d" and floor: "import_floor d e \<noteq> - 1"
  shows "engine_inv (snd (import_state d e))"
proof (cases "import_state d e")
  case (Pair r e')
  show ?thesis
  proof (cases r)
    case (Inl s)
    with Pair import_state_failure inv show ?thesis by auto
  next
    case (Inr report)
    note s = import_state_success [OF Pair [unfolded Inr]]
    have "unat (import_floor d e) + 1 < 2 ^ LENGTH(64)"
    proof -
      have "import_floor d e + 1 \<noteq> 0" using floor by (metis add.commute eq_neg_iff_add_eq_0)
      then have "unat (import_floor d e + 1) = Suc (unat (import_floor d e))"
        by (metis add.commute unatSuc)
      then show ?thesis using unsigned_less [of "import_floor d e + 1", where ?'a = nat] by simp
    qed
    then have "import_floor d e \<le> import_floor d e + 1"
      by (simp add: word_le_nat_alt unat_add_no_wrap)
    also have "import_floor d e + 1 \<le> eng_ids e'" unfolding s(4) using ids_observe_ge by blast
    finally have le: "snd (snd (import_records d (import_acc d e))) \<le> eng_ids e'"
      by (simp add: import_floor_def)
    have "state_inv (eng_ids e') (fst (import_records d (import_acc d e)))"
      by (rule import_state_inv [OF _ validate_durable_facts [OF s(1)] sels _ _ _ _ le,
            of "eng_ids e" "eng_state e"])
        (use inv s(2) in \<open>simp_all add: engine_inv_def import_acc_def scheduler_empty_def\<close>)
    with s(3,5) inv Pair show ?thesis by (auto simp: engine_inv_def)
  qed
qed

end
