(* ===== verification/Reachable.thy ===== *)
theory Reachable
  imports RecoveryInv
begin

text \<open>
  The engine as a transition system: \<open>engine_step\<close> has one rule per public operation that changes
  the engine, \<open>reachable\<close> are the engines it can produce. The locale states what an invariant of
  a transition system is; its interpretation carries the ledger invariant to every reachable
  engine, and with it the self checks of \<open>validate_invariants\<close>.
\<close>

section \<open>Transition systems with an invariant\<close>

locale transition_invariant =
  fixes initial :: "'s \<Rightarrow> bool" and step :: "'s \<Rightarrow> 's \<Rightarrow> bool" and inv :: "'s \<Rightarrow> bool"
  assumes inv_initial: "initial s \<Longrightarrow> inv s"
    and inv_step: "inv s \<Longrightarrow> step s t \<Longrightarrow> inv t"
begin

lemma inv_rtranclp: "step\<^sup>*\<^sup>* s t \<Longrightarrow> inv s \<Longrightarrow> inv t"
  by (induction rule: rtranclp_induct) (auto intro: inv_step)

lemma inv_reachable: "initial s \<Longrightarrow> step\<^sup>*\<^sup>* s t \<Longrightarrow> inv t"
  using inv_rtranclp inv_initial by blast

end

section \<open>Steps of the engine\<close>

inductive engine_step :: "engine \<Rightarrow> engine \<Rightarrow> bool" where
  step_adopt_epoch: "engine_step e (snd (adopt_epoch epoch e))"
| step_shutdown: "engine_step e (snd (begin_shutdown e))"
| step_worker_connected: "engine_step e (snd (worker_connected w b e))"
| step_worker_lost: "engine_step e (snd (mark_worker_lost w b detail e))"
| step_worker_disconnected: "engine_step e (snd (worker_disconnected w b detail e))"
| step_register: "engine_step e (snd (register_resource a e))"
| step_publish: "engine_step e (snd (publish_resource_state a e))"
| step_retire: "engine_step e (snd (retire_resource i g e))"
| step_submit: "ids_room (eng_ids e) \<Longrightarrow> engine_step e (snd (submit_request req e))"
| step_assigned: "engine_step e (snd (mark_assigned pid g epoch b e))"
| step_running: "engine_step e (snd (mark_running pid g epoch b e))"
| step_completion: "engine_step e (snd (report_completion claim e))"
| step_cancel_placement: "engine_step e (snd (cancel_placement pid g epoch reason e))"
| step_cancel_request: "engine_step e (snd (cancel_request rid reason e))"
| step_reassign: "ids_room (eng_ids e) \<Longrightarrow> engine_step e (snd (reassign_placement pid g epoch reason e))"
| step_preempt: "ids_room (eng_ids e) \<Longrightarrow> engine_step e (snd (preempt_placement pid g epoch reason e))"
| step_import: "selections_ok d \<Longrightarrow> import_floor d e \<noteq> - 1 \<Longrightarrow> engine_step e (snd (import_state d e))"

inductive_cases engine_step_cases: "engine_step e e'"

definition initial_engine :: "engine \<Rightarrow> bool" where
  "initial_engine e \<longleftrightarrow> (\<exists>cfg. config_ok cfg \<and> e = make_engine cfg)"

definition reachable :: "engine \<Rightarrow> bool" where
  "reachable e \<longleftrightarrow> (\<exists>e0. initial_engine e0 \<and> engine_step\<^sup>*\<^sup>* e0 e)"

lemmas engine_keeps =
  keeps_adopt_epoch keeps_begin_shutdown keeps_worker_connected keeps_mark_worker_lost
  keeps_register_resource keeps_publish_resource_state keeps_retire_resource keeps_mark_assigned
  keeps_mark_running keeps_report_completion keeps_cancel_placement keeps_cancel_request

lemma keeps_invD: "keeps_inv e e' \<Longrightarrow> engine_inv e \<Longrightarrow> engine_inv e'"
  by (simp add: keeps_inv_def)

lemma engine_step_inv: "engine_step e e' \<Longrightarrow> engine_inv e \<Longrightarrow> engine_inv e'"
proof (induction rule: engine_step.induct)
  case (step_worker_disconnected e w b detail)
  then show ?case unfolding worker_disconnected_def by (rule keeps_invD [OF keeps_mark_worker_lost])
next
  case (step_submit e req)
  then show ?case by (metis keeps_invD keeps_submit_request)
next
  case (step_reassign e pid g epoch reason)
  then show ?case by (metis keeps_reassign_placement)
next
  case (step_preempt e pid g epoch reason)
  then show ?case by (metis keeps_preempt_placement)
next
  case (step_import d e)
  then show ?case by (metis keeps_import_state)
qed (rule keeps_invD, rule engine_keeps, assumption)+

interpretation ledger: transition_invariant initial_engine engine_step engine_inv
proof
  show "initial_engine e \<Longrightarrow> engine_inv e" for e by (auto simp: initial_engine_def engine_inv_make)
  show "engine_inv e \<Longrightarrow> engine_step e e' \<Longrightarrow> engine_inv e'" for e e' by (rule engine_step_inv)
qed

lemma reachable_inv: "reachable e \<Longrightarrow> engine_inv e"
  unfolding reachable_def using ledger.inv_reachable by blast

lemma reachable_make: "config_ok cfg \<Longrightarrow> reachable (make_engine cfg)"
  unfolding reachable_def initial_engine_def by blast

lemma reachable_step: "reachable e \<Longrightarrow> engine_step e e' \<Longrightarrow> reachable e'"
  unfolding reachable_def by (meson rtranclp.rtrancl_into_rtrancl)

section \<open>The self checks\<close>

text \<open>The checks that the ledger invariant implies: all but exclusivity of a resource whose sharing
  mode was republished, the null-generation part of the counters and stale authority.\<close>

lemma engine_inv_checks:
  assumes "engine_inv e"
  shows "ic_ok (check_capacity (eng_state e))" and "ic_ok (check_mirror (eng_state e))"
    and "ic_ok (check_live_placements (eng_state e))"
    and "ic_ok (check_active_reservations (eng_state e))"
    and "ic_ok (check_references (eng_state e))" and "ic_ok (check_units (eng_state e))"
proof -
  let ?st = "eng_state e"
  have inv: "state_inv (eng_ids e) ?st" using assms by (simp add: engine_inv_def)
  then have i: "resources_inv (ss_resources ?st) (ss_reservations ?st)"
    "reservations_inv (ss_resources ?st) (ss_placements ?st) (ss_reservations ?st)"
    "placements_inv (ss_resources ?st) (ss_requests ?st) (ss_reservations ?st) (ss_placements ?st)"
    "units_inv (ss_placements ?st) (ss_unit_current ?st)"
    by (simp_all add: state_inv_def)
  have wf: "om_wf (ss_resources ?st)" "om_wf (ss_reservations ?st)" "om_wf (ss_placements ?st)"
    "om_wf (ss_unit_current ?st)"
    using i by (simp_all add: resources_inv_def reservations_inv_def placements_inv_def units_inv_def keyed_def)
  have "resource_ok r" if "map_of (ss_resources ?st) k = Some r" for k r
    using i(1) that by (simp add: resources_inv_def)
  then show "ic_ok (check_capacity ?st)"
    using wf by (auto simp: check_ok set_om_values resource_ok_def)
  have "ledger_slots (build_ledger ?st) (res_id r) = res_reserved_slots r"
    if "map_of (ss_resources ?st) k = Some r" for k r
  proof -
    from i(1) that have "unat (res_reserved_slots r) = om_total (reservation_claims k) (ss_reservations ?st)"
      "res_id r = k" by (simp_all add: resources_inv_def keyed_def)
    moreover have "word_of_nat (unat (res_reserved_slots r)) = res_reserved_slots r" by simp
    ultimately show ?thesis unfolding build_ledger_slots claims_on_active by simp
  qed
  then show "ic_ok (check_mirror ?st)" using wf by (auto simp: check_ok set_om_values)
  have p: "placement_ok (ss_resources ?st) (ss_requests ?st) p"
    "placement_state_is_live (pl_state p) \<Longrightarrow> backed (ss_reservations ?st) p"
    if "map_of (ss_placements ?st) k = Some p" for k p
    using i(3) that by (simp_all add: placements_inv_def)
  have "backed (ss_reservations ?st) p" if "p \<in> set (om_values (ss_placements ?st))"
    "placement_state_is_live (pl_state p)" for p
    using that p(2) wf(3) by (auto simp: set_om_values)
  then show "ic_ok (check_live_placements ?st)" unfolding check_ok backed_def by blast
  have "placement_ok (ss_resources ?st) (ss_requests ?st) p" if "p \<in> set (om_values (ss_placements ?st))" for p
    using that p(1) wf(3) by (auto simp: set_om_values)
  then show "ic_ok (check_references ?st)" unfolding check_ok placement_ok_def by blast
  have "reservation_ok (ss_resources ?st) v \<and> backs (ss_placements ?st) v"
    if "v \<in> set (om_values (ss_reservations ?st))" for v
    using that i(2) wf(2) by (auto simp: set_om_values reservations_inv_def)
  then show "ic_ok (check_active_reservations ?st)"
    unfolding check_ok backs_def reservation_ok_def by blast
  have "\<exists>p. map_of (ss_placements ?st) k = Some p \<and> placement_state_is_live (pl_state p)"
    if "k \<in> set (om_values (ss_unit_current ?st))" for k
    using that i(4) wf(4) unfolding set_om_values [OF wf(4)] units_inv_def by blast
  then show "ic_ok (check_units ?st)" unfolding check_ok by blast
qed

end
