(* ===== verification/Effects.thy ===== *)
theory Effects
  imports Reachable "HOL-Library.Multiset"
begin

text \<open>
  What the lifecycle operations do beyond keeping the invariant: the frame and the effect of a
  termination, the end of a worker incarnation, the authority a completion needs, the effect of an
  import. The properties of the next theories rest on these lemmas.
\<close>

section \<open>Sorting\<close>

lemma sort_by_sort: "sort_by (<) xs = sort (xs :: 'a::linorder list)"
proof -
  have "insert_by (<) x ys = insort x ys" for x :: 'a and ys by (induction ys) auto
  then show ?thesis by (induction xs) (simp_all add: sort_by_def)
qed

lemma sort_by_eq_iff: "(sort_by (<) xs = sort_by (<) ys) = (mset xs = mset (ys :: 'a::linorder list))"
  unfolding sort_by_sort by (metis mset_sort properties_for_sort sorted_sort)

section \<open>Termination\<close>

text \<open>Resource records change in their reserved slots only.\<close>

definition only_reserved :: "resource_record \<Rightarrow> resource_record \<Rightarrow> bool" where
  "only_reserved r r' \<longleftrightarrow> (\<exists>n. r' = r\<lparr>res_reserved_slots := n\<rparr>)"

lemma only_reserved_refl [simp]: "only_reserved r r"
  unfolding only_reserved_def by (rule exI [of _ "res_reserved_slots r"]) simp

lemma only_reserved_trans: "only_reserved r s \<Longrightarrow> only_reserved s t \<Longrightarrow> only_reserved r t"
  by (auto simp: only_reserved_def)

lemma only_reserved_fields:
  "only_reserved r r' \<Longrightarrow> res_id r' = res_id r \<and> res_worker r' = res_worker r \<and> res_boot r' = res_boot r \<and>
     res_lifecycle r' = res_lifecycle r \<and> res_dynamic_authoritative r' = res_dynamic_authoritative r \<and>
     res_capacity r' = res_capacity r \<and> res_generation r' = res_generation r"
  by (auto simp: only_reserved_def)

definition only_reserved_tables ::
  "(resource_id, resource_record) omap \<Rightarrow> (resource_id, resource_record) omap \<Rightarrow> bool" where
  "only_reserved_tables m m' \<longleftrightarrow> (\<forall>k. rel_option only_reserved (map_of m k) (map_of m' k))"

lemma only_reserved_tables_refl [simp]: "only_reserved_tables m m"
  by (simp add: only_reserved_tables_def option.rel_refl)

lemma only_reserved_tables_trans:
  "only_reserved_tables m m' \<Longrightarrow> only_reserved_tables m' m'' \<Longrightarrow> only_reserved_tables m m''"
proof -
  assume a: "only_reserved_tables m m'" "only_reserved_tables m' m''"
  have "rel_option only_reserved (map_of m k) (map_of m'' k)" for k
  proof -
    from a have "rel_option only_reserved (map_of m k) (map_of m' k)"
      "rel_option only_reserved (map_of m' k) (map_of m'' k)"
      by (simp_all add: only_reserved_tables_def)
    then show ?thesis
      by (cases "map_of m k"; cases "map_of m' k"; cases "map_of m'' k") (auto intro: only_reserved_trans)
  qed
  then show ?thesis by (simp add: only_reserved_tables_def)
qed

lemma only_reserved_modify: "only_reserved_tables m (om_modify i (release_claim_slots n) m)"
proof -
  have "only_reserved r (release_claim_slots n r)" for r
    by (auto simp: release_claim_slots_def only_reserved_def)
  then show ?thesis
    by (auto simp: only_reserved_tables_def map_of_om_modify option.rel_map option.rel_refl)
qed

lemma only_reserved_release: "only_reserved_tables m (release_claims cs m)"
proof (induction cs arbitrary: m)
  case (Cons c cs)
  show ?case
    using only_reserved_tables_trans [OF only_reserved_modify Cons.IH] by simp
qed simp

lemma release_reservation_frame:
  "ss_placements (snd (release_reservation rid t d st)) = ss_placements st"
  "ss_requests (snd (release_reservation rid t d st)) = ss_requests st"
  "ss_unit_current (snd (release_reservation rid t d st)) = ss_unit_current st"
  "ss_workers (snd (release_reservation rid t d st)) = ss_workers st"
  "ss_epoch (snd (release_reservation rid t d st)) = ss_epoch st"
  by (simp_all add: release_reservation_def split: option.split)

lemma release_reservation_resources:
  "only_reserved_tables (ss_resources st) (ss_resources (snd (release_reservation rid t d st)))"
  by (simp add: release_reservation_def only_reserved_release split: option.split)

lemma terminate_frame:
  "ss_workers (terminate_placement pid t d st) = ss_workers st"
  "ss_epoch (terminate_placement pid t d st) = ss_epoch st"
  by (simp_all add: terminate_placement_def Let_def revoke_reservation_def release_reservation_frame
      split: option.split)

lemma terminate_resources:
  "only_reserved_tables (ss_resources st) (ss_resources (terminate_placement pid t d st))"
proof -
  have "only_reserved_tables (ss_resources st)
      (ss_resources (snd (release_reservation rid tgt d (st\<lparr>ss_transition_sequence := n, ss_placements := ps\<rparr>))))"
    for rid tgt n ps
    using release_reservation_resources [of "st\<lparr>ss_transition_sequence := n, ss_placements := ps\<rparr>"] by simp
  then show ?thesis
    by (simp add: terminate_placement_def Let_def revoke_reservation_def split: option.split)
qed

lemma terminate_placements:
  "ss_placements (terminate_placement pid t d st) =
     (case map_of (ss_placements st) pid of
        None \<Rightarrow> ss_placements st
      | Some p \<Rightarrow> if placement_state_is_live (pl_state p)
          then om_modify pid (retire_placement t d (ss_transition_sequence st + 1)) (ss_placements st)
          else ss_placements st)"
  by (simp add: terminate_placement_def Let_def revoke_reservation_def release_reservation_frame
      retire_placement_def [abs_def] split: option.split)

lemma terminate_other_placement:
  "k \<noteq> pid \<Longrightarrow> map_of (ss_placements (terminate_placement pid t d st)) k = map_of (ss_placements st) k"
  by (simp add: terminate_placements map_of_om_modify split: option.split)

lemma terminate_not_live:
  "\<not> placement_state_is_live t \<Longrightarrow>
     map_of (ss_placements (terminate_placement pid t d st)) pid = Some q \<Longrightarrow>
     \<not> placement_state_is_live (pl_state q)"
  by (auto simp: terminate_placements map_of_om_modify split: option.splits if_splits)

lemma terminate_dom:
  "(map_of (ss_placements (terminate_placement pid t d st)) k = None) = (map_of (ss_placements st) k = None)"
  by (simp add: terminate_placements map_of_om_modify split: option.split)

text \<open>A terminated placement keeps the facts it was bound to.\<close>

lemma terminate_bound:
  assumes "map_of (ss_placements (terminate_placement pid t d st)) k = Some q"
  obtains p where "map_of (ss_placements st) k = Some p" "pl_worker q = pl_worker p"
    "pl_worker_boot q = pl_worker_boot p" "pl_resources q = pl_resources p" "pl_request q = pl_request p"
    "pl_reservation q = pl_reservation p"
    "placement_state_is_live (pl_state q) \<Longrightarrow> \<not> placement_state_is_live t \<Longrightarrow> q = p"
proof (cases "map_of (ss_placements st) pid")
  case None
  with assms show thesis by (intro that [of q]) (simp_all add: terminate_placements)
next
  case (Some p)
  show thesis
  proof (cases "placement_state_is_live (pl_state p) \<and> k = pid")
    case True
    with Some assms have "q = retire_placement t d (ss_transition_sequence st + 1) p"
      by (simp add: terminate_placements map_of_om_modify)
    with True Some show thesis by (intro that [of p]) (simp_all add: retire_placement_def)
  next
    case False
    with Some assms have "map_of (ss_placements st) k = Some q"
      by (auto simp: terminate_placements map_of_om_modify split: if_splits)
    then show thesis by (intro that [of q]) simp_all
  qed
qed

section \<open>The end of an incarnation\<close>

text \<open>A placement that is live and depends on the incarnation.\<close>

definition exposed :: "worker_id \<Rightarrow> worker_boot_id \<Rightarrow> resource_id list \<Rightarrow> scheduler_state \<Rightarrow> placement_id \<Rightarrow> bool"
where
  "exposed w b affected st k \<longleftrightarrow> (\<exists>q. map_of (ss_placements st) k = Some q \<and>
     placement_state_is_live (pl_state q) \<and> placement_touches w b affected q)"

lemma terminate_exposed:
  assumes "\<not> exposed w b af st k" and "\<not> placement_state_is_live t"
  shows "\<not> exposed w b af (terminate_placement pid t d st) k"
proof
  assume "exposed w b af (terminate_placement pid t d st) k"
  then obtain q where q: "map_of (ss_placements (terminate_placement pid t d st)) k = Some q"
    "placement_state_is_live (pl_state q)" "placement_touches w b af q"
    by (auto simp: exposed_def)
  obtain p where "map_of (ss_placements st) k = Some p"
    "placement_state_is_live (pl_state q) \<Longrightarrow> \<not> placement_state_is_live t \<Longrightarrow> q = p"
    using terminate_bound [OF q(1)] by metis
  with q assms show False by (auto simp: exposed_def)
qed

lemma invalidate_step_exposed:
  "\<not> exposed w b af (fst s) k \<Longrightarrow> \<not> exposed w b af (fst (invalidate_placement_step w b af pid s)) k"
  using invalidate_step_state [of w b af pid "fst s" "snd s"] terminate_exposed [of w b af "fst s" k]
  by auto

lemma invalidate_step_own: "\<not> exposed w b af (fst (invalidate_placement_step w b af pid s)) pid"
proof (cases "exposed w b af (fst s) pid")
  case True
  obtain st report where s: "s = (st, report)" by fastforce
  from True s have "fst (invalidate_placement_step w b af pid s) =
      terminate_placement pid PL_ReassignmentRequired lost_placement_detail st"
    by (auto simp: exposed_def invalidate_placement_step_def Let_def split: option.split)
  then show ?thesis
    using terminate_not_live [of PL_ReassignmentRequired pid lost_placement_detail st]
    by (auto simp: exposed_def)
qed (rule invalidate_step_exposed)

lemma invalidate_fold_exposed:
  "k \<in> set pids \<or> \<not> exposed w b af (fst s) k \<Longrightarrow>
     \<not> exposed w b af (fst (fold (invalidate_placement_step w b af) pids s)) k"
proof (induction pids arbitrary: s)
  case (Cons pid pids)
  have "k \<in> set pids \<or> \<not> exposed w b af (fst (invalidate_placement_step w b af pid s)) k"
    using Cons.prems invalidate_step_own [of w b af k s] invalidate_step_exposed [of w b af s k pid]
    by (cases "k = pid") auto
  from Cons.IH [OF this] show ?case by simp
qed simp

lemma invalidate_fold_resources:
  "only_reserved_tables (ss_resources (fst s))
     (ss_resources (fst (fold (invalidate_placement_step w b af) pids s)))"
proof (induction pids arbitrary: s)
  case (Cons pid pids)
  have "only_reserved_tables (ss_resources (fst s)) (ss_resources (fst (invalidate_placement_step w b af pid s)))"
    using invalidate_step_state [of w b af pid "fst s" "snd s"] terminate_resources by auto
  from only_reserved_tables_trans [OF this Cons.IH] show ?case by simp
qed simp

text \<open>The state after the end of an incarnation.\<close>

lemma invalidate_result:
  fixes cfg w b detail st
  defines "st' \<equiv> fst (invalidate_worker_incarnation cfg w b detail st)"
    and "af \<equiv> lost_resource_ids w b (ss_resources st)"
  shows "only_reserved_tables (lose_resources w b (ss_resources st)) (ss_resources st')"
    and "\<not> exposed w b af st' k"
proof -
  let ?st1 = "st\<lparr>ss_resources := lose_resources w b (ss_resources st)\<rparr>"
  let ?report = "empty_loss_report\<lparr>lr_worker := w, lr_boot := b, lr_detail := detail,
    lr_invalidated_resources := af\<rparr>"
  let ?fold = "fst (fold (invalidate_placement_step w b af) (om_keys (ss_placements st)) (?st1, ?report))"
  have res: "ss_resources st' = ss_resources ?fold" and pls: "ss_placements st' = ss_placements ?fold"
    by (simp_all add: st'_def af_def invalidate_worker_incarnation_def Let_def case_prod_beta)
  show "only_reserved_tables (lose_resources w b (ss_resources st)) (ss_resources st')"
    using invalidate_fold_resources [of "(?st1, ?report)"] by (simp add: res)
  have "k \<in> set (om_keys (ss_placements st)) \<or> \<not> exposed w b af ?st1 k"
    by (auto simp: exposed_def om_keys_def dest: map_of_SomeD intro: rev_image_eqI)
  then have "\<not> exposed w b af ?fold k" using invalidate_fold_exposed [of k _ w b af "(?st1, ?report)"] by simp
  then show "\<not> exposed w b af st' k" by (simp add: exposed_def pls)
qed

lemma invalidate_resource:
  assumes "map_of (ss_resources (fst (invalidate_worker_incarnation cfg w b detail st))) k = Some r"
  obtains r0 where "map_of (ss_resources st) k = Some r0" "res_id r = res_id r0"
    "res_worker r = res_worker r0" "res_boot r = res_boot r0"
    "incarnation_holds w b r0 \<Longrightarrow> \<not> res_dynamic_authoritative r \<and> res_lifecycle r = RL_Lost"
    "\<not> incarnation_holds w b r0 \<Longrightarrow> res_dynamic_authoritative r = res_dynamic_authoritative r0 \<and>
       res_lifecycle r = res_lifecycle r0"
proof -
  from invalidate_result(1) [of w b st cfg detail]
  have "rel_option only_reserved (map_of (lose_resources w b (ss_resources st)) k) (Some r)"
    using assms by (simp add: only_reserved_tables_def) metis
  then obtain r1 where r1: "map_of (lose_resources w b (ss_resources st)) k = Some r1" "only_reserved r1 r"
    by (cases "map_of (lose_resources w b (ss_resources st)) k") auto
  then obtain r0 where r0: "map_of (ss_resources st) k = Some r0"
    "r1 = (if incarnation_holds w b r0 then lose_incarnation r0 else r0)"
    by (auto simp: map_of_lose_resources)
  from only_reserved_fields [OF r1(2)] r0 show thesis by (intro that [OF r0(1)]) (simp_all split: if_splits)
qed

text \<open>Under the invariant a resource no live placement selects has no reserved slots.\<close>

lemma unselected_free:
  assumes inv: "state_inv ids st" and r: "map_of (ss_resources st) k = Some r"
    and free: "\<And>j q. map_of (ss_placements st) j = Some q \<Longrightarrow> placement_state_is_live (pl_state q) \<Longrightarrow>
      k \<notin> sel_resource ` set (pl_resources q)"
  shows "res_reserved_slots r = 0"
proof -
  from inv have i: "resources_inv (ss_resources st) (ss_reservations st)"
    "reservations_inv (ss_resources st) (ss_placements st) (ss_reservations st)"
    by (simp_all add: state_inv_def)
  have wf: "om_wf (ss_reservations st)" using i(2) by (simp add: reservations_inv_def keyed_def)
  have "reservation_claims k v = 0" if "v \<in> set (om_values (ss_reservations st))" for v
  proof (cases "rv_state v = RV_Active")
    case True
    from that wf obtain j where v: "map_of (ss_reservations st) j = Some v" by (auto simp: set_om_values)
    from i(2) v have "rv_id v = j" "backs (ss_placements st) v"
      unfolding reservations_inv_def keyed_def by blast+
    with True obtain p where p: "map_of (ss_placements st) (rv_placement v) = Some p"
      "placement_state_is_live (pl_state p)" "pl_reservation p = rv_id v" "rv_id v = j"
      by (auto simp: backs_def)
    obtain v' where v': "map_of (ss_reservations st) (pl_reservation p) = Some v'"
      "map cl_resource (rv_claims v') = map sel_resource (pl_resources p)"
      using live_placement_reservation [OF inv p(1,2)] by metis
    with v p have "set (map cl_resource (rv_claims v)) = sel_resource ` set (pl_resources p)"
      by (metis option.inject set_map)
    with free [OF p(1,2)] have "\<forall>c\<in>set (rv_claims v). cl_resource c \<noteq> k" by auto
    then show ?thesis by (auto simp: reservation_claims_def claims_on_def)
  qed (simp add: reservation_claims_def)
  then have "om_total (reservation_claims k) (ss_reservations st) = 0"
    by (auto simp: om_total_def om_values_def)
  with i(1) r have "unat (res_reserved_slots r) = 0" unfolding resources_inv_def by auto
  then show ?thesis by (simp add: unat_eq_0)
qed

section \<open>Completions\<close>

text \<open>The authority of a completion, spelled out.\<close>

definition claim_authorised :: "scheduler_state \<Rightarrow> completion_claim \<Rightarrow> placement_record \<Rightarrow> bool" where
  "claim_authorised st c p \<longleftrightarrow>
     cc_epoch c \<noteq> 0 \<and> cc_epoch c = ss_epoch st \<and>
     cc_experiment c \<noteq> 0 \<and> cc_experiment c = pl_experiment p \<and>
     cc_experiment_generation c \<noteq> 0 \<and> cc_experiment_generation c = pl_experiment_generation p \<and>
     cc_placement_generation c = pl_generation p \<and>
     \<not> pl_completion_recorded p \<and> placement_state_is_live (pl_state p) \<and>
     (cc_worker_boot c = 0 \<or> cc_worker_boot c = pl_worker_boot p) \<and>
     (cc_resources c = [] \<or> mset (cc_resources c) = mset (map sel_resource (pl_resources p))) \<and>
     (cc_resource_generations c = [] \<or>
        map (\<lambda>s. map_option res_generation (map_of (ss_resources st) (sel_resource s))) (pl_resources p) =
        map Some (cc_resource_generations c)) \<and>
     (\<exists>v. map_of (ss_reservations st) (pl_reservation p) = Some v \<and> rv_state v = RV_Active)"

lemma check_epoch_ok [simp]: "status_ok (check_epoch st ep) = (ep \<noteq> 0 \<and> ep = ss_epoch st)"
  by (auto simp: check_epoch_def id_validate_def)

lemma check_one_generation_ok [simp]:
  "status_ok (check_one_generation rs sg) =
     (map_option res_generation (map_of rs (sel_resource (fst sg))) = Some (snd sg))"
  by (auto simp: check_one_generation_def split: option.split)

lemma check_claimed_generations_ok [simp]:
  "status_ok (check_claimed_generations rs gens p) = (gens = [] \<or>
     map (\<lambda>s. map_option res_generation (map_of rs (sel_resource s))) (pl_resources p) = map Some gens)"
proof -
  let ?f = "\<lambda>s. map_option res_generation (map_of rs (sel_resource s))"
  have "length gens = length ss \<Longrightarrow>
      list_all status_ok (map (check_one_generation rs) (zip ss gens)) = (map ?f ss = map Some gens)" for ss
    by (induction gens ss rule: list_induct2) auto
  from this [of "pl_resources p"] show ?thesis
    unfolding check_claimed_generations_def
    by (cases "length gens = length (pl_resources p)")
      (auto simp: list_all_iff dest: map_eq_imp_length_eq)
qed

lemma check_claimed_resources_ok [simp]:
  "status_ok (check_claimed_resources xs p) =
     (xs = [] \<or> mset xs = mset (map sel_resource (pl_resources p)))"
proof -
  have "mset xs = mset (map sel_resource ss) \<Longrightarrow> length xs = length ss" for ss
    using mset_eq_length by fastforce
  then show ?thesis by (auto simp: check_claimed_resources_def sort_by_eq_iff simp del: mset_map)
qed

lemma check_backing_reservation_ok [simp]:
  "status_ok (check_backing_reservation st p) =
     (\<exists>v. map_of (ss_reservations st) (pl_reservation p) = Some v \<and> rv_state v = RV_Active)"
  by (auto simp: check_backing_reservation_def Let_def split: option.split)

lemma completion_authority_ok:
  "status_ok (completion_authority st c p) = claim_authorised st c p"
  unfolding completion_authority_def claim_authorised_def status_ok_check_all list.pred_inject
  by (auto simp: already_recorded_def not_live_status_error)

lemma report_completion_accepted:
  "co_accepted (fst (report_completion c e)) \<longleftrightarrow> cc_placement c \<noteq> 0 \<and>
     (\<exists>p. map_of (ss_placements (eng_state e)) (cc_placement c) = Some p \<and>
        claim_authorised (eng_state e) c p)"
  by (auto simp: report_completion_def Let_def empty_completion_def id_validate_def
      simp flip: completion_authority_ok split: option.split)

end
