(* ===== verification/Outcomes.thy ===== *)
theory Outcomes
  imports Effects
begin

text \<open>
  What a scheduling step promises: a specification of a correct compound placement over the records
  it was chosen from, of the capacity it takes and of the tables it writes, and the lemmas that
  \<open>schedule_locked\<close> and \<open>submit_request\<close> implement it.
\<close>

section \<open>Compound constraints\<close>

text \<open>A relation holds between the records of every pair of requirements a constraint names.\<close>

definition groups_related ::
  "(resource_record \<Rightarrow> resource_record \<Rightarrow> topology_scope \<Rightarrow> bool) \<Rightarrow> resource_requirement list \<Rightarrow>
     resource_record list \<Rightarrow> affinity_constraint \<Rightarrow> bool" where
  "groups_related P qs rs c \<longleftrightarrow> (\<forall>i<length rs. \<forall>j<length rs.
     rq_affinity_group (qs ! i) = aff_group_a c \<and> rq_affinity_group (qs ! j) = aff_group_b c \<longrightarrow>
       P (rs ! i) (rs ! j) (aff_scope c))"

definition compound_ok :: "scheduler_state \<Rightarrow> schedule_request \<Rightarrow> resource_record list \<Rightarrow> bool" where
  "compound_ok st req rs \<longleftrightarrow> distinct (map res_id rs) \<and>
     (\<forall>c\<in>set (sr_affinity req). groups_related domains_are_equal (sr_requirements req) rs c) \<and>
     (\<forall>c\<in>set (sr_anti_affinity req). groups_related domains_are_disjoint (sr_requirements req) rs c) \<and>
     (sr_experiment_anti_affinity req \<longrightarrow>
        (\<forall>r\<in>set rs. \<not> reserved_by_other_placement st (sr_experiment req) (res_id r) (sr_id req)))"

lemma set_grouped_pairs:
  "n \<le> length qs \<Longrightarrow> set (grouped_pairs qs n c) = {(i, j). i < n \<and> j < n \<and>
     rq_affinity_group (qs ! i) = aff_group_a c \<and> rq_affinity_group (qs ! j) = aff_group_b c}"
  by (auto simp: grouped_pairs_def Let_def split: if_splits)

lemma affinity_violated_iff:
  "length rs \<le> length qs \<Longrightarrow> affinity_violated qs rs c = (\<not> groups_related domains_are_equal qs rs c)"
  by (auto simp: affinity_violated_def groups_related_def list_ex_iff set_grouped_pairs)

lemma anti_affinity_violated_iff:
  "length rs \<le> length qs \<Longrightarrow>
     anti_affinity_violated qs rs c = (\<not> groups_related domains_are_disjoint qs rs c)"
  by (auto simp: anti_affinity_violated_def groups_related_def list_ex_iff set_grouped_pairs)

lemma validate_selection_iff:
  "length rs \<le> length (sr_requirements req) \<Longrightarrow> (validate_selection st req rs sel = None) =
     (compound_ok st req rs \<and> (sr_exclusive req \<longrightarrow> (\<forall>c\<in>set sel. cr_exclusive c)))"
  by (simp add: validate_selection_def compound_ok_def Let_def list_ex_iff affinity_violated_iff
      anti_affinity_violated_iff)

section \<open>A correct placement\<close>

text \<open>One entry of a placement: a registered resource that meets every hard constraint of its
  requirement, bound at its current generation and incarnation, with the slots the requirement
  needs.\<close>

definition entry_ok ::
  "schedule_request \<Rightarrow> resource_requirement \<Rightarrow> resource_record \<Rightarrow> selected_resource \<Rightarrow> bool" where
  "entry_ok req q r s \<longleftrightarrow> meets_hard_constraints req q r \<and>
     sel_resource s = res_id r \<and> sel_generation s = res_generation r \<and> sel_worker s = res_worker r \<and>
     sel_worker_boot s = res_boot r \<and> sel_resource_class s = rq_resource_class q \<and>
     sel_requirement_name s = rq_name q \<and> sel_slots s = claim_slots req q r \<and>
     sel_exclusive s = claim_exclusive req q r \<and> (sr_exclusive req \<longrightarrow> sel_exclusive s)"

definition well_placed :: "scheduler_state \<Rightarrow> schedule_request \<Rightarrow> placement_record \<Rightarrow> bool" where
  "well_placed st req p \<longleftrightarrow> length (pl_resources p) = length (sr_requirements req) \<and>
     (\<exists>rs. length rs = length (sr_requirements req) \<and> compound_ok st req rs \<and>
        (\<forall>i<length rs. map_of (ss_resources st) (sel_resource (pl_resources p ! i)) = Some (rs ! i) \<and>
           entry_ok req (sr_requirements req ! i) (rs ! i) (pl_resources p ! i)))"

lemma compound_ok_cong:
  "ss_placements st = ss_placements st' \<Longrightarrow> ss_reservations st = ss_reservations st' \<Longrightarrow>
     compound_ok st req rs = compound_ok st' req rs"
  by (simp add: compound_ok_def reserved_by_other_placement_def)

lemma well_placed_cong:
  assumes "ss_placements st = ss_placements st'" and "ss_reservations st = ss_reservations st'"
    and "ss_resources st = ss_resources st'"
  shows "well_placed st req p = well_placed st' req p"
  unfolding well_placed_def compound_ok_cong [OF assms(1,2)] assms(3) ..

lemma placed_well_placed:
  assumes inv: "state_inv ids st" and cfg: "config_ok cfg"
    and pl: "placed cfg rid req gen rcount st ids r cand p v"
  shows "well_placed st req p"
proof -
  let ?sel = "rkc_selection cand" and ?qs = "sr_requirements req"
  from pl have ch: "chosen st req (cfg_limits cfg) cand" and
    com: "commits req st (ids + 1) gen rcount ?sel p v"
    unfolding placed_def by blast+
  have lim: "max_rejection_reasons_per_entry (cfg_limits cfg) \<noteq> 0" using cfg by (simp add: config_ok_def)
  have keyed: "keyed res_id (ss_resources st)" using inv by (simp add: state_inv_def resources_inv_def)
  note len = chosen_facts(1) [OF ch]
  note facts = commits_facts [OF com len]
  from chosen_facts(3) [OF ch] obtain rs where rs: "selection_records st ?sel = Some rs"
    "validate_selection st req rs ?sel = None" by (auto simp: valid_rank_def)
  from those_map_Some [OF rs(1) [unfolded selection_records_def]]
  have lrs: "length rs = length ?qs" and
    look: "\<And>i. i < length ?qs \<Longrightarrow> map_of (ss_resources st) (cr_id (?sel ! i)) = Some (rs ! i)"
    by (simp_all add: len)
  from rs(2) lrs have comp: "compound_ok st req rs" and
    ex: "sr_exclusive req \<longrightarrow> (\<forall>c\<in>set ?sel. cr_exclusive c)"
    by (simp_all add: validate_selection_iff)
  have lp: "length (pl_resources p) = length ?qs" using facts(2) len by (metis length_map)
  have "map_of (ss_resources st) (sel_resource (pl_resources p ! i)) = Some (rs ! i) \<and>
      entry_ok req (?qs ! i) (rs ! i) (pl_resources p ! i)" if i: "i < length rs" for i
  proof -
    let ?c = "?sel ! i"
    have iq: "i < length ?qs" and isel: "i < length ?sel" using i lrs len by simp_all
    obtain r where r: "map_of (ss_resources st) (cr_id ?c) = Some r" "res_id r = cr_id ?c"
      "meets_hard_constraints req (?qs ! i) r" "cr_slots ?c = claim_slots req (?qs ! i) r"
      "cr_exclusive ?c = claim_exclusive req (?qs ! i) r"
      using claim_of_eligible [OF chosen_facts(2) [OF ch iq] lim keyed] by blast
    from look [OF iq] r(1) have rr: "r = rs ! i" by simp
    have entry: "pl_resources p ! i = select_resource ?c (rq_name (?qs ! i)) (rs ! i)"
      using facts(17) [OF isel] look [OF iq] by simp
    have "sr_exclusive req \<longrightarrow> cr_exclusive ?c" using ex isel by simp
    with r rr look [OF iq] entry show ?thesis
      by (simp add: entry_ok_def select_resource_def meets_hard_constraints_def)
  qed
  with lp lrs comp show ?thesis unfolding well_placed_def by blast
qed

section \<open>The tables after a placement\<close>

definition selected_slots :: "resource_id \<Rightarrow> placement_record \<Rightarrow> nat" where
  "selected_slots k p =
     sum_list (map (\<lambda>s. if sel_resource s = k then unat (sel_slots s) else 0) (pl_resources p))"

text \<open>\<open>takes st p st'\<close>: the placement is recorded, backed by one active reservation over exactly its
  resources, is the current one of its unit and its request, and the reserved slots of every
  resource grew by what the placement selected. The request of the placement is recorded afterwards,
  with its content unchanged if it was recorded before. No other placement, reservation, resource
  field, unit or request changes, and the workers and the epoch are as before.\<close>

definition takes :: "scheduler_state \<Rightarrow> placement_record \<Rightarrow> scheduler_state \<Rightarrow> bool" where
  "takes st p st' \<longleftrightarrow>
     pl_state p = PL_Reserved \<and> map_of (ss_placements st) (pl_id p) = None \<and>
     (\<forall>k. map_of (ss_placements st') k = (if k = pl_id p then Some p else map_of (ss_placements st) k)) \<and>
     map_of (ss_reservations st) (pl_reservation p) = None \<and>
     (\<exists>v. rv_state v = RV_Active \<and> rv_placement v = pl_id p \<and>
        rv_placement_generation v = pl_generation p \<and>
        map cl_resource (rv_claims v) = map sel_resource (pl_resources p) \<and>
        map cl_slots (rv_claims v) = map sel_slots (pl_resources p) \<and>
        (\<forall>k. map_of (ss_reservations st') k =
           (if k = pl_reservation p then Some v else map_of (ss_reservations st) k))) \<and>
     (\<forall>k. map_of (ss_resources st') k = map_option (\<lambda>r. r\<lparr>res_reserved_slots :=
        res_reserved_slots r + word_of_nat (selected_slots k p)\<rparr>) (map_of (ss_resources st) k)) \<and>
     (\<forall>u. map_of (ss_unit_current st') u =
        (if u = placement_unit p then Some (pl_id p) else map_of (ss_unit_current st) u)) \<and>
     (\<exists>s. map_of (ss_requests st') (pl_request p) = Some s \<and> st_state s = RQ_Placed \<and>
        st_current_placement s = pl_id p \<and>
        (\<forall>t. map_of (ss_requests st) (pl_request p) = Some t \<longrightarrow> st_request s = st_request t)) \<and>
     (\<forall>k. k \<noteq> pl_request p \<longrightarrow> map_of (ss_requests st') k = map_of (ss_requests st) k) \<and>
     ss_workers st' = ss_workers st \<and> ss_epoch st' = ss_epoch st"

lemma candidate_claims_selected:
  assumes "map sel_resource (pl_resources p) = map cr_id sel"
    and "map sel_slots (pl_resources p) = map cr_slots sel"
  shows "candidate_claims k sel = selected_slots k p"
proof -
  have len: "length (pl_resources p) = length sel" using assms(1) by (metis length_map)
  have "map (\<lambda>c. if cr_id c = k then unat (cr_slots c) else 0) sel =
      map (\<lambda>s. if sel_resource s = k then unat (sel_slots s) else 0) (pl_resources p)"
  proof (rule nth_equalityI)
    fix i assume "i < length (map (\<lambda>c. if cr_id c = k then unat (cr_slots c) else 0) sel)"
    then have i: "i < length sel" by simp
    from assms len i have "sel_resource (pl_resources p ! i) = cr_id (sel ! i)"
      "sel_slots (pl_resources p ! i) = cr_slots (sel ! i)"
      by (metis nth_map)+
    with i len show "map (\<lambda>c. if cr_id c = k then unat (cr_slots c) else 0) sel ! i =
        map (\<lambda>s. if sel_resource s = k then unat (sel_slots s) else 0) (pl_resources p) ! i"
      by simp
  qed (simp add: len)
  then show ?thesis by (simp add: candidate_claims_def selected_slots_def)
qed

lemma placed_takes:
  assumes inv: "state_inv ids st" and room: "ids_room ids" and rid: "rid = sr_id req"
    and known: "map_of (ss_requests st) rid \<noteq> None"
    and pl: "placed cfg rid req gen rcount st ids (r, st', ids') cand p v"
  shows "takes st p st'"
proof -
  from pl obtain decisions where
    st': "st' = push_audit cfg ''placement.committed'' (placement_summary p)
      ((record_placement rid req p v (reserve_all (rkc_selection cand) (ss_resources st)) st)
        \<lparr>ss_decisions := decisions\<rparr>)"
    and com: "commits req st (ids + 1) gen rcount (rkc_selection cand) p v"
    and ch: "chosen st req (cfg_limits cfg) cand"
    by (auto simp: placed_def)
  note facts = commits_facts [OF com chosen_facts(1) [OF ch]]
  note steps = ids_room_steps [OF room]
  have "ids < pl_id p" "ids < pl_reservation p"
    unfolding facts(7,16) word_less_nat_alt steps by simp_all
  then have fresh: "map_of (ss_placements st) (pl_id p) = None"
    "map_of (ss_reservations st) (pl_reservation p) = None"
    using fresh_ids [OF inv] by blast+
  have wf: "om_wf (ss_placements st)" "om_wf (ss_reservations st)" "om_wf (ss_unit_current st)"
    using inv by (simp_all add: state_inv_def placements_inv_def reservations_inv_def units_inv_def keyed_def)
  have vid: "rv_id v = pl_reservation p" unfolding facts(8,16) ..
  have claims: "map cl_slots (rv_claims v) = map sel_slots (pl_resources p)" unfolding facts(3,6) ..
  have unit: "request_unit req = placement_unit p" using facts(10) by simp
  note cc = candidate_claims_selected [OF facts(2,3)]
  have "map_of (ss_placements st') k = (if k = pl_id p then Some p else map_of (ss_placements st) k)" for k
    using fresh(1) wf(1) by (simp add: st' record_placement_def map_of_om_emplace)
  moreover have "map_of (ss_reservations st') k =
      (if k = pl_reservation p then Some v else map_of (ss_reservations st) k)" for k
    using fresh(2) wf(2) by (simp add: st' record_placement_def map_of_om_emplace vid)
  moreover have "map_of (ss_resources st') k = map_option (\<lambda>r. r\<lparr>res_reserved_slots :=
        res_reserved_slots r + word_of_nat (selected_slots k p)\<rparr>) (map_of (ss_resources st) k)" for k
    by (simp add: st' record_placement_def reserve_all_map cc)
  moreover have "map_of (ss_unit_current st') u =
      (if u = placement_unit p then Some (pl_id p) else map_of (ss_unit_current st) u)" for u
    using wf(3) by (simp add: st' record_placement_def map_of_om_set unit)
  moreover have "\<exists>s. map_of (ss_requests st') (pl_request p) = Some s \<and> st_state s = RQ_Placed \<and>
      st_current_placement s = pl_id p \<and>
      (\<forall>t. map_of (ss_requests st) (pl_request p) = Some t \<longrightarrow> st_request s = st_request t)"
    using known by (auto simp: st' record_placement_def facts(9) rid map_of_om_modify place_request_def)
  moreover have "map_of (ss_requests st') k = map_of (ss_requests st) k" if "k \<noteq> pl_request p" for k
    using that by (simp add: st' record_placement_def facts(9) rid map_of_om_modify)
  moreover have "ss_workers st' = ss_workers st" "ss_epoch st' = ss_epoch st"
    by (simp_all add: st' record_placement_def)
  moreover from facts(1) claims have "rv_state v = RV_Active \<and> rv_placement v = pl_id p \<and>
      rv_placement_generation v = pl_generation p \<and>
      map cl_resource (rv_claims v) = map sel_resource (pl_resources p) \<and>
      map cl_slots (rv_claims v) = map sel_slots (pl_resources p)"
    by (simp add: matching_def)
  ultimately show ?thesis unfolding takes_def using fresh facts(14) by blast
qed

section \<open>Submission\<close>

lemma store_request_tables:
  "ss_placements (store_request cfg req st) = ss_placements st"
  "ss_reservations (store_request cfg req st) = ss_reservations st"
  "ss_resources (store_request cfg req st) = ss_resources st"
  "ss_unit_current (store_request cfg req st) = ss_unit_current st"
  "ss_epoch (store_request cfg req st) = ss_epoch st"
  "ss_workers (store_request cfg req st) = ss_workers st"
  by (simp_all add: store_request_def Let_def)

text \<open>The same placement, seen from a state whose request table says less about the placed request.\<close>

lemma takes_before:
  assumes "takes st p st'" and "ss_placements st = ss_placements st0"
    and "ss_reservations st = ss_reservations st0" and "ss_resources st = ss_resources st0"
    and "ss_unit_current st = ss_unit_current st0" and "ss_workers st = ss_workers st0"
    and "ss_epoch st = ss_epoch st0"
    and "\<And>k. k \<noteq> pl_request p \<Longrightarrow> map_of (ss_requests st) k = map_of (ss_requests st0) k"
    and "\<And>t. map_of (ss_requests st0) (pl_request p) = Some t \<Longrightarrow>
      map_option st_request (map_of (ss_requests st) (pl_request p)) = Some (st_request t)"
  shows "takes st0 p st'"
proof -
  from assms(1) obtain s where s: "map_of (ss_requests st') (pl_request p) = Some s" "st_state s = RQ_Placed"
    "st_current_placement s = pl_id p"
    "\<forall>t. map_of (ss_requests st) (pl_request p) = Some t \<longrightarrow> st_request s = st_request t"
    unfolding takes_def by blast
  have "st_request s = st_request t" if "map_of (ss_requests st0) (pl_request p) = Some t" for t
    using assms(9) [OF that] s(4) by auto
  with s have "\<exists>s. map_of (ss_requests st') (pl_request p) = Some s \<and> st_state s = RQ_Placed \<and>
      st_current_placement s = pl_id p \<and>
      (\<forall>t. map_of (ss_requests st0) (pl_request p) = Some t \<longrightarrow> st_request s = st_request t)" by blast
  moreover have "\<forall>k. k \<noteq> pl_request p \<longrightarrow> map_of (ss_requests st') k = map_of (ss_requests st0) k"
    using assms(1,8) unfolding takes_def by metis
  ultimately show ?thesis using assms(1) unfolding takes_def assms(2-7) by (elim conjE, intro conjI) assumption+
qed

lemma store_request_others:
  "om_wf (ss_requests st) \<Longrightarrow> k \<noteq> sr_id req \<Longrightarrow>
     map_of (ss_requests (store_request cfg req st)) k = map_of (ss_requests st) k"
  by (simp add: store_request_def Let_def map_of_om_emplace)

lemma store_request_stored:
  "om_wf (ss_requests st) \<Longrightarrow> map_of (ss_requests st) (sr_id req) = None \<Longrightarrow>
     map_option st_request (map_of (ss_requests (store_request cfg req st)) (sr_id req)) = Some req"
  by (simp add: store_request_def Let_def map_of_om_emplace)

lemma state_inv_wf:
  assumes "state_inv ids st"
  shows "om_wf (ss_resources st)" "om_wf (ss_requests st)" "om_wf (ss_placements st)" "om_wf (ss_reservations st)"
  using assms
  by (simp_all add: state_inv_def resources_inv_def requests_inv_def placements_inv_def
      reservations_inv_def keyed_def)

text \<open>The outcomes of a submission, on the state in which the request was stored.\<close>

definition stored_state :: "schedule_request \<Rightarrow> engine \<Rightarrow> scheduler_state" where
  "stored_state request e =
     store_request (eng_config e) (normalize_schedule_request request) (eng_state e)"

lemma submit_cases:
  assumes inv: "engine_inv e" and room: "ids_room (eng_ids e)"
  obtains (rejected) status where "submit_request request e = (Inl status, e)"
      "status = submit_checks (cfg_limits (eng_config e)) (normalize_schedule_request request) (eng_state e)"
      "\<not> status_ok status"
  | (refused) d e' where "submit_request request e = (Inr d, e')" "dc_outcome d = DO_NoPlacement"
      "dc_failure d \<noteq> E_Ok"
      "refused (sr_id (normalize_schedule_request request)) (stored_state request e) (eng_ids e)
         (Inr d, eng_state e', eng_ids e')"
  | (limited) status e' where "submit_request request e = (Inl status, e')" "\<not> status_ok status"
      "status = commit_limits (cfg_limits (eng_config e)) (stored_state request e)"
      "eng_state e' = stored_state request e"
  | (placed) d e' cand v where "submit_request request e = (Inr d, e')" "dc_outcome d = DO_Placed"
      "dc_failure d = E_Ok" "dc_authority d = make_authority (dc_placement d)"
      "placed (eng_config e) (sr_id (normalize_schedule_request request)) (normalize_schedule_request request)
         0 0 (stored_state request e) (eng_ids e) (Inr d, eng_state e', eng_ids e') cand (dc_placement d) v"
proof -
  let ?req = "normalize_schedule_request request" and ?st = "stored_state request e"
  let ?status = "submit_checks (cfg_limits (eng_config e)) ?req (eng_state e)"
  let ?run = "schedule_locked (eng_config e) (sr_id ?req) ?req 0 0 ?st (eng_ids e)"
  show thesis
  proof (cases "status_ok ?status")
    case False
    then show thesis by (intro rejected) (simp_all add: submit_request_def Let_def)
  next
    case True
    then have ok: "request_ok ?req" by (auto simp: submit_checks_def intro: request_ok_validated)
    have cfg: "config_ok (eng_config e)" and st: "state_inv (eng_ids e) ?st"
      using inv state_inv_store_request [OF _ ok] by (simp_all add: engine_inv_def stored_state_def)
    obtain r st' ids' where run: "?run = (r, st', ids')" by (cases ?run) auto
    let ?e = "e\<lparr>eng_state := st', eng_ids := ids'\<rparr>"
    have sub: "submit_request request e = (r, ?e)"
      using True run by (simp add: submit_request_def Let_def stored_state_def)
    from schedule_locked_outcomes [OF st cfg ok room, of "sr_id ?req" 0 0] run
    consider "refused (sr_id ?req) ?st (eng_ids e) (r, st', ids')"
      | "limited (eng_config e) ?st (eng_ids e) (r, st', ids')"
      | cand p v where "placed (eng_config e) (sr_id ?req) ?req 0 0 ?st (eng_ids e) (r, st', ids') cand p v"
      by metis
    then show thesis
    proof cases
      case 1
      then obtain d where "r = Inr d" "dc_outcome d = DO_NoPlacement" "dc_failure d \<noteq> E_Ok"
        by (auto simp: refused_def)
      with sub 1 show thesis by (intro refused [of d ?e]) auto
    next
      case 2
      with sub show thesis by (intro limited [of _ ?e]) (auto simp: limited_def)
    next
      case 3
      then obtain d where "r = Inr d" "dc_outcome d = DO_Placed" "dc_failure d = E_Ok"
        "dc_authority d = make_authority (dc_placement d)" "dc_placement d = p"
        by (auto simp: placed_def)
      with sub 3 show thesis by (intro placed [of d ?e cand v]) auto
    qed
  qed
qed

lemma submit_placed:
  assumes "engine_inv e" and "ids_room (eng_ids e)"
    and "submit_request request e = (Inr d, e')" and "dc_outcome d = DO_Placed"
  obtains cand v where
    "placed (eng_config e) (sr_id (normalize_schedule_request request)) (normalize_schedule_request request)
       0 0 (stored_state request e) (eng_ids e) (Inr d, eng_state e', eng_ids e') cand (dc_placement d) v"
    "state_inv (eng_ids e) (stored_state request e)" "config_ok (eng_config e)"
proof (cases rule: submit_cases [OF assms(1,2), of request, case_names rejected refused limited placed])
  case (placed d' e'' cand v)
  have "status_ok (submit_checks (cfg_limits (eng_config e)) (normalize_schedule_request request) (eng_state e))"
    using assms(3) by (auto simp: submit_request_def Let_def split: if_splits)
  then have "request_ok (normalize_schedule_request request)"
    by (auto simp: submit_checks_def intro: request_ok_validated)
  then have "state_inv (eng_ids e) (stored_state request e)" "config_ok (eng_config e)"
    using assms(1) state_inv_store_request by (simp_all add: engine_inv_def stored_state_def)
  with placed assms(3) that show thesis by simp
qed (use assms(3,4) in simp_all)

end
