(* ===== verification/LabExample.thy ===== *)
theory LabExample
  imports Reachable
begin

text \<open>
  A small laboratory used to apply the properties at concrete inputs: one GPU with two slots owned
  by a worker, one request, and a state with one live placement holding one slot. The state is
  written out, so that the facts about it are evaluated by simplification.
\<close>

definition lab_config :: engine_config where
  "lab_config = \<lparr>cfg_limits = default_limits, cfg_default_weights = default_weights, cfg_id_seed = 100,
     cfg_record_audit = False\<rparr>"

definition lab_gpu :: accelerator_attachment where
  "lab_gpu = \<lparr>acc_id = 9, acc_model = ''h100'', acc_memory_bytes = 80,
     acc_compute_capability_major = 9, acc_compute_capability_minor = 0, acc_root_complex = 0\<rparr>"

definition gpu_advertisement :: "resource_id \<Rightarrow> worker_boot_id \<Rightarrow> resource_advertisement" where
  "gpu_advertisement i boot = \<lparr>adv_id = i, adv_resource_class = RC_Gpu, adv_name = ''gpu'',
     adv_worker = 7, adv_boot = boot, adv_provenance = PV_Synthetic, adv_sharing = SM_Shared,
     adv_capabilities = [],
     adv_capacity = \<lparr>rcap_slots = 2, rcap_memory_bytes = 0, rcap_max_sessions = 1\<rparr>,
     adv_current_occupancy = 0, adv_health = HS_Healthy, adv_health_detail = [],
     adv_readiness = RD_Ready, adv_topology = unknown_topology, adv_locality = empty_locality,
     adv_accelerators = [lab_gpu], adv_model = None, adv_simulator = None, adv_dataset = None,
     adv_environment = None, adv_tenant = [], adv_labels = []\<rparr>"

definition gpu_requirement :: "string \<Rightarrow> resource_requirement" where
  "gpu_requirement name = default_requirement\<lparr>rq_name := name, rq_resource_class := RC_Gpu\<rparr>"

definition lab_request :: "schedule_request_id \<Rightarrow> schedule_request" where
  "lab_request i = default_request\<lparr>sr_id := i, sr_experiment := 5, sr_experiment_generation := 1,
     sr_requirements := [gpu_requirement ''gpu'']\<rparr>"

definition lab_resource :: "u32 \<Rightarrow> resource_record" where
  "lab_resource reserved =
     (registered_record 1 (gpu_advertisement 1 3))\<lparr>res_reserved_slots := reserved\<rparr>"

definition lab_selected :: selected_resource where
  "lab_selected = \<lparr>sel_resource = 1, sel_resource_class = RC_Gpu, sel_generation = 1, sel_slots = 1,
     sel_exclusive = False, sel_requirement_name = ''gpu'', sel_worker = 7, sel_worker_boot = 3,
     sel_resource_name = ''gpu''\<rparr>"

definition lab_placement :: placement_record where
  "lab_placement = make_placement (lab_request 20) empty_state 101 102 103 104 0 0 [lab_selected]"

definition lab_reservation :: reservation_record where
  "lab_reservation = make_reservation lab_placement empty_state
     [\<lparr>cl_resource = 1, cl_slots = 1, cl_exclusive = False, cl_generation_at_acquire = 1\<rparr>]"

definition lab_stored :: stored_request where
  "lab_stored = \<lparr>st_request = lab_request 20, st_state = RQ_Placed, st_submitted_sequence = 1,
     st_current_placement = 102, st_placement_count = 1, st_detail = ''placed''\<rparr>"

definition lab_worker :: worker_record where
  "lab_worker = \<lparr>wk_id = 7, wk_boot = 3, wk_connected = True, wk_registration_sequence = 1,
     wk_detail = []\<rparr>"

definition lab_state :: scheduler_state where
  "lab_state = empty_state\<lparr>ss_workers := [(7, lab_worker)], ss_resources := [(1, lab_resource 1)],
     ss_requests := [(20, lab_stored)], ss_placements := [(102, lab_placement)],
     ss_reservations := [(103, lab_reservation)], ss_unit_current := [(UnitKey 5 1 0, 102)]\<rparr>"

definition lab_engine :: engine where
  "lab_engine = \<lparr>eng_config = lab_config, eng_ids = 104, eng_state = lab_state\<rparr>"

lemma lab_config_ok: "config_ok lab_config"
  by (simp add: config_ok_def lab_config_def default_limits_def)

lemma lab_state_simps [simp]:
  "ss_epoch lab_state = 1" "ss_workers lab_state = [(7, lab_worker)]"
  "ss_resources lab_state = [(1, lab_resource 1)]" "ss_requests lab_state = [(20, lab_stored)]"
  "ss_placements lab_state = [(102, lab_placement)]" "ss_reservations lab_state = [(103, lab_reservation)]"
  "ss_unit_current lab_state = [(UnitKey 5 1 0, 102)]" "\<not> ss_shutting_down lab_state"
  by (simp_all add: lab_state_def empty_state_def)

lemma lab_engine_simps [simp]:
  "eng_config lab_engine = lab_config" "eng_ids lab_engine = 104" "eng_state lab_engine = lab_state"
  by (simp_all add: lab_engine_def)

lemma lab_placement_simps [simp]:
  "pl_id lab_placement = 102" "pl_generation lab_placement = 1" "pl_request lab_placement = 20"
  "pl_resources lab_placement = [lab_selected]" "pl_state lab_placement = PL_Reserved"
  "pl_reservation lab_placement = 103" "placement_unit lab_placement = UnitKey 5 1 0"
  "pl_experiment lab_placement = 5" "pl_experiment_generation lab_placement = 1"
  "pl_worker lab_placement = 7" "pl_worker_boot lab_placement = 3"
  "\<not> pl_completion_recorded lab_placement" "pl_reassignment_count lab_placement = 0"
  by (simp_all add: lab_placement_def make_placement_def lab_request_def default_request_def
      placement_unit_def choose_worker_def lab_selected_def)

lemma lab_reservation_simps [simp]:
  "rv_id lab_reservation = 103" "rv_state lab_reservation = RV_Active" "rv_placement lab_reservation = 102"
  "rv_placement_generation lab_reservation = 1"
  "rv_claims lab_reservation =
     [\<lparr>cl_resource = 1, cl_slots = 1, cl_exclusive = False, cl_generation_at_acquire = 1\<rparr>]"
  by (simp_all add: lab_reservation_def make_reservation_def)

lemma lab_resource_simps [simp]:
  "res_id (lab_resource n) = 1" "res_reserved_slots (lab_resource n) = n"
  "rcap_slots (res_capacity (lab_resource n)) = 2" "res_advertised_occupancy (lab_resource n) = 0"
  "res_lifecycle (lab_resource n) = RL_Current" "res_worker (lab_resource n) = 7"
  "res_boot (lab_resource n) = 3" "res_dynamic_authoritative (lab_resource n)"
  "res_generation (lab_resource n) = 1" "res_resource_class (lab_resource n) = RC_Gpu"
  by (simp_all add: lab_resource_def registered_record_def gpu_advertisement_def)

lemma lab_selected_simps [simp]:
  "sel_resource lab_selected = 1" "sel_slots lab_selected = 1"
  by (simp_all add: lab_selected_def)

lemma lab_stored_simps [simp]:
  "st_request lab_stored = lab_request 20" "st_current_placement lab_stored = 102"
  by (simp_all add: lab_stored_def)

lemma lab_request_simps [simp]: "sr_id (lab_request i) = i" "sr_max_reassignments (lab_request i) = 3"
  by (simp_all add: lab_request_def default_request_def)

lemma lab_worker_simps [simp]: "wk_id lab_worker = 7" "wk_boot lab_worker = 3"
  by (simp_all add: lab_worker_def)

lemma lab_request_ok: "request_ok (lab_request i)"
  by (simp add: request_ok_def lab_request_def default_request_def gpu_requirement_def
      default_requirement_def)

lemma lab_state_inv: "state_inv 104 lab_state"
proof -
  have "resources_inv (ss_resources lab_state) (ss_reservations lab_state)"
    by (simp add: resources_inv_def keyed_def om_wf_def resource_ok_def om_total_def reservation_claims_def)
  moreover have "requests_inv (ss_requests lab_state)"
    by (simp add: requests_inv_def keyed_def om_wf_def lab_request_ok)
  moreover have "reservations_inv (ss_resources lab_state) (ss_placements lab_state) (ss_reservations lab_state)"
    by (simp add: reservations_inv_def keyed_def om_wf_def reservation_ok_def backs_def)
  moreover have "placements_inv (ss_resources lab_state) (ss_requests lab_state) (ss_reservations lab_state)
      (ss_placements lab_state)"
    by (simp add: placements_inv_def keyed_def om_wf_def placement_ok_def backed_def)
  moreover have "units_inv (ss_placements lab_state) (ss_unit_current lab_state)"
    by (simp add: units_inv_def om_wf_def)
  moreover have "ids_inv 104 (ss_placements lab_state) (ss_reservations lab_state)"
    by (auto simp: ids_inv_def word_le_nat_alt split: if_splits)
  moreover have "keyed wk_id (ss_workers lab_state)" by (simp add: keyed_def om_wf_def)
  ultimately show ?thesis by (simp add: state_inv_def)
qed

lemma lab_engine_inv: "engine_inv lab_engine"
  by (simp add: engine_inv_def lab_config_ok lab_state_inv)

section \<open>The idle laboratory\<close>

definition lab_idle :: engine where
  "lab_idle = \<lparr>eng_config = lab_config, eng_ids = 100, eng_state =
     empty_state\<lparr>ss_workers := [(7, lab_worker)], ss_resources := [(1, lab_resource 0)]\<rparr>\<rparr>"

lemma lab_idle_simps [simp]:
  "eng_config lab_idle = lab_config" "eng_ids lab_idle = 100"
  "ss_resources (eng_state lab_idle) = [(1, lab_resource 0)]" "ss_requests (eng_state lab_idle) = []"
  "ss_placements (eng_state lab_idle) = []" "ss_reservations (eng_state lab_idle) = []"
  "ss_unit_current (eng_state lab_idle) = []" "ss_workers (eng_state lab_idle) = [(7, lab_worker)]"
  by (simp_all add: lab_idle_def empty_state_def)

lemma lab_idle_inv: "engine_inv lab_idle"
proof -
  have "resources_inv [(1, lab_resource 0)] []"
    by (simp add: resources_inv_def keyed_def om_wf_def resource_ok_def om_total_def)
  then have "state_inv 100 (eng_state lab_idle)"
    by (simp add: state_inv_def requests_inv_def reservations_inv_def placements_inv_def units_inv_def
        ids_inv_def keyed_def om_wf_def)
  then show ?thesis by (simp add: engine_inv_def lab_config_ok)
qed

lemma lab_ids_room: "ids_room (eng_ids lab_idle)" "ids_room (eng_ids lab_engine)"
  by (simp_all add: ids_room_def)

text \<open>A request no resource of the laboratory can serve.\<close>

definition model_request :: schedule_request where
  "model_request = (lab_request 21)\<lparr>sr_requirements :=
     [default_requirement\<lparr>rq_name := ''model'', rq_resource_class := RC_Model\<rparr>]\<rparr>"

end
