(* ===== verification/SchedulingLaws.thy ===== *)
theory SchedulingLaws
  imports Outcomes LabExample
begin

text \<open>
  The properties of scheduling: what a granted placement guarantees, what it takes from the ledger,
  that it is the best of the explored combinations, when a request is refused, and the bounds of the
  scores and of the search. Each is applied to the laboratory of \<open>LabExample\<close> at the end.
\<close>

section \<open>Refusals\<close>

lemma schedule_no_placement:
  assumes "schedule_locked cfg rid req gen rcount st ids = (Inr d, st', ids')"
    and "dc_outcome d = DO_NoPlacement"
  shows "blocked_plan (build_plans st req (cfg_limits cfg)) \<noteq> None \<or>
    so_candidates (run_search st req (cfg_limits cfg)
      (map rp_candidates (build_plans st req (cfg_limits cfg)))) = []"
proof (rule ccontr)
  assume "\<not> ?thesis"
  then have "blocked_plan (build_plans st req (cfg_limits cfg)) = None"
    "so_candidates (run_search st req (cfg_limits cfg)
      (map rp_candidates (build_plans st req (cfg_limits cfg)))) \<noteq> []" by simp_all
  with assms(1) obtain x e cands where
    "commit_best cfg rid req gen rcount x e cands st (ids + 1) = (Inr d, st', ids')"
    by (simp add: schedule_locked_def ids_next_def Let_def)
  then have "dc_outcome d = DO_Placed"
    by (auto simp: commit_best_def Let_def case_prod_beta split: if_splits option.splits)
  with assms(2) show False by simp
qed

lemma distinct_candidates_Nil:
  "distinct_candidates st {} cs = [] \<Longrightarrow> c \<in> set cs \<Longrightarrow> map_of (ss_resources st) (cr_id c) = None"
proof (induction cs)
  case (Cons a cs)
  then have "map_of (ss_resources st) (cr_id a) = None"
    by (auto simp: Let_def split: option.splits)
  with Cons show ?case by auto
qed simp

lemma blocked_requirement:
  assumes inv: "state_inv ids st" and "max_rejection_reasons_per_entry lim \<noteq> 0"
    and "max_candidate_resources_per_requirement lim \<noteq> 0"
    and "rp_candidates (fst (build_plan st req lim q)) = []"
    and "map_of (ss_resources st) k = Some r"
  shows "\<not> meets_hard_constraints req q r"
proof
  assume "meets_hard_constraints req q r"
  with assms(2) have el: "el_eligible (evaluate_resource req q r lim)"
    by (simp add: evaluate_resource_eligible_iff)
  from inv have keyed: "keyed res_id (ss_resources st)" by (simp add: state_inv_def resources_inv_def)
  let ?c = "make_candidate st req q r (evaluate_resource req q r lim)"
  have "r \<in> set (om_values (ss_resources st))" using keyed assms(5) by (auto simp: set_om_values keyed_def)
  with el have mem: "?c \<in> set (rp_candidates (eligible_plan st req lim q))"
    by (auto simp: eligible_plan_candidates)
  have "0 < unat (max_candidate_resources_per_requirement lim)" using assms(3) by (simp add: unat_gt_0)
  with assms(4) have "distinct_candidates st {} (sort_by candidate_order
      (rp_candidates (eligible_plan st req lim q))) = []"
    by (simp add: build_plan_candidates distinct_plan_candidates)
  from distinct_candidates_Nil [OF this, of ?c] mem
  have "map_of (ss_resources st) (res_id r) = None" by (simp add: make_candidate_def Let_def)
  with keyed assms(5) show False by (simp add: keyed_def)
qed

lemma submit_run:
  assumes "submit_request request e = (Inr d, e')"
  shows "schedule_locked (eng_config e) (sr_id (normalize_schedule_request request))
      (normalize_schedule_request request) 0 0 (stored_state request e) (eng_ids e) =
      (Inr d, eng_state e', eng_ids e')"
    and "status_ok (submit_checks (cfg_limits (eng_config e)) (normalize_schedule_request request) (eng_state e))"
  using assms by (auto simp: submit_request_def Let_def stored_state_def case_prod_beta split: if_splits
      intro!: prod_eqI)

lemma submit_weights:
  "submit_request request e = (Inr d, e') \<Longrightarrow>
     weights_checked (sr_weights (normalize_schedule_request request))"
  using submit_run(2) validate_request_facts(6,7) by (fastforce simp: submit_checks_def weights_checked_def)

lemma selection_records_cong: "ss_resources st = ss_resources st' \<Longrightarrow> selection_records st = selection_records st'"
  by (simp add: selection_records_def [abs_def])

lemma placed_parts:
  assumes "placed cfg rid req gen rcount st ids (Inr d, st', ids') cand p v"
  shows "chosen st req (cfg_limits cfg) cand"
    and "commits req st (ids + 1) gen rcount (rkc_selection cand) p v"
    and "dc_authority d = make_authority p"
    and "chosen st req (cfg_limits cfg) other \<Longrightarrow> \<not> candidate_is_better other cand"
  using assms unfolding placed_def prod.inject sum.inject by blast+

text \<open>The candidate lists the search runs over.\<close>

abbreviation submitted_plans :: "schedule_request \<Rightarrow> engine \<Rightarrow> candidate_resource list list" where
  "submitted_plans request e \<equiv> map rp_candidates (build_plans (stored_state request e)
     (normalize_schedule_request request) (cfg_limits (eng_config e)))"

abbreviation submitted_search :: "schedule_request \<Rightarrow> engine \<Rightarrow> search_outcome" where
  "submitted_search request e \<equiv> run_search (stored_state request e) (normalize_schedule_request request)
     (cfg_limits (eng_config e)) (submitted_plans request e)"

lemma submitted_optimal:
  assumes "config_ok (eng_config e)" and "weights_checked (sr_weights (normalize_schedule_request request))"
    and "length (sr_requirements request) \<le> 2 ^ 29" and "\<not> so_truncated (submitted_search request e)"
    and "sel \<in> set (selections (submitted_plans request e))"
    and "valid_rank (stored_state request e) (normalize_schedule_request request) sel other"
  shows "\<exists>c\<in>set (so_candidates (submitted_search request e)). \<not> candidate_is_better other c"
proof (rule run_search_optimal)
  show "max_candidates_ranked (cfg_limits (eng_config e)) \<noteq> 0" using assms(1) by (simp add: config_ok_def)
  show "length (submitted_plans request e) \<le> 2 ^ 29"
    using assms(3) by (simp add: build_plans_def normalize_schedule_request_def)
qed (use assms build_plans_ranked in simp_all)

section \<open>Granted placements\<close>

text \<open>C1. A placement granted by \<open>submit_request\<close> is correct as a whole: it binds one registered
  resource per requirement, each meets every hard constraint of its requirement and is bound at its
  current generation and worker incarnation with the slots the requirement claims; the resources are
  pairwise distinct and satisfy the affinity, anti-affinity and experiment isolation constraints
  together.\<close>

theorem submit_placement_sound:
  assumes "engine_inv e" and "ids_room (eng_ids e)"
    and "submit_request request e = (Inr d, e')" and "dc_outcome d = DO_Placed"
  shows "well_placed (eng_state e) (normalize_schedule_request request) (dc_placement d)"
proof -
  obtain cand v where p: "placed (eng_config e) (sr_id (normalize_schedule_request request))
      (normalize_schedule_request request) 0 0 (stored_state request e) (eng_ids e)
      (Inr d, eng_state e', eng_ids e') cand (dc_placement d) v"
    "state_inv (eng_ids e) (stored_state request e)" "config_ok (eng_config e)"
    by (rule submit_placed [OF assms])
  from placed_well_placed [OF p(2,3,1)] show ?thesis
    using well_placed_cong [of "stored_state request e" "eng_state e"]
    by (simp add: stored_state_def store_request_tables)
qed

text \<open>C2. A granted placement is committed atomically: the new placement is recorded under a fresh
  identity, one active reservation claims exactly its resources and slots, the reserved slots of each
  resource grow by what was selected, the placement becomes the current one of its unit, the request
  is recorded under its identity, which was free, with the normalized content of the submission and
  the placement as its current one, the returned authority envelope repeats the placement, and no
  other placement, reservation, unit, request or resource field changes, nor a worker or the epoch.\<close>

theorem submit_placement_recorded:
  assumes "engine_inv e" and "ids_room (eng_ids e)"
    and "submit_request request e = (Inr d, e')" and "dc_outcome d = DO_Placed"
  shows "takes (eng_state e) (dc_placement d) (eng_state e') \<and>
    pl_request (dc_placement d) = sr_id (normalize_schedule_request request) \<and>
    map_of (ss_requests (eng_state e)) (pl_request (dc_placement d)) = None \<and>
    (\<exists>s. map_of (ss_requests (eng_state e')) (pl_request (dc_placement d)) = Some s \<and>
       st_request s = normalize_schedule_request request) \<and>
    dc_authority d = make_authority (dc_placement d) \<and>
    pl_epoch (dc_placement d) = ss_epoch (eng_state e) \<and> pl_generation (dc_placement d) = 1"
proof -
  obtain cand v where p: "placed (eng_config e) (sr_id (normalize_schedule_request request))
      (normalize_schedule_request request) 0 0 (stored_state request e) (eng_ids e)
      (Inr d, eng_state e', eng_ids e') cand (dc_placement d) v"
    "state_inv (eng_ids e) (stored_state request e)" "config_ok (eng_config e)"
    by (rule submit_placed [OF assms])
  let ?req = "normalize_schedule_request request" and ?st = "stored_state request e"
  note parts = placed_parts [OF p(1)]
  note facts = commits_facts [OF parts(2) chosen_facts(1) [OF parts(1)]]
  have new: "map_of (ss_requests (eng_state e)) (sr_id ?req) = None"
    using submit_run(2) [OF assms(3)] by (auto simp: submit_checks_def)
  have "state_inv (eng_ids e) (eng_state e)" using assms(1) by (simp add: engine_inv_def)
  note wf = state_inv_wf(2) [OF this]
  note stored = store_request_stored [OF wf new, of "eng_config e", folded stored_state_def]
  then have known: "map_of (ss_requests ?st) (sr_id ?req) \<noteq> None" by auto
  note takes = placed_takes [OF p(2) assms(2) refl known p(1)]
  have "takes (eng_state e) (dc_placement d) (eng_state e')"
    by (rule takes_before [OF takes])
      (use new store_request_others [OF wf] in \<open>simp_all add: facts(9) stored_state_def store_request_tables\<close>)
  moreover from takes stored have "\<exists>s. map_of (ss_requests (eng_state e')) (pl_request (dc_placement d)) = Some s \<and>
      st_request s = ?req" unfolding takes_def facts(9) by auto
  ultimately show ?thesis
    using parts(3) facts(9,11,13) new by (simp add: stored_state_def store_request_tables)
qed

text \<open>C3. The granted placement is optimal: when the exploration was not cut off by its evaluation
  bound, no selection of one candidate per requirement that satisfies the compound constraints ranks
  better than the committed one, under the total order of score and canonical tie break. The pruning
  of the search never loses the best selection.\<close>

theorem submit_placement_optimal:
  assumes "engine_inv e" and "ids_room (eng_ids e)"
    and "submit_request request e = (Inr d, e')" and "dc_outcome d = DO_Placed"
    and "length (sr_requirements request) \<le> 2 ^ 29"
    and "\<not> so_truncated (submitted_search request e)"
  shows "\<exists>best. map cr_id (rkc_selection best) = map sel_resource (pl_resources (dc_placement d)) \<and>
    rkc_selection best \<in> set (selections (submitted_plans request e)) \<and>
    valid_rank (stored_state request e) (normalize_schedule_request request) (rkc_selection best) best \<and>
    (\<forall>sel\<in>set (selections (submitted_plans request e)). \<forall>other.
       valid_rank (stored_state request e) (normalize_schedule_request request) sel other \<longrightarrow>
         \<not> candidate_is_better other best)"
proof -
  let ?st = "stored_state request e" and ?req = "normalize_schedule_request request"
    and ?plans = "submitted_plans request e" and ?lim = "cfg_limits (eng_config e)"
  obtain best v where p: "placed (eng_config e) (sr_id ?req) ?req 0 0 ?st (eng_ids e)
      (Inr d, eng_state e', eng_ids e') best (dc_placement d) v" and cfg: "config_ok (eng_config e)"
    by (rule submit_placed [OF assms(1-4)])
  note ch = placed_parts(1) [OF p] and com = placed_parts(2) [OF p] and top = placed_parts(4) [OF p]
  have "\<not> candidate_is_better other best"
    if sel: "sel \<in> set (selections ?plans)" "valid_rank ?st ?req sel other" for sel other
  proof -
    obtain c where c: "c \<in> set (so_candidates (submitted_search request e))" "\<not> candidate_is_better other c"
      using submitted_optimal [OF cfg submit_weights [OF assms(3)] assms(5,6) sel] by blast
    have "\<not> candidate_is_better c best" using c(1) by (intro top) (simp add: chosen_def)
    with c(2) show ?thesis by (rule weak_order_trans [OF candidate_is_better_weak_order])
  qed
  moreover have "rkc_selection best \<in> set (selections ?plans)" "valid_rank ?st ?req (rkc_selection best) best"
    using run_search_valid [OF ch [unfolded chosen_def]] by simp_all
  ultimately show ?thesis using commits_facts(2) [OF com chosen_facts(1) [OF ch]] by (metis (no_types, lifting))
qed

lemma selections_list_all2: "list_all2 (\<lambda>c plan. c \<in> set plan) sel plans \<Longrightarrow> sel \<in> set (selections plans)"
  by (induction rule: list_all2_induct) (auto simp: set_selections_Cons)

lemma those_map_SomeI:
  "length ys = length xs \<Longrightarrow> (\<And>i. i < length xs \<Longrightarrow> f (xs ! i) = Some (ys ! i)) \<Longrightarrow> those (map f xs) = Some ys"
proof (induction xs arbitrary: ys)
  case (Cons x xs)
  then obtain z zs where ys: "ys = z # zs" by (cases ys) auto
  have "f x = Some z" using Cons.prems(2) [of 0] ys by simp
  moreover have "f (xs ! i) = Some (zs ! i)" if "i < length xs" for i
    using Cons.prems(2) [of "Suc i"] that ys by simp
  with Cons.prems(1) ys have "those (map f xs) = Some zs" by (intro Cons.IH) simp_all
  ultimately show ?case using ys by simp
qed simp

text \<open>Neither the deduplication nor the bound of the candidate lists dropped an eligible resource.\<close>

definition lossless :: "scheduler_state \<Rightarrow> schedule_request \<Rightarrow> limits \<Rightarrow> bool" where
  "lossless st req lim \<longleftrightarrow> (\<forall>q\<in>set (sr_requirements req). \<forall>k r. map_of (ss_resources st) k = Some r \<longrightarrow>
     meets_hard_constraints req q r \<longrightarrow> k \<in> cr_id ` set (rp_candidates (fst (build_plan st req lim q))))"

lemma well_placed_meets:
  assumes "well_placed st req p" and "q \<in> set (sr_requirements req)"
  shows "\<exists>k r. map_of (ss_resources st) k = Some r \<and> meets_hard_constraints req q r"
proof -
  from assms(2) obtain i where i: "i < length (sr_requirements req)" "q = sr_requirements req ! i"
    by (auto simp: in_set_conv_nth)
  from assms(1) obtain rs where "length rs = length (sr_requirements req)"
    "\<forall>i<length rs. map_of (ss_resources st) (sel_resource (pl_resources p ! i)) = Some (rs ! i) \<and>
      entry_ok req (sr_requirements req ! i) (rs ! i) (pl_resources p ! i)" unfolding well_placed_def by blast
  with i show ?thesis unfolding entry_ok_def by metis
qed

text \<open>Then every correct placement is one of the selections the search runs over.\<close>

lemma well_placed_selection:
  assumes inv: "state_inv ids st" and lim: "max_rejection_reasons_per_entry lim \<noteq> 0"
    and kept: "lossless st req lim" and p: "well_placed st req p"
  obtains sel rs where "sel \<in> set (selections (map rp_candidates (build_plans st req lim)))"
    and "selection_records st sel = Some rs" and "validate_selection st req rs sel = None"
proof -
  let ?qs = "sr_requirements req" and ?plan = "\<lambda>q. rp_candidates (fst (build_plan st req lim q))"
  have keyed: "keyed res_id (ss_resources st)" using inv by (simp add: state_inv_def resources_inv_def)
  from p obtain rs where len: "length rs = length ?qs" and comp: "compound_ok st req rs" and
    entry: "\<And>i. i < length ?qs \<Longrightarrow> map_of (ss_resources st) (sel_resource (pl_resources p ! i)) = Some (rs ! i) \<and>
      entry_ok req (?qs ! i) (rs ! i) (pl_resources p ! i)" by (auto simp: well_placed_def)
  have "\<exists>c. c \<in> set (?plan (?qs ! i)) \<and> map_of (ss_resources st) (cr_id c) = Some (rs ! i) \<and>
      (sr_exclusive req \<longrightarrow> cr_exclusive c)" if i: "i < length ?qs" for i
  proof -
    from entry [OF i] have e: "meets_hard_constraints req (?qs ! i) (rs ! i)"
      "sr_exclusive req \<longrightarrow> claim_exclusive req (?qs ! i) (rs ! i)" by (auto simp: entry_ok_def)
    with kept entry [OF i] i obtain c where c: "c \<in> set (?plan (?qs ! i))"
      "cr_id c = sel_resource (pl_resources p ! i)" unfolding lossless_def by force
    from claim_of_eligible [OF build_plan_claims [OF c(1)] lim keyed] obtain r where
      "map_of (ss_resources st) (cr_id c) = Some r" "cr_exclusive c = claim_exclusive req (?qs ! i) r" by blast
    with c entry [OF i] e(2) show ?thesis by auto
  qed
  then obtain f where f: "\<And>i. i < length ?qs \<Longrightarrow> f i \<in> set (?plan (?qs ! i)) \<and>
      map_of (ss_resources st) (cr_id (f i)) = Some (rs ! i) \<and> (sr_exclusive req \<longrightarrow> cr_exclusive (f i))"
    by metis
  let ?sel = "map f [0..<length ?qs]"
  show thesis
  proof (rule that)
    show "?sel \<in> set (selections (map rp_candidates (build_plans st req lim)))"
      by (rule selections_list_all2) (simp add: list_all2_conv_all_nth build_plans_def f)
    show "selection_records st ?sel = Some rs"
      unfolding selection_records_def by (rule those_map_SomeI) (simp_all add: len f)
    show "validate_selection st req rs ?sel = None"
      using comp f by (auto simp: validate_selection_iff len)
  qed
qed

text \<open>C19. A refusal is justified. \<open>submit_request\<close> answers NO_PLACEMENT without a cut-off of the search only
  if some requirement is met by no registered resource, or every selection of one kept candidate per
  requirement violates a compound constraint; the kept candidates are those left by the deduplication
  and by the bound of the candidate lists, which allows at least one. If these two dropped no eligible
  resource, the refusal is complete: no placement that would be correct in the sense of C1 exists.\<close>

theorem submit_refusal_justified:
  assumes "engine_inv e" and "ids_room (eng_ids e)"
    and "submit_request request e = (Inr d, e')" and "dc_outcome d = DO_NoPlacement"
    and "length (sr_requirements request) \<le> 2 ^ 29"
    and "max_candidate_resources_per_requirement (cfg_limits (eng_config e)) \<noteq> 0"
    and "\<not> so_truncated (submitted_search request e)"
  shows "((\<exists>q\<in>set (sr_requirements (normalize_schedule_request request)).
      \<forall>k r. map_of (ss_resources (eng_state e)) k = Some r \<longrightarrow>
        \<not> meets_hard_constraints (normalize_schedule_request request) q r) \<or>
    (\<forall>sel\<in>set (selections (submitted_plans request e)). \<forall>records.
      selection_records (eng_state e) sel = Some records \<longrightarrow>
        validate_selection (stored_state request e) (normalize_schedule_request request) records sel \<noteq> None)) \<and>
    (lossless (stored_state request e) (normalize_schedule_request request) (cfg_limits (eng_config e)) \<longrightarrow>
      \<not> (\<exists>p. well_placed (eng_state e) (normalize_schedule_request request) p))"
proof -
  let ?st = "stored_state request e" and ?req = "normalize_schedule_request request"
    and ?plans = "submitted_plans request e" and ?lim = "cfg_limits (eng_config e)"
  have cfg: "config_ok (eng_config e)" "state_inv (eng_ids e) (eng_state e)"
    using assms(1) by (simp_all add: engine_inv_def)
  have "request_ok ?req"
    using submit_run(2) [OF assms(3)] by (auto simp: submit_checks_def intro: request_ok_validated)
  then have inv: "state_inv (eng_ids e) ?st"
    unfolding stored_state_def by (rule state_inv_store_request [OF cfg(2)])
  have same: "ss_resources ?st = ss_resources (eng_state e)" by (simp add: stored_state_def store_request_tables)
  have justified: "(\<exists>q\<in>set (sr_requirements ?req). \<forall>k r. map_of (ss_resources (eng_state e)) k = Some r \<longrightarrow>
        \<not> meets_hard_constraints ?req q r) \<or>
    (\<forall>sel\<in>set (selections ?plans). \<forall>records. selection_records (eng_state e) sel = Some records \<longrightarrow>
        validate_selection ?st ?req records sel \<noteq> None)"
    using schedule_no_placement [OF submit_run(1) [OF assms(3)] assms(4)]
  proof
    assume "blocked_plan (build_plans ?st ?req ?lim) \<noteq> None"
    then obtain q where "q \<in> set (sr_requirements ?req)" "rp_candidates (fst (build_plan ?st ?req ?lim q)) = []"
      by (auto simp: build_plans_def dest!: blocked_plan_Some)
    with blocked_requirement [OF inv _ assms(6) this(2)] cfg(1) show ?thesis
      unfolding same config_ok_def by blast
  next
    assume none: "so_candidates (submitted_search request e) = []"
    have "validate_selection ?st ?req records sel \<noteq> None"
      if "sel \<in> set (selections ?plans)" "selection_records (eng_state e) sel = Some records" for sel records
    proof
      assume "validate_selection ?st ?req records sel = None"
      with that(2) have "valid_rank ?st ?req sel (rank_selection ?st ?req sel records)"
        unfolding valid_rank_def selection_records_cong [OF same] by blast
      from submitted_optimal [OF cfg(1) submit_weights [OF assms(3)] assms(5,7) that(1) this] none
      show False by simp
    qed
    then show ?thesis by blast
  qed
  moreover have False if kept: "lossless ?st ?req ?lim" and "well_placed (eng_state e) ?req p" for p
  proof -
    have "well_placed ?st ?req p"
      using that(2) well_placed_cong [of ?st "eng_state e"] by (simp add: stored_state_def store_request_tables)
    from well_placed_selection [OF inv _ kept this] cfg(1) obtain sel rs where
      s: "sel \<in> set (selections ?plans)" "selection_records ?st sel = Some rs" "validate_selection ?st ?req rs sel = None"
      unfolding config_ok_def by blast
    from well_placed_meets [OF that(2)] justified s show False
      unfolding selection_records_cong [OF same] by blast
  qed
  ultimately show ?thesis by blast
qed

text \<open>C28. An error never touches the ledger: a submission that returns an error either leaves the
  whole engine unchanged, with the status of its first failing guard, or is RESOURCE_EXHAUSTED after
  a complete search, and then no resource, placement, reservation or unit changed.\<close>

theorem submit_error_frame:
  assumes "engine_inv e" and "ids_room (eng_ids e)" and "submit_request request e = (Inl status, e')"
  shows "\<not> status_ok status \<and> (e' = e \<or>
    (\<exists>msg. status = Status E_ResourceExhausted msg) \<and>
    ss_resources (eng_state e') = ss_resources (eng_state e) \<and>
    ss_placements (eng_state e') = ss_placements (eng_state e) \<and>
    ss_reservations (eng_state e') = ss_reservations (eng_state e) \<and>
    ss_unit_current (eng_state e') = ss_unit_current (eng_state e))"
proof (cases rule: submit_cases [OF assms(1,2), of request, case_names rejected refused limited placed])
  case (limited status' e'')
  have "(\<exists>msg. s = Status E_ResourceExhausted msg) \<or> status_ok s"
    if "s = commit_limits (cfg_limits (eng_config e)) (stored_state request e)" for s
    unfolding that by (simp add: commit_limits_def fail_if_def check_then_def)
  with limited assms(3) show ?thesis by (auto simp: stored_state_def store_request_tables)
qed (use assms(3) in simp_all)

lemma unit_busy:
  assumes "engine_inv e" and "map_of (ss_unit_current (eng_state e)) (request_unit request) = Some k"
  shows "\<exists>status. submit_request request e = (Inl status, e) \<and> \<not> status_ok status"
proof -
  have "units_inv (ss_placements (eng_state e)) (ss_unit_current (eng_state e))"
    using assms(1) by (simp add: engine_inv_def state_inv_def)
  with assms(2) obtain p where "map_of (ss_placements (eng_state e)) k = Some p"
    "placement_state_is_live (pl_state p)" by (auto simp: units_inv_def)
  moreover have "request_unit (normalize_schedule_request request) = request_unit request"
    by (simp add: request_unit_def normalize_schedule_request_def)
  ultimately have "\<not> status_ok (submit_checks (cfg_limits (eng_config e))
      (normalize_schedule_request request) (eng_state e))"
    using assms(2) by (simp add: submit_checks_def)
  then show ?thesis by (simp add: submit_request_def Let_def)
qed

text \<open>One current placement per schedulable unit: while a unit has a current placement, every
  submission for that unit is rejected and changes nothing.\<close>

theorem submit_unit_exclusive:
  assumes "engine_inv e" and "map_of (ss_unit_current (eng_state e)) (request_unit request) = Some k"
  shows "\<exists>status. submit_request request e = (Inl status, e) \<and> \<not> status_ok status"
  using assms by (rule unit_busy)

section \<open>Eligibility and ranking\<close>

text \<open>C29. The hard filter is exact: a resource is eligible for a requirement if and only if it meets
  the conjunction of all hard constraints, an eligible resource is given the slots and exclusivity of
  its claim, and an ineligible one of the right class is reported with at least one and at most the
  configured number of reasons.\<close>

theorem evaluate_resource_exact:
  assumes "max_rejection_reasons_per_entry lim \<noteq> 0"
  shows "el_eligible (evaluate_resource req q r lim) = meets_hard_constraints req q r \<and>
    (meets_hard_constraints req q r \<longrightarrow> el_slots (evaluate_resource req q r lim) = claim_slots req q r \<and>
       el_exclusive (evaluate_resource req q r lim) = claim_exclusive req q r) \<and>
    (\<not> meets_hard_constraints req q r \<longrightarrow> el_reasons (evaluate_resource req q r lim) \<noteq> []) \<and>
    length (el_reasons (evaluate_resource req q r lim)) \<le> unat (max_rejection_reasons_per_entry lim)"
  using evaluate_resource_eligible_iff [OF assms, of req q r] evaluate_resource_claim [of req q r lim]
    evaluate_resource_reasons_nonempty [OF assms, of req q r] evaluate_resource_reason_bound [of req q r lim]
  by blast

text \<open>Scores stay inside 64-bit integers: every ranking factor lies in [0, 1000000], so for
  checked weights the raw score of a selection is between -2^63 and 2^63 - 1, and it never exceeds
  the bound the search prunes with.\<close>

theorem raw_score_in_range:
  assumes "weights_checked (sr_weights req)" and "length (sr_requirements req) \<le> 2 ^ 29"
    and "sel \<in> set (selections (map rp_candidates (build_plans st req lim)))"
  shows "- (2 ^ 63) \<le> raw_score st req sel records \<and> raw_score st req sel records < 2 ^ 63 \<and>
    raw_score st req sel records \<le> sum_list (map cr_partial sel) + cross_bound req (length sel) \<and>
    (\<forall>f. 0 \<le> cross_values st req records f \<and> cross_values st req records f \<le> kUnit)"
proof -
  note claims = selection_claims [OF assms(3)]
  have scored: "\<forall>c\<in>set sel. scored (sr_weights req) c"
    using claims claim_of_scored by (metis in_set_conv_nth)
  have "int (length sel) * 12000000000 \<le> 2 ^ 29 * 12000000000" using assms(2) claims(1) by simp
  with raw_score_bound [OF assms(1) scored, of st records]
  have "\<bar>raw_score st req sel records\<bar> < 2 ^ 63" by simp
  with raw_score_le_bound [OF scored, of st records] cross_range [of st req records]
  show ?thesis by (auto simp: abs_less_iff)
qed


text \<open>The reason reported for a refusal is the dominant one: it occurs in the counts, and no
  other reason has a larger count, or the same count and a smaller priority, or both equal and a
  smaller code.\<close>

theorem dominant_reason_unbeaten:
  assumes "counts \<noteq> []" and "\<forall>e\<in>set counts. fst e \<noteq> RR_None \<and> snd e \<noteq> 0"
  shows "\<exists>n. (dominant_reason counts, n) \<in> set counts \<and>
    (\<forall>y\<in>set counts. \<not> reason_beats y (dominant_reason counts, n))"
  by (rule dominant_reason_best [OF assms])

section \<open>The properties at work\<close>

lemma lab_grant_outcome:
  "case fst (submit_request (lab_request 20) lab_idle) of Inl _ \<Rightarrow> False
     | Inr d \<Rightarrow> dc_outcome d = DO_Placed"
  by code_simp

lemma lab_grant:
  obtains d e' where "submit_request (lab_request 20) lab_idle = (Inr d, e')" "dc_outcome d = DO_Placed"
  using lab_grant_outcome
  by (cases "submit_request (lab_request 20) lab_idle") (auto split: sum.splits)

lemma lab_grant_search: "\<not> so_truncated (submitted_search (lab_request 20) lab_idle)"
  by code_simp

lemma lab_refusal_outcome:
  "case fst (submit_request model_request lab_idle) of Inl _ \<Rightarrow> False
     | Inr d \<Rightarrow> dc_outcome d = DO_NoPlacement"
  by code_simp

lemma lab_refusal:
  obtains d e' where "submit_request model_request lab_idle = (Inr d, e')" "dc_outcome d = DO_NoPlacement"
  using lab_refusal_outcome
  by (cases "submit_request model_request lab_idle") (auto split: sum.splits)

lemma lab_refusal_search: "\<not> so_truncated (submitted_search model_request lab_idle)"
  by code_simp

lemma lab_refusal_lossless:
  "lossless (stored_state model_request lab_idle) (normalize_schedule_request model_request)
     (cfg_limits (eng_config lab_idle))"
proof -
  have "list_all (\<lambda>q. \<not> el_eligible (evaluate_resource (normalize_schedule_request model_request) q (lab_resource 0)
      default_limits)) (sr_requirements (normalize_schedule_request model_request))" by code_simp
  then have "\<forall>q\<in>set (sr_requirements (normalize_schedule_request model_request)).
      \<not> meets_hard_constraints (normalize_schedule_request model_request) q (lab_resource 0)"
    using evaluate_resource_eligible_iff [of default_limits] by (simp add: list_all_iff default_limits_def)
  then show ?thesis by (auto simp: lossless_def stored_state_def store_request_tables split: if_splits)
qed

lemma lab_plans: "selections (map rp_candidates (build_plans (eng_state lab_idle) (lab_request 20) default_limits)) \<noteq> []"
  by code_simp

theorem submit_placement_sound_witness:
  "\<exists>d e'. submit_request (lab_request 20) lab_idle = (Inr d, e') \<and>
     well_placed (eng_state lab_idle) (normalize_schedule_request (lab_request 20)) (dc_placement d)"
  by (rule lab_grant) (use submit_placement_sound [OF lab_idle_inv lab_ids_room(1)] in blast)

theorem submit_placement_recorded_witness:
  "\<exists>d e'. submit_request (lab_request 20) lab_idle = (Inr d, e') \<and>
     takes (eng_state lab_idle) (dc_placement d) (eng_state e')"
  by (rule lab_grant) (use submit_placement_recorded [OF lab_idle_inv lab_ids_room(1)] in blast)

theorem submit_placement_optimal_witness:
  "\<exists>d e' best. submit_request (lab_request 20) lab_idle = (Inr d, e') \<and>
     map cr_id (rkc_selection best) = map sel_resource (pl_resources (dc_placement d)) \<and>
     (\<forall>sel\<in>set (selections (submitted_plans (lab_request 20) lab_idle)). \<forall>other.
        valid_rank (stored_state (lab_request 20) lab_idle) (normalize_schedule_request (lab_request 20))
          sel other \<longrightarrow> \<not> candidate_is_better other best)"
proof (rule lab_grant)
  fix d e' assume g: "submit_request (lab_request 20) lab_idle = (Inr d, e')" "dc_outcome d = DO_Placed"
  have "length (sr_requirements (lab_request 20)) \<le> 2 ^ 29" by (simp add: lab_request_def)
  from submit_placement_optimal [OF lab_idle_inv lab_ids_room(1) g this lab_grant_search] g(1)
  show ?thesis by blast
qed

theorem submit_refusal_justified_witness:
  "((\<exists>q\<in>set (sr_requirements (normalize_schedule_request model_request)).
      \<forall>k r. map_of (ss_resources (eng_state lab_idle)) k = Some r \<longrightarrow>
        \<not> meets_hard_constraints (normalize_schedule_request model_request) q r) \<or>
    (\<forall>sel\<in>set (selections (submitted_plans model_request lab_idle)). \<forall>records.
      selection_records (eng_state lab_idle) sel = Some records \<longrightarrow>
        validate_selection (stored_state model_request lab_idle) (normalize_schedule_request model_request)
          records sel \<noteq> None)) \<and>
    \<not> (\<exists>p. well_placed (eng_state lab_idle) (normalize_schedule_request model_request) p)"
proof (rule lab_refusal)
  fix d e' assume g: "submit_request model_request lab_idle = (Inr d, e')" "dc_outcome d = DO_NoPlacement"
  have "\<not> so_truncated (submitted_search model_request lab_idle)" by (rule lab_refusal_search)
  from submit_refusal_justified [OF lab_idle_inv lab_ids_room(1) g _ _ this] lab_refusal_lossless
  show ?thesis by (simp add: model_request_def lab_config_def default_limits_def)
qed

lemma lab_rejected: "isl (fst (submit_request (lab_request 0) lab_idle))"
  by code_simp

theorem submit_error_frame_witness:
  "\<exists>status e'. submit_request (lab_request 0) lab_idle = (Inl status, e') \<and> \<not> status_ok status \<and>
     ss_resources (eng_state e') = ss_resources (eng_state lab_idle)"
  using submit_error_frame [OF lab_idle_inv lab_ids_room(1), of "lab_request 0"] lab_rejected
  by (cases "submit_request (lab_request 0) lab_idle"; cases "fst (submit_request (lab_request 0) lab_idle)")
    auto

theorem submit_unit_exclusive_witness:
  "\<exists>status. submit_request (lab_request 21) lab_engine = (Inl status, lab_engine) \<and> \<not> status_ok status"
  by (rule submit_unit_exclusive [OF lab_engine_inv, of _ 102])
    (simp add: request_unit_def lab_request_def default_request_def)

theorem evaluate_resource_exact_witness:
  "el_eligible (evaluate_resource (lab_request 20) (gpu_requirement ''gpu'') (lab_resource 0) default_limits) =
     meets_hard_constraints (lab_request 20) (gpu_requirement ''gpu'') (lab_resource 0)"
  using evaluate_resource_exact [of default_limits "lab_request 20" "gpu_requirement ''gpu''" "lab_resource 0"]
  by (simp add: default_limits_def)

theorem raw_score_in_range_witness:
  "\<exists>sel\<in>set (selections (map rp_candidates (build_plans (eng_state lab_idle) (lab_request 20) default_limits))).
     raw_score (eng_state lab_idle) (lab_request 20) sel [] < 2 ^ 63"
proof -
  obtain sel where sel: "sel \<in> set (selections (map rp_candidates
      (build_plans (eng_state lab_idle) (lab_request 20) default_limits)))"
    using lab_plans by (metis list.set_intros(1) neq_Nil_conv)
  have "weights_checked (sr_weights (lab_request 20))"
    unfolding weights_checked_def lab_request_def default_request_def
    by (auto intro: ranking_factor.induct)
  from raw_score_in_range [OF this _ sel] sel show ?thesis by (auto simp: lab_request_def)
qed

theorem dominant_reason_unbeaten_witness:
  "dominant_reason [(RR_CapacityExhausted, 1), (RR_CapabilityMismatch, 2)] = RR_CapabilityMismatch \<and>
   (\<exists>n. (RR_CapabilityMismatch, n) \<in> set [(RR_CapacityExhausted, 1), (RR_CapabilityMismatch, 2)] \<and>
      (\<forall>y\<in>set [(RR_CapacityExhausted, 1), (RR_CapabilityMismatch, 2)].
         \<not> reason_beats y (RR_CapabilityMismatch, n)))"
proof -
  have d: "dominant_reason [(RR_CapacityExhausted, 1), (RR_CapabilityMismatch, 2)] = RR_CapabilityMismatch"
    by code_simp
  from dominant_reason_unbeaten [of "[(RR_CapacityExhausted, 1), (RR_CapabilityMismatch, 2)]"] d
  show ?thesis by simp
qed

end
