(* ===== verification/LifecycleLaws.thy ===== *)
theory LifecycleLaws
  imports Outcomes LabExample
begin

text \<open>
  The properties of the placement lifecycle, of worker incarnations, of the resource operations and
  of recovery, applied to the laboratory of \<open>LabExample\<close>.
\<close>

section \<open>Releasing capacity\<close>

text \<open>A reservation releases its capacity exactly once: the first release reports whether the
  reservation was active, every later one reports False and changes nothing.\<close>

theorem release_exactly_once:
  assumes "t \<noteq> RV_Active"
  shows "fst (release_reservation rid t d st) =
      (\<exists>v. map_of (ss_reservations st) rid = Some v \<and> rv_state v = RV_Active) \<and>
    release_reservation rid t' d' (snd (release_reservation rid t d st)) =
      (False, snd (release_reservation rid t d st))"
  using assms by (auto simp: release_reservation_def map_of_om_modify split: option.split)

text \<open>The request of an ended placement keeps its content and no longer points to the placement; one
  that pointed elsewhere is as it was.\<close>

definition detached :: "placement_id \<Rightarrow> stored_request \<Rightarrow> stored_request \<Rightarrow> bool" where
  "detached pid s s' \<longleftrightarrow> st_request s' = st_request s \<and>
     st_submitted_sequence s' = st_submitted_sequence s \<and> st_placement_count s' = st_placement_count s \<and>
     (st_current_placement s' \<noteq> pid \<or> pid = 0) \<and> (st_current_placement s \<noteq> pid \<longrightarrow> s' = s)"

text \<open>\<open>ends st pid p t st'\<close>: the live placement \<open>p\<close> has reached \<open>t\<close>. Its reservation is no longer active,
  exactly its claims have been returned to the resources, its unit and request no longer point to
  it, and no other placement, reservation, resource field, unit or request changed, nor a worker or
  the epoch.\<close>

definition ends ::
  "scheduler_state \<Rightarrow> placement_id \<Rightarrow> placement_record \<Rightarrow> placement_state \<Rightarrow> scheduler_state \<Rightarrow> bool" where
  "ends st pid p t st' \<longleftrightarrow>
     (\<exists>q. map_of (ss_placements st') pid = Some q \<and> pl_state q = t \<and> pl_resources q = pl_resources p \<and>
        pl_generation q = pl_generation p \<and> pl_request q = pl_request p \<and>
        pl_reassignment_count q = pl_reassignment_count p) \<and>
     (\<forall>k. k \<noteq> pid \<longrightarrow> map_of (ss_placements st') k = map_of (ss_placements st) k) \<and>
     (\<exists>v w. map_of (ss_reservations st) (pl_reservation p) = Some v \<and>
        map_of (ss_reservations st') (pl_reservation p) = Some w \<and>
        rv_state v = RV_Active \<and> rv_state w \<noteq> RV_Active \<and> rv_claims w = rv_claims v \<and>
        (\<forall>k r. map_of (ss_resources st) k = Some r \<longrightarrow> (\<exists>r'. map_of (ss_resources st') k = Some r' \<and>
           only_reserved r r' \<and> unat (res_reserved_slots r') + claims_on k (rv_claims v) =
             unat (res_reserved_slots r)))) \<and>
     (\<forall>k. map_of (ss_resources st) k = None \<longrightarrow> map_of (ss_resources st') k = None) \<and>
     (\<forall>k. k \<noteq> pl_reservation p \<longrightarrow> map_of (ss_reservations st') k = map_of (ss_reservations st) k) \<and>
     (\<forall>u. map_of (ss_unit_current st') u =
        (if u = placement_unit p \<and> map_of (ss_unit_current st) u = Some pid then None
         else map_of (ss_unit_current st) u)) \<and>
     rel_option (detached pid) (map_of (ss_requests st) (pl_request p)) (map_of (ss_requests st') (pl_request p)) \<and>
     (\<forall>k. k \<noteq> pl_request p \<longrightarrow> map_of (ss_requests st') k = map_of (ss_requests st) k) \<and>
     ss_workers st' = ss_workers st \<and> ss_epoch st' = ss_epoch st"

lemma active_claims_le:
  assumes "state_inv ids st" and "map_of (ss_reservations st) i = Some v" and "rv_state v = RV_Active"
    and "map_of (ss_resources st) k = Some r"
  shows "claims_on k (rv_claims v) \<le> unat (res_reserved_slots r)"
proof -
  have "reservation_claims k v \<le> om_total (reservation_claims k) (ss_reservations st)"
    using assms(2) by (rule om_total_ge)
  with assms show ?thesis by (simp add: state_inv_def resources_inv_def reservation_claims_def)
qed

lemma unat_release:
  fixes x :: u32
  assumes "c \<le> unat x"
  shows "unat (x - word_of_nat c) = unat x - c"
proof -
  have "unat x < 2 ^ 32" using unsigned_less [of x] by simp
  with assms have "c < 2 ^ 32" by simp
  then have c: "unat (word_of_nat c :: u32) = c" by (simp add: unsigned_of_nat take_bit_nat_eq_self)
  with assms have "word_of_nat c \<le> x" by (simp add: word_le_nat_alt)
  from unat_sub [OF this] c show ?thesis by simp
qed

lemma record_completion_fields:
  "pl_resources (record_completion d p) = pl_resources p" "pl_generation (record_completion d p) = pl_generation p"
  "pl_request (record_completion d p) = pl_request p" "pl_reservation (record_completion d p) = pl_reservation p"
  "pl_reassignment_count (record_completion d p) = pl_reassignment_count p"
  "placement_unit (record_completion d p) = placement_unit p"
  by (simp_all add: record_completion_def placement_unit_def)

lemma detached_detach: "detached pid s (detach_request pid t d s)"
  by (auto simp: detached_def detach_request_def split: option.split)

lemma terminate_ends:
  assumes inv: "state_inv ids st" and p: "map_of (ss_placements st) pid = Some p"
    and live: "placement_state_is_live (pl_state p)"
  shows "ends st pid p t (terminate_placement pid t d st)"
proof -
  obtain v where v: "map_of (ss_reservations st) (pl_reservation p) = Some v" "rv_state v = RV_Active"
    and id: "pl_id p = pid"
    using live_placement_reservation [OF inv p live] by metis
  let ?st' = "terminate_placement pid t d st"
  note eq = terminate_placement_live [OF p live v, of t d]
  have "\<exists>r'. map_of (ss_resources ?st') k = Some r' \<and> only_reserved r r' \<and>
      unat (res_reserved_slots r') + claims_on k (rv_claims v) = unat (res_reserved_slots r)"
    if r: "map_of (ss_resources st) k = Some r" for k r
  proof -
    note le = active_claims_le [OF inv v]
    let ?r = "r\<lparr>res_reserved_slots := res_reserved_slots r - word_of_nat (claims_on k (rv_claims v))\<rparr>"
    have "map_of (ss_resources ?st') k = Some ?r" using release_claims_map [OF le, where k = k] r by (simp add: eq)
    moreover have "only_reserved r ?r" by (auto simp: only_reserved_def)
    moreover have "unat (res_reserved_slots ?r) + claims_on k (rv_claims v) = unat (res_reserved_slots r)"
      using unat_release [OF le [OF r]] le [OF r] by simp
    ultimately show ?thesis by blast
  qed
  moreover have "\<exists>w. map_of (ss_reservations ?st') (pl_reservation p) = Some w \<and> rv_state w \<noteq> RV_Active \<and>
      rv_claims w = rv_claims v"
    using v by (simp add: eq map_of_om_modify)
  moreover have "\<exists>q. map_of (ss_placements ?st') pid = Some q \<and> pl_state q = t \<and>
      pl_resources q = pl_resources p \<and> pl_generation q = pl_generation p \<and> pl_request q = pl_request p \<and>
      pl_reassignment_count q = pl_reassignment_count p"
    using p by (simp add: eq map_of_om_modify retire_placement_def)
  moreover have "map_of (ss_unit_current ?st') u = (if u = placement_unit p \<and> map_of (ss_unit_current st) u = Some pid
      then None else map_of (ss_unit_current st) u)" for u
    by (auto simp: eq map_of_detach_unit id)
  moreover have "rel_option (detached pid) (map_of (ss_requests st) (pl_request p))
      (map_of (ss_requests ?st') (pl_request p))"
    by (cases "map_of (ss_requests st) (pl_request p)") (simp_all add: eq map_of_om_modify id detached_detach)
  moreover have "map_of (ss_resources ?st') k = None" if "map_of (ss_resources st) k = None" for k
    using release_claims_map [OF active_claims_le [OF inv v], where k = k] that by (simp add: eq)
  moreover have "map_of (ss_reservations ?st') k = map_of (ss_reservations st) k" if "k \<noteq> pl_reservation p" for k
    using that by (simp add: eq map_of_om_modify)
  moreover have "map_of (ss_placements ?st') k = map_of (ss_placements st) k" if "k \<noteq> pid" for k
    using that by (simp add: eq map_of_om_modify)
  moreover have "map_of (ss_requests ?st') k = map_of (ss_requests st) k" if "k \<noteq> pl_request p" for k
    using that by (simp add: eq map_of_om_modify)
  moreover have "ss_workers ?st' = ss_workers st" "ss_epoch ?st' = ss_epoch st" by (simp_all add: eq)
  ultimately show ?thesis unfolding ends_def using v by blast
qed

lemma ends_completed:
  assumes "ends (st\<lparr>ss_placements := om_modify pid (record_completion d) (ss_placements st)\<rparr>) pid
    (record_completion d p) t st'"
  shows "ends st pid p t st'"
proof -
  let ?st = "st\<lparr>ss_placements := om_modify pid (record_completion d) (ss_placements st)\<rparr>"
  have same: "ss_reservations ?st = ss_reservations st" "ss_resources ?st = ss_resources st"
    "ss_unit_current ?st = ss_unit_current st" "ss_requests ?st = ss_requests st" "ss_workers ?st = ss_workers st"
    "ss_epoch ?st = ss_epoch st" by simp_all
  have "map_of (ss_placements ?st) k = map_of (ss_placements st) k" if "k \<noteq> pid" for k
    using that by (simp add: map_of_om_modify)
  then show ?thesis
    using assms unfolding ends_def record_completion_fields same by presburger
qed

lemma ends_push_audit [simp]: "ends st pid p t (push_audit cfg k d st') = ends st pid p t st'"
  by (simp add: ends_def)

lemma cancel_cancelled:
  assumes "map_of (ss_placements (eng_state e)) pid = Some q" and "pl_state q = PL_Cancelled"
  shows "snd (cancel_placement pid g ep reason e) = e \<and>
    \<not> status_ok (cn_status (fst (cancel_placement pid g ep reason e)))"
  using assms by (simp add: cancel_placement_def Let_def)

text \<open>C22. Cancelling a live placement under the current epoch frees exactly its own capacity: the
  placement ends in CANCELLED, its reservation is released, the claimed slots return to the
  resources, its unit becomes free, nothing else of the ledger changes, and a second cancellation is
  refused and changes nothing.\<close>

theorem cancel_placement_effect:
  assumes "engine_inv e" and "map_of (ss_placements (eng_state e)) pid = Some p"
    and "placement_state_is_live (pl_state p)" and "pid \<noteq> 0" and "status_ok (check_epoch (eng_state e) epoch)"
    and "generation = 0 \<or> generation = pl_generation p"
  shows "status_ok (cn_status (fst (cancel_placement pid generation epoch reason e))) \<and>
    ends (eng_state e) pid p PL_Cancelled (eng_state (snd (cancel_placement pid generation epoch reason e))) \<and>
    (let e' = snd (cancel_placement pid generation epoch reason e) in
       snd (cancel_placement pid generation' epoch' reason' e') = e' \<and>
       \<not> status_ok (cn_status (fst (cancel_placement pid generation' epoch' reason' e'))))"
proof -
  let ?d = "or_default ''cancelled by controller'' reason"
  let ?st' = "terminate_placement pid PL_Cancelled ?d (eng_state e)"
  have inv: "state_inv (eng_ids e) (eng_state e)" using assms(1) by (simp add: engine_inv_def)
  have ends: "ends (eng_state e) pid p PL_Cancelled ?st'" by (rule terminate_ends [OF inv assms(2,3)])
  have guard: "\<not> (generation \<noteq> 0 \<and> pl_generation p \<noteq> generation)" "pl_state p \<noteq> PL_Cancelled"
    "status_ok (id_validate K_PlacementId pid)"
    using assms(3,4,6) by auto
  define summary where "summary = (case map_of (ss_placements ?st') pid of None \<Rightarrow> [] | Some q \<Rightarrow> placement_summary q)"
  have run: "snd (cancel_placement pid generation epoch reason e) =
      e\<lparr>eng_state := push_audit (eng_config e) ''placement.cancelled'' summary ?st'\<rparr>"
    "status_ok (cn_status (fst (cancel_placement pid generation epoch reason e)))"
    unfolding cancel_placement_def Let_def summary_def using guard assms(2,3,5)
    by (auto simp del: id_validate_ok check_epoch_ok)
  from ends obtain q where "map_of (ss_placements ?st') pid = Some q" "pl_state q = PL_Cancelled"
    unfolding ends_def by blast
  then have again: "snd (cancel_placement pid generation' epoch' reason' e') = e' \<and>
      \<not> status_ok (cn_status (fst (cancel_placement pid generation' epoch' reason' e')))"
    if "e' = e\<lparr>eng_state := push_audit (eng_config e) ''placement.cancelled'' summary ?st'\<rparr>" for e'
    using cancel_cancelled [of e' pid q] that by simp
  have "ends (eng_state e) pid p PL_Cancelled (eng_state (snd (cancel_placement pid generation epoch reason e)))"
    unfolding run(1) using ends by simp
  with run(2) again [OF run(1)] show ?thesis unfolding Let_def by blast
qed

section \<open>Completion\<close>

text \<open>C7. A completion is accepted if and only if it is fully authorised: it names the current epoch,
  the experiment and its generation, the generation of the placement, which is live and not yet
  completed, the bound incarnation, resource set and current resource generations where it gives
  them, and the backing reservation is active.\<close>

theorem completion_accepted_iff:
  "co_accepted (fst (report_completion c e)) \<longleftrightarrow> cc_placement c \<noteq> 0 \<and>
     (\<exists>p. map_of (ss_placements (eng_state e)) (cc_placement c) = Some p \<and>
        claim_authorised (eng_state e) c p)"
  by (rule report_completion_accepted)

lemma report_completion_run:
  assumes "co_accepted (fst (report_completion c e))"
  obtains p kind summary where "map_of (ss_placements (eng_state e)) (cc_placement c) = Some p"
    "claim_authorised (eng_state e) c p"
    "snd (report_completion c e) =
       e\<lparr>eng_state := push_audit (eng_config e) kind summary (complete_placement c (eng_state e))\<rparr>"
proof -
  from assms [unfolded report_completion_accepted] obtain p where
    p: "map_of (ss_placements (eng_state e)) (cc_placement c) = Some p" "cc_placement c \<noteq> 0"
    "claim_authorised (eng_state e) c p" by blast
  from p(3) have "status_ok (completion_authority (eng_state e) c p)" by (simp add: completion_authority_ok)
  with p that show thesis by (auto simp: report_completion_def Let_def)
qed

lemma completed_placement:
  assumes "map_of (ss_placements st) (cc_placement c) = Some p" and "placement_state_is_live (pl_state p)"
  shows "\<exists>q. map_of (ss_placements (complete_placement c st)) (cc_placement c) = Some q \<and>
    pl_completion_recorded q \<and> pl_state q = (if cc_succeeded c then PL_Completed else PL_Failed)"
  using assms by (simp add: complete_placement_def terminate_placements map_of_om_modify
      record_completion_def retire_placement_def)

lemma rejected_unchanged:
  "\<not> co_accepted (fst (report_completion c e)) \<Longrightarrow> snd (report_completion c e) = e"
  by (auto simp: report_completion_def Let_def split: option.splits if_splits)

text \<open>C8. A completion takes effect at most once: a rejected completion leaves the engine unchanged,
  and after an accepted one no further completion of the same placement is ever accepted by the
  resulting engine, whatever it claims.\<close>

theorem completion_at_most_once:
  "(\<not> co_accepted (fst (report_completion c e)) \<longrightarrow> snd (report_completion c e) = e) \<and>
   (co_accepted (fst (report_completion c e)) \<longrightarrow> cc_placement c' = cc_placement c \<longrightarrow>
      \<not> co_accepted (fst (report_completion c' (snd (report_completion c e)))))"
proof (intro conjI impI)
  show "\<not> co_accepted (fst (report_completion c e)) \<Longrightarrow> snd (report_completion c e) = e"
    by (rule rejected_unchanged)
  assume acc: "co_accepted (fst (report_completion c e))" and same: "cc_placement c' = cc_placement c"
  obtain p kind summary where p: "map_of (ss_placements (eng_state e)) (cc_placement c) = Some p"
    "claim_authorised (eng_state e) c p"
    and run: "snd (report_completion c e) =
       e\<lparr>eng_state := push_audit (eng_config e) kind summary (complete_placement c (eng_state e))\<rparr>"
    by (rule report_completion_run [OF acc])
  obtain q where "map_of (ss_placements (complete_placement c (eng_state e))) (cc_placement c) = Some q"
    "pl_completion_recorded q"
    using completed_placement [OF p(1)] p(2) by (auto simp: claim_authorised_def)
  then show "\<not> co_accepted (fst (report_completion c' (snd (report_completion c e))))"
    unfolding report_completion_accepted run by (simp add: same claim_authorised_def)
qed

lemma completion_ends:
  assumes "engine_inv e" and "co_accepted (fst (report_completion c e))"
  shows "\<exists>p. map_of (ss_placements (eng_state e)) (cc_placement c) = Some p \<and>
    ends (eng_state e) (cc_placement c) p (if cc_succeeded c then PL_Completed else PL_Failed)
      (eng_state (snd (report_completion c e)))"
proof -
  obtain p kind summary where p: "map_of (ss_placements (eng_state e)) (cc_placement c) = Some p"
    "claim_authorised (eng_state e) c p"
    and run: "snd (report_completion c e) =
       e\<lparr>eng_state := push_audit (eng_config e) kind summary (complete_placement c (eng_state e))\<rparr>"
    by (rule report_completion_run [OF assms(2)])
  let ?pid = "cc_placement c" and ?t = "if cc_succeeded c then PL_Completed else PL_Failed"
  let ?st = "(eng_state e)\<lparr>ss_placements :=
      om_modify ?pid (record_completion (cc_detail c)) (ss_placements (eng_state e))\<rparr>"
  let ?p = "record_completion (cc_detail c) p"
  have live: "placement_state_is_live (pl_state ?p)"
    using p(2) by (simp add: claim_authorised_def record_completion_def)
  have "state_inv (eng_ids e) ?st"
    using assms(1) by (simp add: engine_inv_def state_inv_record_completion)
  from terminate_ends [OF this _ live, of ?pid] p(1)
  have "ends ?st ?pid ?p ?t (complete_placement c (eng_state e))"
    by (simp add: complete_placement_def map_of_om_modify)
  then have "ends (eng_state e) ?pid p ?t (complete_placement c (eng_state e))"
    by (rule ends_completed)
  then have "ends (eng_state e) ?pid p ?t (eng_state (snd (report_completion c e)))" unfolding run by simp
  with p(1) show ?thesis by blast
qed

text \<open>C21. An accepted completion ends the placement: it becomes COMPLETED or FAILED with the completion
  recorded, and exactly the capacity of its reservation returns to the ledger.\<close>

theorem completion_effect:
  assumes "engine_inv e" and "co_accepted (fst (report_completion c e))"
  shows "\<exists>p. map_of (ss_placements (eng_state e)) (cc_placement c) = Some p \<and>
    ends (eng_state e) (cc_placement c) p (if cc_succeeded c then PL_Completed else PL_Failed)
      (eng_state (snd (report_completion c e)))"
  by (rule completion_ends [OF assms])

section \<open>Stale authority\<close>

text \<open>C26. A stale coordinator epoch has no authority: every operation that carries an epoch other than
  the current one is refused and leaves the engine unchanged.\<close>

theorem stale_epoch_refused:
  assumes "epoch \<noteq> ss_epoch (eng_state e)"
  shows "snd (mark_assigned pid g epoch b e) = e \<and> isl (fst (mark_assigned pid g epoch b e)) \<and>
    snd (mark_running pid g epoch b e) = e \<and> isl (fst (mark_running pid g epoch b e)) \<and>
    snd (cancel_placement pid g epoch reason e) = e \<and>
      \<not> status_ok (cn_status (fst (cancel_placement pid g epoch reason e))) \<and>
    snd (reassign_placement pid g epoch reason e) = e \<and> isl (fst (reassign_placement pid g epoch reason e)) \<and>
    snd (preempt_placement pid g epoch reason e) = e \<and> isl (fst (preempt_placement pid g epoch reason e)) \<and>
    (cc_epoch c = epoch \<longrightarrow> snd (report_completion c e) = e \<and> \<not> co_accepted (fst (report_completion c e)))"
proof -
  have stale: "\<not> status_ok (check_epoch (eng_state e) epoch)" using assms by simp
  have "snd (mark_assigned pid g epoch b e) = e \<and> isl (fst (mark_assigned pid g epoch b e))"
    "snd (mark_running pid g epoch b e) = e \<and> isl (fst (mark_running pid g epoch b e))"
    using stale unfolding mark_assigned_def mark_running_def progress_placement_def Let_def
    by (simp_all del: check_epoch_ok)
  moreover have "snd (cancel_placement pid g epoch reason e) = e \<and>
      \<not> status_ok (cn_status (fst (cancel_placement pid g epoch reason e)))"
    using stale unfolding cancel_placement_def Let_def by (simp del: check_epoch_ok)
  moreover have "snd (reassign_placement pid g epoch reason e) = e \<and> isl (fst (reassign_placement pid g epoch reason e))"
    "snd (preempt_placement pid g epoch reason e) = e \<and> isl (fst (preempt_placement pid g epoch reason e))"
    using stale unfolding reassign_placement_def preempt_placement_def Let_def
    by (simp_all del: check_epoch_ok)
  moreover have "snd (report_completion c e) = e \<and> \<not> co_accepted (fst (report_completion c e))"
    if "cc_epoch c = epoch"
  proof -
    from that assms have no: "\<not> co_accepted (fst (report_completion c e))"
      unfolding report_completion_accepted claim_authorised_def by auto
    with rejected_unchanged [OF no] show ?thesis by blast
  qed
  ultimately show ?thesis by blast
qed

section \<open>Worker incarnations\<close>

lemma mark_worker_lost_run:
  assumes "map_of (ss_workers (eng_state e)) w = Some wk" and "wk_boot wk = b" and "w \<noteq> 0" and "b \<noteq> 0"
  shows "snd (mark_worker_lost w b detail e) =
    e\<lparr>eng_state := fst (invalidate_worker_incarnation (eng_config e) w b detail (eng_state e))\<rparr>"
  using assms by (simp add: mark_worker_lost_def Let_def case_prod_beta)

lemma invalidated_not_held:
  assumes "map_of (ss_resources (fst (invalidate_worker_incarnation cfg w b detail st))) k = Some r"
  shows "\<not> incarnation_holds w b r"
proof (rule invalidate_resource [OF assms])
  fix r0
  assume "res_worker r = res_worker r0" "res_boot r = res_boot r0"
    "incarnation_holds w b r0 \<Longrightarrow> \<not> res_dynamic_authoritative r \<and> res_lifecycle r = RL_Lost"
    "\<not> incarnation_holds w b r0 \<Longrightarrow> res_dynamic_authoritative r = res_dynamic_authoritative r0 \<and>
       res_lifecycle r = res_lifecycle r0"
  then show ?thesis by (cases "incarnation_holds w b r0") (simp_all add: incarnation_holds_def)
qed

lemma held_resource_freed:
  assumes inv: "state_inv ids st"
    and r: "map_of (ss_resources (fst (invalidate_worker_incarnation cfg w b detail st))) k = Some r"
    and r0: "map_of (ss_resources st) k = Some r0" and holds: "incarnation_holds w b r0"
  shows "res_reserved_slots r = 0"
proof -
  let ?st' = "fst (invalidate_worker_incarnation cfg w b detail st)"
  have "k \<in> set (lost_resource_ids w b (ss_resources st))"
  proof -
    have "res_id r0 = k" using inv r0 by (simp add: state_inv_def resources_inv_def keyed_def)
    moreover have "(k, r0) \<in> set (ss_resources st)" using r0 by (rule map_of_SomeD)
    ultimately show ?thesis using holds by (force simp: lost_resource_ids_def)
  qed
  moreover have "\<not> placement_touches w b (lost_resource_ids w b (ss_resources st)) q"
    if "map_of (ss_placements ?st') j = Some q" "placement_state_is_live (pl_state q)" for j q
    using invalidate_result(2) [of w b st cfg detail j] that unfolding exposed_def by blast
  ultimately have "k \<notin> sel_resource ` set (pl_resources q)"
    if "map_of (ss_placements ?st') j = Some q" "placement_state_is_live (pl_state q)" for j q
    using that by (force simp: placement_touches_def list_ex_iff)
  then show ?thesis by (rule unselected_free [OF state_inv_invalidate [OF inv] r])
qed

text \<open>C25. The loss of a worker incarnation revokes everything it held: none of its resources stays
  authoritative or current, the slots reserved on the resources it held are all released, and no
  placement bound to the incarnation or to one of these resources stays live.\<close>

theorem worker_loss_revokes:
  assumes "engine_inv e" and "map_of (ss_workers (eng_state e)) w = Some wk" and "wk_boot wk = b"
    and "w \<noteq> 0" and "b \<noteq> 0"
  shows "(\<forall>k r. map_of (ss_resources (eng_state (snd (mark_worker_lost w b detail e)))) k = Some r \<longrightarrow>
      res_worker r = w \<longrightarrow> res_boot r = b \<longrightarrow>
        \<not> res_dynamic_authoritative r \<and> res_lifecycle r \<noteq> RL_Current \<and>
        (\<forall>r0. map_of (ss_resources (eng_state e)) k = Some r0 \<longrightarrow> incarnation_holds w b r0 \<longrightarrow>
           res_reserved_slots r = 0)) \<and>
    (\<forall>k. \<not> exposed w b (lost_resource_ids w b (ss_resources (eng_state e)))
      (eng_state (snd (mark_worker_lost w b detail e))) k)"
proof -
  let ?st = "eng_state e"
  let ?st' = "fst (invalidate_worker_incarnation (eng_config e) w b detail ?st)"
  have run: "eng_state (snd (mark_worker_lost w b detail e)) = ?st'"
    by (simp add: mark_worker_lost_run [OF assms(2-5)])
  have inv: "state_inv (eng_ids e) ?st" using assms(1) by (simp add: engine_inv_def)
  have "\<not> res_dynamic_authoritative r \<and> res_lifecycle r \<noteq> RL_Current"
    if "map_of (ss_resources ?st') k = Some r" "res_worker r = w" "res_boot r = b" for k r
    using invalidated_not_held [OF that(1)] that(2,3) by (simp add: incarnation_holds_def)
  moreover note held_resource_freed [OF inv, of "eng_config e" w b detail]
  moreover note invalidate_result(2) [of w b ?st "eng_config e" detail]
  ultimately show ?thesis unfolding run by blast
qed

lemma none_held:
  assumes "om_wf m" and "\<And>k r. map_of m k = Some r \<Longrightarrow> \<not> incarnation_holds w b r"
  shows "lose_resources w b m = m" and "lost_resource_ids w b m = []"
proof -
  have "\<not> incarnation_holds w b (snd e)" if "e \<in> set m" for e
    using assms that by (metis om_wf_distinct map_of_is_SomeI prod.collapse)
  then show "lose_resources w b m = m" "lost_resource_ids w b m = []"
    by (auto simp: lose_resources_def lost_resource_ids_def filter_empty_conv intro!: map_idI)
qed

lemma unexposed_fold:
  assumes "\<And>k. \<not> exposed w b af (fst s) k"
  shows "fold (invalidate_placement_step w b af) pids s = s"
proof -
  have "invalidate_placement_step w b af pid s = s" for pid
    using assms [of pid]
    by (cases s) (auto simp: invalidate_placement_step_def exposed_def split: option.split)
  then show ?thesis by (induction pids) simp_all
qed

text \<open>Losing the same incarnation twice is harmless: the second report changes no resource,
  placement, reservation, request or unit.\<close>

theorem worker_loss_idempotent:
  assumes "engine_inv e" and "map_of (ss_workers (eng_state e)) w = Some wk" and "wk_boot wk = b"
    and "w \<noteq> 0" and "b \<noteq> 0"
  shows "let e1 = snd (mark_worker_lost w b d1 e); e2 = snd (mark_worker_lost w b d2 e1) in
    ss_resources (eng_state e2) = ss_resources (eng_state e1) \<and>
    ss_placements (eng_state e2) = ss_placements (eng_state e1) \<and>
    ss_reservations (eng_state e2) = ss_reservations (eng_state e1) \<and>
    ss_requests (eng_state e2) = ss_requests (eng_state e1) \<and>
    ss_unit_current (eng_state e2) = ss_unit_current (eng_state e1)"
proof -
  let ?e1 = "snd (mark_worker_lost w b d1 e)"
  let ?st1 = "eng_state ?e1" and ?st2 = "eng_state (snd (mark_worker_lost w b d2 ?e1))"
  have run: "?st1 = fst (invalidate_worker_incarnation (eng_config e) w b d1 (eng_state e))"
    by (simp add: mark_worker_lost_run [OF assms(2-5)])
  have inv: "state_inv (eng_ids e) (eng_state e)" using assms(1) by (simp add: engine_inv_def)
  have wf: "om_wf (ss_resources ?st1)"
    using state_inv_invalidate [OF inv] run by (simp add: state_inv_def resources_inv_def keyed_def)
  have "\<not> incarnation_holds w b r" if "map_of (ss_resources ?st1) k = Some r" for k r
    using that unfolding run by (rule invalidated_not_held)
  note none = none_held [OF wf this]
  have unexposed: "\<not> exposed w b [] ?st1 k" for k
    using invalidate_result(2) [of w b "eng_state e" "eng_config e" d1 k]
    unfolding run exposed_def placement_touches_def list_ex_iff by auto
  have "?st2 = ?st1 \<or> ?st2 = fst (invalidate_worker_incarnation (eng_config ?e1) w b d2 ?st1)"
    by (auto simp: mark_worker_lost_def Let_def case_prod_beta split: option.split)
  moreover have "fold (invalidate_placement_step w b []) pids (?st1, report) = (?st1, report)" for pids report
    by (rule unexposed_fold) (use unexposed in simp)
  ultimately show ?thesis
    unfolding Let_def by (auto simp: invalidate_worker_incarnation_def Let_def none)
qed


section \<open>At concrete inputs\<close>

definition lab_claim :: completion_claim where
  "lab_claim = \<lparr>cc_placement = 102, cc_placement_generation = 1, cc_experiment = 5,
     cc_experiment_generation = 1, cc_epoch = 1, cc_worker_boot = 3, cc_resources = [1],
     cc_resource_generations = [1], cc_succeeded = True, cc_detail = []\<rparr>"

lemma lab_claim_accepted: "co_accepted (fst (report_completion lab_claim lab_engine))"
  by (simp add: report_completion_accepted claim_authorised_def lab_claim_def)

theorem release_exactly_once_witness:
  "fst (release_reservation 103 RV_Released [] lab_state) \<and>
   \<not> fst (release_reservation 103 RV_Revoked [] (snd (release_reservation 103 RV_Released [] lab_state)))"
  using release_exactly_once [of RV_Released 103 "[]" lab_state RV_Revoked "[]"] by simp

theorem cancel_placement_effect_witness:
  "\<exists>p. ends lab_state 102 p PL_Cancelled (eng_state (snd (cancel_placement 102 1 1 [] lab_engine)))"
  using cancel_placement_effect [OF lab_engine_inv, of 102 lab_placement 1 1 "[]" 0 0 "[]"] by auto

theorem completion_at_most_once_witness:
  "\<not> co_accepted (fst (report_completion lab_claim (snd (report_completion lab_claim lab_engine))))"
  using completion_at_most_once [of lab_claim lab_engine lab_claim] lab_claim_accepted by simp

theorem completion_effect_witness:
  "\<exists>p. ends lab_state 102 p PL_Completed (eng_state (snd (report_completion lab_claim lab_engine)))"
  using completion_effect [OF lab_engine_inv lab_claim_accepted] by (auto simp: lab_claim_def)

theorem stale_epoch_refused_witness:
  "snd (cancel_placement 102 1 7 [] lab_engine) = lab_engine \<and> isl (fst (mark_running 102 1 7 3 lab_engine))"
  using stale_epoch_refused [of 7 lab_engine 102 1 3 "[]" lab_claim] by simp

lemma lab_lost_resource:
  "\<exists>r. map_of (ss_resources (eng_state (snd (mark_worker_lost 7 3 [] lab_engine)))) 1 = Some r \<and>
     res_worker r = 7 \<and> res_boot r = 3"
proof -
  have run: "eng_state (snd (mark_worker_lost 7 3 [] lab_engine)) =
      fst (invalidate_worker_incarnation lab_config 7 3 [] lab_state)"
    by (simp add: mark_worker_lost_run [where wk = lab_worker])
  have "only_reserved_tables (lose_resources 7 3 (ss_resources lab_state))
      (ss_resources (fst (invalidate_worker_incarnation lab_config 7 3 [] lab_state)))"
    by (rule invalidate_result(1))
  then have "rel_option only_reserved (map_of (lose_resources 7 3 (ss_resources lab_state)) 1)
      (map_of (ss_resources (fst (invalidate_worker_incarnation lab_config 7 3 [] lab_state))) 1)"
    by (simp add: only_reserved_tables_def)
  then obtain r r0 where "map_of (ss_resources (fst (invalidate_worker_incarnation lab_config 7 3 [] lab_state))) 1 = Some r"
    "map_of (lose_resources 7 3 (ss_resources lab_state)) 1 = Some r0" "only_reserved r0 r"
    by (auto simp: map_of_lose_resources elim: option.rel_cases)
  with only_reserved_fields [of r0 r] run show ?thesis
    by (auto simp: map_of_lose_resources lose_incarnation_def split: if_splits)
qed

theorem worker_loss_revokes_witness:
  "\<exists>r. map_of (ss_resources (eng_state (snd (mark_worker_lost 7 3 [] lab_engine)))) 1 = Some r \<and>
     \<not> res_dynamic_authoritative r \<and> res_reserved_slots r = 0"
  using worker_loss_revokes [OF lab_engine_inv, of 7 lab_worker 3 "[]"] lab_lost_resource
  by (auto simp: incarnation_holds_def)

theorem worker_loss_idempotent_witness:
  "ss_placements (eng_state (snd (mark_worker_lost 7 3 [] (snd (mark_worker_lost 7 3 [] lab_engine))))) =
   ss_placements (eng_state (snd (mark_worker_lost 7 3 [] lab_engine)))"
  using worker_loss_idempotent [OF lab_engine_inv, of 7 lab_worker 3 "[]" "[]"] by (simp add: Let_def)

end
