(* ===== verification/History.thy ===== *)
theory History
  imports Outcomes
begin

text \<open>
  What the engine never forgets. Records are only added: a resource, request, placement or
  reservation stays recorded with the facts it was created with, a terminal placement keeps its
  state, a released reservation and a retired resource stay as they are, shutdown is final and the
  epoch never goes back. The relation is a preorder, so it carries over from one step of the engine
  to any sequence of steps.
\<close>

section \<open>Records that are kept\<close>

definition kept_resource :: "resource_record \<Rightarrow> resource_record \<Rightarrow> bool" where
  "kept_resource r r' \<longleftrightarrow> res_id r' = res_id r \<and> res_resource_class r' = res_resource_class r \<and>
     res_worker r' = res_worker r \<and>
     (res_lifecycle r = RL_Retired \<and> \<not> res_dynamic_authoritative r \<longrightarrow>
        res_lifecycle r' = RL_Retired \<and> \<not> res_dynamic_authoritative r')"

definition kept_request :: "stored_request \<Rightarrow> stored_request \<Rightarrow> bool" where
  "kept_request s s' \<longleftrightarrow> st_request s' = st_request s \<and> st_submitted_sequence s' = st_submitted_sequence s"

definition kept_placement :: "placement_record \<Rightarrow> placement_record \<Rightarrow> bool" where
  "kept_placement p p' \<longleftrightarrow>
     (\<exists>s d n c t. p' = p\<lparr>pl_state := s, pl_detail := d, pl_transition_sequence := n,
        pl_completion_recorded := c, pl_completion_detail := t\<rparr>) \<and>
     (pl_completion_recorded p \<longrightarrow> pl_completion_recorded p') \<and>
     (\<not> placement_state_is_live (pl_state p) \<longrightarrow> pl_state p' = pl_state p)"

definition kept_reservation :: "reservation_record \<Rightarrow> reservation_record \<Rightarrow> bool" where
  "kept_reservation v v' \<longleftrightarrow> (\<exists>s d. v' = v\<lparr>rv_state := s, rv_detail := d\<rparr>) \<and>
     (rv_state v \<noteq> RV_Active \<longrightarrow> v' = v)"

text \<open>A worker stays known; its incarnation, its connection, its sequence and its detail may change.\<close>

definition kept_worker :: "worker_record \<Rightarrow> worker_record \<Rightarrow> bool" where
  "kept_worker w w' \<longleftrightarrow> wk_id w' = wk_id w"

named_theorems kept

lemma kept_resource_refl [kept]: "kept_resource r r"
  by (simp add: kept_resource_def)

lemma kept_request_refl [kept]: "kept_request s s"
  by (simp add: kept_request_def)

lemma kept_worker_refl [kept]: "kept_worker w w"
  by (simp add: kept_worker_def)

lemma kept_placement_refl [kept]: "kept_placement p p"
proof -
  have "p = p\<lparr>pl_state := pl_state p, pl_detail := pl_detail p,
      pl_transition_sequence := pl_transition_sequence p,
      pl_completion_recorded := pl_completion_recorded p, pl_completion_detail := pl_completion_detail p\<rparr>"
    by simp
  then show ?thesis unfolding kept_placement_def by blast
qed

lemma kept_reservation_refl [kept]: "kept_reservation v v"
proof -
  have "v = v\<lparr>rv_state := rv_state v, rv_detail := rv_detail v\<rparr>" by simp
  then show ?thesis unfolding kept_reservation_def by blast
qed

lemma kept_placement_trans: "kept_placement p q \<Longrightarrow> kept_placement q u \<Longrightarrow> kept_placement p u"
proof -
  assume pq: "kept_placement p q" and qu: "kept_placement q u"
  from pq obtain s d n c t where q: "q = p\<lparr>pl_state := s, pl_detail := d, pl_transition_sequence := n,
      pl_completion_recorded := c, pl_completion_detail := t\<rparr>" unfolding kept_placement_def by blast
  from qu obtain s' d' n' c' t' where u: "u = q\<lparr>pl_state := s', pl_detail := d', pl_transition_sequence := n',
      pl_completion_recorded := c', pl_completion_detail := t'\<rparr>" unfolding kept_placement_def by blast
  have "u = p\<lparr>pl_state := s', pl_detail := d', pl_transition_sequence := n',
      pl_completion_recorded := c', pl_completion_detail := t'\<rparr>" unfolding u q by simp
  moreover from pq qu have "pl_completion_recorded p \<longrightarrow> pl_completion_recorded u"
    "\<not> placement_state_is_live (pl_state p) \<longrightarrow> pl_state u = pl_state p"
    unfolding kept_placement_def by auto
  ultimately show ?thesis unfolding kept_placement_def by blast
qed

lemma kept_reservation_trans: "kept_reservation v w \<Longrightarrow> kept_reservation w x \<Longrightarrow> kept_reservation v x"
proof -
  assume vw: "kept_reservation v w" and wx: "kept_reservation w x"
  from vw obtain s d where w: "w = v\<lparr>rv_state := s, rv_detail := d\<rparr>" unfolding kept_reservation_def by blast
  from wx obtain s' d' where x: "x = w\<lparr>rv_state := s', rv_detail := d'\<rparr>" unfolding kept_reservation_def by blast
  have "x = v\<lparr>rv_state := s', rv_detail := d'\<rparr>" unfolding x w by simp
  moreover from vw wx have "rv_state v \<noteq> RV_Active \<longrightarrow> x = v" unfolding kept_reservation_def by auto
  ultimately show ?thesis unfolding kept_reservation_def by blast
qed

lemma kept_resource_trans: "kept_resource a b \<Longrightarrow> kept_resource b c \<Longrightarrow> kept_resource a c"
  by (simp add: kept_resource_def)

lemma kept_request_trans: "kept_request s t \<Longrightarrow> kept_request t u \<Longrightarrow> kept_request s u"
  by (simp add: kept_request_def)

lemma kept_worker_trans: "kept_worker w u \<Longrightarrow> kept_worker u v \<Longrightarrow> kept_worker w v"
  by (simp add: kept_worker_def)

text \<open>A table that keeps its entries.\<close>

definition grows :: "('v \<Rightarrow> 'v \<Rightarrow> bool) \<Rightarrow> ('k::linorder, 'v) omap \<Rightarrow> ('k, 'v) omap \<Rightarrow> bool" where
  "grows R m m' \<longleftrightarrow> (\<forall>k v. map_of m k = Some v \<longrightarrow> (\<exists>w. map_of m' k = Some w \<and> R v w))"

lemma map_of_om_emplace_other: "j \<noteq> k \<Longrightarrow> map_of (om_emplace k v m) j = map_of m j"
  by (induction k v m rule: om_emplace.induct) auto

locale kept_record =
  fixes R :: "'v \<Rightarrow> 'v \<Rightarrow> bool"
  assumes same: "R v v" and trans: "R u v \<Longrightarrow> R v w \<Longrightarrow> R u w"
begin

lemma grows_same: "grows R m m"
  by (simp add: grows_def same)

lemma grows_trans: "grows R m m' \<Longrightarrow> grows R m' m'' \<Longrightarrow> grows R m m''"
  unfolding grows_def using trans by meson

lemma grows_modify: "(\<And>v. map_of m k = Some v \<Longrightarrow> R v (f v)) \<Longrightarrow> grows R m (om_modify k f m)"
  by (auto simp: grows_def map_of_om_modify same)

lemma grows_emplace: "om_wf m \<Longrightarrow> grows R m (om_emplace k v m)"
  by (auto simp: grows_def map_of_om_emplace same)

lemma grows_new: "map_of m k = None \<Longrightarrow> grows R m (om_emplace k v m)"
  unfolding grows_def using map_of_om_emplace_other same by (metis option.distinct(1))

end

interpretation resources: kept_record kept_resource
  by unfold_locales (auto intro: kept kept_resource_trans)

interpretation requests: kept_record kept_request
  by unfold_locales (auto intro: kept kept_request_trans)

interpretation placements: kept_record kept_placement
  by unfold_locales (auto intro: kept kept_placement_trans)

interpretation reservations: kept_record kept_reservation
  by unfold_locales (auto intro: kept kept_reservation_trans)

interpretation workers: kept_record kept_worker
  by unfold_locales (auto intro: kept kept_worker_trans)

lemma grows_Nil: "grows R m [] \<Longrightarrow> m = []"
proof (cases m)
  case (Cons a l)
  then have "map_of m (fst a) = Some (snd a)" by simp
  moreover assume "grows R m []"
  ultimately show ?thesis unfolding grows_def by fastforce
qed

section \<open>States that keep their history\<close>

definition history :: "scheduler_state \<Rightarrow> scheduler_state \<Rightarrow> bool" where
  "history st st' \<longleftrightarrow>
     grows kept_resource (ss_resources st) (ss_resources st') \<and>
     grows kept_request (ss_requests st) (ss_requests st') \<and>
     grows kept_placement (ss_placements st) (ss_placements st') \<and>
     grows kept_reservation (ss_reservations st) (ss_reservations st') \<and>
     grows kept_worker (ss_workers st) (ss_workers st') \<and>
     (ss_shutting_down st \<longrightarrow> ss_shutting_down st') \<and>
     (ss_epoch st \<le> ss_epoch st' \<or> scheduler_empty st)"

lemmas grows_same [simp] =
  resources.grows_same requests.grows_same placements.grows_same reservations.grows_same
  workers.grows_same

lemma history_refl [simp]: "history st st"
  by (simp add: history_def)

lemma history_trans:
  assumes "history a b" and "history b c"
  shows "history a c"
proof -
  have "scheduler_empty a" if "scheduler_empty b"
    using that assms(1) by (auto simp: scheduler_empty_def history_def dest: grows_Nil)
  then have "ss_epoch a \<le> ss_epoch c \<or> scheduler_empty a"
    using assms unfolding history_def by (metis order_trans)
  moreover note resources.grows_trans [of "ss_resources a" "ss_resources b" "ss_resources c"]
    requests.grows_trans [of "ss_requests a" "ss_requests b" "ss_requests c"]
    placements.grows_trans [of "ss_placements a" "ss_placements b" "ss_placements c"]
    reservations.grows_trans [of "ss_reservations a" "ss_reservations b" "ss_reservations c"]
    workers.grows_trans [of "ss_workers a" "ss_workers b" "ss_workers c"]
  ultimately show ?thesis using assms unfolding history_def by blast
qed

section \<open>Every operation keeps the history\<close>

lemma history_same:
  "ss_resources st' = ss_resources st \<Longrightarrow> ss_requests st' = ss_requests st \<Longrightarrow>
   ss_placements st' = ss_placements st \<Longrightarrow> ss_reservations st' = ss_reservations st \<Longrightarrow>
   ss_workers st' = ss_workers st \<Longrightarrow> ss_shutting_down st' = ss_shutting_down st \<Longrightarrow>
   ss_epoch st' = ss_epoch st \<Longrightarrow> history st st'"
  by (simp add: history_def)

lemma history_push_audit [simp]: "history st (push_audit cfg k d st') = history st st'"
  by (simp add: history_def)

lemma kept_only_reserved [kept]: "only_reserved r r' \<Longrightarrow> kept_resource r r'"
  by (auto simp: only_reserved_def kept_resource_def)

lemma grows_only_reserved: "only_reserved_tables m m' \<Longrightarrow> grows kept_resource m m'"
  unfolding only_reserved_tables_def grows_def option_rel_Some1 [symmetric]
  by (metis kept_only_reserved option_rel_Some1)

lemma history_release: "history st (snd (release_reservation rid t d st))"
proof -
  have "kept_reservation v (v\<lparr>rv_state := t, rv_detail := d\<rparr>)" if "rv_state v = RV_Active" for v
    using that by (auto simp: kept_reservation_def)
  then have "grows kept_reservation (ss_reservations st)
      (ss_reservations (snd (release_reservation rid t d st)))"
    by (auto simp: release_reservation_def split: option.split
        intro!: reservations.grows_modify)
  moreover have "ss_shutting_down (snd (release_reservation rid t d st)) = ss_shutting_down st"
    by (simp add: release_reservation_def split: option.split)
  ultimately show ?thesis
    using grows_only_reserved [OF release_reservation_resources]
    by (simp add: history_def release_reservation_frame)
qed

lemma history_placements:
  "grows kept_placement (ss_placements st) ps \<Longrightarrow>
     history st (st\<lparr>ss_transition_sequence := n, ss_placements := ps\<rparr>)"
  by (simp add: history_def)

lemma history_requests:
  "(\<And>s. kept_request s (f s)) \<Longrightarrow> history st (st\<lparr>ss_requests := om_modify k f (ss_requests st)\<rparr>)"
  by (simp add: history_def requests.grows_modify)

lemma history_resources:
  "grows kept_resource (ss_resources st) rs \<Longrightarrow> history st (st\<lparr>ss_resources := rs\<rparr>)"
  by (simp add: history_def)

lemma kept_detach [kept]: "kept_request s (detach_request pid t d s)"
  by (simp add: kept_request_def detach_request_def split: option.split)

lemma kept_retire_placement:
  "placement_state_is_live (pl_state p) \<Longrightarrow> kept_placement p (retire_placement t d n p)"
proof -
  assume live: "placement_state_is_live (pl_state p)"
  have "retire_placement t d n p = p\<lparr>pl_state := t, pl_detail := d, pl_transition_sequence := n,
      pl_completion_recorded := pl_completion_recorded p, pl_completion_detail := pl_completion_detail p\<rparr>"
    by (simp add: retire_placement_def)
  with live show ?thesis unfolding kept_placement_def by fastforce
qed

lemma history_terminate: "history st (terminate_placement pid t d st)"
proof (cases "map_of (ss_placements st) pid")
  case (Some p)
  show ?thesis
  proof (cases "placement_state_is_live (pl_state p)")
    case True
    let ?n = "ss_transition_sequence st + 1"
    let ?st1 = "st\<lparr>ss_transition_sequence := ?n,
      ss_placements := om_modify pid (retire_placement t d ?n) (ss_placements st)\<rparr>"
    have 1: "history st ?st1"
      using Some True
      by (intro history_placements placements.grows_modify kept_retire_placement) simp
    let ?st2 = "snd (release_reservation (pl_reservation p) (if termination_revokes t then RV_Revoked else RV_Released) d ?st1)"
    have 2: "history ?st1 ?st2" by (rule history_release)
    let ?st3 = "?st2\<lparr>ss_requests := om_modify (pl_request p) (detach_request (pl_id p) t d) (ss_requests ?st2)\<rparr>"
    have 3: "history ?st2 ?st3" by (rule history_requests) (rule kept_detach)
    have 4: "history ?st3 (?st3\<lparr>ss_unit_current := u\<rparr>)" for u by (rule history_same) simp_all
    have "terminate_placement pid t d st =
        ?st3\<lparr>ss_unit_current := detach_unit (placement_unit p) (pl_id p) (ss_unit_current ?st3)\<rparr>"
      using Some True
      by (simp add: terminate_placement_def Let_def revoke_reservation_def retire_placement_def [abs_def])
    with history_trans [OF history_trans [OF history_trans [OF 1 2] 3] 4] show ?thesis by metis
  qed (simp add: terminate_placement_def Some)
qed (simp add: terminate_placement_def)

lemma kept_lose [kept]: "incarnation_holds w b r \<Longrightarrow> kept_resource r (lose_incarnation r)"
  by (auto simp: kept_resource_def incarnation_holds_def lose_incarnation_def)

lemma history_fold:
  assumes "\<And>x s. history (fst s) (fst (f x s))"
  shows "history (fst s) (fst (fold f xs s))"
proof (induction xs arbitrary: s)
  case (Cons x xs)
  from history_trans [OF assms Cons.IH] show ?case by simp
qed simp

lemma history_invalidate: "history st (fst (invalidate_worker_incarnation cfg w b d st))"
proof -
  let ?af = "lost_resource_ids w b (ss_resources st)"
  let ?st1 = "st\<lparr>ss_resources := lose_resources w b (ss_resources st)\<rparr>"
  have 1: "history st ?st1"
    by (rule history_resources) (auto simp: grows_def map_of_lose_resources intro: kept)
  have step: "history (fst s) (fst (invalidate_placement_step w b af pid s))" for af pid s
    using invalidate_step_state [of w b af pid "fst s" "snd s"] history_terminate by auto
  have 2: "history ?st1 (fst (fold (invalidate_placement_step w b ?af) pids (?st1, rep)))" for pids rep
    using history_fold [of "invalidate_placement_step w b ?af" "(?st1, rep)"] step by simp
  have 3: "history x (x\<lparr>ss_workers := om_modify w (disconnect_worker b d) (ss_workers x)\<rparr>)" for x
    by (simp add: history_def workers.grows_modify kept_worker_def disconnect_worker_def)
  from history_trans [OF history_trans [OF 1 2] 3] show ?thesis
    by (simp add: invalidate_worker_incarnation_def Let_def case_prod_beta)
qed

lemma history_adopt: "history st (fst (adopt_worker_incarnation cfg w b d st))"
proof -
  have new: "history x (x\<lparr>ss_worker_sequence := n, ss_workers := om_emplace w v (ss_workers x)\<rparr>)"
    if "map_of (ss_workers x) w = None" for x n v
    using that by (simp add: history_def workers.grows_new)
  have known: "history x (x\<lparr>ss_worker_sequence := n, ss_workers := om_modify w f (ss_workers x)\<rparr>)"
    "history x (x\<lparr>ss_workers := om_modify w f (ss_workers x)\<rparr>)"
    if "\<And>u. wk_id (f u) = wk_id u" for x n f
    using that by (simp_all add: history_def workers.grows_modify kept_worker_def)
  from new known(2) history_trans [OF history_invalidate known(1)] show ?thesis
    by (simp add: adopt_worker_incarnation_def Let_def case_prod_beta split: option.split)
qed

section \<open>Scheduling\<close>

lemma history_schedule:
  assumes inv: "state_inv ids st" and cfg: "config_ok cfg" and ok: "request_ok req" and room: "ids_room ids"
  shows "history st (fst (snd (schedule_locked cfg rid req gen rcount st ids)))"
proof -
  obtain r st' ids' where run: "schedule_locked cfg rid req gen rcount st ids = (r, st', ids')"
    by (cases "schedule_locked cfg rid req gen rcount st ids") auto
  have wf: "om_wf (ss_reservations st)" "om_wf (ss_placements st)"
    using inv by (simp_all add: state_inv_def reservations_inv_def placements_inv_def keyed_def)
  have refuse: "kept_request s (refuse_request d s)" and place: "kept_request s (place_request pid s)" for d s pid
    by (simp_all add: kept_request_def refuse_request_def place_request_def)
  from schedule_locked_outcomes [OF inv cfg ok room, of rid gen rcount] run
  consider "refused rid st ids (r, st', ids')" | "limited cfg st ids (r, st', ids')"
    | cand p v where "placed cfg rid req gen rcount st ids (r, st', ids') cand p v"
    by metis
  then have "history st st'"
  proof cases
    case 1
    then show ?thesis
      by (auto simp: refused_def history_def intro!: requests.grows_modify refuse)
  next
    case 2
    then show ?thesis by (simp add: limited_def)
  next
    case 3
    have "grows kept_resource (ss_resources st) (reserve_all sel (ss_resources st))" for sel
      by (auto simp: grows_def reserve_all_map kept_resource_def)
    with 3 wf show ?thesis
      by (auto simp: placed_def history_def record_placement_def
          intro!: requests.grows_modify place placements.grows_emplace reservations.grows_emplace)
  qed
  with run show ?thesis by simp
qed

lemma history_store: "om_wf (ss_requests st) \<Longrightarrow> history st (store_request cfg req st)"
  by (simp add: store_request_def Let_def history_def requests.grows_emplace)

lemma history_submit:
  assumes inv: "engine_inv e" and room: "ids_room (eng_ids e)"
  shows "history (eng_state e) (eng_state (snd (submit_request request e)))"
proof (cases "status_ok (submit_checks (cfg_limits (eng_config e))
    (normalize_schedule_request request) (eng_state e))")
  case True
  let ?req = "normalize_schedule_request request" and ?st = "eng_state e"
  let ?st1 = "store_request (eng_config e) ?req ?st"
  from True have ok: "request_ok ?req" by (auto simp: submit_checks_def intro: request_ok_validated)
  from inv have st: "state_inv (eng_ids e) ?st" and cfg: "config_ok (eng_config e)"
    by (simp_all add: engine_inv_def)
  have 1: "history ?st ?st1" by (rule history_store [OF state_inv_wf(2) [OF st]])
  have 2: "history ?st1 (fst (snd (schedule_locked (eng_config e) (sr_id ?req) ?req 0 0 ?st1 (eng_ids e))))"
    by (rule history_schedule [OF state_inv_store_request [OF st ok] cfg ok room])
  from history_trans [OF 1 2] True show ?thesis
    by (simp add: submit_request_def Let_def case_prod_beta)
qed (simp add: submit_request_def Let_def)

lemma history_reschedule:
  assumes inv: "state_inv ids st" and cfg: "config_ok cfg" and room: "ids_room ids"
    and s: "map_of (ss_requests st0) (pl_request p) = Some stored" and st0: "state_inv ids st0"
  shows "history st (fst (snd (reschedule cfg p stored st ids)))"
  using history_schedule [OF inv cfg _ room] stored_request_facts(2) [OF st0 s]
  by (simp add: reschedule_def)

lemma history_reassign_recorded:
  assumes inv: "engine_inv e" and room: "ids_room (eng_ids e)" and st: "state_inv (eng_ids e) st"
  shows "history st (eng_state (snd (reassign_recorded p report st e)))"
proof (cases "map_of (ss_requests st) (pl_request p)")
  case (Some stored)
  have cfg: "config_ok (eng_config e)" using inv by (simp add: engine_inv_def)
  note h = history_reschedule [OF st cfg room Some st]
  obtain r st2 ids' where run: "reschedule (eng_config e) p stored st (eng_ids e) = (r, st2, ids')"
    by (cases "reschedule (eng_config e) p stored st (eng_ids e)") auto
  from h run Some show ?thesis
    by (simp add: reassign_recorded_def Let_def split: sum.split)
qed (simp add: reassign_recorded_def)

lemma history_reassign:
  assumes inv: "engine_inv e" and room: "ids_room (eng_ids e)"
  shows "history (eng_state e) (eng_state (snd (reassign_placement pid g epoch reason e)))"
proof -
  have st: "state_inv (eng_ids e) (eng_state e)" using inv by (simp add: engine_inv_def)
  have t: "state_inv (eng_ids e) (terminate_placement pid PL_ReassignmentRequired d (eng_state e))" for d
    by (rule state_inv_terminate [OF st]) simp
  have "history (eng_state e) (eng_state (snd (reassign_recorded p report
      (terminate_placement pid PL_ReassignmentRequired d (eng_state e)) e)))" for p report d
    by (rule history_trans [OF history_terminate history_reassign_recorded [OF inv room t]])
  with history_reassign_recorded [OF inv room st] show ?thesis
    by (auto simp: reassign_placement_def Let_def split: option.split)
qed

lemma history_preempt_terminated:
  assumes inv: "engine_inv e" and room: "ids_room (eng_ids e)" and st: "state_inv (eng_ids e) st"
  shows "history st (eng_state (snd (preempt_terminated p reason report st e)))"
proof (cases "map_of (ss_requests st) (pl_request p)")
  case (Some stored)
  have cfg: "config_ok (eng_config e)" using inv by (simp add: engine_inv_def)
  let ?st1 = "st\<lparr>ss_requests := om_modify (pl_request p) (\<lambda>s. s\<lparr>st_state := RQ_Submitted\<rparr>) (ss_requests st)\<rparr>"
  have st1: "state_inv (eng_ids e) ?st1" by (rule state_inv_modify_request [OF st]) simp
  have 1: "history st ?st1" by (rule history_requests) (simp add: kept_request_def)
  note 2 = history_reschedule [OF st1 cfg room Some st]
  obtain r st2 ids' where run: "reschedule (eng_config e) p stored ?st1 (eng_ids e) = (r, st2, ids')"
    by (cases "reschedule (eng_config e) p stored ?st1 (eng_ids e)") auto
  from history_trans [OF 1 2] 1 run Some show ?thesis
    by (simp add: preempt_terminated_def Let_def split: sum.split)
qed (simp add: preempt_terminated_def)

lemma history_preempt:
  assumes inv: "engine_inv e" and room: "ids_room (eng_ids e)"
  shows "history (eng_state e) (eng_state (snd (preempt_placement pid g epoch reason e)))"
proof -
  have st: "state_inv (eng_ids e) (eng_state e)" using inv by (simp add: engine_inv_def)
  have t: "state_inv (eng_ids e) (terminate_placement pid PL_Preempted d (eng_state e))" for d
    by (rule state_inv_terminate [OF st]) simp
  have "history (eng_state e) (eng_state (snd (preempt_terminated p reason report
      (terminate_placement pid PL_Preempted d (eng_state e)) e)))" for p report d
    by (rule history_trans [OF history_terminate history_preempt_terminated [OF inv room t]])
  then show ?thesis
    by (auto simp: preempt_placement_def Let_def split: option.split)
qed

section \<open>Resources\<close>

lemma adopt_resource_frame:
  assumes "map_of (ss_resources (fst (adopt_worker_incarnation cfg w b d st))) k = Some r'"
    and "map_of (ss_resources st) k = Some r"
  shows "res_worker r' = res_worker r" "res_resource_class r' = res_resource_class r"
    "\<not> (res_lifecycle r = RL_Retired \<and> \<not> res_dynamic_authoritative r) \<or>
      res_lifecycle r' = RL_Retired \<and> \<not> res_dynamic_authoritative r'"
proof -
  have "kept_resource r r'"
    using history_adopt [of st cfg w b d] assms unfolding history_def grows_def by fastforce
  then show "res_worker r' = res_worker r" "res_resource_class r' = res_resource_class r"
    "\<not> (res_lifecycle r = RL_Retired \<and> \<not> res_dynamic_authoritative r) \<or>
      res_lifecycle r' = RL_Retired \<and> \<not> res_dynamic_authoritative r'"
    by (auto simp: kept_resource_def)
qed

lemma history_register:
  assumes inv: "engine_inv e"
  shows "history (eng_state e) (eng_state (snd (register_resource a e)))"
proof -
  have wf: "om_wf (ss_resources (fst (adopt_worker_incarnation cfg w b d (eng_state e))))"
    "om_wf (ss_resources (eng_state e))" for cfg w b d
    using state_inv_wf(1) [OF state_inv_adopt] state_inv_wf(1) inv unfolding engine_inv_def by blast+
  have add: "history st (st\<lparr>ss_resources := om_emplace k r (ss_resources st)\<rparr>)"
    if "om_wf (ss_resources st)" for st k r
    using that by (intro history_resources resources.grows_emplace)
  note a = history_trans [OF history_adopt add [OF wf(1)]]
  show ?thesis
    using history_adopt a add [OF wf(2)] by (auto simp: register_resource_def Let_def)
qed

lemma published_same:
  "res_resource_class (published_record ep a r) = adv_resource_class a"
  "res_worker (published_record ep a r) = adv_worker a"
  by (simp_all add: published_record_def Let_def)

lemma history_publish_live:
  assumes "\<And>r. map_of (ss_resources st) (adv_id a) = Some r \<Longrightarrow>
    res_id r = adv_id a \<and> res_worker r = adv_worker a \<and> res_lifecycle r \<noteq> RL_Retired"
  shows "history st (snd (publish_live cfg a st))"
proof (cases "map_of (ss_resources st) (adv_id a)")
  case (Some r)
  have "history st (st\<lparr>ss_resources := om_modify (adv_id a) (\<lambda>_. published_record (ss_epoch st) a r)
      (ss_resources st)\<rparr>)" if "res_resource_class r = adv_resource_class a"
    using Some assms [OF Some] that
    by (intro history_resources resources.grows_modify) (auto simp: kept_resource_def published_same)
  with Some show ?thesis by (simp add: publish_live_def Let_def)
qed (simp add: publish_live_def)

lemma adopt_lifecycle:
  assumes "map_of (ss_resources (fst (adopt_worker_incarnation cfg w b d st))) k = Some r'"
  shows "\<exists>r. map_of (ss_resources st) k = Some r \<and> res_id r' = res_id r \<and>
    (res_lifecycle r' = RL_Retired \<longrightarrow> res_lifecycle r = RL_Retired)"
proof (cases "map_of (ss_workers st) w")
  case None
  with assms show ?thesis by (simp add: adopt_worker_incarnation_def Let_def)
next
  case (Some wk)
  show ?thesis
  proof (cases "wk_boot wk = b")
    case True
    with Some assms show ?thesis by (simp add: adopt_worker_incarnation_def Let_def)
  next
    case False
    with Some assms have r': "map_of (ss_resources (fst (invalidate_worker_incarnation cfg w (wk_boot wk) d st))) k = Some r'"
      by (simp add: adopt_worker_incarnation_def Let_def case_prod_beta)
    show ?thesis
      by (rule invalidate_resource [OF r']) (metis resource_lifecycle.distinct(11) )
  qed
qed

lemma history_publish:
  assumes inv: "engine_inv e"
  shows "history (eng_state e) (eng_state (snd (publish_resource_state a e)))"
proof -
  let ?a = "normalize_advertisement a" and ?st = "eng_state e" and ?cfg = "eng_config e"
  have keyed: "keyed res_id (ss_resources ?st)"
    using inv by (simp add: engine_inv_def state_inv_def resources_inv_def)
  have adopted: "history ?st (snd (publish_live ?cfg ?a (fst (adopt_worker_incarnation ?cfg w b d ?st))))"
    if "map_of (ss_resources ?st) (adv_id ?a) = Some r" "res_worker r = adv_worker ?a"
      "res_lifecycle r \<noteq> RL_Retired" for r w b d
    by (rule history_trans [OF history_adopt history_publish_live])
      (use that keyed adopt_lifecycle adopt_resource_frame(1) in \<open>fastforce simp: keyed_def\<close>)
  have same: "history ?st (snd (publish_live ?cfg ?a ?st))"
    if "map_of (ss_resources ?st) (adv_id ?a) = Some r" "res_worker r = adv_worker ?a"
      "res_lifecycle r \<noteq> RL_Retired" for r
    by (rule history_publish_live) (use that keyed in \<open>simp add: keyed_def\<close>)
  from adopted same show ?thesis
    by (auto simp: publish_resource_state_def Let_def case_prod_beta split: option.split)
qed

lemma history_retire: "history (eng_state e) (eng_state (snd (retire_resource i g e)))"
proof -
  have "kept_resource r (retire_record r)" for r by (simp add: kept_resource_def retire_record_def)
  then have "history st (st\<lparr>ss_resources := om_modify i retire_record (ss_resources st)\<rparr>)" for st
    by (intro history_resources resources.grows_modify)
  then show ?thesis by (simp add: retire_resource_def Let_def split: option.split)
qed

section \<open>The other operations\<close>

lemma history_progress:
  assumes "placement_state_is_live target"
  shows "history (eng_state e) (eng_state (snd (progress_placement rej target d kind pid g epoch b e)))"
proof (cases "map_of (ss_placements (eng_state e)) pid")
  case (Some p)
  have live: "placement_state_is_live (pl_state p)" if "status_ok (progress_checks rej g b p)"
    using that by (auto simp: progress_checks_def split: if_splits)
  have "kept_placement p (progress_record target d n p)" if "placement_state_is_live (pl_state p)" for n
  proof -
    have "progress_record target d n p = p\<lparr>pl_state := target, pl_detail := d, pl_transition_sequence := n,
        pl_completion_recorded := pl_completion_recorded p, pl_completion_detail := pl_completion_detail p\<rparr>"
      by (simp add: progress_record_def)
    with that show ?thesis unfolding kept_placement_def by fastforce
  qed
  then have "history st (st\<lparr>ss_transition_sequence := n,
      ss_placements := om_modify pid (progress_record target d n) (ss_placements st)\<rparr>)"
    if "status_ok (progress_checks rej g b p)" "map_of (ss_placements st) pid = Some p" for st n
    using that live by (intro history_placements placements.grows_modify) simp
  with Some show ?thesis by (simp add: progress_placement_def Let_def)
qed (simp add: progress_placement_def Let_def)

lemma history_complete: "history st (complete_placement c st)"
proof -
  let ?st1 = "st\<lparr>ss_placements := om_modify (cc_placement c) (record_completion (cc_detail c)) (ss_placements st)\<rparr>"
  have "kept_placement p (record_completion d p)" for p d
  proof -
    have "record_completion d p = p\<lparr>pl_state := pl_state p, pl_detail := pl_detail p,
        pl_transition_sequence := pl_transition_sequence p, pl_completion_recorded := True,
        pl_completion_detail := d\<rparr>" by (simp add: record_completion_def)
    then show ?thesis unfolding kept_placement_def by fastforce
  qed
  then have "history st ?st1" by (simp add: history_def placements.grows_modify)
  from history_trans [OF this history_terminate] show ?thesis by (simp add: complete_placement_def)
qed

lemma history_completion: "history (eng_state e) (eng_state (snd (report_completion c e)))"
  using history_complete by (simp add: report_completion_def Let_def split: option.split)

lemma history_cancel_placement:
  "history (eng_state e) (eng_state (snd (cancel_placement pid g epoch reason e)))"
  using history_terminate by (simp add: cancel_placement_def Let_def split: option.split)

lemma history_cancel_request: "history (eng_state e) (eng_state (snd (cancel_request rid reason e)))"
proof -
  have step: "history (fst s) (fst (cancel_request_step rid reason pid s))" for pid s
    using history_terminate by (cases s) (auto simp: cancel_request_step_def split: option.split)
  have 1: "history st (fst (fold (cancel_request_step rid reason) pids (st, rep)))" for st pids rep
    using history_fold [of "cancel_request_step rid reason" "(st, rep)"] step by simp
  have 2: "history x (x\<lparr>ss_requests := om_modify rid (cancel_stored d) (ss_requests x)\<rparr>)" for x d
    by (rule history_requests) (simp add: kept_request_def cancel_stored_def)
  from history_trans [OF 1 2] show ?thesis
    by (simp add: cancel_request_def Let_def case_prod_beta)
qed

lemma history_epoch: "history (eng_state e) (eng_state (snd (adopt_epoch epoch e)))"
  using linear [of epoch "ss_epoch (eng_state e)"] by (auto simp: adopt_epoch_def Let_def history_def)

lemma history_shutdown: "history (eng_state e) (eng_state (snd (begin_shutdown e)))"
  by (simp add: begin_shutdown_def Let_def history_def)

lemma history_worker_connected: "history (eng_state e) (eng_state (snd (worker_connected w b e)))"
  using history_adopt by (simp add: worker_connected_def Let_def case_prod_beta)

lemma history_worker_lost: "history (eng_state e) (eng_state (snd (mark_worker_lost w b d e)))"
  using history_invalidate by (simp add: mark_worker_lost_def Let_def case_prod_beta split: option.split)

section \<open>Import\<close>

lemma shutting_fold:
  assumes "\<And>x a. ss_shutting_down (fst (f x a)) = ss_shutting_down (fst a)"
  shows "ss_shutting_down (fst (fold f xs a)) = ss_shutting_down (fst a)"
  using assms by (induction xs arbitrary: a) simp_all

lemma shutting_import: "ss_shutting_down (fst (import_records d a)) = ss_shutting_down (fst a)"
proof -
  have "ss_shutting_down (fst (import_resource x a)) = ss_shutting_down (fst a)"
    "ss_shutting_down (fst (import_request y a)) = ss_shutting_down (fst a)"
    "ss_shutting_down (fst (import_placement p a)) = ss_shutting_down (fst a)"
    "ss_shutting_down (fst (import_reservation v a)) = ss_shutting_down (fst a)" for x y p v a
    by (simp_all add: import_resource_def import_request_def import_placement_def import_reservation_def
        recover_worker_def Let_def case_prod_beta split: option.split)
  then show ?thesis unfolding import_records_def by (simp add: shutting_fold)
qed

lemma workers_import: "grows kept_worker (ss_workers (fst a)) (ss_workers (fst (import_records d a)))"
proof -
  have step: "grows kept_worker (ss_workers (fst a)) (ss_workers (fst (import_resource r a)))" for r a
    using workers.grows_new
    by (auto simp: import_resource_def recover_worker_def Let_def case_prod_beta split: option.split)
  have fold: "grows kept_worker (ss_workers (fst a)) (ss_workers (fst (fold import_resource rs a)))" for rs a
  proof (induction rs arbitrary: a)
    case (Cons r rs)
    from workers.grows_trans [OF step Cons.IH]
    show ?case by simp
  qed simp
  show ?thesis unfolding import_records_def using fold [of a "du_resources d"]
    by (simp add: import_requests_fields import_placements_other import_reservations_fields)
qed

lemma history_import: "history (eng_state e) (eng_state (snd (import_state d e)))"
proof (cases "import_state d e")
  case (Pair r e')
  show ?thesis
  proof (cases r)
    case (Inl s)
    with Pair import_state_failure [of d e s e'] show ?thesis by simp
  next
    case (Inr report)
    with Pair have run: "import_state d e = (Inr report, e')" by simp
    from import_state_success(2,5) [OF run]
    have "scheduler_empty (eng_state e)" "ss_shutting_down (eng_state e') = ss_shutting_down (eng_state e)"
      by (auto simp: shutting_import import_acc_def)
    moreover from import_state_success(5) [OF run] have "grows kept_worker (ss_workers (eng_state e)) (ss_workers (eng_state e'))"
      using workers_import [of "import_acc d e" d] by (auto simp: import_acc_def)
    ultimately show ?thesis using Pair by (simp add: history_def scheduler_empty_def) (simp add: grows_def)
  qed
qed

section \<open>Any sequence of steps\<close>

lemma engine_step_history: "engine_step e e' \<Longrightarrow> engine_inv e \<Longrightarrow> history (eng_state e) (eng_state e')"
  by (induction rule: engine_step.induct)
    (simp_all add: history_epoch history_shutdown history_worker_connected history_worker_lost
      worker_disconnected_def history_register history_publish history_retire history_submit
      mark_assigned_def mark_running_def history_progress history_completion history_cancel_placement
      history_cancel_request history_reassign history_preempt history_import)

text \<open>A transition system with an invariant whose steps respect a preorder.\<close>

locale transition_order = transition_invariant initial step inv
  for initial :: "'s \<Rightarrow> bool" and step :: "'s \<Rightarrow> 's \<Rightarrow> bool" and inv :: "'s \<Rightarrow> bool" +
  fixes before :: "'s \<Rightarrow> 's \<Rightarrow> bool"
  assumes before_refl: "before s s" and before_trans: "before s t \<Longrightarrow> before t u \<Longrightarrow> before s u"
    and before_step: "inv s \<Longrightarrow> step s t \<Longrightarrow> before s t"
begin

lemma before_rtranclp: "step\<^sup>*\<^sup>* s t \<Longrightarrow> inv s \<Longrightarrow> before s t"
proof (induction rule: rtranclp_induct)
  case (step t u)
  then show ?case using before_trans before_step inv_rtranclp by blast
qed (rule before_refl)

end

interpretation engine_history: transition_order initial_engine engine_step engine_inv
  "\<lambda>e e'. history (eng_state e) (eng_state e')"
proof
  show "history (eng_state s) (eng_state s)" for s by simp
  show "history (eng_state s) (eng_state t) \<Longrightarrow> history (eng_state t) (eng_state u) \<Longrightarrow>
    history (eng_state s) (eng_state u)" for s t u by (rule history_trans)
  show "engine_inv s \<Longrightarrow> engine_step s t \<Longrightarrow> history (eng_state s) (eng_state t)" for s t
    by (rule engine_step_history)
qed

end
