(* ===== verification/EngineLaws.thy ===== *)
theory EngineLaws
  imports History LabExample
begin

text \<open>
  The properties of the engine as a transition system and of the operations on resources: the
  ledger in every reachable engine, the history no step forgets, shutdown, registration,
  publication and retirement.
\<close>

section \<open>Reachable engines\<close>

text \<open>C4. The ledger is exact in every reachable engine: the reserved slots of a resource are the sum
  of the claims of the active reservations, together with the advertised occupancy they stay within
  its slots, a retired resource holds nothing, and a live placement is backed by an active
  reservation that claims its resources slot by slot.\<close>

theorem reachable_ledger:
  assumes "reachable e"
  shows "(\<forall>k r. map_of (ss_resources (eng_state e)) k = Some r \<longrightarrow>
      unat (res_reserved_slots r) = om_total (reservation_claims k) (ss_reservations (eng_state e)) \<and>
      unat (res_advertised_occupancy r) + unat (res_reserved_slots r) \<le> unat (rcap_slots (res_capacity r)) \<and>
      (res_lifecycle r = RL_Retired \<longrightarrow> res_reserved_slots r = 0)) \<and>
    (\<forall>k p. map_of (ss_placements (eng_state e)) k = Some p \<longrightarrow> placement_state_is_live (pl_state p) \<longrightarrow>
      (\<exists>v. map_of (ss_reservations (eng_state e)) (pl_reservation p) = Some v \<and> rv_state v = RV_Active \<and>
        rv_placement v = k \<and> map cl_resource (rv_claims v) = map sel_resource (pl_resources p)))"
proof -
  let ?st = "eng_state e"
  have inv: "state_inv (eng_ids e) ?st" using reachable_inv [OF assms] by (simp add: engine_inv_def)
  have "unat (res_reserved_slots r) = om_total (reservation_claims k) (ss_reservations ?st) \<and>
      unat (res_advertised_occupancy r) + unat (res_reserved_slots r) \<le> unat (rcap_slots (res_capacity r)) \<and>
      (res_lifecycle r = RL_Retired \<longrightarrow> res_reserved_slots r = 0)"
    if "map_of (ss_resources ?st) k = Some r" for k r
  proof -
    from inv that have "unat (res_reserved_slots r) = om_total (reservation_claims k) (ss_reservations ?st)"
      "resource_ok r" by (simp_all add: state_inv_def resources_inv_def)
    then show ?thesis unfolding resource_ok_def by blast
  qed
  moreover have "\<exists>v. map_of (ss_reservations ?st) (pl_reservation p) = Some v \<and> rv_state v = RV_Active \<and>
        rv_placement v = k \<and> map cl_resource (rv_claims v) = map sel_resource (pl_resources p)"
    if p: "map_of (ss_placements ?st) k = Some p" "placement_state_is_live (pl_state p)" for k p
  proof -
    have "placements_inv (ss_resources ?st) (ss_requests ?st) (ss_reservations ?st) (ss_placements ?st)"
      using inv by (simp add: state_inv_def)
    with p have "backed (ss_reservations ?st) p" "pl_id p = k"
      by (simp_all add: placements_inv_def keyed_def)
    then show ?thesis by (auto simp: backed_def matching_def)
  qed
  ultimately show ?thesis by blast
qed

text \<open>In every reachable engine the self checks of the ledger pass: capacity, the mirror of the
  reservations, the backing of live placements, active reservations, references and units.\<close>

theorem reachable_self_checks:
  assumes "reachable e"
  shows "ic_ok (check_capacity (eng_state e)) \<and> ic_ok (check_mirror (eng_state e)) \<and>
    ic_ok (check_live_placements (eng_state e)) \<and> ic_ok (check_active_reservations (eng_state e)) \<and>
    ic_ok (check_references (eng_state e)) \<and> ic_ok (check_units (eng_state e))"
  using engine_inv_checks [OF reachable_inv [OF assms]] by blast

text \<open>C6. Nothing recorded is forgotten or revived by any sequence of operations, from every engine
  that satisfies the ledger invariant, as every reachable one does. A resource stays recorded with
  its class and its worker and, once retired, stays retired; a request keeps its content; a placement
  keeps its request, its resources, its generation and its epoch and, once ended, its final state; a
  reservation, active or not, stays recorded with the placement and the claims it was made for and,
  once released, never changes again; a worker stays known. Shutdown is final, and the epoch of an
  engine that holds records never decreases.\<close>

theorem history_is_final:
  assumes "engine_inv e" and "engine_step\<^sup>*\<^sup>* e e'"
  shows "(\<forall>k r. map_of (ss_resources (eng_state e)) k = Some r \<longrightarrow>
      (\<exists>r'. map_of (ss_resources (eng_state e')) k = Some r' \<and> res_resource_class r' = res_resource_class r \<and>
        res_worker r' = res_worker r \<and>
        (res_lifecycle r = RL_Retired \<and> \<not> res_dynamic_authoritative r \<longrightarrow>
          res_lifecycle r' = RL_Retired \<and> \<not> res_dynamic_authoritative r'))) \<and>
    (\<forall>k s. map_of (ss_requests (eng_state e)) k = Some s \<longrightarrow>
      (\<exists>s'. map_of (ss_requests (eng_state e')) k = Some s' \<and> st_request s' = st_request s \<and>
        st_submitted_sequence s' = st_submitted_sequence s)) \<and>
    (\<forall>k p. map_of (ss_placements (eng_state e)) k = Some p \<longrightarrow>
      (\<exists>q. map_of (ss_placements (eng_state e')) k = Some q \<and> pl_resources q = pl_resources p \<and>
        pl_request q = pl_request p \<and> pl_generation q = pl_generation p \<and> pl_epoch q = pl_epoch p \<and>
        (pl_completion_recorded p \<longrightarrow> pl_completion_recorded q) \<and>
        (\<not> placement_state_is_live (pl_state p) \<longrightarrow> pl_state q = pl_state p))) \<and>
    (\<forall>k v. map_of (ss_reservations (eng_state e)) k = Some v \<longrightarrow>
      (\<exists>v'. map_of (ss_reservations (eng_state e')) k = Some v' \<and> rv_placement v' = rv_placement v \<and>
        rv_placement_generation v' = rv_placement_generation v \<and> rv_claims v' = rv_claims v \<and>
        (rv_state v \<noteq> RV_Active \<longrightarrow> v' = v))) \<and>
    (\<forall>k w. map_of (ss_workers (eng_state e)) k = Some w \<longrightarrow>
      (\<exists>w'. map_of (ss_workers (eng_state e')) k = Some w' \<and> wk_id w' = wk_id w)) \<and>
    (ss_shutting_down (eng_state e) \<longrightarrow> ss_shutting_down (eng_state e')) \<and>
    (ss_epoch (eng_state e) \<le> ss_epoch (eng_state e') \<or> scheduler_empty (eng_state e))"
proof -
  have h: "history (eng_state e) (eng_state e')"
    using engine_history.before_rtranclp [OF assms(2,1)] .
  then have g: "grows kept_resource (ss_resources (eng_state e)) (ss_resources (eng_state e'))"
    "grows kept_request (ss_requests (eng_state e)) (ss_requests (eng_state e'))"
    "grows kept_placement (ss_placements (eng_state e)) (ss_placements (eng_state e'))"
    "grows kept_reservation (ss_reservations (eng_state e)) (ss_reservations (eng_state e'))"
    "grows kept_worker (ss_workers (eng_state e)) (ss_workers (eng_state e'))"
    unfolding history_def by simp_all
  have weak: "\<forall>k v. map_of m k = Some v \<longrightarrow> (\<exists>w. map_of m' k = Some w \<and> Q v w)"
    if "grows R m m'" "\<And>v w. R v w \<Longrightarrow> Q v w" for R Q :: "'v \<Rightarrow> 'v \<Rightarrow> bool" and m m' :: "('k::linorder, 'v) omap"
    using that unfolding grows_def by meson
  have r: "\<forall>k r. map_of (ss_resources (eng_state e)) k = Some r \<longrightarrow>
      (\<exists>r'. map_of (ss_resources (eng_state e')) k = Some r' \<and> res_resource_class r' = res_resource_class r \<and>
        res_worker r' = res_worker r \<and>
        (res_lifecycle r = RL_Retired \<and> \<not> res_dynamic_authoritative r \<longrightarrow>
          res_lifecycle r' = RL_Retired \<and> \<not> res_dynamic_authoritative r'))"
    by (rule weak [OF g(1)]) (simp add: kept_resource_def)
  show ?thesis
    by (intro conjI r weak [OF g(2)] weak [OF g(3)] weak [OF g(4)] weak [OF g(5)])
      (use h in \<open>auto simp: kept_request_def kept_placement_def kept_reservation_def kept_worker_def history_def\<close>)
qed

definition retired_in :: "engine \<Rightarrow> resource_id \<Rightarrow> bool" where
  "retired_in e k \<longleftrightarrow> (\<exists>r. map_of (ss_resources (eng_state e)) k = Some r \<and>
     res_lifecycle r = RL_Retired \<and> \<not> res_dynamic_authoritative r)"

lemma retired_step:
  "engine_step\<^sup>*\<^sup>* e e' \<Longrightarrow> engine_inv e \<Longrightarrow> retired_in e k \<Longrightarrow> retired_in e' k"
  using engine_history.before_rtranclp [of e e']
  unfolding retired_in_def history_def grows_def kept_resource_def by metis

lemma retired_refused:
  assumes "retired_in e k" and "adv_id a = k"
  shows "isl (fst (publish_resource_state a e)) \<and> snd (publish_resource_state a e) = e \<and>
    isl (fst (register_resource a e)) \<and> snd (register_resource a e) = e"
proof -
  have "adv_id (normalize_advertisement a) = k" using assms(2) by (simp add: normalize_advertisement_def)
  with assms(1) show ?thesis
    by (auto simp: retired_in_def publish_resource_state_def register_resource_def Let_def)
qed

text \<open>C27. Retirement is final: once a resource is retired no sequence of operations makes it eligible for any
  requirement, and publication and registration under its identity are refused.\<close>

theorem retirement_is_final:
  assumes "reachable e" and "retire_resource k g e = (Inr r, e1)" and "engine_step\<^sup>*\<^sup>* e1 e'" and "adv_id a = k"
  shows "retired_in e' k \<and>
    (\<forall>r' req q. map_of (ss_resources (eng_state e')) k = Some r' \<longrightarrow>
       \<not> el_eligible (evaluate_resource req q r' (cfg_limits (eng_config e')))) \<and>
    snd (publish_resource_state a e') = e' \<and> isl (fst (publish_resource_state a e')) \<and>
    snd (register_resource a e') = e' \<and> isl (fst (register_resource a e'))"
proof -
  have "engine_inv e" by (rule reachable_inv [OF assms(1)])
  moreover have e1: "e1 = snd (retire_resource k g e)" using assms(2) by simp
  ultimately have inv: "engine_inv e1" using keeps_invD [OF keeps_retire_resource] by blast
  have "retired_in e1 k"
    using assms(2) unfolding retired_in_def
    by (auto simp: retire_resource_def Let_def map_of_om_modify retire_record_def split: option.splits if_splits)
  from retired_step [OF assms(3) inv this] have ret: "retired_in e' k" .
  have "engine_inv e'" using ledger.inv_rtranclp [OF assms(3) inv] .
  then have lim: "max_rejection_reasons_per_entry (cfg_limits (eng_config e')) \<noteq> 0"
    by (simp add: engine_inv_def config_ok_def)
  have "\<not> el_eligible (evaluate_resource req q r' (cfg_limits (eng_config e')))"
    if "map_of (ss_resources (eng_state e')) k = Some r'" for r' req q
    using ret that unfolding evaluate_resource_eligible_iff [OF lim]
    by (simp add: retired_in_def meets_hard_constraints_def)
  with ret retired_refused [OF ret assms(4)] show ?thesis by blast
qed

text \<open>After shutdown began no new work enters: whatever operations follow, every submission,
  registration and publication is refused and changes nothing.\<close>

theorem shutdown_is_final:
  assumes "reachable e" and "engine_step\<^sup>*\<^sup>* (snd (begin_shutdown e)) e'"
  shows "isl (fst (submit_request request e')) \<and> snd (submit_request request e') = e' \<and>
    isl (fst (register_resource a e')) \<and> snd (register_resource a e') = e' \<and>
    isl (fst (publish_resource_state a e')) \<and> snd (publish_resource_state a e') = e'"
proof -
  let ?e1 = "snd (begin_shutdown e)"
  have inv: "engine_inv ?e1"
    using reachable_inv [OF assms(1)] keeps_invD [OF keeps_begin_shutdown] by blast
  have "ss_shutting_down (eng_state ?e1)" by (simp add: begin_shutdown_def Let_def)
  then have down: "ss_shutting_down (eng_state e')"
    using engine_history.before_rtranclp [OF assms(2) inv] by (simp add: history_def)
  have "\<not> status_ok (submit_checks (cfg_limits (eng_config e')) (normalize_schedule_request request) (eng_state e'))"
    using down by (simp add: submit_checks_def)
  then show ?thesis
    using down by (auto simp: submit_request_def register_resource_def publish_resource_state_def Let_def)
qed

section \<open>Registration, publication, retirement\<close>

text \<open>Registration is atomic: an error leaves the engine unchanged; otherwise the advertisement is
  valid, its identity was free and the registry below its bound, and the engine now holds the
  normalised advertisement as a current, authoritative, unreserved record of generation 1.\<close>

theorem register_resource_atomic:
  assumes "engine_inv e"
  shows "case register_resource a e of
      (Inl s, e') \<Rightarrow> \<not> status_ok s \<and> e' = e
    | (Inr r, e') \<Rightarrow> status_ok (validate_advertisement (cfg_limits (eng_config e)) a) \<and>
        \<not> ss_shutting_down (eng_state e) \<and> map_of (ss_resources (eng_state e)) (adv_id a) = None \<and>
        length (ss_resources (eng_state e)) < unat (max_resources (cfg_limits (eng_config e))) \<and>
        map_of (ss_resources (eng_state e')) (adv_id a) = Some r \<and>
        advertisement_of_record r = normalize_advertisement a \<and> res_lifecycle r = RL_Current \<and>
        res_dynamic_authoritative r \<and> res_reserved_slots r = 0 \<and> res_generation r = 1 \<and>
        status_ok (validate_resource_record (cfg_limits (eng_config e)) r)"
proof (cases "register_resource a e")
  case (Pair x e')
  let ?n = "normalize_advertisement a"
  let ?adopt = "\<lambda>b d. fst (adopt_worker_incarnation (eng_config e) (adv_worker ?n) b d (eng_state e))"
  have nid: "adv_id ?n = adv_id a" by (simp add: normalize_advertisement_def)
  have inv: "state_inv (eng_ids e) (eng_state e)" using assms by (simp add: engine_inv_def)
  have wf: "om_wf (ss_resources (eng_state e))" "om_wf (ss_resources (?adopt b d))" for b d
    using state_inv_wf(1) [OF inv] state_inv_wf(1) [OF state_inv_adopt [OF inv]] by blast+
  have fresh: "map_of (ss_resources (eng_state e)) k = None \<Longrightarrow> map_of (ss_resources (?adopt b d)) k = None"
    for k b d by (rule ss_resources_adopt_dom)
  show ?thesis
  proof (cases x)
    case (Inl s)
    with Pair registered_record_valid [of "cfg_limits (eng_config e)" a] show ?thesis
      by (auto simp: register_resource_def Let_def split: if_splits)
  next
    case (Inr r)
    with Pair wf fresh registered_record_valid [of "cfg_limits (eng_config e)" a] show ?thesis
      by (auto simp: register_resource_def Let_def map_of_om_emplace nid registered_record_def
          split: if_splits)
  qed
qed

lemma publish_live_success:
  assumes "publish_live cfg a st = (Inr r, st')" and "map_of (ss_resources st) (adv_id a) = Some live"
  shows "r = published_record (ss_epoch st) a live" and "res_resource_class live = adv_resource_class a"
    and "\<not> (ucast (rcap_slots (adv_capacity a)) :: u64) < ucast (adv_current_occupancy a) + ucast (res_reserved_slots live)"
    and "map_of (ss_resources st') (adv_id a) = Some r"
  using assms by (auto simp: publish_live_def Let_def map_of_om_modify split: if_splits)

text \<open>Publication is atomic up to the adoption of a new incarnation: after an error the engine is
  unchanged, or only the worker's new incarnation was adopted. A success replaces the record of a
  resource of the same class and owner by a valid, current and authoritative one whose reserved
  slots still fit; a retired or foreign resource is never published.\<close>

theorem publish_resource_atomic:
  assumes "engine_inv e"
  shows "case publish_resource_state a e of
      (Inl s, e') \<Rightarrow> e' = e \<or> (\<exists>d. e' = e\<lparr>eng_state := fst (adopt_worker_incarnation (eng_config e)
          (adv_worker (normalize_advertisement a)) (adv_boot (normalize_advertisement a)) d (eng_state e))\<rparr>)
    | (Inr r, e') \<Rightarrow> map_of (ss_resources (eng_state e')) (adv_id a) = Some r \<and>
        (\<exists>r0. map_of (ss_resources (eng_state e)) (adv_id a) = Some r0 \<and> res_worker r = res_worker r0 \<and>
           res_resource_class r = res_resource_class r0 \<and> res_lifecycle r0 \<noteq> RL_Retired) \<and>
        advertisement_of_record r = normalize_advertisement a \<and> res_lifecycle r = RL_Current \<and>
        res_dynamic_authoritative r \<and>
        unat (res_advertised_occupancy r) + unat (res_reserved_slots r) \<le> unat (rcap_slots (res_capacity r)) \<and>
        status_ok (validate_resource_record (cfg_limits (eng_config e)) r)"
proof (cases "publish_resource_state a e")
  case (Pair x e')
  let ?n = "normalize_advertisement a" and ?lim = "cfg_limits (eng_config e)"
  have nid: "adv_id ?n = adv_id a" by (simp add: normalize_advertisement_def)
  have run: "\<exists>st r0. (st = eng_state e \<or> (\<exists>d. st = fst (adopt_worker_incarnation (eng_config e)
        (adv_worker ?n) (adv_boot ?n) d (eng_state e)))) \<and>
      map_of (ss_resources (eng_state e)) (adv_id a) = Some r0 \<and> res_worker r0 = adv_worker ?n \<and>
      res_lifecycle r0 \<noteq> RL_Retired \<and> status_ok (validate_advertisement ?lim ?n) \<and>
      publish_live (eng_config e) ?n st = (x, eng_state e') \<and> e' = e\<lparr>eng_state := eng_state e'\<rparr>"
    if "e' \<noteq> e \<or> \<not> isl x"
    using that Pair
    by (auto simp: publish_resource_state_def Let_def nid validate_normalize case_prod_beta
        split: if_splits option.splits)
  show ?thesis
  proof (cases x)
    case (Inl s)
    show ?thesis
    proof (cases "e' = e")
      case False
      with run obtain st where st: "st = eng_state e \<or> (\<exists>d. st = fst (adopt_worker_incarnation (eng_config e)
          (adv_worker ?n) (adv_boot ?n) d (eng_state e)))" "status_ok (validate_advertisement ?lim ?n)"
        "publish_live (eng_config e) ?n st = (Inl s, eng_state e')" "e' = e\<lparr>eng_state := eng_state e'\<rparr>"
        unfolding Inl by blast
      from publish_live_atomic [OF st(2,3)] st(1,4) Pair Inl False show ?thesis by auto
    qed (simp add: Pair Inl)
  next
    case (Inr r)
    with run obtain st r0 where st: "st = eng_state e \<or> (\<exists>d. st = fst (adopt_worker_incarnation (eng_config e)
        (adv_worker ?n) (adv_boot ?n) d (eng_state e)))" "status_ok (validate_advertisement ?lim ?n)"
      and r0: "map_of (ss_resources (eng_state e)) (adv_id a) = Some r0" "res_worker r0 = adv_worker ?n"
        "res_lifecycle r0 \<noteq> RL_Retired"
      and pub: "publish_live (eng_config e) ?n st = (Inr r, eng_state e')"
      by auto
    obtain live where live: "map_of (ss_resources st) (adv_id ?n) = Some live"
      using pub by (auto simp: publish_live_def split: option.splits)
    have cls: "res_resource_class live = res_resource_class r0"
      using st(1) live r0(1) adopt_resource_frame(2) unfolding nid by (metis option.inject)
    note r = publish_live_success [OF pub live]
    from published_record_valid [OF st(2) r(3)] r(1)
    have "status_ok (validate_resource_record ?lim r)" by simp
    moreover have "unat (res_advertised_occupancy r) + unat (res_reserved_slots r) \<le> unat (rcap_slots (res_capacity r))"
      using r(3) unfolding occupancy_guard_iff r(1) by simp
    ultimately show ?thesis using Pair Inr r cls r0 nid by (simp add: published_same)
  qed
qed

lemma live_placement_reserves:
  assumes inv: "state_inv ids st" and p: "map_of (ss_placements st) j = Some p" "placement_state_is_live (pl_state p)"
    and r: "map_of (ss_resources st) k = Some r" and sel: "k \<in> sel_resource ` set (pl_resources p)"
  shows "res_reserved_slots r \<noteq> 0"
proof -
  obtain v where v: "map_of (ss_reservations st) (pl_reservation p) = Some v" "rv_state v = RV_Active"
    "map cl_resource (rv_claims v) = map sel_resource (pl_resources p)"
    using live_placement_reservation [OF inv p] by metis
  from v(3) sel have "k \<in> cl_resource ` set (rv_claims v)" by (metis list.set_map)
  then obtain c where c: "c \<in> set (rv_claims v)" "cl_resource c = k" by blast
  have "reservation_ok (ss_resources st) v"
    using inv v(1) by (simp add: state_inv_def reservations_inv_def)
  with c have "0 < unat (cl_slots c)" by (simp add: reservation_ok_def unat_gt_0)
  also have "\<dots> \<le> claims_on k (rv_claims v)" using c by (auto simp: claims_on_def intro: member_le_sum_list)
  also have "\<dots> = reservation_claims k v" using v(2) by (simp add: reservation_claims_def)
  also have "\<dots> \<le> om_total (reservation_claims k) (ss_reservations st)" using v(1) by (rule om_total_ge)
  also have "\<dots> = unat (res_reserved_slots r)" using inv r by (simp add: state_inv_def resources_inv_def)
  finally show ?thesis by auto
qed

text \<open>A resource is retired only when it holds nothing: success means no slot was reserved and no
  live placement selected it; an error leaves the engine unchanged, and the rest of the ledger is
  never touched.\<close>

theorem retire_resource_effect:
  assumes "engine_inv e"
  shows "case retire_resource k g e of
      (Inl s, e') \<Rightarrow> \<not> status_ok s \<and> e' = e
    | (Inr r, e') \<Rightarrow> (\<exists>r0. map_of (ss_resources (eng_state e)) k = Some r0 \<and> res_reserved_slots r0 = 0 \<and>
          (g = 0 \<or> g = res_generation r0) \<and> r = retire_record r0) \<and>
        (\<forall>j p. map_of (ss_placements (eng_state e)) j = Some p \<longrightarrow> placement_state_is_live (pl_state p) \<longrightarrow>
           k \<notin> sel_resource ` set (pl_resources p)) \<and>
        (\<forall>j. map_of (ss_resources (eng_state e')) j =
           (if j = k then Some r else map_of (ss_resources (eng_state e)) j)) \<and>
        ss_placements (eng_state e') = ss_placements (eng_state e) \<and>
        ss_reservations (eng_state e') = ss_reservations (eng_state e)"
proof -
  have inv: "state_inv (eng_ids e) (eng_state e)" using assms by (simp add: engine_inv_def)
  have "k \<notin> sel_resource ` set (pl_resources p)"
    if "map_of (ss_resources (eng_state e)) k = Some r0" "res_reserved_slots r0 = 0"
      "map_of (ss_placements (eng_state e)) j = Some p" "placement_state_is_live (pl_state p)" for j p r0
    using live_placement_reserves [OF inv that(3,4,1)] that(2) by blast
  then show ?thesis
    by (auto simp: retire_resource_def Let_def map_of_om_modify split: option.splits)
qed

section \<open>At concrete inputs\<close>

definition lab_registered :: engine where
  "lab_registered = snd (register_resource (gpu_advertisement 1 3) (make_engine lab_config))"

lemma lab_reachable: "reachable (make_engine lab_config)" "reachable lab_registered"
  unfolding lab_registered_def
  using reachable_make [OF lab_config_ok] reachable_step [OF reachable_make [OF lab_config_ok] step_register]
  by blast+

lemma lab_retirable: "\<not> isl (fst (retire_resource 1 0 lab_registered))"
  by code_simp

lemma lab_registered_gpu: "map_of (ss_resources (eng_state lab_registered)) 1 \<noteq> None"
  using lab_retirable
  by (cases "map_of (ss_resources (eng_state lab_registered)) 1") (simp_all add: retire_resource_def Let_def)

theorem reachable_ledger_witness:
  "\<exists>r. map_of (ss_resources (eng_state lab_registered)) 1 = Some r \<and>
     unat (res_reserved_slots r) = om_total (reservation_claims 1) (ss_reservations (eng_state lab_registered)) \<and>
     unat (res_advertised_occupancy r) + unat (res_reserved_slots r) \<le> unat (rcap_slots (res_capacity r))"
  using reachable_ledger [OF lab_reachable(2)] lab_registered_gpu by blast

theorem reachable_self_checks_witness: "ic_ok (check_mirror (eng_state lab_registered))"
  using reachable_self_checks [OF lab_reachable(2)] by blast

theorem history_is_final_witness:
  "let e' = eng_state (snd (begin_shutdown (snd (cancel_placement 102 1 1 [] lab_engine)))) in
     (\<exists>q. map_of (ss_placements e') 102 = Some q \<and> pl_resources q = pl_resources lab_placement) \<and>
     (\<exists>v. map_of (ss_reservations e') (pl_reservation lab_placement) = Some v \<and> rv_claims v = rv_claims lab_reservation) \<and>
     (\<exists>r. map_of (ss_resources e') 1 = Some r \<and> res_worker r = 7) \<and>
     (\<exists>s. map_of (ss_requests e') 20 = Some s \<and> st_request s = st_request lab_stored) \<and>
     (\<exists>w. map_of (ss_workers e') 7 = Some w)"
proof -
  let ?e = "snd (begin_shutdown (snd (cancel_placement 102 1 1 [] lab_engine)))"
  have "engine_step\<^sup>*\<^sup>* lab_engine ?e"
    by (meson r_into_rtranclp rtranclp.rtrancl_into_rtrancl step_cancel_placement step_shutdown)
  note final = history_is_final [OF lab_engine_inv this]
  have keys: "pl_reservation lab_placement = 103" "res_worker (lab_resource 1) = 7" by code_simp+
  have tables: "map_of (ss_placements (eng_state lab_engine)) 102 = Some lab_placement"
    "map_of (ss_reservations (eng_state lab_engine)) (pl_reservation lab_placement) = Some lab_reservation"
    "map_of (ss_resources (eng_state lab_engine)) 1 = Some (lab_resource 1)"
    "map_of (ss_requests (eng_state lab_engine)) 20 = Some lab_stored"
    "map_of (ss_workers (eng_state lab_engine)) 7 = Some lab_worker"
    by (simp_all add: keys)
  show ?thesis unfolding Let_def
    using final tables keys(2) by (intro conjI) (meson | metis)+
qed

theorem retirement_is_final_witness:
  "retired_in (snd (begin_shutdown (snd (retire_resource 1 0 lab_registered)))) 1"
proof -
  obtain r e1 where run: "retire_resource 1 0 lab_registered = (Inr r, e1)"
    using lab_retirable by (metis isl_def obj_sumE prod.collapse)
  have "adv_id (gpu_advertisement 1 3) = 1" by (simp add: gpu_advertisement_def)
  from retirement_is_final [OF lab_reachable(2) run r_into_rtranclp [of engine_step, OF step_shutdown] this] run
  show ?thesis by simp
qed

theorem shutdown_is_final_witness:
  "isl (fst (submit_request (lab_request 20) (snd (begin_shutdown lab_registered))))"
  using shutdown_is_final [OF lab_reachable(2) rtranclp.rtrancl_refl, of "lab_request 20" "gpu_advertisement 2 3"]
  by blast

theorem register_resource_atomic_witness:
  "case register_resource (gpu_advertisement 2 3) lab_idle of
     (Inl s, e') \<Rightarrow> e' = lab_idle | (Inr r, e') \<Rightarrow> res_generation r = 1 \<and> res_reserved_slots r = 0"
  using register_resource_atomic [OF lab_idle_inv, of "gpu_advertisement 2 3"]
  by (auto split: prod.splits sum.splits)

theorem publish_resource_atomic_witness:
  "case publish_resource_state (gpu_advertisement 1 3) lab_engine of
     (Inl s, e') \<Rightarrow> True | (Inr r, e') \<Rightarrow> res_dynamic_authoritative r \<and> res_lifecycle r = RL_Current"
  using publish_resource_atomic [OF lab_engine_inv, of "gpu_advertisement 1 3"]
  by (auto split: prod.splits sum.splits)

theorem retire_resource_effect_witness:
  "isl (fst (retire_resource 1 0 lab_engine)) \<and> snd (retire_resource 1 0 lab_engine) = lab_engine"
  using retire_resource_effect [OF lab_engine_inv, of 1 0]
  by (auto split: prod.splits sum.splits)

end
