(* ===== verification/RecoveryLaws.thy ===== *)
theory RecoveryLaws
  imports LifecycleLaws EngineLaws
begin

text \<open>
  The properties of assignment, reassignment, preemption, cancellation of a request and of the
  recovery of an engine from its durable state.
\<close>

section \<open>Assignment and start\<close>

definition progress_allowed :: "bool \<Rightarrow> placement_generation \<Rightarrow> worker_boot_id \<Rightarrow> placement_record \<Rightarrow> bool" where
  "progress_allowed started g b p \<longleftrightarrow> pl_generation p = g \<and> (b = 0 \<or> pl_worker_boot p = b) \<and>
     placement_state_is_live (pl_state p) \<and> (started \<or> pl_state p \<noteq> PL_Running)"

lemma progress_checks_allowed: "status_ok (progress_checks rej g b p) = progress_allowed (\<not> rej) g b p"
  by (auto simp: progress_checks_def progress_allowed_def)

definition progressed :: "scheduler_state \<Rightarrow> placement_id \<Rightarrow> placement_state \<Rightarrow> placement_record \<Rightarrow> scheduler_state \<Rightarrow> bool" where
  "progressed st pid t q st' \<longleftrightarrow>
     (\<exists>p d n. map_of (ss_placements st) pid = Some p \<and> q = progress_record t d n p) \<and>
     (\<forall>k. map_of (ss_placements st') k = (if k = pid then Some q else map_of (ss_placements st) k)) \<and>
     ss_resources st' = ss_resources st \<and> ss_reservations st' = ss_reservations st \<and>
     ss_requests st' = ss_requests st \<and> ss_unit_current st' = ss_unit_current st"

lemma progress_outcome:
  "case progress_placement rej t d kind pid g epoch b e of
     (Inl s, e') \<Rightarrow> \<not> status_ok s \<and> e' = e
   | (Inr q, e') \<Rightarrow> epoch = ss_epoch (eng_state e) \<and> progressed (eng_state e) pid t q (eng_state e') \<and>
       (\<exists>p. map_of (ss_placements (eng_state e)) pid = Some p \<and> progress_allowed (\<not> rej) g b p)"
proof (cases "map_of (ss_placements (eng_state e)) pid")
  case None
  then show ?thesis by (simp add: progress_placement_def Let_def no_such_placement_def)
next
  case (Some p)
  let ?n = "ss_transition_sequence (eng_state e) + 1"
  have "progressed (eng_state e) pid t (progress_record t d ?n p) (push_audit (eng_config e) k x
      ((eng_state e)\<lparr>ss_transition_sequence := ?n,
         ss_placements := om_modify pid (progress_record t d ?n) (ss_placements (eng_state e))\<rparr>))" for k x
    using Some by (auto simp: progressed_def map_of_om_modify)
  with Some show ?thesis
    by (simp add: progress_placement_def Let_def progress_checks_allowed)
qed

text \<open>Assignment and start succeed only for the current epoch, the current generation and the bound
  incarnation of a live placement, assignment only before it runs. They move this placement alone to
  ASSIGNED or RUNNING and leave resources, reservations, requests and units as they are; a refusal
  changes nothing.\<close>

theorem progress_effect:
  "(case mark_assigned pid g epoch b e of
      (Inl s, e') \<Rightarrow> \<not> status_ok s \<and> e' = e
    | (Inr q, e') \<Rightarrow> epoch = ss_epoch (eng_state e) \<and> progressed (eng_state e) pid PL_Assigned q (eng_state e') \<and>
        (\<exists>p. map_of (ss_placements (eng_state e)) pid = Some p \<and> progress_allowed False g b p)) \<and>
   (case mark_running pid g epoch b e of
      (Inl s, e') \<Rightarrow> \<not> status_ok s \<and> e' = e
    | (Inr q, e') \<Rightarrow> epoch = ss_epoch (eng_state e) \<and> progressed (eng_state e) pid PL_Running q (eng_state e') \<and>
        (\<exists>p. map_of (ss_placements (eng_state e)) pid = Some p \<and> progress_allowed True g b p))"
  unfolding mark_assigned_def mark_running_def
  using progress_outcome [where rej = True] progress_outcome [where rej = False]
  by (metis (no_types))

section \<open>Cancellation of a request\<close>

lemma cancel_fold:
  fixes rid reason and s :: "scheduler_state \<times> cancellation_report"
  defines "f \<equiv> cancel_request_step rid reason"
  shows "\<forall>k. (k \<in> set pids \<longrightarrow> (\<forall>q. map_of (ss_placements (fst (fold f pids s))) k = Some q \<longrightarrow>
       pl_request q = rid \<longrightarrow> \<not> placement_state_is_live (pl_state q)))"
    and "\<forall>p. map_of (ss_placements (fst s)) k = Some p \<longrightarrow> pl_request p \<noteq> rid \<longrightarrow>
       map_of (ss_placements (fst (fold f pids s))) k = Some p"
    and "(map_of (ss_placements (fst (fold f pids s))) k = None) = (map_of (ss_placements (fst s)) k = None)"
    and "\<forall>q. map_of (ss_placements (fst s)) k = Some q \<longrightarrow> pl_request q = rid \<longrightarrow>
       \<not> placement_state_is_live (pl_state q) \<longrightarrow> map_of (ss_placements (fst (fold f pids s))) k = Some q"
proof -
  have step: "fst (f pid s) = fst s \<or> fst (f pid s) =
      terminate_placement pid PL_Cancelled (or_default ''request cancelled by controller'' reason) (fst s)"
    for pid s by (cases s) (auto simp: f_def cancel_request_step_def split: option.split)
  have dead: "map_of (ss_placements (fst (fold f pids s))) k = Some q"
    if "map_of (ss_placements (fst s)) k = Some q" "\<not> placement_state_is_live (pl_state q)" for q k pids s
    using that
  proof (induction pids arbitrary: s)
    case (Cons pid pids)
    have "map_of (ss_placements (fst (f pid s))) k = Some q"
      using step [of pid s] Cons.prems terminate_other_placement [of k pid]
      by (cases "k = pid") (auto simp: terminate_placements map_of_om_modify)
    with Cons.IH Cons.prems(2) show ?case by simp
  qed simp
  have other: "map_of (ss_placements (fst (fold f pids s))) k = Some p"
    if "map_of (ss_placements (fst s)) k = Some p" "pl_request p \<noteq> rid" for p k pids s
    using that
  proof (induction pids arbitrary: s)
    case (Cons pid pids)
    have "map_of (ss_placements (fst (f pid s))) k = Some p"
      using Cons.prems step [of pid s] terminate_other_placement [of k pid]
      by (cases "k = pid"; cases s) (auto simp: f_def cancel_request_step_def)
    with Cons.IH Cons.prems(2) show ?case by simp
  qed simp
  have own: "pl_request q = rid \<Longrightarrow> \<not> placement_state_is_live (pl_state q)"
    if "map_of (ss_placements (fst (f k s))) k = Some q" for q k s
    using that terminate_not_live [of PL_Cancelled k]
    by (cases s) (auto simp: f_def cancel_request_step_def split: option.splits if_splits)
  have dom: "(map_of (ss_placements (fst (fold f pids s))) k = None) = (map_of (ss_placements (fst s)) k = None)"
    for k pids s
  proof (induction pids arbitrary: s)
    case (Cons pid pids)
    with step [of pid s] terminate_dom show ?case by auto
  qed simp
  show "\<forall>k. (k \<in> set pids \<longrightarrow> (\<forall>q. map_of (ss_placements (fst (fold f pids s))) k = Some q \<longrightarrow>
       pl_request q = rid \<longrightarrow> \<not> placement_state_is_live (pl_state q)))"
  proof (induction pids arbitrary: s)
    case (Cons pid pids)
    have "\<not> placement_state_is_live (pl_state q)"
      if "map_of (ss_placements (fst (fold f pids (f pid s)))) pid = Some q" "pl_request q = rid" for q
    proof -
      from dom [of pids "f pid s" pid] that(1) obtain r where
        r: "map_of (ss_placements (fst (f pid s))) pid = Some r" by (metis not_None_eq)
      show ?thesis
      proof (cases "pl_request r = rid")
        case True
        with own [OF r] dead [OF r, of pids] that show ?thesis by simp
      next
        case False
        with other [OF r, of pids] that show ?thesis by simp
      qed
    qed
    with Cons.IH [of "f pid s"] show ?case by auto
  qed simp
  show "\<forall>p. map_of (ss_placements (fst s)) k = Some p \<longrightarrow> pl_request p \<noteq> rid \<longrightarrow>
      map_of (ss_placements (fst (fold f pids s))) k = Some p" using other by blast
  show "(map_of (ss_placements (fst (fold f pids s))) k = None) = (map_of (ss_placements (fst s)) k = None)"
    by (rule dom)
  show "\<forall>q. map_of (ss_placements (fst s)) k = Some q \<longrightarrow> pl_request q = rid \<longrightarrow>
      \<not> placement_state_is_live (pl_state q) \<longrightarrow> map_of (ss_placements (fst (fold f pids s))) k = Some q"
    using dead by blast
qed

text \<open>Cancelling a request ends every live placement of it and no other: afterwards no placement of
  the request is live, the placements of other requests and those that had already ended are
  unchanged, and the request is CANCELLED without a current placement.\<close>

theorem cancel_request_effect:
  assumes "status_ok (cn_status (fst (cancel_request rid reason e)))"
  shows "(\<forall>k q. map_of (ss_placements (eng_state (snd (cancel_request rid reason e)))) k = Some q \<longrightarrow>
      pl_request q = rid \<longrightarrow> \<not> placement_state_is_live (pl_state q)) \<and>
    (\<forall>k p. map_of (ss_placements (eng_state e)) k = Some p \<longrightarrow>
      pl_request p \<noteq> rid \<or> \<not> placement_state_is_live (pl_state p) \<longrightarrow>
      map_of (ss_placements (eng_state (snd (cancel_request rid reason e)))) k = Some p) \<and>
    (\<exists>s. map_of (ss_requests (eng_state (snd (cancel_request rid reason e)))) rid = Some s \<and>
      st_state s = RQ_Cancelled \<and> st_current_placement s = 0)"
proof -
  let ?st = "eng_state e"
  let ?run = "fold (cancel_request_step rid reason) (om_keys (ss_placements ?st))
    (?st, empty_cancellation\<lparr>cn_request := rid\<rparr>)"
  let ?st' = "eng_state (snd (cancel_request rid reason e))"
  from assms have known: "map_of (ss_requests ?st) rid \<noteq> None" "rid \<noteq> 0"
    by (cases "map_of (ss_requests ?st) rid"; auto simp: cancel_request_def Let_def id_validate_def split: if_splits)+
  then have ps: "ss_placements ?st' = ss_placements (fst ?run)"
    and rs: "\<exists>d. ss_requests ?st' = om_modify rid (cancel_stored d) (ss_requests (fst ?run))"
    by (auto simp: cancel_request_def Let_def case_prod_beta)
  note f = cancel_fold [where pids = "om_keys (ss_placements ?st)" and rid = rid and reason = reason
    and s = "(?st, empty_cancellation\<lparr>cn_request := rid\<rparr>)"]
  have keys: "map_of (ss_placements ?st) k = None \<or> k \<in> set (om_keys (ss_placements ?st))" for k
    by (auto simp: om_keys_def map_of_eq_None_iff)
  have "\<not> placement_state_is_live (pl_state q)"
    if "map_of (ss_placements ?st') k = Some q" "pl_request q = rid" for k q
    using that f(1) f(3) [of k] keys [of k] unfolding ps by auto
  moreover have "map_of (ss_placements ?st') k = Some p"
    if "map_of (ss_placements ?st) k = Some p" "pl_request p \<noteq> rid \<or> \<not> placement_state_is_live (pl_state p)" for k p
    using that f(2,4) [of k] unfolding ps by auto
  moreover have "map_of (ss_requests (fst ?run)) rid \<noteq> None"
  proof -
    have step: "history (fst s) (fst (cancel_request_step rid reason pid s))" for pid s
      using history_terminate by (cases s) (auto simp: cancel_request_step_def split: option.split)
    from history_fold [OF this, where s = "(?st, empty_cancellation\<lparr>cn_request := rid\<rparr>)" and xs = "om_keys (ss_placements ?st)"] known(1)
    show ?thesis unfolding history_def grows_def by fastforce
  qed
  then have "\<exists>s. map_of (ss_requests ?st') rid = Some s \<and> st_state s = RQ_Cancelled \<and> st_current_placement s = 0"
    using rs by (auto simp: map_of_om_modify cancel_stored_def)
  ultimately show ?thesis by blast
qed

section \<open>Reassignment and preemption\<close>

text \<open>The placement a request gets when it is scheduled again in place of \<open>p\<close>.\<close>

definition succeeds :: "placement_record \<Rightarrow> placement_record \<Rightarrow> bool" where
  "succeeds p q \<longleftrightarrow> pl_request q = pl_request p \<and> pl_state q = PL_Reserved \<and>
     pl_generation q = (if pl_generation p + 1 = 0 then 1 else pl_generation p + 1) \<and>
     pl_reassignment_count q = pl_reassignment_count p + 1"

lemma takes_push_audit [simp]: "takes st p (push_audit cfg k d st') = takes st p st'"
  by (simp add: takes_def)

lemma reschedule_placed:
  assumes inv: "state_inv ids st" and cfg: "config_ok cfg" and room: "ids_room ids"
    and s: "map_of (ss_requests st0) (pl_request p) = Some stored" "state_inv ids0 st0"
    and known: "map_of (ss_requests st) (pl_request p) \<noteq> None"
    and run: "reschedule cfg p stored st ids = (Inr d, st', ids')" and out: "dc_outcome d = DO_Placed"
  shows "succeeds p (dc_placement d) \<and> takes st (dc_placement d) st' \<and>
    well_placed st (st_request stored) (dc_placement d) \<and> pl_id (dc_placement d) \<noteq> 0"
proof -
  have id: "sr_id (st_request stored) = pl_request p" and ok: "request_ok (st_request stored)"
    using stored_request_facts [OF s(2,1)] by simp_all
  let ?run = "schedule_locked cfg (pl_request p) (st_request stored) (pl_generation p + 1)
    (pl_reassignment_count p + 1) st ids"
  have "\<not> refused (pl_request p) st ids ?run" "\<not> limited cfg st ids ?run"
    using run out by (auto simp: reschedule_def refused_def limited_def)
  with schedule_locked_outcomes [OF inv cfg ok room] obtain cand q v where
    pl: "placed cfg (pl_request p) (st_request stored) (pl_generation p + 1)
      (pl_reassignment_count p + 1) st ids ?run cand q v" by metis
  then have q: "q = dc_placement d" using run by (auto simp: placed_def reschedule_def)
  from pl have ch: "chosen st (st_request stored) (cfg_limits cfg) cand" and
    com: "commits (st_request stored) st (ids + 1) (pl_generation p + 1) (pl_reassignment_count p + 1)
      (rkc_selection cand) q v"
    by (auto simp: placed_def)
  note facts = commits_facts [OF com chosen_facts(1) [OF ch]]
  have "succeeds p q" unfolding succeeds_def using facts(9,11,12,14) id by simp
  moreover have "takes st q st'"
    using placed_takes [OF inv room id [symmetric] known] pl run by (simp add: reschedule_def)
  moreover have "well_placed st (st_request stored) q" by (rule placed_well_placed [OF inv cfg pl])
  moreover have "unat (pl_id q) \<noteq> 0" unfolding facts(7) ids_room_steps [OF room] by simp
  then have "pl_id q \<noteq> 0" by auto
  ultimately show ?thesis using q by blast
qed

lemma reschedule_refused:
  assumes inv: "state_inv ids st" and cfg: "config_ok cfg" and room: "ids_room ids"
    and s: "map_of (ss_requests st0) (pl_request p) = Some stored" "state_inv ids0 st0"
    and run: "reschedule cfg p stored st ids = (Inr d, st', ids')" and out: "dc_outcome d \<noteq> DO_Placed"
  shows "refused (pl_request p) st ids (Inr d, st', ids')"
proof -
  have ok: "request_ok (st_request stored)" using stored_request_facts(2) [OF s(2,1)] .
  have "\<not> limited cfg st ids (Inr d, st', ids')"
    "\<not> placed cfg rid req gen rcount st ids (Inr d, st', ids') cand q v" for rid req gen rcount cand q v
    using out by (auto simp: placed_def limited_def)
  with schedule_locked_outcomes [OF inv cfg ok room] run show ?thesis
    unfolding reschedule_def by metis
qed


lemma ends_request:
  assumes "ends st pid p t st'" and "map_of (ss_requests st') (pl_request p) = Some s'"
  obtains s where "map_of (ss_requests st) (pl_request p) = Some s" "st_request s' = st_request s"
  using assms by (cases "map_of (ss_requests st) (pl_request p)") (auto simp: ends_def detached_def)


lemma terminate_keeps_request:
  assumes st: "state_inv ids st" and p: "map_of (ss_placements st) pid = Some p"
    and st1: "state_inv ids (terminate_placement pid s d st)" and ends: "ends st pid p s (terminate_placement pid s d st)"
  obtains stored where "map_of (ss_requests (terminate_placement pid s d st)) (pl_request p) = Some stored"
proof -
  let ?st1 = "terminate_placement pid s d st"
  from ends obtain q where q: "map_of (ss_placements ?st1) pid = Some q" unfolding ends_def by blast
  obtain p' where "map_of (ss_placements st) pid = Some p'" "pl_request q = pl_request p'"
    using q by (rule terminate_bound)
  moreover have "placement_ok (ss_resources ?st1) (ss_requests ?st1) q"
    using st1 q by (simp add: state_inv_def placements_inv_def)
  ultimately show thesis using that p by (auto simp: placement_ok_def)
qed

lemma preempt_terminated_outcome:
  assumes inv: "engine_inv e" and room: "ids_room (eng_ids e)" and st: "state_inv (eng_ids e) st"
    and s: "map_of (ss_requests st) (pl_request p) = Some stored" and none: "rr_new_placement report = 0"
    and run: "preempt_terminated p reason report st e = (Inr rep, e')"
  shows "if rr_new_placement rep = 0
    then ss_placements (eng_state e') = ss_placements st \<and> ss_reservations (eng_state e') = ss_reservations st \<and>
      ss_resources (eng_state e') = ss_resources st \<and> ss_unit_current (eng_state e') = ss_unit_current st
    else sr_allow_preemption (st_request stored) \<and>
      pl_reassignment_count p < sr_max_reassignments (st_request stored) \<and>
      (\<exists>q. succeeds p q \<and> pl_id q = rr_new_placement rep \<and> well_placed st (st_request stored) q \<and>
        takes st q (eng_state e'))"
proof -
  let ?st2 = "st\<lparr>ss_requests := om_modify (pl_request p) (\<lambda>s. s\<lparr>st_state := RQ_Submitted\<rparr>) (ss_requests st)\<rparr>"
  have cfg: "config_ok (eng_config e)" using inv by (simp add: engine_inv_def)
  have st2: "state_inv (eng_ids e) ?st2" by (rule state_inv_modify_request [OF st]) simp
  obtain x st3 ids3 where sch: "reschedule (eng_config e) p stored ?st2 (eng_ids e) = (x, st3, ids3)"
    by (cases "reschedule (eng_config e) p stored ?st2 (eng_ids e)") auto
  show ?thesis
  proof (cases "\<not> sr_allow_preemption (st_request stored) \<or>
      sr_max_reassignments (st_request stored) \<le> pl_reassignment_count p")
    case True
    with run none s show ?thesis by (auto simp: preempt_terminated_def Let_def)
  next
    case budget: False
    with run s sch obtain d where d: "x = Inr d" by (cases x) (auto simp: preempt_terminated_def Let_def)
    show ?thesis
    proof (cases "dc_outcome d = DO_Placed")
      case True
      have known: "map_of (ss_requests ?st2) (pl_request p) \<noteq> None" using s by (simp add: map_of_om_modify)
      note pl = reschedule_placed [OF st2 cfg room s st known sch [unfolded d] True]
      have "takes st (dc_placement d) st3"
        by (rule takes_before [of ?st2])
          (use pl s in \<open>auto simp: map_of_om_modify succeeds_def\<close>)
      moreover have "well_placed st (st_request stored) (dc_placement d)"
        using pl well_placed_cong [of ?st2 st] by simp
      ultimately show ?thesis using budget run s sch d True pl by (auto simp: preempt_terminated_def Let_def)
    next
      case no: False
      show ?thesis
        using reschedule_refused [OF st2 cfg room s st sch [unfolded d] no] budget run none s sch d no
        by (auto simp: preempt_terminated_def Let_def refused_def)
    qed
  qed
qed

text \<open>C24. A successful preemption ends the live placement in PREEMPTED and returns exactly its capacity.
  A replacement is placed only if the request, as it is recorded in the engine before the call, allows
  preemption and has budget left; it serves that request with the next generation and satisfies and
  takes what a fresh placement of it would. Otherwise the ledger is the one after the termination.\<close>

theorem preempt_placement_effect:
  assumes "engine_inv e" and "ids_room (eng_ids e)" and "map_of (ss_placements (eng_state e)) pid = Some p"
    and "preempt_placement pid g epoch reason e = (Inr rep, e')"
  shows "epoch = ss_epoch (eng_state e) \<and> placement_state_is_live (pl_state p) \<and>
    (\<exists>st1 stored. ends (eng_state e) pid p PL_Preempted st1 \<and>
       map_of (ss_requests (eng_state e)) (pl_request p) = Some stored \<and>
       (if rr_new_placement rep = 0
        then ss_placements (eng_state e') = ss_placements st1 \<and>
          ss_reservations (eng_state e') = ss_reservations st1 \<and>
          ss_resources (eng_state e') = ss_resources st1 \<and> ss_unit_current (eng_state e') = ss_unit_current st1
        else sr_allow_preemption (st_request stored) \<and>
          pl_reassignment_count p < sr_max_reassignments (st_request stored) \<and>
          (\<exists>q. succeeds p q \<and> pl_id q = rr_new_placement rep \<and> well_placed st1 (st_request stored) q \<and>
             takes st1 q (eng_state e'))))"
proof -
  let ?d = "or_default ''preempted to free a constrained resource'' reason"
  let ?st1 = "terminate_placement pid PL_Preempted ?d (eng_state e)"
  have st: "state_inv (eng_ids e) (eng_state e)" using assms(1) by (simp add: engine_inv_def)
  have guards: "epoch = ss_epoch (eng_state e)" and live: "placement_state_is_live (pl_state p)"
    and run: "preempt_terminated p reason (empty_reassignment\<lparr>rr_reason := reason, rr_previous_placement := pl_id p,
        rr_previous_generation := pl_generation p, rr_revoked_reservations := [pl_reservation p]\<rparr>) ?st1 e =
      (Inr rep, e')"
    using assms(3,4) by (auto simp: preempt_placement_def Let_def split: if_splits)
  have st1: "state_inv (eng_ids e) ?st1" by (rule state_inv_terminate [OF st]) simp
  have ends: "ends (eng_state e) pid p PL_Preempted ?st1" by (rule terminate_ends [OF st assms(3) live])
  obtain s1 where s: "map_of (ss_requests ?st1) (pl_request p) = Some s1"
    by (rule terminate_keeps_request [OF st assms(3) st1 ends])
  have "rr_new_placement (empty_reassignment\<lparr>rr_reason := reason, rr_previous_placement := pl_id p,
      rr_previous_generation := pl_generation p, rr_revoked_reservations := [pl_reservation p]\<rparr>) = 0"
    by (simp add: empty_reassignment_def)
  note outcome = preempt_terminated_outcome [OF assms(1,2) st1 s this run]
  from ends_request [OF ends s] obtain stored where
    stored: "map_of (ss_requests (eng_state e)) (pl_request p) = Some stored" "st_request s1 = st_request stored" .
  show ?thesis
    by (intro conjI exI [of _ ?st1] exI [of _ stored] guards(1) live ends stored(1) outcome [unfolded stored(2)])
qed

section \<open>Recovery\<close>

lemma imported_state:
  assumes "import_state d e = (Inr rep, e')"
  shows "ss_resources (eng_state e') = ss_resources (fst (import_records d (import_acc d e)))"
    and "ss_requests (eng_state e') = ss_requests (fst (import_records d (import_acc d e)))"
    and "ss_placements (eng_state e') = ss_placements (fst (import_records d (import_acc d e)))"
    and "ss_reservations (eng_state e') = ss_reservations (fst (import_records d (import_acc d e)))"
    and "ss_epoch (eng_state e') = du_epoch d + 1"
    and "scheduler_empty (fst (import_acc d e))"
proof -
  note ok = import_state_success [OF assms]
  show empty: "scheduler_empty (fst (import_acc d e))" using ok(2) by (simp add: import_acc_def scheduler_empty_def)
  note t = imported_tables [OF empty, of d]
  from ok(5) t(13) show "ss_resources (eng_state e') = ss_resources (fst (import_records d (import_acc d e)))"
    "ss_requests (eng_state e') = ss_requests (fst (import_records d (import_acc d e)))"
    "ss_placements (eng_state e') = ss_placements (fst (import_records d (import_acc d e)))"
    "ss_reservations (eng_state e') = ss_reservations (fst (import_records d (import_acc d e)))"
    "ss_epoch (eng_state e') = du_epoch d + 1"
    by (auto simp: import_acc_def)
qed

lemma recovered_lifecycle: "res_worker r \<noteq> 0 \<Longrightarrow> res_lifecycle (recover_record ep r) \<noteq> RL_Current"
  by (simp add: recover_record_def Let_def)

text \<open>C9. A restart revokes all authority: whatever durable state is imported, afterwards the epoch is the
  next one, no capacity is reserved, no placement is live, no reservation is active, no request is
  placed, and every resource that belongs to a worker waits for its registration.\<close>

theorem import_revokes_authority:
  assumes "import_state d e = (Inr rep, e')"
  shows "ss_epoch (eng_state e') = du_epoch d + 1 \<and>
    (\<forall>k r. map_of (ss_resources (eng_state e')) k = Some r \<longrightarrow> res_reserved_slots r = 0 \<and>
      (res_worker r \<noteq> 0 \<longrightarrow> \<not> res_dynamic_authoritative r \<and> res_lifecycle r \<noteq> RL_Current)) \<and>
    (\<forall>k p. map_of (ss_placements (eng_state e')) k = Some p \<longrightarrow> \<not> placement_state_is_live (pl_state p)) \<and>
    (\<forall>k v. map_of (ss_reservations (eng_state e')) k = Some v \<longrightarrow> rv_state v \<noteq> RV_Active) \<and>
    (\<forall>k s. map_of (ss_requests (eng_state e')) k = Some s \<longrightarrow>
      st_state s \<noteq> RQ_Placed \<and> st_current_placement s = 0)"
proof -
  note i = imported_state [OF assms]
  note t = imported_tables [OF i(6), of d]
  have "res_reserved_slots r = 0 \<and> (res_worker r \<noteq> 0 \<longrightarrow> \<not> res_dynamic_authoritative r \<and> res_lifecycle r \<noteq> RL_Current)"
    if "map_of (ss_resources (eng_state e')) k = Some r" for k r
    using t(5) [OF that [unfolded i(1)]] recovered_lifecycle by auto
  moreover have "\<not> placement_state_is_live (pl_state p)" if "map_of (ss_placements (eng_state e')) k = Some p" for k p
    using t(7) [OF that [unfolded i(3)]] by (auto simp: restored_from_def)
  moreover have "rv_state v \<noteq> RV_Active" if "map_of (ss_reservations (eng_state e')) k = Some v" for k v
    using t(8) [OF that [unfolded i(4)]] by auto
  moreover have "st_state s \<noteq> RQ_Placed \<and> st_current_placement s = 0"
    if "map_of (ss_requests (eng_state e')) k = Some s" for k s
    using t(6) [OF that [unfolded i(2)]] by auto
  ultimately show ?thesis using i(5) by blast
qed

lemma durable_distinct:
  assumes "status_ok (validate_durable_state d)"
  shows "distinct (map res_id (du_resources d))" and "distinct (map (sr_id \<circ> st_request) (du_requests d))"
    and "distinct (map pl_id (du_placements d))"
proof -
  from assms have "status_ok (durable_resources (du_limits d) [] (du_resources d))"
    "status_ok (durable_requests (du_limits d) [] (du_requests d))"
    "status_ok (durable_placements (map res_id (du_resources d)) (map (sr_id \<circ> st_request) (du_requests d))
      [] (du_placements d))"
    by (auto simp: validate_durable_state_def Let_def split: if_splits)
  then show "distinct (map res_id (du_resources d))" "distinct (map (sr_id \<circ> st_request) (du_requests d))"
    "distinct (map pl_id (du_placements d))"
    using durable_resources_ok durable_requests_ok durable_placements_ok by blast+
qed

lemma distinct_key: "distinct (map f xs) \<Longrightarrow> x \<in> set xs \<Longrightarrow> y \<in> set xs \<Longrightarrow> f x = f y \<Longrightarrow> x = y"
  by (metis distinct_map inj_onD)

lemma exported_tables:
  "du_resources (export_state e0) = om_values (ss_resources (eng_state e0))"
  "du_requests (export_state e0) = om_values (ss_requests (eng_state e0))"
  "du_placements (export_state e0) = om_values (ss_placements (eng_state e0))"
  "du_epoch (export_state e0) = ss_epoch (eng_state e0)"
  by (simp_all add: export_state_def Let_def)

lemma engine_tables:
  assumes "engine_inv e"
  shows "om_wf (ss_resources (eng_state e))" "om_wf (ss_requests (eng_state e))" "om_wf (ss_placements (eng_state e))"
    and "keyed res_id (ss_resources (eng_state e))" "keyed (sr_id \<circ> st_request) (ss_requests (eng_state e))"
    and "keyed pl_id (ss_placements (eng_state e))"
proof -
  have st: "state_inv (eng_ids e) (eng_state e)" using assms by (simp add: engine_inv_def)
  from state_inv_wf [OF st] show "om_wf (ss_resources (eng_state e))" "om_wf (ss_requests (eng_state e))"
    "om_wf (ss_placements (eng_state e))" by simp_all
  from st show "keyed res_id (ss_resources (eng_state e))" "keyed (sr_id \<circ> st_request) (ss_requests (eng_state e))"
    "keyed pl_id (ss_placements (eng_state e))"
    by (simp_all add: state_inv_def resources_inv_def placements_inv_def requests_inv_def comp_def)
qed

lemma exported_member:
  assumes "om_wf m" "keyed f m" "map_of m k = Some x"
  shows "x \<in> set (om_values m)" "f x = k"
  using assms by (auto simp: set_om_values keyed_def)

lemma restored_resource:
  assumes "engine_inv e0" and "import_state (export_state e0) e = (Inr rep, e')"
    and "map_of (ss_resources (eng_state e0)) k = Some r"
  shows "map_of (ss_resources (eng_state e')) k = Some (recover_record (ss_epoch (eng_state e0) + 1) r)"
proof -
  let ?d = "export_state e0"
  note i = imported_state [OF assms(2)]
  note t = imported_tables [OF i(6), of ?d]
  note dist = durable_distinct [OF import_state_success(1) [OF assms(2)]]
  note mem = exported_member [OF engine_tables(1,4) [OF assms(1)] assms(3), folded exported_tables]
  with t(9) [of k] obtain u where u: "map_of (ss_resources (eng_state e')) k = Some u"
    unfolding i(1) by force
  from t(5) [OF u [unfolded i(1)]] obtain r' where r': "r' \<in> set (du_resources ?d)" "k = res_id r'"
    "u = recover_record (ss_epoch (fst (import_acc ?d e))) r'" by blast
  have "r' = r" by (rule distinct_key [OF dist(1) r'(1) mem(1)]) (metis comp_apply mem(2) r'(2))
  with u r'(3) show ?thesis by (simp add: import_acc_def exported_tables)
qed

lemma restored_request:
  assumes "engine_inv e0" and "import_state (export_state e0) e = (Inr rep, e')"
    and "map_of (ss_requests (eng_state e0)) k = Some s"
  shows "map_of (ss_requests (eng_state e')) k = Some (recover_request s)"
proof -
  let ?d = "export_state e0"
  note i = imported_state [OF assms(2)]
  note t = imported_tables [OF i(6), of ?d]
  note dist = durable_distinct [OF import_state_success(1) [OF assms(2)]]
  note mem = exported_member [OF engine_tables(2,5) [OF assms(1)] assms(3), folded exported_tables]
  with t(10) [of k] obtain u where u: "map_of (ss_requests (eng_state e')) k = Some u"
    unfolding i(2) by force
  from t(6) [OF u [unfolded i(2)]] obtain s' where s': "s' \<in> set (du_requests ?d)" "k = sr_id (st_request s')"
    "u = recover_request s'" by blast
  have "s' = s" by (rule distinct_key [OF dist(2) s'(1) mem(1)]) (metis comp_apply mem(2) s'(2))
  with u s'(3) show ?thesis by blast
qed

lemma restored_placement:
  assumes "engine_inv e0" and "import_state (export_state e0) e = (Inr rep, e')"
    and "map_of (ss_placements (eng_state e0)) k = Some p"
  shows "\<exists>q. map_of (ss_placements (eng_state e')) k = Some q \<and> restored_from p q"
proof -
  let ?d = "export_state e0"
  note i = imported_state [OF assms(2)]
  note t = imported_tables [OF i(6), of ?d]
  note dist = durable_distinct [OF import_state_success(1) [OF assms(2)]]
  note mem = exported_member [OF engine_tables(3,6) [OF assms(1)] assms(3), folded exported_tables]
  with t(11) [of k] obtain q where q: "map_of (ss_placements (eng_state e')) k = Some q"
    unfolding i(3) by force
  from t(7) [OF q [unfolded i(3)]] obtain p' where p': "p' \<in> set (du_placements ?d)" "k = pl_id p'"
    "restored_from p' q" by blast
  have "p' = p" by (rule distinct_key [OF dist(3) p'(1) mem(1)]) (metis comp_apply mem(2) p'(2))
  with q p'(3) show ?thesis by blast
qed

text \<open>C10. A restart from an exported state loses nothing and trusts nothing of the old epoch: the new engine
  holds every placement, request and resource of the old one, the live placements among them
  requiring reassignment, the others unchanged; and no completion of the old epoch is accepted.\<close>

theorem restart_preserves_records:
  assumes "engine_inv e0" and "import_state (export_state e0) e = (Inr rep, e')"
  shows "(\<forall>k p. map_of (ss_placements (eng_state e0)) k = Some p \<longrightarrow>
      (\<exists>q. map_of (ss_placements (eng_state e')) k = Some q \<and> restored_from p q)) \<and>
    (\<forall>k s. map_of (ss_requests (eng_state e0)) k = Some s \<longrightarrow>
      map_of (ss_requests (eng_state e')) k = Some (recover_request s)) \<and>
    (\<forall>k r. map_of (ss_resources (eng_state e0)) k = Some r \<longrightarrow>
      map_of (ss_resources (eng_state e')) k = Some (recover_record (ss_epoch (eng_state e0) + 1) r)) \<and>
    (cc_epoch c = ss_epoch (eng_state e0) \<longrightarrow>
      \<not> co_accepted (fst (report_completion c e')) \<and> snd (report_completion c e') = e')"
proof -
  have "\<not> co_accepted (fst (report_completion c e'))" if "cc_epoch c = ss_epoch (eng_state e0)"
    using that imported_state(5) [OF assms(2)] unfolding report_completion_accepted claim_authorised_def
    by (simp add: exported_tables)
  with restored_placement [OF assms] restored_request [OF assms] restored_resource [OF assms]
  show ?thesis using rejected_unchanged by blast
qed

section \<open>At concrete inputs\<close>

lemma lab_image:
  "du_format_version (export_state lab_engine) = kPersistenceFormatVersion"
  "du_epoch (export_state lab_engine) = 1" "du_limits (export_state lab_engine) = default_limits"
  "du_resources (export_state lab_engine) = [lab_resource 1]"
  "du_requests (export_state lab_engine) = [lab_stored]"
  "du_placements (export_state lab_engine) = [lab_placement]"
  "du_reservations (export_state lab_engine) = [lab_reservation]"
  by (simp_all add: export_state_def Let_def om_values_def lab_config_def)

lemma lab_image_records:
  "status_ok (durable_resources default_limits [] [lab_resource 1])"
  "status_ok (durable_requests default_limits [] [lab_stored])"
  "status_ok (durable_placements [1] [20] [] [lab_placement])"
  "durable_reservations (durable_capacities [lab_resource 1]) [102] [] [lab_reservation] [] = (ok_status, [(1, 1)])"
  by code_simp+

lemma lab_image_valid: "status_ok (validate_durable_state (export_state lab_engine))"
  using lab_image_records
  by (simp add: validate_durable_state_def Let_def lab_image durable_bounds_def default_limits_def
      durable_mirror_def claimed_total_def)

lemma lab_durable: "\<not> isl (fst (import_state (export_state lab_engine) (make_engine lab_config)))"
  using lab_image_valid
  by (simp add: import_state_def Let_def case_prod_beta make_engine_def scheduler_empty_def empty_state_def)

lemma lab_import: "\<exists>rep e'. import_state (export_state lab_engine) (make_engine lab_config) = (Inr rep, e')"
  using lab_durable by (metis isl_def obj_sumE prod.collapse)

theorem cancel_request_effect_witness:
  "\<exists>s. map_of (ss_requests (eng_state (snd (cancel_request 20 [] lab_engine)))) 20 = Some s \<and>
     st_state s = RQ_Cancelled"
proof -
  have "status_ok (cn_status (fst (cancel_request 20 [] lab_engine)))"
    by (simp add: cancel_request_def Let_def case_prod_beta)
  from cancel_request_effect [OF this] show ?thesis by blast
qed

lemma lab_terminated: "ss_requests (terminate_placement 102 t d lab_state) = [(20, detach_request 102 t d lab_stored)]"
  by (simp add: terminate_placement_live [where p = lab_placement and v = lab_reservation] om_modify_def)




lemma lab_preempted: "\<exists>rep e'. preempt_placement 102 1 1 [] lab_engine = (Inr rep, e')"
proof -
  have "\<not> isl (fst (preempt_placement 102 1 1 [] lab_engine))"
    by (simp add: preempt_placement_def Let_def preempt_terminated_def lab_terminated detach_request_def
        lab_request_def default_request_def)
  then show ?thesis by (metis isl_def obj_sumE prod.collapse)
qed

theorem preempt_placement_effect_witness: "\<exists>st1. ends lab_state 102 lab_placement PL_Preempted st1"
proof -
  obtain rep e' where "preempt_placement 102 1 1 [] lab_engine = (Inr rep, e')"
    using lab_preempted by blast
  from preempt_placement_effect [OF lab_engine_inv lab_ids_room(2) _ this] show ?thesis by fastforce
qed

theorem import_revokes_authority_witness:
  "\<exists>rep e'. import_state (export_state lab_engine) (make_engine lab_config) = (Inr rep, e') \<and>
     ss_epoch (eng_state e') = 2"
  using lab_import import_revokes_authority lab_image(2) by fastforce

theorem restart_preserves_records_witness:
  "\<exists>rep e' q. import_state (export_state lab_engine) (make_engine lab_config) = (Inr rep, e') \<and>
     map_of (ss_placements (eng_state e')) 102 = Some q \<and> pl_state q = PL_ReassignmentRequired"
proof -
  obtain rep e' where run: "import_state (export_state lab_engine) (make_engine lab_config) = (Inr rep, e')"
    using lab_import by blast
  from restart_preserves_records [OF lab_engine_inv run, of lab_claim]
  have "\<exists>q. map_of (ss_placements (eng_state e')) 102 = Some q \<and> restored_from lab_placement q" by simp
  with run show ?thesis by (auto simp: restored_from_def)
qed

end
