(* ===== verification/DataLaws.thy ===== *)
theory DataLaws
  imports Request
begin

text \<open>
  The properties of the value types: the text forms of identities, integers and enumerations, and
  the capability sets as finite sets.
\<close>

section \<open>Text forms\<close>

text \<open>The text of an identity names it: a non-null identity is parsed back from its text, every text
  that parses is the text of the result, and no text parses as two identities, not even of
  different kinds.\<close>

theorem identity_text_roundtrip:
  "(v \<noteq> 0 \<longrightarrow> id_parse k (id_to_string k v) = Some v) \<and>
   (id_parse k t = Some v \<longrightarrow> v \<noteq> 0 \<and> id_to_string k v = t) \<and>
   (id_parse k t = Some v \<longrightarrow> id_parse k' t = Some w \<longrightarrow> k' = k \<and> w = v)"
proof (intro conjI impI)
  show "v \<noteq> 0 \<Longrightarrow> id_parse k (id_to_string k v) = Some v" by (rule id_parse_to_string)
  show "id_parse k t = Some v \<Longrightarrow> v \<noteq> 0" "id_parse k t = Some v \<Longrightarrow> id_to_string k v = t"
    using id_to_string_parse by blast+
  assume "id_parse k t = Some v" "id_parse k' t = Some w"
  then have "id_to_string k v = id_to_string k' w" using id_to_string_parse by metis
  then show "k' = k" "w = v" using id_to_string_inj by blast+
qed

text \<open>The two number formats are exact: the 16 digits of a 64-bit integer decode to it and only they
  do, its decimal text parses back to it, and the decimal parser accepts nothing but the canonical
  text of a 64-bit integer, so it rejects leading zeros and overflow.\<close>

theorem integer_text_roundtrip:
  "hex_u64_decode (hex_u64 v 16) 16 = Some v \<and> (hex_u64_decode t 16 = Some v \<longrightarrow> hex_u64 v 16 = t) \<and>
   parse_decimal_u64 (decimal_u64 v) = Some v \<and> (parse_decimal_u64 t = Some v \<longrightarrow> decimal_u64 v = t)"
  using hex_u64_decode_encode hex_u64_encode_decode parse_decimal_u64_print parse_decimal_u64_canonical by blast

text \<open>Every enumeration is recovered from its name, so no two of its values share one: error codes,
  reject reasons, resource classes, sharing modes, health, readiness, provenance, lifecycle,
  topology scopes, ranking factors, and the states of requests, placements and reservations.\<close>

theorem enumeration_names_roundtrip:
  "parse_error_code (error_code_name a) = Some a \<and> parse_reject_reason (reject_reason_name b) = Some b \<and>
   parse_resource_class (resource_class_name c) = Some c \<and> parse_sharing_mode (sharing_mode_name d) = Some d \<and>
   parse_health_state (health_state_name e) = Some e \<and>
   parse_readiness_state (readiness_state_name f) = Some f \<and> parse_provenance (provenance_name g) = Some g \<and>
   parse_resource_lifecycle (resource_lifecycle_name h) = Some h \<and>
   parse_topology_scope (topology_scope_name i) = Some i \<and>
   parse_ranking_factor (ranking_factor_name j) = Some j \<and>
   parse_request_state (request_state_name k) = Some k \<and>
   parse_placement_state (placement_state_name l) = Some l \<and>
   parse_reservation_state (reservation_state_name m) = Some m"
  by (simp add: error_names.parse_name reject_names.parse_name class_names.parse_name
      sharing_names.parse_name health_names.parse_name readiness_names.parse_name
      provenance_names.parse_name lifecycle_names.parse_name scope_names.parse_name
      factor_names.parse_name request_state_names.parse_name placement_state_names.parse_name
      reservation_state_names.parse_name)

section \<open>Capability sets\<close>

text \<open>The sorted capability vector implements a finite set of capabilities with unique identities:
  adding to a valid set fails or yields the valid set with exactly that element more, within the
  configured bound; membership by binary search and inclusion agree with the set; and validation
  accepts exactly the sorted sets of well-formed entries within the bound.\<close>

theorem capability_set_refines_finite_set:
  assumes "cap_set_wf entries"
  shows "(case cap_add lim c entries of
       Inl s \<Rightarrow> \<not> status_ok s
     | Inr entries' \<Rightarrow> cap_set_wf entries' \<and> set entries' = insert c (set entries) \<and>
         cap_id c \<notin> cap_id ` set entries \<and> length entries' \<le> unat (max_capabilities_per_resource lim)) \<and>
    (cap_contains entries i \<longleftrightarrow> i \<in> cap_id ` set entries) \<and>
    (cap_contains_all entries required \<longleftrightarrow> cap_id ` set required \<subseteq> cap_id ` set entries) \<and>
    (status_ok (cap_validate lim entries) \<longleftrightarrow> length entries \<le> unat (max_capabilities_per_resource lim))"
proof -
  have sorted: "sorted_wrt (<) (map cap_id entries)" using assms by (simp add: cap_set_wf_def)
  have "\<not> status_ok s" if "cap_add lim c entries = Inl s" for s
    using that by (auto simp: cap_add_def Let_def split: if_splits)
  then have "case cap_add lim c entries of Inl s \<Rightarrow> \<not> status_ok s
     | Inr entries' \<Rightarrow> cap_set_wf entries' \<and> set entries' = insert c (set entries) \<and>
         cap_id c \<notin> cap_id ` set entries \<and> length entries' \<le> unat (max_capabilities_per_resource lim)"
    using cap_add_ok [OF assms] by (cases "cap_add lim c entries") auto
  then show ?thesis
    by (simp add: cap_contains_iff [OF sorted] cap_contains_all_iff [OF sorted] cap_validate_ok_iff assms)
qed

section \<open>At concrete inputs\<close>

theorem identity_text_roundtrip_witness:
  "id_parse K_ResourceId (id_to_string K_ResourceId 42) = Some 42 \<and>
   id_parse K_WorkerId (id_to_string K_ResourceId 42) = None"
proof -
  have p: "id_parse K_ResourceId (id_to_string K_ResourceId 42) = Some 42"
    using identity_text_roundtrip [of 42 K_ResourceId "[]" K_WorkerId 0] by simp
  have "id_parse K_WorkerId (id_to_string K_ResourceId 42) \<noteq> Some w" for w
    using identity_text_roundtrip [of 42 K_ResourceId "id_to_string K_ResourceId 42" K_WorkerId w] p by auto
  with p show ?thesis by auto
qed

theorem integer_text_roundtrip_witness:
  "parse_decimal_u64 (decimal_u64 18446744073709551615) = Some 18446744073709551615"
  using integer_text_roundtrip [of 18446744073709551615 "[]"] by blast

definition cuda :: capability where
  "cuda = \<lparr>cap_id = capability_id_from_name ''cuda'', cap_name = ''cuda''\<rparr>"

lemma cuda_canonical: "is_canonical_capability_name ''cuda''"
  by code_simp

lemma cuda_wf: "cap_set_wf [cuda]"
  using cuda_canonical by (simp add: cap_set_wf_def cap_entry_wf_def cuda_def)

theorem capability_set_refines_finite_set_witness:
  "cap_contains [cuda] (cap_id cuda) \<and> isl (cap_add default_limits cuda [cuda]) \<and>
   status_ok (cap_validate default_limits [cuda])"
  using capability_set_refines_finite_set [OF cuda_wf, where lim = default_limits and c = cuda
      and i = "cap_id cuda" and required = "[cuda]"]
  by (auto simp: default_limits_def split: sum.splits)

end
