(* ===== verification/Interchange.thy ===== *)
theory Interchange
  imports Outcomes LabExample
begin

text \<open>
  Interchangeable candidates. \<open>build_plan\<close> keeps one candidate per interchangeability key, on the
  ground that exploring the others cannot change the outcome. For a request that asks for the same
  thing twice it does: resources that differ only in identity and name collapse to one candidate
  per requirement, and no selection of two distinct resources is left.
\<close>

section \<open>Copies of one resource\<close>

definition copy_of :: "resource_record \<Rightarrow> resource_record \<Rightarrow> bool" where
  "copy_of t r \<longleftrightarrow> r = t\<lparr>res_id := res_id r, res_name := res_name r\<rparr>"

lemma copy_fields:
  assumes "copy_of t r"
  shows "res_resource_class r = res_resource_class t" "res_capacity r = res_capacity t"
    "res_advertised_occupancy r = res_advertised_occupancy t" "res_reserved_slots r = res_reserved_slots t"
    "res_topology r = res_topology t" "res_worker r = res_worker t" "res_boot r = res_boot t"
    "res_generation r = res_generation t" "res_sharing r = res_sharing t"
    "res_accelerators r = res_accelerators t" "res_model r = res_model t"
    "res_readiness r = res_readiness t" "res_simulator r = res_simulator t"
  by (subst assms [unfolded copy_of_def], simp)+

lemma copy_claim:
  assumes "copy_of t r"
  shows "claim_slots req q r = claim_slots req q t" and "claim_exclusive req q r = claim_exclusive req q t"
  using copy_fields [OF assms] by (simp_all add: claim_slots_def claim_exclusive_def)

lemma copy_additive:
  assumes "copy_of t r" and "ss_placements st = []"
  shows "compute_additive_values st req q r el = compute_additive_values st req q t el"
proof -
  have "reserved_by_other_placement st ex i x = False" for ex i x
    using assms(2) by (simp add: reserved_by_other_placement_def om_values_def)
  with copy_fields [OF assms(1)] show ?thesis
    by (simp add: compute_additive_values_def occupancy_value_def residual_value_def
        accelerator_fit_value_def model_warmth_value_def simulator_readiness_value_def
        fragmentation_value_def total_after_def residual_slots_def total_occupancy_def fun_eq_iff
        split: ranking_factor.split)
qed

lemma copy_key:
  assumes "copy_of t r" and "ss_placements st = []"
    and "el_eligible (evaluate_resource req q r lim)"
  shows "interchangeability_key (make_candidate st req q r (evaluate_resource req q r lim)) r =
    interchangeability_key (make_candidate st req q t
      \<lparr>el_eligible = True, el_slots = claim_slots req q t, el_exclusive = claim_exclusive req q t, el_reasons = []\<rparr>) t"
proof -
  have "evaluate_resource req q r lim = \<lparr>el_eligible = True, el_slots = claim_slots req q t,
      el_exclusive = claim_exclusive req q t, el_reasons = []\<rparr>"
    using assms(3) copy_claim [OF assms(1)] by (auto simp: evaluate_resource_def Let_def split: if_splits)
  with copy_fields [OF assms(1)] copy_additive [OF assms(1,2)] show ?thesis
    by (simp add: interchangeability_key_def make_candidate_def Let_def)
qed

section \<open>One candidate is left\<close>

lemma distinct_candidates_one_key:
  assumes "\<forall>c\<in>set cs. \<forall>r. map_of (ss_resources st) (cr_id c) = Some r \<longrightarrow> interchangeability_key c r = key"
  shows "length (distinct_candidates st seen cs) \<le> (if key \<in> seen then 0 else 1)"
  using assms
proof (induction cs arbitrary: seen)
  case (Cons c cs)
  then have IH: "length (distinct_candidates st s cs) \<le> (if key \<in> s then 0 else 1)" for s by simp
  show ?case
  proof (cases "map_of (ss_resources st) (cr_id c)")
    case (Some r)
    with Cons.prems have "interchangeability_key c r = key" by simp
    with Some IH [of seen] IH [of "insert key seen"] show ?thesis by (auto split: if_splits)
  qed (use IH in simp)
qed simp

lemma one_candidate:
  assumes keyed: "keyed res_id (ss_resources st)" and none: "ss_placements st = []"
    and copies: "\<forall>r\<in>set (om_values (ss_resources st)). copy_of t r"
  shows "length (rp_candidates (fst (build_plan st req lim q))) \<le> 1"
proof -
  let ?cs = "sort_by candidate_order (rp_candidates (eligible_plan st req lim q))"
  let ?key = "interchangeability_key (make_candidate st req q t
      \<lparr>el_eligible = True, el_slots = claim_slots req q t, el_exclusive = claim_exclusive req q t, el_reasons = []\<rparr>) t"
  have "interchangeability_key c r = ?key"
    if c: "c \<in> set ?cs" and r: "map_of (ss_resources st) (cr_id c) = Some r" for c r
  proof -
    from c obtain r' where r': "r' \<in> set (om_values (ss_resources st))"
      "el_eligible (evaluate_resource req q r' lim)" "c = make_candidate st req q r' (evaluate_resource req q r' lim)"
      by (auto simp: eligible_plan_candidates)
    have "cr_id c = res_id r'" using r'(3) by (simp add: make_candidate_def Let_def)
    moreover obtain k where "map_of (ss_resources st) k = Some r'" "res_id r' = k"
      using r'(1) keyed by (auto simp: keyed_def set_om_values)
    ultimately have "r' = r" using r by simp
    with copy_key [OF _ none r'(2), of t] copies r' show ?thesis by simp
  qed
  then have "length (distinct_candidates st {} ?cs) \<le> 1"
    using distinct_candidates_one_key [of ?cs st ?key "{}"] by simp
  then show ?thesis by (simp add: build_plan_candidates distinct_plan_candidates)
qed

lemma renamed_plan:
  assumes "q' = q\<lparr>rq_name := n\<rparr>"
  shows "rp_candidates (fst (build_plan st req lim q')) = rp_candidates (fst (build_plan st req lim q))"
proof -
  have same: "class_specific_reason r q' = class_specific_reason r q" for r
    by (cases "res_resource_class r")
      (simp_all add: assms class_specific_reason_def model_reason_def gpu_reason_def simulator_reason_def
        dataset_reason_def physical_reason_def virtual_reason_def split: option.split)
  have claims: "claim_slots req q' r = claim_slots req q r" "claim_exclusive req q' r = claim_exclusive req q r"
    "occupancy_exceeded q' r s = occupancy_exceeded q r s" for r s
    by (simp_all add: assms claim_slots_def claim_exclusive_def occupancy_exceeded_def)
  have fields: "rq_resource_class q' = rq_resource_class q" "rq_allowlist q' = rq_allowlist q"
    "rq_denylist q' = rq_denylist q" "rq_require_current_evidence q' = rq_require_current_evidence q"
    "rq_required_capabilities q' = rq_required_capabilities q" "rq_minimum_health q' = rq_minimum_health q"
    "rq_required_domain q' = rq_required_domain q" "rq_required_domain_scope q' = rq_required_domain_scope q"
    "rq_min_memory_bytes q' = rq_min_memory_bytes q"
    by (simp_all add: assms)
  have "evaluate_resource req q' r lim = evaluate_resource req q r lim" for r
    unfolding evaluate_resource_def collect_reasons_def same claims fields ..
  moreover have "make_candidate st req q' r el = make_candidate st req q r el" for r el
    unfolding make_candidate_def compute_additive_values_def accelerator_fit_value_def fields ..
  ultimately show ?thesis
    by (simp add: build_plan_candidates distinct_plan_candidates eligible_plan_candidates)
qed

text \<open>C20. A compound request over interchangeable resources is always refused, however many of them are
  free: if the registered resources are copies of one record under different identities and names,
  no placement exists yet, and two requirements of the request agree in everything but their name,
  the submission is an error or NO_PLACEMENT.\<close>

theorem interchangeable_resources_refused:
  assumes "engine_inv e" and "ids_room (eng_ids e)" and "ss_placements (eng_state e) = []"
    and "\<forall>r\<in>set (om_values (ss_resources (eng_state e))). copy_of t r"
    and "i < j" and "j < length (sr_requirements (normalize_schedule_request request))"
    and "sr_requirements (normalize_schedule_request request) ! j =
      (sr_requirements (normalize_schedule_request request) ! i)\<lparr>rq_name := n\<rparr>"
  shows "case submit_request request e of (Inl s, e') \<Rightarrow> \<not> status_ok s
    | (Inr d, e') \<Rightarrow> dc_outcome d = DO_NoPlacement"
proof (cases rule: submit_cases [OF assms(1,2), of request, case_names rejected refused limited placed])
  case (placed d e' cand v)
  let ?req = "normalize_schedule_request request" and ?st = "stored_state request e"
  let ?lim = "cfg_limits (eng_config e)" and ?sel = "rkc_selection cand"
  let ?plans = "map rp_candidates (build_plans ?st ?req ?lim)"
  from placed(5) have ch: "chosen ?st ?req ?lim cand" by (auto simp: placed_def)
  then have sel: "?sel \<in> set (selections ?plans)" unfolding chosen_def by (rule run_search_valid(1))
  have keyed: "keyed res_id (ss_resources ?st)"
    using assms(1) by (simp add: stored_state_def store_request_tables engine_inv_def state_inv_def resources_inv_def)
  have one: "length (rp_candidates (fst (build_plan ?st ?req ?lim q))) \<le> 1" for q
    by (rule one_candidate [OF keyed, of t]) (use assms(3,4) in \<open>simp_all add: stored_state_def store_request_tables\<close>)
  have nth: "?sel ! k \<in> set (rp_candidates (fst (build_plan ?st ?req ?lim (sr_requirements ?req ! k))))"
    if "k < length (sr_requirements ?req)" for k
    using selections_nth [OF sel, of k] that by (simp add: build_plans_def)
  have "?sel ! i \<in> set (rp_candidates (fst (build_plan ?st ?req ?lim (sr_requirements ?req ! i))))"
    "?sel ! j \<in> set (rp_candidates (fst (build_plan ?st ?req ?lim (sr_requirements ?req ! i))))"
    using nth [of i] nth [of j] assms(5,6) renamed_plan [OF assms(7)] by simp_all
  with one [of "sr_requirements ?req ! i"] have same: "?sel ! i = ?sel ! j"
    by (cases "rp_candidates (fst (build_plan ?st ?req ?lim (sr_requirements ?req ! i)))") auto
  have st: "state_inv (eng_ids e) ?st" and cfg: "config_ok (eng_config e)"
    using submit_placed [OF assms(1,2) placed(1,2)] by blast+
  note len = chosen_facts(1) [OF ch]
  from chosen_facts(3) [OF ch] obtain rs where rs: "selection_records ?st ?sel = Some rs"
    "validate_selection ?st ?req rs ?sel = None" by (auto simp: valid_rank_def)
  from those_map_Some [OF rs(1) [unfolded selection_records_def]]
  have lrs: "length rs = length ?sel" and
    look: "\<And>k. k < length ?sel \<Longrightarrow> map_of (ss_resources ?st) (cr_id (?sel ! k)) = Some (rs ! k)"
    by simp_all
  from rs(2) lrs len have "distinct (map res_id rs)" by (simp add: validate_selection_iff compound_ok_def)
  moreover have "rs ! i = rs ! j" using look [of i] look [of j] same assms(5,6) len by simp
  ultimately have False using nth_eq_iff_index_eq [of "map res_id rs" i j] assms(5,6) lrs len by simp
  then show ?thesis ..
qed simp_all

section \<open>At a concrete input\<close>

text \<open>Two free GPUs that differ in their identity, and a request for two GPUs. Both meet the constraints
  and together they satisfy the request.\<close>

definition twin_gpu :: resource_record where
  "twin_gpu = (lab_resource 0)\<lparr>res_id := 2\<rparr>"

definition twin_lab :: engine where
  "twin_lab = \<lparr>eng_config = lab_config, eng_ids = 100, eng_state =
     empty_state\<lparr>ss_workers := [(7, lab_worker)], ss_resources := [(1, lab_resource 0), (2, twin_gpu)]\<rparr>\<rparr>"

definition twin_request :: schedule_request where
  "twin_request = (lab_request 20)\<lparr>sr_requirements := [gpu_requirement ''a'', gpu_requirement ''b'']\<rparr>"

lemma twin_gpu_simps [simp]:
  "res_id twin_gpu = 2" "res_reserved_slots twin_gpu = 0" "rcap_slots (res_capacity twin_gpu) = 2"
  "res_advertised_occupancy twin_gpu = 0" "res_lifecycle twin_gpu = RL_Current"
  by (simp_all add: twin_gpu_def)

lemma twin_lab_simps [simp]:
  "eng_config twin_lab = lab_config" "eng_ids twin_lab = 100"
  "ss_resources (eng_state twin_lab) = [(1, lab_resource 0), (2, twin_gpu)]"
  "ss_requests (eng_state twin_lab) = []" "ss_placements (eng_state twin_lab) = []"
  "ss_reservations (eng_state twin_lab) = []" "ss_unit_current (eng_state twin_lab) = []"
  "ss_workers (eng_state twin_lab) = [(7, lab_worker)]"
  by (simp_all add: twin_lab_def empty_state_def)

lemma twin_lab_inv: "engine_inv twin_lab"
proof -
  have "resources_inv [(1, lab_resource 0), (2, twin_gpu)] []"
    by (auto simp: resources_inv_def keyed_def om_wf_def resource_ok_def om_total_def)
  then have "state_inv 100 (eng_state twin_lab)"
    by (simp add: state_inv_def requests_inv_def reservations_inv_def placements_inv_def units_inv_def
        ids_inv_def keyed_def om_wf_def)
  then show ?thesis by (simp add: engine_inv_def lab_config_ok)
qed

lemma twin_eligible:
  "el_eligible (evaluate_resource twin_request (gpu_requirement ''a'') (lab_resource 0) default_limits)"
  "el_eligible (evaluate_resource twin_request (gpu_requirement ''b'') twin_gpu default_limits)"
  by code_simp+

lemma twin_satisfiable:
  "meets_hard_constraints twin_request (gpu_requirement ''a'') (lab_resource 0)"
  "meets_hard_constraints twin_request (gpu_requirement ''b'') twin_gpu"
  "compound_ok (eng_state twin_lab) twin_request [lab_resource 0, twin_gpu]"
  using twin_eligible evaluate_resource_eligible_iff [of default_limits]
  by (simp_all add: compound_ok_def default_limits_def twin_request_def lab_request_def default_request_def)

theorem interchangeable_resources_refused_witness:
  "meets_hard_constraints twin_request (gpu_requirement ''a'') (lab_resource 0) \<and>
   meets_hard_constraints twin_request (gpu_requirement ''b'') twin_gpu \<and>
   compound_ok (eng_state twin_lab) twin_request [lab_resource 0, twin_gpu] \<and>
   (case submit_request twin_request twin_lab of (Inl s, e') \<Rightarrow> \<not> status_ok s
    | (Inr d, e') \<Rightarrow> dc_outcome d = DO_NoPlacement)"
proof -
  have copies: "copy_of (lab_resource 0) (lab_resource 0)" "copy_of (lab_resource 0) twin_gpu"
    by (simp_all add: copy_of_def twin_gpu_def)
  have reqs: "sr_requirements (normalize_schedule_request twin_request) = [gpu_requirement ''a'', gpu_requirement ''b'']"
    by code_simp
  have room: "ids_room (eng_ids twin_lab)" by (simp add: ids_room_def)
  have "case submit_request twin_request twin_lab of (Inl s, e') \<Rightarrow> \<not> status_ok s
      | (Inr d, e') \<Rightarrow> dc_outcome d = DO_NoPlacement"
    by (rule interchangeable_resources_refused [OF twin_lab_inv room, where t = "lab_resource 0" and i = 0 and j = 1 and n = "''b''"])
      (use copies in \<open>simp_all add: reqs om_values_def gpu_requirement_def\<close>)
  with twin_satisfiable show ?thesis by blast
qed

end
