(* ===== verification/Inspection.thy ===== *)
theory Inspection
  imports Accounting
begin

text \<open>
  \<open>inspection.cpp\<close> and \<open>explanation_render.cpp\<close>: the text reports. Every \<open>out +=\<close> of the sources is
  one part of an append, a loop over records is a concatenation over the list, and the loops that
  put commas between their elements are \<open>join_with\<close>.
\<close>

section \<open>Parts of a report\<close>

abbreviation newline :: string where "newline \<equiv> [CHR 0x0A]"

definition yes_no :: "bool \<Rightarrow> string" where
  "yes_no b = (if b then ''yes'' else ''no'')"

text \<open>The conditional expressions that show a null identity or an empty text as a dash.\<close>

definition id_or_dash :: "id_kind \<Rightarrow> u64 \<Rightarrow> string" where
  "id_or_dash k v = (if v = 0 then ''-'' else id_to_string k v)"

definition text_or_dash :: "string \<Rightarrow> string" where
  "text_or_dash t = (if t = [] then ''-'' else t)"

definition parenthesised :: "string \<Rightarrow> string" where
  "parenthesised t = (if t = [] then [] else '' ('' @ t @ '')'')"

definition each_line :: "('a \<Rightarrow> string) \<Rightarrow> 'a list \<Rightarrow> string" where
  "each_line f xs = concat (map f xs)"

definition size_text :: "'a list \<Rightarrow> string" where
  "size_text xs = decimal_u64 (of_nat (length xs))"

definition describe_domain :: "topology_domain \<Rightarrow> string" where
  "describe_domain d =
     (if td_id d = 0 then ''UNKNOWN''
      else id_to_string K_TopologyDomainId (td_id d) @
        (if td_name d = [] then [] else ''('' @ td_name d @ '')''))"

definition describe_capabilities :: "capability_set \<Rightarrow> string" where
  "describe_capabilities capabilities =
     (if capabilities = [] then ''-'' else join_with '','' (map cap_name capabilities))"

definition describe_topology :: "topology_descriptor \<Rightarrow> string" where
  "describe_topology t =
     (if \<not> topo_supplied t then ''UNKNOWN (not supplied)''
      else ''host='' @ describe_domain (topo_host t) @
        '' numa='' @ describe_domain (topo_numa t) @
        '' root_complex='' @ describe_domain (topo_root_complex t) @
        '' rack='' @ describe_domain (topo_rack t) @
        '' cluster='' @ describe_domain (topo_cluster t))"

definition id_list_text :: "id_kind \<Rightarrow> u64 list \<Rightarrow> string" where
  "id_list_text k ids = (if ids = [] then ''-'' else []) @ join_with '','' (map (id_to_string k) ids)"

definition describe_locality :: "locality_descriptor \<Rightarrow> string" where
  "describe_locality l =
     ''datasets='' @ id_list_text K_DatasetVersionId (loc_local_dataset_versions l) @
     '' models='' @ id_list_text K_ModelResourceId (loc_resident_models l) @
     '' simulators='' @ id_list_text K_SimulatorId (loc_colocated_simulators l)"

section \<open>Resources\<close>

definition resource_line :: "resource_record \<Rightarrow> string" where
  "resource_line r =
     id_to_string K_ResourceId (res_id r) @ '' '' @ resource_class_name (res_resource_class r) @
     '' name='' @ quoted (res_name r) @
     '' lifecycle='' @ resource_lifecycle_name (res_lifecycle r) @
     '' provenance='' @ provenance_name (res_provenance r) @
     '' sharing='' @ sharing_mode_name (res_sharing r) @
     '' generation='' @ decimal_u64 (res_generation r) @
     '' capacity='' @ decimal_u64 (ucast (rcap_slots (res_capacity r))) @
     '' occupancy='' @ decimal_u64 (ucast (total_occupancy r)) @
     '' reserved='' @ decimal_u64 (ucast (res_reserved_slots r)) @
     '' health='' @ health_state_name (res_health r) @
     '' readiness='' @ readiness_state_name (res_readiness r) @
     '' current='' @ yes_no (res_dynamic_authoritative r) @
     '' worker='' @ id_or_dash K_WorkerId (res_worker r) @
     '' boot='' @ id_or_dash K_WorkerBootId (res_boot r) @
     '' epoch='' @ id_or_dash K_CoordinatorEpoch (res_validated_epoch r) @ newline"

definition render_resources :: "resource_record list \<Rightarrow> string" where
  "render_resources resources =
     ''resources '' @ size_text resources @ newline @ each_line resource_line resources"

definition accelerator_line :: "accelerator_attachment \<Rightarrow> string" where
  "accelerator_line a =
     ''  accelerator '' @ id_to_string K_AcceleratorId (acc_id a) @
     '' model='' @ quoted (acc_model a) @
     '' memory_bytes='' @ decimal_u64 (acc_memory_bytes a) @
     '' compute_capability='' @ decimal_u64 (ucast (acc_compute_capability_major a)) @
     ''.'' @ decimal_u64 (ucast (acc_compute_capability_minor a)) @ newline"

definition model_line :: "model_descriptor \<Rightarrow> string" where
  "model_line m =
     ''  model '' @ id_to_string K_ModelResourceId (mdl_id m) @
     '' version='' @ mdl_version m @
     '' context_window='' @ decimal_u64 (ucast (mdl_context_window m)) @
     '' resident='' @ yes_no (mdl_resident m) @
     '' tool_support='' @ yes_no (mdl_tool_support m) @ newline"

definition simulator_line :: "simulator_descriptor \<Rightarrow> string" where
  "simulator_line s =
     ''  simulator '' @ id_to_string K_SimulatorId (sim_id s) @
     '' version='' @ sim_version s @
     '' sessions='' @ decimal_u64 (ucast (sim_max_sessions s)) @
     '' scenarios='' @ join_with '','' (sim_scenarios s) @ newline"

definition dataset_line :: "dataset_descriptor \<Rightarrow> string" where
  "dataset_line d =
     ''  dataset '' @ id_to_string K_DatasetId (ds_id d) @
     '' version='' @ id_to_string K_DatasetVersionId (ds_version d) @
     '' digest='' @ text_or_dash (ds_digest d) @
     '' size_bytes='' @ decimal_u64 (ds_size_bytes d) @ newline"

definition environment_line :: "environment_descriptor \<Rightarrow> string" where
  "environment_line v =
     ''  environment '' @ id_to_string K_EnvironmentId (env_id v) @
     '' image_digest='' @ text_or_dash (env_image_digest v) @
     '' virtual='' @ id_or_dash K_VirtualEnvironmentId (env_virtual_environment v) @
     '' physical='' @ id_or_dash K_PhysicalEnvironmentId (env_physical_environment v) @ newline"

definition optional_line :: "('a \<Rightarrow> string) \<Rightarrow> 'a option \<Rightarrow> string" where
  "optional_line f x = (case x of None \<Rightarrow> [] | Some v \<Rightarrow> f v)"

definition render_resource_detail :: "resource_record \<Rightarrow> string" where
  "render_resource_detail r =
     ''resource '' @ id_to_string K_ResourceId (res_id r) @ newline @
     ''  class '' @ resource_class_name (res_resource_class r) @ newline @
     ''  name '' @ res_name r @ newline @
     ''  lifecycle '' @ resource_lifecycle_name (res_lifecycle r) @ newline @
     ''  provenance '' @ provenance_name (res_provenance r) @ newline @
     ''  sharing '' @ sharing_mode_name (res_sharing r) @ newline @
     ''  capabilities '' @ describe_capabilities (res_capabilities r) @ newline @
     ''  capacity slots='' @ decimal_u64 (ucast (rcap_slots (res_capacity r))) @
     '' memory_bytes='' @ decimal_u64 (rcap_memory_bytes (res_capacity r)) @
     '' max_sessions='' @ decimal_u64 (ucast (rcap_max_sessions (res_capacity r))) @ newline @
     ''  occupancy advertised='' @ decimal_u64 (ucast (res_advertised_occupancy r)) @
     '' reserved='' @ decimal_u64 (ucast (res_reserved_slots r)) @ newline @
     ''  health '' @ health_state_name (res_health r) @ parenthesised (res_health_detail r) @ newline @
     ''  readiness '' @ readiness_state_name (res_readiness r) @ newline @
     ''  topology '' @ describe_topology (res_topology r) @ newline @
     ''  locality '' @ describe_locality (res_locality r) @ newline @
     ''  worker '' @ id_or_dash K_WorkerId (res_worker r) @
     '' boot '' @ id_or_dash K_WorkerBootId (res_boot r) @ newline @
     ''  generations resource='' @ decimal_u64 (res_generation r) @
     '' health='' @ decimal_u64 (res_health_generation r) @
     '' capacity='' @ decimal_u64 (res_capacity_generation r) @ newline @
     ''  dynamic_authoritative '' @ yes_no (res_dynamic_authoritative r) @ newline @
     ''  authority_detail '' @ text_or_dash (res_authority_detail r) @ newline @
     ''  tenant '' @ text_or_dash (res_tenant r) @ newline @
     each_line accelerator_line (res_accelerators r) @
     optional_line model_line (res_model r) @
     optional_line simulator_line (res_simulator r) @
     optional_line dataset_line (res_dataset r) @
     optional_line environment_line (res_environment r)"

definition stale_resource_line :: "resource_record \<Rightarrow> string" where
  "stale_resource_line r =
     id_to_string K_ResourceId (res_id r) @
     '' lifecycle='' @ resource_lifecycle_name (res_lifecycle r) @
     '' current='' @ yes_no (res_dynamic_authoritative r) @
     '' reason='' @ text_or_dash (res_authority_detail r) @ newline"

definition render_stale_resources :: "resource_record list \<Rightarrow> string" where
  "render_stale_resources resources =
     ''stale_resources '' @ size_text resources @ newline @ each_line stale_resource_line resources"

section \<open>Requests\<close>

definition request_line :: "stored_request \<Rightarrow> string" where
  "request_line s =
     id_to_string K_ScheduleRequestId (sr_id (st_request s)) @
     '' state='' @ request_state_name (st_state s) @
     '' experiment='' @ id_to_string K_ExperimentId (sr_experiment (st_request s)) @
     '' generation='' @ id_to_string K_ExperimentGeneration (sr_experiment_generation (st_request s)) @
     '' trial='' @ id_or_dash K_TrialId (sr_trial (st_request s)) @
     '' requirements='' @ size_text (sr_requirements (st_request s)) @
     '' placements='' @ decimal_u64 (ucast (st_placement_count s)) @
     '' current='' @ id_or_dash K_PlacementId (st_current_placement s) @ newline"

definition render_requests :: "stored_request list \<Rightarrow> string" where
  "render_requests requests =
     ''requests '' @ size_text requests @ newline @ each_line request_line requests"

definition requirement_line :: "resource_requirement \<Rightarrow> string" where
  "requirement_line q =
     ''  requirement '' @ describe_requirement q @
     '' current_evidence='' @ yes_no (rq_require_current_evidence q) @
     '' min_health='' @ health_state_name (rq_minimum_health q) @
     '' max_occupancy='' @ decimal_u64 (ucast (rq_max_occupancy_percent q)) @
     '' affinity_group='' @ decimal_u64 (ucast (rq_affinity_group q)) @ newline"

definition affinity_line :: "string \<Rightarrow> affinity_constraint \<Rightarrow> string" where
  "affinity_line what c =
     what @ decimal_u64 (ucast (aff_group_a c)) @ '' <-> '' @ decimal_u64 (ucast (aff_group_b c)) @
     '' scope '' @ topology_scope_name (aff_scope c) @ newline"

definition render_request_detail :: "stored_request \<Rightarrow> string" where
  "render_request_detail s =
     (let request = st_request s in
      ''request '' @ id_to_string K_ScheduleRequestId (sr_id request) @ newline @
      ''  state '' @ request_state_name (st_state s) @ newline @
      ''  experiment '' @ id_to_string K_ExperimentId (sr_experiment request) @
      '' generation '' @ id_to_string K_ExperimentGeneration (sr_experiment_generation request) @ newline @
      ''  trial '' @ id_or_dash K_TrialId (sr_trial request) @ newline @
      ''  workload '' @ text_or_dash (sr_workload request) @ newline @
      ''  tenant '' @ text_or_dash (sr_tenant request) @ newline @
      ''  priority '' @ decimal_i64 (sr_priority request) @ newline @
      ''  exclusive '' @ yes_no (sr_exclusive request) @
      '' experiment_anti_affinity '' @ yes_no (sr_experiment_anti_affinity request) @
      '' allow_preemption '' @ yes_no (sr_allow_preemption request) @
      '' max_reassignments '' @ decimal_u64 (ucast (sr_max_reassignments request)) @ newline @
      ''  caller_authority '' @ text_or_dash (sr_caller_authority request) @ newline @
      each_line requirement_line (sr_requirements request) @
      each_line (affinity_line ''  affinity group '') (sr_affinity request) @
      each_line (affinity_line ''  anti_affinity group '') (sr_anti_affinity request))"

section \<open>Placements and reservations\<close>

definition placement_line :: "placement_record \<Rightarrow> string" where
  "placement_line p =
     id_to_string K_PlacementId (pl_id p) @
     '' generation='' @ decimal_u64 (pl_generation p) @
     '' state='' @ placement_state_name (pl_state p) @
     '' request='' @ id_to_string K_ScheduleRequestId (pl_request p) @
     '' experiment='' @ id_to_string K_ExperimentId (pl_experiment p) @
     '' epoch='' @ id_to_string K_CoordinatorEpoch (pl_epoch p) @
     '' worker='' @ id_or_dash K_WorkerId (pl_worker p) @
     '' boot='' @ id_or_dash K_WorkerBootId (pl_worker_boot p) @
     '' reservation='' @ id_or_dash K_ReservationId (pl_reservation p) @
     '' resources='' @
     join_with '','' (map (\<lambda>s. id_to_string K_ResourceId (sel_resource s)) (pl_resources p)) @
     '' reassignments='' @ decimal_u64 (ucast (pl_reassignment_count p)) @ newline"

definition render_placements :: "placement_record list \<Rightarrow> string" where
  "render_placements placements =
     ''placements '' @ size_text placements @ newline @ each_line placement_line placements"

definition selected_line :: "selected_resource \<Rightarrow> string" where
  "selected_line s =
     ''  selected '' @ id_to_string K_ResourceId (sel_resource s) @
     '' class='' @ resource_class_name (sel_resource_class s) @
     '' requirement='' @ quoted (sel_requirement_name s) @
     '' slots='' @ decimal_u64 (ucast (sel_slots s)) @
     '' exclusive='' @ yes_no (sel_exclusive s) @
     '' generation='' @ decimal_u64 (sel_generation s) @
     '' worker='' @ id_or_dash K_WorkerId (sel_worker s) @ newline"

definition claim_line :: "reservation_claim \<Rightarrow> string" where
  "claim_line c =
     ''    claim '' @ id_to_string K_ResourceId (cl_resource c) @
     '' slots='' @ decimal_u64 (ucast (cl_slots c)) @
     '' exclusive='' @ yes_no (cl_exclusive c) @
     '' generation_at_acquire='' @ decimal_u64 (cl_generation_at_acquire c) @ newline"

definition reservation_detail :: "reservation_record \<Rightarrow> string" where
  "reservation_detail v =
     ''  reservation '' @ id_to_string K_ReservationId (rv_id v) @
     '' state='' @ reservation_state_name (rv_state v) @
     '' lease='' @ id_to_string K_LeaseId (rv_lease v) @ newline @
     each_line claim_line (rv_claims v)"

definition render_placement_detail :: "placement_record \<Rightarrow> reservation_record option \<Rightarrow> string" where
  "render_placement_detail p reservation =
     ''placement '' @ id_to_string K_PlacementId (pl_id p) @ newline @
     ''  generation '' @ decimal_u64 (pl_generation p) @ newline @
     ''  state '' @ placement_state_name (pl_state p) @ newline @
     ''  request '' @ id_to_string K_ScheduleRequestId (pl_request p) @ newline @
     ''  decision '' @ id_to_string K_DecisionId (pl_decision p) @ newline @
     ''  experiment '' @ id_to_string K_ExperimentId (pl_experiment p) @
     '' generation '' @ id_to_string K_ExperimentGeneration (pl_experiment_generation p) @ newline @
     ''  coordinator_epoch '' @ id_to_string K_CoordinatorEpoch (pl_epoch p) @ newline @
     ''  worker '' @ id_or_dash K_WorkerId (pl_worker p) @
     '' boot '' @ id_or_dash K_WorkerBootId (pl_worker_boot p) @ newline @
     ''  reassignments '' @ decimal_u64 (ucast (pl_reassignment_count p)) @ newline @
     ''  completion_recorded '' @ yes_no (pl_completion_recorded p) @ newline @
     ''  detail '' @ text_or_dash (pl_detail p) @ newline @
     each_line selected_line (pl_resources p) @
     optional_line reservation_detail reservation"

definition reservation_line :: "reservation_record \<Rightarrow> string" where
  "reservation_line v =
     id_to_string K_ReservationId (rv_id v) @
     '' state='' @ reservation_state_name (rv_state v) @
     '' placement='' @ id_to_string K_PlacementId (rv_placement v) @
     '' generation='' @ decimal_u64 (rv_placement_generation v) @
     '' epoch='' @ id_to_string K_CoordinatorEpoch (rv_epoch v) @
     '' claims='' @ size_text (rv_claims v) @
     '' slots='' @ decimal_u64 (sum_u64 cl_slots (rv_claims v)) @ newline"

definition render_reservations :: "reservation_record list \<Rightarrow> string" where
  "render_reservations reservations =
     ''reservations '' @ size_text reservations @ newline @ each_line reservation_line reservations"

section \<open>Workers, accounting, checks and the audit\<close>

definition worker_line :: "worker_record \<Rightarrow> string" where
  "worker_line w =
     id_to_string K_WorkerId (wk_id w) @
     '' boot='' @ id_or_dash K_WorkerBootId (wk_boot w) @
     '' connected='' @ yes_no (wk_connected w) @
     '' registrations='' @ decimal_u64 (wk_registration_sequence w) @
     '' detail='' @ text_or_dash (wk_detail w) @ newline"

definition render_workers :: "worker_record list \<Rightarrow> string" where
  "render_workers workers =
     ''workers '' @ size_text workers @ newline @ each_line worker_line workers"

definition resource_accounting_line :: "resource_accounting \<Rightarrow> string" where
  "resource_accounting_line r =
     ''  '' @ id_to_string K_ResourceId (ra_resource r) @
     '' class='' @ resource_class_name (ra_resource_class r) @
     '' capacity='' @ decimal_u64 (ucast (ra_capacity_slots r)) @
     '' advertised='' @ decimal_u64 (ucast (ra_advertised_occupancy r)) @
     '' reserved='' @ decimal_u64 (ucast (ra_reserved_slots r)) @
     '' active_reservations='' @ decimal_u64 (ucast (ra_active_reservations r)) @
     '' current='' @ yes_no (ra_dynamic_authoritative r) @ newline"

definition render_accounting :: "accounting_report \<Rightarrow> string" where
  "render_accounting report =
     ''accounting epoch='' @ id_to_string K_CoordinatorEpoch (ar_epoch report) @
     '' placements_recorded='' @ decimal_u64 (ar_placements_recorded report) @
     '' active_placements='' @ decimal_u64 (ar_active_placements report) @
     '' requests_recorded='' @ decimal_u64 (ar_requests_recorded report) @
     '' reservations_recorded='' @ decimal_u64 (ar_reservations_recorded report) @
     '' active_reservations='' @ decimal_u64 (ar_active_reservations report) @
     '' total_capacity='' @ decimal_u64 (ar_total_capacity_slots report) @
     '' total_reserved='' @ decimal_u64 (ar_total_reserved_slots report) @ newline @
     each_line resource_accounting_line (ar_resources report)"

definition invariant_line :: "invariant_check \<Rightarrow> string" where
  "invariant_line c =
     ''  '' @ (if ic_ok c then ''ok '' else ''FAILED '') @ ic_name c @
     (if ic_detail c = [] then [] else '' :: '' @ ic_detail c) @ newline"

definition render_invariants :: "invariant_check list \<Rightarrow> string" where
  "render_invariants checks =
     ''invariants '' @ (if list_all ic_ok checks then ''OK'' else ''VIOLATED'') @
     '' checks='' @ size_text checks @ newline @ each_line invariant_line checks"

definition audit_line :: "audit_record \<Rightarrow> string" where
  "audit_line a = decimal_u64 (au_sequence a) @ '' '' @ au_kind a @ '' '' @ au_detail a @ newline"

definition render_audit :: "audit_record list \<Rightarrow> string" where
  "render_audit audit = ''audit '' @ size_text audit @ newline @ each_line audit_line audit"

definition render_epoch :: "coordinator_epoch \<Rightarrow> string" where
  "render_epoch epoch = ''epoch '' @ id_to_string K_CoordinatorEpoch epoch @ newline"

definition render_durable_state_validation :: "durable_state \<Rightarrow> string" where
  "render_durable_state_validation d =
     (let status = validate_durable_state d in
      ''durable_state '' @ (if status_ok status then ''VALID'' else ''INVALID'') @ newline @
      ''  format_version '' @ decimal_u64 (ucast (du_format_version d)) @ newline @
      ''  epoch '' @ id_or_dash K_CoordinatorEpoch (du_epoch d) @ newline @
      ''  resources '' @ size_text (du_resources d) @ newline @
      ''  requests '' @ size_text (du_requests d) @ newline @
      ''  placements '' @ size_text (du_placements d) @ newline @
      ''  reservations '' @ size_text (du_reservations d) @ newline @
      ''  integrity_note '' @ text_or_dash (du_integrity_note d) @
      (if status_ok status then [] else newline @ ''  error '' @ status_to_string status) @ newline)"

section \<open>Explanations\<close>

primrec decision_outcome_name :: "decision_outcome \<Rightarrow> string" where
  "decision_outcome_name DO_Placed = ''PLACED''"
| "decision_outcome_name DO_NoPlacement = ''NO_PLACEMENT''"

definition parse_decision_outcome :: "string \<Rightarrow> decision_outcome option" where
  "parse_decision_outcome text =
     (if text = ''PLACED'' then Some DO_Placed
      else if text = ''NO_PLACEMENT'' then Some DO_NoPlacement else None)"

definition rejected_line :: "rejected_resource_entry \<Rightarrow> string" where
  "rejected_line j =
     ''  rejected '' @ id_to_string K_ResourceId (rje_resource j) @ '' '' @ quoted (rje_name j) @
     each_line (\<lambda>reason. '' '' @ reject_reason_name reason) (rje_reasons j) @ newline"

definition requirement_explanation_lines :: "requirement_explanation \<Rightarrow> string" where
  "requirement_explanation_lines x =
     ''requirement '' @ rex_requirement_name x @
     '' class='' @ resource_class_name (rex_resource_class x) @
     '' considered='' @ decimal_u64 (ucast (rex_considered x)) @
     '' eligible='' @ decimal_u64 (ucast (rex_eligible x)) @ newline @
     each_line rejected_line (rex_rejected x)"

definition selected_text :: "selected_resource \<Rightarrow> string" where
  "selected_text s =
     '' '' @ id_to_string K_ResourceId (sel_resource s) @
     ''(slots='' @ decimal_u64 (ucast (sel_slots s)) @
     (if sel_exclusive s then '',exclusive)'' else '')'')"

definition factor_line :: "ranking_factor_value \<Rightarrow> string" where
  "factor_line f =
     ''  factor '' @ rfv_name f @ '' weight='' @ decimal_i64 (rfv_weight f) @
     '' value='' @ decimal_i64 (rfv_value f) @ '' weighted='' @ decimal_i64 (rfv_weighted f) @ newline"

definition candidate_lines :: "candidate_explanation \<Rightarrow> string" where
  "candidate_lines c =
     (if cex_selected c then ''candidate selected'' else ''candidate'') @
     '' score='' @ decimal_i64 (cex_score c) @
     '' resources='' @ join_with '','' (map (id_to_string K_ResourceId) (cex_resources c)) @ newline @
     each_line factor_line (cex_factors c)"

definition render_explanation :: "explanation \<Rightarrow> string" where
  "render_explanation x =
     ''decision '' @ id_to_string K_DecisionId (ex_decision x) @ newline @
     ''request '' @ id_to_string K_ScheduleRequestId (ex_request x) @ newline @
     ''experiment '' @ id_to_string K_ExperimentId (ex_experiment x) @
     '' generation '' @ id_to_string K_ExperimentGeneration (ex_experiment_generation x) @ newline @
     ''outcome '' @ decision_outcome_name (ex_outcome x) @ newline @
     ''failure '' @ error_code_name (ex_failure x) @ parenthesised (ex_failure_detail x) @ newline @
     each_line requirement_explanation_lines (ex_requirements x) @
     ''selected'' @ each_line selected_text (ex_selected x) @ newline @
     each_line candidate_lines (ex_candidates x) @
     each_line (\<lambda>note. ''note '' @ note @ newline) (ex_notes x)"

end
