(* ===== verification/Codec.thy ===== *)
theory Codec
  imports Lifecycle
begin

text \<open>
  \<open>codec.hpp\<close> and \<open>codec.cpp\<close>: the little-endian byte writer and the bounded byte reader that the
  wire protocol and the persistence container share. A writer operation is the list of bytes it
  appends to the buffer; a reader operation takes the reader (its bytes, offset and failure code)
  and returns a failure status or the value read with the advanced reader. The second half is the
  calculus of the record codecs: what it means that a reader inverts a writer, that it accepts
  nothing but encodings, and that it refuses a range of bytes.
\<close>

section \<open>Writer\<close>

type_synonym bytes = "u8 list"

definition put_u8 :: "u8 \<Rightarrow> bytes" where
  "put_u8 v = [v]"

definition put_u16 :: "u16 \<Rightarrow> bytes" where
  "put_u16 v = put_u8 (ucast (v AND 0xff)) @ put_u8 (ucast (drop_bit 8 v AND 0xff))"

definition put_u32 :: "u32 \<Rightarrow> bytes" where
  "put_u32 v = put_u16 (ucast (v AND 0xffff)) @ put_u16 (ucast (drop_bit 16 v AND 0xffff))"

definition put_u64 :: "u64 \<Rightarrow> bytes" where
  "put_u64 v = put_u32 (ucast (v AND 0xffffffff)) @ put_u32 (ucast (drop_bit 32 v AND 0xffffffff))"

definition put_boolean :: "bool \<Rightarrow> bytes" where
  "put_boolean b = put_u8 (if b then 1 else 0)"

definition put_str :: "string \<Rightarrow> bytes" where
  "put_str text = put_u32 (of_nat (length text)) @ text_bytes text"

section \<open>Reader\<close>

record byte_reader =
  rd_bytes :: bytes
  rd_offset :: nat
  rd_failure :: error_code

type_synonym 'a reader = "byte_reader \<Rightarrow> status + ('a \<times> byte_reader)"

definition make_byte_reader :: "bytes \<Rightarrow> error_code \<Rightarrow> byte_reader" where
  "make_byte_reader bs failure = \<lparr>rd_bytes = bs, rd_offset = 0, rd_failure = failure\<rparr>"

definition rd_remaining :: "byte_reader \<Rightarrow> nat" where
  "rd_remaining r = length (rd_bytes r) - rd_offset r"

definition at_end :: "byte_reader \<Rightarrow> bool" where
  "at_end r = (rd_offset r = length (rd_bytes r))"

definition rd_fail :: "byte_reader \<Rightarrow> string \<Rightarrow> status" where
  "rd_fail r what = Status (rd_failure r)
     (''decoding failed at offset '' @ decimal_u64 (of_nat (rd_offset r)) @ '': '' @ what)"

definition rd_advance :: "nat \<Rightarrow> byte_reader \<Rightarrow> byte_reader" where
  "rd_advance n r = r\<lparr>rd_offset := rd_offset r + n\<rparr>"

text \<open>The idiom \<open>status = read(...); if (!status.ok()) return status;\<close> and the two returns.\<close>

definition rbind :: "'a reader \<Rightarrow> ('a \<Rightarrow> 'b reader) \<Rightarrow> 'b reader" where
  "rbind m f r = (case m r of Inl s \<Rightarrow> Inl s | Inr (x, r') \<Rightarrow> f x r')"

definition rreturn :: "'a \<Rightarrow> 'a reader" where
  "rreturn x r = Inr (x, r)"

definition rstop :: "status \<Rightarrow> 'a reader" where
  "rstop s r = Inl s"

definition rrequire :: "bool \<Rightarrow> status \<Rightarrow> 'a reader \<Rightarrow> 'a reader" where
  "rrequire ok s m = (if ok then m else rstop s)"

definition get_u8 :: "u8 reader" where
  "get_u8 r =
     (if rd_remaining r < 1 then Inl (rd_fail r ''truncated u8'')
      else Inr (rd_bytes r ! rd_offset r, rd_advance 1 r))"

definition get_u16 :: "u16 reader" where
  "get_u16 = rbind get_u8 (\<lambda>lo. rbind get_u8 (\<lambda>hi. rreturn (ucast lo OR push_bit 8 (ucast hi))))"

definition get_u32 :: "u32 reader" where
  "get_u32 = rbind get_u16 (\<lambda>lo. rbind get_u16 (\<lambda>hi. rreturn (ucast lo OR push_bit 16 (ucast hi))))"

definition get_u64 :: "u64 reader" where
  "get_u64 = rbind get_u32 (\<lambda>lo. rbind get_u32 (\<lambda>hi. rreturn (ucast lo OR push_bit 32 (ucast hi))))"

definition get_boolean :: "bool reader" where
  "get_boolean = rbind get_u8 (\<lambda>v r.
     if 1 < v then Inl (rd_fail r ''non-canonical boolean'') else Inr (v \<noteq> 0, r))"

definition get_raw :: "nat \<Rightarrow> bytes reader" where
  "get_raw n r =
     (if rd_remaining r < n then Inl (rd_fail r ''truncated byte range'')
      else Inr (take n (drop (rd_offset r) (rd_bytes r)), rd_advance n r))"

definition get_str :: "u32 \<Rightarrow> string reader" where
  "get_str maximum = rbind get_u32 (\<lambda>len r.
     if maximum < len then Inl (rd_fail r ''string length exceeds configured bound'')
     else if rd_remaining r < unat len then Inl (rd_fail r ''truncated string'')
     else Inr (map char_of_byte (take (unat len) (drop (rd_offset r) (rd_bytes r))),
       rd_advance (unat len) r))"

definition get_count :: "u32 \<Rightarrow> u32 reader" where
  "get_count maximum = rbind get_u32 (\<lambda>v r.
     if maximum < v then Inl (rd_fail r ''record count exceeds configured bound'') else Inr (v, r))"

definition rd_skip :: "nat \<Rightarrow> unit reader" where
  "rd_skip n r =
     (if rd_remaining r < n then Inl (rd_fail r ''truncated skip'') else Inr ((), rd_advance n r))"

definition require_end :: "unit reader" where
  "require_end r =
     (if \<not> at_end r then Inl (rd_fail r ''trailing bytes after payload'') else Inr ((), r))"

text \<open>
  The counted loops of the record decoders: \<open>for (i = 0; i < count; ++i) { read; push_back; }\<close>.
\<close>

primrec read_times :: "nat \<Rightarrow> 'a reader \<Rightarrow> 'a list reader" where
  "read_times 0 m = rreturn []"
| "read_times (Suc n) m = rbind m (\<lambda>x. rbind (read_times n m) (\<lambda>xs. rreturn (x # xs)))"

definition read_counted :: "u32 \<Rightarrow> 'a reader \<Rightarrow> 'a list reader" where
  "read_counted maximum m = rbind (get_count maximum) (\<lambda>count. read_times (unat count) m)"

definition put_counted :: "('a \<Rightarrow> bytes) \<Rightarrow> 'a list \<Rightarrow> bytes" where
  "put_counted put xs = put_u32 (of_nat (length xs)) @ concat (map put xs)"

text \<open>Reading a whole range: the payload, then \<open>require_end\<close>.\<close>

definition decode_all :: "'a reader \<Rightarrow> error_code \<Rightarrow> bytes \<Rightarrow> 'a result" where
  "decode_all m failure bs =
     (case rbind m (\<lambda>x. rbind require_end (\<lambda>_. rreturn x)) (make_byte_reader bs failure) of
        Inl s \<Rightarrow> Inl s
      | Inr (x, r) \<Rightarrow> Inr x)"

section \<open>Reading, accepting and refusing\<close>

definition rd_rest :: "byte_reader \<Rightarrow> bytes" where
  "rd_rest r = drop (rd_offset r) (rd_bytes r)"

text \<open>
  \<open>reads m bs x\<close>: wherever the bytes \<open>bs\<close> come next, \<open>m\<close> returns \<open>x\<close> and consumes exactly \<open>bs\<close>.
  \<open>accepts m Q\<close>: whenever \<open>m\<close> returns a value, the bytes consumed and the value satisfy \<open>Q\<close>, and
  the reader has moved over exactly those bytes. \<open>refuses m bs\<close>: where \<open>bs\<close> comes next, \<open>m\<close> fails.
\<close>

definition reads :: "'a reader \<Rightarrow> bytes \<Rightarrow> 'a \<Rightarrow> bool" where
  "reads m bs x \<longleftrightarrow>
     (\<forall>r rest. rd_rest r = bs @ rest \<longrightarrow> m r = Inr (x, rd_advance (length bs) r))"

definition accepts :: "'a reader \<Rightarrow> (bytes \<Rightarrow> 'a \<Rightarrow> bool) \<Rightarrow> bool" where
  "accepts m Q \<longleftrightarrow>
     (\<forall>r x r'. m r = Inr (x, r') \<longrightarrow>
       (\<exists>bs. rd_rest r = bs @ rd_rest r' \<and> r' = rd_advance (length bs) r \<and> Q bs x))"

definition refuses :: "'a reader \<Rightarrow> bytes \<Rightarrow> bool" where
  "refuses m bs \<longleftrightarrow> (\<forall>r rest. rd_rest r = bs @ rest \<longrightarrow> (\<exists>s. m r = Inl s))"

lemma rd_rest_advance [simp]: "rd_rest (rd_advance n r) = drop n (rd_rest r)"
  by (simp add: rd_rest_def rd_advance_def add.commute)

lemma rd_advance_advance [simp]: "rd_advance m (rd_advance n r) = rd_advance (n + m) r"
  by (simp add: rd_advance_def add.assoc)

lemma rd_advance_0 [simp]: "rd_advance 0 r = r"
  by (simp add: rd_advance_def)

lemma rd_remaining_rest: "rd_remaining r = length (rd_rest r)"
  by (simp add: rd_remaining_def rd_rest_def)

lemma rd_rest_make [simp]: "rd_rest (make_byte_reader bs f) = bs"
  by (simp add: rd_rest_def make_byte_reader_def)

lemma reads_return: "reads (rreturn x) [] x"
  by (simp add: reads_def rreturn_def)

lemma reads_bind:
  "reads m bs x \<Longrightarrow> reads (f x) cs y \<Longrightarrow> reads (rbind m f) (bs @ cs) y"
  by (auto simp: reads_def rbind_def)

text \<open>The last read of a record, whose value the record is then built from.\<close>

lemma reads_last: "reads m bs x \<Longrightarrow> reads (rbind m (\<lambda>x. rreturn (f x))) bs (f x)"
  using reads_bind [OF _ reads_return, of m bs x f] by simp

lemma reads_require: "ok \<Longrightarrow> reads m bs x \<Longrightarrow> reads (rrequire ok s m) bs x"
  by (simp add: rrequire_def)

lemma reads_eq: "reads m bs y \<Longrightarrow> y = x \<Longrightarrow> reads m bs x"
  by simp

lemma readsD: "reads m bs x \<Longrightarrow> rd_rest r = bs @ rest \<Longrightarrow> m r = Inr (x, rd_advance (length bs) r)"
  by (simp add: reads_def)

lemma accepts_return: "Q [] x \<Longrightarrow> accepts (rreturn x) Q"
  by (simp add: accepts_def rreturn_def)

lemma accepts_stop: "accepts (rstop s) Q"
  by (simp add: accepts_def rstop_def)

lemma accepts_require: "(ok \<Longrightarrow> accepts m Q) \<Longrightarrow> accepts (rrequire ok s m) Q"
  by (simp add: rrequire_def accepts_stop)

lemma accepts_bind:
  assumes "accepts m P" and "\<And>bs x. P bs x \<Longrightarrow> accepts (f x) (\<lambda>cs. Q (bs @ cs))"
  shows "accepts (rbind m f) Q"
  unfolding accepts_def
proof (intro allI impI)
  fix r y r''
  assume "rbind m f r = Inr (y, r'')"
  then obtain x r' where m: "m r = Inr (x, r')" and f: "f x r' = Inr (y, r'')"
    by (auto simp: rbind_def split: sum.splits)
  from assms(1) m obtain bs where bs: "rd_rest r = bs @ rd_rest r'" "r' = rd_advance (length bs) r"
    and P: "P bs x" unfolding accepts_def by blast
  from assms(2) [OF P] f obtain cs where "rd_rest r' = cs @ rd_rest r''"
    "r'' = rd_advance (length cs) r'" "Q (bs @ cs) y" unfolding accepts_def by blast
  with bs show "\<exists>bs. rd_rest r = bs @ rd_rest r'' \<and> r'' = rd_advance (length bs) r \<and> Q bs y"
    by (intro exI [of _ "bs @ cs"]) simp
qed

lemma accepts_weaken: "accepts m P \<Longrightarrow> (\<And>bs x. P bs x \<Longrightarrow> Q bs x) \<Longrightarrow> accepts m Q"
  unfolding accepts_def by blast

lemma refuses_first: "refuses m bs \<Longrightarrow> refuses (rbind m f) (bs @ cs)"
  by (fastforce simp: refuses_def rbind_def)

lemma refuses_later: "reads m bs x \<Longrightarrow> refuses (f x) cs \<Longrightarrow> refuses (rbind m f) (bs @ cs)"
  by (auto simp: refuses_def reads_def rbind_def)

lemma refuses_bind: "refuses m bs \<Longrightarrow> refuses (rbind m f) bs"
  by (fastforce simp: refuses_def rbind_def)

lemma refuses_require: "ok \<Longrightarrow> refuses m bs \<Longrightarrow> refuses (rrequire ok s m) bs"
  by (simp add: rrequire_def)

lemma refuses_more: "refuses m bs \<Longrightarrow> refuses m (bs @ cs)"
  by (simp add: refuses_def)

lemma at_end_advance [simp]: "at_end (rd_advance n (make_byte_reader bs f)) = (n = length bs)"
  by (simp add: at_end_def rd_advance_def make_byte_reader_def)

lemma decode_all_iff:
  "decode_all m f bs = Inr x \<longleftrightarrow> (\<exists>r. m (make_byte_reader bs f) = Inr (x, r) \<and> at_end r)"
  by (auto simp: decode_all_def rbind_def rreturn_def require_end_def split: sum.splits)

lemma decode_all_reads: "reads m bs x \<Longrightarrow> decode_all m f bs = Inr x"
  using readsD [of m bs x "make_byte_reader bs f" "[]"] by (simp add: decode_all_iff)

lemma decode_all_accepts:
  assumes "accepts m Q" and "decode_all m f bs = Inr x"
  shows "Q bs x"
proof -
  from assms(2) obtain r where m: "m (make_byte_reader bs f) = Inr (x, r)" and r: "at_end r"
    by (auto simp: decode_all_iff)
  from r have "rd_rest r = []" by (simp add: rd_rest_def at_end_def)
  moreover from assms(1) m obtain cs where "bs = cs @ rd_rest r" "Q cs x"
    unfolding accepts_def by fastforce
  ultimately show ?thesis by simp
qed

lemma decode_all_trailing:
  assumes "reads m bs x" and "cs \<noteq> []"
  shows "\<exists>msg. decode_all m f (bs @ cs) = Inl (Status f msg)"
proof -
  let ?r = "rd_advance (length bs) (make_byte_reader (bs @ cs) f)"
  from assms(1) have "m (make_byte_reader (bs @ cs) f) = Inr (x, ?r)"
    by (rule readsD) simp
  moreover from assms(2) have "require_end ?r = Inl (rd_fail ?r ''trailing bytes after payload'')"
    by (simp add: require_end_def)
  moreover have "rd_failure ?r = f" by (simp add: rd_advance_def make_byte_reader_def)
  ultimately show ?thesis by (simp add: decode_all_def rbind_def rd_fail_def)
qed

lemma decode_all_refuses: "refuses m bs \<Longrightarrow> \<exists>s. decode_all m f bs = Inl s"
  unfolding refuses_def decode_all_def rbind_def
  by (drule spec [of _ "make_byte_reader bs f"]) fastforce

section \<open>Laws of the primitives\<close>

text \<open>
  The rules for the readers of single values, applied with \<open>rule reads_last reads_bind reads_rules\<close>
  and \<open>rule accepts_bind accepts_return accepts_rules\<close> along the body of a record decoder.
\<close>

named_theorems reads_rules
named_theorems accepts_rules

text \<open>A word is the two halves the writer splits it into, and each half is read back.\<close>

lemma split_u16: "ucast (ucast (v AND 0xff) :: u8) OR push_bit 8 (ucast (ucast (drop_bit 8 v AND 0xff) :: u8)) = v"
  for v :: u16
proof -
  have m: "0xff = (mask 8 :: u16)" by (simp add: mask_eq_exp_minus_1)
  show ?thesis unfolding m by (rule bit_word_eqI) (auto simp: bit_simps)
qed

lemma join_u16:
  fixes lo hi :: u8
  defines "v \<equiv> ucast lo OR push_bit 8 (ucast hi) :: u16"
  shows "ucast (v AND 0xff) = lo" and "ucast (drop_bit 8 v AND 0xff) = hi"
proof -
  have m: "0xff = (mask 8 :: u16)" by (simp add: mask_eq_exp_minus_1)
  show "ucast (v AND 0xff) = lo" unfolding m v_def
    by (rule bit_word_eqI) (auto simp: bit_simps)
  show "ucast (drop_bit 8 v AND 0xff) = hi" unfolding m v_def
    by (rule bit_word_eqI) (auto simp: bit_simps dest: bit_imp_le_length)
qed

lemma split_u32: "ucast (ucast (v AND 0xffff) :: u16) OR push_bit 16 (ucast (ucast (drop_bit 16 v AND 0xffff) :: u16)) = v"
  for v :: u32
proof -
  have m: "0xffff = (mask 16 :: u32)" by (simp add: mask_eq_exp_minus_1)
  show ?thesis unfolding m by (rule bit_word_eqI) (auto simp: bit_simps)
qed

lemma join_u32:
  fixes lo hi :: u16
  defines "v \<equiv> ucast lo OR push_bit 16 (ucast hi) :: u32"
  shows "ucast (v AND 0xffff) = lo" and "ucast (drop_bit 16 v AND 0xffff) = hi"
proof -
  have m: "0xffff = (mask 16 :: u32)" by (simp add: mask_eq_exp_minus_1)
  show "ucast (v AND 0xffff) = lo" unfolding m v_def
    by (rule bit_word_eqI) (auto simp: bit_simps)
  show "ucast (drop_bit 16 v AND 0xffff) = hi" unfolding m v_def
    by (rule bit_word_eqI) (auto simp: bit_simps dest: bit_imp_le_length)
qed

lemma split_u64: "ucast (ucast (v AND 0xffffffff) :: u32) OR push_bit 32 (ucast (ucast (drop_bit 32 v AND 0xffffffff) :: u32)) = v"
  for v :: u64
proof -
  have m: "0xffffffff = (mask 32 :: u64)" by (simp add: mask_eq_exp_minus_1)
  show ?thesis unfolding m by (rule bit_word_eqI) (auto simp: bit_simps)
qed

lemma join_u64:
  fixes lo hi :: u32
  defines "v \<equiv> ucast lo OR push_bit 32 (ucast hi) :: u64"
  shows "ucast (v AND 0xffffffff) = lo" and "ucast (drop_bit 32 v AND 0xffffffff) = hi"
proof -
  have m: "0xffffffff = (mask 32 :: u64)" by (simp add: mask_eq_exp_minus_1)
  show "ucast (v AND 0xffffffff) = lo" unfolding m v_def
    by (rule bit_word_eqI) (auto simp: bit_simps)
  show "ucast (drop_bit 32 v AND 0xffffffff) = hi" unfolding m v_def
    by (rule bit_word_eqI) (auto simp: bit_simps dest: bit_imp_le_length)
qed

lemma length_put_words [simp]:
  "length (put_u8 a) = 1" "length (put_u16 b) = 2" "length (put_u32 c) = 4" "length (put_u64 d) = 8"
  by (simp_all add: put_u8_def put_u16_def put_u32_def put_u64_def)

lemma rd_rest_Cons: "rd_rest r = b # rest \<Longrightarrow> rd_bytes r ! rd_offset r = b"
  by (simp add: rd_rest_def nth_via_drop)

lemma reads_u8 [reads_rules]: "reads get_u8 (put_u8 v) v"
  by (auto simp: reads_def get_u8_def put_u8_def rd_remaining_rest dest: rd_rest_Cons)

lemma accepts_u8 [accepts_rules]: "accepts get_u8 (\<lambda>bs x. bs = put_u8 x)"
  unfolding accepts_def
proof (intro allI impI)
  fix r x r'
  assume get: "get_u8 r = Inr (x, r')"
  then have "rd_rest r \<noteq> []" by (auto simp: get_u8_def rd_remaining_rest)
  then obtain b rest where "rd_rest r = b # rest" by (meson list.exhaust)
  with get rd_rest_Cons [OF this]
  show "\<exists>bs. rd_rest r = bs @ rd_rest r' \<and> r' = rd_advance (length bs) r \<and> bs = put_u8 x"
    by (auto simp: get_u8_def put_u8_def rd_remaining_rest)
qed

lemma reads_u16 [reads_rules]: "reads get_u16 (put_u16 v) v"
proof -
  have "reads get_u16 (put_u16 v)
      (ucast (ucast (v AND 0xff) :: u8) OR push_bit 8 (ucast (ucast (drop_bit 8 v AND 0xff) :: u8)))"
    unfolding get_u16_def put_u16_def by (rule reads_last reads_bind reads_u8)+
  then show ?thesis by (simp only: split_u16)
qed

lemma accepts_u16 [accepts_rules]: "accepts get_u16 (\<lambda>bs x. bs = put_u16 x)"
  unfolding get_u16_def
  by (rule accepts_bind [OF accepts_u8], rule accepts_bind [OF accepts_u8], rule accepts_return)
    (simp only: append_Nil2 put_u16_def join_u16)

lemma reads_u32 [reads_rules]: "reads get_u32 (put_u32 v) v"
proof -
  have "reads get_u32 (put_u32 v)
      (ucast (ucast (v AND 0xffff) :: u16) OR push_bit 16 (ucast (ucast (drop_bit 16 v AND 0xffff) :: u16)))"
    unfolding get_u32_def put_u32_def by (rule reads_last reads_bind reads_u16)+
  then show ?thesis by (simp only: split_u32)
qed

lemma accepts_u32 [accepts_rules]: "accepts get_u32 (\<lambda>bs x. bs = put_u32 x)"
  unfolding get_u32_def
  by (rule accepts_bind [OF accepts_u16], rule accepts_bind [OF accepts_u16], rule accepts_return)
    (simp only: append_Nil2 put_u32_def join_u32)

lemma reads_u64 [reads_rules]: "reads get_u64 (put_u64 v) v"
proof -
  have "reads get_u64 (put_u64 v)
      (ucast (ucast (v AND 0xffffffff) :: u32) OR push_bit 32 (ucast (ucast (drop_bit 32 v AND 0xffffffff) :: u32)))"
    unfolding get_u64_def put_u64_def by (rule reads_last reads_bind reads_u32)+
  then show ?thesis by (simp only: split_u64)
qed

lemma accepts_u64 [accepts_rules]: "accepts get_u64 (\<lambda>bs x. bs = put_u64 x)"
  unfolding get_u64_def
  by (rule accepts_bind [OF accepts_u32], rule accepts_bind [OF accepts_u32], rule accepts_return)
    (simp only: append_Nil2 put_u64_def join_u64)

lemma reads_boolean [reads_rules]: "reads get_boolean (put_boolean b) b"
proof -
  have "reads get_boolean (put_boolean b @ []) b"
    unfolding get_boolean_def put_boolean_def
    by (rule reads_bind [OF reads_u8]) (simp add: reads_def)
  then show ?thesis by simp
qed

lemma accepts_boolean [accepts_rules]: "accepts get_boolean (\<lambda>bs x. bs = put_boolean x)"
proof -
  have small: "v = 0 \<or> v = 1" if "\<not> 1 < v" for v :: u8
    using that by (auto simp: word_nat not_less word_unat_eq_iff)
  show ?thesis unfolding get_boolean_def
  proof (rule accepts_bind [OF accepts_u8])
    fix bs v
    assume bs: "bs = put_u8 v"
    show "accepts (\<lambda>r. if 1 < v then Inl (rd_fail r ''non-canonical boolean'') else Inr (v \<noteq> 0, r))
        (\<lambda>cs x. bs @ cs = put_boolean x)"
      using small [of v] bs by (auto simp: accepts_def put_boolean_def)
  qed
qed

lemma of_nat_u32: "n \<le> unat m \<Longrightarrow> unat (of_nat n :: u32) = n" for m :: u32
  using unsigned_less [of m, where 'a = nat] by (simp add: unat_of_nat take_bit_nat_eq_self)

lemma reads_count: "n \<le> unat m \<Longrightarrow> reads (get_count m) (put_u32 (of_nat n)) (of_nat n)"
proof -
  assume n: "n \<le> unat m"
  have "reads (get_count m) (put_u32 (of_nat n) @ []) (of_nat n)"
    unfolding get_count_def
    by (rule reads_bind [OF reads_u32]) (use n in \<open>simp add: reads_def word_nat of_nat_u32 not_less\<close>)
  then show ?thesis by simp
qed

lemma accepts_count: "accepts (get_count m) (\<lambda>bs x. x \<le> m \<and> bs = put_u32 x)"
  unfolding get_count_def
  by (rule accepts_bind [OF accepts_u32]) (auto simp: accepts_def not_less)

lemma refuses_count: "m < n \<Longrightarrow> refuses (get_count m) (put_u32 n)"
proof -
  assume n: "m < n"
  have "refuses (get_count m) (put_u32 n @ [])"
    unfolding get_count_def by (rule refuses_later [OF reads_u32]) (simp add: refuses_def n)
  then show ?thesis by simp
qed

lemma char_of_byte_of_char [simp]: "char_of_byte (byte_of_char c) = c"
proof -
  have "of_char c < (256 :: nat)" by simp
  then have "unat (of_nat (of_char c) :: u8) = of_char c"
    by (simp add: unat_of_nat take_bit_nat_eq_self)
  then show ?thesis by (simp add: char_of_byte_def byte_of_char_def of_nat_of_char)
qed

lemma byte_of_char_of_byte [simp]: "byte_of_char (char_of_byte b) = b"
proof -
  have "unat b < 256" using unsigned_less [of b, where 'a = nat] by simp
  then have "of_char (char_of (unat b)) = (of_nat (unat b) :: u8)"
    by (metis char_of_nat of_char_of of_nat_of_char mod_less)
  then show ?thesis by (simp add: char_of_byte_def byte_of_char_def)
qed

lemma text_bytes_inverse [simp]: "map char_of_byte (text_bytes t) = t" "text_bytes (map char_of_byte bs) = bs"
  by (simp_all add: text_bytes_def comp_def)

lemma length_text_bytes [simp]: "length (text_bytes t) = length t"
  by (simp add: text_bytes_def)

lemma reads_str [reads_rules]: "length t \<le> unat m \<Longrightarrow> reads (get_str m) (put_str t) t"
  unfolding get_str_def put_str_def
  by (rule reads_bind [OF reads_u32])
    (auto simp: reads_def word_nat of_nat_u32 not_less rd_remaining_rest simp flip: rd_rest_def)

lemma accepts_str [accepts_rules]: "accepts (get_str m) (\<lambda>bs x. length x \<le> unat m \<and> bs = put_str x)"
  unfolding get_str_def
proof (rule accepts_bind [OF accepts_u32])
  fix bs :: bytes and len :: u32
  assume bs: "bs = put_u32 len"
  show "accepts (\<lambda>r. if m < len then Inl (rd_fail r ''string length exceeds configured bound'')
      else if rd_remaining r < unat len then Inl (rd_fail r ''truncated string'')
      else Inr (map char_of_byte (take (unat len) (drop (rd_offset r) (rd_bytes r))),
        rd_advance (unat len) r))
      (\<lambda>cs x. length x \<le> unat m \<and> bs @ cs = put_str x)"
    unfolding accepts_def
  proof (intro allI impI)
    fix r x r'
    assume get: "(if m < len then Inl (rd_fail r ''string length exceeds configured bound'')
      else if rd_remaining r < unat len then Inl (rd_fail r ''truncated string'')
      else Inr (map char_of_byte (take (unat len) (drop (rd_offset r) (rd_bytes r))),
        rd_advance (unat len) r)) = Inr (x, r')"
    then have x: "x = map char_of_byte (take (unat len) (rd_rest r))" and r': "r' = rd_advance (unat len) r"
      and len: "unat len \<le> unat m" "unat len \<le> length (rd_rest r)"
      by (auto simp: rd_remaining_rest word_nat not_less simp flip: rd_rest_def split: if_splits)
    then show "\<exists>cs. rd_rest r = cs @ rd_rest r' \<and> r' = rd_advance (length cs) r \<and>
        length x \<le> unat m \<and> bs @ cs = put_str x"
      by (intro exI [of _ "take (unat len) (rd_rest r)"]) (simp add: bs put_str_def)
  qed
qed

lemma refuses_str: "unat m < length t \<Longrightarrow> length t < 2 ^ 32 \<Longrightarrow> refuses (get_str m) (put_str t)"
  unfolding get_str_def put_str_def
  by (rule refuses_later [OF reads_u32])
    (simp add: refuses_def word_nat unat_of_nat take_bit_nat_eq_self)

section \<open>Records with a reader and a writer\<close>

text \<open>
  The contract of a pair of \<open>write_\<close> and \<open>read_\<close> functions: what is written from an admissible
  value is read back as that value, and only admissible values are ever read. In a canonical pair
  the bytes consumed are moreover the encoding of the value returned.
\<close>

locale record_codec =
  fixes put :: "'a \<Rightarrow> bytes" and get :: "'a reader" and ok :: "'a \<Rightarrow> bool"
  assumes reads_put: "ok x \<Longrightarrow> reads get (put x) x"
    and accepts_ok: "accepts get (\<lambda>bs x. ok x)"
begin

lemma prefix_free:
  assumes "ok x" and "ok y" and eq: "put x @ bs = put y @ cs"
  shows "x = y \<and> bs = cs"
proof -
  let ?r = "make_byte_reader (put x @ bs) E_Ok"
  from readsD [OF reads_put [OF assms(1)], of ?r] have "get ?r = Inr (x, rd_advance (length (put x)) ?r)"
    by simp
  moreover from readsD [OF reads_put [OF assms(2)], of ?r] eq
  have "get ?r = Inr (y, rd_advance (length (put y)) ?r)" by simp
  ultimately have "x = y" by simp
  with eq show ?thesis by simp
qed

lemma decode_encode: "ok x \<Longrightarrow> decode_all get f (put x) = Inr x"
  by (rule decode_all_reads [OF reads_put])

lemma decode_sound: "decode_all get f bs = Inr x \<Longrightarrow> ok x"
  by (rule decode_all_accepts [OF accepts_ok])

lemma decode_trailing:
  "ok x \<Longrightarrow> bs \<noteq> [] \<Longrightarrow> \<exists>msg. decode_all get f (put x @ bs) = Inl (Status f msg)"
  by (rule decode_all_trailing [OF reads_put])

lemma reads_times: "list_all ok xs \<Longrightarrow> reads (read_times (length xs) get) (concat (map put xs)) xs"
proof (induction xs)
  case Nil
  then show ?case by (simp add: reads_return)
next
  case (Cons x xs)
  then have "reads (read_times (Suc (length xs)) get) (put x @ concat (map put xs)) (x # xs)"
    unfolding read_times.simps by (intro reads_bind [OF reads_put] reads_last) simp_all
  then show ?case by simp
qed

lemma accepts_times: "accepts (read_times n get) (\<lambda>bs xs. length xs = n \<and> list_all ok xs)"
proof (induction n)
  case 0
  then show ?case by (simp add: accepts_return)
next
  case (Suc n)
  show ?case unfolding read_times.simps
    by (rule accepts_bind [OF accepts_ok], rule accepts_bind [OF Suc], rule accepts_return) simp
qed

lemma reads_counted:
  assumes "list_all ok xs" and "length xs \<le> unat m"
  shows "reads (read_counted m get) (put_counted put xs) xs"
  unfolding read_counted_def put_counted_def
  by (rule reads_bind [OF reads_count [OF assms(2)]])
    (simp add: of_nat_u32 [OF assms(2)] reads_times [OF assms(1)])

lemma accepts_counted:
  "accepts (read_counted m get) (\<lambda>bs xs. length xs \<le> unat m \<and> list_all ok xs)"
  unfolding read_counted_def
  by (rule accepts_bind [OF accepts_count], rule accepts_weaken [OF accepts_times])
    (auto simp: word_nat)

end

locale canonical_codec = record_codec put get ok
  for put :: "'a \<Rightarrow> bytes" and get :: "'a reader" and ok :: "'a \<Rightarrow> bool" +
  assumes accepts_put: "accepts get (\<lambda>bs x. ok x \<and> bs = put x)"
begin

lemma decode_canonical: "decode_all get f bs = Inr x \<Longrightarrow> ok x \<and> bs = put x"
  by (rule decode_all_accepts [OF accepts_put])

lemma decode_truncated:
  assumes "ok x" and "put x = bs @ cs" and "cs \<noteq> []"
  shows "\<exists>s. decode_all get f bs = Inl s"
proof (cases "decode_all get f bs")
  case (Inr y)
  with decode_canonical have "ok y" "bs = put y" by blast+
  with prefix_free [of x y "[]" cs] assms show ?thesis by simp
qed simp

lemma accepts_times_put:
  "accepts (read_times n get)
    (\<lambda>bs xs. length xs = n \<and> list_all ok xs \<and> bs = concat (map put xs))"
proof (induction n)
  case 0
  then show ?case by (simp add: accepts_return)
next
  case (Suc n)
  show ?case unfolding read_times.simps
    by (rule accepts_bind [OF accepts_put], rule accepts_bind [OF Suc], rule accepts_return) simp
qed

lemma accepts_counted_put:
  "accepts (read_counted m get)
    (\<lambda>bs xs. length xs \<le> unat m \<and> list_all ok xs \<and> bs = put_counted put xs)"
  unfolding read_counted_def
  by (rule accepts_bind [OF accepts_count], rule accepts_weaken [OF accepts_times_put])
    (auto simp: word_nat put_counted_def )

end

interpretation u32_codec: canonical_codec put_u32 get_u32 "\<lambda>_. True"
  by unfold_locales (simp_all add: reads_u32 accepts_u32 accepts_weaken [OF accepts_u32])

interpretation u64_codec: canonical_codec put_u64 get_u64 "\<lambda>_. True"
  by unfold_locales (simp_all add: reads_u64 accepts_u64 accepts_weaken [OF accepts_u64])

interpretation str_codec: canonical_codec put_str "get_str m" "\<lambda>t. length t \<le> unat m" for m
  by unfold_locales (simp_all add: reads_str accepts_str accepts_weaken [OF accepts_str])

end
