(* ===== verification/Checksum.thy ===== *)
theory Checksum
  imports Canonical
begin

text \<open>
  What the FNV-1a checksum of \<open>canonical.cpp\<close> detects. The prime is odd, so a hashing step is a
  bijection of the state for every byte, and an injection of the byte for every state. Two
  inputs of the same length that differ in one position therefore never have the same hash, and
  the same holds for the low 32 bits, which are the hash of the frame header.
\<close>

section \<open>Full width\<close>

definition fnv_step :: "u64 \<Rightarrow> u8 \<Rightarrow> u64" where
  "fnv_step h b = (h XOR ucast b) * kFnvPrime"

lemma fnv1a64_continue_step: "fnv1a64_continue h (b # bs) = fnv1a64_continue (fnv_step h b) bs"
  by (simp add: fnv_step_def)

lemma ucast_u64_inj: "(ucast b :: u64) = ucast b' \<Longrightarrow> b = b'" for b b' :: u8
proof -
  have inv: "(ucast (ucast c :: u64) :: u8) = c" for c
    by (rule bit_word_eqI) (auto simp: bit_simps)
  assume "(ucast b :: u64) = ucast b'"
  then have "(ucast (ucast b :: u64) :: u8) = ucast (ucast b' :: u64)" by (rule arg_cong)
  then show "b = b'" by (simp only: inv)
qed

lemma prime_inverse: "kFnvPrime * 0xce965057aff6957b = 1"
  by (simp add: kFnvPrime_def)

lemma fnv_step_state: "fnv_step h b = fnv_step h' b \<Longrightarrow> h = h'"
  unfolding fnv_step_def by (drule odd_cancel [OF prime_inverse], rule xor_cancel)

lemma fnv_step_byte: "fnv_step h b = fnv_step h b' \<Longrightarrow> b = b'"
  unfolding fnv_step_def
  by (drule odd_cancel [OF prime_inverse], drule xor_cancel_left, rule ucast_u64_inj)

lemma fnv_continue_inj: "fnv1a64_continue h bs = fnv1a64_continue h' bs \<Longrightarrow> h = h'"
proof (induction bs arbitrary: h h')
  case (Cons b bs)
  from Cons.prems have "fnv_step h b = fnv_step h' b"
    unfolding fnv1a64_continue_step by (rule Cons.IH)
  then show ?case by (rule fnv_step_state)
qed simp

lemma fnv_detects:
  assumes "fnv1a64 (xs @ b # ys) = fnv1a64 (xs @ b' # ys)"
  shows "b = b'"
proof -
  let ?h = "fnv1a64_continue kFnvOffsetBasis xs"
  from assms have "fnv1a64_continue (fnv_step ?h b) ys = fnv1a64_continue (fnv_step ?h b') ys"
    by (simp only: fnv1a64_def fnv1a64_continue_append fnv1a64_continue_step)
  then show ?thesis by (rule fnv_continue_inj [THEN fnv_step_byte])
qed

section \<open>The low 32 bits\<close>

definition low_u32 :: "u64 \<Rightarrow> u32" where
  "low_u32 v = ucast (v AND 0xffffffff)"

lemma low_u32_ucast: "low_u32 v = ucast v"
proof -
  have m: "0xffffffff = (mask 32 :: u64)" by (simp add: mask_eq_exp_minus_1)
  show ?thesis unfolding low_u32_def m
    by (rule bit_word_eqI) (auto simp: bit_simps)
qed

lemma low_mult: "low_u32 (a * b) = low_u32 a * low_u32 b"
  unfolding low_u32_ucast
proof -
  have wrap: "take_bit 32 (take_bit 64 a * take_bit 64 b) = take_bit 32 (a * b)" for a b :: int
    using take_bit_mult [of 32 "take_bit 64 a" "take_bit 64 b"] take_bit_mult [of 32 a b] by simp
  show "(ucast (a * b) :: u32) = ucast a * ucast b"
    by transfer (simp add: wrap take_bit_mult)
qed

lemma low_xor: "low_u32 (a XOR b) = low_u32 a XOR low_u32 b"
  unfolding low_u32_ucast by (rule bit_word_eqI) (auto simp: bit_simps)

lemma low_prime: "low_u32 kFnvPrime = 0x1b3"
  by (simp add: low_u32_ucast kFnvPrime_def)

lemma low_inverse: "(0x1b3 :: u32) * 0xaff6957b = 1"
  by simp

lemma low_byte: "low_u32 (ucast b) = low_u32 (ucast b') \<Longrightarrow> b = b'" for b b' :: u8
  proof -
  have inv: "(ucast (low_u32 (ucast c)) :: u8) = c" for c :: u8
    unfolding low_u32_ucast by (rule bit_word_eqI) (auto simp: bit_simps)
  assume "low_u32 (ucast b) = low_u32 (ucast b')"
  then have "(ucast (low_u32 (ucast b)) :: u8) = ucast (low_u32 (ucast b'))" by (rule arg_cong)
  then show "b = b'" by (simp only: inv)
qed

lemma low_step: "low_u32 (fnv_step h b) = (low_u32 h XOR low_u32 (ucast b)) * 0x1b3"
  by (simp only: fnv_step_def low_mult low_xor low_prime)

lemma low_step_state:
  "low_u32 (fnv_step h b) = low_u32 (fnv_step h' b) \<Longrightarrow> low_u32 h = low_u32 h'"
  unfolding low_step by (drule odd_cancel [OF low_inverse], rule xor_cancel)

lemma low_step_byte: "low_u32 (fnv_step h b) = low_u32 (fnv_step h b') \<Longrightarrow> b = b'"
  unfolding low_step by (drule odd_cancel [OF low_inverse], drule xor_cancel_left, rule low_byte)

lemma low_continue_inj:
  "low_u32 (fnv1a64_continue h bs) = low_u32 (fnv1a64_continue h' bs) \<Longrightarrow> low_u32 h = low_u32 h'"
proof (induction bs arbitrary: h h')
  case (Cons b bs)
  from Cons.prems have "low_u32 (fnv_step h b) = low_u32 (fnv_step h' b)"
    unfolding fnv1a64_continue_step by (rule Cons.IH)
  then show ?case by (rule low_step_state)
qed simp

lemma fnv_low_detects:
  assumes "low_u32 (fnv1a64 (xs @ b # ys)) = low_u32 (fnv1a64 (xs @ b' # ys))"
  shows "b = b'"
proof -
  let ?h = "fnv1a64_continue kFnvOffsetBasis xs"
  from assms have "low_u32 (fnv1a64_continue (fnv_step ?h b) ys) =
      low_u32 (fnv1a64_continue (fnv_step ?h b') ys)"
    by (simp only: fnv1a64_def fnv1a64_continue_append fnv1a64_continue_step)
  then show ?thesis by (rule low_continue_inj [THEN low_step_byte])
qed

end
