(* ===== verification/Frame.thy ===== *)
theory Frame
  imports Codec Checksum
begin

text \<open>
  The framed transport of \<open>protocol.hpp\<close> and \<open>protocol.cpp\<close>: message types, and the frame with its
  36-byte header, whose checksum covers the header fields after the length field and the payload.
\<close>

section \<open>Message types\<close>

datatype message_type =
    MT_Hello | MT_HelloAck | MT_RegisterResource | MT_PublishState | MT_RetireResource
  | MT_ResourceAck | MT_ScheduleRequest | MT_Decision | MT_Assign | MT_AssignAck | MT_Running
  | MT_Completion | MT_CompletionAck | MT_CancelPlacement | MT_CancelRequest | MT_Reassign
  | MT_Preempt | MT_LifecycleAck | MT_Inspect | MT_InspectReply | MT_SaveState | MT_StateAck
  | MT_Shutdown | MT_ShutdownAck | MT_Error | MT_DisconnectWorker

primrec message_type_value :: "message_type \<Rightarrow> u16" where
  "message_type_value MT_Hello = 1"
| "message_type_value MT_HelloAck = 2"
| "message_type_value MT_RegisterResource = 3"
| "message_type_value MT_PublishState = 4"
| "message_type_value MT_RetireResource = 5"
| "message_type_value MT_ResourceAck = 6"
| "message_type_value MT_ScheduleRequest = 7"
| "message_type_value MT_Decision = 8"
| "message_type_value MT_Assign = 9"
| "message_type_value MT_AssignAck = 10"
| "message_type_value MT_Running = 11"
| "message_type_value MT_Completion = 12"
| "message_type_value MT_CompletionAck = 13"
| "message_type_value MT_CancelPlacement = 14"
| "message_type_value MT_CancelRequest = 15"
| "message_type_value MT_Reassign = 16"
| "message_type_value MT_Preempt = 17"
| "message_type_value MT_LifecycleAck = 18"
| "message_type_value MT_Inspect = 19"
| "message_type_value MT_InspectReply = 20"
| "message_type_value MT_SaveState = 21"
| "message_type_value MT_StateAck = 22"
| "message_type_value MT_Shutdown = 23"
| "message_type_value MT_ShutdownAck = 24"
| "message_type_value MT_Error = 25"
| "message_type_value MT_DisconnectWorker = 26"

definition kMessageTypeNames :: "(message_type \<times> string) list" where
  "kMessageTypeNames = [
     (MT_Hello, ''HELLO''), (MT_HelloAck, ''HELLO_ACK''),
     (MT_RegisterResource, ''REGISTER_RESOURCE''), (MT_PublishState, ''PUBLISH_STATE''),
     (MT_RetireResource, ''RETIRE_RESOURCE''), (MT_ResourceAck, ''RESOURCE_ACK''),
     (MT_ScheduleRequest, ''SCHEDULE_REQUEST''), (MT_Decision, ''DECISION''),
     (MT_Assign, ''ASSIGN''), (MT_AssignAck, ''ASSIGN_ACK''), (MT_Running, ''RUNNING''),
     (MT_Completion, ''COMPLETION''), (MT_CompletionAck, ''COMPLETION_ACK''),
     (MT_CancelPlacement, ''CANCEL_PLACEMENT''), (MT_CancelRequest, ''CANCEL_REQUEST''),
     (MT_Reassign, ''REASSIGN''), (MT_Preempt, ''PREEMPT''), (MT_LifecycleAck, ''LIFECYCLE_ACK''),
     (MT_Inspect, ''INSPECT''), (MT_InspectReply, ''INSPECT_REPLY''),
     (MT_SaveState, ''SAVE_STATE''), (MT_StateAck, ''STATE_ACK''), (MT_Shutdown, ''SHUTDOWN''),
     (MT_ShutdownAck, ''SHUTDOWN_ACK''), (MT_Error, ''ERROR''),
     (MT_DisconnectWorker, ''DISCONNECT_WORKER'')]"

definition message_type_name :: "message_type \<Rightarrow> string" where
  "message_type_name t = table_name kMessageTypeNames ''UNKNOWN'' t"

definition parse_message_type :: "string \<Rightarrow> message_type option" where
  "parse_message_type text = table_parse kMessageTypeNames text"

definition message_type_of :: "u16 \<Rightarrow> message_type option" where
  "message_type_of raw = find (\<lambda>t. message_type_value t = raw) (map fst kMessageTypeNames)"

section \<open>Frames\<close>

definition kFrameHeaderSize :: nat where "kFrameHeaderSize = 36"
definition kFrameHeaderFields :: nat where "kFrameHeaderFields = 32"
definition kFrameFlagsNone :: u16 where "kFrameFlagsNone = 0"
definition kProtocolVersion :: u32 where "kProtocolVersion = 1"

record frame_view =
  fv_type :: message_type
  fv_correlation_id :: u64
  fv_coordinator_epoch :: u64
  fv_payload :: bytes

text \<open>The hash of bytes 4 to 31 of a frame, continued over the payload when there is one.\<close>

definition frame_checksum :: "bytes \<Rightarrow> bytes \<Rightarrow> u32" where
  "frame_checksum frame payload =
     (let hash = fnv1a64 (take (kFrameHeaderFields - 4) (drop 4 frame));
          hash = (if payload \<noteq> [] then fnv1a64_continue hash payload else hash)
      in low_u32 hash)"

definition encode_frame :: "message_type \<Rightarrow> u64 \<Rightarrow> u64 \<Rightarrow> bytes \<Rightarrow> bytes result" where
  "encode_frame t correlation_id coordinator_epoch payload =
     (if 0xffffffff < length payload + kFrameHeaderSize then
        Inl (Status E_ProtocolError ''frame payload is too large to encode'')
      else
        let header =
              put_u32 (of_nat (kFrameHeaderFields + length payload)) @
              put_u32 kProtocolVersion @
              put_u16 (message_type_value t) @
              put_u16 kFrameFlagsNone @
              put_u64 correlation_id @
              put_u64 coordinator_epoch @
              put_u32 (of_nat (length payload)) @
              put_u32 0;
            frame = header @ payload;
            checksum = frame_checksum frame payload
        in Inr (frame[
             32 := ucast (checksum AND 0xff),
             33 := ucast (drop_bit 8 checksum AND 0xff),
             34 := ucast (drop_bit 16 checksum AND 0xff),
             35 := ucast (drop_bit 24 checksum AND 0xff)]))"

definition read_frame_header :: "limits \<Rightarrow> nat \<Rightarrow> (message_type \<times> u64 \<times> u64 \<times> u32 \<times> u32) reader" where
  "read_frame_header lim delivered =
     rbind get_u32 (\<lambda>frame_length.
     rrequire (unat frame_length = delivered - 4)
       (Status E_ProtocolError ''frame length does not match the delivered bytes'') (
     rrequire (\<not> max_frame_size lim < frame_length + 4)
       (Status E_ProtocolError ''frame exceeds the configured maximum size'') (
     rbind get_u32 (\<lambda>protocol_version.
     rrequire (protocol_version = kProtocolVersion)
       (Status E_ProtocolError ''unsupported protocol version'') (
     rbind get_u16 (\<lambda>raw_type.
     case message_type_of raw_type of
       None \<Rightarrow> rstop (Status E_ProtocolError ''unknown message type'')
     | Some t \<Rightarrow>
         rbind get_u16 (\<lambda>flags.
         rrequire (flags = kFrameFlagsNone) (Status E_ProtocolError ''frame flags must be zero'') (
         rbind get_u64 (\<lambda>correlation_id.
         rbind get_u64 (\<lambda>coordinator_epoch.
         rbind get_u32 (\<lambda>payload_length.
         rrequire (payload_length = frame_length - of_nat kFrameHeaderFields)
           (Status E_ProtocolError ''declared payload length does not match the frame'') (
         rbind get_u32 (\<lambda>checksum.
         rreturn (t, correlation_id, coordinator_epoch, payload_length, checksum))))))))))))))"

definition decode_frame :: "limits \<Rightarrow> bytes \<Rightarrow> frame_view result" where
  "decode_frame lim frame =
     (if length frame < kFrameHeaderSize then
        Inl (Status E_ProtocolError ''frame is shorter than the header'')
      else case read_frame_header lim (length frame) (make_byte_reader frame E_ProtocolError) of
          Inl s \<Rightarrow> Inl s
        | Inr ((t, correlation_id, coordinator_epoch, payload_length, checksum), _) \<Rightarrow>
            if checksum \<noteq> frame_checksum frame (take (unat payload_length) (drop kFrameHeaderSize frame)) then
              Inl (Status E_ProtocolError ''frame checksum does not match'')
            else Inr \<lparr>fv_type = t, fv_correlation_id = correlation_id,
              fv_coordinator_epoch = coordinator_epoch, fv_payload = drop kFrameHeaderSize frame\<rparr>)"

end
