(* ===== verification/RecordParts.thy ===== *)
theory RecordParts
  imports Codec
begin

text \<open>
  The first half of \<open>record_codec.hpp\<close> and \<open>record_codec.cpp\<close>: identities, strings, enumerations,
  limits, ranking weights, topology, capability sets, accelerators, canonical lists and locality.
  A \<open>write_\<close> function is the bytes it appends, a \<open>read_\<close> function a reader; each pair is an
  instance of the codec contract, with the predicate \<open>ok_\<close> naming the values the reader can return.
\<close>

section \<open>Identities, strings and enumerations\<close>

definition write_id :: "u64 \<Rightarrow> bytes" where
  "write_id i = put_u64 i"

definition read_id :: "u64 reader" where
  "read_id = rbind get_u64 (\<lambda>value. rreturn value)"

definition write_string :: "string \<Rightarrow> bytes" where
  "write_string text = put_str text"

definition read_string :: "u32 \<Rightarrow> string reader" where
  "read_string maximum = get_str maximum"

text \<open>
  \<open>static_cast\<close> between an enumeration and its 8-bit value: the enumerators are listed in the order
  of their values, which start at 0.
\<close>

fun enum_index :: "'e list \<Rightarrow> 'e \<Rightarrow> nat" where
  "enum_index [] x = 0"
| "enum_index (y # ys) x = (if y = x then 0 else Suc (enum_index ys x))"

definition enum_code :: "'e list \<Rightarrow> 'e \<Rightarrow> u8" where
  "enum_code enumerators x = of_nat (enum_index enumerators x)"

definition write_enum :: "u8 \<Rightarrow> bytes" where
  "write_enum value = put_u8 value"

definition read_enum :: "'e list \<Rightarrow> u8 \<Rightarrow> 'e reader" where
  "read_enum enumerators maximum = rbind get_u8 (\<lambda>raw.
     rrequire (\<not> maximum < raw) (Status E_CorruptPersistence ''persisted enum value is out of range'')
       (rreturn (enumerators ! unat raw)))"

definition resource_classes :: "resource_class list" where
  "resource_classes = [RC_Model, RC_Gpu, RC_Simulator, RC_Dataset, RC_PhysicalEnvironment,
     RC_VirtualEnvironment, RC_Worker]"

definition sharing_modes :: "sharing_mode list" where
  "sharing_modes = [SM_Shared, SM_Exclusive]"

definition health_states :: "health_state list" where
  "health_states = [HS_Unknown, HS_Healthy, HS_Degraded, HS_Unhealthy]"

definition readiness_states :: "readiness_state list" where
  "readiness_states = [RD_Unknown, RD_Ready, RD_NotReady, RD_Unsupported]"

definition provenances :: "provenance list" where
  "provenances = [PV_Unsupported, PV_Synthetic, PV_Real]"

definition resource_lifecycles :: "resource_lifecycle list" where
  "resource_lifecycles = [RL_Registered, RL_Current, RL_Retired, RL_Lost]"

definition topology_scopes :: "topology_scope list" where
  "topology_scopes = [TS_Host, TS_NumaDomain, TS_RootComplex, TS_Rack, TS_Cluster]"

definition request_states :: "request_state list" where
  "request_states = [RQ_Submitted, RQ_Placed, RQ_Completed, RQ_Failed, RQ_Cancelled, RQ_NoPlacement]"

definition placement_states :: "placement_state list" where
  "placement_states = [PL_Reserved, PL_Assigned, PL_Running, PL_Completed, PL_Failed, PL_Cancelled,
     PL_Preempted, PL_ReassignmentRequired, PL_Lost]"

definition reservation_states :: "reservation_state list" where
  "reservation_states = [RV_Active, RV_Released, RV_Revoked]"

section \<open>Limits and weights\<close>

definition write_limits :: "limits \<Rightarrow> bytes" where
  "write_limits l =
     concat (map put_u32
       [max_resources l, max_capabilities_per_resource l, max_accelerators_per_resource l,
        max_local_datasets_per_resource l, max_resident_models_per_resource l,
        max_simulator_scenarios l, max_retained_requests l, max_active_requests l,
        max_requirements_per_request l, max_allowlist_entries l, max_denylist_entries l,
        max_anti_affinity_pairs l, max_affinity_groups l,
        max_candidate_resources_per_requirement l, max_candidates_evaluated l,
        max_candidates_ranked l, max_rejected_entries_per_requirement l,
        max_rejection_reasons_per_entry l, max_ranking_factors l, max_placements l,
        max_active_placements l, max_reservations l, max_active_reservations l,
        max_placement_history_per_unit l, max_audit_records l, max_topology_records l,
        max_topology_depth l, max_string_length l, max_digest_length l,
        max_explanation_entries l, max_frame_size l, max_worker_connections l,
        max_inflight_assignments l, max_persistence_records l]) @
     put_u64 (max_persistence_bytes l) @
     put_u32 (max_placement_commit_attempts l)"

definition read_limits :: "limits reader" where
  "read_limits =
     rbind (read_times 34 get_u32) (\<lambda>values.
     rbind get_u64 (\<lambda>persistence_bytes.
     rbind get_u32 (\<lambda>commit_attempts.
     rreturn \<lparr>
       max_resources = values ! 0,
       max_capabilities_per_resource = values ! 1,
       max_accelerators_per_resource = values ! 2,
       max_local_datasets_per_resource = values ! 3,
       max_resident_models_per_resource = values ! 4,
       max_simulator_scenarios = values ! 5,
       max_retained_requests = values ! 6,
       max_active_requests = values ! 7,
       max_requirements_per_request = values ! 8,
       max_allowlist_entries = values ! 9,
       max_denylist_entries = values ! 10,
       max_anti_affinity_pairs = values ! 11,
       max_affinity_groups = values ! 12,
       max_candidate_resources_per_requirement = values ! 13,
       max_candidates_evaluated = values ! 14,
       max_candidates_ranked = values ! 15,
       max_rejected_entries_per_requirement = values ! 16,
       max_rejection_reasons_per_entry = values ! 17,
       max_ranking_factors = values ! 18,
       max_placements = values ! 19,
       max_active_placements = values ! 20,
       max_reservations = values ! 21,
       max_active_reservations = values ! 22,
       max_placement_history_per_unit = values ! 23,
       max_audit_records = values ! 24,
       max_topology_records = values ! 25,
       max_topology_depth = values ! 26,
       max_string_length = values ! 27,
       max_digest_length = values ! 28,
       max_explanation_entries = values ! 29,
       max_frame_size = values ! 30,
       max_worker_connections = values ! 31,
       max_inflight_assignments = values ! 32,
       max_persistence_records = values ! 33,
       max_persistence_bytes = persistence_bytes,
       max_placement_commit_attempts = commit_attempts\<rparr>)))"

text \<open>
  The weights array is indexed by the factors in the order of their enumeration; each 32-bit value
  is written as its two's complement.
\<close>

definition write_weights :: "ranking_weights \<Rightarrow> bytes" where
  "write_weights weights = concat (map (\<lambda>f. put_u32 (word_of_int (weights f))) all_factors)"

fun read_weights_loop :: "ranking_factor list \<Rightarrow> ranking_weights \<Rightarrow> ranking_weights reader" where
  "read_weights_loop [] weights = rreturn weights"
| "read_weights_loop (f # fs) weights = rbind get_u32 (\<lambda>raw.
     let value = sint raw in
     rrequire (\<not> (value < -1000 \<or> 1000 < value))
       (Status E_CorruptPersistence ''persisted ranking weight is out of range'')
       (read_weights_loop fs (weights(f := value))))"

definition read_weights :: "ranking_weights reader" where
  "read_weights = read_weights_loop all_factors default_weights"

section \<open>Topology and capabilities\<close>

definition write_topology_domain :: "topology_domain \<Rightarrow> bytes" where
  "write_topology_domain d = write_id (td_id d) @ write_string (td_name d)"

definition read_topology_domain :: "u32 \<Rightarrow> topology_domain reader" where
  "read_topology_domain maximum =
     rbind read_id (\<lambda>i.
     rbind (read_string maximum) (\<lambda>name.
     rreturn \<lparr>td_id = i, td_name = name\<rparr>))"

definition write_topology :: "topology_descriptor \<Rightarrow> bytes" where
  "write_topology t =
     write_topology_domain (topo_host t) @
     write_topology_domain (topo_numa t) @
     write_topology_domain (topo_root_complex t) @
     write_topology_domain (topo_rack t) @
     write_topology_domain (topo_cluster t) @
     put_boolean (topo_supplied t)"

definition read_topology :: "u32 \<Rightarrow> topology_descriptor reader" where
  "read_topology maximum =
     rbind (read_topology_domain maximum) (\<lambda>host.
     rbind (read_topology_domain maximum) (\<lambda>numa.
     rbind (read_topology_domain maximum) (\<lambda>root_complex.
     rbind (read_topology_domain maximum) (\<lambda>rack.
     rbind (read_topology_domain maximum) (\<lambda>cluster.
     rbind get_boolean (\<lambda>supplied.
     rreturn \<lparr>topo_host = host, topo_numa = numa, topo_root_complex = root_complex,
       topo_rack = rack, topo_cluster = cluster, topo_supplied = supplied\<rparr>))))))"

definition write_capabilities :: "capability_set \<Rightarrow> bytes" where
  "write_capabilities capabilities =
     put_counted (\<lambda>c. write_id (cap_id c) @ write_string (cap_name c)) capabilities"

primrec read_capabilities_loop :: "limits \<Rightarrow> nat \<Rightarrow> capability_set \<Rightarrow> capability_set reader" where
  "read_capabilities_loop lim 0 capabilities = rreturn capabilities"
| "read_capabilities_loop lim (Suc n) capabilities =
     rbind read_id (\<lambda>i.
     rbind (read_string 64) (\<lambda>name.
     rrequire (capability_id_from_name name = i)
       (Status E_CorruptPersistence ''persisted capability identity does not match its name'')
       (case cap_add lim \<lparr>cap_id = i, cap_name = name\<rparr> capabilities of
          Inl status \<Rightarrow> rstop status
        | Inr extended \<Rightarrow> read_capabilities_loop lim n extended)))"

definition read_capabilities :: "limits \<Rightarrow> capability_set reader" where
  "read_capabilities lim =
     rbind (get_count (max_capabilities_per_resource lim)) (\<lambda>count.
     read_capabilities_loop lim (unat count) [])"

section \<open>Accelerators, canonical lists, locality\<close>

definition write_accelerator :: "accelerator_attachment \<Rightarrow> bytes" where
  "write_accelerator a =
     write_id (acc_id a) @
     write_string (acc_model a) @
     put_u64 (acc_memory_bytes a) @
     put_u32 (acc_compute_capability_major a) @
     put_u32 (acc_compute_capability_minor a) @
     write_id (acc_root_complex a)"

definition read_accelerator :: "limits \<Rightarrow> accelerator_attachment reader" where
  "read_accelerator lim =
     rbind read_id (\<lambda>i.
     rbind (read_string (max_string_length lim)) (\<lambda>model.
     rbind get_u64 (\<lambda>memory_bytes.
     rbind get_u32 (\<lambda>major.
     rbind get_u32 (\<lambda>minor.
     rbind read_id (\<lambda>root_complex.
     rreturn \<lparr>acc_id = i, acc_model = model, acc_memory_bytes = memory_bytes,
       acc_compute_capability_major = major, acc_compute_capability_minor = minor,
       acc_root_complex = root_complex\<rparr>))))))"

definition write_accelerators :: "accelerator_attachment list \<Rightarrow> bytes" where
  "write_accelerators accelerators = put_counted write_accelerator accelerators"

definition read_accelerators :: "limits \<Rightarrow> accelerator_attachment list reader" where
  "read_accelerators lim = read_counted (max_accelerators_per_resource lim) (read_accelerator lim)"

text \<open>
  The two list decoders share their loop: every element must be above the previous one, so a list
  that is not strictly ascending is refused with the message of the decoder.
\<close>

primrec read_ascending :: "'a reader \<Rightarrow> string \<Rightarrow> nat \<Rightarrow> 'a::linorder option \<Rightarrow> 'a list reader" where
  "read_ascending m message 0 previous = rreturn []"
| "read_ascending m message (Suc n) previous =
     rbind m (\<lambda>x.
     rrequire (case previous of None \<Rightarrow> True | Some p \<Rightarrow> p < x) (Status E_CorruptPersistence message)
       (rbind (read_ascending m message n (Some x)) (\<lambda>xs. rreturn (x # xs))))"

definition write_id_list :: "u64 list \<Rightarrow> bytes" where
  "write_id_list ids = put_counted write_id ids"

definition read_id_list :: "u32 \<Rightarrow> u64 list reader" where
  "read_id_list maximum = rbind (get_count maximum) (\<lambda>count.
     read_ascending read_id ''persisted identity list is not canonically ordered'' (unat count) None)"

definition write_string_list :: "string list \<Rightarrow> bytes" where
  "write_string_list values = put_counted write_string values"

definition read_string_list :: "u32 \<Rightarrow> u32 \<Rightarrow> string list reader" where
  "read_string_list maximum maximum_length = rbind (get_count maximum) (\<lambda>count.
     read_ascending (read_string maximum_length)
       ''persisted string list is not canonically ordered'' (unat count) None)"

definition write_locality :: "locality_descriptor \<Rightarrow> bytes" where
  "write_locality l =
     write_id_list (loc_local_dataset_versions l) @
     write_id_list (loc_resident_models l) @
     write_id_list (loc_colocated_simulators l)"

definition read_locality :: "limits \<Rightarrow> locality_descriptor reader" where
  "read_locality lim =
     rbind (read_id_list (max_local_datasets_per_resource lim)) (\<lambda>datasets.
     rbind (read_id_list (max_resident_models_per_resource lim)) (\<lambda>models.
     rbind (read_id_list (max_simulator_scenarios lim)) (\<lambda>simulators.
     rreturn \<lparr>loc_local_dataset_versions = datasets, loc_resident_models = models,
       loc_colocated_simulators = simulators\<rparr>)))"

text \<open>
  A presence flag and, when it is set, the value: \<open>read_optional\<close> and the four optional parts of a
  resource.
\<close>

definition write_optional :: "('a \<Rightarrow> bytes) \<Rightarrow> 'a option \<Rightarrow> bytes" where
  "write_optional put x = put_boolean (x \<noteq> None) @ (case x of None \<Rightarrow> [] | Some v \<Rightarrow> put v)"

definition read_present :: "'a reader \<Rightarrow> 'a option reader" where
  "read_present m = rbind get_boolean (\<lambda>present.
     if present then rbind m (\<lambda>v. rreturn (Some v)) else rreturn None)"

definition read_optional :: "u64 option reader" where
  "read_optional = read_present read_id"

section \<open>Admissible values\<close>

definition ok_weights :: "ranking_weights \<Rightarrow> bool" where
  "ok_weights w = list_all (\<lambda>f. -1000 \<le> w f \<and> w f \<le> 1000) all_factors"

definition ok_topology :: "u32 \<Rightarrow> topology_descriptor \<Rightarrow> bool" where
  "ok_topology m t = list_all (\<lambda>d. length (td_name d) \<le> unat m)
     [topo_host t, topo_numa t, topo_root_complex t, topo_rack t, topo_cluster t]"

definition ok_capabilities :: "limits \<Rightarrow> capability_set \<Rightarrow> bool" where
  "ok_capabilities lim cs \<longleftrightarrow>
     cap_set_wf cs \<and> length cs \<le> unat (max_capabilities_per_resource lim)"

definition ok_accelerators :: "limits \<Rightarrow> accelerator_attachment list \<Rightarrow> bool" where
  "ok_accelerators lim as \<longleftrightarrow> length as \<le> unat (max_accelerators_per_resource lim) \<and>
     list_all (\<lambda>a. length (acc_model a) \<le> unat (max_string_length lim)) as"

definition ok_ascending :: "u32 \<Rightarrow> 'a::linorder list \<Rightarrow> bool" where
  "ok_ascending m xs \<longleftrightarrow> sorted_wrt (<) xs \<and> length xs \<le> unat m"

definition ok_strings :: "u32 \<Rightarrow> u32 \<Rightarrow> string list \<Rightarrow> bool" where
  "ok_strings m l ts \<longleftrightarrow> ok_ascending m ts \<and> list_all (\<lambda>t. length t \<le> unat l) ts"

definition ok_locality :: "limits \<Rightarrow> locality_descriptor \<Rightarrow> bool" where
  "ok_locality lim l \<longleftrightarrow>
     ok_ascending (max_local_datasets_per_resource lim) (loc_local_dataset_versions l) \<and>
     ok_ascending (max_resident_models_per_resource lim) (loc_resident_models l) \<and>
     ok_ascending (max_simulator_scenarios lim) (loc_colocated_simulators l)"

definition ok_optional :: "('a \<Rightarrow> bool) \<Rightarrow> 'a option \<Rightarrow> bool" where
  "ok_optional ok x = (case x of None \<Rightarrow> True | Some v \<Rightarrow> ok v)"

section \<open>Laws\<close>

lemma reads_id [reads_rules]: "reads read_id (write_id v) v"
  unfolding read_id_def write_id_def by (rule reads_last reads_rules)+

lemma accepts_id [accepts_rules]: "accepts read_id (\<lambda>bs x. bs = write_id x)"
  unfolding read_id_def write_id_def by (rule accepts_bind accepts_return accepts_rules)+ simp

interpretation id_codec: canonical_codec write_id read_id "\<lambda>_. True"
  by unfold_locales (simp_all add: reads_id accepts_id accepts_weaken [OF accepts_id])

lemma reads_string [reads_rules]:
  "length t \<le> unat m \<Longrightarrow> reads (read_string m) (write_string t) t"
  unfolding read_string_def write_string_def by (rule reads_str)

lemma accepts_string [accepts_rules]:
  "accepts (read_string m) (\<lambda>bs t. length t \<le> unat m \<and> bs = write_string t)"
  unfolding read_string_def write_string_def by (rule accepts_str)

lemma refuses_string:
  "unat m < length t \<Longrightarrow> length t < 2 ^ 32 \<Longrightarrow> refuses (read_string m) (write_string t)"
  unfolding read_string_def write_string_def by (rule refuses_str)

text \<open>Enumerations: a list of distinct enumerators that is complete and ends with the largest one.\<close>

locale enumeration =
  fixes vs :: "'e list" and top :: 'e
  assumes distinct: "distinct vs" and complete: "x \<in> set vs"
    and small: "length vs \<le> 256" and top: "last vs = top"
begin

lemma index: "x \<in> set ys \<Longrightarrow> enum_index ys x < length ys \<and> ys ! enum_index ys x = x"
  by (induction ys) auto

lemma index_nth: "distinct ys \<Longrightarrow> n < length ys \<Longrightarrow> enum_index ys (ys ! n) = n"
proof (induction ys arbitrary: n)
  case (Cons y ys)
  then show ?case by (cases n) auto
qed simp

lemma code: "unat (enum_code vs x) = enum_index vs x"
proof -
  have "enum_index vs x < 256" using index [OF complete, of x] small by linarith
  then show ?thesis by (simp add: enum_code_def unat_of_nat take_bit_nat_eq_self)
qed

lemma code_top: "unat (enum_code vs top) = length vs - 1"
proof -
  have "vs \<noteq> []" using complete by auto
  then have "vs ! (length vs - 1) = top" and "length vs - 1 < length vs"
    using top last_conv_nth [of vs] by simp_all
  with index_nth [OF distinct] code show ?thesis by metis
qed

lemma of_code: "vs ! unat (enum_code vs x) = x"
  using index [OF complete] by (simp add: code)

lemma code_le: "enum_code vs x \<le> enum_code vs top"
proof -
  have "enum_index vs x \<le> length vs - 1" using index [OF complete, of x] by linarith
  then show ?thesis by (simp only: word_le_unat code_top) (simp add: code)
qed

lemma code_of: "v \<le> enum_code vs top \<Longrightarrow> enum_code vs (vs ! unat v) = v"
proof -
  assume "v \<le> enum_code vs top"
  moreover have "vs \<noteq> []" using complete by auto
  ultimately have "unat v < length vs" by (simp add: word_nat code_top) (simp flip: length_greater_0_conv)
  then have "unat (enum_code vs (vs ! unat v)) = unat v" by (simp add: code index_nth distinct)
  then show ?thesis by (simp add: word_unat_eq_iff)
qed

lemma reads_enum: "reads (read_enum vs (enum_code vs top)) (write_enum (enum_code vs x)) x"
proof -
  have "reads (read_enum vs (enum_code vs top)) (write_enum (enum_code vs x) @ []) x"
    unfolding read_enum_def write_enum_def
    by (rule reads_bind [OF reads_u8], rule reads_require)
      (simp_all add: of_code code_le not_less reads_return)
  then show ?thesis by simp
qed

lemma accepts_enum: "accepts (read_enum vs (enum_code vs top)) (\<lambda>bs x. bs = write_enum (enum_code vs x))"
  unfolding read_enum_def write_enum_def
  by (rule accepts_bind [OF accepts_u8], rule accepts_require, rule accepts_return)
    (simp add: code_of not_less)

end

interpretation class_enum: enumeration resource_classes RC_Worker
  by unfold_locales (simp_all add: resource_classes_def, metis resource_class.exhaust)

interpretation sharing_enum: enumeration sharing_modes SM_Exclusive
  by unfold_locales (simp_all add: sharing_modes_def, metis sharing_mode.exhaust)

interpretation health_enum: enumeration health_states HS_Unhealthy
  by unfold_locales (simp_all add: health_states_def, metis health_state.exhaust)

interpretation readiness_enum: enumeration readiness_states RD_Unsupported
  by unfold_locales (simp_all add: readiness_states_def, metis readiness_state.exhaust)

interpretation provenance_enum: enumeration provenances PV_Real
  by unfold_locales (simp_all add: provenances_def, metis provenance.exhaust)

interpretation lifecycle_enum: enumeration resource_lifecycles RL_Lost
  by unfold_locales (simp_all add: resource_lifecycles_def, metis resource_lifecycle.exhaust)

interpretation scope_enum: enumeration topology_scopes TS_Cluster
  by unfold_locales (simp_all add: topology_scopes_def, metis topology_scope.exhaust)

interpretation request_state_enum: enumeration request_states RQ_NoPlacement
  by unfold_locales (simp_all add: request_states_def, metis request_state.exhaust)

interpretation placement_state_enum: enumeration placement_states PL_Lost
  by unfold_locales (simp_all add: placement_states_def, metis placement_state.exhaust)

interpretation reservation_state_enum: enumeration reservation_states RV_Revoked
  by unfold_locales (simp_all add: reservation_states_def, metis reservation_state.exhaust)

lemmas reads_enums [reads_rules] = class_enum.reads_enum sharing_enum.reads_enum
  health_enum.reads_enum readiness_enum.reads_enum provenance_enum.reads_enum
  lifecycle_enum.reads_enum scope_enum.reads_enum request_state_enum.reads_enum
  placement_state_enum.reads_enum reservation_state_enum.reads_enum

lemmas accepts_enums [accepts_rules] = class_enum.accepts_enum sharing_enum.accepts_enum
  health_enum.accepts_enum readiness_enum.accepts_enum provenance_enum.accepts_enum
  lifecycle_enum.accepts_enum scope_enum.accepts_enum request_state_enum.accepts_enum
  placement_state_enum.accepts_enum reservation_state_enum.accepts_enum

text \<open>Limits and weights.\<close>

definition limit_values :: "limits \<Rightarrow> u32 list" where
  "limit_values l =
     [max_resources l, max_capabilities_per_resource l, max_accelerators_per_resource l,
      max_local_datasets_per_resource l, max_resident_models_per_resource l,
      max_simulator_scenarios l, max_retained_requests l, max_active_requests l,
      max_requirements_per_request l, max_allowlist_entries l, max_denylist_entries l,
      max_anti_affinity_pairs l, max_affinity_groups l,
      max_candidate_resources_per_requirement l, max_candidates_evaluated l,
      max_candidates_ranked l, max_rejected_entries_per_requirement l,
      max_rejection_reasons_per_entry l, max_ranking_factors l, max_placements l,
      max_active_placements l, max_reservations l, max_active_reservations l,
      max_placement_history_per_unit l, max_audit_records l, max_topology_records l,
      max_topology_depth l, max_string_length l, max_digest_length l,
      max_explanation_entries l, max_frame_size l, max_worker_connections l,
      max_inflight_assignments l, max_persistence_records l]"

lemma upt_34: "[0..<34] = [0, 1, 2, 3, 4, 5, 6, 7, 8, 9, 10, 11, 12, 13, 14, 15, 16, 17, 18, 19, 20,
    21, 22, 23, 24, 25, 26, 27, 28, 29, 30, 31, 32, 33]"
  by code_simp

lemma reads_limits [reads_rules]: "reads read_limits (write_limits l) l"
proof -
  have len: "length (limit_values l) = 34" by (simp add: limit_values_def)
  have "list_all (\<lambda>_. True) (limit_values l)" by (simp add: list_all_iff)
  from u32_codec.reads_times [OF this]
  have "reads (read_times 34 get_u32) (concat (map put_u32 (limit_values l))) (limit_values l)"
    by (simp only: len)
  then show ?thesis
    unfolding read_limits_def write_limits_def limit_values_def [symmetric]
    by (rule reads_eq [OF reads_bind]) ((rule reads_last reads_bind reads_rules)+, simp add: limit_values_def)
qed

lemma accepts_limits [accepts_rules]: "accepts read_limits (\<lambda>bs l. bs = write_limits l)"
proof -
  have vs: "map ((!) xs) [0..<34] = xs" if "length xs = 34" for xs :: "u32 list"
    using map_nth [of xs] that by simp
  show ?thesis unfolding read_limits_def
    by (rule accepts_bind [OF u32_codec.accepts_times_put], (rule accepts_bind accepts_return accepts_rules)+)
      (use vs [unfolded upt_34, simplified] in \<open>simp add: write_limits_def del: list.map concat.simps\<close>)
qed

lemma sint_small: "-1000 \<le> v \<Longrightarrow> v \<le> 1000 \<Longrightarrow> sint (word_of_int v :: u32) = v"
  by (simp add: sint_sbintrunc' signed_take_bit_int_eq_self)

lemma reads_weights_loop:
  "\<forall>f\<in>set fs. -1000 \<le> t f \<and> t f \<le> 1000 \<Longrightarrow>
     reads (read_weights_loop fs w) (concat (map (\<lambda>f. put_u32 (word_of_int (t f))) fs))
       (\<lambda>f. if f \<in> set fs then t f else w f)"
proof (induction fs arbitrary: w)
  case Nil
  then show ?case by (simp add: reads_return)
next
  case (Cons g fs)
  have "(\<lambda>f. if f \<in> set (g # fs) then t f else w f) = (\<lambda>f. if f \<in> set fs then t f else (w(g := t g)) f)"
    by auto
  with Cons show ?case
    by (simp add: Let_def) (rule reads_bind [OF reads_u32], simp add: sint_small reads_require)
qed

lemma accepts_weights_loop:
  "distinct fs \<Longrightarrow> accepts (read_weights_loop fs w)
     (\<lambda>bs t. (\<forall>f\<in>set fs. -1000 \<le> t f \<and> t f \<le> 1000) \<and> (\<forall>f. f \<notin> set fs \<longrightarrow> t f = w f) \<and>
       bs = concat (map (\<lambda>f. put_u32 (word_of_int (t f))) fs))"
proof (induction fs arbitrary: w)
  case Nil
  then show ?case by (simp add: accepts_return)
next
  case (Cons g fs)
  then have IH: "accepts (read_weights_loop fs (w(g := v))) (\<lambda>bs t.
      (\<forall>f\<in>set fs. -1000 \<le> t f \<and> t f \<le> 1000) \<and> (\<forall>f. f \<notin> set fs \<longrightarrow> t f = (w(g := v)) f) \<and>
      bs = concat (map (\<lambda>f. put_u32 (word_of_int (t f))) fs))" for v
    by (simp del: fun_upd_apply)
  show ?case unfolding read_weights_loop.simps Let_def
    by (rule accepts_bind [OF accepts_u32], rule accepts_require, rule accepts_weaken [OF IH])
      (use Cons.prems in \<open>auto simp: not_less\<close>)
qed

lemma reads_weights [reads_rules]: "ok_weights w \<Longrightarrow> reads read_weights (write_weights w) w"
  using reads_weights_loop [of all_factors w default_weights]
  by (simp add: ok_weights_def read_weights_def write_weights_def list_all_iff all_factors_complete)

lemma accepts_weights [accepts_rules]: "accepts read_weights (\<lambda>bs w. ok_weights w \<and> bs = write_weights w)"
  unfolding read_weights_def
  by (rule accepts_weaken [OF accepts_weights_loop])
    (auto simp: all_factors_list ok_weights_def list_all_iff write_weights_def)

text \<open>Topology, capabilities, accelerators.\<close>

lemma reads_topology_domain:
  "length (td_name d) \<le> unat m \<Longrightarrow> reads (read_topology_domain m) (write_topology_domain d) d"
  unfolding read_topology_domain_def write_topology_domain_def
  by (cases d; simp) (rule reads_last reads_bind reads_rules | assumption)+

lemma accepts_topology_domain:
  "accepts (read_topology_domain m) (\<lambda>bs d. length (td_name d) \<le> unat m \<and> bs = write_topology_domain d)"
  unfolding read_topology_domain_def
  by (rule accepts_bind accepts_return accepts_rules)+ (simp add: write_topology_domain_def)

lemma reads_topology [reads_rules]: "ok_topology m t \<Longrightarrow> reads (read_topology m) (write_topology t) t"
  unfolding read_topology_def write_topology_def ok_topology_def
  by (cases t; simp; elim conjE) (rule reads_last reads_bind reads_rules reads_topology_domain | assumption)+

lemma accepts_topology [accepts_rules]:
  "accepts (read_topology m) (\<lambda>bs t. ok_topology m t \<and> bs = write_topology t)"
  unfolding read_topology_def
  by (rule accepts_bind accepts_return accepts_rules accepts_topology_domain)+
    (simp add: write_topology_def ok_topology_def)

lemma cap_add_append:
  assumes "cap_set_wf (cs @ [c])" and "length cs < unat (max_capabilities_per_resource lim)"
  shows "cap_add lim c cs = Inr (cs @ [c])"
proof -
  from assms(1) have below: "\<forall>e\<in>set cs. cap_id e < cap_id c" and wf: "cap_entry_wf c"
    by (auto simp: cap_set_wf_def sorted_wrt_append)
  from below have "cap_lower_bound cs (cap_id c) = length cs"
    by (simp add: cap_lower_bound_def takeWhile_eq_all_conv [THEN iffD2])
  with assms(2) wf show ?thesis
    by (simp add: cap_add_def cap_entry_wf_def)
qed

lemma cap_entry_name: "cap_entry_wf c \<Longrightarrow> length (cap_name c) \<le> unat (64 :: u32)"
  by (auto simp: cap_entry_wf_def is_canonical_capability_name_def split: if_splits)

lemma reads_capabilities_loop:
  "cap_set_wf (acc @ cs) \<Longrightarrow> length (acc @ cs) \<le> unat (max_capabilities_per_resource lim) \<Longrightarrow>
     reads (read_capabilities_loop lim (length cs) acc)
       (concat (map (\<lambda>c. write_id (cap_id c) @ write_string (cap_name c)) cs)) (acc @ cs)"
proof (induction cs arbitrary: acc)
  case Nil
  then show ?case by (simp add: reads_return)
next
  case (Cons c cs)
  from Cons.prems have wf: "cap_set_wf (acc @ [c])" and c: "cap_entry_wf c"
    and room: "length acc < unat (max_capabilities_per_resource lim)"
    by (auto simp: cap_set_wf_def sorted_wrt_append)
  from c have match: "capability_id_from_name (cap_name c) = cap_id c" by (simp add: cap_entry_wf_def)
  have eta: "\<lparr>cap_id = cap_id c, cap_name = cap_name c\<rparr> = c" by (cases c) simp
  have "reads (read_capabilities_loop lim (Suc (length cs)) acc)
      (write_id (cap_id c) @ write_string (cap_name c) @
        concat (map (\<lambda>c. write_id (cap_id c) @ write_string (cap_name c)) cs)) (acc @ c # cs)"
    unfolding read_capabilities_loop.simps
    by (rule reads_bind [OF reads_id], rule reads_bind [OF reads_string [OF cap_entry_name [OF c]]],
        rule reads_require [OF match])
      (use Cons.IH [of "acc @ [c]"] Cons.prems cap_add_append [OF wf room] in \<open>simp add: eta\<close>)
  then show ?case by simp
qed

lemma reads_capabilities [reads_rules]:
  assumes "ok_capabilities lim cs"
  shows "reads (read_capabilities lim) (write_capabilities cs) cs"
proof -
  from assms have wf: "cap_set_wf cs" and len: "length cs \<le> unat (max_capabilities_per_resource lim)"
    by (simp_all add: ok_capabilities_def)
  from reads_capabilities_loop [of "[]" cs lim] wf len show ?thesis
    unfolding read_capabilities_def write_capabilities_def put_counted_def
    by (intro reads_bind [OF reads_count [OF len]]) (simp add: of_nat_u32 [OF len])
qed

lemma accepts_capabilities_loop:
  "cap_set_wf acc \<Longrightarrow> length acc \<le> unat (max_capabilities_per_resource lim) \<Longrightarrow>
     accepts (read_capabilities_loop lim n acc) (\<lambda>bs cs. ok_capabilities lim cs)"
proof (induction n arbitrary: acc)
  case 0
  then show ?case by (simp add: accepts_return ok_capabilities_def)
next
  case (Suc n)
  show ?case unfolding read_capabilities_loop.simps
  proof (rule accepts_bind [OF accepts_id], rule accepts_bind [OF accepts_string], rule accepts_require)
    fix i name
    show "accepts (case cap_add lim \<lparr>cap_id = i, cap_name = name\<rparr> acc of Inl status \<Rightarrow> rstop status
        | Inr extended \<Rightarrow> read_capabilities_loop lim n extended) (\<lambda>bs cs. ok_capabilities lim cs)"
      using cap_add_ok [OF Suc.prems(1)] Suc.IH by (auto simp: accepts_stop split: sum.split)
  qed
qed

lemma accepts_capabilities [accepts_rules]:
  "accepts (read_capabilities lim) (\<lambda>bs cs. ok_capabilities lim cs)"
  unfolding read_capabilities_def
  by (rule accepts_bind [OF accepts_count]) (rule accepts_capabilities_loop, simp_all add: cap_set_wf_def)

interpretation accelerator_codec: canonical_codec write_accelerator "read_accelerator lim"
  "\<lambda>a. length (acc_model a) \<le> unat (max_string_length lim)" for lim
proof
  show "reads (read_accelerator lim) (write_accelerator a) a"
    if "length (acc_model a) \<le> unat (max_string_length lim)" for a
    using that unfolding read_accelerator_def write_accelerator_def
    by (cases a; simp) (rule reads_last reads_bind reads_rules | assumption)+
  show "accepts (read_accelerator lim)
      (\<lambda>bs a. length (acc_model a) \<le> unat (max_string_length lim) \<and> bs = write_accelerator a)"
    unfolding read_accelerator_def
    by (rule accepts_bind accepts_return accepts_rules)+ (simp add: write_accelerator_def)
  then show "accepts (read_accelerator lim)
      (\<lambda>bs a. length (acc_model a) \<le> unat (max_string_length lim))"
    by (rule accepts_weaken) simp
qed

lemma reads_accelerators [reads_rules]:
  "ok_accelerators lim as \<Longrightarrow> reads (read_accelerators lim) (write_accelerators as) as"
  unfolding read_accelerators_def write_accelerators_def ok_accelerators_def
  by (intro accelerator_codec.reads_counted) simp_all

lemma accepts_accelerators [accepts_rules]:
  "accepts (read_accelerators lim) (\<lambda>bs as. ok_accelerators lim as \<and> bs = write_accelerators as)"
  unfolding read_accelerators_def write_accelerators_def ok_accelerators_def
  by (rule accepts_weaken [OF accelerator_codec.accepts_counted_put]) simp

text \<open>Canonical lists.\<close>

lemma reads_ascending:
  "(\<And>x. x \<in> set xs \<Longrightarrow> reads m (put x) x) \<Longrightarrow> sorted_wrt (<) xs \<Longrightarrow>
     (case prev of None \<Rightarrow> True | Some p \<Rightarrow> \<forall>x\<in>set xs. p < x) \<Longrightarrow>
     reads (read_ascending m msg (length xs) prev) (concat (map put xs)) xs"
proof (induction xs arbitrary: prev)
  case Nil
  then show ?case by (simp add: reads_return)
next
  case (Cons x xs)
  have "reads (read_ascending m msg (Suc (length xs)) prev) (put x @ concat (map put xs)) (x # xs)"
    unfolding read_ascending.simps
    by (rule reads_bind, rule Cons.prems(1), simp, rule reads_require)
      (use Cons in \<open>auto split: option.splits intro!: reads_last\<close>)
  then show ?case by simp
qed

lemma accepts_ascending:
  assumes "accepts m (\<lambda>bs x. ok x \<and> bs = put x)"
  shows "accepts (read_ascending m msg n prev) (\<lambda>bs xs. length xs = n \<and> sorted_wrt (<) xs \<and>
    (case prev of None \<Rightarrow> True | Some p \<Rightarrow> \<forall>x\<in>set xs. p < x) \<and> list_all ok xs \<and>
    bs = concat (map put xs))"
proof (induction n arbitrary: prev)
  case 0
  then show ?case by (auto simp: accepts_return split: option.split)
next
  case (Suc n)
  show ?case unfolding read_ascending.simps
    by (rule accepts_bind [OF assms], rule accepts_require, rule accepts_bind [OF Suc], rule accepts_return)
      (auto split: option.splits)
qed

lemma reads_id_list [reads_rules]:
  "ok_ascending m ids \<Longrightarrow> reads (read_id_list m) (write_id_list ids) ids"
  unfolding read_id_list_def write_id_list_def put_counted_def ok_ascending_def
  by (elim conjE, rule reads_bind, erule reads_count)
    (simp add: of_nat_u32 reads_ascending reads_id)

lemma accepts_id_list [accepts_rules]:
  "accepts (read_id_list m) (\<lambda>bs ids. ok_ascending m ids \<and> bs = write_id_list ids)"
  unfolding read_id_list_def
  by (rule accepts_bind [OF accepts_count], rule accepts_weaken,
      rule accepts_ascending [where ok = "\<lambda>_. True" and put = write_id])
    (use accepts_id in \<open>auto simp: ok_ascending_def write_id_list_def put_counted_def word_nat\<close>)

lemma reads_string_list [reads_rules]:
  "ok_strings m l ts \<Longrightarrow> reads (read_string_list m l) (write_string_list ts) ts"
  unfolding read_string_list_def write_string_list_def put_counted_def ok_strings_def ok_ascending_def
  by (elim conjE, rule reads_bind, erule reads_count)
    (simp add: of_nat_u32 reads_ascending reads_string list_all_iff)

lemma accepts_string_list [accepts_rules]:
  "accepts (read_string_list m l) (\<lambda>bs ts. ok_strings m l ts \<and> bs = write_string_list ts)"
  unfolding read_string_list_def
  by (rule accepts_bind [OF accepts_count], rule accepts_weaken,
      rule accepts_ascending [OF accepts_string])
    (auto simp: ok_strings_def ok_ascending_def write_string_list_def put_counted_def word_nat)

lemma reads_locality [reads_rules]:
  "ok_locality lim l \<Longrightarrow> reads (read_locality lim) (write_locality l) l"
  unfolding read_locality_def write_locality_def ok_locality_def
  by (cases l; simp; elim conjE) (rule reads_last reads_bind reads_rules | assumption)+

lemma accepts_locality [accepts_rules]:
  "accepts (read_locality lim) (\<lambda>bs l. ok_locality lim l \<and> bs = write_locality l)"
  unfolding read_locality_def
  by (rule accepts_bind accepts_return accepts_rules)+ (simp add: write_locality_def ok_locality_def)

text \<open>Optional values.\<close>

lemma reads_present:
  assumes "\<And>v. x = Some v \<Longrightarrow> reads m (put v) v"
  shows "reads (read_present m) (write_optional put x) x"
proof (cases x)
  case None
  then show ?thesis unfolding read_present_def write_optional_def
    by (intro reads_bind [OF reads_boolean]) (simp add: reads_return)
next
  case (Some v)
  then show ?thesis unfolding read_present_def write_optional_def
    by (intro reads_bind [OF reads_boolean]) (simp add: reads_last assms)
qed

lemma accepts_present:
  assumes "accepts m (\<lambda>bs v. ok v)"
  shows "accepts (read_present m) (\<lambda>bs x. ok_optional ok x)"
  unfolding read_present_def ok_optional_def
  by (rule accepts_bind [OF accepts_boolean])
    (auto intro!: accepts_return accepts_bind [OF assms])

lemma reads_optional [reads_rules]: "reads read_optional (write_optional write_id x) x"
  unfolding read_optional_def by (rule reads_present) (rule reads_id)

lemma accepts_optional [accepts_rules]:
  "accepts read_optional (\<lambda>bs x. bs = write_optional write_id x)"
  unfolding read_optional_def read_present_def
  by (rule accepts_bind [OF accepts_boolean])
    (auto simp: write_optional_def intro!: accepts_return accepts_bind [OF accepts_id])

end
