(* ===== verification/RecordCodec.thy ===== *)
theory RecordCodec
  imports RecordParts
begin

text \<open>
  The second half of \<open>record_codec.cpp\<close>: the pairs of \<open>write_\<close> and \<open>read_\<close> functions of resources,
  requirements, requests, placements, reservations, authority envelopes and completion claims, in
  the order of the source, with the interpretation of the codec contract for each. The predicate
  \<open>ok_\<close> of a record collects every bound its reader enforces. A record that holds a capability set
  is not canonical on the wire, because the reader sorts capabilities it is given out of order; all
  other records are read from their own encoding only.
\<close>

section \<open>Resources\<close>

definition write_model :: "model_descriptor \<Rightarrow> bytes" where
  "write_model m =
     write_id (mdl_id m) @
     write_string (mdl_version m) @
     put_u32 (mdl_context_window m) @
     put_boolean (mdl_tool_support m) @
     put_boolean (mdl_resident m) @
     write_capabilities (mdl_modalities m)"

definition read_model :: "limits \<Rightarrow> model_descriptor reader" where
  "read_model lim =
     rbind read_id (\<lambda>i.
     rbind (read_string (max_digest_length lim)) (\<lambda>version.
     rbind get_u32 (\<lambda>context_window.
     rbind get_boolean (\<lambda>tool_support.
     rbind get_boolean (\<lambda>resident.
     rbind (read_capabilities lim) (\<lambda>modalities.
     rreturn \<lparr>mdl_id = i, mdl_version = version, mdl_context_window = context_window,
       mdl_tool_support = tool_support, mdl_resident = resident,
       mdl_modalities = modalities\<rparr>))))))"

definition ok_model :: "limits \<Rightarrow> model_descriptor \<Rightarrow> bool" where
  "ok_model lim m \<longleftrightarrow>
     length (mdl_version m) \<le> unat (max_digest_length lim) \<and>
     ok_capabilities lim (mdl_modalities m)"

definition write_simulator :: "simulator_descriptor \<Rightarrow> bytes" where
  "write_simulator s =
     write_id (sim_id s) @
     write_string (sim_version s) @
     write_string_list (sim_scenarios s) @
     put_u32 (sim_max_sessions s)"

definition read_simulator :: "limits \<Rightarrow> simulator_descriptor reader" where
  "read_simulator lim =
     rbind read_id (\<lambda>i.
     rbind (read_string (max_digest_length lim)) (\<lambda>version.
     rbind (read_string_list (max_simulator_scenarios lim) (max_string_length lim)) (\<lambda>scenarios.
     rbind get_u32 (\<lambda>max_sessions.
     rreturn \<lparr>sim_id = i, sim_version = version, sim_scenarios = scenarios,
       sim_max_sessions = max_sessions\<rparr>))))"

definition ok_simulator :: "limits \<Rightarrow> simulator_descriptor \<Rightarrow> bool" where
  "ok_simulator lim s \<longleftrightarrow>
     length (sim_version s) \<le> unat (max_digest_length lim) \<and>
     ok_strings (max_simulator_scenarios lim) (max_string_length lim) (sim_scenarios s)"

definition write_dataset :: "dataset_descriptor \<Rightarrow> bytes" where
  "write_dataset d =
     write_id (ds_id d) @
     write_id (ds_version d) @
     write_string (ds_digest d) @
     put_u64 (ds_size_bytes d)"

definition read_dataset :: "limits \<Rightarrow> dataset_descriptor reader" where
  "read_dataset lim =
     rbind read_id (\<lambda>i.
     rbind read_id (\<lambda>version.
     rbind (read_string (max_digest_length lim)) (\<lambda>digest.
     rbind get_u64 (\<lambda>size_bytes.
     rreturn \<lparr>ds_id = i, ds_version = version, ds_digest = digest,
       ds_size_bytes = size_bytes\<rparr>))))"

definition ok_dataset :: "limits \<Rightarrow> dataset_descriptor \<Rightarrow> bool" where
  "ok_dataset lim d \<longleftrightarrow>
     length (ds_digest d) \<le> unat (max_digest_length lim)"

definition write_environment :: "environment_descriptor \<Rightarrow> bytes" where
  "write_environment e =
     write_id (env_id e) @
     write_string (env_image_digest e) @
     write_id (env_virtual_environment e) @
     write_id (env_physical_environment e) @
     write_string (env_eligibility_token e)"

definition read_environment :: "limits \<Rightarrow> environment_descriptor reader" where
  "read_environment lim =
     rbind read_id (\<lambda>i.
     rbind (read_string (max_digest_length lim)) (\<lambda>image_digest.
     rbind read_id (\<lambda>virtual_environment.
     rbind read_id (\<lambda>physical_environment.
     rbind (read_string (max_string_length lim)) (\<lambda>eligibility_token.
     rreturn \<lparr>env_id = i, env_image_digest = image_digest,
       env_virtual_environment = virtual_environment,
       env_physical_environment = physical_environment,
       env_eligibility_token = eligibility_token\<rparr>)))))"

definition ok_environment :: "limits \<Rightarrow> environment_descriptor \<Rightarrow> bool" where
  "ok_environment lim e \<longleftrightarrow>
     length (env_image_digest e) \<le> unat (max_digest_length lim) \<and>
     length (env_eligibility_token e) \<le> unat (max_string_length lim)"

definition write_resource :: "resource_record \<Rightarrow> bytes" where
  "write_resource r =
     write_id (res_id r) @
     write_enum (enum_code resource_classes (res_resource_class r)) @
     write_string (res_name r) @
     write_id (res_worker r) @
     write_id (res_boot r) @
     write_enum (enum_code provenances (res_provenance r)) @
     write_enum (enum_code sharing_modes (res_sharing r)) @
     write_capabilities (res_capabilities r) @
     put_u32 (rcap_slots (res_capacity r)) @
     put_u64 (rcap_memory_bytes (res_capacity r)) @
     put_u32 (rcap_max_sessions (res_capacity r)) @
     put_u32 (res_advertised_occupancy r) @
     write_enum (enum_code health_states (res_health r)) @
     write_string (res_health_detail r) @
     write_enum (enum_code readiness_states (res_readiness r)) @
     write_topology (res_topology r) @
     write_locality (res_locality r) @
     write_accelerators (res_accelerators r) @
     write_optional write_model (res_model r) @
     write_optional write_simulator (res_simulator r) @
     write_optional write_dataset (res_dataset r) @
     write_optional write_environment (res_environment r) @
     write_string (res_tenant r) @
     write_string_list (res_labels r) @
     write_enum (enum_code resource_lifecycles (res_lifecycle r)) @
     write_id (res_generation r) @
     write_id (res_health_generation r) @
     write_id (res_capacity_generation r) @
     put_u64 (res_state_sequence r) @
     write_id (res_validated_epoch r) @
     put_boolean (res_dynamic_authoritative r) @
     write_string (res_authority_detail r) @
     put_u32 (res_reserved_slots r)"

definition read_resource :: "limits \<Rightarrow> resource_record reader" where
  "read_resource lim =
     rbind read_id (\<lambda>i.
     rbind (read_enum resource_classes (enum_code resource_classes RC_Worker)) (\<lambda>cls.
     rbind (read_string (max_string_length lim)) (\<lambda>name.
     rbind read_id (\<lambda>worker.
     rbind read_id (\<lambda>boot.
     rbind (read_enum provenances (enum_code provenances PV_Real)) (\<lambda>provenance.
     rbind (read_enum sharing_modes (enum_code sharing_modes SM_Exclusive)) (\<lambda>sharing.
     rbind (read_capabilities lim) (\<lambda>capabilities.
     rbind get_u32 (\<lambda>slots.
     rbind get_u64 (\<lambda>memory_bytes.
     rbind get_u32 (\<lambda>max_sessions.
     rbind get_u32 (\<lambda>advertised_occupancy.
     rbind (read_enum health_states (enum_code health_states HS_Unhealthy)) (\<lambda>health.
     rbind (read_string (max_string_length lim)) (\<lambda>health_detail.
     rbind (read_enum readiness_states (enum_code readiness_states RD_Unsupported)) (\<lambda>readiness.
     rbind (read_topology (max_string_length lim)) (\<lambda>topology.
     rbind (read_locality lim) (\<lambda>locality.
     rbind (read_accelerators lim) (\<lambda>accelerators.
     rbind (read_present (read_model lim)) (\<lambda>model.
     rbind (read_present (read_simulator lim)) (\<lambda>simulator.
     rbind (read_present (read_dataset lim)) (\<lambda>dataset.
     rbind (read_present (read_environment lim)) (\<lambda>environment.
     rbind (read_string (max_string_length lim)) (\<lambda>tenant.
     rbind (read_string_list (max_capabilities_per_resource lim) (max_string_length lim)) (\<lambda>labels.
     rbind (read_enum resource_lifecycles (enum_code resource_lifecycles RL_Lost)) (\<lambda>lifecycle.
     rbind read_id (\<lambda>generation.
     rbind read_id (\<lambda>health_generation.
     rbind read_id (\<lambda>capacity_generation.
     rbind get_u64 (\<lambda>state_sequence.
     rbind read_id (\<lambda>validated_epoch.
     rbind get_boolean (\<lambda>dynamic_authoritative.
     rbind (read_string (max_string_length lim)) (\<lambda>authority_detail.
     rbind get_u32 (\<lambda>reserved_slots.
     rreturn \<lparr>res_id = i, res_resource_class = cls, res_name = name, res_worker = worker,
       res_boot = boot, res_provenance = provenance, res_sharing = sharing,
       res_capabilities = capabilities,
       res_capacity = \<lparr>rcap_slots = slots, rcap_memory_bytes = memory_bytes,
         rcap_max_sessions = max_sessions\<rparr>,
       res_advertised_occupancy = advertised_occupancy, res_health = health,
       res_health_detail = health_detail, res_readiness = readiness,
       res_topology = topology, res_locality = locality, res_accelerators = accelerators,
       res_model = model, res_simulator = simulator, res_dataset = dataset,
       res_environment = environment, res_tenant = tenant, res_labels = labels,
       res_lifecycle = lifecycle, res_generation = generation,
       res_health_generation = health_generation,
       res_capacity_generation = capacity_generation, res_state_sequence = state_sequence,
       res_validated_epoch = validated_epoch,
       res_dynamic_authoritative = dynamic_authoritative,
       res_authority_detail = authority_detail, res_reserved_slots = reserved_slots\<rparr>)))))))))))))))))))))))))))))))))"

definition ok_resource :: "limits \<Rightarrow> resource_record \<Rightarrow> bool" where
  "ok_resource lim r \<longleftrightarrow>
     length (res_name r) \<le> unat (max_string_length lim) \<and>
     ok_capabilities lim (res_capabilities r) \<and>
     length (res_health_detail r) \<le> unat (max_string_length lim) \<and>
     ok_topology (max_string_length lim) (res_topology r) \<and>
     ok_locality lim (res_locality r) \<and>
     ok_accelerators lim (res_accelerators r) \<and>
     ok_optional (ok_model lim) (res_model r) \<and>
     ok_optional (ok_simulator lim) (res_simulator r) \<and>
     ok_optional (ok_dataset lim) (res_dataset r) \<and>
     ok_optional (ok_environment lim) (res_environment r) \<and>
     length (res_tenant r) \<le> unat (max_string_length lim) \<and>
     ok_strings (max_capabilities_per_resource lim) (max_string_length lim) (res_labels r) \<and>
     length (res_authority_detail r) \<le> unat (max_string_length lim)"

section \<open>Requests\<close>

definition write_requirement :: "resource_requirement \<Rightarrow> bytes" where
  "write_requirement r =
     write_string (rq_name r) @
     write_enum (enum_code resource_classes (rq_resource_class r)) @
     write_capabilities (rq_required_capabilities r) @
     put_u32 (rq_min_slots r) @
     put_u64 (rq_min_memory_bytes r) @
     put_boolean (rq_require_exclusive r) @
     put_boolean (rq_require_current_evidence r) @
     write_enum (enum_code health_states (rq_minimum_health r)) @
     put_u32 (rq_max_occupancy_percent r) @
     write_optional write_id (rq_accelerator r) @
     write_optional write_id (rq_model r) @
     write_string (rq_model_version r) @
     put_boolean (rq_require_model_resident r) @
     write_optional write_id (rq_simulator r) @
     write_string (rq_simulator_version r) @
     write_string (rq_simulator_scenario r) @
     put_boolean (rq_require_simulator_ready r) @
     write_optional write_id (rq_dataset r) @
     write_optional write_id (rq_dataset_version r) @
     write_optional write_id (rq_environment r) @
     write_string (rq_environment_digest r) @
     write_optional write_id (rq_physical_environment r) @
     write_optional write_id (rq_virtual_environment r) @
     write_optional write_id (rq_required_domain r) @
     write_enum (enum_code topology_scopes (rq_required_domain_scope r)) @
     write_id_list (rq_allowlist r) @
     write_id_list (rq_denylist r) @
     put_u32 (rq_affinity_group r)"

definition read_requirement :: "limits \<Rightarrow> resource_requirement reader" where
  "read_requirement lim =
     rbind (read_string (max_string_length lim)) (\<lambda>name.
     rbind (read_enum resource_classes (enum_code resource_classes RC_Worker)) (\<lambda>cls.
     rbind (read_capabilities lim) (\<lambda>required_capabilities.
     rbind get_u32 (\<lambda>min_slots.
     rbind get_u64 (\<lambda>min_memory_bytes.
     rbind get_boolean (\<lambda>require_exclusive.
     rbind get_boolean (\<lambda>require_current_evidence.
     rbind (read_enum health_states (enum_code health_states HS_Unhealthy)) (\<lambda>minimum_health.
     rbind get_u32 (\<lambda>max_occupancy_percent.
     rbind read_optional (\<lambda>accelerator.
     rbind read_optional (\<lambda>model.
     rbind (read_string (max_digest_length lim)) (\<lambda>model_version.
     rbind get_boolean (\<lambda>require_model_resident.
     rbind read_optional (\<lambda>simulator.
     rbind (read_string (max_digest_length lim)) (\<lambda>simulator_version.
     rbind (read_string (max_string_length lim)) (\<lambda>simulator_scenario.
     rbind get_boolean (\<lambda>require_simulator_ready.
     rbind read_optional (\<lambda>dataset.
     rbind read_optional (\<lambda>dataset_version.
     rbind read_optional (\<lambda>environment.
     rbind (read_string (max_digest_length lim)) (\<lambda>environment_digest.
     rbind read_optional (\<lambda>physical_environment.
     rbind read_optional (\<lambda>virtual_environment.
     rbind read_optional (\<lambda>required_domain.
     rbind (read_enum topology_scopes (enum_code topology_scopes TS_Cluster)) (\<lambda>required_domain_scope.
     rbind (read_id_list (max_allowlist_entries lim)) (\<lambda>allowlist.
     rbind (read_id_list (max_denylist_entries lim)) (\<lambda>denylist.
     rbind get_u32 (\<lambda>affinity_group.
     rreturn \<lparr>rq_name = name, rq_resource_class = cls,
       rq_required_capabilities = required_capabilities, rq_min_slots = min_slots,
       rq_min_memory_bytes = min_memory_bytes, rq_require_exclusive = require_exclusive,
       rq_require_current_evidence = require_current_evidence,
       rq_minimum_health = minimum_health,
       rq_max_occupancy_percent = max_occupancy_percent, rq_accelerator = accelerator,
       rq_model = model, rq_model_version = model_version,
       rq_require_model_resident = require_model_resident, rq_simulator = simulator,
       rq_simulator_version = simulator_version,
       rq_simulator_scenario = simulator_scenario,
       rq_require_simulator_ready = require_simulator_ready, rq_dataset = dataset,
       rq_dataset_version = dataset_version, rq_environment = environment,
       rq_environment_digest = environment_digest,
       rq_physical_environment = physical_environment,
       rq_virtual_environment = virtual_environment, rq_required_domain = required_domain,
       rq_required_domain_scope = required_domain_scope, rq_allowlist = allowlist,
       rq_denylist = denylist, rq_affinity_group = affinity_group\<rparr>))))))))))))))))))))))))))))"

definition ok_requirement :: "limits \<Rightarrow> resource_requirement \<Rightarrow> bool" where
  "ok_requirement lim r \<longleftrightarrow>
     length (rq_name r) \<le> unat (max_string_length lim) \<and>
     ok_capabilities lim (rq_required_capabilities r) \<and>
     length (rq_model_version r) \<le> unat (max_digest_length lim) \<and>
     length (rq_simulator_version r) \<le> unat (max_digest_length lim) \<and>
     length (rq_simulator_scenario r) \<le> unat (max_string_length lim) \<and>
     length (rq_environment_digest r) \<le> unat (max_digest_length lim) \<and>
     ok_ascending (max_allowlist_entries lim) (rq_allowlist r) \<and>
     ok_ascending (max_denylist_entries lim) (rq_denylist r)"

definition write_affinity :: "affinity_constraint \<Rightarrow> bytes" where
  "write_affinity c =
     put_u32 (aff_group_a c) @
     put_u32 (aff_group_b c) @
     write_enum (enum_code topology_scopes (aff_scope c))"

definition read_affinity :: "affinity_constraint reader" where
  "read_affinity =
     rbind get_u32 (\<lambda>group_a.
     rbind get_u32 (\<lambda>group_b.
     rbind (read_enum topology_scopes (enum_code topology_scopes TS_Cluster)) (\<lambda>scope.
     rreturn \<lparr>aff_group_a = group_a, aff_group_b = group_b, aff_scope = scope\<rparr>)))"

text \<open>The priority is written with an offset that makes it non-negative.\<close>

definition write_priority :: "int \<Rightarrow> bytes" where
  "write_priority priority = put_u32 (word_of_int (priority + 2000))"

definition read_priority :: "int reader" where
  "read_priority = rbind get_u32 (\<lambda>priority_raw.
     rrequire (\<not> (priority_raw < 1000 \<or> 3000 < priority_raw))
       (Status E_CorruptPersistence ''persisted priority is out of range'')
       (rreturn (int (unat priority_raw) - 2000)))"

definition ok_priority :: "int \<Rightarrow> bool" where
  "ok_priority p \<longleftrightarrow> -1000 \<le> p \<and> p \<le> 1000"

definition write_request :: "schedule_request \<Rightarrow> bytes" where
  "write_request r =
     write_id (sr_id r) @
     write_id (sr_experiment r) @
     write_id (sr_experiment_generation r) @
     write_id (sr_trial r) @
     write_string (sr_workload r) @
     write_string (sr_tenant r) @
     write_priority (sr_priority r) @
     put_counted write_requirement (sr_requirements r) @
     put_counted write_affinity (sr_affinity r) @
     put_counted write_affinity (sr_anti_affinity r) @
     put_boolean (sr_experiment_anti_affinity r) @
     put_boolean (sr_exclusive r) @
     put_boolean (sr_reproducibility_required r) @
     put_boolean (sr_allow_preemption r) @
     put_u32 (sr_max_reassignments r) @
     write_weights (sr_weights r) @
     write_string (sr_caller_authority r) @
     write_string (sr_request_provenance r)"

definition read_request :: "limits \<Rightarrow> schedule_request reader" where
  "read_request lim =
     rbind read_id (\<lambda>i.
     rbind read_id (\<lambda>experiment.
     rbind read_id (\<lambda>experiment_generation.
     rbind read_id (\<lambda>trial.
     rbind (read_string (max_string_length lim)) (\<lambda>workload.
     rbind (read_string (max_string_length lim)) (\<lambda>tenant.
     rbind read_priority (\<lambda>priority.
     rbind (read_counted (max_requirements_per_request lim) (read_requirement lim)) (\<lambda>requirements.
     rbind (read_counted (max_anti_affinity_pairs lim) read_affinity) (\<lambda>affinity.
     rbind (read_counted (max_anti_affinity_pairs lim) read_affinity) (\<lambda>anti_affinity.
     rbind get_boolean (\<lambda>experiment_anti_affinity.
     rbind get_boolean (\<lambda>exclusive.
     rbind get_boolean (\<lambda>reproducibility_required.
     rbind get_boolean (\<lambda>allow_preemption.
     rbind get_u32 (\<lambda>max_reassignments.
     rrequire (\<not> 16 < max_reassignments)
       (Status E_CorruptPersistence ''persisted reassignment budget is implausible'') (
     rbind read_weights (\<lambda>weights.
     rbind (read_string (max_string_length lim)) (\<lambda>caller_authority.
     rbind (read_string (max_string_length lim)) (\<lambda>request_provenance.
     rreturn \<lparr>sr_id = i, sr_experiment = experiment,
       sr_experiment_generation = experiment_generation, sr_trial = trial,
       sr_workload = workload, sr_tenant = tenant, sr_priority = priority,
       sr_requirements = requirements, sr_affinity = affinity,
       sr_anti_affinity = anti_affinity,
       sr_experiment_anti_affinity = experiment_anti_affinity, sr_exclusive = exclusive,
       sr_reproducibility_required = reproducibility_required,
       sr_allow_preemption = allow_preemption, sr_max_reassignments = max_reassignments,
       sr_weights = weights, sr_caller_authority = caller_authority,
       sr_request_provenance = request_provenance\<rparr>)))))))))))))))))))"

definition ok_request :: "limits \<Rightarrow> schedule_request \<Rightarrow> bool" where
  "ok_request lim r \<longleftrightarrow>
     length (sr_workload r) \<le> unat (max_string_length lim) \<and>
     length (sr_tenant r) \<le> unat (max_string_length lim) \<and>
     ok_priority (sr_priority r) \<and>
     length (sr_requirements r) \<le> unat (max_requirements_per_request lim) \<and>
     list_all (ok_requirement lim) (sr_requirements r) \<and>
     length (sr_affinity r) \<le> unat (max_anti_affinity_pairs lim) \<and>
     length (sr_anti_affinity r) \<le> unat (max_anti_affinity_pairs lim) \<and>
     sr_max_reassignments r \<le> 16 \<and>
     ok_weights (sr_weights r) \<and>
     length (sr_caller_authority r) \<le> unat (max_string_length lim) \<and>
     length (sr_request_provenance r) \<le> unat (max_string_length lim)"

definition write_stored_request :: "stored_request \<Rightarrow> bytes" where
  "write_stored_request s =
     write_request (st_request s) @
     write_enum (enum_code request_states (st_state s)) @
     put_u64 (st_submitted_sequence s) @
     write_id (st_current_placement s) @
     put_u32 (st_placement_count s) @
     write_string (st_detail s)"

definition read_stored_request :: "limits \<Rightarrow> stored_request reader" where
  "read_stored_request lim =
     rbind (read_request lim) (\<lambda>request.
     rbind (read_enum request_states (enum_code request_states RQ_NoPlacement)) (\<lambda>state.
     rbind get_u64 (\<lambda>submitted_sequence.
     rbind read_id (\<lambda>current_placement.
     rbind get_u32 (\<lambda>placement_count.
     rbind (read_string (max_string_length lim)) (\<lambda>detail.
     rreturn \<lparr>st_request = request, st_state = state, st_submitted_sequence = submitted_sequence,
       st_current_placement = current_placement, st_placement_count = placement_count,
       st_detail = detail\<rparr>))))))"

definition ok_stored_request :: "limits \<Rightarrow> stored_request \<Rightarrow> bool" where
  "ok_stored_request lim s \<longleftrightarrow>
     ok_request lim (st_request s) \<and>
     length (st_detail s) \<le> unat (max_string_length lim)"

section \<open>Placements and reservations\<close>

definition write_selected :: "selected_resource \<Rightarrow> bytes" where
  "write_selected s =
     write_id (sel_resource s) @
     write_enum (enum_code resource_classes (sel_resource_class s)) @
     write_id (sel_generation s) @
     put_u32 (sel_slots s) @
     put_boolean (sel_exclusive s) @
     write_string (sel_requirement_name s) @
     write_id (sel_worker s) @
     write_id (sel_worker_boot s) @
     write_string (sel_resource_name s)"

definition read_selected :: "limits \<Rightarrow> selected_resource reader" where
  "read_selected lim =
     rbind read_id (\<lambda>resource.
     rbind (read_enum resource_classes (enum_code resource_classes RC_Worker)) (\<lambda>cls.
     rbind read_id (\<lambda>generation.
     rbind get_u32 (\<lambda>slots.
     rbind get_boolean (\<lambda>exclusive.
     rbind (read_string (max_string_length lim)) (\<lambda>requirement_name.
     rbind read_id (\<lambda>worker.
     rbind read_id (\<lambda>worker_boot.
     rbind (read_string (max_string_length lim)) (\<lambda>resource_name.
     rreturn \<lparr>sel_resource = resource, sel_resource_class = cls, sel_generation = generation,
       sel_slots = slots, sel_exclusive = exclusive,
       sel_requirement_name = requirement_name, sel_worker = worker,
       sel_worker_boot = worker_boot, sel_resource_name = resource_name\<rparr>)))))))))"

definition ok_selected :: "limits \<Rightarrow> selected_resource \<Rightarrow> bool" where
  "ok_selected lim s \<longleftrightarrow>
     length (sel_requirement_name s) \<le> unat (max_string_length lim) \<and>
     length (sel_resource_name s) \<le> unat (max_string_length lim)"

definition write_placement :: "placement_record \<Rightarrow> bytes" where
  "write_placement p =
     write_id (pl_id p) @
     write_id (pl_generation p) @
     write_id (pl_request p) @
     write_id (pl_decision p) @
     write_id (pl_experiment p) @
     write_id (pl_experiment_generation p) @
     write_id (pl_trial p) @
     write_id (pl_epoch p) @
     put_counted write_selected (pl_resources p) @
     write_id (pl_reservation p) @
     write_id (pl_lease p) @
     write_id (pl_worker p) @
     write_id (pl_worker_boot p) @
     write_enum (enum_code placement_states (pl_state p)) @
     put_u32 (pl_reassignment_count p) @
     put_boolean (pl_completion_recorded p) @
     write_string (pl_detail p) @
     put_u64 (pl_transition_sequence p) @
     write_string (pl_completion_detail p)"

definition read_placement :: "limits \<Rightarrow> placement_record reader" where
  "read_placement lim =
     rbind read_id (\<lambda>i.
     rbind read_id (\<lambda>generation.
     rbind read_id (\<lambda>request.
     rbind read_id (\<lambda>decision.
     rbind read_id (\<lambda>experiment.
     rbind read_id (\<lambda>experiment_generation.
     rbind read_id (\<lambda>trial.
     rbind read_id (\<lambda>epoch.
     rbind (read_counted (max_requirements_per_request lim) (read_selected lim)) (\<lambda>resources.
     rbind read_id (\<lambda>reservation.
     rbind read_id (\<lambda>lease.
     rbind read_id (\<lambda>worker.
     rbind read_id (\<lambda>worker_boot.
     rbind (read_enum placement_states (enum_code placement_states PL_Lost)) (\<lambda>state.
     rbind get_u32 (\<lambda>reassignment_count.
     rrequire (\<not> 16 < reassignment_count)
       (Status E_CorruptPersistence ''persisted reassignment count is implausible'') (
     rbind get_boolean (\<lambda>completion_recorded.
     rbind (read_string (max_string_length lim)) (\<lambda>detail.
     rbind get_u64 (\<lambda>transition_sequence.
     rbind (read_string (max_string_length lim)) (\<lambda>completion_detail.
     rreturn \<lparr>pl_id = i, pl_generation = generation, pl_request = request,
       pl_decision = decision, pl_experiment = experiment,
       pl_experiment_generation = experiment_generation, pl_trial = trial,
       pl_epoch = epoch, pl_resources = resources, pl_reservation = reservation,
       pl_lease = lease, pl_worker = worker, pl_worker_boot = worker_boot,
       pl_state = state, pl_reassignment_count = reassignment_count,
       pl_completion_recorded = completion_recorded, pl_detail = detail,
       pl_transition_sequence = transition_sequence,
       pl_completion_detail = completion_detail\<rparr>))))))))))))))))))))"

definition ok_placement :: "limits \<Rightarrow> placement_record \<Rightarrow> bool" where
  "ok_placement lim p \<longleftrightarrow>
     length (pl_resources p) \<le> unat (max_requirements_per_request lim) \<and>
     list_all (ok_selected lim) (pl_resources p) \<and>
     pl_reassignment_count p \<le> 16 \<and>
     length (pl_detail p) \<le> unat (max_string_length lim) \<and>
     length (pl_completion_detail p) \<le> unat (max_string_length lim)"

definition write_claim :: "reservation_claim \<Rightarrow> bytes" where
  "write_claim c =
     write_id (cl_resource c) @
     put_u32 (cl_slots c) @
     put_boolean (cl_exclusive c) @
     write_id (cl_generation_at_acquire c)"

definition read_claim :: "reservation_claim reader" where
  "read_claim =
     rbind read_id (\<lambda>resource.
     rbind get_u32 (\<lambda>slots.
     rbind get_boolean (\<lambda>exclusive.
     rbind read_id (\<lambda>generation_at_acquire.
     rreturn \<lparr>cl_resource = resource, cl_slots = slots, cl_exclusive = exclusive,
       cl_generation_at_acquire = generation_at_acquire\<rparr>))))"

definition write_reservation :: "reservation_record \<Rightarrow> bytes" where
  "write_reservation v =
     write_id (rv_id v) @
     write_id (rv_lease v) @
     write_id (rv_placement v) @
     write_id (rv_placement_generation v) @
     write_id (rv_request v) @
     write_id (rv_experiment v) @
     write_id (rv_experiment_generation v) @
     write_id (rv_epoch v) @
     put_counted write_claim (rv_claims v) @
     write_enum (enum_code reservation_states (rv_state v)) @
     put_u64 (rv_acquire_sequence v) @
     write_string (rv_detail v)"

definition read_reservation :: "limits \<Rightarrow> reservation_record reader" where
  "read_reservation lim =
     rbind read_id (\<lambda>i.
     rbind read_id (\<lambda>lease.
     rbind read_id (\<lambda>placement.
     rbind read_id (\<lambda>placement_generation.
     rbind read_id (\<lambda>request.
     rbind read_id (\<lambda>experiment.
     rbind read_id (\<lambda>experiment_generation.
     rbind read_id (\<lambda>epoch.
     rbind (read_counted (max_requirements_per_request lim) read_claim) (\<lambda>claims.
     rbind (read_enum reservation_states (enum_code reservation_states RV_Revoked)) (\<lambda>state.
     rbind get_u64 (\<lambda>acquire_sequence.
     rbind (read_string (max_string_length lim)) (\<lambda>detail.
     rreturn \<lparr>rv_id = i, rv_lease = lease, rv_placement = placement,
       rv_placement_generation = placement_generation, rv_request = request,
       rv_experiment = experiment, rv_experiment_generation = experiment_generation,
       rv_epoch = epoch, rv_claims = claims, rv_state = state,
       rv_acquire_sequence = acquire_sequence, rv_detail = detail\<rparr>))))))))))))"

definition ok_reservation :: "limits \<Rightarrow> reservation_record \<Rightarrow> bool" where
  "ok_reservation lim v \<longleftrightarrow>
     length (rv_claims v) \<le> unat (max_requirements_per_request lim) \<and>
     length (rv_detail v) \<le> unat (max_string_length lim)"

section \<open>Authority and completion claims\<close>

definition write_authority_envelope :: "authority_envelope \<Rightarrow> bytes" where
  "write_authority_envelope a =
     write_id (ae_request a) @
     write_id (ae_experiment a) @
     write_id (ae_experiment_generation a) @
     write_id (ae_placement a) @
     write_id (ae_placement_generation a) @
     write_id (ae_epoch a) @
     write_id (ae_lease a) @
     write_id (ae_reservation a) @
     write_id (ae_worker a) @
     write_id (ae_worker_boot a) @
     put_counted write_selected (ae_resources a)"

definition read_authority_envelope :: "limits \<Rightarrow> authority_envelope reader" where
  "read_authority_envelope lim =
     rbind read_id (\<lambda>request.
     rbind read_id (\<lambda>experiment.
     rbind read_id (\<lambda>experiment_generation.
     rbind read_id (\<lambda>placement.
     rbind read_id (\<lambda>placement_generation.
     rbind read_id (\<lambda>epoch.
     rbind read_id (\<lambda>lease.
     rbind read_id (\<lambda>reservation.
     rbind read_id (\<lambda>worker.
     rbind read_id (\<lambda>worker_boot.
     rbind (read_counted (max_requirements_per_request lim) (read_selected lim)) (\<lambda>resources.
     rreturn \<lparr>ae_request = request, ae_experiment = experiment,
       ae_experiment_generation = experiment_generation, ae_placement = placement,
       ae_placement_generation = placement_generation, ae_epoch = epoch, ae_lease = lease,
       ae_reservation = reservation, ae_worker = worker, ae_worker_boot = worker_boot,
       ae_resources = resources\<rparr>)))))))))))"

definition ok_authority_envelope :: "limits \<Rightarrow> authority_envelope \<Rightarrow> bool" where
  "ok_authority_envelope lim a \<longleftrightarrow>
     length (ae_resources a) \<le> unat (max_requirements_per_request lim) \<and>
     list_all (ok_selected lim) (ae_resources a)"

definition write_completion_claim :: "completion_claim \<Rightarrow> bytes" where
  "write_completion_claim c =
     write_id (cc_placement c) @
     write_id (cc_placement_generation c) @
     write_id (cc_experiment c) @
     write_id (cc_experiment_generation c) @
     write_id (cc_epoch c) @
     write_id (cc_worker_boot c) @
     put_counted write_id (cc_resources c) @
     put_counted write_id (cc_resource_generations c) @
     put_boolean (cc_succeeded c) @
     write_string (cc_detail c)"

definition read_completion_claim :: "limits \<Rightarrow> completion_claim reader" where
  "read_completion_claim lim =
     rbind read_id (\<lambda>placement.
     rbind read_id (\<lambda>placement_generation.
     rbind read_id (\<lambda>experiment.
     rbind read_id (\<lambda>experiment_generation.
     rbind read_id (\<lambda>epoch.
     rbind read_id (\<lambda>worker_boot.
     rbind (read_counted (max_requirements_per_request lim) read_id) (\<lambda>resources.
     rbind (read_counted (max_requirements_per_request lim) read_id) (\<lambda>resource_generations.
     rbind get_boolean (\<lambda>succeeded.
     rbind (read_string (max_string_length lim)) (\<lambda>detail.
     rreturn \<lparr>cc_placement = placement, cc_placement_generation = placement_generation,
       cc_experiment = experiment, cc_experiment_generation = experiment_generation,
       cc_epoch = epoch, cc_worker_boot = worker_boot, cc_resources = resources,
       cc_resource_generations = resource_generations, cc_succeeded = succeeded,
       cc_detail = detail\<rparr>))))))))))"

definition ok_completion_claim :: "limits \<Rightarrow> completion_claim \<Rightarrow> bool" where
  "ok_completion_claim lim c \<longleftrightarrow>
     length (cc_resources c) \<le> unat (max_requirements_per_request lim) \<and>
     length (cc_resource_generations c) \<le> unat (max_requirements_per_request lim) \<and>
     length (cc_detail c) \<le> unat (max_string_length lim)"

section \<open>Advertisements\<close>

text \<open>An advertisement travels as the record it would create; the fields the scheduler owns are defaults.\<close>

definition advertisement_to_record :: "resource_advertisement \<Rightarrow> resource_record" where
  "advertisement_to_record a = empty_resource_record
     \<lparr>res_id := adv_id a, res_resource_class := adv_resource_class a,
     res_name := adv_name a, res_worker := adv_worker a, res_boot := adv_boot a,
     res_provenance := adv_provenance a, res_sharing := adv_sharing a,
     res_capabilities := adv_capabilities a, res_capacity := adv_capacity a,
     res_advertised_occupancy := adv_current_occupancy a, res_health := adv_health a,
     res_health_detail := adv_health_detail a, res_readiness := adv_readiness a,
     res_topology := adv_topology a, res_locality := adv_locality a,
     res_accelerators := adv_accelerators a, res_model := adv_model a,
     res_simulator := adv_simulator a, res_dataset := adv_dataset a,
     res_environment := adv_environment a, res_tenant := adv_tenant a,
     res_labels := adv_labels a\<rparr>"

definition record_to_advertisement :: "resource_record \<Rightarrow> resource_advertisement" where
  "record_to_advertisement r =
     \<lparr>adv_id = res_id r, adv_resource_class = res_resource_class r,
       adv_name = res_name r, adv_worker = res_worker r, adv_boot = res_boot r,
       adv_provenance = res_provenance r, adv_sharing = res_sharing r,
       adv_capabilities = res_capabilities r, adv_capacity = res_capacity r,
       adv_current_occupancy = res_advertised_occupancy r, adv_health = res_health r,
       adv_health_detail = res_health_detail r, adv_readiness = res_readiness r,
       adv_topology = res_topology r, adv_locality = res_locality r,
       adv_accelerators = res_accelerators r, adv_model = res_model r,
       adv_simulator = res_simulator r, adv_dataset = res_dataset r,
       adv_environment = res_environment r, adv_tenant = res_tenant r,
       adv_labels = res_labels r\<rparr>"

definition write_advertisement :: "resource_advertisement \<Rightarrow> bytes" where
  "write_advertisement a = write_resource (advertisement_to_record a)"

definition read_advertisement :: "limits \<Rightarrow> resource_advertisement reader" where
  "read_advertisement lim = rbind (read_resource lim) (\<lambda>record. rreturn (record_to_advertisement record))"

definition ok_advertisement :: "limits \<Rightarrow> resource_advertisement \<Rightarrow> bool" where
  "ok_advertisement lim a = ok_resource lim (advertisement_to_record a)"

section \<open>Laws\<close>

text \<open>
  Each pair follows its record field by field: the reading rules instantiate the values, the
  bounds come from the \<open>ok_\<close> predicate.
\<close>

lemma reads_model [reads_rules]: "ok_model lim m \<Longrightarrow> reads (read_model lim) (write_model m) m"
  unfolding read_model_def write_model_def ok_model_def
  by (cases m; simp; (elim conjE)?) (rule reads_last reads_bind reads_rules | assumption)+

lemma accepts_model [accepts_rules]:
  "accepts (read_model lim) (\<lambda>bs m. ok_model lim m)"
  unfolding read_model_def
  by (rule accepts_bind accepts_require accepts_return accepts_rules)+
    (simp add: ok_model_def not_less)

interpretation model_codec: record_codec write_model "read_model lim" "ok_model lim" for lim
  by unfold_locales (simp_all add: reads_model accepts_model)

lemma reads_simulator [reads_rules]: "ok_simulator lim s \<Longrightarrow> reads (read_simulator lim) (write_simulator s) s"
  unfolding read_simulator_def write_simulator_def ok_simulator_def
  by (cases s; simp; (elim conjE)?) (rule reads_last reads_bind reads_rules | assumption)+

lemma accepts_simulator [accepts_rules]:
  "accepts (read_simulator lim) (\<lambda>bs s. ok_simulator lim s \<and> bs = write_simulator s)"
  unfolding read_simulator_def
  by (rule accepts_bind accepts_require accepts_return accepts_rules)+
    (simp add: write_simulator_def ok_simulator_def not_less)

interpretation simulator_codec: canonical_codec write_simulator "read_simulator lim" "ok_simulator lim" for lim
  by unfold_locales (simp_all add: reads_simulator accepts_simulator accepts_weaken [OF accepts_simulator])

lemma reads_dataset [reads_rules]: "ok_dataset lim d \<Longrightarrow> reads (read_dataset lim) (write_dataset d) d"
  unfolding read_dataset_def write_dataset_def ok_dataset_def
  by (cases d; simp; (elim conjE)?) (rule reads_last reads_bind reads_rules | assumption)+

lemma accepts_dataset [accepts_rules]:
  "accepts (read_dataset lim) (\<lambda>bs d. ok_dataset lim d \<and> bs = write_dataset d)"
  unfolding read_dataset_def
  by (rule accepts_bind accepts_require accepts_return accepts_rules)+
    (simp add: write_dataset_def ok_dataset_def not_less)

interpretation dataset_codec: canonical_codec write_dataset "read_dataset lim" "ok_dataset lim" for lim
  by unfold_locales (simp_all add: reads_dataset accepts_dataset accepts_weaken [OF accepts_dataset])

lemma reads_environment [reads_rules]: "ok_environment lim e \<Longrightarrow> reads (read_environment lim) (write_environment e) e"
  unfolding read_environment_def write_environment_def ok_environment_def
  by (cases e; simp; (elim conjE)?) (rule reads_last reads_bind reads_rules | assumption)+

lemma accepts_environment [accepts_rules]:
  "accepts (read_environment lim) (\<lambda>bs e. ok_environment lim e \<and> bs = write_environment e)"
  unfolding read_environment_def
  by (rule accepts_bind accepts_require accepts_return accepts_rules)+
    (simp add: write_environment_def ok_environment_def not_less)

interpretation environment_codec: canonical_codec write_environment "read_environment lim" "ok_environment lim" for lim
  by unfold_locales (simp_all add: reads_environment accepts_environment accepts_weaken [OF accepts_environment])

lemma reads_part:
  "ok_optional (ok_model lim) m \<Longrightarrow> reads (read_present (read_model lim)) (write_optional write_model m) m"
  "ok_optional (ok_simulator lim) s \<Longrightarrow> reads (read_present (read_simulator lim)) (write_optional write_simulator s) s"
  "ok_optional (ok_dataset lim) d \<Longrightarrow> reads (read_present (read_dataset lim)) (write_optional write_dataset d) d"
  "ok_optional (ok_environment lim) e \<Longrightarrow>
    reads (read_present (read_environment lim)) (write_optional write_environment e) e"
  by (rule reads_present, rule reads_rules, simp add: ok_optional_def)+

lemma accepts_part:
  "accepts (read_present (read_model lim)) (\<lambda>bs m. ok_optional (ok_model lim) m)"
  "accepts (read_present (read_simulator lim)) (\<lambda>bs s. ok_optional (ok_simulator lim) s)"
  "accepts (read_present (read_dataset lim)) (\<lambda>bs d. ok_optional (ok_dataset lim) d)"
  "accepts (read_present (read_environment lim)) (\<lambda>bs e. ok_optional (ok_environment lim) e)"
  by (rule accepts_present, rule model_codec.accepts_ok simulator_codec.accepts_ok
      dataset_codec.accepts_ok environment_codec.accepts_ok)+

lemma reads_resource [reads_rules]: "ok_resource lim r \<Longrightarrow> reads (read_resource lim) (write_resource r) r"
  unfolding read_resource_def write_resource_def ok_resource_def
  by (elim conjE, rule reads_eq, (rule reads_last reads_bind reads_rules reads_part | assumption)+)
    (cases r; simp)

lemma accepts_resource [accepts_rules]:
  "accepts (read_resource lim) (\<lambda>bs r. ok_resource lim r)"
  unfolding read_resource_def
  by (rule accepts_bind accepts_require accepts_return accepts_rules accepts_part)+
    (simp add: ok_resource_def not_less)

interpretation resource_codec: record_codec write_resource "read_resource lim" "ok_resource lim" for lim
  by unfold_locales (simp_all add: reads_resource accepts_resource)

lemma reads_requirement [reads_rules]: "ok_requirement lim r \<Longrightarrow> reads (read_requirement lim) (write_requirement r) r"
  unfolding read_requirement_def write_requirement_def ok_requirement_def
  by (cases r; simp; (elim conjE)?) (rule reads_last reads_bind reads_rules | assumption)+

lemma accepts_requirement [accepts_rules]:
  "accepts (read_requirement lim) (\<lambda>bs r. ok_requirement lim r)"
  unfolding read_requirement_def
  by (rule accepts_bind accepts_require accepts_return accepts_rules)+
    (simp add: ok_requirement_def not_less)

interpretation requirement_codec: record_codec write_requirement "read_requirement lim" "ok_requirement lim" for lim
  by unfold_locales (simp_all add: reads_requirement accepts_requirement)

lemma reads_affinity [reads_rules]: "reads read_affinity (write_affinity c) c"
  unfolding read_affinity_def write_affinity_def
  by (cases c; simp) (rule reads_last reads_bind reads_rules | assumption)+

lemma accepts_affinity [accepts_rules]:
  "accepts read_affinity (\<lambda>bs c. bs = write_affinity c)"
  unfolding read_affinity_def
  by (rule accepts_bind accepts_require accepts_return accepts_rules)+
    (simp add: write_affinity_def not_less)

interpretation affinity_codec: canonical_codec write_affinity read_affinity "\<lambda>_. True"
  by unfold_locales (simp_all add: reads_affinity accepts_affinity accepts_weaken [OF accepts_affinity])

lemma reads_affinities [reads_rules]:
  "length xs \<le> unat m \<Longrightarrow> reads (read_counted m read_affinity) (put_counted write_affinity xs) xs"
  by (rule affinity_codec.reads_counted) (simp_all add: list_all_iff)

lemmas accepts_affinities [accepts_rules] = affinity_codec.accepts_counted_put

lemmas reads_requirements [reads_rules] = requirement_codec.reads_counted

lemmas accepts_requirements [accepts_rules] = requirement_codec.accepts_counted

lemma priority_word: "ok_priority p \<Longrightarrow> unat (word_of_int (p + 2000) :: u32) = nat (p + 2000)"
  by (simp add: ok_priority_def unsigned_of_int take_bit_int_eq_self del: of_int_add)

lemma reads_priority [reads_rules]: "ok_priority p \<Longrightarrow> reads read_priority (write_priority p) p"
  unfolding read_priority_def write_priority_def
  by (rule reads_eq, rule reads_bind [OF reads_u32, where cs = "[]", simplified append_Nil2],
      rule reads_require, rule_tac [2] reads_return)
    (auto simp: word_nat priority_word ok_priority_def simp del: of_int_add)

lemma accepts_priority [accepts_rules]:
  "accepts read_priority (\<lambda>bs p. ok_priority p \<and> bs = write_priority p)"
  unfolding read_priority_def
  by (rule accepts_bind accepts_require accepts_return accepts_rules)+
    (auto simp: write_priority_def ok_priority_def word_le_def word_less_def not_less)

lemma reads_request [reads_rules]: "ok_request lim r \<Longrightarrow> reads (read_request lim) (write_request r) r"
  unfolding read_request_def write_request_def ok_request_def
  by (cases r; simp; (elim conjE)?)
    (rule reads_last reads_require reads_bind reads_rules | assumption | simp add: not_less list_all_iff)+

lemma accepts_request [accepts_rules]:
  "accepts (read_request lim) (\<lambda>bs r. ok_request lim r)"
  unfolding read_request_def
  by (rule accepts_bind accepts_require accepts_return accepts_rules)+
    (simp add: ok_request_def not_less)

interpretation request_codec: record_codec write_request "read_request lim" "ok_request lim" for lim
  by unfold_locales (simp_all add: reads_request accepts_request)

lemma reads_stored_request [reads_rules]: "ok_stored_request lim s \<Longrightarrow> reads (read_stored_request lim) (write_stored_request s) s"
  unfolding read_stored_request_def write_stored_request_def ok_stored_request_def
  by (cases s; simp; (elim conjE)?) (rule reads_last reads_bind reads_rules | assumption)+

lemma accepts_stored_request [accepts_rules]:
  "accepts (read_stored_request lim) (\<lambda>bs s. ok_stored_request lim s)"
  unfolding read_stored_request_def
  by (rule accepts_bind accepts_require accepts_return accepts_rules)+
    (simp add: ok_stored_request_def not_less)

interpretation stored_request_codec: record_codec write_stored_request "read_stored_request lim" "ok_stored_request lim" for lim
  by unfold_locales (simp_all add: reads_stored_request accepts_stored_request)

lemma reads_selected [reads_rules]: "ok_selected lim s \<Longrightarrow> reads (read_selected lim) (write_selected s) s"
  unfolding read_selected_def write_selected_def ok_selected_def
  by (cases s; simp; (elim conjE)?) (rule reads_last reads_bind reads_rules | assumption)+

lemma accepts_selected [accepts_rules]:
  "accepts (read_selected lim) (\<lambda>bs s. ok_selected lim s \<and> bs = write_selected s)"
  unfolding read_selected_def
  by (rule accepts_bind accepts_require accepts_return accepts_rules)+
    (simp add: write_selected_def ok_selected_def not_less)

interpretation selected_codec: canonical_codec write_selected "read_selected lim" "ok_selected lim" for lim
  by unfold_locales (simp_all add: reads_selected accepts_selected accepts_weaken [OF accepts_selected])

lemmas reads_selections [reads_rules] = selected_codec.reads_counted

lemmas accepts_selections [accepts_rules] = selected_codec.accepts_counted_put

lemma reads_placement [reads_rules]: "ok_placement lim p \<Longrightarrow> reads (read_placement lim) (write_placement p) p"
  unfolding read_placement_def write_placement_def ok_placement_def
  by (cases p; simp; (elim conjE)?)
    (rule reads_last reads_require reads_bind reads_rules | assumption | simp add: not_less list_all_iff)+

lemma accepts_placement [accepts_rules]:
  "accepts (read_placement lim) (\<lambda>bs p. ok_placement lim p \<and> bs = write_placement p)"
  unfolding read_placement_def
  by (rule accepts_bind accepts_require accepts_return accepts_rules)+
    (simp add: write_placement_def ok_placement_def not_less)

interpretation placement_codec: canonical_codec write_placement "read_placement lim" "ok_placement lim" for lim
  by unfold_locales (simp_all add: reads_placement accepts_placement accepts_weaken [OF accepts_placement])

lemma reads_claim [reads_rules]: "reads read_claim (write_claim c) c"
  unfolding read_claim_def write_claim_def
  by (cases c; simp) (rule reads_last reads_bind reads_rules | assumption)+

lemma accepts_claim [accepts_rules]:
  "accepts read_claim (\<lambda>bs c. bs = write_claim c)"
  unfolding read_claim_def
  by (rule accepts_bind accepts_require accepts_return accepts_rules)+
    (simp add: write_claim_def not_less)

interpretation claim_codec: canonical_codec write_claim read_claim "\<lambda>_. True"
  by unfold_locales (simp_all add: reads_claim accepts_claim accepts_weaken [OF accepts_claim])

lemma reads_claims [reads_rules]:
  "length xs \<le> unat m \<Longrightarrow> reads (read_counted m read_claim) (put_counted write_claim xs) xs"
  by (rule claim_codec.reads_counted) (simp_all add: list_all_iff)

lemmas accepts_claims [accepts_rules] = claim_codec.accepts_counted_put

lemma reads_ids [reads_rules]:
  "length xs \<le> unat m \<Longrightarrow> reads (read_counted m read_id) (put_counted write_id xs) xs"
  by (rule id_codec.reads_counted) (simp_all add: list_all_iff)

lemmas accepts_ids [accepts_rules] = id_codec.accepts_counted_put

lemma reads_reservation [reads_rules]: "ok_reservation lim v \<Longrightarrow> reads (read_reservation lim) (write_reservation v) v"
  unfolding read_reservation_def write_reservation_def ok_reservation_def
  by (cases v; simp; (elim conjE)?)
    (rule reads_last reads_require reads_bind reads_rules | assumption | simp add: not_less list_all_iff)+

lemma accepts_reservation [accepts_rules]:
  "accepts (read_reservation lim) (\<lambda>bs v. ok_reservation lim v \<and> bs = write_reservation v)"
  unfolding read_reservation_def
  by (rule accepts_bind accepts_require accepts_return accepts_rules)+
    (simp add: write_reservation_def ok_reservation_def not_less)

interpretation reservation_codec: canonical_codec write_reservation "read_reservation lim" "ok_reservation lim" for lim
  by unfold_locales (simp_all add: reads_reservation accepts_reservation accepts_weaken [OF accepts_reservation])

lemma reads_authority_envelope [reads_rules]: "ok_authority_envelope lim a \<Longrightarrow> reads (read_authority_envelope lim) (write_authority_envelope a) a"
  unfolding read_authority_envelope_def write_authority_envelope_def ok_authority_envelope_def
  by (cases a; simp; (elim conjE)?)
    (rule reads_last reads_require reads_bind reads_rules | assumption | simp add: not_less list_all_iff)+

lemma accepts_authority_envelope [accepts_rules]:
  "accepts (read_authority_envelope lim) (\<lambda>bs a. ok_authority_envelope lim a \<and> bs = write_authority_envelope a)"
  unfolding read_authority_envelope_def
  by (rule accepts_bind accepts_require accepts_return accepts_rules)+
    (simp add: write_authority_envelope_def ok_authority_envelope_def not_less)

interpretation authority_envelope_codec: canonical_codec write_authority_envelope "read_authority_envelope lim" "ok_authority_envelope lim" for lim
  by unfold_locales (simp_all add: reads_authority_envelope accepts_authority_envelope accepts_weaken [OF accepts_authority_envelope])

lemma reads_completion_claim [reads_rules]: "ok_completion_claim lim c \<Longrightarrow> reads (read_completion_claim lim) (write_completion_claim c) c"
  unfolding read_completion_claim_def write_completion_claim_def ok_completion_claim_def
  by (cases c; simp; (elim conjE)?)
    (rule reads_last reads_require reads_bind reads_rules | assumption | simp add: not_less list_all_iff)+

lemma accepts_completion_claim [accepts_rules]:
  "accepts (read_completion_claim lim) (\<lambda>bs c. ok_completion_claim lim c \<and> bs = write_completion_claim c)"
  unfolding read_completion_claim_def
  by (rule accepts_bind accepts_require accepts_return accepts_rules)+
    (simp add: write_completion_claim_def ok_completion_claim_def not_less)

interpretation completion_claim_codec: canonical_codec write_completion_claim "read_completion_claim lim" "ok_completion_claim lim" for lim
  by unfold_locales (simp_all add: reads_completion_claim accepts_completion_claim accepts_weaken [OF accepts_completion_claim])

text \<open>An advertisement survives the trip through the record of its defaults.\<close>

lemma advertisement_record_inverse [simp]: "record_to_advertisement (advertisement_to_record a) = a"
  by (cases a) (simp add: record_to_advertisement_def advertisement_to_record_def empty_resource_record_def)

lemma ok_advertised_record: "ok_resource lim r \<Longrightarrow> ok_advertisement lim (record_to_advertisement r)"
  by (simp add: ok_advertisement_def ok_resource_def record_to_advertisement_def
      advertisement_to_record_def empty_resource_record_def)

interpretation advertisement_codec: record_codec write_advertisement "read_advertisement lim"
  "ok_advertisement lim" for lim
proof
  fix a
  assume "ok_advertisement lim a"
  then have "reads (read_resource lim) (write_resource (advertisement_to_record a)) (advertisement_to_record a)"
    unfolding ok_advertisement_def by (rule reads_resource)
  then show "reads (read_advertisement lim) (write_advertisement a) a"
    unfolding read_advertisement_def write_advertisement_def
    by (rule reads_eq [OF reads_last]) simp
next
  show "accepts (read_advertisement lim) (\<lambda>bs a. ok_advertisement lim a)"
    unfolding read_advertisement_def
    by (rule accepts_bind [OF accepts_resource], rule accepts_return) (rule ok_advertised_record)
qed

end
