(* ===== verification/Messages.thy ===== *)
theory Messages
  imports Frame RecordCodec
begin

text \<open>
  The message payloads of \<open>protocol.hpp\<close> and \<open>protocol.cpp\<close>: one record per message struct, its
  encoder and its decoder. The encoders return a \<open>Result\<close> but have no failing branch; the model
  returns the bytes. Every decoder reads its fields and then requires the end of the payload
  (\<open>decode_payload\<close> is \<open>decode_all\<close> with the protocol failure code).
\<close>

section \<open>Tagged values\<close>

definition decision_outcomes :: "decision_outcome list" where
  "decision_outcomes = [DO_Placed, DO_NoPlacement]"

text \<open>\<open>ErrorCode\<close> is a 16-bit enumeration whose values follow the order of the table from 0.\<close>

definition error_codes :: "error_code list" where
  "error_codes = map fst error_code_table"

definition error_code_value :: "error_code \<Rightarrow> u16" where
  "error_code_value c = of_nat (enum_index error_codes c)"

definition read_tag :: "'e list \<Rightarrow> u8 \<Rightarrow> string \<Rightarrow> 'e reader" where
  "read_tag enumerators maximum message = rbind get_u8 (\<lambda>raw.
     rrequire (\<not> maximum < raw) (Status E_ProtocolError message) (rreturn (enumerators ! unat raw)))"

definition read_outcome :: "decision_outcome reader" where
  "read_outcome = read_tag decision_outcomes 1 ''unknown decision outcome in payload''"

definition read_error_code :: "error_code reader" where
  "read_error_code = rbind get_u16 (\<lambda>raw.
     case find (\<lambda>c. error_code_value c = raw) error_codes of
       None \<Rightarrow> rstop (Status E_ProtocolError ''unknown error code in payload'')
     | Some c \<Rightarrow> rreturn c)"

definition read_placement_state :: "placement_state reader" where
  "read_placement_state = read_tag placement_states (enum_code placement_states PL_Lost)
     ''unknown placement state in payload''"

definition read_resource_lifecycle :: "resource_lifecycle reader" where
  "read_resource_lifecycle = read_tag resource_lifecycles (enum_code resource_lifecycles RL_Lost)
     ''unknown resource lifecycle in payload''"

section \<open>Messages\<close>

record hello_message =
  hl_worker :: worker_id
  hl_boot :: worker_boot_id
  hl_authority :: string

record hello_ack_message =
  ha_epoch :: coordinator_epoch
  ha_coordinator :: string

record resource_message =
  rm_advertisement :: resource_advertisement

record retire_message =
  rt_resource :: resource_id
  rt_generation :: resource_generation

record resource_ack_message =
  rk_resource :: resource_id
  rk_generation :: resource_generation
  rk_lifecycle :: resource_lifecycle
  rk_code :: error_code
  rk_detail :: string

record schedule_message =
  sm_request :: schedule_request

record decision_message =
  dm_decision :: decision_id
  dm_outcome :: decision_outcome
  dm_failure :: error_code
  dm_failure_detail :: string
  dm_placement :: placement_record
  dm_authority :: authority_envelope
  dm_explanation :: string

record assign_message =
  as_authority :: authority_envelope
  as_workload :: string

record authority_message =
  am_placement :: placement_id
  am_generation :: placement_generation
  am_epoch :: coordinator_epoch
  am_worker_boot :: worker_boot_id

record completion_ack_message =
  ca_placement :: placement_id
  ca_state :: placement_state
  ca_accepted :: bool
  ca_duplicate :: bool
  ca_code :: error_code
  ca_detail :: string
  ca_released_reservations :: u32

record cancel_placement_message =
  cp_placement :: placement_id
  cp_generation :: placement_generation
  cp_epoch :: coordinator_epoch
  cp_reason :: string

record cancel_request_message =
  cq_request :: schedule_request_id
  cq_reason :: string

record lifecycle_ack_message =
  la_placement :: placement_id
  la_generation :: placement_generation
  la_state :: placement_state
  la_code :: error_code
  la_detail :: string
  la_released_reservations :: u32
  la_affected :: u32

record inspect_message =
  im_subject :: string

record inspect_reply_message =
  ir_subject :: string
  ir_text :: string

record error_message =
  em_code :: error_code
  em_message :: string

record save_state_message =
  sv_path :: string

record state_ack_message =
  sa_path :: string
  sa_epoch :: coordinator_epoch
  sa_resources :: u32
  sa_requests :: u32
  sa_placements :: u32
  sa_reservations :: u32
  sa_code :: error_code
  sa_detail :: string

record disconnect_worker_message =
  dw_worker :: worker_id
  dw_boot :: worker_boot_id
  dw_detail :: string

definition encode_hello :: "hello_message \<Rightarrow> bytes" where
  "encode_hello m =
     write_id (hl_worker m) @
     write_id (hl_boot m) @
     put_str (hl_authority m)"

definition read_hello :: "limits \<Rightarrow> hello_message reader" where
  "read_hello lim =
     rbind read_id (\<lambda>worker.
     rbind read_id (\<lambda>boot.
     rbind (read_string (max_string_length lim)) (\<lambda>authority.
     rreturn \<lparr>hl_worker = worker, hl_boot = boot, hl_authority = authority\<rparr>)))"

definition ok_hello :: "limits \<Rightarrow> hello_message \<Rightarrow> bool" where
  "ok_hello lim m \<longleftrightarrow>
     length (hl_authority m) \<le> unat (max_string_length lim)"

definition decode_hello :: "limits \<Rightarrow> bytes \<Rightarrow> hello_message result" where
  "decode_hello lim payload = decode_all (read_hello lim) E_ProtocolError payload"

definition encode_hello_ack :: "hello_ack_message \<Rightarrow> bytes" where
  "encode_hello_ack m =
     write_id (ha_epoch m) @
     put_str (ha_coordinator m)"

definition read_hello_ack :: "limits \<Rightarrow> hello_ack_message reader" where
  "read_hello_ack lim =
     rbind read_id (\<lambda>epoch.
     rbind (read_string (max_string_length lim)) (\<lambda>coordinator.
     rreturn \<lparr>ha_epoch = epoch, ha_coordinator = coordinator\<rparr>))"

definition ok_hello_ack :: "limits \<Rightarrow> hello_ack_message \<Rightarrow> bool" where
  "ok_hello_ack lim m \<longleftrightarrow>
     length (ha_coordinator m) \<le> unat (max_string_length lim)"

definition decode_hello_ack :: "limits \<Rightarrow> bytes \<Rightarrow> hello_ack_message result" where
  "decode_hello_ack lim payload = decode_all (read_hello_ack lim) E_ProtocolError payload"

definition encode_resource_message :: "resource_message \<Rightarrow> bytes" where
  "encode_resource_message m =
     write_advertisement (rm_advertisement m)"

definition read_resource_message :: "limits \<Rightarrow> resource_message reader" where
  "read_resource_message lim =
     rbind (read_advertisement lim) (\<lambda>advertisement.
     rreturn \<lparr>rm_advertisement = advertisement\<rparr>)"

definition ok_resource_message :: "limits \<Rightarrow> resource_message \<Rightarrow> bool" where
  "ok_resource_message lim m \<longleftrightarrow>
     ok_advertisement lim (rm_advertisement m)"

definition decode_resource_message :: "limits \<Rightarrow> bytes \<Rightarrow> resource_message result" where
  "decode_resource_message lim payload = decode_all (read_resource_message lim) E_ProtocolError payload"

definition encode_retire :: "retire_message \<Rightarrow> bytes" where
  "encode_retire m =
     write_id (rt_resource m) @
     write_id (rt_generation m)"

definition read_retire :: "retire_message reader" where
  "read_retire =
     rbind read_id (\<lambda>resource.
     rbind read_id (\<lambda>generation.
     rreturn \<lparr>rt_resource = resource, rt_generation = generation\<rparr>))"

definition decode_retire :: "limits \<Rightarrow> bytes \<Rightarrow> retire_message result" where
  "decode_retire lim payload = decode_all read_retire E_ProtocolError payload"

definition encode_resource_ack :: "resource_ack_message \<Rightarrow> bytes" where
  "encode_resource_ack m =
     write_id (rk_resource m) @
     write_id (rk_generation m) @
     put_u8 (enum_code resource_lifecycles (rk_lifecycle m)) @
     put_u16 (error_code_value (rk_code m)) @
     put_str (rk_detail m)"

definition read_resource_ack :: "limits \<Rightarrow> resource_ack_message reader" where
  "read_resource_ack lim =
     rbind read_id (\<lambda>resource.
     rbind read_id (\<lambda>generation.
     rbind read_resource_lifecycle (\<lambda>lifecycle.
     rbind read_error_code (\<lambda>code.
     rbind (read_string (max_string_length lim)) (\<lambda>detail.
     rreturn \<lparr>rk_resource = resource, rk_generation = generation, rk_lifecycle = lifecycle,
       rk_code = code, rk_detail = detail\<rparr>)))))"

definition ok_resource_ack :: "limits \<Rightarrow> resource_ack_message \<Rightarrow> bool" where
  "ok_resource_ack lim m \<longleftrightarrow>
     length (rk_detail m) \<le> unat (max_string_length lim)"

definition decode_resource_ack :: "limits \<Rightarrow> bytes \<Rightarrow> resource_ack_message result" where
  "decode_resource_ack lim payload = decode_all (read_resource_ack lim) E_ProtocolError payload"

definition encode_schedule :: "schedule_message \<Rightarrow> bytes" where
  "encode_schedule m =
     write_request (sm_request m)"

definition read_schedule :: "limits \<Rightarrow> schedule_message reader" where
  "read_schedule lim =
     rbind (read_request lim) (\<lambda>request.
     rreturn \<lparr>sm_request = request\<rparr>)"

definition ok_schedule :: "limits \<Rightarrow> schedule_message \<Rightarrow> bool" where
  "ok_schedule lim m \<longleftrightarrow>
     ok_request lim (sm_request m)"

definition decode_schedule :: "limits \<Rightarrow> bytes \<Rightarrow> schedule_message result" where
  "decode_schedule lim payload = decode_all (read_schedule lim) E_ProtocolError payload"

definition encode_decision :: "decision_message \<Rightarrow> bytes" where
  "encode_decision m =
     write_id (dm_decision m) @
     put_u8 (enum_code decision_outcomes (dm_outcome m)) @
     put_u16 (error_code_value (dm_failure m)) @
     put_str (dm_failure_detail m) @
     write_placement (dm_placement m) @
     write_authority_envelope (dm_authority m) @
     put_str (dm_explanation m)"

definition read_decision :: "limits \<Rightarrow> decision_message reader" where
  "read_decision lim =
     rbind read_id (\<lambda>decision.
     rbind read_outcome (\<lambda>outcome.
     rbind read_error_code (\<lambda>failure.
     rbind (read_string (max_string_length lim)) (\<lambda>failure_detail.
     rbind (read_placement lim) (\<lambda>placement.
     rbind (read_authority_envelope lim) (\<lambda>authority.
     rbind (get_str (max_explanation_entries lim * max_string_length lim)) (\<lambda>explanation.
     rreturn \<lparr>dm_decision = decision, dm_outcome = outcome, dm_failure = failure,
       dm_failure_detail = failure_detail, dm_placement = placement,
       dm_authority = authority, dm_explanation = explanation\<rparr>)))))))"

definition ok_decision :: "limits \<Rightarrow> decision_message \<Rightarrow> bool" where
  "ok_decision lim m \<longleftrightarrow>
     length (dm_failure_detail m) \<le> unat (max_string_length lim) \<and>
     ok_placement lim (dm_placement m) \<and>
     ok_authority_envelope lim (dm_authority m) \<and>
     length (dm_explanation m) \<le> unat (max_explanation_entries lim * max_string_length lim)"

definition decode_decision :: "limits \<Rightarrow> bytes \<Rightarrow> decision_message result" where
  "decode_decision lim payload = decode_all (read_decision lim) E_ProtocolError payload"

definition encode_assign :: "assign_message \<Rightarrow> bytes" where
  "encode_assign m =
     write_authority_envelope (as_authority m) @
     put_str (as_workload m)"

definition read_assign :: "limits \<Rightarrow> assign_message reader" where
  "read_assign lim =
     rbind (read_authority_envelope lim) (\<lambda>authority.
     rbind (read_string (max_string_length lim)) (\<lambda>workload.
     rreturn \<lparr>as_authority = authority, as_workload = workload\<rparr>))"

definition ok_assign :: "limits \<Rightarrow> assign_message \<Rightarrow> bool" where
  "ok_assign lim m \<longleftrightarrow>
     ok_authority_envelope lim (as_authority m) \<and>
     length (as_workload m) \<le> unat (max_string_length lim)"

definition decode_assign :: "limits \<Rightarrow> bytes \<Rightarrow> assign_message result" where
  "decode_assign lim payload = decode_all (read_assign lim) E_ProtocolError payload"

definition encode_authority :: "authority_message \<Rightarrow> bytes" where
  "encode_authority m =
     write_id (am_placement m) @
     write_id (am_generation m) @
     write_id (am_epoch m) @
     write_id (am_worker_boot m)"

definition read_authority :: "authority_message reader" where
  "read_authority =
     rbind read_id (\<lambda>placement.
     rbind read_id (\<lambda>generation.
     rbind read_id (\<lambda>epoch.
     rbind read_id (\<lambda>worker_boot.
     rreturn \<lparr>am_placement = placement, am_generation = generation, am_epoch = epoch,
       am_worker_boot = worker_boot\<rparr>))))"

definition decode_authority :: "limits \<Rightarrow> bytes \<Rightarrow> authority_message result" where
  "decode_authority lim payload = decode_all read_authority E_ProtocolError payload"

definition encode_completion_ack :: "completion_ack_message \<Rightarrow> bytes" where
  "encode_completion_ack m =
     write_id (ca_placement m) @
     put_u8 (enum_code placement_states (ca_state m)) @
     put_boolean (ca_accepted m) @
     put_boolean (ca_duplicate m) @
     put_u16 (error_code_value (ca_code m)) @
     put_str (ca_detail m) @
     put_u32 (ca_released_reservations m)"

definition read_completion_ack :: "limits \<Rightarrow> completion_ack_message reader" where
  "read_completion_ack lim =
     rbind read_id (\<lambda>placement.
     rbind read_placement_state (\<lambda>state.
     rbind get_boolean (\<lambda>accepted.
     rbind get_boolean (\<lambda>duplicate.
     rbind read_error_code (\<lambda>code.
     rbind (read_string (max_string_length lim)) (\<lambda>detail.
     rbind get_u32 (\<lambda>released_reservations.
     rreturn \<lparr>ca_placement = placement, ca_state = state, ca_accepted = accepted,
       ca_duplicate = duplicate, ca_code = code, ca_detail = detail,
       ca_released_reservations = released_reservations\<rparr>)))))))"

definition ok_completion_ack :: "limits \<Rightarrow> completion_ack_message \<Rightarrow> bool" where
  "ok_completion_ack lim m \<longleftrightarrow>
     length (ca_detail m) \<le> unat (max_string_length lim)"

definition decode_completion_ack :: "limits \<Rightarrow> bytes \<Rightarrow> completion_ack_message result" where
  "decode_completion_ack lim payload = decode_all (read_completion_ack lim) E_ProtocolError payload"

definition encode_cancel_placement :: "cancel_placement_message \<Rightarrow> bytes" where
  "encode_cancel_placement m =
     write_id (cp_placement m) @
     write_id (cp_generation m) @
     write_id (cp_epoch m) @
     put_str (cp_reason m)"

definition read_cancel_placement :: "limits \<Rightarrow> cancel_placement_message reader" where
  "read_cancel_placement lim =
     rbind read_id (\<lambda>placement.
     rbind read_id (\<lambda>generation.
     rbind read_id (\<lambda>epoch.
     rbind (read_string (max_string_length lim)) (\<lambda>reason.
     rreturn \<lparr>cp_placement = placement, cp_generation = generation, cp_epoch = epoch,
       cp_reason = reason\<rparr>))))"

definition ok_cancel_placement :: "limits \<Rightarrow> cancel_placement_message \<Rightarrow> bool" where
  "ok_cancel_placement lim m \<longleftrightarrow>
     length (cp_reason m) \<le> unat (max_string_length lim)"

definition decode_cancel_placement :: "limits \<Rightarrow> bytes \<Rightarrow> cancel_placement_message result" where
  "decode_cancel_placement lim payload = decode_all (read_cancel_placement lim) E_ProtocolError payload"

definition encode_cancel_request :: "cancel_request_message \<Rightarrow> bytes" where
  "encode_cancel_request m =
     write_id (cq_request m) @
     put_str (cq_reason m)"

definition read_cancel_request :: "limits \<Rightarrow> cancel_request_message reader" where
  "read_cancel_request lim =
     rbind read_id (\<lambda>request.
     rbind (read_string (max_string_length lim)) (\<lambda>reason.
     rreturn \<lparr>cq_request = request, cq_reason = reason\<rparr>))"

definition ok_cancel_request :: "limits \<Rightarrow> cancel_request_message \<Rightarrow> bool" where
  "ok_cancel_request lim m \<longleftrightarrow>
     length (cq_reason m) \<le> unat (max_string_length lim)"

definition decode_cancel_request :: "limits \<Rightarrow> bytes \<Rightarrow> cancel_request_message result" where
  "decode_cancel_request lim payload = decode_all (read_cancel_request lim) E_ProtocolError payload"

definition encode_lifecycle_ack :: "lifecycle_ack_message \<Rightarrow> bytes" where
  "encode_lifecycle_ack m =
     write_id (la_placement m) @
     write_id (la_generation m) @
     put_u8 (enum_code placement_states (la_state m)) @
     put_u16 (error_code_value (la_code m)) @
     put_str (la_detail m) @
     put_u32 (la_released_reservations m) @
     put_u32 (la_affected m)"

definition read_lifecycle_ack :: "limits \<Rightarrow> lifecycle_ack_message reader" where
  "read_lifecycle_ack lim =
     rbind read_id (\<lambda>placement.
     rbind read_id (\<lambda>generation.
     rbind read_placement_state (\<lambda>state.
     rbind read_error_code (\<lambda>code.
     rbind (read_string (max_string_length lim)) (\<lambda>detail.
     rbind get_u32 (\<lambda>released_reservations.
     rbind get_u32 (\<lambda>affected.
     rreturn \<lparr>la_placement = placement, la_generation = generation, la_state = state,
       la_code = code, la_detail = detail,
       la_released_reservations = released_reservations, la_affected = affected\<rparr>)))))))"

definition ok_lifecycle_ack :: "limits \<Rightarrow> lifecycle_ack_message \<Rightarrow> bool" where
  "ok_lifecycle_ack lim m \<longleftrightarrow>
     length (la_detail m) \<le> unat (max_string_length lim)"

definition decode_lifecycle_ack :: "limits \<Rightarrow> bytes \<Rightarrow> lifecycle_ack_message result" where
  "decode_lifecycle_ack lim payload = decode_all (read_lifecycle_ack lim) E_ProtocolError payload"

definition encode_inspect :: "inspect_message \<Rightarrow> bytes" where
  "encode_inspect m =
     put_str (im_subject m)"

definition read_inspect :: "limits \<Rightarrow> inspect_message reader" where
  "read_inspect lim =
     rbind (read_string (max_string_length lim)) (\<lambda>subject.
     rreturn \<lparr>im_subject = subject\<rparr>)"

definition ok_inspect :: "limits \<Rightarrow> inspect_message \<Rightarrow> bool" where
  "ok_inspect lim m \<longleftrightarrow>
     length (im_subject m) \<le> unat (max_string_length lim)"

definition decode_inspect :: "limits \<Rightarrow> bytes \<Rightarrow> inspect_message result" where
  "decode_inspect lim payload = decode_all (read_inspect lim) E_ProtocolError payload"

definition encode_inspect_reply :: "inspect_reply_message \<Rightarrow> bytes" where
  "encode_inspect_reply m =
     put_str (ir_subject m) @
     put_str (ir_text m)"

definition read_inspect_reply :: "limits \<Rightarrow> inspect_reply_message reader" where
  "read_inspect_reply lim =
     rbind (read_string (max_string_length lim)) (\<lambda>subject.
     rbind (get_str (max_explanation_entries lim * max_string_length lim)) (\<lambda>text.
     rreturn \<lparr>ir_subject = subject, ir_text = text\<rparr>))"

definition ok_inspect_reply :: "limits \<Rightarrow> inspect_reply_message \<Rightarrow> bool" where
  "ok_inspect_reply lim m \<longleftrightarrow>
     length (ir_subject m) \<le> unat (max_string_length lim) \<and>
     length (ir_text m) \<le> unat (max_explanation_entries lim * max_string_length lim)"

definition decode_inspect_reply :: "limits \<Rightarrow> bytes \<Rightarrow> inspect_reply_message result" where
  "decode_inspect_reply lim payload = decode_all (read_inspect_reply lim) E_ProtocolError payload"

definition encode_error_message :: "error_message \<Rightarrow> bytes" where
  "encode_error_message m =
     put_u16 (error_code_value (em_code m)) @
     put_str (em_message m)"

definition read_error_message :: "limits \<Rightarrow> error_message reader" where
  "read_error_message lim =
     rbind read_error_code (\<lambda>code.
     rbind (read_string (max_string_length lim)) (\<lambda>message.
     rreturn \<lparr>em_code = code, em_message = message\<rparr>))"

definition ok_error_message :: "limits \<Rightarrow> error_message \<Rightarrow> bool" where
  "ok_error_message lim m \<longleftrightarrow>
     length (em_message m) \<le> unat (max_string_length lim)"

definition decode_error_message :: "limits \<Rightarrow> bytes \<Rightarrow> error_message result" where
  "decode_error_message lim payload = decode_all (read_error_message lim) E_ProtocolError payload"

definition encode_save_state :: "save_state_message \<Rightarrow> bytes" where
  "encode_save_state m =
     put_str (sv_path m)"

definition read_save_state :: "limits \<Rightarrow> save_state_message reader" where
  "read_save_state lim =
     rbind (read_string (max_string_length lim)) (\<lambda>path.
     rreturn \<lparr>sv_path = path\<rparr>)"

definition ok_save_state :: "limits \<Rightarrow> save_state_message \<Rightarrow> bool" where
  "ok_save_state lim m \<longleftrightarrow>
     length (sv_path m) \<le> unat (max_string_length lim)"

definition decode_save_state :: "limits \<Rightarrow> bytes \<Rightarrow> save_state_message result" where
  "decode_save_state lim payload = decode_all (read_save_state lim) E_ProtocolError payload"

definition encode_state_ack :: "state_ack_message \<Rightarrow> bytes" where
  "encode_state_ack m =
     put_str (sa_path m) @
     write_id (sa_epoch m) @
     put_u32 (sa_resources m) @
     put_u32 (sa_requests m) @
     put_u32 (sa_placements m) @
     put_u32 (sa_reservations m) @
     put_u16 (error_code_value (sa_code m)) @
     put_str (sa_detail m)"

definition read_state_ack :: "limits \<Rightarrow> state_ack_message reader" where
  "read_state_ack lim =
     rbind (read_string (max_string_length lim)) (\<lambda>path.
     rbind read_id (\<lambda>epoch.
     rbind get_u32 (\<lambda>resources.
     rbind get_u32 (\<lambda>requests.
     rbind get_u32 (\<lambda>placements.
     rbind get_u32 (\<lambda>reservations.
     rbind read_error_code (\<lambda>code.
     rbind (read_string (max_string_length lim)) (\<lambda>detail.
     rreturn \<lparr>sa_path = path, sa_epoch = epoch, sa_resources = resources, sa_requests = requests,
       sa_placements = placements, sa_reservations = reservations, sa_code = code,
       sa_detail = detail\<rparr>))))))))"

definition ok_state_ack :: "limits \<Rightarrow> state_ack_message \<Rightarrow> bool" where
  "ok_state_ack lim m \<longleftrightarrow>
     length (sa_path m) \<le> unat (max_string_length lim) \<and>
     length (sa_detail m) \<le> unat (max_string_length lim)"

definition decode_state_ack :: "limits \<Rightarrow> bytes \<Rightarrow> state_ack_message result" where
  "decode_state_ack lim payload = decode_all (read_state_ack lim) E_ProtocolError payload"

definition encode_disconnect_worker :: "disconnect_worker_message \<Rightarrow> bytes" where
  "encode_disconnect_worker m =
     write_id (dw_worker m) @
     write_id (dw_boot m) @
     put_str (dw_detail m)"

definition read_disconnect_worker :: "limits \<Rightarrow> disconnect_worker_message reader" where
  "read_disconnect_worker lim =
     rbind read_id (\<lambda>worker.
     rbind read_id (\<lambda>boot.
     rbind (read_string (max_string_length lim)) (\<lambda>detail.
     rreturn \<lparr>dw_worker = worker, dw_boot = boot, dw_detail = detail\<rparr>)))"

definition ok_disconnect_worker :: "limits \<Rightarrow> disconnect_worker_message \<Rightarrow> bool" where
  "ok_disconnect_worker lim m \<longleftrightarrow>
     length (dw_detail m) \<le> unat (max_string_length lim)"

definition decode_disconnect_worker :: "limits \<Rightarrow> bytes \<Rightarrow> disconnect_worker_message result" where
  "decode_disconnect_worker lim payload = decode_all (read_disconnect_worker lim) E_ProtocolError payload"

definition encode_completion :: "completion_claim \<Rightarrow> bytes" where
  "encode_completion c = write_completion_claim c"

definition decode_completion :: "limits \<Rightarrow> bytes \<Rightarrow> completion_claim result" where
  "decode_completion lim payload = decode_all (read_completion_claim lim) E_ProtocolError payload"

section \<open>Laws\<close>

interpretation outcome_enum: enumeration decision_outcomes DO_NoPlacement
  by unfold_locales (simp_all add: decision_outcomes_def, metis decision_outcome.exhaust)

context enumeration begin

lemma reads_tag: "reads (read_tag vs (enum_code vs top) msg) (put_u8 (enum_code vs x)) x"
proof -
  have "reads (read_tag vs (enum_code vs top) msg) (put_u8 (enum_code vs x) @ []) x"
    unfolding read_tag_def
    by (rule reads_bind [OF reads_u8], rule reads_require)
      (simp_all add: of_code code_le not_less reads_return)
  then show ?thesis by simp
qed

lemma accepts_tag: "accepts (read_tag vs (enum_code vs top) msg) (\<lambda>bs x. bs = put_u8 (enum_code vs x))"
  unfolding read_tag_def
  by (rule accepts_bind [OF accepts_u8], rule accepts_require, rule accepts_return)
    (simp add: code_of not_less)

end

lemma outcome_top: "(1 :: u8) = enum_code decision_outcomes DO_NoPlacement"
  by (simp add: enum_code_def decision_outcomes_def)

lemma reads_tags [reads_rules]:
  "reads read_outcome (put_u8 (enum_code decision_outcomes d)) d"
  "reads read_placement_state (put_u8 (enum_code placement_states p)) p"
  "reads read_resource_lifecycle (put_u8 (enum_code resource_lifecycles l)) l"
  unfolding read_outcome_def read_placement_state_def read_resource_lifecycle_def outcome_top
  by (rule outcome_enum.reads_tag placement_state_enum.reads_tag lifecycle_enum.reads_tag)+

lemma accepts_tags [accepts_rules]:
  "accepts read_outcome (\<lambda>bs d. bs = put_u8 (enum_code decision_outcomes d))"
  "accepts read_placement_state (\<lambda>bs p. bs = put_u8 (enum_code placement_states p))"
  "accepts read_resource_lifecycle (\<lambda>bs l. bs = put_u8 (enum_code resource_lifecycles l))"
  unfolding read_outcome_def read_placement_state_def read_resource_lifecycle_def outcome_top
  by (rule outcome_enum.accepts_tag placement_state_enum.accepts_tag lifecycle_enum.accepts_tag)+

lemma error_codes_complete: "c \<in> set error_codes"
  by (cases c) (simp_all add: error_codes_def error_code_table_def)

lemma find_error_code: "find (\<lambda>d. error_code_value d = error_code_value c) error_codes = Some c"
  by (cases c) (simp_all add: error_code_value_def error_codes_def error_code_table_def)

lemma reads_error_code [reads_rules]: "reads read_error_code (put_u16 (error_code_value c)) c"
proof -
  have "reads read_error_code (put_u16 (error_code_value c) @ []) c"
    unfolding read_error_code_def
    by (rule reads_bind [OF reads_u16]) (simp add: find_error_code reads_return)
  then show ?thesis by simp
qed

lemma accepts_error_code [accepts_rules]:
  "accepts read_error_code (\<lambda>bs c. bs = put_u16 (error_code_value c))"
  unfolding read_error_code_def
  by (rule accepts_bind [OF accepts_u16])
    (auto simp: find_Some_iff accepts_stop split: option.split intro!: accepts_return)

lemma reads_text [reads_rules]: "length t \<le> unat m \<Longrightarrow> reads (read_string m) (put_str t) t"
  unfolding read_string_def by (rule reads_str)

text \<open>Every message is an instance of the codec contract.\<close>

interpretation hello_payload: canonical_codec encode_hello "read_hello lim" "ok_hello lim" for lim
proof
  show "ok_hello lim m \<Longrightarrow> reads (read_hello lim) (encode_hello m) m" for m
    unfolding read_hello_def encode_hello_def ok_hello_def
    by (cases m; simp; (elim conjE)?) (rule reads_last reads_bind reads_rules | assumption)+
  show accepted: "accepts (read_hello lim) (\<lambda>bs m. ok_hello lim m \<and> bs = encode_hello m)"
    unfolding read_hello_def
    by (rule accepts_bind accepts_return accepts_rules)+ (simp add: write_string_def encode_hello_def ok_hello_def)
  show "accepts (read_hello lim) (\<lambda>bs m. ok_hello lim m)"
    by (rule accepts_weaken [OF accepted]) simp
qed

interpretation hello_ack_payload: canonical_codec encode_hello_ack "read_hello_ack lim" "ok_hello_ack lim" for lim
proof
  show "ok_hello_ack lim m \<Longrightarrow> reads (read_hello_ack lim) (encode_hello_ack m) m" for m
    unfolding read_hello_ack_def encode_hello_ack_def ok_hello_ack_def
    by (cases m; simp; (elim conjE)?) (rule reads_last reads_bind reads_rules | assumption)+
  show accepted: "accepts (read_hello_ack lim) (\<lambda>bs m. ok_hello_ack lim m \<and> bs = encode_hello_ack m)"
    unfolding read_hello_ack_def
    by (rule accepts_bind accepts_return accepts_rules)+ (simp add: write_string_def encode_hello_ack_def ok_hello_ack_def)
  show "accepts (read_hello_ack lim) (\<lambda>bs m. ok_hello_ack lim m)"
    by (rule accepts_weaken [OF accepted]) simp
qed

interpretation resource_message_payload: record_codec encode_resource_message "read_resource_message lim" "ok_resource_message lim" for lim
proof
  show "ok_resource_message lim m \<Longrightarrow> reads (read_resource_message lim) (encode_resource_message m) m" for m
    unfolding read_resource_message_def encode_resource_message_def ok_resource_message_def
    by (cases m; simp; (elim conjE)?) (rule reads_last reads_bind reads_rules advertisement_codec.reads_put | assumption)+
  show goal: "accepts (read_resource_message lim) (\<lambda>bs m. ok_resource_message lim m)"
    unfolding read_resource_message_def
    by (rule accepts_bind accepts_return accepts_rules advertisement_codec.accepts_ok)+ (simp add: write_string_def ok_resource_message_def)
qed

interpretation retire_payload: canonical_codec encode_retire read_retire "\<lambda>_. True"
proof
  show "reads read_retire (encode_retire m) m" for m
    unfolding read_retire_def encode_retire_def
    by (cases m; simp) (rule reads_last reads_bind reads_rules | assumption)+
  show accepted: "accepts read_retire (\<lambda>bs m. True \<and> bs = encode_retire m)"
    unfolding read_retire_def
    by (rule accepts_bind accepts_return accepts_rules)+ (simp add: write_string_def encode_retire_def)
  show "accepts read_retire (\<lambda>bs m. True)"
    by (rule accepts_weaken [OF accepted]) simp
qed

interpretation resource_ack_payload: canonical_codec encode_resource_ack "read_resource_ack lim" "ok_resource_ack lim" for lim
proof
  show "ok_resource_ack lim m \<Longrightarrow> reads (read_resource_ack lim) (encode_resource_ack m) m" for m
    unfolding read_resource_ack_def encode_resource_ack_def ok_resource_ack_def
    by (cases m; simp; (elim conjE)?) (rule reads_last reads_bind reads_rules | assumption)+
  show accepted: "accepts (read_resource_ack lim) (\<lambda>bs m. ok_resource_ack lim m \<and> bs = encode_resource_ack m)"
    unfolding read_resource_ack_def
    by (rule accepts_bind accepts_return accepts_rules)+ (simp add: write_string_def encode_resource_ack_def ok_resource_ack_def)
  show "accepts (read_resource_ack lim) (\<lambda>bs m. ok_resource_ack lim m)"
    by (rule accepts_weaken [OF accepted]) simp
qed

interpretation schedule_payload: record_codec encode_schedule "read_schedule lim" "ok_schedule lim" for lim
proof
  show "ok_schedule lim m \<Longrightarrow> reads (read_schedule lim) (encode_schedule m) m" for m
    unfolding read_schedule_def encode_schedule_def ok_schedule_def
    by (cases m; simp; (elim conjE)?) (rule reads_last reads_bind reads_rules | assumption)+
  show goal: "accepts (read_schedule lim) (\<lambda>bs m. ok_schedule lim m)"
    unfolding read_schedule_def
    by (rule accepts_bind accepts_return accepts_rules)+ (simp add: write_string_def ok_schedule_def)
qed

interpretation decision_payload: canonical_codec encode_decision "read_decision lim" "ok_decision lim" for lim
proof
  show "ok_decision lim m \<Longrightarrow> reads (read_decision lim) (encode_decision m) m" for m
    unfolding read_decision_def encode_decision_def ok_decision_def
    by (cases m; simp; (elim conjE)?) (rule reads_last reads_bind reads_rules | assumption)+
  show accepted: "accepts (read_decision lim) (\<lambda>bs m. ok_decision lim m \<and> bs = encode_decision m)"
    unfolding read_decision_def
    by (rule accepts_bind accepts_return accepts_rules)+ (simp add: write_string_def encode_decision_def ok_decision_def)
  show "accepts (read_decision lim) (\<lambda>bs m. ok_decision lim m)"
    by (rule accepts_weaken [OF accepted]) simp
qed

interpretation assign_payload: canonical_codec encode_assign "read_assign lim" "ok_assign lim" for lim
proof
  show "ok_assign lim m \<Longrightarrow> reads (read_assign lim) (encode_assign m) m" for m
    unfolding read_assign_def encode_assign_def ok_assign_def
    by (cases m; simp; (elim conjE)?) (rule reads_last reads_bind reads_rules | assumption)+
  show accepted: "accepts (read_assign lim) (\<lambda>bs m. ok_assign lim m \<and> bs = encode_assign m)"
    unfolding read_assign_def
    by (rule accepts_bind accepts_return accepts_rules)+ (simp add: write_string_def encode_assign_def ok_assign_def)
  show "accepts (read_assign lim) (\<lambda>bs m. ok_assign lim m)"
    by (rule accepts_weaken [OF accepted]) simp
qed

interpretation authority_payload: canonical_codec encode_authority read_authority "\<lambda>_. True"
proof
  show "reads read_authority (encode_authority m) m" for m
    unfolding read_authority_def encode_authority_def
    by (cases m; simp) (rule reads_last reads_bind reads_rules | assumption)+
  show accepted: "accepts read_authority (\<lambda>bs m. True \<and> bs = encode_authority m)"
    unfolding read_authority_def
    by (rule accepts_bind accepts_return accepts_rules)+ (simp add: write_string_def encode_authority_def)
  show "accepts read_authority (\<lambda>bs m. True)"
    by (rule accepts_weaken [OF accepted]) simp
qed

interpretation completion_ack_payload: canonical_codec encode_completion_ack "read_completion_ack lim" "ok_completion_ack lim" for lim
proof
  show "ok_completion_ack lim m \<Longrightarrow> reads (read_completion_ack lim) (encode_completion_ack m) m" for m
    unfolding read_completion_ack_def encode_completion_ack_def ok_completion_ack_def
    by (cases m; simp; (elim conjE)?) (rule reads_last reads_bind reads_rules | assumption)+
  show accepted: "accepts (read_completion_ack lim) (\<lambda>bs m. ok_completion_ack lim m \<and> bs = encode_completion_ack m)"
    unfolding read_completion_ack_def
    by (rule accepts_bind accepts_return accepts_rules)+ (simp add: write_string_def encode_completion_ack_def ok_completion_ack_def)
  show "accepts (read_completion_ack lim) (\<lambda>bs m. ok_completion_ack lim m)"
    by (rule accepts_weaken [OF accepted]) simp
qed

interpretation cancel_placement_payload: canonical_codec encode_cancel_placement "read_cancel_placement lim" "ok_cancel_placement lim" for lim
proof
  show "ok_cancel_placement lim m \<Longrightarrow> reads (read_cancel_placement lim) (encode_cancel_placement m) m" for m
    unfolding read_cancel_placement_def encode_cancel_placement_def ok_cancel_placement_def
    by (cases m; simp; (elim conjE)?) (rule reads_last reads_bind reads_rules | assumption)+
  show accepted: "accepts (read_cancel_placement lim) (\<lambda>bs m. ok_cancel_placement lim m \<and> bs = encode_cancel_placement m)"
    unfolding read_cancel_placement_def
    by (rule accepts_bind accepts_return accepts_rules)+ (simp add: write_string_def encode_cancel_placement_def ok_cancel_placement_def)
  show "accepts (read_cancel_placement lim) (\<lambda>bs m. ok_cancel_placement lim m)"
    by (rule accepts_weaken [OF accepted]) simp
qed

interpretation cancel_request_payload: canonical_codec encode_cancel_request "read_cancel_request lim" "ok_cancel_request lim" for lim
proof
  show "ok_cancel_request lim m \<Longrightarrow> reads (read_cancel_request lim) (encode_cancel_request m) m" for m
    unfolding read_cancel_request_def encode_cancel_request_def ok_cancel_request_def
    by (cases m; simp; (elim conjE)?) (rule reads_last reads_bind reads_rules | assumption)+
  show accepted: "accepts (read_cancel_request lim) (\<lambda>bs m. ok_cancel_request lim m \<and> bs = encode_cancel_request m)"
    unfolding read_cancel_request_def
    by (rule accepts_bind accepts_return accepts_rules)+ (simp add: write_string_def encode_cancel_request_def ok_cancel_request_def)
  show "accepts (read_cancel_request lim) (\<lambda>bs m. ok_cancel_request lim m)"
    by (rule accepts_weaken [OF accepted]) simp
qed

interpretation lifecycle_ack_payload: canonical_codec encode_lifecycle_ack "read_lifecycle_ack lim" "ok_lifecycle_ack lim" for lim
proof
  show "ok_lifecycle_ack lim m \<Longrightarrow> reads (read_lifecycle_ack lim) (encode_lifecycle_ack m) m" for m
    unfolding read_lifecycle_ack_def encode_lifecycle_ack_def ok_lifecycle_ack_def
    by (cases m; simp; (elim conjE)?) (rule reads_last reads_bind reads_rules | assumption)+
  show accepted: "accepts (read_lifecycle_ack lim) (\<lambda>bs m. ok_lifecycle_ack lim m \<and> bs = encode_lifecycle_ack m)"
    unfolding read_lifecycle_ack_def
    by (rule accepts_bind accepts_return accepts_rules)+ (simp add: write_string_def encode_lifecycle_ack_def ok_lifecycle_ack_def)
  show "accepts (read_lifecycle_ack lim) (\<lambda>bs m. ok_lifecycle_ack lim m)"
    by (rule accepts_weaken [OF accepted]) simp
qed

interpretation inspect_payload: canonical_codec encode_inspect "read_inspect lim" "ok_inspect lim" for lim
proof
  show "ok_inspect lim m \<Longrightarrow> reads (read_inspect lim) (encode_inspect m) m" for m
    unfolding read_inspect_def encode_inspect_def ok_inspect_def
    by (cases m; simp; (elim conjE)?) (rule reads_last reads_bind reads_rules | assumption)+
  show accepted: "accepts (read_inspect lim) (\<lambda>bs m. ok_inspect lim m \<and> bs = encode_inspect m)"
    unfolding read_inspect_def
    by (rule accepts_bind accepts_return accepts_rules)+ (simp add: write_string_def encode_inspect_def ok_inspect_def)
  show "accepts (read_inspect lim) (\<lambda>bs m. ok_inspect lim m)"
    by (rule accepts_weaken [OF accepted]) simp
qed

interpretation inspect_reply_payload: canonical_codec encode_inspect_reply "read_inspect_reply lim" "ok_inspect_reply lim" for lim
proof
  show "ok_inspect_reply lim m \<Longrightarrow> reads (read_inspect_reply lim) (encode_inspect_reply m) m" for m
    unfolding read_inspect_reply_def encode_inspect_reply_def ok_inspect_reply_def
    by (cases m; simp; (elim conjE)?) (rule reads_last reads_bind reads_rules | assumption)+
  show accepted: "accepts (read_inspect_reply lim) (\<lambda>bs m. ok_inspect_reply lim m \<and> bs = encode_inspect_reply m)"
    unfolding read_inspect_reply_def
    by (rule accepts_bind accepts_return accepts_rules)+ (simp add: write_string_def encode_inspect_reply_def ok_inspect_reply_def)
  show "accepts (read_inspect_reply lim) (\<lambda>bs m. ok_inspect_reply lim m)"
    by (rule accepts_weaken [OF accepted]) simp
qed

interpretation error_message_payload: canonical_codec encode_error_message "read_error_message lim" "ok_error_message lim" for lim
proof
  show "ok_error_message lim m \<Longrightarrow> reads (read_error_message lim) (encode_error_message m) m" for m
    unfolding read_error_message_def encode_error_message_def ok_error_message_def
    by (cases m; simp; (elim conjE)?) (rule reads_last reads_bind reads_rules | assumption)+
  show accepted: "accepts (read_error_message lim) (\<lambda>bs m. ok_error_message lim m \<and> bs = encode_error_message m)"
    unfolding read_error_message_def
    by (rule accepts_bind accepts_return accepts_rules)+ (simp add: write_string_def encode_error_message_def ok_error_message_def)
  show "accepts (read_error_message lim) (\<lambda>bs m. ok_error_message lim m)"
    by (rule accepts_weaken [OF accepted]) simp
qed

interpretation save_state_payload: canonical_codec encode_save_state "read_save_state lim" "ok_save_state lim" for lim
proof
  show "ok_save_state lim m \<Longrightarrow> reads (read_save_state lim) (encode_save_state m) m" for m
    unfolding read_save_state_def encode_save_state_def ok_save_state_def
    by (cases m; simp; (elim conjE)?) (rule reads_last reads_bind reads_rules | assumption)+
  show accepted: "accepts (read_save_state lim) (\<lambda>bs m. ok_save_state lim m \<and> bs = encode_save_state m)"
    unfolding read_save_state_def
    by (rule accepts_bind accepts_return accepts_rules)+ (simp add: write_string_def encode_save_state_def ok_save_state_def)
  show "accepts (read_save_state lim) (\<lambda>bs m. ok_save_state lim m)"
    by (rule accepts_weaken [OF accepted]) simp
qed

interpretation state_ack_payload: canonical_codec encode_state_ack "read_state_ack lim" "ok_state_ack lim" for lim
proof
  show "ok_state_ack lim m \<Longrightarrow> reads (read_state_ack lim) (encode_state_ack m) m" for m
    unfolding read_state_ack_def encode_state_ack_def ok_state_ack_def
    by (cases m; simp; (elim conjE)?) (rule reads_last reads_bind reads_rules | assumption)+
  show accepted: "accepts (read_state_ack lim) (\<lambda>bs m. ok_state_ack lim m \<and> bs = encode_state_ack m)"
    unfolding read_state_ack_def
    by (rule accepts_bind accepts_return accepts_rules)+ (simp add: write_string_def encode_state_ack_def ok_state_ack_def)
  show "accepts (read_state_ack lim) (\<lambda>bs m. ok_state_ack lim m)"
    by (rule accepts_weaken [OF accepted]) simp
qed

interpretation disconnect_worker_payload: canonical_codec encode_disconnect_worker "read_disconnect_worker lim" "ok_disconnect_worker lim" for lim
proof
  show "ok_disconnect_worker lim m \<Longrightarrow> reads (read_disconnect_worker lim) (encode_disconnect_worker m) m" for m
    unfolding read_disconnect_worker_def encode_disconnect_worker_def ok_disconnect_worker_def
    by (cases m; simp; (elim conjE)?) (rule reads_last reads_bind reads_rules | assumption)+
  show accepted: "accepts (read_disconnect_worker lim) (\<lambda>bs m. ok_disconnect_worker lim m \<and> bs = encode_disconnect_worker m)"
    unfolding read_disconnect_worker_def
    by (rule accepts_bind accepts_return accepts_rules)+ (simp add: write_string_def encode_disconnect_worker_def ok_disconnect_worker_def)
  show "accepts (read_disconnect_worker lim) (\<lambda>bs m. ok_disconnect_worker lim m)"
    by (rule accepts_weaken [OF accepted]) simp
qed

end
