(* ===== verification/Persistence.thy ===== *)
theory Persistence
  imports RecordCodec
begin

text \<open>
  \<open>persistence.hpp\<close> and \<open>persistence.cpp\<close>: the container of a durable state (magic, format,
  length, FNV-1a checksum, payload), its encoder and decoder, and the save and load operations over
  a file system. The outcomes of the system calls of a save are inputs of the model.
\<close>

section \<open>The container\<close>

definition kPersistenceMagic :: bytes where
  "kPersistenceMagic = text_bytes ''LSCHED01''"

definition kPersistenceHeaderSize :: nat where
  "kPersistenceHeaderSize = 28"

definition product_banner :: string where
  "product_banner = ''Lab Scheduler'' @ '' '' @ ''1.0.0''"

definition write_durable_payload :: "durable_state \<Rightarrow> bytes" where
  "write_durable_payload s =
     put_u32 kPersistenceFormatVersion @
     write_id (du_epoch s) @
     write_limits (du_limits s) @
     write_weights (du_default_weights s) @
     put_u64 (du_id_counter s) @
     write_string product_banner @
     put_counted write_resource (du_resources s) @
     put_counted write_stored_request (du_requests s) @
     put_counted write_placement (du_placements s) @
     put_counted write_reservation (du_reservations s)"

definition container_header :: "bytes \<Rightarrow> bytes" where
  "container_header body =
     put_u32 kPersistenceFormatVersion @ put_u64 (of_nat (length body)) @ put_u64 (fnv1a64 body)"

definition encode_durable_state :: "durable_state \<Rightarrow> bytes result" where
  "encode_durable_state s =
     (let body = write_durable_payload s
      in Inr (kPersistenceMagic @ container_header body @ body))"

definition read_container_header :: "(u64 \<times> u64) reader" where
  "read_container_header =
     rbind get_u32 (\<lambda>format.
     rrequire (format = kPersistenceFormatVersion)
       (Status E_CorruptPersistence ''unsupported persisted container format version'') (
     rbind get_u64 (\<lambda>payload_length.
     rbind get_u64 (\<lambda>checksum.
     rreturn (payload_length, checksum)))))"

definition read_durable_payload :: "limits \<Rightarrow> durable_state reader" where
  "read_durable_payload lim =
     rbind get_u32 (\<lambda>inner_format.
     rrequire (inner_format = kPersistenceFormatVersion)
       (Status E_CorruptPersistence ''unsupported payload format version'') (
     rbind read_id (\<lambda>epoch.
     rbind read_limits (\<lambda>limits.
     rbind read_weights (\<lambda>weights.
     rbind get_u64 (\<lambda>id_counter.
     rbind (read_string (max_string_length lim)) (\<lambda>note.
     rbind (read_counted (max_persistence_records lim) (read_resource lim)) (\<lambda>resources.
     rbind (read_counted (max_persistence_records lim) (read_stored_request lim)) (\<lambda>requests.
     rbind (read_counted (max_persistence_records lim) (read_placement lim)) (\<lambda>placements.
     rbind (read_counted (max_persistence_records lim) (read_reservation lim)) (\<lambda>reservations.
     rreturn \<lparr>du_format_version = inner_format, du_epoch = epoch, du_limits = limits,
       du_default_weights = weights, du_id_counter = id_counter, du_resources = resources,
       du_requests = requests, du_placements = placements, du_reservations = reservations,
       du_integrity_note = note\<rparr>)))))))))))"

definition decode_durable_state :: "limits \<Rightarrow> bytes \<Rightarrow> durable_state result" where
  "decode_durable_state lim bs =
     (if length bs < kPersistenceHeaderSize then
        Inl (Status E_CorruptPersistence ''persisted container is shorter than its header'')
      else if take 8 bs \<noteq> kPersistenceMagic then
        Inl (Status E_CorruptPersistence ''persisted container magic does not match'')
      else case read_container_header (make_byte_reader (drop 8 bs) E_CorruptPersistence) of
          Inl s \<Rightarrow> Inl s
        | Inr ((payload_length, checksum), _) \<Rightarrow>
            if payload_length = 0 \<or> max_persistence_bytes lim < payload_length then
              Inl (Status E_CorruptPersistence ''persisted payload length is implausible'')
            else let available = length bs - kPersistenceHeaderSize in
              if available < unat payload_length then
                Inl (Status E_CorruptPersistence ''persisted payload is truncated'')
              else if unat payload_length \<noteq> available then
                Inl (Status E_CorruptPersistence ''persisted container carries trailing bytes'')
              else let body = take (unat payload_length) (drop kPersistenceHeaderSize bs) in
                if fnv1a64 body \<noteq> checksum then
                  Inl (Status E_CorruptPersistence ''persisted payload checksum does not match'')
                else decode_all (read_durable_payload lim) E_CorruptPersistence body)"

section \<open>Saving and loading\<close>

text \<open>
  A file system maps paths to contents. What the operating system answers during a save is the
  record \<open>save_io\<close>: whether the temporary file opens, what a failing write left in it (\<open>None\<close> when
  the write succeeds), whether the two renames and the removal in between succeed, and whether the
  temporary file can be removed at the end. The flush of the source reopens the file for reading
  and changes no content.
\<close>

type_synonym file_system = "string \<Rightarrow> bytes option"

record save_io =
  io_open :: bool
  io_partial :: "bytes option"
  io_rename :: bool
  io_remove :: bool
  io_rename_again :: bool
  io_cleanup :: bool

definition fs_rename :: "string \<Rightarrow> string \<Rightarrow> file_system \<Rightarrow> file_system" where
  "fs_rename old new fs = (fs(new := fs old))(old := None)"

definition save_durable_state ::
  "durable_state \<Rightarrow> string \<Rightarrow> save_io \<Rightarrow> file_system \<Rightarrow> status \<times> file_system" where
  "save_durable_state s path io fs =
     (case encode_durable_state s of
        Inl status \<Rightarrow> (status, fs)
      | Inr bs \<Rightarrow>
          let temporary = path @ ''.part'' in
          if \<not> io_open io then
            (Status E_IoFailure (''cannot open persistence file for writing: '' @ temporary), fs)
          else case io_partial io of
              Some partial \<Rightarrow>
                (Status E_IoFailure (''failed to write persistence file: '' @ temporary),
                 fs(temporary \<mapsto> partial))
            | None \<Rightarrow>
                let written = fs(temporary \<mapsto> bs) in
                if io_rename io then (ok_status, fs_rename temporary path written)
                else let removed = (if io_remove io then written(path := None) else written) in
                  if io_rename_again io then (ok_status, fs_rename temporary path removed)
                  else (Status E_IoFailure (''failed to replace persistence file: '' @ path),
                    if io_cleanup io then removed(temporary := None) else removed))"

definition load_durable_state :: "limits \<Rightarrow> string \<Rightarrow> file_system \<Rightarrow> durable_state result" where
  "load_durable_state lim path fs =
     (case fs path of
        None \<Rightarrow> Inl (Status E_IoFailure (''cannot open persistence file: '' @ path))
      | Some bs \<Rightarrow>
          if unat (max_persistence_bytes lim + of_nat kPersistenceHeaderSize) < length bs then
            Inl (Status E_CorruptPersistence ''persistence file exceeds the configured bound'')
          else decode_durable_state lim bs)"

section \<open>Admissible states\<close>

definition ok_durable_payload :: "limits \<Rightarrow> durable_state \<Rightarrow> bool" where
  "ok_durable_payload lim s \<longleftrightarrow>
     du_format_version s = kPersistenceFormatVersion \<and>
     ok_weights (du_default_weights s) \<and>
     length (du_integrity_note s) \<le> unat (max_string_length lim) \<and>
     length (du_resources s) \<le> unat (max_persistence_records lim) \<and>
     list_all (ok_resource lim) (du_resources s) \<and>
     length (du_requests s) \<le> unat (max_persistence_records lim) \<and>
     list_all (ok_stored_request lim) (du_requests s) \<and>
     length (du_placements s) \<le> unat (max_persistence_records lim) \<and>
     list_all (ok_placement lim) (du_placements s) \<and>
     length (du_reservations s) \<le> unat (max_persistence_records lim) \<and>
     list_all (ok_reservation lim) (du_reservations s)"

lemma reads_durable_payload:
  assumes "ok_durable_payload lim s" and "du_integrity_note s = product_banner"
  shows "reads (read_durable_payload lim) (write_durable_payload s) s"
  using assms unfolding read_durable_payload_def write_durable_payload_def ok_durable_payload_def
  by (cases s; simp; elim conjE)
    (rule reads_last reads_require reads_bind reads_rules resource_codec.reads_counted
      stored_request_codec.reads_counted placement_codec.reads_counted
      reservation_codec.reads_counted refl | assumption)+

lemma accepts_durable_payload: "accepts (read_durable_payload lim) (\<lambda>bs s. ok_durable_payload lim s)"
  unfolding read_durable_payload_def
  by (rule accepts_bind accepts_require accepts_return accepts_rules resource_codec.accepts_counted
      stored_request_codec.accepts_counted placement_codec.accepts_counted
      reservation_codec.accepts_counted)+
    (simp add: ok_durable_payload_def)

text \<open>The container of a payload, and that a decoder accepts nothing else.\<close>

definition container :: "bytes \<Rightarrow> bytes" where
  "container body = kPersistenceMagic @ container_header body @ body"

lemma length_magic [simp]: "length kPersistenceMagic = 8"
  by (simp add: kPersistenceMagic_def)

lemma length_container_header [simp]: "length (container_header body) = 20"
  by (simp add: container_header_def)

lemma length_container [simp]: "length (container body) = 28 + length body"
  by (simp add: container_def)

lemma encode_container: "encode_durable_state s = Inr (container (write_durable_payload s))"
  by (simp add: encode_durable_state_def container_def Let_def)

lemma accepts_container_header:
  "accepts read_container_header
    (\<lambda>bs p. bs = put_u32 kPersistenceFormatVersion @ put_u64 (fst p) @ put_u64 (snd p))"
  unfolding read_container_header_def
  by (rule accepts_bind accepts_require accepts_return accepts_rules)+ simp

lemma decode_accepted:
  assumes "decode_durable_state lim bs = Inr s"
  shows "\<exists>body. bs = container body \<and> body \<noteq> [] \<and> length body < 2 ^ 64 \<and>
    decode_all (read_durable_payload lim) E_CorruptPersistence body = Inr s"
proof -
  from assms obtain n c r where long: "28 \<le> length bs" and magic: "take 8 bs = kPersistenceMagic"
    and header: "read_container_header (make_byte_reader (drop 8 bs) E_CorruptPersistence) = Inr ((n, c), r)"
    and n: "n \<noteq> 0" "unat n = length bs - 28" and c: "fnv1a64 (drop 28 bs) = c"
    and payload: "decode_all (read_durable_payload lim) E_CorruptPersistence (drop 28 bs) = Inr s"
    by (auto simp: decode_durable_state_def kPersistenceHeaderSize_def Let_def
        split: if_splits sum.splits prod.splits)
  from accepts_container_header header obtain hs where "drop 8 bs = hs @ rd_rest r"
    and hs: "hs = put_u32 kPersistenceFormatVersion @ put_u64 n @ put_u64 c"
    unfolding accepts_def by fastforce
  then have "drop 8 bs = hs @ drop 20 (drop 8 bs)" by simp
  then have "bs = kPersistenceMagic @ hs @ drop 28 bs"
    using magic append_take_drop_id [of 8 bs] by simp
  moreover have "of_nat (length (drop 28 bs)) = n"
    using n(2) by (simp flip: n(2))
  ultimately have "bs = container (drop 28 bs)"
    by (simp add: container_def container_header_def hs c)
  moreover have "drop 28 bs \<noteq> []" using n by (auto simp: unat_eq_0_iff)
  moreover have "length (drop 28 bs) < 2 ^ 64"
    using unsigned_less [of n, where 'a = nat] n(2) by simp
  ultimately show ?thesis using payload by blast
qed

lemma decode_container:
  assumes "body \<noteq> []" and "length body \<le> unat (max_persistence_bytes lim)"
  shows "decode_durable_state lim (container body) =
    decode_all (read_durable_payload lim) E_CorruptPersistence body"
proof -
  have len: "unat (of_nat (length body) :: u64) = length body"
    using assms(2) unsigned_less [of "max_persistence_bytes lim", where 'a = nat]
    by (simp add: unat_of_nat take_bit_nat_eq_self)
  then have nz: "(of_nat (length body) :: u64) \<noteq> 0"
    using assms(1) by (metis length_0_conv unsigned_0)
  have "reads read_container_header (container_header body) (of_nat (length body), fnv1a64 body)"
    unfolding read_container_header_def container_header_def
    by (rule reads_last reads_require reads_bind reads_rules refl)+
  from readsD [OF this, of "make_byte_reader (container_header body @ body) E_CorruptPersistence" body]
  obtain r where "read_container_header
      (make_byte_reader (container_header body @ body) E_CorruptPersistence) =
      Inr ((of_nat (length body), fnv1a64 body), r)" by simp
  with len nz assms show ?thesis
    by (simp add: decode_durable_state_def container_def kPersistenceHeaderSize_def word_nat)
qed

end
