(* ===== verification/Socket.thy ===== *)
theory Socket
  imports Frame
begin

text \<open>
  \<open>net.cpp\<close>: the framing over a stream socket. What the operating system answers is data of the
  model. The receiving side is the list of segments that successive \<open>recv\<close> calls find: a call gets
  at most as many bytes as it asks for and leaves the rest of the segment to the next call; an empty
  segment and the end of the list are the orderly end of the connection. The sending side is a
  function that gives the answer of each \<open>send\<close> call: the number of bytes accepted, or a value that
  is not positive for an error.
\<close>

section \<open>Receiving\<close>

datatype segment = Data bytes | Fault int

type_synonym incoming = "segment list"

definition peer_closed :: status where
  "peer_closed = Status E_IoFailure ''peer closed the connection''"

definition recv_failed :: "int \<Rightarrow> status" where
  "recv_failed code = Status E_IoFailure (''recv() failed with error '' @ decimal_i64 code)"

text \<open>
  One call of \<open>recv\<close> for at most \<open>n\<close> bytes. A closed connection stays closed; after a fault the next
  call goes on with what follows.
\<close>

fun recv :: "nat \<Rightarrow> incoming \<Rightarrow> (status + bytes) \<times> incoming" where
  "recv n [] = (Inl peer_closed, [])"
| "recv n (Fault code # rest) = (Inl (recv_failed code), rest)"
| "recv n (Data bs # rest) =
     (if bs = [] then (Inl peer_closed, Data bs # rest)
      else if length bs \<le> n then (Inr bs, rest)
      else (Inr (take n bs), Data (drop n bs) # rest))"

lemma recv_some:
  assumes "recv n inc = (Inr bs, rest)" and "0 < n"
  shows "0 < length bs" and "length bs \<le> n"
proof -
  have "0 < length bs \<and> length bs \<le> n"
    using assms by (induction n inc rule: recv.induct) (auto split: if_splits)
  then show "0 < length bs" and "length bs \<le> n" by simp_all
qed

text \<open>The loop of \<open>receive_exact\<close>: \<open>remaining\<close> bytes are still to come, \<open>buffer\<close> is what is there.\<close>

function receive_loop :: "nat \<Rightarrow> bytes \<Rightarrow> incoming \<Rightarrow> (status + bytes) \<times> incoming" where
  "receive_loop remaining buffer inc =
     (if remaining = 0 then (Inr buffer, inc)
      else case recv remaining inc of
          (Inl status, rest) \<Rightarrow> (Inl status, rest)
        | (Inr received, rest) \<Rightarrow>
            receive_loop (remaining - length received) (buffer @ received) rest)"
  by pat_completeness auto
termination
proof (relation "measure (\<lambda>(remaining, buffer, inc). remaining)", goal_cases)
  case (2 remaining buffer inc answer rest received)
  then have "0 < length received" using recv_some [of remaining inc received rest] by simp
  with 2 show ?case by simp
qed simp

declare receive_loop.simps [simp del]

definition receive_exact :: "nat \<Rightarrow> incoming \<Rightarrow> (status + bytes) \<times> incoming" where
  "receive_exact n inc = receive_loop n [] inc"

definition receive_frame :: "limits \<Rightarrow> incoming \<Rightarrow> (status + frame_view) \<times> incoming" where
  "receive_frame lim inc =
     (case receive_exact 4 inc of
        (Inl status, inc') \<Rightarrow> (Inl status, inc')
      | (Inr prefix, inc') \<Rightarrow>
          let frame_length = (ucast (prefix ! 0) OR push_bit 8 (ucast (prefix ! 1)) OR
                push_bit 16 (ucast (prefix ! 2)) OR push_bit 24 (ucast (prefix ! 3)) :: u32) in
          if frame_length = 0 \<or> unat (max_frame_size lim) < unat frame_length + 4 then
            (Inl (Status E_ProtocolError ''declared frame length is outside the configured bound''), inc')
          else case receive_exact (unat frame_length) inc' of
              (Inl status, inc'') \<Rightarrow> (Inl status, inc'')
            | (Inr remainder, inc'') \<Rightarrow> (decode_frame lim (prefix @ remainder), inc''))"

section \<open>Sending\<close>

text \<open>
  The loop of \<open>send_all\<close>: \<open>answer i\<close> is what the \<open>i\<close>-th call of \<open>send\<close> returns, which is at most the
  number of bytes offered. The result carries the bytes that were accepted. The source neither masks
  SIGPIPE nor passes MSG_NOSIGNAL: the model describes the calls that return, which on a POSIX system
  excludes a call on a connection the peer has closed unless that signal is ignored.
\<close>

function send_loop :: "(nat \<Rightarrow> int) \<Rightarrow> int \<Rightarrow> nat \<Rightarrow> bytes \<Rightarrow> bytes \<Rightarrow> status \<times> bytes" where
  "send_loop answer error i delivered bs =
     (if bs = [] then (ok_status, delivered)
      else let sent = min (answer i) (int (length bs)) in
        if sent \<le> 0 then
          (Status E_IoFailure (''send() failed with error '' @ decimal_i64 error), delivered)
        else send_loop answer error (i + 1) (delivered @ take (nat sent) bs) (drop (nat sent) bs))"
  by pat_completeness auto
termination
  by (relation "measure (\<lambda>(answer, error, i, delivered, bs). length bs)") auto

declare send_loop.simps [simp del]

definition send_all :: "(nat \<Rightarrow> int) \<Rightarrow> int \<Rightarrow> bool \<Rightarrow> bytes \<Rightarrow> status \<times> bytes" where
  "send_all answer error valid bs =
     (if \<not> valid then (Status E_IoFailure ''cannot send on a closed socket'', [])
      else send_loop answer error 0 [] bs)"

definition send_frame ::
  "(nat \<Rightarrow> int) \<Rightarrow> int \<Rightarrow> bool \<Rightarrow> message_type \<Rightarrow> u64 \<Rightarrow> u64 \<Rightarrow> bytes \<Rightarrow> status \<times> bytes" where
  "send_frame answer error valid t correlation_id coordinator_epoch payload =
     (case encode_frame t correlation_id coordinator_epoch payload of
        Inl status \<Rightarrow> (status, [])
      | Inr frame \<Rightarrow> send_all answer error valid frame)"

section \<open>Segmentation does not matter\<close>

text \<open>
  The bytes that a list of segments delivers before the connection ends, and the way it ends. A
  receive of \<open>n\<close> bytes gives the next \<open>n\<close> of them, however they are cut into segments, and fails
  exactly when there are fewer.
\<close>

fun stream_bytes :: "incoming \<Rightarrow> bytes" where
  "stream_bytes (Data bs # rest) = (if bs = [] then [] else bs @ stream_bytes rest)"
| "stream_bytes _ = []"

fun stream_end :: "incoming \<Rightarrow> status" where
  "stream_end (Data bs # rest) = (if bs = [] then peer_closed else stream_end rest)"
| "stream_end (Fault code # rest) = recv_failed code"
| "stream_end [] = peer_closed"

lemma recv_stream:
  assumes "0 < n"
  shows "recv n inc = (Inl status, rest) \<Longrightarrow> stream_bytes inc = [] \<and> stream_end inc = status"
    and "recv n inc = (Inr bs, rest) \<Longrightarrow>
      stream_bytes inc = bs @ stream_bytes rest \<and> stream_end rest = stream_end inc"
  using assms by (induction n inc rule: recv.induct) (auto split: if_splits)

lemma receive_loop_stream:
  "case receive_loop n buffer inc of
     (Inl status, rest) \<Rightarrow> length (stream_bytes inc) < n \<and> status = stream_end inc
   | (Inr bs, rest) \<Rightarrow> n \<le> length (stream_bytes inc) \<and> bs = buffer @ take n (stream_bytes inc) \<and>
       stream_bytes rest = drop n (stream_bytes inc) \<and> stream_end rest = stream_end inc"
proof (induction n buffer inc rule: receive_loop.induct)
  case (1 n buffer inc)
  obtain answer rest where x: "recv n inc = (answer, rest)" by (cases "recv n inc")
  show ?case
  proof (cases "n = 0")
    case True
    then show ?thesis by (simp add: receive_loop.simps)
  next
    case False
    show ?thesis
    proof (cases answer)
      case (Inl status)
      with False x recv_stream(1) [of n inc status rest] show ?thesis
        by (simp add: receive_loop.simps)
    next
      case (Inr bs)
      note step = recv_stream(2) [of n inc bs rest] recv_some [of n inc bs rest]
      have unfold: "receive_loop n buffer inc = receive_loop (n - length bs) (buffer @ bs) rest"
        using False Inr x by (subst receive_loop.simps) simp
      from 1 [OF False x [symmetric] Inr] have "case receive_loop (n - length bs) (buffer @ bs) rest of
          (Inl status, rest') \<Rightarrow> length (stream_bytes rest) < n - length bs \<and> status = stream_end rest
        | (Inr cs, rest') \<Rightarrow> n - length bs \<le> length (stream_bytes rest) \<and>
            cs = (buffer @ bs) @ take (n - length bs) (stream_bytes rest) \<and>
            stream_bytes rest' = drop (n - length bs) (stream_bytes rest) \<and>
            stream_end rest' = stream_end rest" .
      with step False Inr x show ?thesis unfolding unfold
        by (auto split: sum.splits)
    qed
  qed
qed

lemma receive_exact_stream:
  "case receive_exact n inc of
     (Inl status, rest) \<Rightarrow> length (stream_bytes inc) < n \<and> status = stream_end inc
   | (Inr bs, rest) \<Rightarrow> n \<le> length (stream_bytes inc) \<and> bs = take n (stream_bytes inc) \<and>
       stream_bytes rest = drop n (stream_bytes inc) \<and> stream_end rest = stream_end inc"
  using receive_loop_stream [where n = n and buffer = "[]" and inc = inc]
  by (auto simp: receive_exact_def split: sum.splits)

lemma receive_exact_enough:
  assumes "stream_bytes inc = bs @ left" and "length bs = n"
  obtains rest where "receive_exact n inc = (Inr bs, rest)" "stream_bytes rest = left"
    "stream_end rest = stream_end inc"
  using receive_exact_stream [where n = n and inc = inc] assms
  by (cases "receive_exact n inc") (auto split: sum.splits)

lemma receive_frame_consumes:
  assumes "receive_frame lim inc = (Inr view, rest)"
  shows "length (stream_bytes rest) < length (stream_bytes inc)"
proof -
  from assms obtain prefix inc' remainder n where
    "receive_exact 4 inc = (Inr prefix, inc')" and "receive_exact n inc' = (Inr remainder, rest)"
    unfolding receive_frame_def Let_def by (auto split: sum.splits if_splits prod.splits)
  with receive_exact_stream [where n = 4 and inc = inc] receive_exact_stream [where n = n and inc = inc']
  have "4 \<le> length (stream_bytes inc)"
    and "length (stream_bytes rest) = length (stream_bytes inc) - (n + 4)" by simp_all
  then show ?thesis by linarith
qed

text \<open>
  The size of what is still to come, faults and closes included: no receive makes it larger, and one
  that returns bytes makes it smaller.
\<close>

definition incoming_size :: "incoming \<Rightarrow> nat" where
  "incoming_size inc = sum_list (map (\<lambda>s. case s of Data bs \<Rightarrow> Suc (length bs) | Fault _ \<Rightarrow> 1) inc)"

lemma recv_size:
  "incoming_size (snd (recv n inc)) \<le> incoming_size inc"
  "0 < n \<Longrightarrow> recv n inc = (Inr bs, rest) \<Longrightarrow> incoming_size rest < incoming_size inc"
  by (induction n inc rule: recv.induct) (auto simp: incoming_size_def split: if_splits)

lemma receive_loop_size:
  "incoming_size (snd (receive_loop n buffer inc)) \<le> incoming_size inc \<and>
   (0 < n \<and> \<not> isl (fst (receive_loop n buffer inc)) \<longrightarrow>
     incoming_size (snd (receive_loop n buffer inc)) < incoming_size inc)"
proof (induction n buffer inc rule: receive_loop.induct)
  case (1 n buffer inc)
  obtain answer rest where x: "recv n inc = (answer, rest)" by (cases "recv n inc")
  show ?case
  proof (cases "n = 0 \<or> isl answer")
    case True
    with x recv_size(1) [of n inc] show ?thesis
      by (subst (1 2 3) receive_loop.simps) (auto split: sum.splits)
  next
    case False
    then obtain bs where bs: "answer = Inr bs" and n: "n \<noteq> 0" by (cases answer) auto
    have unfold: "receive_loop n buffer inc = receive_loop (n - length bs) (buffer @ bs) rest"
      using n bs x by (subst receive_loop.simps) simp
    from 1 [OF n x [symmetric] bs] recv_size(2) [of n inc bs rest] n x bs
    show ?thesis unfolding unfold by auto
  qed
qed

lemma receive_frame_size:
  "incoming_size (snd (receive_frame lim inc)) \<le> incoming_size inc"
  "\<not> isl (fst (receive_frame lim inc)) \<Longrightarrow> incoming_size (snd (receive_frame lim inc)) < incoming_size inc"
proof -
  have exact: "incoming_size (snd (receive_exact n inc)) \<le> incoming_size inc"
    "0 < n \<Longrightarrow> \<not> isl (fst (receive_exact n inc)) \<Longrightarrow>
      incoming_size (snd (receive_exact n inc)) < incoming_size inc" for n inc
    using receive_loop_size [of n "[]" inc] by (simp_all add: receive_exact_def)
  obtain a inc' where a: "receive_exact 4 inc = (a, inc')" by (cases "receive_exact 4 inc")
  define n where "n = (case a of Inl _ \<Rightarrow> 0 | Inr prefix \<Rightarrow> unat (ucast (prefix ! 0) OR push_bit 8 (ucast (prefix ! 1)) OR
    push_bit 16 (ucast (prefix ! 2)) OR push_bit 24 (ucast (prefix ! 3)) :: u32))"
  obtain b inc'' where b: "receive_exact n inc' = (b, inc'')" by (cases "receive_exact n inc'")
  have "snd (receive_frame lim inc) \<in> {inc', inc''}"
    using a b n_def by (auto simp: receive_frame_def Let_def split: sum.splits)
  with exact(1) [of 4 inc] exact(1) [of n inc'] a b
  show "incoming_size (snd (receive_frame lim inc)) \<le> incoming_size inc" by auto
  assume "\<not> isl (fst (receive_frame lim inc))"
  then have "\<not> isl a" using a by (auto simp: receive_frame_def split: sum.splits)
  with exact(2) [of 4 inc] a have "incoming_size inc' < incoming_size inc" by simp
  with \<open>snd (receive_frame lim inc) \<in> {inc', inc''}\<close> exact(1) [of n inc'] b
  show "incoming_size (snd (receive_frame lim inc)) < incoming_size inc" by auto
qed

text \<open>
  However the socket cuts its answers, what it accepted is a prefix of what was offered: all of it
  exactly when the send succeeds.
\<close>

lemma send_loop_prefix:
  "\<exists>left. delivered @ bs = snd (send_loop answer error i delivered bs) @ left \<and>
     (status_ok (fst (send_loop answer error i delivered bs)) \<longleftrightarrow> left = [])"
proof (induction answer error i delivered bs rule: send_loop.induct)
  case (1 answer error i delivered bs)
  let ?sent = "min (answer i) (int (length bs))"
  show ?case
  proof (cases "bs = [] \<or> ?sent \<le> 0")
    case True
    then show ?thesis by (subst (1 2) send_loop.simps) (auto simp: Let_def status_ok_def ok_status_def)
  next
    case False
    have unfold: "send_loop answer error i delivered bs =
        send_loop answer error (i + 1) (delivered @ take (nat ?sent) bs) (drop (nat ?sent) bs)"
      using False by (subst send_loop.simps) (simp add: Let_def)
    from False have "bs \<noteq> []" "\<not> ?sent \<le> 0" by simp_all
    from 1 [OF this(1) refl this(2)] show ?thesis unfolding unfold by simp
  qed
qed

lemma send_loop_whole:
  "send_loop answer error 0 [] bs = (status, accepted) \<Longrightarrow> status_ok status \<Longrightarrow> accepted = bs"
  using send_loop_prefix [of "[]" bs answer error 0] by auto

lemma send_loop_partial:
  "send_loop answer error 0 [] bs = (status, accepted) \<Longrightarrow> \<not> status_ok status \<Longrightarrow>
     \<exists>missing. bs = accepted @ missing \<and> missing \<noteq> []"
  using send_loop_prefix [of "[]" bs answer error 0] by auto

end
