(* ===== verification/Wire.thy ===== *)
theory Wire
  imports Socket
begin

text \<open>
  \<open>net.cpp\<close> on a connection that need not end. A peer may stay connected and send nothing, and then
  \<open>recv\<close> does not return; it may also go on sending for ever. The receiving side is therefore a
  possibly infinite sequence of segments, and a receive is an option: \<open>None\<close> is a call that never
  returns. On a finite list of segments the functions agree with those of \<open>Socket\<close>, whatever follows
  the list, as far as the list lasts.
\<close>

section \<open>Receiving from a peer that may fall silent\<close>

codatatype wire = Silent | Arrives segment wire

text \<open>One call of \<open>recv\<close>: it waits for the next segment. What it leaves of a segment stays in front.\<close>

definition recv_wire :: "nat \<Rightarrow> wire \<Rightarrow> ((status + bytes) \<times> wire) option" where
  "recv_wire n w =
     (case w of
        Silent \<Rightarrow> None
      | Arrives segment rest \<Rightarrow>
          (let (answer, left) = recv n [segment] in Some (answer, foldr Arrives left rest)))"

lemma recv_wire_some:
  assumes "recv_wire n w = Some (Inr bs, rest)" and "0 < n"
  shows "0 < length bs" and "length bs \<le> n"
  using assms recv_some [of n _ bs]
  by (fastforce simp: recv_wire_def Let_def split: wire.splits prod.splits)+

function receive_loop_wire :: "nat \<Rightarrow> bytes \<Rightarrow> wire \<Rightarrow> ((status + bytes) \<times> wire) option" where
  "receive_loop_wire remaining buffer w =
     (if remaining = 0 then Some (Inr buffer, w)
      else case recv_wire remaining w of
          None \<Rightarrow> None
        | Some (Inl status, rest) \<Rightarrow> Some (Inl status, rest)
        | Some (Inr received, rest) \<Rightarrow>
            receive_loop_wire (remaining - length received) (buffer @ received) rest)"
  by pat_completeness auto
termination
proof (relation "measure (\<lambda>(remaining, buffer, w). remaining)", goal_cases)
  case (2 remaining buffer w x answer rest received)
  then have "0 < length received" using recv_wire_some [of remaining w received rest] by simp
  with 2 show ?case by simp
qed simp

declare receive_loop_wire.simps [simp del]

definition receive_exact_wire :: "nat \<Rightarrow> wire \<Rightarrow> ((status + bytes) \<times> wire) option" where
  "receive_exact_wire n w = receive_loop_wire n [] w"

definition receive_frame_wire :: "limits \<Rightarrow> wire \<Rightarrow> ((status + frame_view) \<times> wire) option" where
  "receive_frame_wire lim w =
     (case receive_exact_wire 4 w of
        None \<Rightarrow> None
      | Some (Inl status, w') \<Rightarrow> Some (Inl status, w')
      | Some (Inr prefix, w') \<Rightarrow>
          let frame_length = (ucast (prefix ! 0) OR push_bit 8 (ucast (prefix ! 1)) OR
                push_bit 16 (ucast (prefix ! 2)) OR push_bit 24 (ucast (prefix ! 3)) :: u32) in
          if frame_length = 0 \<or> unat (max_frame_size lim) < unat frame_length + 4 then
            Some (Inl (Status E_ProtocolError ''declared frame length is outside the configured bound''), w')
          else case receive_exact_wire (unat frame_length) w' of
              None \<Rightarrow> None
            | Some (Inl status, w'') \<Rightarrow> Some (Inl status, w'')
            | Some (Inr remainder, w'') \<Rightarrow> Some (decode_frame lim (prefix @ remainder), w''))"

section \<open>Finite beginnings\<close>

text \<open>
  A list of segments followed by a wire. After \<open>closed_wire inc\<close> the peer has closed the connection,
  after \<open>idle_wire inc\<close> it stays connected and sends nothing more.
\<close>

definition closed_wire :: "incoming \<Rightarrow> wire" where
  "closed_wire inc = foldr Arrives inc (Arrives (Data []) Silent)"

definition idle_wire :: "incoming \<Rightarrow> wire" where
  "idle_wire inc = foldr Arrives inc Silent"

text \<open>Segments that neither close nor break the connection.\<close>

definition flowing :: "incoming \<Rightarrow> bool" where
  "flowing inc = list_all (\<lambda>s. case s of Data bs \<Rightarrow> bs \<noteq> [] | Fault code \<Rightarrow> False) inc"

lemma recv_wire_list:
  assumes "inc \<noteq> []" and "recv n inc = (answer, rest)"
  shows "recv_wire n (foldr Arrives inc w) = Some (answer, foldr Arrives rest w)"
  using assms
  by (cases "(n, inc)" rule: recv.cases) (auto simp: recv_wire_def split: if_splits)

lemma recv_wire_closed:
  "recv n inc = (answer, rest) \<Longrightarrow> recv_wire n (closed_wire inc) = Some (answer, closed_wire rest)"
  using recv_wire_list [of inc n answer rest "Arrives (Data []) Silent"]
  by (cases "inc = []") (simp_all add: closed_wire_def, auto simp: recv_wire_def)

lemma receive_loop_wire_list:
  "receive_loop n buffer inc = (Inr bs, rest) \<Longrightarrow>
     receive_loop_wire n buffer (foldr Arrives inc w) = Some (Inr bs, foldr Arrives rest w)"
proof (induction n buffer inc rule: receive_loop.induct)
  case (1 n buffer inc)
  show ?case
  proof (cases "n = 0")
    case True
    with 1 show ?thesis by (simp add: receive_loop.simps receive_loop_wire.simps)
  next
    case False
    obtain answer left where x: "recv n inc = (answer, left)" by (cases "recv n inc")
    with 1 False obtain cs where cs: "answer = Inr cs"
      by (cases answer) (auto simp: receive_loop.simps)
    with x have "inc \<noteq> []" by auto
    from recv_wire_list [OF this x] have w: "recv_wire n (foldr Arrives inc w) = Some (Inr cs, foldr Arrives left w)"
      by (simp add: cs)
    have "receive_loop (n - length cs) (buffer @ cs) left = (Inr bs, rest)"
      using 1(2) False x cs by (subst (asm) receive_loop.simps) simp
    with 1(1) [OF False x [symmetric] cs] False w show ?thesis
      by (subst receive_loop_wire.simps) simp
  qed
qed

lemma receive_loop_wire_closed:
  "receive_loop n buffer inc = (answer, rest) \<Longrightarrow>
     receive_loop_wire n buffer (closed_wire inc) = Some (answer, closed_wire rest)"
proof (induction n buffer inc rule: receive_loop.induct)
  case (1 n buffer inc)
  show ?case
  proof (cases "n = 0")
    case True
    with 1 show ?thesis by (simp add: receive_loop.simps receive_loop_wire.simps)
  next
    case False
    obtain a left where x: "recv n inc = (a, left)" by (cases "recv n inc")
    note w = recv_wire_closed [OF x]
    show ?thesis
    proof (cases a)
      case (Inl status)
      with 1 False x w show ?thesis by (auto simp: receive_loop.simps receive_loop_wire.simps)
    next
      case (Inr cs)
      have "receive_loop (n - length cs) (buffer @ cs) left = (answer, rest)"
        using 1(2) False x Inr by (subst (asm) receive_loop.simps) simp
      with 1(1) [OF False x [symmetric] Inr] False w Inr show ?thesis
        by (subst receive_loop_wire.simps) simp
    qed
  qed
qed

text \<open>A frame that is there is received, whatever follows; on a closed connection the answers are those
  of \<open>Socket\<close>.\<close>

lemma receive_frame_wire_list:
  assumes "receive_frame lim inc = (Inr view, rest)"
  shows "receive_frame_wire lim (foldr Arrives inc w) = Some (Inr view, foldr Arrives rest w)"
proof -
  obtain prefix inc' where head: "receive_exact 4 inc = (Inr prefix, inc')"
    using assms by (auto simp: receive_frame_def split: prod.splits sum.splits)
  let ?n = "(ucast (prefix ! 0) OR push_bit 8 (ucast (prefix ! 1)) OR push_bit 16 (ucast (prefix ! 2)) OR
    push_bit 24 (ucast (prefix ! 3)) :: u32)"
  have n: "\<not> (?n = 0 \<or> unat (max_frame_size lim) < unat ?n + 4)"
    using assms head by (auto simp: receive_frame_def Let_def)
  obtain remainder where body: "receive_exact (unat ?n) inc' = (Inr remainder, rest)"
    and view: "decode_frame lim (prefix @ remainder) = Inr view"
    using assms head n
    by (auto simp: receive_frame_def Let_def split: prod.splits sum.splits if_splits)
  have head': "receive_exact_wire 4 (foldr Arrives inc w) = Some (Inr prefix, foldr Arrives inc' w)"
    using receive_loop_wire_list head by (simp add: receive_exact_def receive_exact_wire_def)
  have body': "receive_exact_wire (unat ?n) (foldr Arrives inc' w) = Some (Inr remainder, foldr Arrives rest w)"
    using receive_loop_wire_list body by (simp add: receive_exact_def receive_exact_wire_def)
  show ?thesis
    unfolding receive_frame_wire_def head' Let_def option.case prod.case sum.case if_not_P [OF n] body' view ..
qed

lemma receive_frame_wire_closed:
  assumes "receive_frame lim inc = (answer, rest)"
  shows "receive_frame_wire lim (closed_wire inc) = Some (answer, closed_wire rest)"
proof -
  have exact: "receive_exact_wire n (closed_wire x) = Some (a, closed_wire y)" if "receive_exact n x = (a, y)" for n x a y
    using that receive_loop_wire_closed by (simp add: receive_exact_def receive_exact_wire_def)
  obtain a inc' where head: "receive_exact 4 inc = (a, inc')" by (cases "receive_exact 4 inc")
  show ?thesis
  proof (cases a)
    case (Inl status)
    with assms head exact [OF head] show ?thesis by (auto simp: receive_frame_def receive_frame_wire_def)
  next
    case (Inr prefix)
    let ?n = "(ucast (prefix ! 0) OR push_bit 8 (ucast (prefix ! 1)) OR push_bit 16 (ucast (prefix ! 2)) OR
      push_bit 24 (ucast (prefix ! 3)) :: u32)"
    obtain b inc'' where body: "receive_exact (unat ?n) inc' = (b, inc'')" by (cases "receive_exact (unat ?n) inc'")
    show ?thesis
      using assms exact [OF head] exact [OF body] head body Inr
      by (cases b) (auto simp: receive_frame_def receive_frame_wire_def Let_def split: if_splits)
  qed
qed

section \<open>Every receive is a finite one\<close>

text \<open>A frame that was received from a wire has arrived in finitely many segments.\<close>

lemma receive_loop_wire_length:
  "receive_loop_wire n buffer w = Some (Inr bs, rest) \<Longrightarrow> length bs = length buffer + n"
proof (induction n buffer w rule: receive_loop_wire.induct)
  case (1 n buffer w)
  show ?case
  proof (cases "n = 0")
    case True
    with 1(2) show ?thesis by (simp add: receive_loop_wire.simps)
  next
    case False
    then obtain cs left where x: "recv_wire n w = Some (Inr cs, left)"
      using 1(2) by (subst (asm) receive_loop_wire.simps) (auto split: option.splits prod.splits sum.splits)
    then have "receive_loop_wire (n - length cs) (buffer @ cs) left = Some (Inr bs, rest)"
      using 1(2) False by (subst (asm) receive_loop_wire.simps) simp
    with 1(1) [OF False x refl refl] recv_wire_some [OF x] False show ?thesis by simp
  qed
qed

lemma receive_frame_wire_finite:
  assumes "receive_frame_wire lim w = Some (Inr view, rest)"
  obtains inc where "receive_frame lim inc = (Inr view, [])"
proof -
  obtain prefix w' where head: "receive_exact_wire 4 w = Some (Inr prefix, w')"
    using assms by (auto simp: receive_frame_wire_def split: option.splits prod.splits sum.splits)
  let ?n = "(ucast (prefix ! 0) OR push_bit 8 (ucast (prefix ! 1)) OR push_bit 16 (ucast (prefix ! 2)) OR
    push_bit 24 (ucast (prefix ! 3)) :: u32)"
  have n: "\<not> (?n = 0 \<or> unat (max_frame_size lim) < unat ?n + 4)"
    using assms head by (auto simp: receive_frame_wire_def Let_def)
  obtain remainder where body: "receive_exact_wire (unat ?n) w' = Some (Inr remainder, rest)"
    and view: "decode_frame lim (prefix @ remainder) = Inr view"
    using assms head n
    by (auto simp: receive_frame_wire_def Let_def split: option.splits prod.splits sum.splits if_splits)
  have four: "length prefix = 4" and len: "length remainder = unat ?n"
    using receive_loop_wire_length head body by (fastforce simp: receive_exact_wire_def)+
  have recv: "receive_exact (length bs) [Data bs, Data cs] = (Inr bs, [Data cs])" if "bs \<noteq> []" for bs cs
    using that by (simp add: receive_exact_def receive_loop.simps)
  have last: "receive_exact (length bs) [Data bs] = (Inr bs, [])" if "bs \<noteq> []" for bs
    using that by (simp add: receive_exact_def receive_loop.simps)
  have "0 < unat ?n" using n unfolding unat_gt_0 by blast
  then have ne: "prefix \<noteq> []" "remainder \<noteq> []" using four unfolding len [symmetric] by auto
  have "receive_frame lim [Data prefix, Data remainder] = (Inr view, [])"
    using recv [OF ne(1)] last [OF ne(2)] unfolding four len receive_frame_def
    by (simp only: prod.case sum.case Let_def if_not_P [OF n] view)
  then show thesis by (rule that)
qed

section \<open>Silence\<close>

lemma flowing_recv: "flowing inc \<Longrightarrow> recv n inc = (Inr bs, rest) \<Longrightarrow> 0 < n \<Longrightarrow> flowing rest"
  by (cases "(n, inc)" rule: recv.cases) (auto simp: flowing_def split: if_splits)

lemma flowing_receive_loop: "flowing inc \<Longrightarrow> receive_loop n buffer inc = (Inr bs, rest) \<Longrightarrow> flowing rest"
proof (induction n buffer inc rule: receive_loop.induct)
  case (1 n buffer inc)
  show ?case
  proof (cases "n = 0")
    case True
    with 1(2,3) show ?thesis by (simp add: receive_loop.simps)
  next
    case False
    then obtain cs left where x: "recv n inc = (Inr cs, left)"
      using 1(3) by (subst (asm) receive_loop.simps) (auto split: prod.splits sum.splits)
    then have "receive_loop (n - length cs) (buffer @ cs) left = (Inr bs, rest)"
      using 1(3) False by (subst (asm) receive_loop.simps) simp
    with 1(1) [OF False x [symmetric] refl] flowing_recv [OF 1(2) x] False show ?thesis by simp
  qed
qed

lemma flowing_receive_frame:
  assumes "flowing inc" and "receive_frame lim inc = (Inr view, rest)"
  shows "flowing rest"
proof -
  obtain prefix inc' where head: "receive_exact 4 inc = (Inr prefix, inc')"
    using assms(2) by (auto simp: receive_frame_def split: prod.splits sum.splits)
  moreover obtain n remainder where "receive_exact n inc' = (Inr remainder, rest)"
    using assms(2) head
    by (auto simp: receive_frame_def Let_def split: prod.splits sum.splits if_splits)
  ultimately show ?thesis
    using flowing_receive_loop flowing_receive_loop [OF assms(1)] unfolding receive_exact_def by blast
qed

lemma flowing_empty: "flowing inc \<Longrightarrow> stream_bytes inc = [] \<Longrightarrow> inc = []"
  by (cases inc rule: stream_bytes.cases) (auto simp: flowing_def)

lemma receive_frame_idle: "receive_frame_wire lim (idle_wire []) = None"
  by (simp add: receive_frame_wire_def receive_exact_wire_def receive_loop_wire.simps recv_wire_def idle_wire_def)

end
