(* ===== verification/Coordinator.thy ===== *)
theory Coordinator
  imports Inspection Messages Persistence Wire
begin

text \<open>
  \<open>CoordinatorServer\<close> of \<open>cluster.cpp\<close>: what the server does with each frame that a connection
  delivers. The state is the engine, the configuration, the files, the connected peers in the order
  of their registration, the shutdown flag, and the frames handed to \<open>Peer::send\<close>, each with the
  connection it goes to. The results of the sends are ignored by the source. A connection thread
  handles one frame at a time; the handling of one frame is one step of the model.
\<close>

section \<open>State\<close>

record coordinator_config =
  cf_state_path :: string
  cf_limits :: limits
  cf_persist_on_mutation :: bool
  cf_coordinator_name :: string

text \<open>\<open>Peer\<close>, with the local flag \<open>announced_worker\<close> of the thread that serves it.\<close>

record peer =
  pr_worker :: worker_id
  pr_boot :: worker_boot_id
  pr_is_worker :: bool
  pr_announced :: bool

definition new_peer :: peer where
  "new_peer = \<lparr>pr_worker = 0, pr_boot = 0, pr_is_worker = False, pr_announced = False\<rparr>"

record coordinator =
  co_engine :: engine
  co_config :: coordinator_config
  co_files :: file_system
  co_peers :: "(nat \<times> peer) list"
  co_shutdown :: bool
  co_sent :: "(nat \<times> frame_view) list"

record coordinator_status =
  cs_port :: u16
  cs_epoch :: coordinator_epoch
  cs_recovered :: bool
  cs_recovery :: recovery_report

definition register_peer :: "nat \<Rightarrow> coordinator \<Rightarrow> coordinator" where
  "register_peer pid c = c\<lparr>co_peers := co_peers c @ [(pid, new_peer)]\<rparr>"

definition find_worker_peer :: "worker_id \<Rightarrow> coordinator \<Rightarrow> nat option" where
  "find_worker_peer worker c =
     map_option fst (find (\<lambda>(pid, p). pr_is_worker p \<and> pr_worker p = worker) (co_peers c))"

definition worker_peers :: "coordinator \<Rightarrow> nat list" where
  "worker_peers c = map fst (filter (\<lambda>(pid, p). pr_is_worker p) (co_peers c))"

definition peer_send :: "nat \<Rightarrow> message_type \<Rightarrow> u64 \<Rightarrow> bytes \<Rightarrow> coordinator \<Rightarrow> coordinator" where
  "peer_send pid t correlation payload c =
     c\<lparr>co_sent := co_sent c @ [(pid, \<lparr>fv_type = t, fv_correlation_id = correlation,
       fv_coordinator_epoch = engine_epoch (co_engine c), fv_payload = payload\<rparr>)]\<rparr>"

definition reply_error :: "nat \<Rightarrow> u64 \<Rightarrow> status \<Rightarrow> coordinator \<Rightarrow> coordinator" where
  "reply_error pid correlation status =
     peer_send pid MT_Error correlation
       (encode_error_message \<lparr>em_code = st_code status, em_message = st_message status\<rparr>)"

definition push_assignment :: "u64 \<Rightarrow> decision \<Rightarrow> string \<Rightarrow> coordinator \<Rightarrow> coordinator" where
  "push_assignment correlation d workload c =
     (if dc_outcome d \<noteq> DO_Placed \<or> pl_worker (dc_placement d) = 0 then c
      else case find_worker_peer (pl_worker (dc_placement d)) c of
          None \<Rightarrow> c
        | Some worker_peer \<Rightarrow> peer_send worker_peer MT_Assign correlation
            (encode_assign \<lparr>as_authority = dc_authority d, as_workload = workload\<rparr>) c)"

section \<open>Start and save\<close>

text \<open>\<open>listening\<close> is the answer of \<open>listen_loopback\<close>, \<open>port\<close> the port it binds.\<close>

definition coordinator_engine_config :: "coordinator_config \<Rightarrow> engine_config" where
  "coordinator_engine_config cfg = \<lparr>cfg_limits = cf_limits cfg, cfg_default_weights = default_weights,
     cfg_id_seed = 1, cfg_record_audit = True\<rparr>"

definition coordinator_recover ::
  "coordinator_config \<Rightarrow> file_system \<Rightarrow> engine \<Rightarrow> (recovery_report option \<times> engine) result" where
  "coordinator_recover cfg fs e =
     (if cf_state_path cfg = [] \<or> fs (cf_state_path cfg) = None then Inr (None, e)
      else case load_durable_state (cf_limits cfg) (cf_state_path cfg) fs of
          Inl status \<Rightarrow> Inl status
        | Inr durable \<Rightarrow>
            (case import_state durable e of
               (Inl status, e') \<Rightarrow> Inl status
             | (Inr report, e') \<Rightarrow> Inr (Some report, e')))"

definition coordinator_start ::
  "coordinator_config \<Rightarrow> file_system \<Rightarrow> status \<Rightarrow> u16 \<Rightarrow> (coordinator_status \<times> coordinator) result" where
  "coordinator_start cfg fs listening port =
     (case coordinator_recover cfg fs (make_engine (coordinator_engine_config cfg)) of
        Inl status \<Rightarrow> Inl status
      | Inr (recovery, e) \<Rightarrow>
          if \<not> status_ok listening then Inl listening
          else Inr
            (\<lparr>cs_port = port, cs_epoch = engine_epoch e, cs_recovered = (recovery \<noteq> None),
              cs_recovery = (case recovery of None \<Rightarrow> empty_recovery | Some report \<Rightarrow> report)\<rparr>,
             \<lparr>co_engine = e, co_config = cfg, co_files = fs, co_peers = [], co_shutdown = False,
              co_sent = []\<rparr>))"

definition save_state :: "string \<Rightarrow> save_io \<Rightarrow> coordinator \<Rightarrow> status \<times> coordinator" where
  "save_state path io c =
     (if path = [] then (Status E_InvalidArgument ''no persistence path configured'', c)
      else let (status, fs) = save_durable_state (export_state (co_engine c)) path io (co_files c)
        in (status, c\<lparr>co_files := fs\<rparr>))"

definition persist :: "save_io \<Rightarrow> coordinator \<Rightarrow> coordinator" where
  "persist io c =
     (if cf_persist_on_mutation (co_config c) \<and> cf_state_path (co_config c) \<noteq> []
      then snd (save_state (cf_state_path (co_config c)) io c) else c)"

section \<open>Inspection\<close>

definition split_subject :: "string \<Rightarrow> string \<times> string" where
  "split_subject subject =
     (takeWhile (\<lambda>ch. ch \<noteq> CHR '' '') subject, drop 1 (dropWhile (\<lambda>ch. ch \<noteq> CHR '' '') subject))"

definition inspect_error :: "status \<Rightarrow> string" where
  "inspect_error status = ''error '' @ status_to_string status @ newline"

definition inspect_record :: "('a \<Rightarrow> string) \<Rightarrow> 'a result \<Rightarrow> string" where
  "inspect_record render found = (case found of Inl status \<Rightarrow> inspect_error status | Inr x \<Rightarrow> render x)"

definition inspect_identity :: "id_kind \<Rightarrow> string \<Rightarrow> string \<Rightarrow> (u64 \<Rightarrow> string) \<Rightarrow> string" where
  "inspect_identity k what argument found =
     (case id_parse k argument of
        None \<Rightarrow> ''error invalid '' @ what @ '' identity: '' @ argument @ newline
      | Some i \<Rightarrow> found i)"

definition inspect_placement :: "engine \<Rightarrow> placement_record \<Rightarrow> string" where
  "inspect_placement e p =
     render_placement_detail p
       (case get_reservation (pl_reservation p) e of Inl _ \<Rightarrow> None | Inr v \<Rightarrow> Some v)"

definition inspect_decision :: "engine \<Rightarrow> decision_id \<Rightarrow> string" where
  "inspect_decision e i = inspect_record (\<lambda>d. render_explanation (dc_explanation d)) (get_decision i e)"

definition inspect_subject :: "engine \<Rightarrow> file_system \<Rightarrow> limits \<Rightarrow> string \<Rightarrow> string" where
  "inspect_subject e fs lim subject =
     (let (verb, argument) = split_subject subject in
      if verb = ''resources'' then render_resources (list_resources e)
      else if verb = ''requests'' then render_requests (list_requests e)
      else if verb = ''placements'' then render_placements (list_placements e)
      else if verb = ''reservations'' then render_reservations (list_reservations e)
      else if verb = ''stale'' then render_stale_resources (list_stale_resources e)
      else if verb = ''workers'' then render_workers (list_workers e)
      else if verb = ''epoch'' then render_epoch (engine_epoch e)
      else if verb = ''accounting'' then render_accounting (accounting e)
      else if verb = ''invariants'' then render_invariants (validate_invariants e)
      else if verb = ''audit'' then render_audit (list_audit e)
      else if verb = ''resource'' then
        inspect_identity K_ResourceId ''resource'' argument
          (\<lambda>i. inspect_record render_resource_detail (get_resource i e))
      else if verb = ''request'' then
        inspect_identity K_ScheduleRequestId ''scheduling request'' argument
          (\<lambda>i. inspect_record render_request_detail (get_request i e))
      else if verb = ''placement'' then
        inspect_identity K_PlacementId ''placement'' argument
          (\<lambda>i. inspect_record (inspect_placement e) (get_placement i e))
      else if verb = ''explain'' then
        inspect_identity K_DecisionId ''decision'' argument (inspect_decision e)
      else if verb = ''explain-placement'' then
        inspect_identity K_PlacementId ''placement'' argument
          (\<lambda>i. inspect_record (\<lambda>p. inspect_decision e (pl_decision p)) (get_placement i e))
      else if verb = ''state-validate'' then
        inspect_record render_durable_state_validation (load_durable_state lim argument fs)
      else ''error unknown inspection subject: '' @ subject @ newline)"

section \<open>Handlers\<close>

text \<open>
  One definition per case of the switch. A handler gets the connection, the correlation and the
  payload and returns the coordinator with the flag \<open>mutated\<close>. A payload that does not decode is
  answered with an error and nothing else happens.
\<close>

definition decoded ::
  "'m result \<Rightarrow> nat \<Rightarrow> u64 \<Rightarrow> ('m \<Rightarrow> coordinator \<Rightarrow> coordinator \<times> bool) \<Rightarrow> coordinator \<Rightarrow> coordinator \<times> bool" where
  "decoded message pid correlation handle c =
     (case message of
        Inl status \<Rightarrow> (reply_error pid correlation status c, False)
      | Inr m \<Rightarrow> handle m c)"

definition lim_of :: "coordinator \<Rightarrow> limits" where
  "lim_of c = cf_limits (co_config c)"

definition announce_worker :: "nat \<Rightarrow> worker_id \<Rightarrow> worker_boot_id \<Rightarrow> coordinator \<Rightarrow> coordinator" where
  "announce_worker pid worker boot c =
     c\<lparr>co_peers := map (\<lambda>(k, p). if k = pid
         then (k, p\<lparr>pr_worker := worker, pr_boot := boot, pr_is_worker := True, pr_announced := True\<rparr>)
         else (k, p)) (co_peers c)\<rparr>"

definition handle_hello :: "nat \<Rightarrow> u64 \<Rightarrow> bytes \<Rightarrow> coordinator \<Rightarrow> coordinator \<times> bool" where
  "handle_hello pid correlation payload c =
     decoded (decode_hello (lim_of c) payload) pid correlation (\<lambda>m c.
       let e = snd (worker_connected (hl_worker m) (hl_boot m) (co_engine c));
           c = announce_worker pid (hl_worker m) (hl_boot m) (c\<lparr>co_engine := e\<rparr>)
       in (peer_send pid MT_HelloAck correlation
             (encode_hello_ack \<lparr>ha_epoch = engine_epoch e,
               ha_coordinator = cf_coordinator_name (co_config c)\<rparr>) c, False)) c"

text \<open>The acknowledgement of a resource operation, and whether it mutated the engine.\<close>

definition resource_ack :: "resource_id \<Rightarrow> resource_record result \<Rightarrow> resource_ack_message" where
  "resource_ack i found =
     (case found of
        Inr r \<Rightarrow> \<lparr>rk_resource = i, rk_generation = res_generation r, rk_lifecycle = res_lifecycle r,
          rk_code = E_Ok, rk_detail = []\<rparr>
      | Inl status \<Rightarrow> \<lparr>rk_resource = i, rk_generation = 0, rk_lifecycle = RL_Registered,
          rk_code = st_code status, rk_detail = st_message status\<rparr>)"

definition handle_resource ::
  "message_type \<Rightarrow> nat \<Rightarrow> u64 \<Rightarrow> bytes \<Rightarrow> coordinator \<Rightarrow> coordinator \<times> bool" where
  "handle_resource t pid correlation payload c =
     decoded (decode_resource_message (lim_of c) payload) pid correlation (\<lambda>m c.
       let (found, e) = (if t = MT_RegisterResource
             then register_resource (rm_advertisement m) (co_engine c)
             else publish_resource_state (rm_advertisement m) (co_engine c))
       in (peer_send pid MT_ResourceAck correlation
             (encode_resource_ack (resource_ack (adv_id (rm_advertisement m)) found)) (c\<lparr>co_engine := e\<rparr>),
           \<not> isl found)) c"

definition handle_retire :: "nat \<Rightarrow> u64 \<Rightarrow> bytes \<Rightarrow> coordinator \<Rightarrow> coordinator \<times> bool" where
  "handle_retire pid correlation payload c =
     decoded (decode_retire (lim_of c) payload) pid correlation (\<lambda>m c.
       let (found, e) = retire_resource (rt_resource m) (rt_generation m) (co_engine c)
       in (peer_send pid MT_ResourceAck correlation
             (encode_resource_ack (resource_ack (rt_resource m) found)) (c\<lparr>co_engine := e\<rparr>),
           \<not> isl found)) c"

definition decision_reply :: "decision result \<Rightarrow> decision_message" where
  "decision_reply found =
     (case found of
        Inr d \<Rightarrow> \<lparr>dm_decision = dc_id d, dm_outcome = dc_outcome d, dm_failure = dc_failure d,
          dm_failure_detail = dc_failure_detail d, dm_placement = dc_placement d,
          dm_authority = dc_authority d, dm_explanation = render_explanation (dc_explanation d)\<rparr>
      | Inl status \<Rightarrow> \<lparr>dm_decision = 0, dm_outcome = DO_NoPlacement, dm_failure = st_code status,
          dm_failure_detail = st_message status, dm_placement = empty_placement,
          dm_authority = empty_authority, dm_explanation = []\<rparr>)"

definition handle_schedule :: "nat \<Rightarrow> u64 \<Rightarrow> bytes \<Rightarrow> coordinator \<Rightarrow> coordinator \<times> bool" where
  "handle_schedule pid correlation payload c =
     decoded (decode_schedule (lim_of c) payload) pid correlation (\<lambda>m c.
       let (found, e) = submit_request (sm_request m) (co_engine c);
           c = peer_send pid MT_Decision correlation (encode_decision (decision_reply found))
             (c\<lparr>co_engine := e\<rparr>)
       in (case found of
             Inl _ \<Rightarrow> (c, False)
           | Inr d \<Rightarrow> (push_assignment correlation d (sr_workload (sm_request m)) c, True))) c"

definition empty_lifecycle_ack :: lifecycle_ack_message where
  "empty_lifecycle_ack = \<lparr>la_placement = 0, la_generation = 0, la_state = PL_Reserved, la_code = E_Ok,
     la_detail = [], la_released_reservations = 0, la_affected = 0\<rparr>"

definition handle_progress ::
  "message_type \<Rightarrow> nat \<Rightarrow> u64 \<Rightarrow> bytes \<Rightarrow> coordinator \<Rightarrow> coordinator \<times> bool" where
  "handle_progress t pid correlation payload c =
     decoded (decode_authority (lim_of c) payload) pid correlation (\<lambda>m c.
       let (found, e) = (if t = MT_AssignAck
             then mark_assigned (am_placement m) (am_generation m) (am_epoch m) (am_worker_boot m) (co_engine c)
             else mark_running (am_placement m) (am_generation m) (am_epoch m) (am_worker_boot m) (co_engine c));
           ack = empty_lifecycle_ack\<lparr>la_placement := am_placement m, la_generation := am_generation m\<rparr>;
           ack = (case found of
             Inr p \<Rightarrow> ack\<lparr>la_state := pl_state p\<rparr>
           | Inl status \<Rightarrow> ack\<lparr>la_code := st_code status, la_detail := st_message status\<rparr>)
       in (peer_send pid MT_LifecycleAck correlation (encode_lifecycle_ack ack) (c\<lparr>co_engine := e\<rparr>),
           \<not> isl found)) c"

definition handle_completion :: "nat \<Rightarrow> u64 \<Rightarrow> bytes \<Rightarrow> coordinator \<Rightarrow> coordinator \<times> bool" where
  "handle_completion pid correlation payload c =
     decoded (decode_completion (lim_of c) payload) pid correlation (\<lambda>claim c.
       let (outcome, e) = report_completion claim (co_engine c)
       in (peer_send pid MT_CompletionAck correlation (encode_completion_ack
             \<lparr>ca_placement = cc_placement claim, ca_state = co_state outcome,
              ca_accepted = co_accepted outcome, ca_duplicate = co_duplicate outcome,
              ca_code = st_code (co_status outcome), ca_detail = st_message (co_status outcome),
              ca_released_reservations = of_nat (length (co_released_reservations outcome))\<rparr>)
             (c\<lparr>co_engine := e\<rparr>), co_accepted outcome)) c"

definition cancellation_detail :: "cancellation_report \<Rightarrow> string" where
  "cancellation_detail report =
     (if status_ok (cn_status report) then cn_detail report else st_message (cn_status report))"

definition handle_cancel_placement :: "nat \<Rightarrow> u64 \<Rightarrow> bytes \<Rightarrow> coordinator \<Rightarrow> coordinator \<times> bool" where
  "handle_cancel_placement pid correlation payload c =
     decoded (decode_cancel_placement (lim_of c) payload) pid correlation (\<lambda>m c.
       let (report, e) = cancel_placement (cp_placement m) (cp_generation m) (cp_epoch m) (cp_reason m)
             (co_engine c)
       in (peer_send pid MT_LifecycleAck correlation (encode_lifecycle_ack
             \<lparr>la_placement = cp_placement m, la_generation = cp_generation m, la_state = cn_state report,
              la_code = st_code (cn_status report), la_detail = cancellation_detail report,
              la_released_reservations = of_nat (length (cn_released_reservations report)),
              la_affected = 0\<rparr>) (c\<lparr>co_engine := e\<rparr>), status_ok (cn_status report))) c"

definition handle_cancel_request :: "nat \<Rightarrow> u64 \<Rightarrow> bytes \<Rightarrow> coordinator \<Rightarrow> coordinator \<times> bool" where
  "handle_cancel_request pid correlation payload c =
     decoded (decode_cancel_request (lim_of c) payload) pid correlation (\<lambda>m c.
       let (report, e) = cancel_request (cq_request m) (cq_reason m) (co_engine c)
       in (peer_send pid MT_LifecycleAck correlation (encode_lifecycle_ack
             (empty_lifecycle_ack\<lparr>la_code := st_code (cn_status report),
              la_detail := cancellation_detail report,
              la_released_reservations := of_nat (length (cn_released_reservations report)),
              la_affected := of_nat (length (cn_cancelled_placements report))\<rparr>)) (c\<lparr>co_engine := e\<rparr>),
           status_ok (cn_status report))) c"

definition replacement_ack :: "cancel_placement_message \<Rightarrow> reassignment_report result \<Rightarrow> lifecycle_ack_message" where
  "replacement_ack m found =
     (let ack = empty_lifecycle_ack\<lparr>la_placement := cp_placement m, la_generation := cp_generation m\<rparr> in
      case found of
        Inl status \<Rightarrow> ack\<lparr>la_code := st_code status, la_detail := st_message status\<rparr>
      | Inr report \<Rightarrow>
          let ack = ack\<lparr>la_code := st_code (rr_status report),
                la_detail := (if status_ok (rr_status report) then ''replacement scheduled''
                  else st_message (rr_status report)),
                la_released_reservations := of_nat (length (rr_revoked_reservations report))\<rparr>
          in if rr_new_placement report = 0 then ack
             else ack\<lparr>la_placement := rr_new_placement report,
               la_generation := rr_new_generation report, la_affected := 1\<rparr>)"

definition handle_replace ::
  "message_type \<Rightarrow> nat \<Rightarrow> u64 \<Rightarrow> bytes \<Rightarrow> coordinator \<Rightarrow> coordinator \<times> bool" where
  "handle_replace t pid correlation payload c =
     decoded (decode_cancel_placement (lim_of c) payload) pid correlation (\<lambda>m c.
       let (found, e) = (if t = MT_Reassign
             then reassign_placement (cp_placement m) (cp_generation m) (cp_epoch m) (cp_reason m) (co_engine c)
             else preempt_placement (cp_placement m) (cp_generation m) (cp_epoch m) (cp_reason m) (co_engine c));
           c = peer_send pid MT_LifecycleAck correlation (encode_lifecycle_ack (replacement_ack m found))
             (c\<lparr>co_engine := e\<rparr>)
       in (case found of
             Inl _ \<Rightarrow> (c, False)
           | Inr report \<Rightarrow>
               (if status_ok (rr_status report) then push_assignment correlation (rr_decision report) [] c else c,
                True))) c"

definition handle_inspect :: "nat \<Rightarrow> u64 \<Rightarrow> bytes \<Rightarrow> coordinator \<Rightarrow> coordinator \<times> bool" where
  "handle_inspect pid correlation payload c =
     decoded (decode_inspect (lim_of c) payload) pid correlation (\<lambda>m c.
       (peer_send pid MT_InspectReply correlation (encode_inspect_reply
          \<lparr>ir_subject = im_subject m,
           ir_text = inspect_subject (co_engine c) (co_files c) (lim_of c) (im_subject m)\<rparr>) c, False)) c"

definition handle_save_state :: "save_io \<Rightarrow> nat \<Rightarrow> u64 \<Rightarrow> bytes \<Rightarrow> coordinator \<Rightarrow> coordinator \<times> bool" where
  "handle_save_state io pid correlation payload c =
     decoded (decode_save_state (lim_of c) payload) pid correlation (\<lambda>m c.
       let path = (if sv_path m = [] then cf_state_path (co_config c) else sv_path m);
           (saved, c) = save_state path io c;
           report = accounting (co_engine c)
       in (peer_send pid MT_StateAck correlation (encode_state_ack
             \<lparr>sa_path = path, sa_epoch = engine_epoch (co_engine c),
              sa_resources = of_nat (length (ar_resources report)),
              sa_requests = ucast (ar_requests_recorded report),
              sa_placements = ucast (ar_placements_recorded report),
              sa_reservations = ucast (ar_reservations_recorded report),
              sa_code = st_code saved, sa_detail = st_message saved\<rparr>) c, False)) c"

definition handle_disconnect_worker :: "nat \<Rightarrow> u64 \<Rightarrow> bytes \<Rightarrow> coordinator \<Rightarrow> coordinator \<times> bool" where
  "handle_disconnect_worker pid correlation payload c =
     decoded (decode_disconnect_worker (lim_of c) payload) pid correlation (\<lambda>m c.
       let (report, e) = mark_worker_lost (dw_worker m) (dw_boot m) (dw_detail m) (co_engine c)
       in (peer_send pid MT_StateAck correlation (encode_state_ack
             \<lparr>sa_path = [], sa_epoch = engine_epoch e,
              sa_resources = of_nat (length (lr_invalidated_resources report)), sa_requests = 0,
              sa_placements = of_nat (length (lr_affected_placements report)),
              sa_reservations = of_nat (length (lr_released_reservations report)),
              sa_code = st_code (lr_status report),
              sa_detail = (if status_ok (lr_status report) then lr_detail report
                else st_message (lr_status report))\<rparr>) (c\<lparr>co_engine := e\<rparr>),
           status_ok (lr_status report))) c"

definition empty_state_ack :: state_ack_message where
  "empty_state_ack = \<lparr>sa_path = [], sa_epoch = 0, sa_resources = 0, sa_requests = 0, sa_placements = 0,
     sa_reservations = 0, sa_code = E_Ok, sa_detail = []\<rparr>"

definition request_shutdown :: "coordinator \<Rightarrow> coordinator" where
  "request_shutdown c = c\<lparr>co_shutdown := True\<rparr>"

definition handle_shutdown :: "nat \<Rightarrow> u64 \<Rightarrow> coordinator \<Rightarrow> coordinator \<times> bool" where
  "handle_shutdown pid correlation c =
     (let detail = ''coordinator shutting down'';
          c = peer_send pid MT_ShutdownAck correlation (encode_state_ack
            (empty_state_ack\<lparr>sa_epoch := engine_epoch (co_engine c), sa_detail := detail\<rparr>)) c;
          c = fold (\<lambda>worker_peer. peer_send worker_peer MT_Shutdown 0
            (encode_state_ack (empty_state_ack\<lparr>sa_detail := detail\<rparr>))) (worker_peers c) c
      in (request_shutdown c, False))"

definition handle_message :: "save_io \<Rightarrow> nat \<Rightarrow> frame_view \<Rightarrow> coordinator \<Rightarrow> coordinator \<times> bool" where
  "handle_message io pid view c =
     (let correlation = fv_correlation_id view; payload = fv_payload view; t = fv_type view in
      case t of
        MT_Hello \<Rightarrow> handle_hello pid correlation payload c
      | MT_RegisterResource \<Rightarrow> handle_resource t pid correlation payload c
      | MT_PublishState \<Rightarrow> handle_resource t pid correlation payload c
      | MT_RetireResource \<Rightarrow> handle_retire pid correlation payload c
      | MT_ScheduleRequest \<Rightarrow> handle_schedule pid correlation payload c
      | MT_AssignAck \<Rightarrow> handle_progress t pid correlation payload c
      | MT_Running \<Rightarrow> handle_progress t pid correlation payload c
      | MT_Completion \<Rightarrow> handle_completion pid correlation payload c
      | MT_CancelPlacement \<Rightarrow> handle_cancel_placement pid correlation payload c
      | MT_CancelRequest \<Rightarrow> handle_cancel_request pid correlation payload c
      | MT_Reassign \<Rightarrow> handle_replace t pid correlation payload c
      | MT_Preempt \<Rightarrow> handle_replace t pid correlation payload c
      | MT_Inspect \<Rightarrow> handle_inspect pid correlation payload c
      | MT_SaveState \<Rightarrow> handle_save_state io pid correlation payload c
      | MT_DisconnectWorker \<Rightarrow> handle_disconnect_worker pid correlation payload c
      | MT_Shutdown \<Rightarrow> handle_shutdown pid correlation c
      | _ \<Rightarrow> (reply_error pid correlation (Status E_ProtocolError
          (''message type '' @ message_type_name t @
           '' is not accepted by the coordinator on this connection'')) c, False))"

definition handle_frame :: "save_io \<Rightarrow> nat \<Rightarrow> frame_view \<Rightarrow> coordinator \<Rightarrow> coordinator" where
  "handle_frame io pid view c =
     (let (c, mutated) = handle_message io pid view c in if mutated then persist io c else c)"

section \<open>Connections\<close>

text \<open>
  The end of a connection: its worker is lost. The source keeps weak references to the peers; the
  reference of an ended thread has expired and every traversal skips it, so the peer is gone here.
\<close>

definition drop_peer :: "nat \<Rightarrow> coordinator \<Rightarrow> coordinator" where
  "drop_peer pid c = c\<lparr>co_peers := filter (\<lambda>(k, p). k \<noteq> pid) (co_peers c)\<rparr>"

definition connection_ended :: "save_io \<Rightarrow> nat \<Rightarrow> peer \<Rightarrow> coordinator \<Rightarrow> coordinator" where
  "connection_ended io pid p c =
     drop_peer pid
       (if pr_announced p \<and> pr_worker p \<noteq> 0 \<and> pr_boot p \<noteq> 0 then
          persist io (c\<lparr>co_engine :=
            snd (mark_worker_lost (pr_worker p) (pr_boot p) ''worker connection ended'' (co_engine c))\<rparr>)
        else c)"

text \<open>
  The loop of a connection thread over what arrives on its socket; \<open>ios i\<close> are the answers of the
  operating system to the save after the \<open>i\<close>-th frame. A frame that is not received ends the
  connection. The thread need not return, which is the result \<open>None\<close>: it waits in \<open>recv\<close> while the peer is
  connected and silent, and it serves a peer that never stops sending for ever.
\<close>

partial_function (option) serve_connection ::
  "(nat \<Rightarrow> save_io) \<Rightarrow> nat \<Rightarrow> nat \<Rightarrow> wire \<Rightarrow> coordinator \<Rightarrow> coordinator option" where
  "serve_connection ios i pid w c =
     (case receive_frame_wire (lim_of c) w of
        None \<Rightarrow> None
      | Some (Inl status, rest) \<Rightarrow>
          Some (case map_of (co_peers c) pid of None \<Rightarrow> c | Some p \<Rightarrow> connection_ended (ios i) pid p c)
      | Some (Inr view, rest) \<Rightarrow> serve_connection ios (i + 1) pid rest (handle_frame (ios i) pid view c))"

text \<open>The end of \<open>run\<close>, after the threads have been joined.\<close>

definition finish_run :: "save_io \<Rightarrow> coordinator \<Rightarrow> coordinator" where
  "finish_run io c =
     (if cf_state_path (co_config c) \<noteq> [] then snd (save_state (cf_state_path (co_config c)) io c) else c)"

text \<open>
  The coordinator as a transition system. The connections interleave freely; a connection that
  arrives before the accept loop has seen the flag is still served.
\<close>

inductive coordinator_step :: "coordinator \<Rightarrow> coordinator \<Rightarrow> bool" where
  step_accept: "map_of (co_peers c) pid = None \<Longrightarrow> coordinator_step c (register_peer pid c)"
| step_frame: "map_of (co_peers c) pid \<noteq> None \<Longrightarrow> receive_frame (lim_of c) inc = (Inr view, rest) \<Longrightarrow>
    coordinator_step c (handle_frame io pid view c)"
| step_end: "map_of (co_peers c) pid = Some p \<Longrightarrow> coordinator_step c (connection_ended io pid p c)"
| step_finish: "co_shutdown c \<Longrightarrow> co_peers c = [] \<Longrightarrow> coordinator_step c (finish_run io c)"

end
