(* ===== verification/ClusterSteps.thy ===== *)
theory ClusterSteps
  imports Coordinator History
begin

text \<open>
  What one frame does to a coordinator: the engine makes at most one step, the sender gets exactly
  one answer, only assignments and shutdown notices go to other connections, and the set of
  connections stays the same.
\<close>

section \<open>Parts that do not change\<close>

lemma peer_send_simps [simp]:
  "co_engine (peer_send pid t k payload c) = co_engine c"
  "co_config (peer_send pid t k payload c) = co_config c"
  "co_files (peer_send pid t k payload c) = co_files c"
  "co_peers (peer_send pid t k payload c) = co_peers c"
  "co_shutdown (peer_send pid t k payload c) = co_shutdown c"
  by (simp_all add: peer_send_def)

lemma reply_error_simps [simp]:
  "co_engine (reply_error pid k status c) = co_engine c"
  "co_config (reply_error pid k status c) = co_config c"
  "co_files (reply_error pid k status c) = co_files c"
  "co_peers (reply_error pid k status c) = co_peers c"
  "co_shutdown (reply_error pid k status c) = co_shutdown c"
  by (simp_all add: reply_error_def)

lemma push_assignment_simps [simp]:
  "co_engine (push_assignment k d workload c) = co_engine c"
  "co_config (push_assignment k d workload c) = co_config c"
  "co_files (push_assignment k d workload c) = co_files c"
  "co_peers (push_assignment k d workload c) = co_peers c"
  "co_shutdown (push_assignment k d workload c) = co_shutdown c"
  by (simp_all add: push_assignment_def split: option.split)

lemma announce_worker_simps [simp]:
  "co_engine (announce_worker pid w b c) = co_engine c"
  "co_config (announce_worker pid w b c) = co_config c"
  "co_files (announce_worker pid w b c) = co_files c"
  "co_sent (announce_worker pid w b c) = co_sent c"
  "co_shutdown (announce_worker pid w b c) = co_shutdown c"
  by (simp_all add: announce_worker_def)

lemma save_state_simps [simp]:
  "co_engine (snd (save_state path io c)) = co_engine c"
  "co_config (snd (save_state path io c)) = co_config c"
  "co_peers (snd (save_state path io c)) = co_peers c"
  "co_sent (snd (save_state path io c)) = co_sent c"
  "co_shutdown (snd (save_state path io c)) = co_shutdown c"
  by (simp_all add: save_state_def case_prod_beta)

lemma persist_simps [simp]:
  "co_engine (persist io c) = co_engine c"
  "co_config (persist io c) = co_config c"
  "co_peers (persist io c) = co_peers c"
  "co_sent (persist io c) = co_sent c"
  "co_shutdown (persist io c) = co_shutdown c"
  by (simp_all add: persist_def)

lemma notices_simps [simp]:
  "co_engine (fold (\<lambda>w. peer_send w t k payload) ws c) = co_engine c"
  "co_config (fold (\<lambda>w. peer_send w t k payload) ws c) = co_config c"
  "co_files (fold (\<lambda>w. peer_send w t k payload) ws c) = co_files c"
  "co_peers (fold (\<lambda>w. peer_send w t k payload) ws c) = co_peers c"
  "co_shutdown (fold (\<lambda>w. peer_send w t k payload) ws c) = co_shutdown c"
  by (induction ws arbitrary: c) simp_all

section \<open>The engine\<close>

lemmas handler_defs = handle_hello_def handle_resource_def handle_retire_def handle_schedule_def
  handle_progress_def handle_completion_def handle_cancel_placement_def handle_cancel_request_def
  handle_replace_def handle_inspect_def handle_save_state_def handle_disconnect_worker_def
  handle_shutdown_def request_shutdown_def decoded_def

text \<open>\<open>at_most_one e e'\<close>: nothing happened, or one operation of the engine.\<close>

definition at_most_one :: "engine \<Rightarrow> engine \<Rightarrow> bool" where
  "at_most_one e e' \<longleftrightarrow> e' = e \<or> engine_step e e'"

lemma at_most_one_same [simp]: "at_most_one e e"
  by (simp add: at_most_one_def)

lemma at_most_one_step: "engine_step e e' \<Longrightarrow> at_most_one e e'"
  by (simp add: at_most_one_def)

lemma handle_message_engine:
  assumes "ids_room (eng_ids (co_engine c))"
  shows "at_most_one (co_engine c) (co_engine (fst (handle_message io pid view c)))"
  unfolding handle_message_def Let_def
  by (cases "fv_type view")
    (auto simp: handler_defs case_prod_beta Let_def split: sum.split
      intro!: at_most_one_step intro: engine_step.intros assms)

lemma handle_frame_parts:
  "co_engine (handle_frame io pid view c) = co_engine (fst (handle_message io pid view c))"
  "co_config (handle_frame io pid view c) = co_config (fst (handle_message io pid view c))"
  "co_peers (handle_frame io pid view c) = co_peers (fst (handle_message io pid view c))"
  "co_sent (handle_frame io pid view c) = co_sent (fst (handle_message io pid view c))"
  by (simp_all add: handle_frame_def case_prod_beta)

lemma handle_frame_engine:
  "ids_room (eng_ids (co_engine c)) \<Longrightarrow> at_most_one (co_engine c) (co_engine (handle_frame io pid view c))"
  unfolding handle_frame_parts by (rule handle_message_engine)

lemma connection_ended_engine:
  "at_most_one (co_engine c) (co_engine (connection_ended io pid p c))"
  by (auto simp: connection_ended_def drop_peer_def intro: at_most_one_step engine_step.intros)

section \<open>Answers\<close>

primrec answer_type :: "message_type \<Rightarrow> message_type" where
  "answer_type MT_Hello = MT_HelloAck"
| "answer_type MT_HelloAck = MT_Error"
| "answer_type MT_RegisterResource = MT_ResourceAck"
| "answer_type MT_PublishState = MT_ResourceAck"
| "answer_type MT_RetireResource = MT_ResourceAck"
| "answer_type MT_ResourceAck = MT_Error"
| "answer_type MT_ScheduleRequest = MT_Decision"
| "answer_type MT_Decision = MT_Error"
| "answer_type MT_Assign = MT_Error"
| "answer_type MT_AssignAck = MT_LifecycleAck"
| "answer_type MT_Running = MT_LifecycleAck"
| "answer_type MT_Completion = MT_CompletionAck"
| "answer_type MT_CompletionAck = MT_Error"
| "answer_type MT_CancelPlacement = MT_LifecycleAck"
| "answer_type MT_CancelRequest = MT_LifecycleAck"
| "answer_type MT_Reassign = MT_LifecycleAck"
| "answer_type MT_Preempt = MT_LifecycleAck"
| "answer_type MT_LifecycleAck = MT_Error"
| "answer_type MT_Inspect = MT_InspectReply"
| "answer_type MT_InspectReply = MT_Error"
| "answer_type MT_SaveState = MT_StateAck"
| "answer_type MT_StateAck = MT_Error"
| "answer_type MT_Shutdown = MT_ShutdownAck"
| "answer_type MT_ShutdownAck = MT_Error"
| "answer_type MT_Error = MT_Error"
| "answer_type MT_DisconnectWorker = MT_StateAck"

text \<open>
  \<open>answers c pid view c'\<close>: the frames sent since \<open>c\<close> are one answer to \<open>pid\<close> with the correlation of
  the request and the epoch of the engine, then assignments and shutdown notices to workers.
\<close>

definition notices :: "coordinator \<Rightarrow> (nat \<times> frame_view) list \<Rightarrow> bool" where
  "notices c fs \<longleftrightarrow> fst ` set fs \<subseteq> set (worker_peers c) \<and> (fv_type \<circ> snd) ` set fs \<subseteq> {MT_Assign, MT_Shutdown}"

definition answers :: "nat \<Rightarrow> frame_view \<Rightarrow> coordinator \<Rightarrow> coordinator \<Rightarrow> bool" where
  "answers pid view c c' \<longleftrightarrow>
     (\<exists>reply fs. co_sent c' = co_sent c @ (pid, reply) # fs \<and>
        fv_type reply \<in> {answer_type (fv_type view), MT_Error} \<and>
        fv_correlation_id reply = fv_correlation_id view \<and>
        fv_coordinator_epoch reply = engine_epoch (co_engine c') \<and> notices c' fs)"

lemma peer_send_sent:
  "co_sent (peer_send pid t k payload c) = co_sent c @ [(pid, \<lparr>fv_type = t, fv_correlation_id = k,
     fv_coordinator_epoch = engine_epoch (co_engine c), fv_payload = payload\<rparr>)]"
  by (simp add: peer_send_def)

lemma answers_send:
  assumes "co_sent c1 = co_sent c" and "t \<in> {answer_type (fv_type view), MT_Error}"
  shows "answers pid view c (peer_send pid t (fv_correlation_id view) payload c1)"
  using assms by (auto simp: answers_def peer_send_sent notices_def)

lemma answers_error:
  "answers pid view c (reply_error pid (fv_correlation_id view) status c)"
  unfolding reply_error_def by (rule answers_send) simp_all

lemma answers_more:
  assumes "answers pid view c c1" and "co_sent c2 = co_sent c1 @ fs" and "notices c2 fs"
    and "co_engine c2 = co_engine c1" and "co_peers c2 = co_peers c1"
  shows "answers pid view c c2"
proof -
  from assms(1) obtain reply gs where g: "co_sent c1 = co_sent c @ (pid, reply) # gs"
    "fv_type reply \<in> {answer_type (fv_type view), MT_Error}"
    "fv_correlation_id reply = fv_correlation_id view"
    "fv_coordinator_epoch reply = engine_epoch (co_engine c1)" "notices c1 gs"
    unfolding answers_def by blast
  have "notices c2 (gs @ fs)" using g(5) assms(3,5) by (simp add: notices_def worker_peers_def image_Un)
  with g assms(2,4) show ?thesis unfolding answers_def by (intro exI [of _ reply] exI [of _ "gs @ fs"]) simp
qed

lemma push_assignment_sent:
  obtains fs where "co_sent (push_assignment k d workload c) = co_sent c @ fs"
    and "notices (push_assignment k d workload c) fs"
proof (cases "dc_outcome d \<noteq> DO_Placed \<or> pl_worker (dc_placement d) = 0 \<or>
    find_worker_peer (pl_worker (dc_placement d)) c = None")
  case True
  then have "push_assignment k d workload c = c" by (auto simp: push_assignment_def)
  then show ?thesis using that [of "[]"] by (simp add: notices_def)
next
  case False
  then obtain w where w: "find_worker_peer (pl_worker (dc_placement d)) c = Some w" by auto
  then obtain q where "find (\<lambda>(pid, p). pr_is_worker p \<and> pr_worker p = pl_worker (dc_placement d)) (co_peers c) = Some (w, q)"
    by (auto simp: find_worker_peer_def)
  then have "(w, q) \<in> set (co_peers c)" "pr_is_worker q" by (auto simp: find_Some_iff set_conv_nth)
  then have "w \<in> set (worker_peers c)" by (force simp: worker_peers_def)
  with False w that show ?thesis
    by (auto simp: push_assignment_def peer_send_sent notices_def worker_peers_def)
qed

lemma answers_push: "answers pid view c c1 \<Longrightarrow> answers pid view c (push_assignment k d workload c1)"
  by (rule push_assignment_sent [of k d workload c1]) (auto intro: answers_more)

lemma notices_sent:
  "\<exists>fs. co_sent (fold (\<lambda>w. peer_send w MT_Shutdown 0 payload) ws c) = co_sent c @ fs \<and>
     fst ` set fs = set ws \<and> (fv_type \<circ> snd) ` set fs \<subseteq> {MT_Shutdown}"
proof (induction ws arbitrary: c)
  case (Cons w ws)
  let ?c = "peer_send w MT_Shutdown 0 payload c"
  from Cons.IH [of ?c] obtain fs where
    "co_sent (fold (\<lambda>w. peer_send w MT_Shutdown 0 payload) ws ?c) = co_sent ?c @ fs"
    "fst ` set fs = set ws" "(fv_type \<circ> snd) ` set fs \<subseteq> {MT_Shutdown}" by blast
  then show ?case
    by (intro exI [of _ "(w, \<lparr>fv_type = MT_Shutdown, fv_correlation_id = 0,
      fv_coordinator_epoch = engine_epoch (co_engine c), fv_payload = payload\<rparr>) # fs"])
      (auto simp: peer_send_sent)
qed simp

lemma handle_shutdown_answers:
  assumes "fv_type view = MT_Shutdown"
  shows "answers pid view c (fst (handle_shutdown pid (fv_correlation_id view) c))"
proof -
  let ?ack = "encode_state_ack (empty_state_ack\<lparr>sa_epoch := engine_epoch (co_engine c),
    sa_detail := ''coordinator shutting down''\<rparr>)"
  let ?note = "encode_state_ack (empty_state_ack\<lparr>sa_detail := ''coordinator shutting down''\<rparr>)"
  let ?c1 = "peer_send pid MT_ShutdownAck (fv_correlation_id view) ?ack c"
  let ?c2 = "fold (\<lambda>w. peer_send w MT_Shutdown 0 ?note) (worker_peers ?c1) ?c1"
  obtain fs where fs: "co_sent ?c2 = co_sent ?c1 @ fs" "fst ` set fs = set (worker_peers ?c1)"
    "(fv_type \<circ> snd) ` set fs \<subseteq> {MT_Shutdown}" using notices_sent by blast
  have result: "fst (handle_shutdown pid (fv_correlation_id view) c) = request_shutdown ?c2"
    by (simp add: handle_shutdown_def Let_def)
  show ?thesis unfolding result
    by (rule answers_more [OF answers_send [where t = MT_ShutdownAck and ?c1.0 = c]])
      (use fs assms in \<open>auto simp: notices_def worker_peers_def request_shutdown_def\<close>)
qed

lemma handle_message_answers:
  "answers pid view c (fst (handle_message io pid view c))"
proof -
  note step = answers_send answers_error answers_push
  have shutdown: "answers pid view c (fst (handle_message io pid view c))" if "fv_type view = MT_Shutdown"
    using handle_shutdown_answers [OF that] that by (simp add: handle_message_def)
  show ?thesis
    by (cases "fv_type view")
      (simp_all add: shutdown answers_error,
       auto simp: handle_message_def handler_defs case_prod_beta Let_def split: sum.split intro!: step)
qed

end
