(* ===== verification/Profiles.thy ===== *)
theory Profiles
  imports Resource
begin

text \<open>
  \<open>lab_profiles.cpp\<close>: the three synthetic laboratories that the reference workers advertise. The
  advertisements are built like in the source: a base advertisement, then the members the profile
  assigns.
\<close>

record profile_blueprint =
  bp_name :: string
  bp_worker :: worker_id
  bp_boot :: worker_boot_id
  bp_resources :: "resource_advertisement list"

definition kAlphaGpuResource :: resource_id where "kAlphaGpuResource = 0x1001"
definition kAlphaModelResource :: resource_id where "kAlphaModelResource = 0x1002"
definition kAlphaDatasetResource :: resource_id where "kAlphaDatasetResource = 0x1003"
definition kBetaGpuResource :: resource_id where "kBetaGpuResource = 0x2001"
definition kBetaSimulatorResource :: resource_id where "kBetaSimulatorResource = 0x2002"
definition kBetaDatasetResource :: resource_id where "kBetaDatasetResource = 0x2003"
definition kGammaVirtualEnvironmentResource :: resource_id where
  "kGammaVirtualEnvironmentResource = 0x3001"
definition kGammaPhysicalRigResource :: resource_id where "kGammaPhysicalRigResource = 0x3002"
definition kAlphaWorkerId :: worker_id where "kAlphaWorkerId = 0x11"
definition kBetaWorkerId :: worker_id where "kBetaWorkerId = 0x12"
definition kGammaWorkerId :: worker_id where "kGammaWorkerId = 0x13"
definition kTrainingModelId :: model_resource_id where "kTrainingModelId = 0x1f01"
definition kGridSimulatorId :: simulator_id where "kGridSimulatorId = 0x1f02"
definition kCorpusDatasetId :: dataset_id where "kCorpusDatasetId = 0x1f03"
definition kCorpusDatasetVersion1 :: dataset_version_id where "kCorpusDatasetVersion1 = 0x2f01"
definition kCorpusDatasetVersion2 :: dataset_version_id where "kCorpusDatasetVersion2 = 0x2f02"
definition kRoboticsEnvironmentId :: environment_id where "kRoboticsEnvironmentId = 0x1f04"
definition kRoboticsVirtualEnvironmentId :: virtual_environment_id where
  "kRoboticsVirtualEnvironmentId = 0x3f01"
definition kRoboticsPhysicalEnvironmentId :: physical_environment_id where
  "kRoboticsPhysicalEnvironmentId = 0x3f02"

text \<open>The result of \<open>set.add\<close> is ignored: a name that is refused leaves the set as it was.\<close>

definition profile_capabilities :: "string list \<Rightarrow> limits \<Rightarrow> capability_set" where
  "profile_capabilities names lim =
     fold (\<lambda>name s. case cap_add_name lim name s of Inl _ \<Rightarrow> s | Inr s' \<Rightarrow> s') names []"

definition base_advertisement ::
  "resource_id \<Rightarrow> resource_class \<Rightarrow> string \<Rightarrow> worker_id \<Rightarrow> worker_boot_id \<Rightarrow> topology_domain_id
   \<Rightarrow> resource_advertisement" where
  "base_advertisement i c name worker boot host = \<lparr>
     adv_id = i, adv_resource_class = c, adv_name = name, adv_worker = worker, adv_boot = boot,
     adv_provenance = PV_Synthetic, adv_sharing = SM_Shared, adv_capabilities = [],
     adv_capacity = \<lparr>rcap_slots = 1, rcap_memory_bytes = 0, rcap_max_sessions = 1\<rparr>,
     adv_current_occupancy = 0, adv_health = HS_Healthy, adv_health_detail = [],
     adv_readiness = RD_Ready,
     adv_topology = unknown_topology\<lparr>
       topo_host := \<lparr>td_id = host, td_name = id_to_string K_TopologyDomainId host\<rparr>,
       topo_supplied := True\<rparr>,
     adv_locality = empty_locality, adv_accelerators = [], adv_model = None,
     adv_simulator = None, adv_dataset = None, adv_environment = None, adv_tenant = [],
     adv_labels = []\<rparr>"

definition alpha_resources :: "worker_boot_id \<Rightarrow> u32 \<Rightarrow> resource_advertisement list" where
  "alpha_resources boot current_occupancy =
     (let lim = default_limits; worker = kAlphaWorkerId;
          host = topology_domain_from_name ''lab-host-alpha'';
          gpu = (base_advertisement kAlphaGpuResource RC_Gpu ''alpha-gpu-0'' worker boot host)\<lparr>
            adv_capabilities :=
              profile_capabilities [''cuda'', ''gpu.memory.24gb'', ''training'', ''inference''] lim,
            adv_capacity := \<lparr>rcap_slots = 2, rcap_memory_bytes = 24 * 1024 * 1024 * 1024,
              rcap_max_sessions = 2\<rparr>,
            adv_current_occupancy := current_occupancy,
            adv_sharing := SM_Shared,
            adv_accelerators := [\<lparr>acc_id = 0x1a01, acc_model = ''synthetic-accelerator-alpha'',
              acc_memory_bytes = 24 * 1024 * 1024 * 1024, acc_compute_capability_major = 9,
              acc_compute_capability_minor = 0, acc_root_complex = 0\<rparr>]\<rparr>;
          model = (base_advertisement kAlphaModelResource RC_Model ''alpha-model-endpoint'' worker boot host)\<lparr>
            adv_capabilities := profile_capabilities [''inference'', ''model.chat''] lim,
            adv_capacity := \<lparr>rcap_slots = 4, rcap_memory_bytes = 0, rcap_max_sessions = 4\<rparr>,
            adv_model := Some \<lparr>mdl_id = kTrainingModelId, mdl_version = ''1.4.0'',
              mdl_context_window = 32768, mdl_tool_support = True, mdl_resident = True,
              mdl_modalities = profile_capabilities [''text''] lim\<rparr>,
            adv_locality := empty_locality\<lparr>loc_resident_models := [kTrainingModelId]\<rparr>\<rparr>;
          dataset = (base_advertisement kAlphaDatasetResource RC_Dataset ''alpha-corpus-v1'' worker boot host)\<lparr>
            adv_capabilities := profile_capabilities [''dataset.read''] lim,
            adv_capacity := \<lparr>rcap_slots = 4, rcap_memory_bytes = 0, rcap_max_sessions = 4\<rparr>,
            adv_dataset := Some \<lparr>ds_id = kCorpusDatasetId, ds_version = kCorpusDatasetVersion1,
              ds_digest = ''sha256:alpha-corpus-v1'', ds_size_bytes = 64 * 1024 * 1024\<rparr>,
            adv_locality := empty_locality\<lparr>loc_local_dataset_versions := [kCorpusDatasetVersion1]\<rparr>\<rparr>
      in [gpu, model, dataset])"

definition beta_resources :: "worker_boot_id \<Rightarrow> u32 \<Rightarrow> resource_advertisement list" where
  "beta_resources boot current_occupancy =
     (let lim = default_limits; worker = kBetaWorkerId;
          host = topology_domain_from_name ''lab-host-beta'';
          gpu = (base_advertisement kBetaGpuResource RC_Gpu ''beta-gpu-0'' worker boot host)\<lparr>
            adv_capabilities := profile_capabilities [''cuda'', ''gpu.memory.16gb'', ''simulation''] lim,
            adv_capacity := \<lparr>rcap_slots = 1, rcap_memory_bytes = 16 * 1024 * 1024 * 1024,
              rcap_max_sessions = 1\<rparr>,
            adv_current_occupancy := current_occupancy,
            adv_sharing := SM_Exclusive,
            adv_accelerators := [\<lparr>acc_id = 0x1a02, acc_model = ''synthetic-accelerator-beta'',
              acc_memory_bytes = 16 * 1024 * 1024 * 1024, acc_compute_capability_major = 8,
              acc_compute_capability_minor = 6, acc_root_complex = 0\<rparr>]\<rparr>;
          simulator = (base_advertisement kBetaSimulatorResource RC_Simulator ''beta-grid-simulator''
              worker boot host)\<lparr>
            adv_capabilities := profile_capabilities [''simulation'', ''sim.grid''] lim,
            adv_capacity := \<lparr>rcap_slots = 2, rcap_memory_bytes = 0, rcap_max_sessions = 2\<rparr>,
            adv_simulator := Some \<lparr>sim_id = kGridSimulatorId, sim_version = ''2.3.1'',
              sim_scenarios = [''grid-fault'', ''grid-steady''], sim_max_sessions = 2\<rparr>,
            adv_locality := empty_locality\<lparr>loc_colocated_simulators := [kGridSimulatorId]\<rparr>\<rparr>;
          dataset = (base_advertisement kBetaDatasetResource RC_Dataset ''beta-corpus-v2'' worker boot host)\<lparr>
            adv_capabilities := profile_capabilities [''dataset.read''] lim,
            adv_capacity := \<lparr>rcap_slots = 2, rcap_memory_bytes = 0, rcap_max_sessions = 2\<rparr>,
            adv_dataset := Some \<lparr>ds_id = kCorpusDatasetId, ds_version = kCorpusDatasetVersion2,
              ds_digest = ''sha256:beta-corpus-v2'', ds_size_bytes = 96 * 1024 * 1024\<rparr>,
            adv_locality := empty_locality\<lparr>loc_local_dataset_versions := [kCorpusDatasetVersion2]\<rparr>\<rparr>
      in [gpu, simulator, dataset])"

definition gamma_resources :: "worker_boot_id \<Rightarrow> u32 \<Rightarrow> resource_advertisement list" where
  "gamma_resources boot current_occupancy =
     (let lim = default_limits; worker = kGammaWorkerId;
          host = topology_domain_from_name ''lab-host-gamma'';
          environment = (base_advertisement kGammaVirtualEnvironmentResource RC_VirtualEnvironment
              ''gamma-runtime-image'' worker boot host)\<lparr>
            adv_capabilities := profile_capabilities [''runtime.container'', ''runtime.image.pinned''] lim,
            adv_capacity := \<lparr>rcap_slots = 4, rcap_memory_bytes = 0, rcap_max_sessions = 4\<rparr>,
            adv_current_occupancy := current_occupancy,
            adv_environment := Some \<lparr>env_id = kRoboticsEnvironmentId,
              env_image_digest = ''sha256:gamma-runtime-1'',
              env_virtual_environment = kRoboticsVirtualEnvironmentId,
              env_physical_environment = 0, env_eligibility_token = []\<rparr>\<rparr>;
          rig = (base_advertisement kGammaPhysicalRigResource RC_PhysicalEnvironment
              ''gamma-robotics-rig'' worker boot host)\<lparr>
            adv_capabilities := profile_capabilities [''rig.robotics'', ''rig.calibrated''] lim,
            adv_capacity := \<lparr>rcap_slots = 1, rcap_memory_bytes = 0, rcap_max_sessions = 1\<rparr>,
            adv_sharing := SM_Exclusive,
            adv_provenance := PV_Synthetic,
            adv_environment := Some \<lparr>env_id = kRoboticsEnvironmentId, env_image_digest = [],
              env_virtual_environment = 0,
              env_physical_environment = kRoboticsPhysicalEnvironmentId,
              env_eligibility_token = ''calibrated''\<rparr>\<rparr>
      in [environment, rig])"

definition profile_names :: "string list" where
  "profile_names = [''alpha'', ''beta'', ''gamma'']"

definition make_profile :: "string \<Rightarrow> worker_boot_id \<Rightarrow> u32 \<Rightarrow> profile_blueprint result" where
  "make_profile name boot current_occupancy =
     (let status = id_validate K_WorkerBootId boot in
      if \<not> status_ok status then Inl status
      else if name = ''alpha'' then
        Inr \<lparr>bp_name = name, bp_worker = kAlphaWorkerId, bp_boot = boot,
          bp_resources = alpha_resources boot current_occupancy\<rparr>
      else if name = ''beta'' then
        Inr \<lparr>bp_name = name, bp_worker = kBetaWorkerId, bp_boot = boot,
          bp_resources = beta_resources boot current_occupancy\<rparr>
      else if name = ''gamma'' then
        Inr \<lparr>bp_name = name, bp_worker = kGammaWorkerId, bp_boot = boot,
          bp_resources = gamma_resources boot current_occupancy\<rparr>
      else Inl (Status E_NotFound (''unknown lab profile: '' @ name)))"

end
