(* ===== verification/Worker.thy ===== *)
theory Worker
  imports Messages Socket Profiles
begin

text \<open>
  \<open>CoordinatorClient\<close> and \<open>WorkerAgent\<close> of \<open>cluster.cpp\<close>. The socket of a client is the stream it
  will receive, the bytes the peer accepted so far, and the answers of \<open>send\<close>. A call sends one
  frame, takes the next frame of the stream for the reply, whatever its type and its correlation,
  and decodes its payload. The run loop of the worker ends with its stream, because every frame it
  receives shortens it.
\<close>

section \<open>Client\<close>

record client =
  ci_limits :: limits
  ci_correlation :: u64
  ci_connected :: bool
  ci_incoming :: incoming
  ci_answer :: "u64 \<Rightarrow> nat \<Rightarrow> int"
  ci_error :: int
  ci_out :: bytes

definition client_send_frame :: "message_type \<Rightarrow> bytes \<Rightarrow> client \<Rightarrow> status \<times> client" where
  "client_send_frame t payload ci =
     (let correlation = ci_correlation ci + 1;
          (status, accepted) = send_frame (ci_answer ci correlation) (ci_error ci) (ci_connected ci)
            t correlation 0 payload
      in (status, ci\<lparr>ci_correlation := correlation, ci_out := ci_out ci @ accepted\<rparr>))"

definition client_receive :: "client \<Rightarrow> frame_view result \<times> client" where
  "client_receive ci =
     (let (answer, rest) = receive_frame (ci_limits ci) (ci_incoming ci)
      in (answer, ci\<lparr>ci_incoming := rest\<rparr>))"

definition transact :: "message_type \<Rightarrow> bytes \<Rightarrow> client \<Rightarrow> bytes result \<times> client" where
  "transact t payload ci =
     (let (status, ci) = client_send_frame t payload ci in
      if \<not> status_ok status then (Inl status, ci)
      else case client_receive ci of
          (Inl status, ci) \<Rightarrow> (Inl status, ci)
        | (Inr view, ci) \<Rightarrow> (Inr (fv_payload view), ci))"

text \<open>The calls share one shape: encode, transact, decode with the limits of the client.\<close>

definition client_call ::
  "message_type \<Rightarrow> bytes \<Rightarrow> (limits \<Rightarrow> bytes \<Rightarrow> 'r result) \<Rightarrow> client \<Rightarrow> 'r result \<times> client" where
  "client_call t payload decode ci =
     (case transact t payload ci of
        (Inl status, ci) \<Rightarrow> (Inl status, ci)
      | (Inr response, ci) \<Rightarrow> (decode (ci_limits ci) response, ci))"

definition call_hello :: "hello_message \<Rightarrow> client \<Rightarrow> hello_ack_message result \<times> client" where
  "call_hello m = client_call MT_Hello (encode_hello m) decode_hello_ack"

definition call_register :: "resource_message \<Rightarrow> client \<Rightarrow> resource_ack_message result \<times> client" where
  "call_register m = client_call MT_RegisterResource (encode_resource_message m) decode_resource_ack"

definition call_publish :: "resource_message \<Rightarrow> client \<Rightarrow> resource_ack_message result \<times> client" where
  "call_publish m = client_call MT_PublishState (encode_resource_message m) decode_resource_ack"

definition call_retire :: "retire_message \<Rightarrow> client \<Rightarrow> resource_ack_message result \<times> client" where
  "call_retire m = client_call MT_RetireResource (encode_retire m) decode_resource_ack"

definition call_schedule :: "schedule_message \<Rightarrow> client \<Rightarrow> decision_message result \<times> client" where
  "call_schedule m = client_call MT_ScheduleRequest (encode_schedule m) decode_decision"

definition call_assign_ack :: "authority_message \<Rightarrow> client \<Rightarrow> lifecycle_ack_message result \<times> client" where
  "call_assign_ack m = client_call MT_AssignAck (encode_authority m) decode_lifecycle_ack"

definition call_running :: "authority_message \<Rightarrow> client \<Rightarrow> lifecycle_ack_message result \<times> client" where
  "call_running m = client_call MT_Running (encode_authority m) decode_lifecycle_ack"

definition call_completion :: "completion_claim \<Rightarrow> client \<Rightarrow> completion_ack_message result \<times> client" where
  "call_completion claim = client_call MT_Completion (encode_completion claim) decode_completion_ack"

definition call_cancel_placement ::
  "cancel_placement_message \<Rightarrow> client \<Rightarrow> lifecycle_ack_message result \<times> client" where
  "call_cancel_placement m =
     client_call MT_CancelPlacement (encode_cancel_placement m) decode_lifecycle_ack"

definition call_cancel_request ::
  "cancel_request_message \<Rightarrow> client \<Rightarrow> lifecycle_ack_message result \<times> client" where
  "call_cancel_request m = client_call MT_CancelRequest (encode_cancel_request m) decode_lifecycle_ack"

definition call_reassign ::
  "cancel_placement_message \<Rightarrow> client \<Rightarrow> lifecycle_ack_message result \<times> client" where
  "call_reassign m = client_call MT_Reassign (encode_cancel_placement m) decode_lifecycle_ack"

definition call_preempt ::
  "cancel_placement_message \<Rightarrow> client \<Rightarrow> lifecycle_ack_message result \<times> client" where
  "call_preempt m = client_call MT_Preempt (encode_cancel_placement m) decode_lifecycle_ack"

definition call_disconnect_worker ::
  "disconnect_worker_message \<Rightarrow> client \<Rightarrow> state_ack_message result \<times> client" where
  "call_disconnect_worker m =
     client_call MT_DisconnectWorker (encode_disconnect_worker m) decode_state_ack"

definition call_inspect :: "string \<Rightarrow> client \<Rightarrow> string result \<times> client" where
  "call_inspect subject ci =
     (case client_call MT_Inspect (encode_inspect \<lparr>im_subject = subject\<rparr>) decode_inspect_reply ci of
        (Inl status, ci) \<Rightarrow> (Inl status, ci)
      | (Inr reply, ci) \<Rightarrow> (Inr (ir_text reply), ci))"

definition call_save :: "string \<Rightarrow> client \<Rightarrow> state_ack_message result \<times> client" where
  "call_save path = client_call MT_SaveState (encode_save_state \<lparr>sv_path = path\<rparr>) decode_state_ack"

definition call_shutdown :: "client \<Rightarrow> state_ack_message result \<times> client" where
  "call_shutdown = client_call MT_Shutdown [] decode_state_ack"

section \<open>Worker agent\<close>

record worker_agent =
  wa_client :: client
  wa_resource_ids :: "resource_id list"
  wa_worker :: worker_id
  wa_boot :: worker_boot_id
  wa_limits :: limits
  wa_exit_requested :: bool
  wa_hold_assignments :: bool
  wa_completed :: u32
  wa_rejected :: u32

record worker_config =
  wc_worker :: worker_id
  wc_boot :: worker_boot_id
  wc_profile :: string
  wc_current_occupancy :: u32
  wc_limits :: limits
  wc_authority :: string
  wc_hold_assignments :: bool

text \<open>A task gets the authority and returns its status with the detail it reports.\<close>

type_synonym worker_task = "authority_envelope \<Rightarrow> status \<times> string"

definition synthetic_workload_result :: "authority_envelope \<Rightarrow> string \<Rightarrow> string" where
  "synthetic_workload_result authority workload =
     (let hash = fold (\<lambda>s hash. mix64 (hash XOR sel_resource s)) (ae_resources authority)
            (fnv1a64 (text_bytes workload))
      in id_to_string K_PlacementId (ae_placement authority) @ ''/'' @ hex_u64 hash 16)"

text \<open>One advertisement of the start: register it, publish it when the identity is known.\<close>

definition advertise_one :: "resource_advertisement \<Rightarrow> worker_agent \<Rightarrow> status \<times> worker_agent" where
  "advertise_one advertisement w =
     (let message = \<lparr>rm_advertisement = advertisement\<rparr>;
          finish = (\<lambda>ack w. if rk_code ack \<noteq> E_Ok then
              (Status (rk_code ack) (''resource advertisement rejected: '' @ rk_detail ack), w)
            else (ok_status, w\<lparr>wa_resource_ids := wa_resource_ids w @ [adv_id advertisement]\<rparr>)) in
      case call_register message (wa_client w) of
        (Inl status, ci) \<Rightarrow> (status, w\<lparr>wa_client := ci\<rparr>)
      | (Inr ack, ci) \<Rightarrow>
          if rk_code ack = E_DuplicateIdentity then
            (case call_publish message ci of
               (Inl status, ci) \<Rightarrow> (status, w\<lparr>wa_client := ci\<rparr>)
             | (Inr ack, ci) \<Rightarrow> finish ack (w\<lparr>wa_client := ci\<rparr>))
          else finish ack (w\<lparr>wa_client := ci\<rparr>))"

fun advertise :: "resource_advertisement list \<Rightarrow> worker_agent \<Rightarrow> status \<times> worker_agent" where
  "advertise [] w = (ok_status, w)"
| "advertise (a # rest) w =
     (case advertise_one a w of
        (status, w) \<Rightarrow> if \<not> status_ok status then (status, w) else advertise rest w)"

text \<open>\<open>connected\<close> is the answer of \<open>CoordinatorClient::connect\<close>.\<close>

definition worker_start ::
  "worker_config \<Rightarrow> client result \<Rightarrow> hello_ack_message result \<times> worker_agent option" where
  "worker_start cfg connected =
     (case connected of
        Inl status \<Rightarrow> (Inl status, None)
      | Inr ci \<Rightarrow>
          let w = \<lparr>wa_client = ci, wa_resource_ids = [], wa_worker = wc_worker cfg, wa_boot = wc_boot cfg,
                wa_limits = wc_limits cfg, wa_exit_requested = False,
                wa_hold_assignments = wc_hold_assignments cfg, wa_completed = 0, wa_rejected = 0\<rparr> in
          case call_hello \<lparr>hl_worker = wc_worker cfg, hl_boot = wc_boot cfg,
              hl_authority = wc_authority cfg\<rparr> ci of
            (Inl status, ci) \<Rightarrow> (Inl status, Some (w\<lparr>wa_client := ci\<rparr>))
          | (Inr ack, ci) \<Rightarrow>
              (case make_profile (wc_profile cfg) (wc_boot cfg) (wc_current_occupancy cfg) of
                 Inl status \<Rightarrow> (Inl status, Some (w\<lparr>wa_client := ci\<rparr>))
               | Inr blueprint \<Rightarrow>
                   (case advertise (bp_resources blueprint) (w\<lparr>wa_client := ci\<rparr>) of
                      (status, w) \<Rightarrow> if \<not> status_ok status then (Inl status, Some w)
                        else (Inr ack, Some w))))"

definition assignment_authority :: "assign_message \<Rightarrow> authority_message" where
  "assignment_authority m = \<lparr>am_placement = ae_placement (as_authority m),
     am_generation = ae_placement_generation (as_authority m), am_epoch = ae_epoch (as_authority m),
     am_worker_boot = ae_worker_boot (as_authority m)\<rparr>"

definition completion_for :: "worker_boot_id \<Rightarrow> authority_envelope \<Rightarrow> status \<times> string \<Rightarrow> completion_claim" where
  "completion_for boot authority executed = \<lparr>cc_placement = ae_placement authority,
     cc_placement_generation = ae_placement_generation authority,
     cc_experiment = ae_experiment authority,
     cc_experiment_generation = ae_experiment_generation authority,
     cc_epoch = ae_epoch authority, cc_worker_boot = boot,
     cc_resources = map sel_resource (ae_resources authority),
     cc_resource_generations = map sel_generation (ae_resources authority),
     cc_succeeded = status_ok (fst executed), cc_detail = snd executed\<rparr>"

definition handle_assignment ::
  "worker_task option \<Rightarrow> assign_message \<Rightarrow> worker_agent \<Rightarrow> status \<times> worker_agent" where
  "handle_assignment task m w =
     (let authority = assignment_authority m in
      case call_assign_ack authority (wa_client w) of
        (Inl status, ci) \<Rightarrow> (status, w\<lparr>wa_client := ci\<rparr>)
      | (Inr reply, ci) \<Rightarrow>
          if la_code reply \<noteq> E_Ok then
            (Status (la_code reply) (''assignment rejected: '' @ la_detail reply),
             w\<lparr>wa_client := ci, wa_rejected := wa_rejected w + 1\<rparr>)
          else case call_running authority ci of
              (Inl status, ci) \<Rightarrow> (status, w\<lparr>wa_client := ci\<rparr>)
            | (Inr _, ci) \<Rightarrow>
                if wa_hold_assignments w then (ok_status, w\<lparr>wa_client := ci\<rparr>)
                else
                  let executed = (case task of
                        None \<Rightarrow> (ok_status, synthetic_workload_result (as_authority m) (as_workload m))
                      | Some f \<Rightarrow> f (as_authority m)) in
                  case call_completion (completion_for (wa_boot w) (as_authority m) executed) ci of
                    (Inl status, ci) \<Rightarrow> (status, w\<lparr>wa_client := ci\<rparr>)
                  | (Inr completion, ci) \<Rightarrow>
                      (ok_status, if ca_accepted completion
                         then w\<lparr>wa_client := ci, wa_completed := wa_completed w + 1\<rparr>
                         else w\<lparr>wa_client := ci, wa_rejected := wa_rejected w + 1\<rparr>))"

text \<open>No call makes the stream of the client larger.\<close>

lemma client_receive_size:
  "incoming_size (ci_incoming (snd (client_receive ci))) \<le> incoming_size (ci_incoming ci)"
  "client_receive ci = (Inr view, ci') \<Longrightarrow> incoming_size (ci_incoming ci') < incoming_size (ci_incoming ci)"
proof -
  obtain answer rest where r: "receive_frame (ci_limits ci) (ci_incoming ci) = (answer, rest)"
    by (cases "receive_frame (ci_limits ci) (ci_incoming ci)")
  note size = receive_frame_size [of "ci_limits ci" "ci_incoming ci"]
  show "incoming_size (ci_incoming (snd (client_receive ci))) \<le> incoming_size (ci_incoming ci)"
    using size(1) by (simp add: client_receive_def r)
  show "client_receive ci = (Inr view, ci') \<Longrightarrow> incoming_size (ci_incoming ci') < incoming_size (ci_incoming ci)"
    using size(2) by (auto simp: client_receive_def r)
qed

lemma client_call_size:
  "client_call t payload decode ci = (reply, ci') \<Longrightarrow>
     incoming_size (ci_incoming ci') \<le> incoming_size (ci_incoming ci)"
proof -
  have sent: "ci_incoming (snd (client_send_frame t payload ci)) = ci_incoming ci"
    by (simp add: client_send_frame_def case_prod_beta Let_def)
  have "incoming_size (ci_incoming (snd (transact t payload ci))) \<le> incoming_size (ci_incoming ci)"
    using client_receive_size(1) [of "snd (client_send_frame t payload ci)"] sent
    by (auto simp: transact_def case_prod_beta split: sum.splits)
  moreover assume "client_call t payload decode ci = (reply, ci')"
  then have "ci' = snd (transact t payload ci)"
    by (auto simp: client_call_def split: sum.splits prod.splits)
  ultimately show ?thesis by simp
qed

lemma handle_assignment_size:
  "incoming_size (ci_incoming (wa_client (snd (handle_assignment task m w))))
     \<le> incoming_size (ci_incoming (wa_client w))"
proof -
  note sizes = client_call_size [where t = MT_AssignAck] client_call_size [where t = MT_Running]
    client_call_size [where t = MT_Completion]
  show ?thesis
    unfolding handle_assignment_def Let_def call_assign_ack_def call_running_def call_completion_def
    by (auto split: prod.splits sum.splits dest!: sizes)
qed

text \<open>The loop of \<open>run\<close>. The result of an assignment is ignored.\<close>

function worker_run :: "worker_task option \<Rightarrow> worker_agent \<Rightarrow> status \<times> worker_agent" where
  "worker_run task w =
     (if wa_exit_requested w then (ok_status, w)
      else case client_receive (wa_client w) of
          (Inl status, ci) \<Rightarrow> (status, w\<lparr>wa_client := ci\<rparr>)
        | (Inr view, ci) \<Rightarrow>
            (case fv_type view of
               MT_Assign \<Rightarrow>
                 (case decode_assign (wa_limits w) (fv_payload view) of
                    Inl status \<Rightarrow> (status, w\<lparr>wa_client := ci\<rparr>)
                  | Inr m \<Rightarrow> worker_run task (snd (handle_assignment task m (w\<lparr>wa_client := ci\<rparr>))))
             | MT_Shutdown \<Rightarrow> worker_run task (w\<lparr>wa_client := ci, wa_exit_requested := True\<rparr>)
             | MT_Error \<Rightarrow>
                 (case decode_error_message (wa_limits w) (fv_payload view) of
                    Inl _ \<Rightarrow> (Status E_ProtocolError ''coordinator reported an undecodable error'',
                      w\<lparr>wa_client := ci\<rparr>)
                  | Inr reported \<Rightarrow> (Status (em_code reported) (em_message reported), w\<lparr>wa_client := ci\<rparr>))
             | _ \<Rightarrow> worker_run task (w\<lparr>wa_client := ci\<rparr>)))"
  by pat_completeness auto
termination
  by (relation "measure (\<lambda>(task, w). incoming_size (ci_incoming (wa_client w)))")
    (auto dest!: client_receive_size(2) [OF sym] intro: le_less_trans [OF handle_assignment_size])

declare worker_run.simps [simp del]

end
