(* ===== verification/PersistenceLaws.thy ===== *)
theory PersistenceLaws
  imports Persistence Checksum LabExample
begin

text \<open>
  What the container guarantees: a saved state is loaded back as it was and restarts the scheduler
  as the exported state would, a failing save leaves no partial content under the path, a container
  that was accepted is refused after any change of one byte, any cut and any addition, and whatever
  is accepted respects every configured bound.
\<close>

section \<open>Saving and loading\<close>

lemma decode_encode_durable:
  assumes "ok_durable_payload lim (s\<lparr>du_integrity_note := product_banner\<rparr>)"
    and "length (write_durable_payload s) \<le> unat (max_persistence_bytes lim)"
  shows "decode_durable_state lim (container (write_durable_payload s)) =
    Inr (s\<lparr>du_integrity_note := product_banner\<rparr>)"
proof -
  have same: "write_durable_payload (s\<lparr>du_integrity_note := product_banner\<rparr>) = write_durable_payload s"
    by (simp add: write_durable_payload_def)
  have "reads (read_durable_payload lim) (write_durable_payload s)
      (s\<lparr>du_integrity_note := product_banner\<rparr>)"
    using reads_durable_payload [OF assms(1)] by (simp add: same)
  moreover have "write_durable_payload s \<noteq> []"
    by (simp add: write_durable_payload_def put_u32_def put_u16_def put_u8_def)
  ultimately show ?thesis
    using decode_container [OF _ assms(2)] decode_all_reads by simp
qed

lemma save_content:
  assumes "save_durable_state s path io fs = (status, fs')"
  shows "(status_ok status \<and> fs' path = Some (container (write_durable_payload s))) \<or>
    (\<not> status_ok status \<and> (fs' path = fs path \<or> fs' path = None \<and> io_remove io))"
  using assms
  by (auto simp: save_durable_state_def encode_container Let_def fs_rename_def
      split: if_splits option.splits)

lemma saved_loads:
  assumes saved: "save_durable_state s path io fs = (status, fs')" "status_ok status"
    and readable: "ok_durable_payload lim (s\<lparr>du_integrity_note := product_banner\<rparr>)"
    and small: "length (write_durable_payload s) \<le> unat (max_persistence_bytes lim)"
    and room: "unat (max_persistence_bytes lim) + 28 < 2 ^ 64"
  shows "load_durable_state lim path fs' = Inr (s\<lparr>du_integrity_note := product_banner\<rparr>)"
proof -
  let ?bs = "container (write_durable_payload s)"
  have content: "fs' path = Some ?bs" using save_content [OF saved(1)] saved(2) by simp
  have "unat (max_persistence_bytes lim + of_nat kPersistenceHeaderSize) = unat (max_persistence_bytes lim) + 28"
    using room unat_add_no_wrap [of "max_persistence_bytes lim" 28] by (simp add: kPersistenceHeaderSize_def)
  with small have "length ?bs \<le> unat (max_persistence_bytes lim + of_nat kPersistenceHeaderSize)" by simp
  with content have "load_durable_state lim path fs' = decode_durable_state lim ?bs"
    by (simp add: load_durable_state_def)
  with decode_encode_durable [OF readable small] show ?thesis by simp
qed

lemma import_note: "import_state (s\<lparr>du_integrity_note := note\<rparr>) e = import_state s e"
proof -
  have "validate_durable_state (s\<lparr>du_integrity_note := note\<rparr>) = validate_durable_state s"
    by (cases s) (simp only: validate_durable_state_def durable_bounds_def durable_state.simps)
  moreover have "import_records (s\<lparr>du_integrity_note := note\<rparr>) acc = import_records s acc" for acc
    by (simp add: import_records_def)
  moreover have "du_epoch (s\<lparr>du_integrity_note := note\<rparr>) = du_epoch s"
    "du_id_counter (s\<lparr>du_integrity_note := note\<rparr>) = du_id_counter s" by simp_all
  ultimately show ?thesis by (simp only: import_state_def)
qed

text \<open>The bounds a state must respect to be read back: those of the reader for its records, and the
  one for the size of the file.\<close>

definition loadable :: "limits \<Rightarrow> durable_state \<Rightarrow> bool" where
  "loadable lim s \<longleftrightarrow> ok_durable_payload lim (s\<lparr>du_integrity_note := product_banner\<rparr>) \<and>
     length (write_durable_payload s) \<le> unat (max_persistence_bytes lim)"

lemma saved_loads_iff:
  assumes saved: "save_durable_state s path io fs = (status, fs')" "status_ok status"
    and room: "unat (max_persistence_bytes lim) + 28 < 2 ^ 64"
  shows "load_durable_state lim path fs' = Inr (s\<lparr>du_integrity_note := product_banner\<rparr>) \<longleftrightarrow> loadable lim s"
proof
  assume loads: "load_durable_state lim path fs' = Inr (s\<lparr>du_integrity_note := product_banner\<rparr>)"
  let ?bs = "container (write_durable_payload s)"
  have content: "fs' path = Some ?bs" using save_content [OF saved(1)] saved(2) by simp
  have "unat (max_persistence_bytes lim + of_nat kPersistenceHeaderSize) = unat (max_persistence_bytes lim) + 28"
    using room unat_add_no_wrap [of "max_persistence_bytes lim" 28] by (simp add: kPersistenceHeaderSize_def)
  with loads content have "length ?bs \<le> unat (max_persistence_bytes lim) + 28"
    and dec: "decode_durable_state lim ?bs = Inr (s\<lparr>du_integrity_note := product_banner\<rparr>)"
    by (auto simp: load_durable_state_def split: if_splits)
  moreover from decode_accepted [OF dec] decode_all_accepts [OF accepts_durable_payload]
  have "ok_durable_payload lim (s\<lparr>du_integrity_note := product_banner\<rparr>)" by blast
  ultimately show "loadable lim s" by (simp add: loadable_def container_def)
next
  assume "loadable lim s"
  then show "load_durable_state lim path fs' = Inr (s\<lparr>du_integrity_note := product_banner\<rparr>)"
    using saved_loads [OF saved _ _ room] by (simp add: loadable_def)
qed

text \<open>A save that meets no obstacle.\<close>

definition calm_io :: save_io where
  "calm_io = \<lparr>io_open = True, io_partial = None, io_rename = True, io_remove = True,
     io_rename_again = True, io_cleanup = True\<rparr>"

lemma calm_save:
  "save_durable_state s path calm_io fs = (fst (save_durable_state s path calm_io fs), snd (save_durable_state s path calm_io fs))"
  "status_ok (fst (save_durable_state s path calm_io fs))"
  by (simp_all add: save_durable_state_def encode_container calm_io_def Let_def)

text \<open>
  C33. A state that a running engine saves successfully is on disk as a whole, whatever file was there
  before and whichever of the two renames succeeded: the path holds exactly the container of the
  encoded state. It is loaded back with every record unchanged, only the integrity note new, exactly
  when its records and its size lie within the bounds of the reader; C38 shows that an engine can
  leave these bounds. Importing the loaded state has exactly the outcome and the effect of importing
  the exported state itself.
\<close>

theorem restart_through_file:
  assumes saved: "save_durable_state (export_state e) path io fs = (status, fs')" "status_ok status"
    and room: "unat (max_persistence_bytes lim) + 28 < 2 ^ 64"
  shows "fs' path = Some (container (write_durable_payload (export_state e))) \<and>
    (load_durable_state lim path fs' = Inr ((export_state e)\<lparr>du_integrity_note := product_banner\<rparr>) \<longleftrightarrow>
       loadable lim (export_state e)) \<and>
    import_state ((export_state e)\<lparr>du_integrity_note := product_banner\<rparr>) fresh = import_state (export_state e) fresh"
  using saved_loads_iff [OF saved room] save_content [OF saved(1)] saved(2) import_note by simp

text \<open>
  C35. Whatever the operating system answers during a save, the path afterwards holds the complete
  new container, or what it held before, or nothing; a save that reports success has written the
  complete container, and the path can only be empty after a reported failure in which the old file
  was removed. Partial content is never found under the path.
\<close>

theorem save_all_or_nothing:
  "case save_durable_state s path io fs of (status, fs') \<Rightarrow>
     (status_ok status = (fs' path = Some (container (write_durable_payload s)) \<and>
       (io_open io \<and> io_partial io = None \<and> (io_rename io \<or> io_rename_again io)))) \<and>
     fs' path \<in> {fs path, None, Some (container (write_durable_payload s))} \<and>
     (status_ok status \<or> fs' path = fs path \<or> \<not> io_rename io \<and> io_remove io \<and> \<not> io_rename_again io)"
  by (auto simp: save_durable_state_def encode_container Let_def fs_rename_def split: option.splits)

section \<open>Tampering\<close>

lemma container_inj: "container b = container c \<Longrightarrow> b = c"
  by (simp add: container_def container_header_def)

lemma header_sum:
  assumes "container_header b = container_header c"
  shows "fnv1a64 b = fnv1a64 c"
proof -
  have "put_u64 (of_nat (length b)) @ put_u64 (fnv1a64 b) = put_u64 (of_nat (length c)) @ put_u64 (fnv1a64 c)"
    using assms by (simp add: container_header_def)
  then have "put_u64 (fnv1a64 b) = put_u64 (fnv1a64 c)" by simp
  then show ?thesis using u64_codec.prefix_free [where x = "fnv1a64 b" and y = "fnv1a64 c" and bs = "[]" and cs = "[]"]
    by simp
qed

lemma container_one_byte:
  assumes i: "i < length (container b)" and upd: "(container b)[i := x] = container c"
  shows "x = container b ! i"
proof (cases "i < 28")
  case True
  have "drop 28 ((container b)[i := x]) = drop 28 (container b)" using True by simp
  then have "c = b" unfolding upd by (simp add: container_def)
  with upd i show ?thesis by (metis nth_list_update_eq)
next
  case False
  define j where "j = i - 28"
  have j: "i = 28 + j" "j < length b" using False i by (simp_all add: j_def)
  have head: "container b = (kPersistenceMagic @ container_header b) @ b"
      "container c = (kPersistenceMagic @ container_header c) @ c" by (simp_all add: container_def)
  have c: "c = b[j := x]"
  proof -
    have "drop 28 ((container b)[i := x]) = (drop 28 (container b))[j := x]"
      using j(1) by (simp add: drop_update_swap)
    then show ?thesis unfolding upd by (simp add: head)
  qed
  have "take 28 ((container b)[i := x]) = take 28 (container b)" using j(1) by simp
  then have "container_header b = container_header c" unfolding upd by (simp add: head)
  then have "fnv1a64 b = fnv1a64 c" by (rule header_sum)
  then have "fnv1a64 (take j b @ b ! j # drop (Suc j) b) = fnv1a64 (take j b @ x # drop (Suc j) b)"
    using j(2) c by (simp add: id_take_nth_drop [symmetric] upd_conv_take_nth_drop)
  then have "x = b ! j" by (rule fnv_detects [symmetric])
  with j show ?thesis by (simp add: head nth_append)
qed

lemma container_length:
  assumes "length b < 2 ^ 64" and "length c < 2 ^ 64"
    and "container b = container c @ ys \<or> container b @ ys = container c"
  shows "ys = []"
proof -
  have "take 20 (drop 8 (container b)) = take 20 (drop 8 (container c))"
    using assms(3) by (auto simp: container_def dest: arg_cong [where f = "\<lambda>x. take 20 (drop 8 x)"])
  then have "container_header b = container_header c" by (simp add: container_def)
  then have "put_u64 (of_nat (length b)) @ put_u64 (fnv1a64 b) =
      put_u64 (of_nat (length c)) @ put_u64 (fnv1a64 c)" by (simp add: container_header_def)
  then have "(of_nat (length b) :: u64) = of_nat (length c)"
    using u64_codec.prefix_free by blast
  moreover have "unat (of_nat n :: u64) = n" if "n < 2 ^ 64" for n
    using that by (simp add: unat_of_nat take_bit_nat_eq_self)
  ultimately have "length b = length c" using assms(1,2) by metis
  moreover from assms(3) have "length (container b) = length (container c) + length ys \<or>
      length (container b) + length ys = length (container c)" by (metis length_append)
  ultimately show ?thesis by simp
qed

text \<open>
  C36. A container that the decoder accepts is refused after every change of a single byte, at any
  position of the magic, the header or the payload, after every cut at its end and after every
  addition to its end: the 64-bit checksum misses no one-byte error, and the header leaves no
  slack around it.
\<close>

theorem container_tamper_detected:
  assumes accepted: "decode_durable_state lim bs = Inr s"
  shows "(i < length bs \<and> x \<noteq> bs ! i \<longrightarrow> (\<exists>status. decode_durable_state lim (bs[i := x]) = Inl status)) \<and>
    (n < length bs \<longrightarrow> (\<exists>status. decode_durable_state lim (take n bs) = Inl status)) \<and>
    (ys \<noteq> [] \<longrightarrow> (\<exists>status. decode_durable_state lim (bs @ ys) = Inl status))"
proof -
  obtain b where b: "bs = container b" "length b < 2 ^ 64" using decode_accepted [OF accepted] by blast
  have refused: "\<exists>status. decode_durable_state lim cs = Inl status"
    if "\<And>c. cs = container c \<Longrightarrow> length c < 2 ^ 64 \<Longrightarrow> False" for cs
    using that decode_accepted by (cases "decode_durable_state lim cs") blast+
  have changed: "x = bs ! i" if "i < length bs" "bs[i := x] = container c" for c
    using container_one_byte [of i b x c] that b(1) by simp
  have cut: "\<not> n < length bs" if "take n bs = container c" "length c < 2 ^ 64" for c
    using container_length [OF that(2) b(2), of "drop n bs"] that(1) b(1)
    by (simp flip: that(1))
  have added: "ys = []" if "bs @ ys = container c" "length c < 2 ^ 64" for c
    using container_length [OF b(2) that(2), of ys] that(1) b(1) by simp
  show ?thesis
    by (intro conjI impI refused) (use changed cut added in blast)+
qed

text \<open>
  C37. Whatever the decoder accepts respects every configured bound: the format version, the range of
  every ranking weight, the number of records of each kind, and for every record the length of each
  text, the size and canonical order of each list, the well-formedness of each capability set and
  the plausibility of the counters, as \<open>ok_durable_payload\<close> states them.
\<close>

theorem accepted_state_within_bounds:
  assumes "decode_durable_state lim bs = Inr s"
  shows "ok_durable_payload lim s"
  using decode_accepted [OF assms] decode_all_accepts [OF accepts_durable_payload] by blast

section \<open>A refused request whose record cannot be read back\<close>

lemma refuses_counted_tail:
  assumes "list_all ok pre" and "\<And>x. ok x \<Longrightarrow> reads m (put x) x" and "refuses m (put q)"
  shows "refuses (read_times (length pre + Suc k) m) (concat (map put pre) @ put q @ rest)"
  using assms(1)
proof (induction pre)
  case Nil
  have "refuses (read_times (Suc k) m) (put q @ rest)"
    unfolding read_times.simps by (rule refuses_first [OF assms(3)])
  then show ?case by simp
next
  case (Cons x pre)
  have "refuses (read_times (Suc (length pre + Suc k)) m) (put x @ concat (map put pre) @ put q @ rest)"
    unfolding read_times.simps
    by (rule refuses_later [OF assms(2)], use Cons in simp, rule refuses_bind) (use Cons in simp)
  then show ?case by simp
qed

lemma refuses_stored_request:
  assumes "ok_request lim (st_request q)"
    and "unat (max_string_length lim) < length (st_detail q)" "length (st_detail q) < 2 ^ 32"
  shows "refuses (read_stored_request lim) (write_stored_request q)"
proof -
  note last = refuses_bind [OF refuses_string [OF assms(2,3)]]
  show ?thesis unfolding read_stored_request_def write_stored_request_def
    by (rule refuses_later, rule reads_request, rule assms(1))
      (rule last refuses_later reads_rules)+
qed

lemma overlong_detail_unreadable:
  assumes requests: "du_requests s = pre @ q # post"
    and rest: "ok_durable_payload lim (s\<lparr>du_requests := pre, du_integrity_note := product_banner\<rparr>)"
    and q: "ok_request lim (st_request q)"
    and detail: "unat (max_string_length lim) < length (st_detail q)" "length (st_detail q) < 2 ^ 32"
    and count: "length (du_requests s) \<le> unat (max_persistence_records lim)"
  shows "\<exists>status. decode_durable_state lim (container (write_durable_payload s)) = Inl status"
proof -
  have counted: "refuses (rbind (read_counted (max_persistence_records lim) (read_stored_request lim)) f)
      (put_counted write_stored_request (du_requests s) @ cs)" for f :: "stored_request list \<Rightarrow> 'a reader" and cs
  proof -
    have "refuses (read_times (length (du_requests s)) (read_stored_request lim))
        (concat (map write_stored_request (du_requests s)))"
      using refuses_counted_tail [OF _ reads_stored_request refuses_stored_request [OF q detail],
          where ok = "ok_stored_request lim" and pre = pre and k = "length post" and rest = "concat (map write_stored_request post)"] rest
      by (simp add: requests ok_durable_payload_def)
    then have "refuses (read_counted (max_persistence_records lim) (read_stored_request lim))
        (put_counted write_stored_request (du_requests s))"
      unfolding read_counted_def put_counted_def
      by (intro refuses_later [OF reads_count [OF count]]) (simp add: of_nat_u32 [OF count])
    then show ?thesis by (rule refuses_first)
  qed
  have "refuses (read_durable_payload lim) (write_durable_payload s)"
    using rest unfolding read_durable_payload_def write_durable_payload_def ok_durable_payload_def
    by (simp; elim conjE)
      (rule counted refuses_later refuses_require reads_rules resource_codec.reads_counted refl | assumption)+
  then obtain status where refused:
    "decode_all (read_durable_payload lim) E_CorruptPersistence (write_durable_payload s) = Inl status"
    using decode_all_refuses by blast
  show ?thesis
  proof (cases "decode_durable_state lim (container (write_durable_payload s))")
    case (Inr s')
    from decode_accepted [OF Inr] container_inj refused show ?thesis by fastforce
  qed simp
qed

definition verbose_request :: schedule_request where
  "verbose_request = default_request\<lparr>sr_id := 20, sr_experiment := 5, sr_experiment_generation := 1,
     sr_requirements := [gpu_requirement (replicate 256 CHR ''n'')]\<rparr>"

lemma verbose_refusal:
  "case submit_request verbose_request (make_engine lab_config) of (r, e') \<Rightarrow>
     case r of Inl status \<Rightarrow> False | Inr d \<Rightarrow> dc_outcome d = DO_NoPlacement \<and>
       map st_detail (du_requests (export_state e')) = [dc_failure_detail d]"
  by code_simp

definition verbose_saved :: durable_state where
  "verbose_saved = export_state (snd (submit_request verbose_request (make_engine lab_config)))"

lemma verbose_stored:
  "list_all (\<lambda>q. 256 < length (st_detail q) \<and> length (st_detail q) < 400) (du_requests verbose_saved) \<and>
   length (du_requests verbose_saved) = 1"
  by code_simp

lemma verbose_rest:
  "du_format_version verbose_saved = 1 \<and> du_resources verbose_saved = [] \<and> du_placements verbose_saved = [] \<and>
   du_reservations verbose_saved = [] \<and> ok_weights (du_default_weights verbose_saved)"
  by code_simp

lemma verbose_ok: "list_all (\<lambda>q. ok_request default_limits (st_request q)) (du_requests verbose_saved)"
  by code_simp

lemma verbose_small:
  "length (write_durable_payload verbose_saved) \<le> 10000 \<and>
   length (write_durable_payload (export_state (make_engine lab_config))) \<le> 10000 \<and>
   length (write_durable_payload (verbose_saved\<lparr>du_requests :=
     map (\<lambda>q. q\<lparr>st_detail := []\<rparr>) (du_requests verbose_saved)\<rparr>)) \<le> 10000"
  by code_simp

lemma verbose_before: "loadable default_limits (export_state (make_engine lab_config))"
proof -
  have "du_default_weights (export_state (make_engine lab_config)) = default_weights" "ok_weights default_weights"
    by (simp add: export_state_def make_engine_def lab_config_def Let_def, code_simp)
  then show ?thesis
    using verbose_small by (simp add: loadable_def ok_durable_payload_def export_state_def make_engine_def
        empty_state_def om_values_def Let_def product_banner_def default_limits_def)
qed

lemma verbose_without_text:
  assumes "du_requests verbose_saved = [q]"
  shows "loadable default_limits (verbose_saved\<lparr>du_requests := [q\<lparr>st_detail := []\<rparr>]\<rparr>)"
proof -
  have "ok_request default_limits (st_request q)" using verbose_ok assms by simp
  then show ?thesis
    using verbose_small verbose_rest assms
    by (simp add: loadable_def ok_durable_payload_def ok_stored_request_def kPersistenceFormatVersion_def
        product_banner_def default_limits_def)
qed

lemma calm_loads:
  assumes "loadable default_limits s"
  shows "load_durable_state default_limits path (snd (save_durable_state s path calm_io fs)) =
    Inr (s\<lparr>du_integrity_note := product_banner\<rparr>)"
proof -
  have "unat (max_persistence_bytes default_limits) + 28 < 2 ^ 64" by (simp add: default_limits_def)
  from saved_loads_iff [OF calm_save this] assms show ?thesis by blast
qed

lemma calm_unreadable:
  assumes "decode_durable_state lim (container (write_durable_payload s)) = Inl status"
  shows "\<exists>status. load_durable_state lim path (snd (save_durable_state s path calm_io fs)) = Inl status"
  using save_content [OF calm_save(1), of s path fs] calm_save(2) assms
  by (auto simp: load_durable_state_def)

text \<open>
  C38. A request that the scheduler validates and answers with a refusal can make a state that could
  be loaded unreadable, and its refusal text is the cause. Here a running engine with the default
  limits, whose state can be saved and loaded, receives a request with a requirement name of exactly
  the maximal length. It is refused, the refusal text is stored as the detail of the request, and
  this text is longer than the limit on texts. The state is saved successfully but can no longer be
  loaded, wherever it is saved; with that one text left out it could.
\<close>

theorem refused_request_unreadable:
  "\<exists>e request d e' q.
     reachable e \<and> cfg_limits (eng_config e) = default_limits \<and>
     load_durable_state default_limits path (snd (save_durable_state (export_state e) path calm_io fs)) =
       Inr ((export_state e)\<lparr>du_integrity_note := product_banner\<rparr>) \<and>
     map (length \<circ> rq_name) (sr_requirements request) = [unat (max_string_length default_limits)] \<and>
     submit_request request e = (Inr d, e') \<and> dc_outcome d = DO_NoPlacement \<and>
     du_requests (export_state e') = [q] \<and> st_detail q = dc_failure_detail d \<and>
     unat (max_string_length default_limits) < length (st_detail q) \<and>
     status_ok (fst (save_durable_state (export_state e') path calm_io fs)) \<and>
     (\<exists>status. load_durable_state default_limits path
       (snd (save_durable_state (export_state e') path calm_io fs)) = Inl status) \<and>
     load_durable_state default_limits path (snd (save_durable_state
       ((export_state e')\<lparr>du_requests := [q\<lparr>st_detail := []\<rparr>]\<rparr>) path calm_io fs)) =
       Inr ((export_state e')\<lparr>du_requests := [q\<lparr>st_detail := []\<rparr>], du_integrity_note := product_banner\<rparr>)"
proof -
  obtain d e' where run: "submit_request verbose_request (make_engine lab_config) = (Inr d, e')"
      "dc_outcome d = DO_NoPlacement" "map st_detail (du_requests (export_state e')) = [dc_failure_detail d]"
    using verbose_refusal by (cases "submit_request verbose_request (make_engine lab_config)")
      (auto split: sum.splits)
  have saved: "export_state e' = verbose_saved" using run by (simp add: verbose_saved_def)
  obtain q where q: "du_requests verbose_saved = [q]" "st_detail q = dc_failure_detail d"
    using run(3) by (auto simp: saved)
  have "\<exists>status. decode_durable_state default_limits (container (write_durable_payload verbose_saved)) = Inl status"
  proof (rule overlong_detail_unreadable [where pre = "[]" and post = "[]" and q = q])
    show "ok_durable_payload default_limits
        (verbose_saved\<lparr>du_requests := [], du_integrity_note := product_banner\<rparr>)"
      using verbose_rest by (simp add: ok_durable_payload_def kPersistenceFormatVersion_def
          product_banner_def default_limits_def)
    show "ok_request default_limits (st_request q)" using verbose_ok q by simp
    show "length (du_requests verbose_saved) \<le> unat (max_persistence_records default_limits)"
      by (simp add: q default_limits_def)
  qed (use verbose_stored q in \<open>simp_all add: default_limits_def\<close>)
  then have bad: "\<exists>status. load_durable_state default_limits path
      (snd (save_durable_state verbose_saved path calm_io fs)) = Inl status"
    using calm_unreadable by blast
  have long: "unat (max_string_length default_limits) < length (st_detail q)"
    using verbose_stored q by (simp add: default_limits_def)
  have "cfg_limits (eng_config (make_engine lab_config)) = default_limits"
    by (simp add: make_engine_def lab_config_def)
  moreover have "map (length \<circ> rq_name) (sr_requirements verbose_request) = [unat (max_string_length default_limits)]"
    by (simp add: verbose_request_def gpu_requirement_def default_limits_def)
  ultimately show ?thesis
    using run(1,2) q long bad calm_save(2) calm_loads [OF verbose_before] calm_loads [OF verbose_without_text [OF q(1)]]
      reachable_make [OF lab_config_ok]
    unfolding saved [symmetric]
    by (intro exI [of _ "make_engine lab_config"] exI [of _ verbose_request] exI [of _ d] exI [of _ e']
        exI [of _ q] conjI) simp_all
qed

section \<open>The laboratory state on disk\<close>

definition lab_saved :: durable_state where
  "lab_saved = export_state lab_engine"

lemma lab_saved_parts:
  "du_format_version lab_saved = kPersistenceFormatVersion" "du_default_weights lab_saved = default_weights"
  "du_limits lab_saved = default_limits" "du_resources lab_saved = [lab_resource 1]"
  "du_requests lab_saved = [lab_stored]" "du_placements lab_saved = [lab_placement]"
  "du_reservations lab_saved = [lab_reservation]"
  by (simp_all add: lab_saved_def export_state_def Let_def om_values_def lab_config_def)

lemma lab_saved_records:
  "ok_weights default_weights" "ok_resource default_limits (lab_resource 1)"
  "ok_stored_request default_limits lab_stored" "ok_placement default_limits lab_placement"
  "ok_reservation default_limits lab_reservation"
  by code_simp+

lemma lab_saved_readable: "ok_durable_payload default_limits (lab_saved\<lparr>du_integrity_note := product_banner\<rparr>)"
  using lab_saved_records
  by (simp add: ok_durable_payload_def lab_saved_parts product_banner_def default_limits_def)

lemma lab_saved_small: "length (write_durable_payload lab_saved) \<le> unat (max_persistence_bytes default_limits)"
proof -
  have "length (write_durable_payload lab_saved) \<le> 5000" by code_simp
  then show ?thesis by (simp add: default_limits_def)
qed

theorem restart_through_file_witness:
  "\<exists>status fs' s. save_durable_state (export_state lab_engine) ''state'' calm_io (\<lambda>_. None) = (status, fs') \<and>
     load_durable_state default_limits ''state'' fs' = Inr s \<and> du_placements s = [lab_placement]"
proof -
  obtain status fs' where run: "save_durable_state (export_state lab_engine) ''state'' calm_io (\<lambda>_. None) = (status, fs')"
    by (meson surj_pair)
  then have "status_ok status"
    by (auto simp: save_durable_state_def encode_container calm_io_def Let_def)
  from restart_through_file [OF run this, of default_limits] lab_saved_readable lab_saved_small run show ?thesis
    by (fastforce simp: lab_saved_parts default_limits_def loadable_def simp flip: lab_saved_def)
qed

lemma lab_saved_accepted:
  "decode_durable_state default_limits (container (write_durable_payload lab_saved)) =
    Inr (lab_saved\<lparr>du_integrity_note := product_banner\<rparr>)"
  by (rule decode_encode_durable [OF lab_saved_readable lab_saved_small])

theorem container_tamper_detected_witness:
  "\<exists>status. decode_durable_state default_limits
     ((container (write_durable_payload lab_saved))[40 := container (write_durable_payload lab_saved) ! 40 + 1]) = Inl status"
proof -
  have "40 < length (container (write_durable_payload lab_saved))"
    by (simp add: write_durable_payload_def write_limits_def write_id_def)
  then show ?thesis using container_tamper_detected [OF lab_saved_accepted] by simp
qed

theorem accepted_state_within_bounds_witness:
  "list_all (ok_placement default_limits) (du_placements (lab_saved\<lparr>du_integrity_note := product_banner\<rparr>))"
  using accepted_state_within_bounds [OF lab_saved_accepted] by (simp add: ok_durable_payload_def)

end
