(* ===== verification/ProtocolLaws.thy ===== *)
theory ProtocolLaws
  imports Messages LabExample
begin

text \<open>
  What the framed transport guarantees: a frame carries its message type, correlation, epoch and
  payload unchanged, a scheduling decision survives encoding, framing and decoding as a whole, and
  the receiver refuses an accepted frame after any change of one byte.
\<close>

section \<open>The bytes of a frame\<close>

definition frame_fields :: "message_type \<Rightarrow> u64 \<Rightarrow> u64 \<Rightarrow> u32 \<Rightarrow> bytes" where
  "frame_fields t c e n = put_u32 kProtocolVersion @ put_u16 (message_type_value t) @
     put_u16 kFrameFlagsNone @ put_u64 c @ put_u64 e @ put_u32 n"

definition frame_bytes :: "message_type \<Rightarrow> u64 \<Rightarrow> u64 \<Rightarrow> bytes \<Rightarrow> bytes" where
  "frame_bytes t c e p =
     put_u32 (of_nat (32 + length p)) @ frame_fields t c e (of_nat (length p)) @
     put_u32 (low_u32 (fnv1a64 (frame_fields t c e (of_nat (length p)) @ p))) @ p"

lemma length_frame_fields [simp]: "length (frame_fields t c e n) = 28"
  by (simp add: frame_fields_def)

lemma length_frame_bytes [simp]: "length (frame_bytes t c e p) = 36 + length p"
  by (simp add: frame_bytes_def)

lemma put_u32_bytes:
  "put_u32 v = [ucast (v AND 0xff), ucast (drop_bit 8 v AND 0xff), ucast (drop_bit 16 v AND 0xff),
    ucast (drop_bit 24 v AND 0xff)]"
proof -
  have m: "(0xff :: u32) = mask 8" "(0xff :: u16) = mask 8" "(0xffff :: u32) = mask 16"
    by (simp_all add: mask_eq_exp_minus_1)
  show ?thesis unfolding put_u32_def put_u16_def put_u8_def m append.simps list.inject
    by (intro conjI TrueI refl; rule bit_word_eqI; auto simp: bit_simps add.commute)
qed

lemma frame_checksum_fields:
  assumes "length h = 4" and "length k = 4"
  shows "frame_checksum (h @ frame_fields t c e n @ k @ p) p = low_u32 (fnv1a64 (frame_fields t c e n @ p))"
  using assms by (simp add: frame_checksum_def kFrameHeaderFields_def fnv1a64_def fnv1a64_continue_append
      Let_def)

lemma encode_frame_bytes:
  assumes "length p + 36 \<le> 0xffffffff"
  shows "encode_frame t c e p = Inr (frame_bytes t c e p)"
proof -
  let ?pre = "put_u32 (of_nat (32 + length p)) @ frame_fields t c e (of_nat (length p))"
  have len: "length ?pre = 32" by simp
  have pre: "put_u32 (of_nat (kFrameHeaderFields + length p)) @ put_u32 kProtocolVersion @
      put_u16 (message_type_value t) @ put_u16 kFrameFlagsNone @ put_u64 c @ put_u64 e @
      put_u32 (of_nat (length p)) @ put_u32 0 = ?pre @ put_u32 0"
    by (simp add: kFrameHeaderFields_def frame_fields_def)
  have upd: "(?pre @ put_u32 0 @ p)[32 := a, 33 := b, 34 := d, 35 := f] = ?pre @ [a, b, d, f] @ p"
    for a b d f
    unfolding put_u32_bytes [of 0] using len by (simp add: list_update_append)
  have "frame_checksum ((?pre @ put_u32 0) @ p) p =
      low_u32 (fnv1a64 (frame_fields t c e (of_nat (length p)) @ p))"
    using frame_checksum_fields [of "put_u32 (of_nat (32 + length p))" "put_u32 0"] by simp
  then show ?thesis using assms unfolding encode_frame_def pre
    by (simp add: kFrameHeaderSize_def Let_def upd [simplified] frame_bytes_def put_u32_bytes [of "low_u32 _"])
qed

section \<open>Reading the header\<close>

lemma message_type_of_value: "message_type_of (message_type_value t) = Some t"
  by (cases t) (simp_all add: message_type_of_def kMessageTypeNames_def)

lemma message_type_of_Some: "message_type_of raw = Some t \<Longrightarrow> raw = message_type_value t"
  by (auto simp: message_type_of_def find_Some_iff)

lemma reads_frame_header:
  assumes "unat n = m - 4" and "n + 4 \<le> max_frame_size lim"
  shows "reads (read_frame_header lim m)
    (put_u32 n @ frame_fields t c e (n - 32) @ put_u32 k) (t, c, e, n - 32, k)"
proof -
  have "reads (read_frame_header lim m)
      (put_u32 n @ put_u32 kProtocolVersion @ put_u16 (message_type_value t) @ put_u16 kFrameFlagsNone @
        put_u64 c @ put_u64 e @ put_u32 (n - 32) @ put_u32 k) (t, c, e, n - 32, k)"
    unfolding read_frame_header_def kFrameHeaderFields_def
    by (rule reads_bind reads_require reads_u32 reads_u16 assms refl | simp add: assms not_less message_type_of_value
        | rule reads_last reads_u64)+
  then show ?thesis by (simp add: frame_fields_def)
qed

lemma accepts_frame_header:
  "accepts (read_frame_header lim m) (\<lambda>bs q. case q of (t, c, e, n, k) \<Rightarrow>
     unat (n + 32) = m - 4 \<and> n + 36 \<le> max_frame_size lim \<and>
     bs = put_u32 (n + 32) @ frame_fields t c e n @ put_u32 k)"
  unfolding read_frame_header_def kFrameHeaderFields_def
proof (rule accepts_bind [OF accepts_u32], rule accepts_require, rule accepts_require,
    rule accepts_bind [OF accepts_u32], rule accepts_require, rule accepts_bind [OF accepts_u16])
  fix b1 b2 b3 :: bytes and len version :: u32 and raw :: u16
  assume b1: "b1 = put_u32 len" and b2: "b2 = put_u32 version" and b3: "b3 = put_u16 raw"
    and len: "unat len = m - 4" "\<not> max_frame_size lim < len + 4"
    and version: "version = kProtocolVersion"
  show "accepts (case message_type_of raw of
       None \<Rightarrow> rstop (Status E_ProtocolError ''unknown message type'')
     | Some t \<Rightarrow>
         rbind get_u16 (\<lambda>flags.
         rrequire (flags = kFrameFlagsNone) (Status E_ProtocolError ''frame flags must be zero'') (
         rbind get_u64 (\<lambda>correlation_id.
         rbind get_u64 (\<lambda>coordinator_epoch.
         rbind get_u32 (\<lambda>payload_length.
         rrequire (payload_length = len - of_nat 32)
           (Status E_ProtocolError ''declared payload length does not match the frame'') (
         rbind get_u32 (\<lambda>checksum.
         rreturn (t, correlation_id, coordinator_epoch, payload_length, checksum)))))))))
     (\<lambda>cs q. case q of (t, c, e, n, k) \<Rightarrow>
       unat (n + 32) = m - 4 \<and> n + 36 \<le> max_frame_size lim \<and>
       b1 @ b2 @ b3 @ cs = put_u32 (n + 32) @ frame_fields t c e n @ put_u32 k)"
  proof (cases "message_type_of raw")
    case (Some t)
    have bound: "4 + len \<le> max_frame_size lim" using len(2) by (simp add: not_less add.commute)
    show ?thesis unfolding Some option.case
      by (rule accepts_bind accepts_require accepts_return accepts_rules)+
        (use b1 b2 b3 len version message_type_of_Some [OF Some] bound in
          \<open>simp add: frame_fields_def not_less\<close>)
  qed (simp add: accepts_stop)
qed

lemma decode_frame_bytes:
  assumes "36 + length p \<le> unat (max_frame_size lim)"
  shows "decode_frame lim (frame_bytes t c e p) =
    Inr \<lparr>fv_type = t, fv_correlation_id = c, fv_coordinator_epoch = e, fv_payload = p\<rparr>"
proof -
  let ?n = "of_nat (length p) :: u32" and ?len = "of_nat (32 + length p) :: u32"
  let ?k = "low_u32 (fnv1a64 (frame_fields t c e ?n @ p))"
  let ?r = "make_byte_reader (frame_bytes t c e p) E_ProtocolError"
  have bound: "36 + length p < 2 ^ 32"
    using assms unsigned_less [of "max_frame_size lim", where 'a = nat] by simp
  have len: "unat ?len = 32 + length p" "unat ?n = length p"
    using bound by (simp_all add: unat_of_nat take_bit_nat_eq_self del: of_nat_add)
  have four: "unat (?len + 4) = 36 + length p"
    using unat_add_no_wrap [of ?len 4] len(1) bound by simp
  have sub: "?len - 32 = ?n" by simp
  have "reads (read_frame_header lim (36 + length p)) (put_u32 ?len @ frame_fields t c e ?n @ put_u32 ?k) (t, c, e, ?n, ?k)"
    using reads_frame_header [of ?len "36 + length p" lim t c e ?k] assms len(1) four
    unfolding sub by (simp only: word_le_unat) simp
  from readsD [OF this, of ?r p] obtain r where
    "read_frame_header lim (36 + length p) ?r = Inr ((t, c, e, ?n, ?k), r)"
    by (simp add: frame_bytes_def)
  moreover have "drop 36 (frame_bytes t c e p) = p" by (simp add: frame_bytes_def)
  moreover have "frame_checksum (frame_bytes t c e p) p = ?k"
    unfolding frame_bytes_def by (rule frame_checksum_fields) simp_all
  ultimately show ?thesis using len(2)
    by (simp add: decode_frame_def kFrameHeaderSize_def)
qed

lemma decode_frame_accepted:
  assumes "decode_frame lim f = Inr v"
  shows "f = frame_bytes (fv_type v) (fv_correlation_id v) (fv_coordinator_epoch v) (fv_payload v)"
proof -
  let ?r = "make_byte_reader f E_ProtocolError"
  from assms obtain t c e n k r where long: "36 \<le> length f"
    and header: "read_frame_header lim (length f) ?r = Inr ((t, c, e, n, k), r)"
    and k: "k = frame_checksum f (take (unat n) (drop 36 f))"
    and v: "v = \<lparr>fv_type = t, fv_correlation_id = c, fv_coordinator_epoch = e, fv_payload = drop 36 f\<rparr>"
    by (auto simp: decode_frame_def kFrameHeaderSize_def split: if_splits sum.splits prod.splits)
  from accepts_frame_header header obtain hs where f: "f = hs @ rd_rest r"
    and r: "r = rd_advance (length hs) ?r" and n: "unat (n + 32) = length f - 4"
    and hs: "hs = put_u32 (n + 32) @ frame_fields t c e n @ put_u32 k"
    unfolding accepts_def by fastforce
  define p where "p = drop 36 f"
  from r hs have rest: "rd_rest r = p" by (simp add: p_def)
  have len: "unat (n + 32) = 32 + length p" using n long by (simp add: p_def)
  then have "n + 32 = of_nat (32 + length p)" by (simp add: word_unat_eq_iff flip: len)
  moreover have n3: "unat n = length p"
  proof -
    have "unat (n + 32 - 32) = unat (n + 32) - unat (32 :: u32)"
      by (rule unat_sub_le) (simp add: word_nat len)
    moreover have "n + 32 - 32 = n" and "unat (32 :: u32) = 32" by simp_all
    ultimately show ?thesis using len by simp
  qed
  moreover have "n = of_nat (length p)" by (simp flip: n3)
  ultimately have n': "n + 32 = of_nat (32 + length p)" "n = of_nat (length p)" "unat n = length p"
    by simp_all
  have f': "f = put_u32 (of_nat (32 + length p)) @ frame_fields t c e (of_nat (length p)) @ put_u32 k @ p"
    using f rest n'(1,2) by (simp add: hs add.commute)
  have "take (unat n) (drop 36 f) = p" by (simp add: n'(3) flip: p_def)
  with k f' have "k = low_u32 (fnv1a64 (frame_fields t c e (of_nat (length p)) @ p))"
    using frame_checksum_fields [of "put_u32 (of_nat (32 + length p))" "put_u32 k" t c e "of_nat (length p)" p] by simp
  with f' v show ?thesis by (simp add: frame_bytes_def flip: p_def)
qed

section \<open>Tampering\<close>

lemma low_update_detects:
  assumes "low_u32 (fnv1a64 (zs[j := x])) = low_u32 (fnv1a64 zs)" and "j < length zs"
  shows "x = zs ! j"
proof -
  have "low_u32 (fnv1a64 (take j zs @ x # drop (Suc j) zs)) =
      low_u32 (fnv1a64 (take j zs @ zs ! j # drop (Suc j) zs))"
    using assms by (simp add: upd_conv_take_nth_drop id_take_nth_drop [symmetric])
  then show ?thesis by (rule fnv_low_detects)
qed

lemma put_u32_inj: "put_u32 a = put_u32 b \<Longrightarrow> a = b"
  using u32_codec.prefix_free [where x = a and y = b and bs = "[]" and cs = "[]"] by simp

lemma frame_one_byte:
  assumes i: "i < length (frame_bytes t c e p)" and upd: "(frame_bytes t c e p)[i := x] = frame_bytes t' c' e' p'"
  shows "x = frame_bytes t c e p ! i"
proof -
  have len: "length p' = length p" using arg_cong [OF upd, of length] by simp
  define F F' where "F = frame_fields t c e (of_nat (length p))"
    and "F' = frame_fields t' c' e' (of_nat (length p'))"
  define L K K' where "L = put_u32 (of_nat (32 + length p))"
    and "K = put_u32 (low_u32 (fnv1a64 (F @ p)))" and "K' = put_u32 (low_u32 (fnv1a64 (F' @ p')))"
  have lens [simp]: "length L = 4" "length F = 28" "length K = 4" "length K' = 4" "length F' = 28"
    by (simp_all add: L_def F_def F'_def K_def K'_def)
  have f: "frame_bytes t c e p = L @ F @ K @ p"
    by (simp add: frame_bytes_def L_def F_def K_def)
  have g: "frame_bytes t' c' e' p' = L @ F' @ K' @ p'"
    by (simp add: frame_bytes_def L_def F'_def K'_def len)
  note upd = upd [unfolded f g]
  have sums: "low_u32 (fnv1a64 (F' @ p')) = low_u32 (fnv1a64 (F @ p))" if "K' = K"
    using that unfolding K_def K'_def by (rule put_u32_inj)
  have unchanged: ?thesis if "F' = F" "p' = p"
  proof -
    have "(L @ F @ K @ p)[i := x] = L @ F @ K @ p" using upd that by (simp add: K_def K'_def)
    with i show ?thesis unfolding f by (metis nth_list_update_eq)
  qed
  consider "i < 4" | j where "i = 4 + j" "j < 28" | j where "i = 32 + j" "j < 4"
    | j where "i = 36 + j" "j < length p"
  proof -
    assume c: "i < 4 \<Longrightarrow> thesis" "\<And>j. i = 4 + j \<Longrightarrow> j < 28 \<Longrightarrow> thesis"
      "\<And>j. i = 32 + j \<Longrightarrow> j < 4 \<Longrightarrow> thesis" "\<And>j. i = 36 + j \<Longrightarrow> j < length p \<Longrightarrow> thesis"
    show thesis using c(1) c(2) [of "i - 4"] c(3) [of "i - 32"] c(4) [of "i - 36"] i
      by (cases "i < 4"; cases "i < 32"; cases "i < 36") auto
  qed
  then show ?thesis
  proof cases
    case 1
    with upd have "F' = F" "p' = p" by (auto simp: list_update_append)
    then show ?thesis by (rule unchanged)
  next
    case 2
    with upd have new: "F' = F[j := x]" "K' = K" "p' = p" by (auto simp: list_update_append)
    with sums have "low_u32 (fnv1a64 ((F @ p)[j := x])) = low_u32 (fnv1a64 (F @ p))"
      using 2 by (simp add: list_update_append)
    then have "x = (F @ p) ! j" by (rule low_update_detects) (use 2 in simp)
    then show ?thesis using 2 by (simp add: f nth_append)
  next
    case 3
    with upd have "F' = F" "p' = p" by (auto simp: list_update_append)
    then show ?thesis by (rule unchanged)
  next
    case 4
    with upd have new: "F' = F" "K' = K" "p' = p[j := x]" by (auto simp: list_update_append)
    with sums have "low_u32 (fnv1a64 ((F @ p)[28 + j := x])) = low_u32 (fnv1a64 (F @ p))"
      by (simp add: list_update_append)
    then have "x = (F @ p) ! (28 + j)" by (rule low_update_detects) (use 4 in simp)
    then show ?thesis using 4 by (simp add: f nth_append)
  qed
qed

text \<open>
  C39. A frame that the receiver accepts is refused after every change of a single byte, at any
  position: of the length, of the header fields, of the checksum or of the payload. The low half of
  the hash kept in the header misses no one-byte error.
\<close>

theorem frame_tamper_detected:
  assumes accepted: "decode_frame lim f = Inr v" and i: "i < length f" and x: "x \<noteq> f ! i"
  shows "\<exists>status. decode_frame lim (f[i := x]) = Inl status"
proof (cases "decode_frame lim (f[i := x])")
  case (Inr w)
  from decode_frame_accepted [OF accepted] decode_frame_accepted [OF Inr] frame_one_byte i x
  show ?thesis by metis
qed simp

lemma overlong_failure_refused:
  assumes "unat (max_string_length lim) < length (dm_failure_detail m)" and "length (dm_failure_detail m) < 2 ^ 32"
  shows "\<exists>status. decode_decision lim (encode_decision m) = Inl status"
proof -
  have "refuses (read_decision lim) (encode_decision m)"
    unfolding read_decision_def encode_decision_def
    by (rule refuses_later, rule reads_rules, rule refuses_later, rule reads_rules,
        rule refuses_later, rule reads_rules, rule refuses_first, rule refuses_string [OF assms, unfolded write_string_def])
  then show ?thesis unfolding decode_decision_def by (rule decode_all_refuses)
qed

text \<open>
  C40. How a decision reaches the client. When the coordinator encodes, frames and sends a decision
  and the frame fits the frame limit, decoding the frame yields its type, its correlation and its
  epoch; decoding the payload yields the decision with its whole placement record, its authority
  envelope and its explanation exactly when its fields lie within the bounds of the client. A
  decision whose failure text is longer than the limit on texts, as the refusal of C38 has, is refused.
\<close>

theorem decision_transport:
  assumes "encode_frame MT_Decision c e (encode_decision m) = Inr f"
    and "length f \<le> unat (max_frame_size lim)"
  shows "\<exists>v. decode_frame lim f = Inr v \<and> fv_type v = MT_Decision \<and> fv_correlation_id v = c \<and>
    fv_coordinator_epoch v = e \<and>
    (decode_decision lim (fv_payload v) = Inr m \<longleftrightarrow> ok_decision lim m) \<and>
    (unat (max_string_length lim) < length (dm_failure_detail m) \<longrightarrow>
       (\<exists>status. decode_decision lim (fv_payload v) = Inl status))"
proof -
  have small: "length (encode_decision m) + 36 \<le> 0xffffffff"
    using assms(1) by (simp add: encode_frame_def kFrameHeaderSize_def split: if_splits)
  with assms(1) have f: "f = frame_bytes MT_Decision c e (encode_decision m)"
    by (simp add: encode_frame_bytes)
  with assms(2) have "decode_frame lim f = Inr \<lparr>fv_type = MT_Decision, fv_correlation_id = c,
      fv_coordinator_epoch = e, fv_payload = encode_decision m\<rparr>"
    by (simp add: decode_frame_bytes)
  moreover have "decode_decision lim (encode_decision m) = Inr m \<longleftrightarrow> ok_decision lim m"
    unfolding decode_decision_def
    using decision_payload.decode_encode decision_payload.decode_canonical by blast
  moreover have "length (dm_failure_detail m) \<le> length (encode_decision m)"
    by (simp add: encode_decision_def put_str_def text_bytes_def)
  with small have "length (dm_failure_detail m) < 2 ^ 32" by simp
  ultimately show ?thesis using overlong_failure_refused [of lim m] by simp
qed

section \<open>Witnesses\<close>

definition lab_decision :: decision_message where
  "lab_decision = \<lparr>dm_decision = 101, dm_outcome = DO_Placed, dm_failure = E_Ok, dm_failure_detail = [],
     dm_placement = lab_placement,
     dm_authority = \<lparr>ae_request = 20, ae_experiment = 5, ae_experiment_generation = 1,
       ae_placement = 102, ae_placement_generation = 1, ae_epoch = 1, ae_lease = 104,
       ae_reservation = 103, ae_worker = 7, ae_worker_boot = 3, ae_resources = [lab_selected]\<rparr>,
     dm_explanation = ''placed''\<rparr>"

lemma lab_decision_parts:
  "ok_placement default_limits (dm_placement lab_decision)"
  "ok_authority_envelope default_limits (dm_authority lab_decision)"
  by code_simp+

lemma lab_decision_ok: "ok_decision default_limits lab_decision"
  using lab_decision_parts by (simp add: ok_decision_def) (simp add: lab_decision_def default_limits_def)

lemma lab_decision_small: "length (encode_decision lab_decision) \<le> 2000"
  by code_simp

lemma lab_frame: "encode_frame MT_Decision 9 1 (encode_decision lab_decision) =
    Inr (frame_bytes MT_Decision 9 1 (encode_decision lab_decision))"
  by (rule encode_frame_bytes) (use lab_decision_small in simp)

lemma lab_frame_fits: "length (frame_bytes MT_Decision 9 1 (encode_decision lab_decision)) \<le> unat (max_frame_size default_limits)"
  using lab_decision_small by (simp add: default_limits_def)

theorem decision_transport_witness:
  "\<exists>v. decode_frame default_limits (frame_bytes MT_Decision 9 1 (encode_decision lab_decision)) = Inr v \<and>
     decode_decision default_limits (fv_payload v) = Inr lab_decision"
  using decision_transport [OF lab_frame lab_frame_fits] lab_decision_ok by blast

theorem frame_tamper_detected_witness:
  "\<exists>status. decode_frame default_limits ((frame_bytes MT_Decision 9 1 (encode_decision lab_decision))[40 :=
     frame_bytes MT_Decision 9 1 (encode_decision lab_decision) ! 40 + 1]) = Inl status"
proof (rule frame_tamper_detected)
  show "decode_frame default_limits (frame_bytes MT_Decision 9 1 (encode_decision lab_decision)) =
      Inr \<lparr>fv_type = MT_Decision, fv_correlation_id = 9, fv_coordinator_epoch = 1,
        fv_payload = encode_decision lab_decision\<rparr>"
    by (rule decode_frame_bytes) (use lab_frame_fits in simp)
  show "40 < length (frame_bytes MT_Decision 9 1 (encode_decision lab_decision))"
    by (simp add: encode_decision_def write_id_def)
qed simp

end
