(* ===== verification/Transport.thy ===== *)
theory Transport
  imports ProtocolLaws Socket
begin

text \<open>
  Framing over a stream: a frame that was sent completely is received as it was sent, whatever pieces
  the sending and the receiving socket cut it into, and a frame that was sent in part is never
  received.
\<close>

section \<open>The length field\<close>

lemma or_bytes_u32:
  "(ucast (ucast (v AND 0xff) :: u8) OR push_bit 8 (ucast (ucast (drop_bit 8 v AND 0xff) :: u8)) OR
    push_bit 16 (ucast (ucast (drop_bit 16 v AND 0xff) :: u8)) OR
    push_bit 24 (ucast (ucast (drop_bit 24 v AND 0xff) :: u8)) :: u32) = v"
proof -
  have m: "(0xff :: u32) = mask 8" by (simp add: mask_eq_exp_minus_1)
  show ?thesis unfolding m
  proof (rule bit_word_eqI)
    fix n
    assume "n < LENGTH(32)"
    then have "n < 8 \<or> 8 \<le> n \<and> n < 16 \<or> 16 \<le> n \<and> n < 24 \<or> 24 \<le> n \<and> n < 32" by auto
    then show "bit (ucast (ucast (v AND mask 8) :: u8) OR push_bit 8 (ucast (ucast (drop_bit 8 v AND mask 8) :: u8)) OR
        push_bit 16 (ucast (ucast (drop_bit 16 v AND mask 8) :: u8)) OR
        push_bit 24 (ucast (ucast (drop_bit 24 v AND mask 8) :: u8)) :: u32) n = bit v n"
      by (elim disjE) (auto simp: bit_simps)
  qed
qed

lemma length_field:
  fixes v :: u32
  assumes "prefix = put_u32 v"
  shows "(ucast (prefix ! 0) OR push_bit 8 (ucast (prefix ! 1)) OR push_bit 16 (ucast (prefix ! 2)) OR
    push_bit 24 (ucast (prefix ! 3)) :: u32) = v"
  using or_bytes_u32 [of v] by (simp add: assms put_u32_bytes numeral_eq_Suc)

lemma frame_bytes_split:
  obtains remainder where "frame_bytes t c e p = put_u32 (of_nat (32 + length p)) @ remainder"
    and "length remainder = 32 + length p"
proof (rule that)
  show "frame_bytes t c e p = put_u32 (of_nat (32 + length p)) @ drop 4 (frame_bytes t c e p)"
    by (simp add: frame_bytes_def)
qed simp

lemma unat_frame_length:
  assumes "36 + length p \<le> unat (max_frame_size lim)"
  shows "unat (of_nat (32 + length p) :: u32) = 32 + length p"
proof -
  have "32 + length p < 2 ^ 32"
    using assms unsigned_less [of "max_frame_size lim", where 'a = nat] by simp
  then show ?thesis by (simp add: unat_of_nat take_bit_nat_eq_self del: of_nat_add)
qed

section \<open>Whole and partial frames\<close>

lemma receive_whole_frame:
  assumes small: "36 + length p \<le> unat (max_frame_size lim)"
    and stream: "stream_bytes inc = frame_bytes t c e p @ left"
  shows "\<exists>rest. receive_frame lim inc = (Inr \<lparr>fv_type = t, fv_correlation_id = c,
      fv_coordinator_epoch = e, fv_payload = p\<rparr>, rest) \<and> stream_bytes rest = left \<and>
    stream_end rest = stream_end inc"
proof -
  let ?n = "of_nat (32 + length p) :: u32"
  obtain remainder where f: "frame_bytes t c e p = put_u32 ?n @ remainder"
    and len: "length remainder = 32 + length p" by (rule frame_bytes_split)
  obtain inc' where head: "receive_exact 4 inc = (Inr (put_u32 ?n), inc')"
    "stream_bytes inc' = remainder @ left" "stream_end inc' = stream_end inc"
    using receive_exact_enough [of inc "put_u32 ?n" "remainder @ left" 4] stream f by auto
  obtain rest where body: "receive_exact (32 + length p) inc' = (Inr remainder, rest)"
    "stream_bytes rest = left" "stream_end rest = stream_end inc"
    using receive_exact_enough [OF head(2) len] head(3) by auto
  note n = unat_frame_length [OF small]
  have pos: "?n \<noteq> 0" using n by (metis add_is_0 unat_0 zero_neq_numeral)
  show ?thesis
    using decode_frame_bytes [OF small, of t c e] body small pos
    unfolding receive_frame_def head(1) prod.case sum.case Let_def length_field [OF refl] n
    by (simp add: f)
qed

lemma receive_partial_frame:
  assumes "36 + length p \<le> unat (max_frame_size lim)"
    and f: "frame_bytes t c e p = stream_bytes inc @ missing" "missing \<noteq> []"
  shows "\<exists>rest. receive_frame lim inc = (Inl (stream_end inc), rest)"
proof -
  let ?n = "of_nat (32 + length p) :: u32"
  obtain remainder where g: "frame_bytes t c e p = put_u32 ?n @ remainder"
    and len: "length remainder = 32 + length p" by (rule frame_bytes_split)
  obtain a inc' where head: "receive_exact 4 inc = (a, inc')" by (cases "receive_exact 4 inc")
  note four = receive_exact_stream [where n = 4 and inc = inc, unfolded head prod.case]
  show ?thesis
  proof (cases a)
    case (Inl status)
    with four show ?thesis by (simp add: receive_frame_def head)
  next
    case (Inr prefix)
    with four have long: "4 \<le> length (stream_bytes inc)" and prefix: "prefix = take 4 (stream_bytes inc)"
      and rest: "stream_bytes inc' = drop 4 (stream_bytes inc)" "stream_end inc' = stream_end inc"
      by simp_all
    have "take 4 (stream_bytes inc) = take 4 (frame_bytes t c e p)" using long by (simp add: f(1))
    then have field: "prefix = put_u32 ?n" by (simp add: prefix g)
    have short: "length (stream_bytes inc') < 32 + length p"
    proof -
      have "36 + length p = length (stream_bytes inc) + length missing"
        using arg_cong [OF f(1), of length] by simp
      moreover have "0 < length missing" using f(2) by simp
      moreover have "length (stream_bytes inc') = length (stream_bytes inc) - 4" using rest(1) by simp
      ultimately show ?thesis using long by linarith
    qed
    note n = unat_frame_length [OF assms(1)]
    have pos: "?n \<noteq> 0" using n by (metis add_is_0 unat_0 zero_neq_numeral)
    obtain b inc'' where body: "receive_exact (32 + length p) inc' = (b, inc'')"
      by (cases "receive_exact (32 + length p) inc'")
    with receive_exact_stream [where n = "32 + length p" and inc = inc'] short rest
    have "b = Inl (stream_end inc)" by (auto split: sum.splits)
    with body assms(1) pos show ?thesis
      unfolding receive_frame_def head Inr prod.case sum.case Let_def length_field [OF field] n by simp
  qed
qed

text \<open>
  C18. Framing is independent of segmentation, and a broken send is never mistaken for a frame. When
  \<open>send_frame\<close> reports success, the receiver gets exactly the type, correlation, epoch and payload
  that were sent and leaves the rest of the stream untouched, however \<open>send\<close> cut the bytes and
  however \<open>recv\<close> returns them. When it reports a failure and the connection ends there, the
  receiver reports the end of the connection and no frame.
\<close>

theorem frame_delivered:
  assumes sent: "send_frame answer error valid t c e p = (status, accepted)"
    and small: "36 + length p \<le> unat (max_frame_size lim)"
    and stream: "stream_bytes inc = accepted @ left"
    and ended: "status_ok status \<or> left = []"
  shows "\<exists>rest. if status_ok status
    then receive_frame lim inc = (Inr \<lparr>fv_type = t, fv_correlation_id = c, fv_coordinator_epoch = e,
        fv_payload = p\<rparr>, rest) \<and> stream_bytes rest = left \<and> stream_end rest = stream_end inc
    else receive_frame lim inc = (Inl (stream_end inc), rest)"
proof -
  have "length p + 36 \<le> 0xffffffff"
    using small unsigned_less [of "max_frame_size lim", where 'a = nat] by simp
  note enc = encode_frame_bytes [OF this]
  show ?thesis
  proof (cases valid)
    case False
    with sent enc stream ended have "\<not> status_ok status" "stream_bytes inc = []"
      by (auto simp: send_frame_def send_all_def status_ok_def)
    with receive_partial_frame [OF small, of t c e inc "frame_bytes t c e p"]
    show ?thesis by (auto simp: frame_bytes_def put_u32_bytes)
  next
    case True
    with sent enc have loop: "send_loop answer error 0 [] (frame_bytes t c e p) = (status, accepted)"
      by (simp add: send_frame_def send_all_def)
    show ?thesis
    proof (cases "status_ok status")
      case True
      then have "accepted = frame_bytes t c e p"
        by (rule send_loop_whole [OF loop])
      with receive_whole_frame [OF small, of inc t c e left] stream True show ?thesis by simp
    next
      case False
      with stream ended have acc: "stream_bytes inc = accepted" by simp
      from send_loop_partial [OF loop False] obtain missing where
        "frame_bytes t c e p = accepted @ missing" "missing \<noteq> []" by auto
      with receive_partial_frame [OF small, of t c e inc missing] acc False show ?thesis by simp
    qed
  qed
qed

text \<open>A frame sent twenty bytes at a time and received in two pieces.\<close>

lemma lab_send: "send_frame (\<lambda>_. 20) 0 True MT_Shutdown 1 1 [] =
    (ok_status, frame_bytes MT_Shutdown 1 1 [])"
proof -
  have two: "send_loop (\<lambda>_. 20) 0 0 [] bs = (ok_status, bs)" if "length bs = 36" for bs
    using that by (simp add: send_loop.simps flip: length_greater_0_conv)
  show ?thesis
    using encode_frame_bytes [of "[]" MT_Shutdown 1 1] two [of "frame_bytes MT_Shutdown 1 1 []"]
    by (simp add: send_frame_def send_all_def)
qed

lemma lab_split: "stream_bytes [Data (take 5 (frame_bytes MT_Shutdown 1 1 [])),
    Data (drop 5 (frame_bytes MT_Shutdown 1 1 []))] = frame_bytes MT_Shutdown 1 1 [] @ []"
  by (simp flip: length_greater_0_conv)

theorem frame_delivered_witness:
  "fst (receive_frame default_limits [Data (take 5 (frame_bytes MT_Shutdown 1 1 [])),
     Data (drop 5 (frame_bytes MT_Shutdown 1 1 []))]) =
   Inr \<lparr>fv_type = MT_Shutdown, fv_correlation_id = 1, fv_coordinator_epoch = 1, fv_payload = []\<rparr>"
proof -
  have "36 + length ([] :: bytes) \<le> unat (max_frame_size default_limits)"
    by (simp add: default_limits_def)
  from frame_delivered [OF lab_send this lab_split] show ?thesis by auto
qed

end
