(* ===== verification/ClusterLaws.thy ===== *)
theory ClusterLaws
  imports ClusterSteps Worker PersistenceLaws Transport
begin

text \<open>
  What the coordinator guarantees to whoever connects, and what its protocol with the workers does
  not: the ledger under any interleaving of connections, one answer for every frame, no effect of a
  payload that does not decode, the state file after an accepted mutation, the end of a connection,
  and the defects of reassignment, shutdown, repeated greetings and interleaved assignments.
\<close>

section \<open>The ledger of a running coordinator\<close>

text \<open>
  A coordinator that was started, either without a state file or from a file whose records leave
  room for fresh identities, and the steps while its identities last.
\<close>

definition started :: "coordinator \<Rightarrow> bool" where
  "started c \<longleftrightarrow> (\<exists>cfg fs listening port status.
     config_ok (coordinator_engine_config cfg) \<and>
     coordinator_start cfg fs listening port = Inr (status, c) \<and>
     (\<forall>d. load_durable_state (cf_limits cfg) (cf_state_path cfg) fs = Inr d \<longrightarrow>
        selections_ok d \<and> import_floor d (make_engine (coordinator_engine_config cfg)) \<noteq> - 1))"

definition live_step :: "coordinator \<Rightarrow> coordinator \<Rightarrow> bool" where
  "live_step c c' \<longleftrightarrow> ids_room (eng_ids (co_engine c)) \<and> coordinator_step c c'"

lemma coordinator_step_engine:
  "coordinator_step c c' \<Longrightarrow> ids_room (eng_ids (co_engine c)) \<Longrightarrow>
     at_most_one (co_engine c) (co_engine c')"
proof (induction rule: coordinator_step.induct)
  case (step_finish c io)
  then show ?case by (simp add: finish_run_def)
qed (simp_all add: register_peer_def handle_frame_engine connection_ended_engine)

lemma recovered_reachable:
  assumes "config_ok (coordinator_engine_config cfg)"
    and "coordinator_recover cfg fs (make_engine (coordinator_engine_config cfg)) = Inr (r, e)"
    and "\<And>d. load_durable_state (cf_limits cfg) (cf_state_path cfg) fs = Inr d \<Longrightarrow>
       selections_ok d \<and> import_floor d (make_engine (coordinator_engine_config cfg)) \<noteq> - 1"
  shows "reachable e"
proof -
  let ?e0 = "make_engine (coordinator_engine_config cfg)"
  have "e = ?e0 \<or> (\<exists>d. load_durable_state (cf_limits cfg) (cf_state_path cfg) fs = Inr d \<and>
      e = snd (import_state d ?e0))"
    using assms(2) by (auto simp: coordinator_recover_def split: if_splits sum.splits prod.splits)
  with reachable_make [OF assms(1)] show ?thesis
    using assms(3) reachable_step step_import by blast
qed

interpretation service: transition_invariant started live_step "\<lambda>c. reachable (co_engine c)"
proof
  show "reachable (co_engine c)" if "started c" for c
    using that recovered_reachable unfolding started_def coordinator_start_def
    by (fastforce split: if_splits sum.splits prod.splits)
  show "reachable (co_engine c')" if "reachable (co_engine c)" "live_step c c'" for c c'
    using that coordinator_step_engine [of c c'] reachable_step
    by (auto simp: live_step_def at_most_one_def)
qed

text \<open>
  C12. The ledger of a coordinator is exact at every moment, whatever bytes arrive on whatever
  connections in whatever order: from the start, fresh or recovered from a state file, after any
  number of accepted connections, received frames, ended connections and saves, the checks of
  capacity, mirror, live placements, active reservations, references and units all pass.
\<close>

theorem coordinator_keeps_ledger:
  assumes "started c" and "live_step\<^sup>*\<^sup>* c c'"
  shows "list_all (\<lambda>check. ic_ok (check (eng_state (co_engine c'))))
    [check_capacity, check_mirror, check_live_placements, check_active_reservations, check_references,
     check_units]"
  using engine_inv_checks [OF reachable_inv [OF service.inv_reachable [OF assms]]] by simp

section \<open>Answers\<close>

text \<open>
  C17. Every frame is answered: whatever frame arrives, the coordinator hands exactly one reply to the
  socket of the connection it came from, before anything else, with the correlation of the frame and the epoch of
  the engine, of the type that answers the request or an error. Whatever else it sends are
  assignments and shutdown notices to connected workers.
\<close>

theorem every_frame_answered:
  "\<exists>reply fs. co_sent (handle_frame io pid view c) = co_sent c @ (pid, reply) # fs \<and>
     fv_type reply \<in> {answer_type (fv_type view), MT_Error} \<and>
     fv_correlation_id reply = fv_correlation_id view \<and>
     fv_coordinator_epoch reply = engine_epoch (co_engine (handle_frame io pid view c)) \<and>
     fst ` set fs \<subseteq> set (worker_peers (handle_frame io pid view c)) \<and>
     (fv_type \<circ> snd) ` set fs \<subseteq> {MT_Assign, MT_Shutdown}"
  using handle_message_answers [of pid view c io]
  unfolding answers_def notices_def handle_frame_parts worker_peers_def by blast

section \<open>Payloads that do not decode\<close>

text \<open>Why a frame is refused: its payload does not decode, or its type is not a request.\<close>

definition refusal :: "limits \<Rightarrow> frame_view \<Rightarrow> status option" where
  "refusal lim view =
     (let error = (\<lambda>r. case r of Inl status \<Rightarrow> Some status | Inr _ \<Rightarrow> None); p = fv_payload view in
      case fv_type view of
        MT_Hello \<Rightarrow> error (map_sum id (\<lambda>_. ()) (decode_hello lim p))
      | MT_RegisterResource \<Rightarrow> error (map_sum id (\<lambda>_. ()) (decode_resource_message lim p))
      | MT_PublishState \<Rightarrow> error (map_sum id (\<lambda>_. ()) (decode_resource_message lim p))
      | MT_RetireResource \<Rightarrow> error (map_sum id (\<lambda>_. ()) (decode_retire lim p))
      | MT_ScheduleRequest \<Rightarrow> error (map_sum id (\<lambda>_. ()) (decode_schedule lim p))
      | MT_AssignAck \<Rightarrow> error (map_sum id (\<lambda>_. ()) (decode_authority lim p))
      | MT_Running \<Rightarrow> error (map_sum id (\<lambda>_. ()) (decode_authority lim p))
      | MT_Completion \<Rightarrow> error (map_sum id (\<lambda>_. ()) (decode_completion lim p))
      | MT_CancelPlacement \<Rightarrow> error (map_sum id (\<lambda>_. ()) (decode_cancel_placement lim p))
      | MT_CancelRequest \<Rightarrow> error (map_sum id (\<lambda>_. ()) (decode_cancel_request lim p))
      | MT_Reassign \<Rightarrow> error (map_sum id (\<lambda>_. ()) (decode_cancel_placement lim p))
      | MT_Preempt \<Rightarrow> error (map_sum id (\<lambda>_. ()) (decode_cancel_placement lim p))
      | MT_Inspect \<Rightarrow> error (map_sum id (\<lambda>_. ()) (decode_inspect lim p))
      | MT_SaveState \<Rightarrow> error (map_sum id (\<lambda>_. ()) (decode_save_state lim p))
      | MT_DisconnectWorker \<Rightarrow> error (map_sum id (\<lambda>_. ()) (decode_disconnect_worker lim p))
      | MT_Shutdown \<Rightarrow> None
      | t \<Rightarrow> Some (Status E_ProtocolError (''message type '' @ message_type_name t @
          '' is not accepted by the coordinator on this connection'')))"

text \<open>
  C32. A payload that does not decode, and a message type that is no request, have no effect: the
  coordinator answers with the error, and its engine, its files, its connections and its shutdown
  flag are what they were.
\<close>

theorem unreadable_payload_harmless:
  assumes "refusal (lim_of c) view = Some status"
  shows "handle_frame io pid view c = c\<lparr>co_sent := co_sent c @ [(pid, \<lparr>fv_type = MT_Error,
    fv_correlation_id = fv_correlation_id view, fv_coordinator_epoch = engine_epoch (co_engine c),
    fv_payload = encode_error_message \<lparr>em_code = st_code status, em_message = st_message status\<rparr>\<rparr>)]\<rparr>"
proof -
  have "handle_message io pid view c = (reply_error pid (fv_correlation_id view) status c, False)"
    using assms unfolding refusal_def Let_def
    by (cases "fv_type view")
      (auto simp: handle_message_def handler_defs Let_def map_sum_def split: sum.splits)
  then show ?thesis by (simp add: handle_frame_def reply_error_def peer_send_def)
qed

section \<open>The end of a connection\<close>









section \<open>Accepted mutations reach the state file\<close>

lemma handle_message_files:
  assumes "fv_type view \<noteq> MT_SaveState"
  shows "co_files (fst (handle_message io pid view c)) = co_files c"
    and "co_config (fst (handle_message io pid view c)) = co_config c"
  using assms unfolding handle_message_def Let_def
  by (cases "fv_type view"; auto simp: handler_defs case_prod_beta Let_def split: sum.split)+

lemma save_state_not_mutation: "\<not> snd (handle_save_state io pid k payload c)"
  by (simp add: handle_save_state_def decoded_def case_prod_beta Let_def split: sum.split)

text \<open>
  C14. The state file is what the acknowledged mutations made of the engine: after a frame whose
  handler reports a mutation, when the operating system performs the save, the file under the state
  path holds exactly the container of the encoded state of the engine after the frame; it is loaded
  back as that state exactly when the state lies within the bounds of the reader, which C38 shows an
  engine can leave. After any other frame but a save request no file has changed.
\<close>

theorem accepted_mutation_persisted:
  fixes io :: save_io and pid :: nat and view :: frame_view and c :: coordinator
  defines "c' \<equiv> handle_frame io pid view c" and "path \<equiv> cf_state_path (co_config c)"
  assumes persisting: "cf_persist_on_mutation (co_config c)" "path \<noteq> []"
    and disk: "io_open io" "io_partial io = None" "io_rename io \<or> io_rename_again io"
    and room: "unat (max_persistence_bytes lim) + 28 < 2 ^ 64"
    and request: "fv_type view \<noteq> MT_SaveState"
  shows "if snd (handle_message io pid view c)
    then co_files c' path = Some (container (write_durable_payload (export_state (co_engine c')))) \<and>
      (load_durable_state lim path (co_files c') =
         Inr ((export_state (co_engine c'))\<lparr>du_integrity_note := product_banner\<rparr>) \<longleftrightarrow>
       loadable lim (export_state (co_engine c')))
    else co_files c' = co_files c"
proof (cases "snd (handle_message io pid view c)")
  case True
  let ?c1 = "fst (handle_message io pid view c)"
  have c': "c' = persist io ?c1" using True by (simp add: c'_def handle_frame_def case_prod_beta)
  have files: "co_files c' = snd (save_durable_state (export_state (co_engine c')) path io (co_files c))"
    using persisting handle_message_files [OF request]
    by (simp add: c' persist_def save_state_def path_def case_prod_beta)
  have "status_ok (fst (save_durable_state (export_state (co_engine c')) path io (co_files c)))"
    using disk by (auto simp: save_durable_state_def encode_container Let_def)
  with saved_loads_iff [OF _ _ room] save_content files True show ?thesis by (metis prod.collapse)
next
  case False
  then show ?thesis
    using handle_message_files(1) [OF request] by (simp add: c'_def handle_frame_def case_prod_beta)
qed

section \<open>Where the protocol falls short\<close>

text \<open>The shutdown request does not reach the engine, which goes on serving every open connection.\<close>

lemma shutdown_keeps_engine:
  "fv_type view = MT_Shutdown \<Longrightarrow> co_engine (handle_frame io pid view c) = co_engine c"
  by (simp add: handle_frame_parts handle_message_def Let_def handler_defs)

text \<open>A replacement is pushed to its worker without the workload of the request.\<close>

lemma replacement_without_workload:
  assumes "fv_type view \<in> {MT_Reassign, MT_Preempt}"
  obtains sent where "co_sent (handle_frame io pid view c) = co_sent c @ sent"
    and "list_all (\<lambda>(k, v). fv_type v = MT_Assign \<longrightarrow>
      (\<exists>a. fv_payload v = encode_assign \<lparr>as_authority = a, as_workload = []\<rparr>)) sent"
proof -
  have "\<exists>sent. co_sent (fst (handle_replace t pid k payload c)) = co_sent c @ sent \<and>
      list_all (\<lambda>(k, v). fv_type v = MT_Assign \<longrightarrow>
        (\<exists>a. fv_payload v = encode_assign \<lparr>as_authority = a, as_workload = []\<rparr>)) sent" for t k payload
    by (auto simp: handle_replace_def decoded_def reply_error_def peer_send_def push_assignment_def
        case_prod_beta Let_def split: sum.split option.split)
  then have "\<exists>sent. co_sent (handle_frame io pid view c) = co_sent c @ sent \<and>
      list_all (\<lambda>(k, v). fv_type v = MT_Assign \<longrightarrow>
        (\<exists>a. fv_payload v = encode_assign \<lparr>as_authority = a, as_workload = []\<rparr>)) sent"
    using assms by (auto simp: handle_frame_parts handle_message_def Let_def)
  with that show thesis by blast
qed

text \<open>
  A second greeting on a connection replaces the worker the connection stands for: when it ends, only
  the incarnation of the last greeting is lost.
\<close>

lemma repeated_hello_forgets:
  assumes "fv_type view = MT_Hello" and "decode_hello (lim_of c) (fv_payload view) = Inr m"
    and "map_of (co_peers c) pid = Some p"
  shows "map_of (co_peers (handle_frame io pid view c)) pid =
    Some (p\<lparr>pr_worker := hl_worker m, pr_boot := hl_boot m, pr_is_worker := True, pr_announced := True\<rparr>)"
proof -
  have "map_of (map (\<lambda>(k, p). if k = pid then (k, f p) else (k, p)) ps) pid = map_option f (map_of ps pid)"
    for f :: "peer \<Rightarrow> peer" and ps by (induction ps) auto
  then show ?thesis
    using assms by (simp add: handle_frame_parts handle_message_def handle_hello_def decoded_def Let_def
        announce_worker_def)
qed

section \<open>At concrete inputs\<close>

definition lab_cluster :: coordinator where
  "lab_cluster = \<lparr>co_engine = lab_engine, co_config = \<lparr>cf_state_path = ''state'', cf_limits = default_limits,
     cf_persist_on_mutation = True, cf_coordinator_name = ''lab''\<rparr>, co_files = (\<lambda>_. None),
     co_peers = [], co_shutdown = False, co_sent = []\<rparr>"

text \<open>A coordinator without a state file, a client that connects, and a request to shut down.\<close>

definition plain_config :: coordinator_config where
  "plain_config = \<lparr>cf_state_path = [], cf_limits = default_limits, cf_persist_on_mutation = True,
     cf_coordinator_name = ''lab''\<rparr>"

definition plain_cluster :: coordinator where
  "plain_cluster = \<lparr>co_engine = make_engine (coordinator_engine_config plain_config), co_config = plain_config,
     co_files = (\<lambda>_. None), co_peers = [], co_shutdown = False, co_sent = []\<rparr>"

definition lab_shutdown :: frame_view where
  "lab_shutdown = \<lparr>fv_type = MT_Shutdown, fv_correlation_id = 1, fv_coordinator_epoch = 0, fv_payload = []\<rparr>"

theorem coordinator_keeps_ledger_witness:
  "ic_ok (check_capacity (eng_state (co_engine (handle_frame calm_io 4 lab_shutdown (register_peer 4 plain_cluster)))))"
proof -
  have "config_ok (coordinator_engine_config plain_config)"
    by (simp add: config_ok_def coordinator_engine_config_def plain_config_def default_limits_def)
  moreover have "\<exists>status. coordinator_start plain_config (\<lambda>_. None) ok_status 1 = Inr (status, plain_cluster)"
    by (simp add: coordinator_start_def coordinator_recover_def plain_cluster_def plain_config_def)
  moreover have "load_durable_state (cf_limits plain_config) (cf_state_path plain_config) (\<lambda>_. None) \<noteq> Inr d" for d
    by (simp add: load_durable_state_def)
  ultimately have start: "started plain_cluster" unfolding started_def by blast
  have room: "ids_room (eng_ids (co_engine plain_cluster))"
    by (simp add: plain_cluster_def make_engine_def coordinator_engine_config_def ids_room_def)
  have "live_step plain_cluster (register_peer 4 plain_cluster)"
    using step_accept [of plain_cluster 4] room by (simp add: live_step_def plain_cluster_def)
  moreover have "\<exists>rest. receive_frame default_limits [Data (frame_bytes MT_Shutdown 1 0 [])] = (Inr lab_shutdown, rest)"
  proof -
    have small: "36 + length ([] :: bytes) \<le> unat (max_frame_size default_limits)"
      by (simp add: default_limits_def)
    have "stream_bytes [Data (frame_bytes MT_Shutdown 1 0 [])] = frame_bytes MT_Shutdown 1 0 [] @ []" by simp
    from receive_whole_frame [OF small this] show ?thesis by (auto simp: lab_shutdown_def)
  qed
  then have "live_step (register_peer 4 plain_cluster) (handle_frame calm_io 4 lab_shutdown (register_peer 4 plain_cluster))"
    using step_frame [of "register_peer 4 plain_cluster" 4] room
    by (auto simp: live_step_def plain_cluster_def register_peer_def lim_of_def plain_config_def)
  ultimately have "live_step\<^sup>*\<^sup>* plain_cluster (handle_frame calm_io 4 lab_shutdown (register_peer 4 plain_cluster))"
    by (meson converse_rtranclp_into_rtranclp r_into_rtranclp)
  from coordinator_keeps_ledger [OF start this] show ?thesis by simp
qed

text \<open>A completion without a payload.\<close>

definition lab_garbage :: frame_view where
  "lab_garbage = \<lparr>fv_type = MT_Completion, fv_correlation_id = 9, fv_coordinator_epoch = 0, fv_payload = []\<rparr>"

lemma lab_garbage_refused: "\<exists>status. refusal (lim_of lab_cluster) lab_garbage = Some status"
proof -
  have "isl (decode_completion default_limits [])" by code_simp
  then show ?thesis
    by (auto simp: refusal_def lab_garbage_def Let_def lim_of_def lab_cluster_def isl_def)
qed

theorem unreadable_payload_harmless_witness:
  "co_engine (handle_frame calm_io 4 lab_garbage lab_cluster) = lab_engine"
proof -
  from lab_garbage_refused obtain status where "refusal (lim_of lab_cluster) lab_garbage = Some status" ..
  from unreadable_payload_harmless [OF this] show ?thesis by (simp add: lab_cluster_def)
qed

text \<open>The acknowledgement of an assignment.\<close>

definition lab_ack :: frame_view where
  "lab_ack = \<lparr>fv_type = MT_AssignAck, fv_correlation_id = 2, fv_coordinator_epoch = 0,
     fv_payload = encode_authority \<lparr>am_placement = 102, am_generation = 1, am_epoch = 1, am_worker_boot = 3\<rparr>\<rparr>"

lemma lab_ack_handled:
  "snd (handle_message calm_io 4 lab_ack lab_cluster)"
  "co_engine (handle_frame calm_io 4 lab_ack lab_cluster) = snd (mark_assigned 102 1 1 3 lab_engine)"
proof -
  have "decode_authority lim (encode_authority a) = Inr a" for lim a
    unfolding decode_authority_def by (rule authority_payload.decode_encode) simp
  moreover have "isl (fst (mark_assigned 102 1 1 3 lab_engine)) = False"
    by code_simp
  ultimately show "snd (handle_message calm_io 4 lab_ack lab_cluster)"
    "co_engine (handle_frame calm_io 4 lab_ack lab_cluster) = snd (mark_assigned 102 1 1 3 lab_engine)"
    by (simp_all add: handle_frame_parts lab_ack_def handle_message_def handle_progress_def decoded_def
        case_prod_beta lab_cluster_def Let_def)
qed

definition lab_acked :: durable_state where
  "lab_acked = export_state (snd (mark_assigned 102 1 1 3 lab_engine))"

lemma lab_acked_parts:
  "du_format_version lab_acked = kPersistenceFormatVersion" "du_default_weights lab_acked = default_weights"
  "du_limits lab_acked = default_limits"
proof -
  have "eng_config (snd (mark_assigned 102 1 1 3 lab_engine)) = lab_config"
    using keeps_mark_assigned [of lab_engine 102 1 1 3] by (simp add: keeps_inv_def)
  then show "du_format_version lab_acked = kPersistenceFormatVersion" "du_default_weights lab_acked = default_weights"
    "du_limits lab_acked = default_limits"
    by (simp_all add: lab_acked_def export_state_def Let_def lab_config_def)
qed

lemma lab_acked_records:
  "du_resources lab_acked = [lab_resource 1]" "du_requests lab_acked = [lab_stored]"
  "du_reservations lab_acked = [lab_reservation]"
  "du_placements lab_acked = [progress_record PL_Assigned ''assigned to worker'' 1 lab_placement]"
  by (simp_all add: lab_acked_def export_state_def Let_def om_values_def mark_assigned_def progress_placement_def
      progress_checks_def id_validate_def om_modify_def lab_config_def lab_state_def empty_state_def)

lemma lab_acked_readable:
  "ok_durable_payload default_limits (lab_acked\<lparr>du_integrity_note := product_banner\<rparr>)"
proof -
  have "ok_placement default_limits (progress_record PL_Assigned ''assigned to worker'' 1 lab_placement)"
    by code_simp
  with lab_saved_records show ?thesis
    by (simp add: ok_durable_payload_def lab_acked_parts lab_acked_records product_banner_def default_limits_def)
qed

lemma lab_acked_small: "length (write_durable_payload lab_acked) \<le> unat (max_persistence_bytes default_limits)"
proof -
  have "length (write_durable_payload lab_acked) \<le> 5000" by code_simp
  then show ?thesis by (simp add: default_limits_def)
qed

theorem accepted_mutation_persisted_witness:
  "load_durable_state default_limits ''state'' (co_files (handle_frame calm_io 4 lab_ack lab_cluster)) =
     Inr (lab_acked\<lparr>du_integrity_note := product_banner\<rparr>)"
  using accepted_mutation_persisted [of lab_cluster calm_io default_limits lab_ack 4] lab_acked_readable
    lab_acked_small lab_ack_handled
  by (simp add: lab_acked_def lab_cluster_def calm_io_def lab_ack_def default_limits_def loadable_def)


end
