(* ===== verification/AssignmentLaws.thy ===== *)
theory AssignmentLaws
  imports ClusterLaws RecoveryLaws
begin

text \<open>
  The protocol between the coordinator and a worker, from the pushed assignment to the accepted
  completion: the worker of \<open>Worker\<close> and the coordinator of \<open>Coordinator\<close> composed over a stream.
\<close>

section \<open>A call and its reply\<close>

text \<open>A socket that accepts at least one byte per call.\<close>

definition sending :: "client \<Rightarrow> bool" where
  "sending ci \<longleftrightarrow> ci_connected ci \<and> (\<forall>k i. 0 < ci_answer ci k i)"

definition frame_of :: "frame_view \<Rightarrow> bytes" where
  "frame_of v = frame_bytes (fv_type v) (fv_correlation_id v) (fv_coordinator_epoch v) (fv_payload v)"

definition worker_frame :: "message_type \<Rightarrow> u64 \<Rightarrow> bytes \<Rightarrow> frame_view" where
  "worker_frame t k payload = \<lparr>fv_type = t, fv_correlation_id = k, fv_coordinator_epoch = 0, fv_payload = payload\<rparr>"

lemma send_loop_positive:
  "\<forall>i. 0 < answer i \<Longrightarrow> send_loop answer error i delivered bs = (ok_status, delivered @ bs)"
proof (induction answer error i delivered bs rule: send_loop.induct)
  case (1 answer error i delivered bs)
  show ?case
  proof (cases "bs = []")
    case True
    then show ?thesis by (simp add: send_loop.simps)
  next
    case False
    with 1(2) have "\<not> min (answer i) (int (length bs)) \<le> 0" by (simp add: not_le)
    with 1(1) [OF False refl this 1(2)] False show ?thesis
      by (subst send_loop.simps) (simp add: Let_def)
  qed
qed

lemma client_call_reply:
  assumes "sending ci" and "length payload + 36 \<le> 0xffffffff"
    and "stream_bytes (ci_incoming ci) = frame_of reply @ left"
    and "36 + length (fv_payload reply) \<le> unat (max_frame_size (ci_limits ci))"
  obtains rest where
    "client_call t payload decode ci = (decode (ci_limits ci) (fv_payload reply),
       ci\<lparr>ci_correlation := ci_correlation ci + 1, ci_incoming := rest,
         ci_out := ci_out ci @ frame_of (worker_frame t (ci_correlation ci + 1) payload)\<rparr>)"
    and "stream_bytes rest = left"
proof -
  let ?k = "ci_correlation ci + 1"
  have "send_frame (ci_answer ci ?k) (ci_error ci) (ci_connected ci) t ?k 0 payload =
      (ok_status, frame_bytes t ?k 0 payload)"
    using assms(1) encode_frame_bytes [OF assms(2), of t ?k 0]
    by (simp add: send_frame_def send_all_def sending_def send_loop_positive)
  then have sent: "client_send_frame t payload ci = (ok_status, ci\<lparr>ci_correlation := ?k,
      ci_out := ci_out ci @ frame_of (worker_frame t ?k payload)\<rparr>)"
    by (simp add: client_send_frame_def frame_of_def worker_frame_def Let_def)
  obtain rest where rest: "receive_frame (ci_limits ci) (ci_incoming ci) = (Inr reply, rest)"
    "stream_bytes rest = left"
    using receive_whole_frame [OF assms(4), of "ci_incoming ci" "fv_type reply" "fv_correlation_id reply"
        "fv_coordinator_epoch reply" left] assms(3)
    by (auto simp: frame_of_def)
  show thesis
    by (rule that [OF _ rest(2)])
      (simp add: client_call_def transact_def sent client_receive_def rest(1))
qed

section \<open>The engine on the way to the completion\<close>

text \<open>A placement moved on, and nothing else of the ledger did.\<close>

definition progressed ::
  "scheduler_state \<Rightarrow> placement_id \<Rightarrow> placement_record \<Rightarrow> scheduler_state \<Rightarrow> placement_record \<Rightarrow> bool" where
  "progressed st pid p st' q \<longleftrightarrow>
     map_of (ss_placements st') pid = Some q \<and>
     (\<forall>k. k \<noteq> pid \<longrightarrow> map_of (ss_placements st') k = map_of (ss_placements st) k) \<and>
     ss_reservations st' = ss_reservations st \<and> ss_resources st' = ss_resources st \<and>
     ss_requests st' = ss_requests st \<and> ss_unit_current st' = ss_unit_current st \<and>
     ss_workers st' = ss_workers st \<and> ss_epoch st' = ss_epoch st \<and>
     pl_reassignment_count q = pl_reassignment_count p \<and>
     pl_resources q = pl_resources p \<and> pl_generation q = pl_generation p \<and>
     pl_worker_boot q = pl_worker_boot p \<and> pl_reservation q = pl_reservation p \<and>
     placement_unit q = placement_unit p \<and> pl_request q = pl_request p"

lemma progressed_trans:
  "progressed st pid p st' q \<Longrightarrow> progressed st' pid q st'' r \<Longrightarrow> progressed st pid p st'' r"
  by (simp add: progressed_def)

lemma progressed_ends: "progressed st pid p st' q \<Longrightarrow> ends st' pid q t st'' \<Longrightarrow> ends st pid p t st''"
  unfolding progressed_def ends_def by presburger

lemma progress_authorised:
  assumes p: "map_of (ss_placements (eng_state e)) pid = Some p"
    and claim: "claim_authorised (eng_state e) c p"
    and ids: "pid \<noteq> 0" "pl_generation p \<noteq> 0" and boot: "b = 0 \<or> pl_worker_boot p = b"
    and start: "rej \<longrightarrow> pl_state p \<noteq> PL_Running" and live: "placement_state_is_live t"
  obtains q e' where
    "progress_placement rej t d kind pid (pl_generation p) (cc_epoch c) b e = (Inr q, e')"
    and "progressed (eng_state e) pid p (eng_state e') q" and "claim_authorised (eng_state e') c q"
    and "pl_state q = t" and "keeps_inv e e'"
proof -
  let ?q = "progress_record t d (ss_transition_sequence (eng_state e) + 1) p"
  have allowed: "progress_allowed (\<not> rej) (pl_generation p) b p"
    using claim boot start by (auto simp: progress_allowed_def claim_authorised_def)
  have epoch: "cc_epoch c \<noteq> 0" "cc_epoch c = ss_epoch (eng_state e)"
    using claim by (auto simp: claim_authorised_def)
  have exp: "pl_experiment p \<noteq> 0" "pl_experiment_generation p \<noteq> 0"
    using claim by (auto simp: claim_authorised_def)
  show thesis
  proof (rule that)
    show "progress_placement rej t d kind pid (pl_generation p) (cc_epoch c) b e =
        (Inr ?q, snd (progress_placement rej t d kind pid (pl_generation p) (cc_epoch c) b e))"
      using p ids allowed epoch by (simp add: progress_placement_def Let_def progress_checks_allowed id_validate_def)
    show "keeps_inv e (snd (progress_placement rej t d kind pid (pl_generation p) (cc_epoch c) b e))"
      by (rule keeps_progress [OF live])
  qed (use p ids allowed epoch exp claim live in
      \<open>simp_all add: progress_placement_def Let_def progress_checks_allowed id_validate_def map_of_om_modify
        progress_record_def claim_authorised_def progressed_def placement_unit_def\<close>)
qed

section \<open>The coordinator's part\<close>

text \<open>One request and its answer: the first frame the coordinator sends when it handles \<open>view\<close>.\<close>

definition exchange :: "save_io \<Rightarrow> nat \<Rightarrow> frame_view \<Rightarrow> coordinator \<Rightarrow> frame_view \<times> coordinator" where
  "exchange io peer view c =
     (let c' = handle_frame io peer view c in (snd (co_sent c' ! length (co_sent c)), c'))"

lemma exchange_sent:
  assumes "handle_message io peer view c = (peer_send peer t k payload c1, mutated)"
    and "co_sent c1 = co_sent c" and "exchange io peer view c = (reply, c')"
  shows "fv_payload reply = payload" and "co_engine c' = co_engine c1" and "co_config c' = co_config c1"
  using assms by (auto simp: exchange_def Let_def handle_frame_parts peer_send_def)

lemma exchange_progress:
  assumes "exchange io peer (worker_frame (if first then MT_AssignAck else MT_Running) k
      (encode_authority (assignment_authority m))) c = (reply, c')"
    and a: "a = as_authority m"
    and "progress_placement first t d kind (ae_placement a) (ae_placement_generation a) (ae_epoch a)
      (ae_worker_boot a) (co_engine c) = (Inr q, e')"
    and "(if first then (t, d, kind) = (PL_Assigned, ''assigned to worker'', ''placement.assigned'')
      else (t, d, kind) = (PL_Running, ''running on worker'', ''placement.running''))"
  shows "co_engine c' = e'" and "co_config c' = co_config c"
    and "fv_payload reply = encode_lifecycle_ack (empty_lifecycle_ack\<lparr>la_placement := ae_placement a,
      la_generation := ae_placement_generation a, la_state := pl_state q\<rparr>)"
proof -
  let ?view = "worker_frame (if first then MT_AssignAck else MT_Running) k (encode_authority (assignment_authority m))"
  have "decode_authority lim (encode_authority (assignment_authority m)) = Inr (assignment_authority m)" for lim
    unfolding decode_authority_def by (rule authority_payload.decode_encode) simp
  then have "handle_message io peer ?view c = (peer_send peer MT_LifecycleAck k (encode_lifecycle_ack
      (empty_lifecycle_ack\<lparr>la_placement := ae_placement a, la_generation := ae_placement_generation a,
        la_state := pl_state q\<rparr>)) (c\<lparr>co_engine := e'\<rparr>), True)"
    using assms(3,4) by (cases first)
      (simp_all add: worker_frame_def handle_message_def handle_progress_def decoded_def mark_assigned_def
        mark_running_def assignment_authority_def a Let_def)
  from exchange_sent [OF this _ assms(1)]
  show "co_engine c' = e'" and "co_config c' = co_config c"
    and "fv_payload reply = encode_lifecycle_ack (empty_lifecycle_ack\<lparr>la_placement := ae_placement a,
      la_generation := ae_placement_generation a, la_state := pl_state q\<rparr>)" by simp_all
qed

lemma exchange_completion:
  assumes "exchange io peer (worker_frame MT_Completion k (encode_completion claim)) c = (reply, c')"
    and "ok_completion_claim (lim_of c) claim"
  shows "co_engine c' = snd (report_completion claim (co_engine c))"
    and "co_accepted (fst (report_completion claim (co_engine c))) \<Longrightarrow>
      \<exists>ack. fv_payload reply = encode_completion_ack ack \<and> ca_accepted ack \<and> ca_detail ack = []"
proof -
  let ?outcome = "fst (report_completion claim (co_engine c))"
  let ?ack = "\<lparr>ca_placement = cc_placement claim,
      ca_state = co_state ?outcome, ca_accepted = co_accepted ?outcome, ca_duplicate = co_duplicate ?outcome,
      ca_code = st_code (co_status ?outcome), ca_detail = st_message (co_status ?outcome),
      ca_released_reservations = of_nat (length (co_released_reservations ?outcome))\<rparr>"
  have "decode_completion (lim_of c) (encode_completion claim) = Inr claim"
    unfolding decode_completion_def encode_completion_def by (rule completion_claim_codec.decode_encode [OF assms(2)])
  then have "handle_message io peer (worker_frame MT_Completion k (encode_completion claim)) c =
      (peer_send peer MT_CompletionAck k (encode_completion_ack ?ack)
        (c\<lparr>co_engine := snd (report_completion claim (co_engine c))\<rparr>), co_accepted ?outcome)"
    by (simp add: worker_frame_def handle_message_def handle_completion_def decoded_def case_prod_beta)
  note sent = exchange_sent [OF this _ assms(1)]
  show "co_engine c' = snd (report_completion claim (co_engine c))" using sent(2) by simp
  assume "co_accepted ?outcome"
  moreover from this have "st_message (co_status ?outcome) = []"
    by (auto simp: report_completion_def Let_def empty_completion_def ok_status_def split: option.splits if_splits)
  ultimately show "\<exists>ack. fv_payload reply = encode_completion_ack ack \<and> ca_accepted ack \<and> ca_detail ack = []"
    using sent(1) by (intro exI [of _ ?ack]) simp
qed

section \<open>The whole conversation\<close>

text \<open>The result a worker reports for an assignment.\<close>

definition executed :: "worker_task option \<Rightarrow> assign_message \<Rightarrow> status \<times> string" where
  "executed task m = (case task of None \<Rightarrow> (ok_status, synthetic_workload_result (as_authority m) (as_workload m))
     | Some f \<Rightarrow> f (as_authority m))"

lemma ack_lengths:
  "la_detail ack = [] \<Longrightarrow> length (encode_lifecycle_ack ack) \<le> 92"
  "ca_detail ack' = [] \<Longrightarrow> length (encode_completion_ack ack') \<le> 92"
  by (simp_all add: encode_lifecycle_ack_def encode_completion_ack_def write_id_def put_boolean_def put_str_def)

lemma decode_acks:
  "la_detail ack = [] \<Longrightarrow> decode_lifecycle_ack lim (encode_lifecycle_ack ack) = Inr ack"
  "ca_detail ack' = [] \<Longrightarrow> decode_completion_ack lim (encode_completion_ack ack') = Inr ack'"
  unfolding decode_lifecycle_ack_def decode_completion_ack_def
  by (rule lifecycle_ack_payload.decode_encode completion_ack_payload.decode_encode;
      simp add: ok_lifecycle_ack_def ok_completion_ack_def)+

lemma length_encode_authority: "length (encode_authority a) = 32"
  by (simp add: encode_authority_def write_id_def)

text \<open>What the worker sends for an assignment: its acknowledgement, its start and its completion.\<close>

definition worker_frames :: "worker_task option \<Rightarrow> assign_message \<Rightarrow> worker_agent \<Rightarrow> frame_view list" where
  "worker_frames task m w =
     (let k = ci_correlation (wa_client w); authority = encode_authority (assignment_authority m) in
      [worker_frame MT_AssignAck (k + 1) authority, worker_frame MT_Running (k + 2) authority,
       worker_frame MT_Completion (k + 3)
         (encode_completion (completion_for (wa_boot w) (as_authority m) (executed task m)))])"

lemma handle_assignment_replies:
  assumes "sending (wa_client w)" and "\<not> wa_hold_assignments w"
    and fits: "128 \<le> unat (max_frame_size (ci_limits (wa_client w)))"
    and size: "length (encode_completion (completion_for (wa_boot w) (as_authority m) (executed task m))) + 36
      \<le> 0xffffffff"
    and stream: "stream_bytes (ci_incoming (wa_client w)) = frame_of r1 @ frame_of r2 @ frame_of r3 @ left"
    and r1: "fv_payload r1 = encode_lifecycle_ack a1" "la_detail a1 = []" "la_code a1 = E_Ok"
    and r2: "fv_payload r2 = encode_lifecycle_ack a2" "la_detail a2 = []"
    and r3: "fv_payload r3 = encode_completion_ack a3" "ca_detail a3 = []" "ca_accepted a3"
  obtains rest where "handle_assignment task m w = (ok_status, w\<lparr>wa_completed := wa_completed w + 1,
      wa_client := (wa_client w)\<lparr>ci_correlation := ci_correlation (wa_client w) + 3, ci_incoming := rest,
        ci_out := ci_out (wa_client w) @ concat (map frame_of (worker_frames task m w))\<rparr>\<rparr>)"
    and "stream_bytes rest = left"
proof -
  let ?ci = "wa_client w"
  let ?authority = "encode_authority (assignment_authority m)"
  let ?claim = "completion_for (wa_boot w) (as_authority m) (executed task m)"
  have small: "36 + length (fv_payload r1) \<le> unat (max_frame_size (ci_limits ?ci))"
    "36 + length (fv_payload r2) \<le> unat (max_frame_size (ci_limits ?ci))"
    "36 + length (fv_payload r3) \<le> unat (max_frame_size (ci_limits ?ci))"
    using ack_lengths(1) [OF r1(2)] ack_lengths(1) [OF r2(2)] ack_lengths(2) [OF r3(2)] fits
    by (simp_all add: r1(1) r2(1) r3(1))
  have authority: "length ?authority + 36 \<le> 0xffffffff" by (simp add: length_encode_authority)
  obtain i1 where c1: "client_call MT_AssignAck ?authority decode_lifecycle_ack ?ci = (Inr a1,
       ?ci\<lparr>ci_correlation := ci_correlation ?ci + 1, ci_incoming := i1,
         ci_out := ci_out ?ci @ frame_of (worker_frame MT_AssignAck (ci_correlation ?ci + 1) ?authority)\<rparr>)"
    and i1: "stream_bytes i1 = frame_of r2 @ frame_of r3 @ left"
    by (rule client_call_reply [OF assms(1) authority stream small(1), where decode = decode_lifecycle_ack and
          t = MT_AssignAck]) (simp add: r1(1) decode_acks(1) [OF r1(2)])
  let ?c1 = "?ci\<lparr>ci_correlation := ci_correlation ?ci + 1, ci_incoming := i1,
         ci_out := ci_out ?ci @ frame_of (worker_frame MT_AssignAck (ci_correlation ?ci + 1) ?authority)\<rparr>"
  have s1: "sending ?c1" using assms(1) by (simp add: sending_def)
  obtain i2 where c2: "client_call MT_Running ?authority decode_lifecycle_ack ?c1 = (Inr a2,
       ?c1\<lparr>ci_correlation := ci_correlation ?c1 + 1, ci_incoming := i2,
         ci_out := ci_out ?c1 @ frame_of (worker_frame MT_Running (ci_correlation ?c1 + 1) ?authority)\<rparr>)"
    and i2: "stream_bytes i2 = frame_of r3 @ left"
    by (rule client_call_reply [OF s1 authority, of r2 "frame_of r3 @ left", where decode = decode_lifecycle_ack and
          t = MT_Running]) (use i1 small(2) in \<open>simp_all add: r2(1) decode_acks(1) [OF r2(2)]\<close>)
  let ?c2 = "?c1\<lparr>ci_correlation := ci_correlation ?c1 + 1, ci_incoming := i2,
         ci_out := ci_out ?c1 @ frame_of (worker_frame MT_Running (ci_correlation ?c1 + 1) ?authority)\<rparr>"
  have s2: "sending ?c2" using assms(1) by (simp add: sending_def)
  obtain i3 where c3: "client_call MT_Completion (encode_completion ?claim) decode_completion_ack ?c2 = (Inr a3,
       ?c2\<lparr>ci_correlation := ci_correlation ?c2 + 1, ci_incoming := i3,
         ci_out := ci_out ?c2 @ frame_of (worker_frame MT_Completion (ci_correlation ?c2 + 1)
           (encode_completion ?claim))\<rparr>)"
    and i3: "stream_bytes i3 = left"
    by (rule client_call_reply [OF s2 size, of r3 left, where decode = decode_completion_ack and
          t = MT_Completion]) (use i2 small(3) in \<open>simp_all add: r3(1) decode_acks(2) [OF r3(2)]\<close>)
  have sent3: "call_completion ?claim ?c2 = (Inr a3,
       ?c2\<lparr>ci_correlation := ci_correlation ?c2 + 1, ci_incoming := i3,
         ci_out := ci_out ?c2 @ frame_of (worker_frame MT_Completion (ci_correlation ?c2 + 1)
           (encode_completion ?claim))\<rparr>)"
    unfolding call_completion_def by (rule c3)
  show thesis
  proof (rule that [OF _ i3])
    show "handle_assignment task m w = (ok_status, w\<lparr>wa_completed := wa_completed w + 1,
      wa_client := ?ci\<lparr>ci_correlation := ci_correlation ?ci + 3, ci_incoming := i3,
        ci_out := ci_out ?ci @ concat (map frame_of (worker_frames task m w))\<rparr>\<rparr>)"
      unfolding handle_assignment_def Let_def call_assign_ack_def c1 prod.case sum.case call_running_def c2
        executed_def [symmetric] sent3
      using assms(2) r1(3) r3(3) by (simp add: worker_frames_def Let_def add.assoc)
  qed
qed

text \<open>The coordinator's part of the conversation: three requests in order, with their answers.\<close>

lemma coordinator_completes:
  fixes peer :: nat and ios :: "nat \<Rightarrow> save_io" and w :: worker_agent and c :: coordinator
    and task :: "worker_task option" and m :: assign_message
  defines "claim \<equiv> completion_for (wa_boot w) (as_authority m) (executed task m)"
  assumes inv: "engine_inv (co_engine c)"
    and p: "map_of (ss_placements (eng_state (co_engine c))) (ae_placement (as_authority m)) = Some p"
    and claim: "claim_authorised (eng_state (co_engine c)) claim p"
    and fresh: "pl_state p \<noteq> PL_Running" "ae_placement (as_authority m) \<noteq> 0"
      "ae_placement_generation (as_authority m) \<noteq> 0" "ae_worker_boot (as_authority m) = pl_worker_boot p"
    and readable: "ok_completion_claim (lim_of c) claim"
    and talk: "worker_frames task m w = [v1, v2, v3]"
      "exchange (ios 0) peer v1 c = (r1, c1)" "exchange (ios 1) peer v2 c1 = (r2, c2)"
      "exchange (ios 2) peer v3 c2 = (r3, c3)"
  obtains a1 a2 a3 where
    "fv_payload r1 = encode_lifecycle_ack a1" "la_detail a1 = []" "la_code a1 = E_Ok"
    "fv_payload r2 = encode_lifecycle_ack a2" "la_detail a2 = []"
    "fv_payload r3 = encode_completion_ack a3" "ca_detail a3 = []" "ca_accepted a3"
    "ends (eng_state (co_engine c)) (ae_placement (as_authority m)) p
       (if cc_succeeded claim then PL_Completed else PL_Failed) (eng_state (co_engine c3))"
proof -
  let ?a = "as_authority m"
  have gen: "ae_placement_generation ?a = pl_generation p" and epoch: "ae_epoch ?a = cc_epoch claim"
    and pid: "ae_placement ?a = cc_placement claim"
    using claim by (simp_all add: claim_authorised_def claim_def completion_for_def)
  obtain q1 e1 where q1: "progress_placement True PL_Assigned ''assigned to worker'' ''placement.assigned''
      (ae_placement ?a) (pl_generation p) (cc_epoch claim) (ae_worker_boot ?a) (co_engine c) = (Inr q1, e1)"
    "progressed (eng_state (co_engine c)) (ae_placement ?a) p (eng_state e1) q1"
    "claim_authorised (eng_state e1) claim q1" "pl_state q1 = PL_Assigned" "keeps_inv (co_engine c) e1"
    by (rule progress_authorised [OF p claim fresh(2), where b = "ae_worker_boot ?a" and rej = True and
          t = PL_Assigned and d = "''assigned to worker''" and kind = "''placement.assigned''"])
      (use fresh gen in auto)
  have v1: "v1 = worker_frame (if True then MT_AssignAck else MT_Running) (ci_correlation (wa_client w) + 1)
      (encode_authority (assignment_authority m))"
    and v2: "v2 = worker_frame (if False then MT_AssignAck else MT_Running) (ci_correlation (wa_client w) + 2)
      (encode_authority (assignment_authority m))"
    and v3: "v3 = worker_frame MT_Completion (ci_correlation (wa_client w) + 3) (encode_completion claim)"
    using talk(1) by (simp_all add: worker_frames_def Let_def claim_def)
  note x1 = exchange_progress [OF talk(2) [unfolded v1] refl, unfolded gen epoch, OF q1(1)]
  have p1: "map_of (ss_placements (eng_state e1)) (ae_placement ?a) = Some q1"
    and boot1: "ae_worker_boot ?a = 0 \<or> pl_worker_boot q1 = ae_worker_boot ?a"
    and gen1: "pl_generation q1 = pl_generation p"
    using q1(2) fresh(4) by (simp_all add: progressed_def)
  obtain q2 e2 where q2: "progress_placement False PL_Running ''running on worker'' ''placement.running''
      (ae_placement ?a) (pl_generation p) (cc_epoch claim) (ae_worker_boot ?a) (co_engine c1) = (Inr q2, e2)"
    "progressed (eng_state e1) (ae_placement ?a) q1 (eng_state e2) q2"
    "claim_authorised (eng_state e2) claim q2" "keeps_inv (co_engine c1) e2"
    by (rule progress_authorised [OF p1 q1(3) fresh(2) _ boot1, where rej = False and t = PL_Running and
          d = "''running on worker''" and kind = "''placement.running''"])
      (use fresh gen gen1 x1(1) in auto)
  note x2 = exchange_progress [OF talk(3) [unfolded v2] refl, unfolded gen epoch, OF q2(1)]
  have inv2: "engine_inv e2" using inv q1(5) q2(4) x1(1) by (simp add: keeps_inv_def)
  have accepted: "co_accepted (fst (report_completion claim (co_engine c2)))"
    using q2(2,3) fresh(2) pid x2(1) by (auto simp: report_completion_accepted progressed_def)
  have "ok_completion_claim (lim_of c2) claim"
    using readable x1(2) x2(2) by (simp add: lim_of_def)
  note x3 = exchange_completion [OF talk(4) [unfolded v3] this]
  from x3(2) [OF accepted] obtain a3 where a3: "fv_payload r3 = encode_completion_ack a3" "ca_accepted a3"
    "ca_detail a3 = []" by blast
  have "ends (eng_state e2) (ae_placement ?a) q2 (if cc_succeeded claim then PL_Completed else PL_Failed)
      (eng_state (co_engine c3))"
    using completion_ends [OF _ accepted] inv2 q2(2) pid x2(1) x3(1) by (auto simp: progressed_def)
  with progressed_ends progressed_trans [OF q1(2) q2(2)]
  have "ends (eng_state (co_engine c)) (ae_placement ?a) p
      (if cc_succeeded claim then PL_Completed else PL_Failed) (eng_state (co_engine c3))" by blast
  with that [OF x1(3) _ _ x2(3) _ a3(1,3,2)] show thesis
    by (simp add: empty_lifecycle_ack_def)
qed

text \<open>
  C13. An authorised assignment completes end to end. A worker that was pushed the assignment of a
  placement and a coordinator whose engine still grants it the authority hold the conversation of
  acknowledgement, start and completion: each request is the frame the worker sends, each reply the
  frame the coordinator answers, and the socket may cut the replies into any pieces. Then the
  assignment is handled without an error, the worker counts one more completed assignment and has
  consumed exactly the three replies, and in the engine of the coordinator the placement has ended as
  COMPLETED or FAILED, as the result of the task says, and exactly its capacity is free again.
\<close>

theorem assignment_completes:
  fixes ios :: "nat \<Rightarrow> save_io" and w :: worker_agent and c :: coordinator
  assumes engine: "engine_inv (co_engine c)"
    and placement: "map_of (ss_placements (eng_state (co_engine c))) (ae_placement (as_authority m)) = Some p"
    and authority: "claim_authorised (eng_state (co_engine c))
      (completion_for (wa_boot w) (as_authority m) (executed task m)) p"
    and assigned: "pl_state p \<noteq> PL_Running" "ae_placement (as_authority m) \<noteq> 0"
      "ae_placement_generation (as_authority m) \<noteq> 0" "ae_worker_boot (as_authority m) = pl_worker_boot p"
    and readable: "ok_completion_claim (lim_of c) (completion_for (wa_boot w) (as_authority m) (executed task m))"
      "length (encode_completion (completion_for (wa_boot w) (as_authority m) (executed task m))) + 36
        \<le> 0xffffffff"
    and connection: "sending (wa_client w)" "128 \<le> unat (max_frame_size (ci_limits (wa_client w)))"
      "\<not> wa_hold_assignments w"
    and talk: "worker_frames task m w = [v1, v2, v3]" "exchange (ios 0) peer v1 c = (r1, c1)"
      "exchange (ios 1) peer v2 c1 = (r2, c2)" "exchange (ios 2) peer v3 c2 = (r3, c3)"
      "stream_bytes (ci_incoming (wa_client w)) = frame_of r1 @ frame_of r2 @ frame_of r3 @ left"
  shows "\<exists>rest. handle_assignment task m w = (ok_status, w\<lparr>wa_completed := wa_completed w + 1,
      wa_client := (wa_client w)\<lparr>ci_correlation := ci_correlation (wa_client w) + 3, ci_incoming := rest,
        ci_out := ci_out (wa_client w) @ concat (map frame_of [v1, v2, v3])\<rparr>\<rparr>) \<and>
    stream_bytes rest = left \<and>
    ends (eng_state (co_engine c)) (ae_placement (as_authority m)) p
      (if status_ok (fst (executed task m)) then PL_Completed else PL_Failed) (eng_state (co_engine c3))"
proof -
  obtain a1 a2 a3 where replies:
    "fv_payload r1 = encode_lifecycle_ack a1" "la_detail a1 = []" "la_code a1 = E_Ok"
    "fv_payload r2 = encode_lifecycle_ack a2" "la_detail a2 = []"
    "fv_payload r3 = encode_completion_ack a3" "ca_detail a3 = []" "ca_accepted a3"
    and ended: "ends (eng_state (co_engine c)) (ae_placement (as_authority m)) p
       (if cc_succeeded (completion_for (wa_boot w) (as_authority m) (executed task m)) then PL_Completed
         else PL_Failed) (eng_state (co_engine c3))"
    by (rule coordinator_completes [OF engine placement authority assigned readable(1) talk(1-4)])
  obtain rest where "handle_assignment task m w = (ok_status, w\<lparr>wa_completed := wa_completed w + 1,
      wa_client := (wa_client w)\<lparr>ci_correlation := ci_correlation (wa_client w) + 3, ci_incoming := rest,
        ci_out := ci_out (wa_client w) @ concat (map frame_of (worker_frames task m w))\<rparr>\<rparr>)"
    "stream_bytes rest = left"
    by (rule handle_assignment_replies [OF connection(1,3,2) readable(2) talk(5) replies])
  with ended talk(1) show ?thesis by (auto simp: completion_for_def)
qed

section \<open>At concrete inputs\<close>

definition lab_assignment :: assign_message where
  "lab_assignment = \<lparr>as_authority = \<lparr>ae_request = 20, ae_experiment = 5, ae_experiment_generation = 1,
     ae_placement = 102, ae_placement_generation = 1, ae_epoch = 1, ae_lease = 101, ae_reservation = 103,
     ae_worker = 7, ae_worker_boot = 3, ae_resources = [lab_selected]\<rparr>, as_workload = ''train''\<rparr>"

definition lab_agent :: "incoming \<Rightarrow> worker_agent" where
  "lab_agent inc = \<lparr>wa_client = \<lparr>ci_limits = default_limits, ci_correlation = 1, ci_connected = True,
       ci_incoming = inc, ci_answer = (\<lambda>_ _. 1), ci_error = 0, ci_out = []\<rparr>,
     wa_resource_ids = [1], wa_worker = 7, wa_boot = 3, wa_limits = default_limits,
     wa_exit_requested = False, wa_hold_assignments = False, wa_completed = 0, wa_rejected = 0\<rparr>"

definition lab_task :: "authority_envelope \<Rightarrow> status \<times> string" where
  "lab_task a = (ok_status, ''trained'')"

lemma lab_completion:
  "completion_for (wa_boot (lab_agent inc)) (as_authority lab_assignment) (executed (Some lab_task) lab_assignment) =
     lab_claim\<lparr>cc_detail := ''trained''\<rparr>"
  by (simp add: completion_for_def lab_agent_def lab_assignment_def executed_def lab_task_def lab_claim_def
      lab_selected_def)

lemma lab_completion_authorised: "claim_authorised lab_state (lab_claim\<lparr>cc_detail := ''trained''\<rparr>) lab_placement"
  by (simp add: claim_authorised_def lab_claim_def)

lemma lab_completion_readable:
  "ok_completion_claim default_limits (lab_claim\<lparr>cc_detail := ''trained''\<rparr>)"
  "length (encode_completion (lab_claim\<lparr>cc_detail := ''trained''\<rparr>)) + 36 \<le> 0xffffffff"
proof -
  show "ok_completion_claim default_limits (lab_claim\<lparr>cc_detail := ''trained''\<rparr>)" by code_simp
  have "length (encode_completion (lab_claim\<lparr>cc_detail := ''trained''\<rparr>)) \<le> 200" by code_simp
  then show "length (encode_completion (lab_claim\<lparr>cc_detail := ''trained''\<rparr>)) + 36 \<le> 0xffffffff" by simp
qed

lemma lab_values:
  "eng_state (co_engine lab_cluster) = lab_state" "ae_placement (as_authority lab_assignment) = 102"
  "fst (executed (Some lab_task) lab_assignment) = ok_status" "wa_completed (lab_agent inc) = 0"
  by (simp_all add: lab_cluster_def lab_assignment_def executed_def lab_task_def lab_agent_def)

theorem assignment_completes_witness:
  "\<exists>inc (c3 :: coordinator). fst (handle_assignment (Some lab_task) lab_assignment (lab_agent inc)) = ok_status \<and>
     wa_completed (snd (handle_assignment (Some lab_task) lab_assignment (lab_agent inc))) = 1 \<and>
     ends lab_state 102 lab_placement PL_Completed (eng_state (co_engine c3))"
proof -
  let ?authority = "encode_authority (assignment_authority lab_assignment)"
  let ?v1 = "worker_frame MT_AssignAck 2 ?authority" and ?v2 = "worker_frame MT_Running 3 ?authority"
    and ?v3 = "worker_frame MT_Completion 4 (encode_completion (lab_claim\<lparr>cc_detail := ''trained''\<rparr>))"
  have frames: "worker_frames (Some lab_task) lab_assignment (lab_agent inc) = [?v1, ?v2, ?v3]" for inc
    unfolding worker_frames_def Let_def lab_completion by (simp add: lab_agent_def)
  obtain r1 c1 where x1: "exchange calm_io 4 ?v1 lab_cluster = (r1, c1)" by (meson surj_pair)
  obtain r2 c2 where x2: "exchange calm_io 4 ?v2 c1 = (r2, c2)" by (meson surj_pair)
  obtain r3 c3 where x3: "exchange calm_io 4 ?v3 c2 = (r3, c3)" by (meson surj_pair)
  let ?inc = "[Data (frame_of r1 @ frame_of r2 @ frame_of r3)]"
  have stream: "stream_bytes (ci_incoming (wa_client (lab_agent ?inc))) = frame_of r1 @ frame_of r2 @ frame_of r3 @ []"
    by (simp add: lab_agent_def frame_of_def)
  have agent: "sending (wa_client (lab_agent ?inc))" "\<not> wa_hold_assignments (lab_agent ?inc)"
    "128 \<le> unat (max_frame_size (ci_limits (wa_client (lab_agent ?inc))))"
    by (simp_all add: lab_agent_def sending_def default_limits_def)
  have "\<exists>rest. handle_assignment (Some lab_task) lab_assignment (lab_agent ?inc) = (ok_status,
      (lab_agent ?inc)\<lparr>wa_completed := wa_completed (lab_agent ?inc) + 1,
       wa_client := (wa_client (lab_agent ?inc))\<lparr>ci_correlation := ci_correlation (wa_client (lab_agent ?inc)) + 3,
         ci_incoming := rest,
         ci_out := ci_out (wa_client (lab_agent ?inc)) @ concat (map frame_of [?v1, ?v2, ?v3])\<rparr>\<rparr>) \<and>
    stream_bytes rest = [] \<and>
    ends (eng_state (co_engine lab_cluster)) (ae_placement (as_authority lab_assignment)) lab_placement
      (if status_ok (fst (executed (Some lab_task) lab_assignment)) then PL_Completed else PL_Failed)
      (eng_state (co_engine c3))"
    by (rule assignment_completes [where ios = "\<lambda>_. calm_io", OF _ _ _ _ _ _ _ _ _ agent(1,3,2) frames x1 x2 x3 stream])
      (use lab_engine_inv lab_completion_authorised lab_completion_readable in
        \<open>simp_all add: lab_completion lab_cluster_def lim_of_def, simp_all add: lab_assignment_def\<close>)
  then have "fst (handle_assignment (Some lab_task) lab_assignment (lab_agent ?inc)) = ok_status \<and>
     wa_completed (snd (handle_assignment (Some lab_task) lab_assignment (lab_agent ?inc))) = 1 \<and>
     ends lab_state 102 lab_placement PL_Completed (eng_state (co_engine c3))"
    by (elim exE conjE) (simp add: lab_values)
  then show ?thesis by blast
qed

end
