(* ===== verification/Leases.thy ===== *)
theory Leases
  imports EngineLaws
begin

text \<open>
  The abstract specification of the engine: a book of leases. It knows a capacity per resource, the
  open leases with what each takes of every resource, and the identities whose lease is over. The
  engine refines it: whatever an operation does to its tables is a sequence of openings, closings
  and changes of capacity that the book allows.
\<close>

section \<open>The book\<close>

record lease_book =
  lb_capacity :: "resource_id \<Rightarrow> nat"
  lb_leases :: "placement_id \<Rightarrow> (resource_id \<Rightarrow> nat) option"
  lb_closed :: "placement_id set"

definition empty_book :: lease_book where
  "empty_book = \<lparr>lb_capacity = (\<lambda>_. 0), lb_leases = (\<lambda>_. None), lb_closed = {}\<rparr>"

definition lease_of :: "(resource_id \<Rightarrow> nat) option \<Rightarrow> resource_id \<Rightarrow> nat" where
  "lease_of l k = (case l of None \<Rightarrow> 0 | Some c \<Rightarrow> c k)"

definition leased :: "lease_book \<Rightarrow> resource_id \<Rightarrow> nat" where
  "leased b k = (\<Sum>p\<in>UNIV. lease_of (lb_leases b p) k)"

inductive book_step :: "lease_book \<Rightarrow> lease_book \<Rightarrow> bool" where
  book_close: "lb_leases b p = Some c \<Longrightarrow>
    book_step b (b\<lparr>lb_leases := (lb_leases b)(p := None), lb_closed := insert p (lb_closed b)\<rparr>)"
| book_open: "lb_leases b p = None \<Longrightarrow> p \<notin> lb_closed b \<Longrightarrow> c i \<noteq> 0 \<Longrightarrow>
    \<forall>k. leased b k + c k \<le> lb_capacity b k \<Longrightarrow>
    book_step b (b\<lparr>lb_leases := (lb_leases b)(p \<mapsto> c)\<rparr>)"
| book_record: "lb_leases b p = None \<Longrightarrow> book_step b (b\<lparr>lb_closed := insert p (lb_closed b)\<rparr>)"
| book_capacity: "\<forall>k. leased b k \<le> capacity k \<Longrightarrow> book_step b (b\<lparr>lb_capacity := capacity\<rparr>)"

definition book_ok :: "lease_book \<Rightarrow> bool" where
  "book_ok b \<longleftrightarrow> (\<forall>k. leased b k \<le> lb_capacity b k) \<and>
     (\<forall>p c. lb_leases b p = Some c \<longrightarrow> p \<notin> lb_closed b \<and> (\<exists>i. c i \<noteq> 0))"

lemma lease_of_simps [simp]: "lease_of None k = 0" "lease_of (Some c) k = c k"
  by (simp_all add: lease_of_def)

lemma leased_open:
  assumes "lb_leases b p = None"
  shows "leased (b\<lparr>lb_leases := (lb_leases b)(p \<mapsto> c)\<rparr>) k = leased b k + c k"
proof -
  have "(\<Sum>q\<in>UNIV - {p}. lease_of (((lb_leases b)(p \<mapsto> c)) q) k) = (\<Sum>q\<in>UNIV - {p}. lease_of (lb_leases b q) k)"
    by (rule sum.cong) auto
  then show ?thesis
    using sum.remove [of UNIV p "\<lambda>q. lease_of (((lb_leases b)(p \<mapsto> c)) q) k"]
      sum.remove [of UNIV p "\<lambda>q. lease_of (lb_leases b q) k"] assms
    by (simp add: leased_def)
qed

lemma leased_mono:
  "(\<And>p. lease_of (lb_leases b p) k \<le> lease_of (lb_leases b' p) k) \<Longrightarrow> leased b k \<le> leased b' k"
  by (simp add: leased_def sum_mono)

lemma leased_same: "lb_leases b = lb_leases b' \<Longrightarrow> leased b k = leased b' k"
  by (simp add: leased_def)

lemma book_ok_step: "book_step b b' \<Longrightarrow> book_ok b \<Longrightarrow> book_ok b'"
proof (induction rule: book_step.induct)
  case (book_close b p c)
  have "leased (b\<lparr>lb_leases := (lb_leases b)(p := None), lb_closed := insert p (lb_closed b)\<rparr>) k \<le> leased b k" for k
    by (rule leased_mono) simp
  with book_close show ?case by (fastforce simp: book_ok_def intro: order_trans)
next
  case (book_open b p c i)
  then show ?case by (auto simp: book_ok_def leased_open)
next
  case (book_record b p)
  then show ?case by (auto simp: book_ok_def leased_def)
next
  case (book_capacity b capacity)
  then show ?case by (simp add: book_ok_def leased_def)
qed

interpretation lease: transition_invariant "\<lambda>b. b = empty_book" book_step book_ok
proof
  show "b = empty_book \<Longrightarrow> book_ok b" for b by (simp add: book_ok_def leased_def empty_book_def)
qed (rule book_ok_step)

section \<open>From one book to another\<close>

abbreviation book_run :: "lease_book \<Rightarrow> lease_book \<Rightarrow> bool" where
  "book_run \<equiv> book_step\<^sup>*\<^sup>*"

lemma close_all:
  assumes "finite ps" and "\<forall>p\<in>ps. lb_leases b p \<noteq> None"
  shows "book_run b (b\<lparr>lb_leases := (\<lambda>p. if p \<in> ps then None else lb_leases b p), lb_closed := lb_closed b \<union> ps\<rparr>)"
  using assms
proof (induction ps rule: finite_induct)
  case (insert p ps)
  let ?b = "b\<lparr>lb_leases := (\<lambda>p. if p \<in> ps then None else lb_leases b p), lb_closed := lb_closed b \<union> ps\<rparr>"
  from insert have run: "book_run b ?b" by simp
  from insert.prems obtain c where "lb_leases b p = Some c" by auto
  with insert.hyps have "book_step ?b (?b\<lparr>lb_leases := (lb_leases ?b)(p := None), lb_closed := insert p (lb_closed ?b)\<rparr>)"
    by (intro book_close [of ?b p c]) simp
  moreover have "(lb_leases ?b)(p := None) = (\<lambda>q. if q \<in> insert p ps then None else lb_leases b q)"
    by auto
  ultimately show ?case using run by (simp add: rtranclp.rtrancl_into_rtrancl)
qed simp

lemma record_all:
  assumes "finite ps" and "\<forall>p\<in>ps. lb_leases b p = None"
  shows "book_run b (b\<lparr>lb_closed := lb_closed b \<union> ps\<rparr>)"
  using assms
proof (induction ps rule: finite_induct)
  case (insert p ps)
  let ?b = "b\<lparr>lb_closed := lb_closed b \<union> ps\<rparr>"
  from insert have run: "book_run b ?b" by simp
  from insert.prems have "book_step ?b (?b\<lparr>lb_closed := insert p (lb_closed ?b)\<rparr>)"
    by (intro book_record) simp
  with run show ?case by (simp add: rtranclp.rtrancl_into_rtrancl)
qed simp

text \<open>\<open>only ps b\<close> is the book with the leases of \<open>ps\<close> alone.\<close>

definition only :: "placement_id set \<Rightarrow> lease_book \<Rightarrow> lease_book" where
  "only ps b = b\<lparr>lb_leases := (\<lambda>p. if p \<in> ps then lb_leases b p else None)\<rparr>"

lemma only_simps [simp]:
  "lb_leases (only ps b) p = (if p \<in> ps then lb_leases b p else None)"
  "lb_closed (only ps b) = lb_closed b" "lb_capacity (only ps b) = lb_capacity b"
  by (simp_all add: only_def)

lemma leased_only: "leased (only ps b) k \<le> leased b k"
  by (rule leased_mono) simp

lemma open_all:
  assumes "finite ps" and "book_ok b"
  shows "book_run (only qs b) (only (qs \<union> ps) b)"
  using assms(1)
proof (induction ps rule: finite_induct)
  case (insert p ps)
  let ?b = "only (qs \<union> ps) b"
  show ?case
  proof (cases "p \<in> qs \<union> ps \<or> lb_leases b p = None")
    case True
    then have "only (qs \<union> insert p ps) b = ?b" by (auto simp: only_def fun_eq_iff)
    with insert.IH show ?thesis by simp
  next
    case False
    then obtain c where c: "lb_leases b p = Some c" and new: "p \<notin> qs \<union> ps" by auto
    then have add: "only (qs \<union> insert p ps) b = ?b\<lparr>lb_leases := (lb_leases ?b)(p \<mapsto> c)\<rparr>"
      by (auto simp: only_def fun_eq_iff)
    have free: "lb_leases ?b p = None" using new by simp
    from assms(2) c obtain i where i: "c i \<noteq> 0" "p \<notin> lb_closed b" unfolding book_ok_def by blast
    have "leased ?b k + c k \<le> lb_capacity ?b k" for k
    proof -
      have "leased ?b k + c k = leased (only (qs \<union> insert p ps) b) k" unfolding add by (rule leased_open [OF free, symmetric])
      also have "\<dots> \<le> lb_capacity b k" using leased_only assms(2) unfolding book_ok_def by (blast intro: order_trans)
      finally show ?thesis by simp
    qed
    then have "book_step ?b (only (qs \<union> insert p ps) b)"
      unfolding add using free i by (intro book_open) auto
    with insert.IH show ?thesis by (rule rtranclp.rtrancl_into_rtrancl)
  qed
qed simp

lemma book_reaches:
  assumes "book_ok b'" and "lb_closed b \<subseteq> lb_closed b'"
    and "\<And>p c. lb_leases b p = Some c \<Longrightarrow> p \<in> lb_closed b' \<or> lb_leases b' p = Some c"
  shows "book_run b b'"
proof -
  let ?gone = "{p. lb_leases b p \<noteq> None \<and> p \<in> lb_closed b'}"
  let ?stay = "{p. lb_leases b p \<noteq> None \<and> p \<notin> lb_closed b'}"
  let ?b1 = "b\<lparr>lb_leases := (\<lambda>p. if p \<in> ?gone then None else lb_leases b p), lb_closed := lb_closed b \<union> ?gone\<rparr>"
  let ?b2 = "?b1\<lparr>lb_closed := lb_closed b'\<rparr>"
  have "book_run b ?b1" by (rule close_all) auto
  moreover have "book_run ?b1 ?b2"
  proof -
    have "\<forall>p\<in>lb_closed b'. lb_leases ?b1 p = None" by auto
    from record_all [OF _ this] have "book_run ?b1 (?b1\<lparr>lb_closed := lb_closed ?b1 \<union> lb_closed b'\<rparr>)" by simp
    moreover have "lb_closed ?b1 \<union> lb_closed b' = lb_closed b'" using assms(2) by auto
    ultimately show ?thesis by simp
  qed
  moreover have same: "only ?stay b' = ?b2\<lparr>lb_capacity := lb_capacity b'\<rparr>"
  proof -
    have "(if p \<in> ?stay then lb_leases b' p else None) = (if p \<in> ?gone then None else lb_leases b p)" for p
      using assms(3) [of p] by (cases "lb_leases b p") auto
    then have "(\<lambda>p. if p \<in> ?stay then lb_leases b' p else None) = (\<lambda>p. if p \<in> ?gone then None else lb_leases b p)"
      by (rule ext)
    then show ?thesis by (simp add: only_def)
  qed
  then have "book_step ?b2 (only ?stay b')"
  proof -
    have "leased ?b2 k \<le> lb_capacity b' k" for k
    proof -
      have "leased ?b2 k = leased (only ?stay b') k" unfolding same by (rule leased_same) simp
      also have "\<dots> \<le> leased b' k" by (rule leased_only)
      also have "\<dots> \<le> lb_capacity b' k" using assms(1) by (simp add: book_ok_def)
      finally show ?thesis .
    qed
    then have "\<forall>k. leased ?b2 k \<le> lb_capacity b' k" ..
    from book_capacity [OF this] show ?thesis unfolding same .
  qed
  moreover have "book_run (only ?stay b') b'"
  proof -
    have "only UNIV b' = b'" by (simp add: only_def)
    with open_all [OF finite [of UNIV] assms(1), of ?stay] show ?thesis by simp
  qed
  ultimately show ?thesis by (meson rtranclp.rtrancl_into_rtrancl rtranclp_trans)
qed

section \<open>The book of an engine\<close>

text \<open>
  A live placement holds the lease of its reservation; what is not advertised as occupied can be
  leased; a placement that is not live has closed its lease.
\<close>

definition placement_lease ::
  "(reservation_id, reservation_record) omap \<Rightarrow> placement_record \<Rightarrow> (resource_id \<Rightarrow> nat) option" where
  "placement_lease vs p =
     (if placement_state_is_live (pl_state p) then
        map_option (\<lambda>v k. claims_on k (rv_claims v)) (map_of vs (pl_reservation p))
      else None)"

definition state_book :: "scheduler_state \<Rightarrow> lease_book" where
  "state_book st = \<lparr>
     lb_capacity = (\<lambda>k. case map_of (ss_resources st) k of None \<Rightarrow> 0
       | Some r \<Rightarrow> unat (rcap_slots (res_capacity r)) - unat (res_advertised_occupancy r)),
     lb_leases = (\<lambda>k. Option.bind (map_of (ss_placements st) k) (placement_lease (ss_reservations st))),
     lb_closed = {k. \<exists>p. map_of (ss_placements st) k = Some p \<and> \<not> placement_state_is_live (pl_state p)}\<rparr>"

lemma lease_live:
  "lb_leases (state_book st) k = Some c \<longleftrightarrow>
     (\<exists>p v. map_of (ss_placements st) k = Some p \<and> placement_state_is_live (pl_state p) \<and>
        map_of (ss_reservations st) (pl_reservation p) = Some v \<and> c = (\<lambda>k. claims_on k (rv_claims v)))"
  by (auto simp: state_book_def placement_lease_def bind_eq_Some_conv)

lemma lease_liveE:
  assumes "lb_leases (state_book st) k = Some c"
  obtains p v where "map_of (ss_placements st) k = Some p" and "placement_state_is_live (pl_state p)"
    and "map_of (ss_reservations st) (pl_reservation p) = Some v" and "c = (\<lambda>k. claims_on k (rv_claims v))"
  using assms that unfolding lease_live by blast

lemma om_total_sum:
  fixes m :: "('k::{finite, linorder}, 'v) omap"
  shows "distinct (map fst m) \<Longrightarrow> om_total f m = (\<Sum>k\<in>UNIV. case map_of m k of None \<Rightarrow> 0 | Some v \<Rightarrow> f v)"
proof (induction m)
  case (Cons a m)
  obtain i w where a: "a = (i, w)" by (cases a)
  with Cons.prems have i: "map_of m i = None" by (simp add: map_of_eq_None_iff)
  have "(\<Sum>k\<in>UNIV - {i}. case map_of (a # m) k of None \<Rightarrow> 0 | Some v \<Rightarrow> f v) =
      (\<Sum>k\<in>UNIV - {i}. case map_of m k of None \<Rightarrow> 0 | Some v \<Rightarrow> f v)"
    by (rule sum.cong) (auto simp: a)
  with Cons i show ?case
    by (simp add: om_total_def a sum.remove [of UNIV i])
qed (simp add: om_total_def)

text \<open>Live placements and active reservations correspond to one another.\<close>

lemma live_reservation:
  assumes "engine_inv e" and "map_of (ss_placements (eng_state e)) k = Some p" and "placement_state_is_live (pl_state p)"
  obtains v where "map_of (ss_reservations (eng_state e)) (pl_reservation p) = Some v" and "rv_state v = RV_Active"
    and "rv_placement v = k"
proof -
  have "placements_inv (ss_resources (eng_state e)) (ss_requests (eng_state e)) (ss_reservations (eng_state e))
      (ss_placements (eng_state e))" using assms(1) by (simp add: engine_inv_def state_inv_def)
  with assms(2,3) have "backed (ss_reservations (eng_state e)) p" "pl_id p = k"
    by (auto simp: placements_inv_def keyed_def)
  then show thesis using that by (auto simp: backed_def)
qed

lemma active_placement:
  assumes "engine_inv e" and "map_of (ss_reservations (eng_state e)) i = Some v" and "rv_state v = RV_Active"
  obtains p where "map_of (ss_placements (eng_state e)) (rv_placement v) = Some p"
    and "placement_state_is_live (pl_state p)" and "pl_reservation p = i"
proof -
  have "reservations_inv (ss_resources (eng_state e)) (ss_placements (eng_state e)) (ss_reservations (eng_state e))"
    using assms(1) by (simp add: engine_inv_def state_inv_def)
  with assms(2,3) have "backs (ss_placements (eng_state e)) v" "rv_id v = i"
    by (auto simp: reservations_inv_def keyed_def)
  then show thesis using that assms(3) by (auto simp: backs_def)
qed

lemma leased_total:
  assumes "engine_inv e"
  shows "leased (state_book (eng_state e)) k = om_total (reservation_claims k) (ss_reservations (eng_state e))"
proof -
  let ?st = "eng_state e" and ?b = "state_book (eng_state e)"
  let ?g = "\<lambda>p. lease_of (lb_leases ?b p) k"
  let ?h = "\<lambda>i. case map_of (ss_reservations ?st) i of None \<Rightarrow> 0 | Some v \<Rightarrow> reservation_claims k v"
  let ?live = "{p. lb_leases ?b p \<noteq> None}"
  let ?active = "{i. \<exists>v. map_of (ss_reservations ?st) i = Some v \<and> rv_state v = RV_Active}"
  have "om_wf (ss_reservations ?st)"
    using assms by (simp add: engine_inv_def state_inv_def reservations_inv_def keyed_def)
  then have "om_total (reservation_claims k) (ss_reservations ?st) = sum ?h UNIV"
    by (intro om_total_sum om_wf_distinct)
  also have "\<dots> = sum ?h ?active"
    by (rule sum.mono_neutral_right) (auto simp: reservation_claims_def split: option.splits)
  also have "\<dots> = sum ?g ?live"
  proof (rule sum.reindex_bij_witness [where i = "\<lambda>p. pl_reservation (the (map_of (ss_placements ?st) p))"
      and j = "\<lambda>i. rv_placement (the (map_of (ss_reservations ?st) i))"])
    fix i
    assume "i \<in> ?active"
    then obtain v where v: "map_of (ss_reservations ?st) i = Some v" "rv_state v = RV_Active" by auto
    from active_placement [OF assms v] obtain p where p: "map_of (ss_placements ?st) (rv_placement v) = Some p"
      "placement_state_is_live (pl_state p)" "pl_reservation p = i" by blast
    have lease: "lb_leases ?b (rv_placement v) = Some (\<lambda>k. claims_on k (rv_claims v))"
      using p v lease_live by blast
    show "pl_reservation (the (map_of (ss_placements ?st) (rv_placement (the (map_of (ss_reservations ?st) i))))) = i"
      "rv_placement (the (map_of (ss_reservations ?st) i)) \<in> ?live"
      "lease_of (lb_leases ?b (rv_placement (the (map_of (ss_reservations ?st) i)))) k = ?h i"
      using p v lease by (simp_all add: reservation_claims_def)
  next
    fix q
    assume "q \<in> ?live"
    then obtain p v where p: "map_of (ss_placements ?st) q = Some p" "placement_state_is_live (pl_state p)"
      using lease_live by blast
    from live_reservation [OF assms p] obtain v where "map_of (ss_reservations ?st) (pl_reservation p) = Some v"
      "rv_state v = RV_Active" "rv_placement v = q" by blast
    with p show "rv_placement (the (map_of (ss_reservations ?st) (pl_reservation (the (map_of (ss_placements ?st) q))))) = q"
      "pl_reservation (the (map_of (ss_placements ?st) q)) \<in> ?active" by simp_all
  qed
  also have "\<dots> = sum ?g UNIV" by (rule sum.mono_neutral_left) (auto simp: lease_of_def)
  finally show ?thesis by (simp add: leased_def)
qed

lemma claims_on_absent: "\<forall>c\<in>set cs. cl_resource c \<noteq> k \<Longrightarrow> claims_on k cs = 0"
  by (induction cs) auto

lemma claims_on_some: "cs \<noteq> [] \<Longrightarrow> \<forall>c\<in>set cs. cl_slots c \<noteq> 0 \<Longrightarrow> \<exists>k. claims_on k cs \<noteq> 0"
  by (cases cs) (auto simp: unat_gt_0 intro!: exI [of _ "cl_resource (hd cs)"])

lemma engine_reservation:
  "engine_inv e \<Longrightarrow> map_of (ss_reservations (eng_state e)) i = Some v \<Longrightarrow> reservation_ok (ss_resources (eng_state e)) v"
  by (simp add: engine_inv_def state_inv_def reservations_inv_def)

lemma state_book_ok:
  assumes "engine_inv e"
  shows "book_ok (state_book (eng_state e))"
proof -
  let ?st = "eng_state e" and ?b = "state_book (eng_state e)"
  have "leased ?b k \<le> lb_capacity ?b k" for k
  proof (cases "map_of (ss_resources ?st) k")
    case None
    have "lease_of (lb_leases ?b p) k = 0" for p
    proof (cases "lb_leases ?b p")
      case (Some c)
      then obtain q v where q: "map_of (ss_placements ?st) p = Some q" "placement_state_is_live (pl_state q)"
        and v: "map_of (ss_reservations ?st) (pl_reservation q) = Some v" "c = (\<lambda>k. claims_on k (rv_claims v))" by (rule lease_liveE)
      from engine_reservation [OF assms v(1)] None have "claims_on k (rv_claims v) = 0"
        by (intro claims_on_absent) (auto simp: reservation_ok_def)
      with Some v show ?thesis by simp
    qed simp
    then show ?thesis by (simp add: leased_def)
  next
    case (Some r)
    with assms have "resource_ok r" "unat (res_reserved_slots r) = leased ?b k"
      by (simp_all only: leased_total [OF assms]) (simp_all add: engine_inv_def state_inv_def resources_inv_def)
    then have "unat (res_advertised_occupancy r) + leased ?b k \<le> unat (rcap_slots (res_capacity r))"
      by (simp add: resource_ok_def)
    with Some show ?thesis by (simp add: state_book_def)
  qed
  moreover have "p \<notin> lb_closed ?b \<and> (\<exists>i. c i \<noteq> 0)" if "lb_leases ?b p = Some c" for p c
  proof -
    from that obtain q v where q: "map_of (ss_placements ?st) p = Some q" "placement_state_is_live (pl_state q)"
      "map_of (ss_reservations ?st) (pl_reservation q) = Some v" "c = (\<lambda>k. claims_on k (rv_claims v))"
      by (rule lease_liveE)
    from engine_reservation [OF assms q(3)] have "\<exists>i. c i \<noteq> 0"
      unfolding q(4) reservation_ok_def by (blast intro: claims_on_some)
    moreover have "p \<notin> lb_closed ?b" using q by (simp add: state_book_def)
    ultimately show ?thesis by simp
  qed
  ultimately show ?thesis by (simp add: book_ok_def)
qed

section \<open>The refinement\<close>

lemma history_leases:
  assumes inv: "engine_inv e" "engine_inv e'" and h: "history (eng_state e) (eng_state e')"
  shows "lb_closed (state_book (eng_state e)) \<subseteq> lb_closed (state_book (eng_state e'))"
    and "lb_leases (state_book (eng_state e)) k = Some c \<Longrightarrow>
      k \<in> lb_closed (state_book (eng_state e')) \<or> lb_leases (state_book (eng_state e')) k = Some c"
proof -
  have grows: "grows kept_placement (ss_placements (eng_state e)) (ss_placements (eng_state e'))"
    "grows kept_reservation (ss_reservations (eng_state e)) (ss_reservations (eng_state e'))"
    using h by (simp_all add: history_def)
  show "lb_closed (state_book (eng_state e)) \<subseteq> lb_closed (state_book (eng_state e'))"
    using grows(1) by (fastforce simp: state_book_def grows_def kept_placement_def)
  assume "lb_leases (state_book (eng_state e)) k = Some c"
  then obtain p v where p: "map_of (ss_placements (eng_state e)) k = Some p" "placement_state_is_live (pl_state p)"
    and v: "map_of (ss_reservations (eng_state e)) (pl_reservation p) = Some v" "c = (\<lambda>k. claims_on k (rv_claims v))"
    by (rule lease_liveE)
  from grows p(1) v(1) obtain p' v' where p': "map_of (ss_placements (eng_state e')) k = Some p'" "kept_placement p p'"
    and v': "map_of (ss_reservations (eng_state e')) (pl_reservation p) = Some v'" "kept_reservation v v'"
    unfolding grows_def by blast
  have same: "pl_reservation p' = pl_reservation p" "rv_claims v' = rv_claims v"
    using p'(2) v'(2) by (auto simp: kept_placement_def kept_reservation_def)
  show "k \<in> lb_closed (state_book (eng_state e')) \<or> lb_leases (state_book (eng_state e')) k = Some c"
  proof (cases "placement_state_is_live (pl_state p')")
    case True
    with p' v' same v(2) have "lb_leases (state_book (eng_state e')) k = Some c" unfolding lease_live by auto
    then show ?thesis ..
  next
    case False
    with p'(1) have "k \<in> lb_closed (state_book (eng_state e'))" by (auto simp: state_book_def)
    then show ?thesis ..
  qed
qed

text \<open>A forward simulation, and what it gives for runs.\<close>

locale forward_simulation = transition_invariant initial step inv
  for initial :: "'s \<Rightarrow> bool" and step :: "'s \<Rightarrow> 's \<Rightarrow> bool" and inv :: "'s \<Rightarrow> bool" +
  fixes start :: 'a and astep :: "'a \<Rightarrow> 'a \<Rightarrow> bool" and abs :: "'s \<Rightarrow> 'a"
  assumes abs_initial: "initial s \<Longrightarrow> abs s = start"
    and abs_step: "inv s \<Longrightarrow> step s t \<Longrightarrow> astep\<^sup>*\<^sup>* (abs s) (abs t)"
begin

lemma abs_run: "step\<^sup>*\<^sup>* s t \<Longrightarrow> inv s \<Longrightarrow> astep\<^sup>*\<^sup>* (abs s) (abs t)"
proof (induction rule: rtranclp_induct)
  case (step t u)
  then show ?case using abs_step inv_rtranclp by (meson rtranclp_trans)
qed simp

lemma abs_reachable: "initial s \<Longrightarrow> step\<^sup>*\<^sup>* s t \<Longrightarrow> astep\<^sup>*\<^sup>* start (abs t)"
  using abs_run inv_initial abs_initial by metis

end

interpretation leases: forward_simulation initial_engine engine_step engine_inv empty_book book_step
  "\<lambda>e. state_book (eng_state e)"
proof
  show "initial_engine e \<Longrightarrow> state_book (eng_state e) = empty_book" for e
    by (auto simp: initial_engine_def make_engine_def empty_state_def state_book_def empty_book_def)
  show "book_run (state_book (eng_state e)) (state_book (eng_state e'))" if "engine_inv e" "engine_step e e'" for e e'
    using engine_step_inv [OF that(2,1)] engine_step_history [OF that(2,1)] that(1)
    by (intro book_reaches state_book_ok history_leases) auto
qed

text \<open>
  C5. The engine refines a book of leases. The state of every reachable engine is a book that
  arises from the empty one by openings, closings and changes of capacity that keep what is leased
  within the capacity and never open a lease twice; the reserved slots of a resource are what is
  leased of it; and every operation is a sequence of such moves.
\<close>

theorem engine_refines_lease_book:
  assumes "reachable e"
  shows "book_step\<^sup>*\<^sup>* empty_book (state_book (eng_state e)) \<and>
    (\<forall>k r. map_of (ss_resources (eng_state e)) k = Some r \<longrightarrow>
      unat (res_reserved_slots r) = leased (state_book (eng_state e)) k) \<and>
    (\<forall>e'. engine_step e e' \<longrightarrow> book_step\<^sup>*\<^sup>* (state_book (eng_state e)) (state_book (eng_state e')))"
proof -
  note inv = reachable_inv [OF assms]
  have "book_run empty_book (state_book (eng_state e))"
    using assms leases.abs_reachable unfolding reachable_def by blast
  moreover have "unat (res_reserved_slots r) = leased (state_book (eng_state e)) k"
    if "map_of (ss_resources (eng_state e)) k = Some r" for k r
    using inv that by (simp add: leased_total engine_inv_def state_inv_def resources_inv_def)
  ultimately show ?thesis using leases.abs_step [OF inv] by blast
qed

theorem engine_refines_lease_book_witness:
  "book_step\<^sup>*\<^sup>* (state_book (eng_state lab_registered))
     (state_book (eng_state (snd (submit_request (lab_request 20) lab_registered))))"
proof -
  have "ids_room (eng_ids (snd (register_resource (gpu_advertisement 1 3) (make_engine lab_config))))"
    by (simp add: register_resource_def Let_def make_engine_def lab_config_def ids_room_def split: option.split sum.split)
  from step_submit [OF this [folded lab_registered_def]]
  have "engine_step lab_registered (snd (submit_request (lab_request 20) lab_registered))" .
  with engine_refines_lease_book [OF lab_reachable(2)] show ?thesis by blast
qed

end
