(* ===== verification/Cli.thy ===== *)
theory Cli
  imports Coordinator Worker
begin

text \<open>
  The command line programs of \<open>apps\<close>: the option parser of \<open>cli_support.hpp\<close> and the \<open>main\<close> of the
  inspection tool, the coordinator and the worker. A program is a function from its arguments and
  the answers of its environment (files, connections, identity of the process) to what it prints
  and its exit code. A text that is printed with \<open>%s\<close> ends at its first null character.
\<close>

section \<open>Options\<close>

definition has_flag :: "string list \<Rightarrow> string \<Rightarrow> bool" where
  "has_flag arguments flag = list_ex (\<lambda>argument. argument = flag) arguments"

fun option_value :: "string list \<Rightarrow> string \<Rightarrow> string \<Rightarrow> string" where
  "option_value (argument # next # rest) name fallback =
     (if argument = name then next else option_value (next # rest) name fallback)"
| "option_value _ name fallback = fallback"

definition option_u32 :: "string list \<Rightarrow> string \<Rightarrow> u32 \<Rightarrow> u32 result" where
  "option_u32 arguments name fallback =
     (let raw = option_value arguments name [] in
      if raw = [] then Inr fallback
      else case parse_decimal_u32 raw of
          None \<Rightarrow> Inl (Status E_InvalidArgument (''invalid value for '' @ name @ '': '' @ raw))
        | Some v \<Rightarrow> Inr v)"

fun positional_arguments :: "string list \<Rightarrow> string list \<Rightarrow> string list" where
  "positional_arguments [] valued = []"
| "positional_arguments (argument # rest) valued =
     (if list_ex (\<lambda>option. argument = option) valued then
        (case rest of [] \<Rightarrow> [] | _ # rest \<Rightarrow> positional_arguments rest valued)
      else if argument \<noteq> [] \<and> argument ! 0 = CHR ''-'' then positional_arguments rest valued
      else argument # positional_arguments rest valued)"

definition c_str :: "string \<Rightarrow> string" where
  "c_str text = takeWhile (\<lambda>ch. ch \<noteq> CHR 0x00) text"

definition error_line :: "status \<Rightarrow> string" where
  "error_line status = ''error '' @ c_str (status_to_string status) @ newline"

definition decimal_u32 :: "u32 \<Rightarrow> string" where
  "decimal_u32 v = decimal_u64 (ucast v)"

section \<open>The inspection tool\<close>

definition cli_usage :: string where
  "cli_usage =
     ''usage: lab-scheduler-cli --port <port> <subject> [argument]'' @ newline @
     ''       subjects: resources requests placements reservations stale workers epoch accounting invariants audit'' @ newline @
     ''                 resource <id> request <id> placement <id> explain <decision> explain-placement <placement>'' @ newline @
     ''                 save <path> state-validate <path> shutdown'' @ newline @
     ''       lab-scheduler-cli --state <path> validate-state'' @ newline"

definition cli_validate_state :: "file_system \<Rightarrow> string list \<Rightarrow> string \<Rightarrow> string \<times> int" where
  "cli_validate_state fs positional state_path =
     (let path = (if 1 < length positional then positional ! 1 else state_path) in
      if path = [] then (''error validate-state requires a persistence path'' @ newline, 2)
      else case load_durable_state default_limits path fs of
          Inl status \<Rightarrow>
            (''durable_state INVALID'' @ newline @ ''  '' @ error_line status, 1)
        | Inr state \<Rightarrow>
            (c_str (render_durable_state_validation state),
             if status_ok (validate_durable_state state) then 0 else 1))"

definition cli_shutdown :: "client \<Rightarrow> string \<times> int" where
  "cli_shutdown ci =
     (case fst (call_shutdown ci) of
        Inl status \<Rightarrow> (error_line status, 1)
      | Inr ack \<Rightarrow> (''shutdown epoch='' @ id_to_string K_CoordinatorEpoch (sa_epoch ack) @
          '' detail='' @ c_str (sa_detail ack) @ newline, 0))"

definition cli_save :: "string \<Rightarrow> client \<Rightarrow> string \<times> int" where
  "cli_save path ci =
     (case fst (call_save path ci) of
        Inl status \<Rightarrow> (error_line status, 1)
      | Inr ack \<Rightarrow>
          if sa_code ack \<noteq> E_Ok then (''error '' @ c_str (sa_detail ack) @ newline, 1)
          else (''state path='' @ c_str (sa_path ack) @ '' epoch='' @ id_to_string K_CoordinatorEpoch (sa_epoch ack) @
            '' resources='' @ decimal_u32 (sa_resources ack) @ '' requests='' @ decimal_u32 (sa_requests ack) @
            '' placements='' @ decimal_u32 (sa_placements ack) @
            '' reservations='' @ decimal_u32 (sa_reservations ack) @ newline, 0))"

definition cli_inspect :: "string \<Rightarrow> client \<Rightarrow> string \<times> int" where
  "cli_inspect subject ci =
     (case fst (call_inspect subject ci) of
        Inl status \<Rightarrow> (error_line status, 1)
      | Inr t \<Rightarrow> (c_str t, 0))"

definition cli_main :: "file_system \<Rightarrow> (u16 \<Rightarrow> client result) \<Rightarrow> string list \<Rightarrow> string \<times> int" where
  "cli_main fs connected arguments =
     (if arguments = [] \<or> has_flag arguments ''--help'' \<or> has_flag arguments ''-h'' then
        (cli_usage, if arguments = [] then 2 else 0)
      else
        let positional = positional_arguments arguments [''--port'', ''--state''];
            state_path = option_value arguments ''--state'' [] in
        if positional = [] then (''error no inspection subject given'' @ newline, 2)
        else if positional ! 0 = ''validate-state'' then cli_validate_state fs positional state_path
        else case option_u32 arguments ''--port'' 0 of
            Inl _ \<Rightarrow> (''error a coordinator port is required for live inspection'' @ newline, 2)
          | Inr port \<Rightarrow>
              if port = 0 then (''error a coordinator port is required for live inspection'' @ newline, 2)
              else case connected (ucast port) of
                  Inl status \<Rightarrow> (error_line status, 1)
                | Inr ci \<Rightarrow>
                    if positional ! 0 = ''shutdown'' then cli_shutdown ci
                    else if positional ! 0 = ''save'' then
                      cli_save (if 1 < length positional then positional ! 1 else state_path) ci
                    else cli_inspect (if 1 < length positional then positional ! 0 @ '' '' @ positional ! 1
                      else positional ! 0) ci)"

section \<open>The coordinator\<close>

definition coordinator_usage :: string where
  "coordinator_usage =
     ''usage: lab-scheduler-coordinator --port <port> [--state <path>] [--no-persist] [--quiet]'' @ newline @
     ''       --port 0 selects an ephemeral loopback port'' @ newline"

definition recovery_banner :: "recovery_report \<Rightarrow> string" where
  "recovery_banner recovery =
     ''coordinator recovered previous_epoch='' @
       id_to_string K_CoordinatorEpoch (rc_previous_epoch recovery) @
     '' current_epoch='' @ id_to_string K_CoordinatorEpoch (rc_current_epoch recovery) @
     '' revalidation='' @ decimal_u32 (of_nat (length (rc_resources_requiring_revalidation recovery))) @
     '' reconciled='' @ decimal_u32 (of_nat (length (rc_reconciled_placements recovery))) @
     '' revoked='' @ decimal_u32 (of_nat (length (rc_revoked_reservations recovery))) @
     '' requests='' @ decimal_u32 (rc_requests_preserved recovery) @
     '' history='' @ decimal_u32 (rc_placement_history_preserved recovery) @ newline"

definition coordinator_banner :: "coordinator_status \<Rightarrow> string" where
  "coordinator_banner status =
     ''coordinator listening port='' @ decimal_u64 (ucast (cs_port status)) @ newline @
     ''coordinator epoch='' @ id_to_string K_CoordinatorEpoch (cs_epoch status) @ newline @
     (if cs_recovered status then recovery_banner (cs_recovery status)
      else ''coordinator recovered=no'' @ newline)"

definition coordinator_options :: "string list \<Rightarrow> coordinator_config" where
  "coordinator_options arguments = \<lparr>cf_state_path = option_value arguments ''--state'' [],
     cf_limits = default_limits, cf_persist_on_mutation = \<not> has_flag arguments ''--no-persist'',
     cf_coordinator_name = ''lab-scheduler-coordinator''\<rparr>"

text \<open>
  The program up to \<open>run\<close>: what it printed, and either its exit code or the coordinator that serves.
  \<open>listening p\<close> is the answer of \<open>listen_loopback\<close> for the port \<open>p\<close> with the port it bound.
\<close>

definition coordinator_main ::
  "file_system \<Rightarrow> (u16 \<Rightarrow> status \<times> u16) \<Rightarrow> string list \<Rightarrow> string \<times> (int + coordinator)" where
  "coordinator_main fs listening arguments =
     (if has_flag arguments ''--help'' \<or> has_flag arguments ''-h'' then (coordinator_usage, Inl 0)
      else case option_u32 arguments ''--port'' 0 of
          Inl status \<Rightarrow> (error_line status, Inl 2)
        | Inr port \<Rightarrow>
            let (bound, bound_port) = listening (ucast port) in
            case coordinator_start (coordinator_options arguments) fs bound bound_port of
              Inl status \<Rightarrow> (error_line status, Inl 2)
            | Inr (status, c) \<Rightarrow> (coordinator_banner status, Inr c))"

text \<open>The end of the program, \<open>served\<close> being the result of \<open>run\<close>.\<close>

definition coordinator_exit :: "string list \<Rightarrow> status \<Rightarrow> string \<times> int" where
  "coordinator_exit arguments served =
     (if has_flag arguments ''--quiet'' then []
      else ''coordinator stopped code='' @ error_code_name (st_code served) @ newline,
      if status_ok served then 0 else 1)"

section \<open>The worker\<close>

definition worker_usage :: string where
  "worker_usage =
     ''usage: lab-scheduler-worker --port <port> --profile <alpha|beta|gamma>'' @ newline @
     ''       [--boot <counter>] [--occupancy <n>] [--authority <text>] [--hold]'' @ newline"

definition profile_worker :: "string \<Rightarrow> worker_id option" where
  "profile_worker profile =
     (if profile = ''alpha'' then Some kAlphaWorkerId
      else if profile = ''beta'' then Some kBetaWorkerId
      else if profile = ''gamma'' then Some kGammaWorkerId
      else None)"

definition worker_exit :: "status \<Rightarrow> worker_agent \<Rightarrow> string \<times> int" where
  "worker_exit served w =
     (''worker stopped completed='' @ decimal_u32 (wa_completed w) @
      '' rejected='' @ decimal_u32 (wa_rejected w) @ '' code='' @ error_code_name (st_code served) @ newline,
      if 0 < wa_completed w \<and> status_ok served then 0 else if status_ok served then 0 else 4)"

text \<open>\<open>token\<close> is the entropy of the process, \<open>pid\<close> its identity.\<close>

definition worker_options :: "u64 \<Rightarrow> string list \<Rightarrow> worker_id \<Rightarrow> u32 \<Rightarrow> u32 \<Rightarrow> worker_config" where
  "worker_options token arguments worker counter occupancy = \<lparr>wc_worker = worker,
     wc_boot = make_worker_boot_id worker (ucast counter) token,
     wc_profile = option_value arguments ''--profile'' [], wc_current_occupancy = occupancy,
     wc_limits = default_limits,
     wc_authority = option_value arguments ''--authority'' ''lab-scheduler-worker'',
     wc_hold_assignments = has_flag arguments ''--hold''\<rparr>"

definition worker_serve :: "worker_config \<Rightarrow> client result \<Rightarrow> string \<times> int" where
  "worker_serve cfg connected =
     (case worker_start cfg connected of
        (Inl status, _) \<Rightarrow> (error_line status, 2)
      | (Inr _, None) \<Rightarrow> ([], 3)
      | (Inr hello, Some w) \<Rightarrow>
          let (served, w') = worker_run None w; (stopped, code) = worker_exit served w' in
          (concat (map (\<lambda>i. ''worker registered resource='' @ id_to_string K_ResourceId i @ newline)
             (wa_resource_ids w)) @
           ''worker ready epoch='' @ id_to_string K_CoordinatorEpoch (ha_epoch hello) @ newline @ stopped, code))"

definition worker_main :: "u32 \<Rightarrow> u64 \<Rightarrow> u64 \<Rightarrow> u64 \<Rightarrow> (u16 \<Rightarrow> client result) \<Rightarrow> string list \<Rightarrow> string \<times> int" where
  "worker_main device now thread pid connected arguments =
     (if has_flag arguments ''--help'' \<or> has_flag arguments ''-h'' then (worker_usage, 0)
      else case option_u32 arguments ''--port'' 0 of
          Inl _ \<Rightarrow> (''error a coordinator port is required'' @ newline, 2)
        | Inr port \<Rightarrow>
            let profile = option_value arguments ''--profile'' [] in
            if port = 0 then (''error a coordinator port is required'' @ newline, 2)
            else if profile = [] then (''error a profile is required'' @ newline, 2)
            else case option_u32 arguments ''--boot'' 1 of
                Inl status \<Rightarrow> (error_line status, 2)
              | Inr counter \<Rightarrow>
                  (case option_u32 arguments ''--occupancy'' 0 of
                     Inl status \<Rightarrow> (error_line status, 2)
                   | Inr occupancy \<Rightarrow>
                       (case profile_worker profile of
                          None \<Rightarrow> (''error unknown profile '' @ c_str profile @ newline, 2)
                        | Some worker \<Rightarrow>
                            let cfg = worker_options (process_entropy_token device now thread) arguments worker counter occupancy;
                                (out, code) = worker_serve cfg (connected (ucast port)) in
                            (''worker id='' @ id_to_string K_WorkerId worker @
                             '' boot='' @ id_to_string K_WorkerBootId (wc_boot cfg) @
                             '' profile='' @ c_str profile @ '' pid='' @ decimal_u64 pid @ newline @ out, code))))"

section \<open>Laws\<close>

text \<open>Without a valued option before it, an argument is positional exactly when it is no option.\<close>

lemma positional_plain:
  "\<forall>a\<in>set arguments. a \<notin> set valued \<Longrightarrow>
     positional_arguments arguments valued = filter (\<lambda>a. a = [] \<or> a ! 0 \<noteq> CHR ''-'') arguments"
  by (induction arguments valued rule: positional_arguments.induct) (auto simp: list_ex_iff)

lemma started_worker: "worker_start cfg connected = (Inr hello, w) \<Longrightarrow> w \<noteq> None"
  by (auto simp: worker_start_def Let_def split: sum.splits prod.splits if_splits)

end
