(* ===== verification/ExportInv.thy ===== *)
theory ExportInv
  imports History
begin

text \<open>
  What makes the state of an engine fit to be exported: every stored record is one that the
  validation of a durable image accepts, and no table outgrows the bound of the image. The theory
  shows that every operation keeps it; the ledger part of the validation is the invariant of
  \<open>EngineInv\<close>.
\<close>

section \<open>Sound records\<close>

definition sound_resource :: "limits \<Rightarrow> resource_record \<Rightarrow> bool" where
  "sound_resource lim r \<longleftrightarrow> status_ok (validate_advertisement lim (advertisement_of_record r))"

definition sound_request :: "limits \<Rightarrow> stored_request \<Rightarrow> bool" where
  "sound_request lim s \<longleftrightarrow> status_ok (validate_schedule_request lim (st_request s))"

definition sound_placement :: "placement_record \<Rightarrow> bool" where
  "sound_placement p \<longleftrightarrow> pl_id p \<noteq> 0 \<and> pl_generation p \<noteq> 0 \<and>
     (\<forall>s\<in>set (pl_resources p). sel_generation s \<noteq> 0)"

definition sound_reservation :: "reservation_record \<Rightarrow> bool" where
  "sound_reservation v \<longleftrightarrow> rv_id v \<noteq> 0 \<and> rv_lease v \<noteq> 0"

definition table_ok :: "('v \<Rightarrow> bool) \<Rightarrow> nat \<Rightarrow> ('k::linorder, 'v) omap \<Rightarrow> bool" where
  "table_ok P n m \<longleftrightarrow> om_wf m \<and> length m \<le> n \<and> (\<forall>k v. map_of m k = Some v \<longrightarrow> P v)"

lemma table_ok_value: "table_ok P n m \<Longrightarrow> map_of m k = Some v \<Longrightarrow> P v"
  by (auto simp: table_ok_def)

lemma table_ok_modify: "table_ok P n m \<Longrightarrow> (\<And>v. P v \<Longrightarrow> P (f v)) \<Longrightarrow> table_ok P n (om_modify k f m)"
  by (auto simp: table_ok_def map_of_om_modify)

lemma length_om_emplace: "length (om_emplace k v m) \<le> Suc (length m)"
  by (induction k v m rule: om_emplace.induct) auto

lemma table_ok_emplace: "table_ok P n m \<Longrightarrow> P v \<Longrightarrow> length m < n \<Longrightarrow> table_ok P n (om_emplace k v m)"
  using length_om_emplace [of k v m]
  by (auto simp: table_ok_def om_wf_emplace map_of_om_emplace split: if_splits)

lemma length_le_keys:
  assumes "om_wf m" and "\<And>k. map_of m k \<noteq> None \<Longrightarrow> k \<in> f ` set xs"
  shows "length m \<le> length xs"
proof -
  have "length m = card (fst ` set m)"
    using om_wf_distinct [OF assms(1)] by (metis distinct_card length_map set_map)
  also have "fst ` set m \<subseteq> f ` set xs"
    using assms(2) by (auto simp: map_of_eq_None_iff)
  then have "card (fst ` set m) \<le> card (f ` set xs)" by (simp add: card_mono)
  also have "\<dots> \<le> length xs" using card_image_le [of "set xs" f] card_length [of xs] by simp
  finally show ?thesis .
qed

text \<open>A table with the same keys whose records are sound when the old ones are.\<close>

lemma table_ok_same_keys:
  assumes "table_ok P n m" and "map fst m' = map fst m"
    and "\<And>k v'. map_of m' k = Some v' \<Longrightarrow> \<exists>v. map_of m k = Some v \<and> (P v \<longrightarrow> P v')"
  shows "table_ok P n m'"
proof -
  have "length m' = length m" using arg_cong [OF assms(2), of length] by simp
  with assms show ?thesis unfolding table_ok_def om_wf_def by metis
qed

definition sound :: "limits \<Rightarrow> scheduler_state \<Rightarrow> bool" where
  "sound lim st \<longleftrightarrow>
     table_ok (sound_resource lim) (unat (max_persistence_records lim)) (ss_resources st) \<and>
     table_ok (sound_request lim) (unat (max_persistence_records lim)) (ss_requests st) \<and>
     table_ok sound_placement (unat (max_persistence_records lim)) (ss_placements st) \<and>
     table_ok sound_reservation (unat (max_persistence_records lim)) (ss_reservations st)"

lemma sound_same:
  "ss_resources st' = ss_resources st \<Longrightarrow> ss_requests st' = ss_requests st \<Longrightarrow>
   ss_placements st' = ss_placements st \<Longrightarrow> ss_reservations st' = ss_reservations st \<Longrightarrow>
   sound lim st' = sound lim st"
  by (simp add: sound_def)

lemma sound_push_audit [simp]: "sound lim (push_audit cfg k d st) = sound lim st"
  by (rule sound_same) simp_all

text \<open>What the configuration must allow, so that every table fits into an image.\<close>

definition persistable :: "limits \<Rightarrow> bool" where
  "persistable lim \<longleftrightarrow> max_resources lim \<le> max_persistence_records lim \<and>
     max_retained_requests lim \<le> max_persistence_records lim \<and>
     max_placements lim \<le> max_persistence_records lim \<and>
     max_reservations lim \<le> max_persistence_records lim \<and> 16 \<le> max_string_length lim"

section \<open>Reservations and placements\<close>

lemma sound_only_reserved: "only_reserved r r' \<Longrightarrow> sound_resource lim r' = sound_resource lim r"
  by (auto simp: only_reserved_def sound_resource_def)

lemma fst_release_claims [simp]: "map fst (release_claims cs m) = map fst m"
  by (induction cs m rule: release_claims.induct) simp_all

lemma table_ok_only_reserved:
  assumes "table_ok (sound_resource lim) n m" and "only_reserved_tables m m'" and "map fst m' = map fst m"
  shows "table_ok (sound_resource lim) n m'"
  using assms(1,3)
proof (rule table_ok_same_keys)
  fix k r'
  assume "map_of m' k = Some r'"
  with assms(2) obtain r where "map_of m k = Some r" "only_reserved r r'"
    unfolding only_reserved_tables_def by (metis option_rel_Some2)
  then show "\<exists>r. map_of m k = Some r \<and> (sound_resource lim r \<longrightarrow> sound_resource lim r')"
    by (auto simp: sound_only_reserved)
qed

lemma sound_release: "sound lim st \<Longrightarrow> sound lim (snd (release_reservation rid t d st))"
  using table_ok_only_reserved [OF _ only_reserved_release]
  by (auto simp: release_reservation_def sound_def sound_reservation_def split: option.split
      intro!: table_ok_modify)

lemma sound_modify_placement:
  "sound lim st \<Longrightarrow> (\<And>p. sound_placement p \<Longrightarrow> sound_placement (f p)) \<Longrightarrow>
     sound lim (st\<lparr>ss_transition_sequence := n, ss_placements := om_modify k f (ss_placements st)\<rparr>)"
  by (simp add: sound_def table_ok_modify)

lemma sound_modify_request:
  "sound lim st \<Longrightarrow> (\<And>s. st_request (f s) = st_request s) \<Longrightarrow>
     sound lim (st\<lparr>ss_requests := om_modify k f (ss_requests st)\<rparr>)"
  by (auto simp: sound_def sound_request_def intro!: table_ok_modify)

lemma st_request_detach [simp]: "st_request (detach_request pid t d s) = st_request s"
  by (simp add: detach_request_def split: option.split)

lemma sound_terminate:
  assumes "sound lim st"
  shows "sound lim (terminate_placement pid t d st)"
proof -
  let ?f = "\<lambda>q. q\<lparr>pl_state := t, pl_detail := d, pl_transition_sequence := ss_transition_sequence st + 1\<rparr>"
  have "sound lim (st\<lparr>ss_transition_sequence := ss_transition_sequence st + 1,
      ss_placements := om_modify pid ?f (ss_placements st)\<rparr>)"
    by (rule sound_modify_placement [OF assms]) (simp add: sound_placement_def)
  note released = sound_release [OF this]
  have unit: "sound lim (x\<lparr>ss_unit_current := u\<rparr>) = sound lim x" for x u by (rule sound_same) simp_all
  show ?thesis
    using assms
    by (auto simp: terminate_placement_def Let_def revoke_reservation_def unit split: option.split
        intro!: sound_modify_request released)
qed

section \<open>Workers\<close>

lemma sound_fold: "sound lim (fst s) \<Longrightarrow> (\<And>x s. sound lim (fst s) \<Longrightarrow> sound lim (fst (f x s))) \<Longrightarrow>
    sound lim (fst (fold f xs s))"
  by (induction xs arbitrary: s) simp_all

text \<open>The text that marks a lost incarnation has sixteen characters.\<close>

lemma validate_class_health [simp]:
  "validate_class_part lim (a\<lparr>adv_health := h, adv_health_detail := d, adv_readiness := x\<rparr>) =
     validate_class_part lim a"
  by (simp add: validate_class_part_def validate_model_part_def validate_simulator_part_def
      validate_dataset_part_def validate_physical_part_def validate_virtual_part_def
      split: resource_class.split option.split)

lemma sound_lose:
  assumes "16 \<le> max_string_length lim" and "sound_resource lim r"
  shows "sound_resource lim (lose_incarnation r)"
proof -
  have "16 \<le> unat (max_string_length lim)" using assms(1) by (simp add: word_le_nat_alt)
  then have fits: "status_ok (check_text ''incarnation lost'' ''health detail'' (max_string_length lim) True)"
    by (simp add: check_text_def)
  have "advertisement_of_record (lose_incarnation r) = (advertisement_of_record r)\<lparr>adv_health := HS_Unknown,
      adv_health_detail := ''incarnation lost'', adv_readiness := RD_Unknown\<rparr>"
    by (simp add: advertisement_of_record_def lose_incarnation_def)
  with assms(2) fits show ?thesis
    by (simp add: sound_resource_def validate_advertisement_def)
qed

lemma sound_lose_resources:
  assumes "16 \<le> max_string_length lim" and "sound lim st"
  shows "sound lim (st\<lparr>ss_resources := lose_resources w b (ss_resources st)\<rparr>)"
proof -
  have "table_ok (sound_resource lim) (unat (max_persistence_records lim)) (ss_resources st)"
    using assms(2) by (simp add: sound_def)
  then have "table_ok (sound_resource lim) (unat (max_persistence_records lim)) (lose_resources w b (ss_resources st))"
    by (rule table_ok_same_keys) (auto simp: map_of_lose_resources sound_lose [OF assms(1)])
  with assms(2) show ?thesis by (simp add: sound_def)
qed

lemma sound_invalidate:
  assumes "16 \<le> max_string_length lim" and "sound lim st"
  shows "sound lim (fst (invalidate_worker_incarnation cfg w b d st))"
proof -
  let ?st1 = "st\<lparr>ss_resources := lose_resources w b (ss_resources st)\<rparr>"
  have "sound lim (fst (invalidate_placement_step w b af pid s))" if "sound lim (fst s)" for af pid s
    using that invalidate_step_state [of w b af pid "fst s" "snd s"] sound_terminate [OF that] by auto
  then have "sound lim (fst (fold (invalidate_placement_step w b af) pids (?st1, rep)))" for af pids rep
    using sound_lose_resources [OF assms] by (intro sound_fold) simp_all
  moreover have "sound lim (x\<lparr>ss_workers := ws\<rparr>) = sound lim x" for x ws by (rule sound_same) simp_all
  ultimately show ?thesis
    by (simp add: invalidate_worker_incarnation_def Let_def case_prod_beta)
qed

lemma sound_adopt:
  assumes "16 \<le> max_string_length lim" and "sound lim st"
  shows "sound lim (fst (adopt_worker_incarnation cfg w b d st))"
proof -
  have "sound lim (x\<lparr>ss_worker_sequence := n, ss_workers := ws\<rparr>) = sound lim x"
    "sound lim (x\<lparr>ss_workers := ws\<rparr>) = sound lim x" for x n ws by (rule sound_same; simp)+
  then show ?thesis
    using assms sound_invalidate [OF assms]
    by (simp add: adopt_worker_incarnation_def Let_def case_prod_beta split: option.split)
qed

section \<open>Scheduling\<close>

definition generations_fresh :: "scheduler_state \<Rightarrow> bool" where
  "generations_fresh st \<longleftrightarrow> (\<forall>k r. map_of (ss_resources st) k = Some r \<longrightarrow> res_generation r \<noteq> 0)"

lemma generations_only_reserved:
  "only_reserved_tables m m' \<Longrightarrow> \<forall>k r. map_of m k = Some r \<longrightarrow> res_generation r \<noteq> 0 \<Longrightarrow>
     \<forall>k r. map_of m' k = Some r \<longrightarrow> res_generation r \<noteq> 0"
  unfolding only_reserved_tables_def using only_reserved_fields by (metis option_rel_Some2)

lemma fst_reserve_all [simp]: "map fst (reserve_all cs rs) = map fst rs"
proof -
  have "map fst (fold (\<lambda>c. om_modify (cr_id c) (reserve_slots (cr_slots c))) cs rs) = map fst rs"
    by (induction cs arbitrary: rs) simp_all
  then show ?thesis by (simp add: reserve_all_def)
qed

lemma sound_reserve_all:
  assumes "table_ok (sound_resource lim) n rs"
  shows "table_ok (sound_resource lim) n (reserve_all cs rs)"
  using assms by (rule table_ok_same_keys) (auto simp: reserve_all_map sound_resource_def)

lemma placed_within_limits:
  assumes "placed cfg rid req gen rcount st ids (schedule_locked cfg rid req gen rcount st ids) cand p v"
  shows "status_ok (commit_limits (cfg_limits cfg) st)"
proof (rule ccontr)
  assume "\<not> status_ok (commit_limits (cfg_limits cfg) st)"
  then have limited: "commit_best cfg rid req gen rcount d e cands st i = (Inl (commit_limits (cfg_limits cfg) st), st, i)"
    for d e cands i by (simp add: commit_best_def Let_def)
  from assms obtain d where d: "fst (schedule_locked cfg rid req gen rcount st ids) = Inr d" "dc_outcome d = DO_Placed"
    by (auto simp: placed_def)
  have refused: "dc_outcome (fst (no_placement rid d e code detail st)) = DO_NoPlacement" for d e code detail
    by (simp add: no_placement_def make_no_placement_decision_def Let_def)
  from d refused show False
    by (auto simp: schedule_locked_def Let_def case_prod_beta limited split: option.splits if_splits)
qed

lemma sound_schedule:
  assumes inv: "state_inv ids st" and cfg: "config_ok cfg" and ok: "request_ok req" and room: "ids_room ids"
    and lim: "persistable (cfg_limits cfg)" and gens: "generations_fresh st" and st: "sound (cfg_limits cfg) st"
  shows "sound (cfg_limits cfg) (fst (snd (schedule_locked cfg rid req gen rcount st ids)))"
proof -
  let ?r = "schedule_locked cfg rid req gen rcount st ids" and ?n = "unat (max_persistence_records (cfg_limits cfg))"
  consider "refused rid st ids ?r" | "limited cfg st ids ?r" | cand p v where "placed cfg rid req gen rcount st ids ?r cand p v"
    using schedule_locked_outcomes [OF inv cfg ok room] by blast
  then show ?thesis
  proof cases
    case 1
    then obtain decisions d where "fst (snd ?r) = st\<lparr>ss_decisions := decisions,
        ss_requests := om_modify rid (refuse_request d) (ss_requests st)\<rparr>" by (auto simp: refused_def)
    moreover have "sound (cfg_limits cfg) (st\<lparr>ss_requests := om_modify rid (refuse_request d) (ss_requests st)\<rparr>)"
      by (rule sound_modify_request [OF st]) (simp add: refuse_request_def)
    ultimately show ?thesis by (simp add: sound_def)
  next
    case 2
    with st show ?thesis by (simp add: limited_def)
  next
    case 3
    then obtain did sels claims decisions where
      state: "fst (snd ?r) = push_audit cfg ''placement.committed'' (placement_summary p)
         ((record_placement rid req p v (reserve_all (rkc_selection cand) (ss_resources st)) st)\<lparr>ss_decisions := decisions\<rparr>)"
      and com: "committed (ss_resources st) (zip (rkc_selection cand) (map rq_name (sr_requirements req))) sels claims"
      and p: "p = make_placement req st did (ids + 1 + 1) (ids + 1 + 1 + 1) (ids + 1 + 1 + 1 + 1) gen rcount sels"
      and v: "v = make_reservation p st claims"
      by (auto simp: placed_def commits_def)
    from 3 have ch: "chosen st req (cfg_limits cfg) cand" by (auto simp: placed_def)
    have fresh: "ids + 1 + 1 \<noteq> 0" "ids + 1 + 1 + 1 \<noteq> 0" "ids + 1 + 1 + 1 + 1 \<noteq> 0"
      using ids_room_steps [OF room] by (auto simp del: unat_eq_zero simp flip: unat_eq_0)
    have "max_rejection_reasons_per_entry (cfg_limits cfg) \<noteq> 0" using cfg by (simp add: config_ok_def)
    from chosen_fits [OF inv this ok ch]
    have fit: "\<forall>c\<in>set (rkc_selection cand). \<exists>r. map_of (ss_resources st) (cr_id c) = Some r"
      by (auto simp: selection_fits_def fits_def)
    have "sel_generation s \<noteq> 0" if s: "s \<in> set sels" for s
    proof -
      from s com obtain c name where c: "(c, name) \<in> set (zip (rkc_selection cand) (map rq_name (sr_requirements req)))"
        "s = select_resource c name (the (map_of (ss_resources st) (cr_id c)))" by (auto simp: committed_def)
      with fit obtain r where "map_of (ss_resources st) (cr_id c) = Some r" by (meson set_zip_leftD)
      with c(2) gens show ?thesis by (auto simp: select_resource_def generations_fresh_def)
    qed
    then have "sound_placement p" "sound_reservation v"
      using fresh by (simp_all add: sound_placement_def sound_reservation_def p v make_placement_def make_reservation_def)
    moreover have "length (ss_placements st) < ?n" "length (ss_reservations st) < ?n"
      using placed_within_limits [OF 3] lim
      by (auto simp: commit_limits_def persistable_def word_le_nat_alt)
    moreover have "st_request (place_request pid s) = st_request s" for pid s by (simp add: place_request_def)
    ultimately show ?thesis
      using st sound_reserve_all
      by (auto simp: state sound_def record_placement_def sound_request_def intro!: table_ok_emplace table_ok_modify)
  qed
qed

section \<open>The operations\<close>

lemma sound_store:
  assumes "sound lim st" and "status_ok (validate_schedule_request lim req)"
    and "length (ss_requests st) < unat (max_retained_requests lim)" and "persistable lim"
  shows "sound lim (store_request cfg req st)"
proof -
  have "length (ss_requests st) < unat (max_persistence_records lim)"
    using assms(3,4) by (simp add: persistable_def word_le_nat_alt)
  with assms(1,2) show ?thesis
    by (auto simp: store_request_def Let_def sound_def sound_request_def intro!: table_ok_emplace)
qed

lemma sound_submit:
  assumes inv: "engine_inv e" and room: "ids_room (eng_ids e)" and lim: "persistable (cfg_limits (eng_config e))"
    and gens: "generations_fresh (eng_state e)" and st: "sound (cfg_limits (eng_config e)) (eng_state e)"
  shows "sound (cfg_limits (eng_config e)) (eng_state (snd (submit_request request e)))"
proof (cases "status_ok (submit_checks (cfg_limits (eng_config e))
    (normalize_schedule_request request) (eng_state e))")
  case True
  let ?req = "normalize_schedule_request request" and ?st = "eng_state e"
  let ?st1 = "store_request (eng_config e) ?req ?st"
  from True have v: "status_ok (validate_schedule_request (cfg_limits (eng_config e)) ?req)"
    "length (ss_requests ?st) < unat (max_retained_requests (cfg_limits (eng_config e)))"
    by (auto simp: submit_checks_def)
  from inv have i: "state_inv (eng_ids e) ?st" and cfg: "config_ok (eng_config e)"
    by (simp_all add: engine_inv_def)
  have "ss_resources ?st1 = ss_resources ?st" by (simp add: store_request_def Let_def)
  then have "generations_fresh ?st1" using gens by (simp add: generations_fresh_def)
  from sound_schedule [OF state_inv_store_request [OF i request_ok_validated [OF v(1)]] cfg
      request_ok_validated [OF v(1)] room lim this sound_store [OF st v lim], of "sr_id ?req" 0 0] True
  show ?thesis by (simp add: submit_request_def Let_def case_prod_beta)
qed (simp add: submit_request_def Let_def st)

lemma generations_terminate:
  "generations_fresh st \<Longrightarrow> generations_fresh (terminate_placement pid t d st)"
  unfolding generations_fresh_def by (rule generations_only_reserved [OF terminate_resources])

lemma sound_reschedule:
  assumes inv: "state_inv ids st" and cfg: "config_ok cfg" and room: "ids_room ids"
    and s: "map_of (ss_requests st0) (pl_request p) = Some stored" and st0: "state_inv ids0 st0"
    and lim: "persistable (cfg_limits cfg)" and gens: "generations_fresh st" and st: "sound (cfg_limits cfg) st"
  shows "sound (cfg_limits cfg) (fst (snd (reschedule cfg p stored st ids)))"
  unfolding reschedule_def
  by (rule sound_schedule [OF inv cfg stored_request_facts(2) [OF st0 s] room lim gens st])

lemma sound_reassign_recorded:
  assumes inv: "engine_inv e" and room: "ids_room (eng_ids e)" and st: "state_inv (eng_ids e) st"
    and lim: "persistable (cfg_limits (eng_config e))" and gens: "generations_fresh st"
    and s: "sound (cfg_limits (eng_config e)) st"
  shows "sound (cfg_limits (eng_config e)) (eng_state (snd (reassign_recorded p report st e)))"
proof (cases "map_of (ss_requests st) (pl_request p)")
  case (Some stored)
  have cfg: "config_ok (eng_config e)" using inv by (simp add: engine_inv_def)
  note h = sound_reschedule [OF st cfg room Some st lim gens s]
  obtain r st2 ids' where run: "reschedule (eng_config e) p stored st (eng_ids e) = (r, st2, ids')"
    by (cases "reschedule (eng_config e) p stored st (eng_ids e)") auto
  from h run Some s show ?thesis
    by (simp add: reassign_recorded_def Let_def split: sum.split)
qed (simp add: reassign_recorded_def s)

lemma sound_reassign:
  assumes inv: "engine_inv e" and room: "ids_room (eng_ids e)" and lim: "persistable (cfg_limits (eng_config e))"
    and gens: "generations_fresh (eng_state e)" and s: "sound (cfg_limits (eng_config e)) (eng_state e)"
  shows "sound (cfg_limits (eng_config e)) (eng_state (snd (reassign_placement pid g epoch reason e)))"
proof -
  have st: "state_inv (eng_ids e) (eng_state e)" using inv by (simp add: engine_inv_def)
  have t: "state_inv (eng_ids e) (terminate_placement pid PL_ReassignmentRequired d (eng_state e))" for d
    by (rule state_inv_terminate [OF st]) simp
  note ended = sound_reassign_recorded [OF inv room t lim generations_terminate [OF gens] sound_terminate [OF s]]
  from ended sound_reassign_recorded [OF inv room st lim gens s] show ?thesis
    by (auto simp: reassign_placement_def Let_def s split: option.split)
qed

lemma sound_preempt_terminated:
  assumes inv: "engine_inv e" and room: "ids_room (eng_ids e)" and st: "state_inv (eng_ids e) st"
    and lim: "persistable (cfg_limits (eng_config e))" and gens: "generations_fresh st"
    and s: "sound (cfg_limits (eng_config e)) st"
  shows "sound (cfg_limits (eng_config e)) (eng_state (snd (preempt_terminated p reason report st e)))"
proof (cases "map_of (ss_requests st) (pl_request p)")
  case (Some stored)
  have cfg: "config_ok (eng_config e)" using inv by (simp add: engine_inv_def)
  let ?st1 = "st\<lparr>ss_requests := om_modify (pl_request p) (\<lambda>s. s\<lparr>st_state := RQ_Submitted\<rparr>) (ss_requests st)\<rparr>"
  have st1: "state_inv (eng_ids e) ?st1" by (rule state_inv_modify_request [OF st]) simp
  have s1: "sound (cfg_limits (eng_config e)) ?st1" by (rule sound_modify_request [OF s]) simp
  have "generations_fresh ?st1" using gens by (simp add: generations_fresh_def)
  note h = sound_reschedule [OF st1 cfg room Some st lim this s1]
  obtain r st2 ids' where run: "reschedule (eng_config e) p stored ?st1 (eng_ids e) = (r, st2, ids')"
    by (cases "reschedule (eng_config e) p stored ?st1 (eng_ids e)") auto
  from h run Some s1 show ?thesis
    by (simp add: preempt_terminated_def Let_def split: sum.split)
qed (simp add: preempt_terminated_def s)

lemma sound_preempt:
  assumes inv: "engine_inv e" and room: "ids_room (eng_ids e)" and lim: "persistable (cfg_limits (eng_config e))"
    and gens: "generations_fresh (eng_state e)" and s: "sound (cfg_limits (eng_config e)) (eng_state e)"
  shows "sound (cfg_limits (eng_config e)) (eng_state (snd (preempt_placement pid g epoch reason e)))"
proof -
  have st: "state_inv (eng_ids e) (eng_state e)" using inv by (simp add: engine_inv_def)
  have t: "state_inv (eng_ids e) (terminate_placement pid PL_Preempted d (eng_state e))" for d
    by (rule state_inv_terminate [OF st]) simp
  note ended = sound_preempt_terminated [OF inv room t lim generations_terminate [OF gens] sound_terminate [OF s]]
  then show ?thesis
    by (auto simp: preempt_placement_def Let_def s split: option.split)
qed

lemma sound_resources:
  "sound lim st \<Longrightarrow> table_ok (sound_resource lim) (unat (max_persistence_records lim)) rs \<Longrightarrow>
     sound lim (st\<lparr>ss_resources := rs\<rparr>)"
  by (simp add: sound_def)

lemma length_resources_adopt:
  "map fst (ss_resources (fst (adopt_worker_incarnation cfg w b d st))) = map fst (ss_resources st)"
proof -
  have released: "map fst (ss_resources (snd (release_reservation i t d s))) = map fst (ss_resources s)" for i t d s
    by (simp add: release_reservation_def split: option.split)
  have ended: "map fst (ss_resources (terminate_placement pid t d s)) = map fst (ss_resources s)" for pid t d s
    by (simp add: terminate_placement_def Let_def revoke_reservation_def released split: option.split)
  have step: "map fst (ss_resources (fst (invalidate_placement_step w b' af pid s))) = map fst (ss_resources (fst s))"
    for b' af pid s
    using invalidate_step_state [of w b' af pid "fst s" "snd s"] ended by auto
  have folded: "map fst (ss_resources (fst (fold (invalidate_placement_step w b' af) pids s))) =
      map fst (ss_resources (fst s))" for b' af pids s
    by (induction pids arbitrary: s) (simp_all add: step)
  show ?thesis
    by (simp add: adopt_worker_incarnation_def invalidate_worker_incarnation_def Let_def case_prod_beta folded
        split: option.split)
qed

lemma sound_register:
  assumes lim: "persistable (cfg_limits (eng_config e))" and st: "sound (cfg_limits (eng_config e)) (eng_state e)"
  shows "sound (cfg_limits (eng_config e)) (eng_state (snd (register_resource a e)))"
proof (cases "status_ok (validate_advertisement (cfg_limits (eng_config e)) a) \<and>
    length (ss_resources (eng_state e)) < unat (max_resources (cfg_limits (eng_config e)))")
  case True
  let ?lim = "cfg_limits (eng_config e)" and ?n = "normalize_advertisement a"
  have detail: "16 \<le> max_string_length ?lim" using lim by (simp add: persistable_def)
  have add: "sound ?lim (x\<lparr>ss_resources := om_emplace (res_id (registered_record ep ?n)) (registered_record ep ?n)
      (ss_resources x)\<rparr>)"
    if x: "sound ?lim x" "map fst (ss_resources x) = map fst (ss_resources (eng_state e))" for x ep
  proof (rule sound_resources [OF x(1)], rule table_ok_emplace)
    show "table_ok (sound_resource ?lim) (unat (max_persistence_records ?lim)) (ss_resources x)"
      using x(1) by (simp add: sound_def)
    show "sound_resource ?lim (registered_record ep ?n)"
      using True by (simp add: sound_resource_def validate_normalize)
    show "length (ss_resources x) < unat (max_persistence_records ?lim)"
      using True lim arg_cong [OF x(2), of length] by (simp add: persistable_def word_le_nat_alt)
  qed
  note adopted = sound_adopt [OF detail st]
  from add [OF st] add [OF adopted length_resources_adopt] adopted st show ?thesis
    by (auto simp: register_resource_def Let_def)
qed (auto simp: register_resource_def Let_def st)

lemma sound_publish_live:
  assumes "sound (cfg_limits cfg) st" and "status_ok (validate_advertisement (cfg_limits cfg) a)"
  shows "sound (cfg_limits cfg) (snd (publish_live cfg a st))"
proof -
  have "sound (cfg_limits cfg) (st\<lparr>ss_resources :=
      om_modify (adv_id a) (\<lambda>_. published_record ep a r) (ss_resources st)\<rparr>)" for ep r
    using assms by (auto simp: sound_def sound_resource_def intro!: table_ok_modify)
  with assms(1) show ?thesis by (simp add: publish_live_def Let_def split: option.split)
qed

lemma sound_publish:
  assumes lim: "persistable (cfg_limits (eng_config e))" and st: "sound (cfg_limits (eng_config e)) (eng_state e)"
  shows "sound (cfg_limits (eng_config e)) (eng_state (snd (publish_resource_state a e)))"
proof (cases "status_ok (validate_advertisement (cfg_limits (eng_config e)) a)")
  case True
  then have v: "status_ok (validate_advertisement (cfg_limits (eng_config e)) (normalize_advertisement a))"
    by (simp add: validate_normalize)
  have detail: "16 \<le> max_string_length (cfg_limits (eng_config e))" using lim by (simp add: persistable_def)
  from sound_publish_live [OF st v] sound_publish_live [OF sound_adopt [OF detail st] v] st show ?thesis
    by (auto simp: publish_resource_state_def Let_def case_prod_beta split: option.split)
qed (simp add: publish_resource_state_def Let_def st)

lemma sound_retire:
  "sound lim (eng_state e) \<Longrightarrow> sound lim (eng_state (snd (retire_resource i g e)))"
proof -
  assume "sound lim (eng_state e)"
  moreover from this have "sound lim ((eng_state e)\<lparr>ss_resources :=
      om_modify i retire_record (ss_resources (eng_state e))\<rparr>)"
    by (auto simp: sound_def sound_resource_def retire_record_def intro!: table_ok_modify)
  ultimately show ?thesis by (simp add: retire_resource_def Let_def split: option.split)
qed

lemma sound_progress:
  "sound lim (eng_state e) \<Longrightarrow> sound lim (eng_state (snd (progress_placement rej t d kind pid g epoch b e)))"
proof -
  assume s: "sound lim (eng_state e)"
  have "sound lim ((eng_state e)\<lparr>ss_transition_sequence := n,
      ss_placements := om_modify pid (progress_record t d n) (ss_placements (eng_state e))\<rparr>)" for n
    by (rule sound_modify_placement [OF s]) (simp add: sound_placement_def progress_record_def)
  with s show ?thesis by (simp add: progress_placement_def Let_def split: option.split)
qed

lemma sound_complete: "sound lim st \<Longrightarrow> sound lim (complete_placement c st)"
proof -
  assume "sound lim st"
  then have "sound lim (st\<lparr>ss_placements := om_modify (cc_placement c) (record_completion (cc_detail c)) (ss_placements st)\<rparr>)"
    by (auto simp: sound_def sound_placement_def record_completion_def intro!: table_ok_modify)
  then show ?thesis by (simp add: complete_placement_def sound_terminate)
qed

lemma sound_completion:
  "sound lim (eng_state e) \<Longrightarrow> sound lim (eng_state (snd (report_completion c e)))"
  using sound_complete by (simp add: report_completion_def Let_def split: option.split)

lemma sound_cancel_placement:
  "sound lim (eng_state e) \<Longrightarrow> sound lim (eng_state (snd (cancel_placement pid g epoch reason e)))"
  using sound_terminate by (simp add: cancel_placement_def Let_def split: option.split)

lemma sound_cancel_request:
  "sound lim (eng_state e) \<Longrightarrow> sound lim (eng_state (snd (cancel_request rid reason e)))"
proof -
  assume s: "sound lim (eng_state e)"
  have step: "sound lim (fst (cancel_request_step rid reason pid x))" if "sound lim (fst x)" for pid x
    using that sound_terminate by (cases x) (auto simp: cancel_request_step_def split: option.split)
  have "sound lim (fst (fold (cancel_request_step rid reason) pids (eng_state e, rep)))" for pids rep
    by (rule sound_fold) (use s step in simp_all)
  from sound_modify_request [OF this, where f = "cancel_stored d" for d] s show ?thesis
    by (simp add: cancel_request_def Let_def case_prod_beta cancel_stored_def)
qed

lemma sound_epoch: "sound lim (eng_state e) \<Longrightarrow> sound lim (eng_state (snd (adopt_epoch epoch e)))"
  by (auto simp: adopt_epoch_def Let_def sound_def)

lemma sound_shutdown: "sound lim (eng_state e) \<Longrightarrow> sound lim (eng_state (snd (begin_shutdown e)))"
  by (simp add: begin_shutdown_def Let_def sound_def)

lemma sound_worker_connected:
  "16 \<le> max_string_length lim \<Longrightarrow> sound lim (eng_state e) \<Longrightarrow>
     sound lim (eng_state (snd (worker_connected w b e)))"
  using sound_adopt by (simp add: worker_connected_def Let_def case_prod_beta)

lemma sound_worker_lost:
  "16 \<le> max_string_length lim \<Longrightarrow> sound lim (eng_state e) \<Longrightarrow>
     sound lim (eng_state (snd (mark_worker_lost w b d e)))"
  using sound_invalidate by (simp add: mark_worker_lost_def Let_def case_prod_beta split: option.split)

section \<open>Import\<close>

lemma durable_placements_sound:
  "status_ok (durable_placements rids qids seen ps) \<Longrightarrow> p \<in> set ps \<Longrightarrow> sound_placement p"
  by (induction rids qids seen ps rule: durable_placements.induct)
    (auto simp: durable_placement_ok sound_placement_def)

lemma durable_reservations_sound:
  "status_ok (fst (durable_reservations caps pids seen vs totals)) \<Longrightarrow> v \<in> set vs \<Longrightarrow> sound_reservation v"
proof (induction vs arbitrary: seen totals)
  case (Cons u vs)
  obtain s2 t1 where c: "durable_claims caps (rv_state u = RV_Active) (rv_claims u) totals = (s2, t1)"
    by fastforce
  from Cons.prems(1) c have 1: "status_ok (durable_reservation pids seen u)"
    "status_ok (fst (durable_reservations caps pids (rv_id u # seen) vs t1))"
    by (auto simp: Let_def split: if_splits)
  then have "sound_reservation u"
    by (auto simp: durable_reservation_def sound_reservation_def id_validate_def split: if_splits)
  with Cons.IH [OF 1(2)] Cons.prems(2) show ?case by auto
qed simp

lemma validated_parts:
  assumes "status_ok (validate_durable_state d)"
  shows "status_ok (durable_bounds d)" and "status_ok (durable_resources (du_limits d) [] (du_resources d))"
    and "status_ok (durable_requests (du_limits d) [] (du_requests d))"
    and "status_ok (durable_placements (map res_id (du_resources d)) (map (sr_id \<circ> st_request) (du_requests d)) []
      (du_placements d))"
    and "status_ok (fst (durable_reservations (durable_capacities (du_resources d)) (map pl_id (du_placements d)) []
      (du_reservations d) []))"
  using assms by (auto simp: validate_durable_state_def Let_def split: prod.splits if_splits)

lemma sound_resource_valid: "status_ok (validate_resource_record lim r) \<Longrightarrow> sound_resource lim r"
  by (simp add: validate_resource_record_def sound_resource_def)

lemma advertisement_recover [simp]: "advertisement_of_record (recover_record ep r) = advertisement_of_record r"
  by (simp add: recover_record_def Let_def)

lemma sound_recover [simp]: "sound_reservation (recover_reservation v) = sound_reservation v"
  by (simp add: sound_reservation_def recover_reservation_def)

lemma sound_import:
  assumes "import_state d e = (Inr rep, e')" and lim: "du_limits d = cfg_limits (eng_config e)"
  shows "sound (cfg_limits (eng_config e)) (eng_state e')"
proof -
  let ?lim = "cfg_limits (eng_config e)"
  let ?n = "unat (max_persistence_records ?lim)"
  note ok = import_state_success [OF assms(1)]
  note v = validated_parts [OF ok(1)]
  have "scheduler_empty (fst (import_acc d e))" using ok(2) by (simp add: import_acc_def scheduler_empty_def)
  note t = imported_tables [OF this, of d]
  have size: "length (du_resources d) \<le> ?n" "length (du_requests d) \<le> ?n" "length (du_placements d) \<le> ?n"
    "length (du_reservations d) \<le> ?n"
    using v(1) by (auto simp: durable_bounds_def Let_def lim)
  let ?st = "fst (import_records d (import_acc d e))"
  have "table_ok (sound_resource ?lim) ?n (ss_resources ?st)"
    unfolding table_ok_def
  proof (intro conjI allI impI)
    show "om_wf (ss_resources ?st)" by (rule t(1))
    show "length (ss_resources ?st) \<le> ?n"
      using length_le_keys [OF t(1), of res_id "du_resources d"] t(9) size(1) by (meson order_trans)
    show "sound_resource ?lim r" if "map_of (ss_resources ?st) k = Some r" for k r
      using t(5) [OF that] durable_resources_ok [OF v(2)] sound_resource_valid [of ?lim]
      by (auto simp: sound_resource_def lim)
  qed
  moreover have "table_ok (sound_request ?lim) ?n (ss_requests ?st)"
    unfolding table_ok_def
  proof (intro conjI allI impI)
    show "om_wf (ss_requests ?st)" by (rule t(2))
    show "length (ss_requests ?st) \<le> ?n"
      using length_le_keys [OF t(2), of "sr_id \<circ> st_request" "du_requests d"] t(10) size(2) by (meson order_trans)
    show "sound_request ?lim s" if "map_of (ss_requests ?st) k = Some s" for k s
      using t(6) [OF that] durable_requests_ok [OF v(3)] by (auto simp: sound_request_def lim)
  qed
  moreover have "table_ok sound_placement ?n (ss_placements ?st)"
    unfolding table_ok_def
  proof (intro conjI allI impI)
    show "om_wf (ss_placements ?st)" by (rule t(3))
    show "length (ss_placements ?st) \<le> ?n"
      using length_le_keys [OF t(3), of pl_id "du_placements d"] t(11) size(3) by (meson order_trans)
    show "sound_placement p" if "map_of (ss_placements ?st) k = Some p" for k p
      using t(7) [OF that] durable_placements_sound [OF v(4)]
      by (auto simp: sound_placement_def restored_from_def)
  qed
  moreover have "table_ok sound_reservation ?n (ss_reservations ?st)"
    unfolding table_ok_def
  proof (intro conjI allI impI)
    show "om_wf (ss_reservations ?st)" by (rule t(4))
    show "length (ss_reservations ?st) \<le> ?n"
    proof -
      have "k \<in> rv_id ` set (du_reservations d)" if "map_of (ss_reservations ?st) k \<noteq> None" for k
        using that t(8) [of k] by auto
      from length_le_keys [OF t(4) this] size(4) show ?thesis by simp
    qed
    show "sound_reservation x" if "map_of (ss_reservations ?st) k = Some x" for k x
      using t(8) [OF that] durable_reservations_sound [OF v(5)] by auto
  qed
  ultimately have "sound ?lim ?st" by (simp add: sound_def)
  with ok(5) show ?thesis by auto
qed

section \<open>Every step\<close>

text \<open>
  A step that starts before any resource generation has wrapped around to zero and, if it is an
  import, loads an image with the limits of the engine.
\<close>

definition lasting_step :: "engine \<Rightarrow> engine \<Rightarrow> bool" where
  "lasting_step e e' \<longleftrightarrow> engine_step e e' \<and> generations_fresh (eng_state e) \<and>
     (\<forall>d rep. import_state d e = (Inr rep, e') \<longrightarrow> du_limits d = cfg_limits (eng_config e))"

definition exportable :: "engine \<Rightarrow> bool" where
  "exportable e \<longleftrightarrow> engine_inv e \<and> persistable (cfg_limits (eng_config e)) \<and>
     sound (cfg_limits (eng_config e)) (eng_state e)"

lemma config_reassign_recorded: "eng_config (snd (reassign_recorded p report st e)) = eng_config e"
proof (cases "map_of (ss_requests st) (pl_request p)")
  case (Some stored)
  obtain r st2 ids' where "reschedule (eng_config e) p stored st (eng_ids e) = (r, st2, ids')"
    by (cases "reschedule (eng_config e) p stored st (eng_ids e)") auto
  with Some show ?thesis by (simp add: reassign_recorded_def Let_def split: sum.split)
qed (simp add: reassign_recorded_def)

lemma config_preempt_terminated: "eng_config (snd (preempt_terminated p reason report st e)) = eng_config e"
proof (cases "map_of (ss_requests st) (pl_request p)")
  case (Some stored)
  let ?st1 = "st\<lparr>ss_requests := om_modify (pl_request p) (\<lambda>s. s\<lparr>st_state := RQ_Submitted\<rparr>) (ss_requests st)\<rparr>"
  obtain r st2 ids' where "reschedule (eng_config e) p stored ?st1 (eng_ids e) = (r, st2, ids')"
    by (cases "reschedule (eng_config e) p stored ?st1 (eng_ids e)") auto
  with Some show ?thesis by (simp add: preempt_terminated_def Let_def split: sum.split)
qed (simp add: preempt_terminated_def)

lemma engine_step_config: "engine_step e e' \<Longrightarrow> eng_config e' = eng_config e"
proof (erule engine_step_cases)
  show "e' = snd (submit_request req e) \<Longrightarrow> eng_config e' = eng_config e" for req
    by (simp add: submit_request_def Let_def case_prod_beta)
  show "e' = snd (reassign_placement pid g epoch reason e) \<Longrightarrow> eng_config e' = eng_config e" for pid g epoch reason
    by (simp add: reassign_placement_def Let_def config_reassign_recorded split: option.split)
  show "e' = snd (preempt_placement pid g epoch reason e) \<Longrightarrow> eng_config e' = eng_config e" for pid g epoch reason
    by (simp add: preempt_placement_def Let_def config_preempt_terminated split: option.split)
  show "e' = snd (import_state d e) \<Longrightarrow> eng_config e' = eng_config e" for d
    by (simp add: import_state_def Let_def case_prod_beta)
qed (use engine_keeps in \<open>auto simp: keeps_inv_def worker_disconnected_def\<close>)

lemma sound_step:
  assumes "lasting_step e e'" and "exportable e"
  shows "sound (cfg_limits (eng_config e)) (eng_state e')"
proof -
  have inv: "engine_inv e" and lim: "persistable (cfg_limits (eng_config e))"
    and s: "sound (cfg_limits (eng_config e)) (eng_state e)" using assms(2) by (simp_all add: exportable_def)
  have detail: "16 \<le> max_string_length (cfg_limits (eng_config e))" using lim by (simp add: persistable_def)
  have gens: "generations_fresh (eng_state e)" and step: "engine_step e e'"
    and loaded: "\<And>d rep. import_state d e = (Inr rep, e') \<Longrightarrow> du_limits d = cfg_limits (eng_config e)"
    using assms(1) by (simp_all add: lasting_step_def)
  from step show ?thesis
  proof (rule engine_step_cases)
    fix d
    assume e': "e' = snd (import_state d e)"
    show ?thesis
    proof (cases "import_state d e")
      case (Pair r e1)
      then show ?thesis
        using import_state_failure [of d e] sound_import [of d e] loaded [of d] s e' by (cases r) auto
    qed
  qed (use inv lim s detail gens in \<open>simp_all add: sound_epoch sound_shutdown sound_worker_connected sound_worker_lost
      worker_disconnected_def sound_register sound_publish sound_retire sound_submit mark_assigned_def mark_running_def
      sound_progress sound_completion sound_cancel_placement sound_cancel_request sound_reassign sound_preempt\<close>)
qed

end
