(* ===== verification/RestartLaws.thy ===== *)
theory RestartLaws
  imports ExportInv RecoveryLaws EngineLaws
begin

text \<open>
  A restart is always possible: what an engine exports passes the validation of the image, so that
  the next coordinator can import it.
\<close>

section \<open>Records\<close>

lemma record_valid:
  assumes "sound_resource lim r" and "resource_ok r"
  shows "status_ok (validate_resource_record lim r)"
proof -
  have le: "unat (res_advertised_occupancy r) + unat (res_reserved_slots r) \<le> unat (rcap_slots (res_capacity r))"
    using assms(2) by (simp add: resource_ok_def)
  from unat_add_capped [OF le] le
  have "res_advertised_occupancy r + res_reserved_slots r \<le> rcap_slots (res_capacity r)"
    by (simp add: word_le_nat_alt)
  with assms show ?thesis
    unfolding validate_record_simps
    by (simp add: sound_resource_def total_occupancy_def resource_ok_def)
qed

lemma keyed_values: "keyed f m \<Longrightarrow> map f (om_values m) = map fst m"
  by (auto simp: keyed_def om_values_def map_of_value intro!: map_cong)

lemma distinct_values: "keyed f m \<Longrightarrow> distinct (map f (om_values m))"
  by (simp add: keyed_values keyed_wf om_wf_distinct)

lemma id_of_advertisement: "sound_resource lim r \<Longrightarrow> res_id r \<noteq> 0"
  by (auto simp: sound_resource_def validate_advertisement_def advertisement_of_record_def id_validate_def
      split: if_splits)

lemma id_of_request: "sound_request lim s \<Longrightarrow> sr_id (st_request s) \<noteq> 0"
  by (auto simp: sound_request_def validate_schedule_request_def id_validate_def split: if_splits)

lemma durable_resources_valid:
  "distinct (map res_id rs) \<Longrightarrow> set (map res_id rs) \<inter> set seen = {} \<Longrightarrow>
   \<forall>r\<in>set rs. res_id r \<noteq> 0 \<and> status_ok (validate_resource_record lim r) \<Longrightarrow>
     status_ok (durable_resources lim seen rs)"
  by (induction lim seen rs rule: durable_resources.induct) auto

lemma durable_requests_valid:
  "distinct (map (sr_id \<circ> st_request) ss) \<Longrightarrow> set (map (sr_id \<circ> st_request) ss) \<inter> set seen = {} \<Longrightarrow>
   \<forall>s\<in>set ss. sr_id (st_request s) \<noteq> 0 \<and> status_ok (validate_schedule_request lim (st_request s)) \<Longrightarrow>
     status_ok (durable_requests lim seen ss)"
  by (induction lim seen ss rule: durable_requests.induct) auto

lemma durable_placements_valid:
  "distinct (map pl_id ps) \<Longrightarrow> set (map pl_id ps) \<inter> set seen = {} \<Longrightarrow>
   \<forall>p\<in>set ps. sound_placement p \<and> pl_request p \<in> set qids \<and> pl_resources p \<noteq> [] \<and>
     (\<forall>s\<in>set (pl_resources p). sel_resource s \<in> set rids) \<Longrightarrow>
     status_ok (durable_placements rids qids seen ps)"
  by (induction rids qids seen ps rule: durable_placements.induct)
    (auto simp: durable_placement_ok sound_placement_def)

section \<open>The running totals of the claims\<close>

lemma claimed_total_add:
  assumes "om_wf totals" and "unat (claimed_total totals (cl_resource c)) + unat (cl_slots c) < 2 ^ 64"
  shows "unat (claimed_total (add_claim c totals) k) =
    unat (claimed_total totals k) + (if cl_resource c = k then unat (cl_slots c) else 0)"
proof -
  have "unat (claimed_total totals (cl_resource c) + ucast (cl_slots c)) =
      unat (claimed_total totals (cl_resource c)) + unat (cl_slots c)"
    using assms(2) by (subst unat_add_no_wrap) (simp_all add: unat_u64)
  with assms(1) show ?thesis by (auto simp: add_claim_def claimed_total_def map_of_om_set)
qed

lemma durable_claims_run:
  assumes "om_wf totals" and "\<forall>c\<in>set cs. map_of caps (cl_resource c) \<noteq> None \<and> cl_slots c \<noteq> 0"
    and "\<And>k cap. map_of caps k = Some cap \<Longrightarrow> B k \<le> unat cap"
    and "active \<Longrightarrow> \<forall>k. unat (claimed_total totals k) + claims_on k cs \<le> B k"
  obtains totals' where "durable_claims caps active cs totals = (ok_status, totals')" and "om_wf totals'"
    and "\<And>k. unat (claimed_total totals' k) =
      unat (claimed_total totals k) + (if active then claims_on k cs else 0)"
  using assms
proof (induction cs arbitrary: totals thesis)
  case Nil
  then show ?case by simp
next
  case (Cons c cs)
  from Cons.prems(3) obtain cap where cap: "map_of caps (cl_resource c) = Some cap" "cl_slots c \<noteq> 0" by auto
  show ?case
  proof (cases active)
    case False
    obtain totals' where "durable_claims caps active cs totals = (ok_status, totals')" "om_wf totals'"
      "\<And>k. unat (claimed_total totals' k) = unat (claimed_total totals k) + (if active then claims_on k cs else 0)"
      by (rule Cons.IH [of totals]) (use Cons.prems False in auto)
    with Cons.prems(1) cap False show ?thesis by simp
  next
    case True
    have le: "unat (claimed_total totals (cl_resource c)) + unat (cl_slots c) + claims_on (cl_resource c) cs \<le> unat cap"
      using Cons.prems(5) [OF True] Cons.prems(4) [OF cap(1)] by (fastforce dest: spec [of _ "cl_resource c"])
    have "unat cap < 2 ^ 32" using unsigned_less [of cap, where ?'a = nat] by simp
    with le have "unat (claimed_total totals (cl_resource c)) + unat (cl_slots c) < 2 ^ 64" by simp
    note add = claimed_total_add [OF Cons.prems(2) this]
    have wf: "om_wf (add_claim c totals)" using Cons.prems(2) by (simp add: add_claim_def om_wf_set)
    have fits: "\<not> (ucast cap :: u64) < claimed_total (add_claim c totals) (cl_resource c)"
      using le add [of "cl_resource c"] by (simp add: word_less_nat_alt unat_u64)
    obtain totals' where rest: "durable_claims caps active cs (add_claim c totals) = (ok_status, totals')" "om_wf totals'"
      "\<And>k. unat (claimed_total totals' k) =
        unat (claimed_total (add_claim c totals) k) + (if active then claims_on k cs else 0)"
      by (rule Cons.IH [of "add_claim c totals"]) (use Cons.prems True wf add in \<open>auto simp: add.assoc\<close>)
    show ?thesis
      by (rule Cons.prems(1) [OF _ rest(2)]) (use rest cap True fits add in \<open>simp_all add: Let_def\<close>)
  qed
qed

lemma durable_reservations_run:
  assumes "om_wf totals" and "distinct (map rv_id vs)" and "set (map rv_id vs) \<inter> set seen = {}"
    and "\<forall>v\<in>set vs. sound_reservation v \<and> rv_claims v \<noteq> [] \<and> rv_placement v \<in> set pids \<and>
      (\<forall>c\<in>set (rv_claims v). map_of caps (cl_resource c) \<noteq> None \<and> cl_slots c \<noteq> 0)"
    and "\<And>k cap. map_of caps k = Some cap \<Longrightarrow> B k \<le> unat cap"
    and "\<forall>k. unat (claimed_total totals k) + sum_list (map (reservation_claims k) vs) \<le> B k"
  obtains totals' where "durable_reservations caps pids seen vs totals = (ok_status, totals')"
    and "\<And>k. unat (claimed_total totals' k) = unat (claimed_total totals k) + sum_list (map (reservation_claims k) vs)"
  using assms
proof (induction vs arbitrary: totals seen thesis)
  case Nil
  then show ?case by simp
next
  case (Cons v vs)
  have head: "status_ok (durable_reservation pids seen v)"
    using Cons.prems(4,5) by (simp add: durable_reservation_def sound_reservation_def id_validate_def)
  obtain t where t: "durable_claims caps (rv_state v = RV_Active) (rv_claims v) totals = (ok_status, t)" "om_wf t"
    "\<And>k. unat (claimed_total t k) =
      unat (claimed_total totals k) + (if rv_state v = RV_Active then claims_on k (rv_claims v) else 0)"
  proof (rule durable_claims_run [OF Cons.prems(2), of "rv_claims v" caps B "rv_state v = RV_Active"])
    show "\<forall>c\<in>set (rv_claims v). map_of caps (cl_resource c) \<noteq> None \<and> cl_slots c \<noteq> 0" using Cons.prems(5) by simp
    show "B k \<le> unat cap" if "map_of caps k = Some cap" for k cap by (rule Cons.prems(6) [OF that])
    show "\<forall>k. unat (claimed_total totals k) + claims_on k (rv_claims v) \<le> B k" if "rv_state v = RV_Active"
    proof
      fix k
      from Cons.prems(7) have "unat (claimed_total totals k) + sum_list (map (reservation_claims k) (v # vs)) \<le> B k" ..
      with that show "unat (claimed_total totals k) + claims_on k (rv_claims v) \<le> B k"
        by (simp add: reservation_claims_def)
    qed
  qed (rule that)
  then have sum: "unat (claimed_total t k) = unat (claimed_total totals k) + reservation_claims k v" for k
    by (simp add: reservation_claims_def)
  obtain totals' where rest: "durable_reservations caps pids (rv_id v # seen) vs t = (ok_status, totals')"
    "\<And>k. unat (claimed_total totals' k) = unat (claimed_total t k) + sum_list (map (reservation_claims k) vs)"
    by (rule Cons.IH [OF _ t(2), of "rv_id v # seen"]) (use Cons.prems sum in \<open>auto simp: add.assoc\<close>)
  show ?case
    by (rule Cons.prems(1)) (use rest head t(1) sum in \<open>simp_all add: Let_def add.assoc\<close>)
qed

section \<open>The whole image\<close>

lemma durable_capacities_values:
  assumes "keyed res_id rs"
  shows "map_of (durable_capacities (om_values rs)) k = map_option (\<lambda>r. rcap_slots (res_capacity r)) (map_of rs k)"
proof -
  have "map (\<lambda>r. (res_id r, rcap_slots (res_capacity r))) (om_values rs) =
      map (\<lambda>(k, r). (k, rcap_slots (res_capacity r))) rs"
    using assms by (auto simp: keyed_def om_values_def map_of_value)
  moreover have "map_of (map (\<lambda>(k, r). (k, rcap_slots (res_capacity r))) rs) k =
      map_option (\<lambda>r. rcap_slots (res_capacity r)) (map_of rs k)"
    by (induction rs) auto
  moreover have "durable_capacities (om_values rs) =
      fold (\<lambda>r. om_emplace (res_id r) (rcap_slots (res_capacity r))) (om_values rs) []"
    by (simp add: durable_capacities_def)
  ultimately show ?thesis by (simp add: fold_emplace(2))
qed

lemma in_om_values: "keyed f m \<Longrightarrow> v \<in> set (om_values m) \<Longrightarrow> map_of m (f v) = Some v"
  by (auto simp: keyed_def om_values_def map_of_value)

lemma in_keys: "keyed f m \<Longrightarrow> map_of m k \<noteq> None \<Longrightarrow> k \<in> set (map f (om_values m))"
  by (auto simp: keyed_values map_of_eq_None_iff)

lemma export_parts:
  "du_format_version (export_state e) = kPersistenceFormatVersion" "du_epoch (export_state e) = ss_epoch (eng_state e)"
  "du_limits (export_state e) = cfg_limits (eng_config e)"
  "du_resources (export_state e) = om_values (ss_resources (eng_state e))"
  "du_requests (export_state e) = om_values (ss_requests (eng_state e))"
  "du_placements (export_state e) = om_values (ss_placements (eng_state e))"
  "du_reservations (export_state e) = om_values (ss_reservations (eng_state e))"
  by (simp_all add: export_state_def Let_def)

lemma exportable_parts:
  assumes "exportable e"
  shows "sound (cfg_limits (eng_config e)) (eng_state e)"
    and "resources_inv (ss_resources (eng_state e)) (ss_reservations (eng_state e))"
    and "requests_inv (ss_requests (eng_state e))"
    and "reservations_inv (ss_resources (eng_state e)) (ss_placements (eng_state e)) (ss_reservations (eng_state e))"
    and "placements_inv (ss_resources (eng_state e)) (ss_requests (eng_state e)) (ss_reservations (eng_state e))
      (ss_placements (eng_state e))"
  using assms by (simp_all add: exportable_def engine_inv_def state_inv_def)

lemma exportable_keyed:
  assumes "exportable e"
  shows "keyed res_id (ss_resources (eng_state e))" and "keyed (sr_id \<circ> st_request) (ss_requests (eng_state e))"
    and "keyed pl_id (ss_placements (eng_state e))" and "keyed rv_id (ss_reservations (eng_state e))"
  using exportable_parts(2-) [OF assms]
  by (simp_all add: resources_inv_def requests_inv_def placements_inv_def reservations_inv_def comp_def)

text \<open>An exported record is the entry of its identity, and sound.\<close>

lemma exported_record:
  assumes "exportable e"
  shows "r \<in> set (du_resources (export_state e)) \<Longrightarrow>
      map_of (ss_resources (eng_state e)) (res_id r) = Some r \<and> sound_resource (cfg_limits (eng_config e)) r"
    and "q \<in> set (du_requests (export_state e)) \<Longrightarrow> sound_request (cfg_limits (eng_config e)) q"
    and "p \<in> set (du_placements (export_state e)) \<Longrightarrow>
      map_of (ss_placements (eng_state e)) (pl_id p) = Some p \<and> sound_placement p"
    and "v \<in> set (du_reservations (export_state e)) \<Longrightarrow>
      map_of (ss_reservations (eng_state e)) (rv_id v) = Some v \<and> sound_reservation v"
proof -
  note found = in_om_values [OF exportable_keyed(1) [OF assms]] in_om_values [OF exportable_keyed(2) [OF assms]]
    in_om_values [OF exportable_keyed(3) [OF assms]] in_om_values [OF exportable_keyed(4) [OF assms]]
  have tables: "table_ok (sound_resource (cfg_limits (eng_config e))) (unat (max_persistence_records (cfg_limits (eng_config e))))
      (ss_resources (eng_state e))"
    "table_ok (sound_request (cfg_limits (eng_config e))) (unat (max_persistence_records (cfg_limits (eng_config e))))
      (ss_requests (eng_state e))"
    "table_ok sound_placement (unat (max_persistence_records (cfg_limits (eng_config e)))) (ss_placements (eng_state e))"
    "table_ok sound_reservation (unat (max_persistence_records (cfg_limits (eng_config e)))) (ss_reservations (eng_state e))"
    using exportable_parts(1) [OF assms] by (simp_all add: sound_def)
  show "r \<in> set (du_resources (export_state e)) \<Longrightarrow>
      map_of (ss_resources (eng_state e)) (res_id r) = Some r \<and> sound_resource (cfg_limits (eng_config e)) r"
    using found(1) [of r] table_ok_value [OF tables(1)] by (auto simp: export_parts)
  show "q \<in> set (du_requests (export_state e)) \<Longrightarrow> sound_request (cfg_limits (eng_config e)) q"
    using found(2) [of q] table_ok_value [OF tables(2)] by (auto simp: export_parts)
  show "p \<in> set (du_placements (export_state e)) \<Longrightarrow>
      map_of (ss_placements (eng_state e)) (pl_id p) = Some p \<and> sound_placement p"
    using found(3) [of p] table_ok_value [OF tables(3)] by (auto simp: export_parts)
  show "v \<in> set (du_reservations (export_state e)) \<Longrightarrow>
      map_of (ss_reservations (eng_state e)) (rv_id v) = Some v \<and> sound_reservation v"
    using found(4) [of v] table_ok_value [OF tables(4)] by (auto simp: export_parts)
qed

lemma exported_ids:
  assumes "exportable e"
  shows "distinct (map res_id (du_resources (export_state e)))"
    and "distinct (map (sr_id \<circ> st_request) (du_requests (export_state e)))"
    and "distinct (map pl_id (du_placements (export_state e)))"
    and "distinct (map rv_id (du_reservations (export_state e)))"
  unfolding export_parts using exportable_keyed [OF assms] by (blast intro: distinct_values)+

lemma export_bounds:
  assumes "exportable e"
  shows "status_ok (durable_bounds (export_state e))"
  using exportable_parts(1) [OF assms]
  by (simp add: durable_bounds_def Let_def export_parts om_values_def sound_def table_ok_def)

lemma export_resources:
  assumes "exportable e"
  shows "status_ok (durable_resources (cfg_limits (eng_config e)) [] (du_resources (export_state e)))"
proof (rule durable_resources_valid [OF exported_ids(1) [OF assms]])
  show "\<forall>r\<in>set (du_resources (export_state e)).
      res_id r \<noteq> 0 \<and> status_ok (validate_resource_record (cfg_limits (eng_config e)) r)"
  proof
    fix r
    assume "r \<in> set (du_resources (export_state e))"
    from exported_record(1) [OF assms this]
    have r: "map_of (ss_resources (eng_state e)) (res_id r) = Some r" "sound_resource (cfg_limits (eng_config e)) r"
      by simp_all
    from r(1) exportable_parts(2) [OF assms] have "resource_ok r" by (simp add: resources_inv_def)
    with r(2) show "res_id r \<noteq> 0 \<and> status_ok (validate_resource_record (cfg_limits (eng_config e)) r)"
      by (simp add: record_valid id_of_advertisement)
  qed
qed simp

lemma export_requests:
  assumes "exportable e"
  shows "status_ok (durable_requests (cfg_limits (eng_config e)) [] (du_requests (export_state e)))"
proof (rule durable_requests_valid [OF exported_ids(2) [OF assms]])
  show "\<forall>q\<in>set (du_requests (export_state e)).
      sr_id (st_request q) \<noteq> 0 \<and> status_ok (validate_schedule_request (cfg_limits (eng_config e)) (st_request q))"
    using exported_record(2) [OF assms] id_of_request by (auto simp: sound_request_def)
qed simp

lemma export_placements:
  assumes "exportable e"
  shows "status_ok (durable_placements (map res_id (du_resources (export_state e)))
    (map (sr_id \<circ> st_request) (du_requests (export_state e))) [] (du_placements (export_state e)))"
proof (rule durable_placements_valid [OF exported_ids(3) [OF assms]])
  let ?d = "export_state e"
  show "\<forall>p\<in>set (du_placements ?d). sound_placement p \<and> pl_request p \<in> set (map (sr_id \<circ> st_request) (du_requests ?d)) \<and>
      pl_resources p \<noteq> [] \<and> (\<forall>s\<in>set (pl_resources p). sel_resource s \<in> set (map res_id (du_resources ?d)))"
  proof
    fix p
    assume "p \<in> set (du_placements ?d)"
    from exported_record(3) [OF assms this]
    have p: "map_of (ss_placements (eng_state e)) (pl_id p) = Some p" "sound_placement p" by simp_all
    from p(1) exportable_parts(5) [OF assms]
    have "placement_ok (ss_resources (eng_state e)) (ss_requests (eng_state e)) p" by (simp add: placements_inv_def)
    with p(2) show "sound_placement p \<and> pl_request p \<in> set (map (sr_id \<circ> st_request) (du_requests ?d)) \<and>
        pl_resources p \<noteq> [] \<and> (\<forall>s\<in>set (pl_resources p). sel_resource s \<in> set (map res_id (du_resources ?d)))"
      using in_keys [OF exportable_keyed(1) [OF assms]] in_keys [OF exportable_keyed(2) [OF assms]]
      unfolding placement_ok_def export_parts by blast
  qed
qed simp

lemma export_capacity:
  assumes "exportable e"
  shows "map_of (durable_capacities (du_resources (export_state e))) k =
    map_option (\<lambda>r. rcap_slots (res_capacity r)) (map_of (ss_resources (eng_state e)) k)"
  unfolding export_parts by (rule durable_capacities_values [OF exportable_keyed(1) [OF assms]])

lemma export_reservation:
  assumes "exportable e" and "v \<in> set (du_reservations (export_state e))"
  shows "sound_reservation v \<and> rv_claims v \<noteq> [] \<and> rv_placement v \<in> set (map pl_id (du_placements (export_state e))) \<and>
    (\<forall>c\<in>set (rv_claims v). map_of (durable_capacities (du_resources (export_state e))) (cl_resource c) \<noteq> None \<and>
       cl_slots c \<noteq> 0)"
proof -
  from exported_record(4) [OF assms]
  have v: "map_of (ss_reservations (eng_state e)) (rv_id v) = Some v" "sound_reservation v" by simp_all
  from v(1) exportable_parts(4) [OF assms(1)]
  have ok: "reservation_ok (ss_resources (eng_state e)) v" "backs (ss_placements (eng_state e)) v"
    by (simp_all add: reservations_inv_def)
  from ok(2) have "rv_placement v \<in> set (map pl_id (du_placements (export_state e)))"
    using in_keys [OF exportable_keyed(3) [OF assms(1)], of "rv_placement v"] by (auto simp: backs_def export_parts)
  with v(2) ok(1) show ?thesis by (simp add: reservation_ok_def export_capacity [OF assms(1)])
qed

lemma export_reservations:
  assumes "exportable e"
  obtains totals where "durable_reservations (durable_capacities (du_resources (export_state e)))
      (map pl_id (du_placements (export_state e))) [] (du_reservations (export_state e)) [] = (ok_status, totals)"
    and "\<And>k. unat (claimed_total totals k) = om_total (reservation_claims k) (ss_reservations (eng_state e))"
proof -
  let ?d = "export_state e" and ?B = "\<lambda>k. om_total (reservation_claims k) (ss_reservations (eng_state e))"
  have total: "sum_list (map (reservation_claims k) (du_reservations ?d)) = ?B k" for k
    by (simp add: export_parts om_total_def om_values_def)
  have empty: "claimed_total [] k = 0" for k by (simp add: claimed_total_def)
  note finish = that
  show thesis
  proof (rule durable_reservations_run [where totals = "[]" and vs = "du_reservations ?d" and seen = "[]"
        and caps = "durable_capacities (du_resources ?d)" and pids = "map pl_id (du_placements ?d)" and B = ?B])
    show "distinct (map rv_id (du_reservations ?d))" by (rule exported_ids(4) [OF assms])
    show "\<forall>k. unat (claimed_total [] k) + sum_list (map (reservation_claims k) (du_reservations ?d)) \<le> ?B k"
      by (simp add: total empty)
    show "?B k \<le> unat cap" if "map_of (durable_capacities (du_resources ?d)) k = Some cap" for k cap
      using that exportable_parts(2) [OF assms] by (fastforce simp: export_capacity [OF assms] resources_inv_def resource_ok_def)
    show thesis if run: "durable_reservations (durable_capacities (du_resources ?d)) (map pl_id (du_placements ?d)) []
        (du_reservations ?d) [] = (ok_status, totals)"
      and sums: "\<And>k. unat (claimed_total totals k) =
        unat (claimed_total [] k) + sum_list (map (reservation_claims k) (du_reservations ?d))" for totals
      by (rule finish [OF run]) (simp add: sums total empty)
  qed (use export_reservation [OF assms] in simp_all)
qed

lemma export_valid:
  assumes "exportable e" and "ss_epoch (eng_state e) \<noteq> 0"
  shows "status_ok (validate_durable_state (export_state e))"
proof -
  obtain totals where run: "durable_reservations (durable_capacities (du_resources (export_state e)))
      (map pl_id (du_placements (export_state e))) [] (du_reservations (export_state e)) [] = (ok_status, totals)"
    and sums: "\<And>k. unat (claimed_total totals k) = om_total (reservation_claims k) (ss_reservations (eng_state e))"
    using export_reservations [OF assms(1)] by blast
  have "status_ok (durable_mirror totals r)" if r: "r \<in> set (du_resources (export_state e))" for r
  proof -
    from exported_record(1) [OF assms(1) r] exportable_parts(2) [OF assms(1)]
    have "unat (res_reserved_slots r) = unat (claimed_total totals (res_id r))" by (simp add: sums resources_inv_def)
    then have "unat (ucast (res_reserved_slots r) :: u64) = unat (claimed_total totals (res_id r))"
      by (simp add: unat_u64)
    then have "ucast (res_reserved_slots r) = claimed_total totals (res_id r)" by (simp only: word_unat_eq_iff)
    then show ?thesis by (simp add: durable_mirror_def)
  qed
  with run export_bounds [OF assms(1)] export_resources [OF assms(1)] export_requests [OF assms(1)]
    export_placements [OF assms(1)] assms(2)
  show ?thesis by (simp add: validate_durable_state_def Let_def export_parts id_validate_def list_all_iff)
qed

section \<open>The life of a coordinator\<close>

definition persistent_initial :: "engine \<Rightarrow> bool" where
  "persistent_initial e \<longleftrightarrow> (\<exists>cfg. config_ok cfg \<and> persistable (cfg_limits cfg) \<and> e = make_engine cfg)"

lemma exportable_make: "config_ok cfg \<Longrightarrow> persistable (cfg_limits cfg) \<Longrightarrow> exportable (make_engine cfg)"
  by (simp add: exportable_def engine_inv_make) (simp add: make_engine_def sound_def table_ok_def empty_state_def)

interpretation lasting: transition_invariant persistent_initial lasting_step exportable
proof
  show "persistent_initial e \<Longrightarrow> exportable e" for e by (auto simp: persistent_initial_def exportable_make)
  show "exportable e'" if "exportable e" and "lasting_step e e'" for e e'
    using that sound_step [OF that(2,1)] engine_step_inv [of e e'] engine_step_config [of e e']
    by (auto simp: exportable_def lasting_step_def)
qed

text \<open>
  C11. An engine can be restarted after a lasting run. Let the limits of the configuration let every
  table fit into an image, and let the engine have executed, since it was made, any sequence of
  operations in which no generation counter of a resource wraps around and every imported image
  carries the limits of the engine (an import under other limits is a defect that is reported). If
  its epoch is not zero, the image it exports passes every check of validate_durable_state -
  identities, bounds, references, capacities and the mirror of the reserved slots - and a fresh
  engine, whatever its own configuration, imports it successfully.
\<close>

theorem lasting_run_restarts:
  assumes "config_ok cfg" and "persistable (cfg_limits cfg)"
    and "lasting_step\<^sup>*\<^sup>* (make_engine cfg) e" and "ss_epoch (eng_state e) \<noteq> 0"
  shows "status_ok (validate_durable_state (export_state e)) \<and>
    (\<exists>rep e'. import_state (export_state e) (make_engine cfg') = (Inr rep, e'))"
proof -
  have "persistent_initial (make_engine cfg)" using assms(1,2) unfolding persistent_initial_def by blast
  from export_valid [OF lasting.inv_reachable [OF this assms(3)] assms(4)] show ?thesis
    by (simp add: import_state_def Let_def case_prod_beta make_engine_def scheduler_empty_def empty_state_def)
qed

lemma lab_registered_epoch: "ss_epoch (eng_state lab_registered) = 1"
  unfolding lab_registered_def by code_simp

lemma lab_registered_step: "lasting_step (make_engine lab_config) lab_registered"
proof -
  have "ss_epoch (eng_state e1) \<noteq> 1" if run: "import_state d (make_engine lab_config) = (Inr rep, e1)" for d rep e1
  proof -
    have "du_epoch d \<noteq> 0"
      using import_state_success(1) [OF run]
      by (cases "du_epoch d = 0") (simp_all add: validate_durable_state_def id_validate_def)
    then show ?thesis by (simp add: imported_state(5) [OF run])
  qed
  then have "import_state d (make_engine lab_config) \<noteq> (Inr rep, lab_registered)" for d rep
    using lab_registered_epoch by metis
  moreover have "generations_fresh (eng_state (make_engine lab_config))"
    by (simp add: generations_fresh_def make_engine_def empty_state_def)
  ultimately show ?thesis unfolding lasting_step_def lab_registered_def using engine_step.step_register by blast
qed

theorem lasting_run_restarts_witness:
  "\<exists>rep e'. import_state (export_state lab_registered) (make_engine lab_config) = (Inr rep, e')"
proof -
  have "persistable (cfg_limits lab_config)" by code_simp
  from lasting_run_restarts [OF lab_config_ok this r_into_rtranclp [of lasting_step, OF lab_registered_step]]
  show ?thesis using lab_registered_epoch by simp
qed

end
