(* ===== verification/OfflineLaws.thy ===== *)
theory OfflineLaws
  imports Cli RestartLaws PersistenceLaws
begin

text \<open>
  The offline validation of the inspection tool: what a coordinator saved is reported as a valid
  state, with exit code zero.
\<close>

lemma validate_note: "validate_durable_state (s\<lparr>du_integrity_note := note\<rparr>) = validate_durable_state s"
  by (cases s) (simp only: validate_durable_state_def durable_bounds_def durable_state.simps)

text \<open>
  C34. The file a coordinator saves passes the offline validation. Let an engine have executed any
  sequence of lasting steps - no resource generation wraps around, imported images carry its limits -
  under limits that let its tables fit into an image, with an epoch that is not zero, and let its
  exported state lie within the bounds of the reader, which C38 shows is not always so. Then the
  program lab-scheduler-cli called with --state, the path of a successful save and validate-state
  loads the file, prints its validation report and returns zero. The path must not itself be one of
  the help flags.
\<close>

theorem offline_validation_accepts:
  assumes "config_ok cfg" and "persistable (cfg_limits cfg)"
    and "lasting_step\<^sup>*\<^sup>* (make_engine cfg) e" and "ss_epoch (eng_state e) \<noteq> 0"
    and saved: "save_durable_state (export_state e) path io fs = (status, fs')" "status_ok status"
    and within: "loadable default_limits (export_state e)"
    and path: "path \<noteq> []" "path \<noteq> ''--help''" "path \<noteq> ''-h''"
  shows "cli_main fs' connected [''--state'', path, ''validate-state''] =
    (c_str (render_durable_state_validation ((export_state e)\<lparr>du_integrity_note := product_banner\<rparr>)), 0)"
proof -
  let ?s = "(export_state e)\<lparr>du_integrity_note := product_banner\<rparr>"
  have "persistent_initial (make_engine cfg)" using assms(1,2) unfolding persistent_initial_def by blast
  from export_valid [OF lasting.inv_reachable [OF this assms(3)] assms(4)]
  have valid: "status_ok (validate_durable_state ?s)" by (simp only: validate_note)
  have "unat (max_persistence_bytes default_limits) + 28 < 2 ^ 64" by (simp add: default_limits_def)
  from saved_loads_iff [OF saved this] within
  have loads: "load_durable_state default_limits path fs' = Inr ?s" by simp
  have "cli_main fs' connected [''--state'', path, ''validate-state''] = cli_validate_state fs' [''validate-state''] path"
    using path by (simp add: cli_main_def has_flag_def Let_def)
  also have "\<dots> = (c_str (render_durable_state_validation ?s), 0)"
    using path(1) loads valid by (simp add: cli_validate_state_def Let_def)
  finally show ?thesis .
qed

lemma lab_file_lists:
  "list_all (ok_resource default_limits) (du_resources (export_state lab_registered))"
  "length (du_resources (export_state lab_registered)) = 1"
  "du_requests (export_state lab_registered) = []" "du_placements (export_state lab_registered) = []"
  "du_reservations (export_state lab_registered) = []"
  unfolding lab_registered_def by code_simp+

lemma lab_file_config: "eng_config lab_registered = lab_config"
  unfolding lab_registered_def using keeps_register_resource [of "make_engine lab_config" "gpu_advertisement 1 3"]
  by (simp add: keeps_inv_def make_engine_def)

lemma lab_file_readable:
  "ok_durable_payload default_limits ((export_state lab_registered)\<lparr>du_integrity_note := product_banner\<rparr>)"
proof -
  have "du_format_version (export_state lab_registered) = kPersistenceFormatVersion"
    "du_limits (export_state lab_registered) = default_limits"
    "du_default_weights (export_state lab_registered) = default_weights"
    by (simp_all add: export_state_def Let_def lab_file_config lab_config_def)
  with lab_file_lists show ?thesis
    by (simp add: ok_durable_payload_def lab_saved_records(1) product_banner_def default_limits_def)
qed

lemma lab_file_small:
  "length (write_durable_payload (export_state lab_registered)) \<le> unat (max_persistence_bytes default_limits)"
proof -
  have "length (write_durable_payload (export_state lab_registered)) \<le> 5000"
    unfolding lab_registered_def by code_simp
  then show ?thesis by (simp add: default_limits_def)
qed

theorem offline_validation_accepts_witness:
  "\<exists>status fs'. save_durable_state (export_state lab_registered) ''state'' calm_io (\<lambda>_. None) = (status, fs') \<and>
     snd (cli_main fs' (\<lambda>_. Inl ok_status) [''--state'', ''state'', ''validate-state'']) = 0"
proof -
  obtain status fs' where run: "save_durable_state (export_state lab_registered) ''state'' calm_io (\<lambda>_. None) = (status, fs')"
    by (meson surj_pair)
  then have ok: "status_ok status"
    by (auto simp: save_durable_state_def encode_container calm_io_def Let_def)
  have lim: "persistable (cfg_limits lab_config)" by code_simp
  have epoch: "ss_epoch (eng_state lab_registered) \<noteq> 0" by (simp add: lab_registered_epoch)
  from offline_validation_accepts [OF lab_config_ok lim r_into_rtranclp [of lasting_step, OF lab_registered_step]
      epoch run ok, of "\<lambda>_. Inl ok_status"] run lab_file_readable lab_file_small
  show ?thesis by (simp add: loadable_def)
qed

end
