(* ===== verification/Network.thy ===== *)
theory Network
  imports Socket "HOL-Library.Multiset"
begin

text \<open>
  \<open>net.cpp\<close>: listeners and connections. The operating system keeps the list of open handles; what it
  answers to a call is data of the model. A handle that is \<open>kInvalidSocketHandle\<close> is \<open>None\<close>.
\<close>

section \<open>Handles\<close>

type_synonym handles = "u64 list"

record listener =
  ln_handle :: "u64 option"
  ln_port :: u16

definition close_native :: "u64 \<Rightarrow> handles \<Rightarrow> handles" where
  "close_native socket open = remove1 socket open"

definition close_socket :: "u64 option \<Rightarrow> handles \<Rightarrow> u64 option \<times> handles" where
  "close_socket handle open =
     (case handle of None \<Rightarrow> (None, open) | Some socket \<Rightarrow> (None, close_native socket open))"

definition listener_close :: "listener \<Rightarrow> handles \<Rightarrow> listener \<times> handles" where
  "listener_close l open =
     (case ln_handle l of None \<Rightarrow> (l, open)
      | Some socket \<Rightarrow> (l\<lparr>ln_handle := None\<rparr>, close_native socket open))"

definition net_error :: "string \<Rightarrow> int \<Rightarrow> status" where
  "net_error call code = Status E_IoFailure (call @ '' failed with error '' @ decimal_i64 code)"

section \<open>Ownership\<close>

text \<open>
  Constructing from a socket that is given away, assigning one socket to another (\<open>same\<close> when both
  are the same object), and the listener likewise: the source of a move holds nothing afterwards.
\<close>

definition move_socket :: "u64 option \<Rightarrow> u64 option \<times> u64 option" where
  "move_socket other = (other, None)"

definition assign_socket ::
  "bool \<Rightarrow> u64 option \<Rightarrow> u64 option \<Rightarrow> handles \<Rightarrow> u64 option \<times> u64 option \<times> handles" where
  "assign_socket same this other open =
     (if same then (this, other, open) else (other, None, snd (close_socket this open)))"

definition move_listener :: "listener \<Rightarrow> listener \<times> listener" where
  "move_listener other = (other, other\<lparr>ln_handle := None, ln_port := 0\<rparr>)"

definition assign_listener ::
  "bool \<Rightarrow> listener \<Rightarrow> listener \<Rightarrow> handles \<Rightarrow> listener \<times> listener \<times> handles" where
  "assign_listener same this other open =
     (if same then (this, other, open)
      else (other, other\<lparr>ln_handle := None, ln_port := 0\<rparr>, snd (listener_close this open)))"

text \<open>The handle whose two directions \<open>shutdown_both\<close> shuts down; it stays open.\<close>

definition shutdown_both :: "u64 option \<Rightarrow> u64 list" where
  "shutdown_both handle = (case handle of None \<Rightarrow> [] | Some socket \<Rightarrow> [socket])"

section \<open>Listening\<close>

text \<open>
  The answers to \<open>socket\<close> (a handle or an error), \<open>setsockopt\<close>, \<open>bind\<close>, \<open>listen\<close> and
  \<open>getsockname\<close>. The source asks for the error of the last three after it has closed the socket,
  so the code it reports is what \<open>last_error\<close> says then: \<open>lo_error\<close>.
\<close>

record listen_os =
  lo_socket :: "int + u64"
  lo_reuse :: bool
  lo_bind :: bool
  lo_listen :: bool
  lo_name :: "u16 option"
  lo_error :: int

definition set_reuse :: "bool \<Rightarrow> status" where
  "set_reuse accepted = (if accepted then ok_status else Status E_IoFailure ''setsockopt(SO_REUSEADDR) failed'')"

definition listen_loopback :: "listen_os \<Rightarrow> listener \<Rightarrow> handles \<Rightarrow> status \<times> listener \<times> handles" where
  "listen_loopback os l open =
     (let (l, open) = listener_close l open in
      case lo_socket os of
        Inl code \<Rightarrow> (net_error ''socket()'' code, l, open)
      | Inr socket \<Rightarrow>
          let opened = socket # open; reuse = set_reuse (lo_reuse os);
              failed = (\<lambda>call. (net_error call (lo_error os), l, close_native socket opened)) in
          if \<not> status_ok reuse then (reuse, l, close_native socket opened)
          else if \<not> lo_bind os then failed ''bind()''
          else if \<not> lo_listen os then failed ''listen()''
          else case lo_name os of
              None \<Rightarrow> failed ''getsockname()''
            | Some port \<Rightarrow> (ok_status, l\<lparr>ln_handle := Some socket, ln_port := port\<rparr>, opened))"

section \<open>Accepting and connecting\<close>

text \<open>The result of \<open>disable_nagle\<close> is ignored by both callers.\<close>

definition disable_nagle :: "bool \<Rightarrow> status" where
  "disable_nagle accepted = (if accepted then ok_status else Status E_IoFailure ''setsockopt(TCP_NODELAY) failed'')"

text \<open>\<open>accepted\<close> is the answer of \<open>accept\<close>; \<open>text\<close> and \<open>port\<close> are the address of the peer.\<close>

definition accept_one ::
  "int + u64 \<Rightarrow> string option \<Rightarrow> u16 \<Rightarrow> listener \<Rightarrow> handles \<Rightarrow> (u64 \<times> string) result \<times> handles" where
  "accept_one accepted text port l open =
     (case ln_handle l of
        None \<Rightarrow> (Inl (Status E_IoFailure ''listener is not bound''), open)
      | Some _ \<Rightarrow>
          (case accepted of
             Inl code \<Rightarrow> (Inl (net_error ''accept()'' code), open)
           | Inr socket \<Rightarrow>
               (Inr (socket, (case text of None \<Rightarrow> ''?'' | Some t \<Rightarrow> t) @ '':'' @ decimal_u64 (ucast port)),
                socket # open)))"

text \<open>The answers to \<open>socket\<close>, \<open>inet_pton\<close> and \<open>connect\<close>.\<close>

record connect_os =
  cn_socket :: "int + u64"
  cn_address :: bool
  cn_connect :: "int option"

definition connect_loopback :: "connect_os \<Rightarrow> string \<Rightarrow> handles \<Rightarrow> u64 result \<times> handles" where
  "connect_loopback os host open =
     (case cn_socket os of
        Inl code \<Rightarrow> (Inl (net_error ''socket()'' code), open)
      | Inr socket \<Rightarrow>
          let opened = socket # open in
          if \<not> cn_address os then
            (Inl (Status E_InvalidArgument (''invalid loopback address: '' @ host)), close_native socket opened)
          else case cn_connect os of
              Some code \<Rightarrow> (Inl (net_error ''connect()'' code), close_native socket opened)
            | None \<Rightarrow> (Inr socket, opened))"

section \<open>No handle is lost\<close>

text \<open>The handles that a listener and a list of sockets hold.\<close>

definition held :: "listener \<Rightarrow> handles \<Rightarrow> handles" where
  "held l sockets = (case ln_handle l of None \<Rightarrow> [] | Some h \<Rightarrow> [h]) @ sockets"

lemma listener_close_held:
  "listener_close l open = (l', open') \<Longrightarrow> mset open = mset (held l sockets) \<Longrightarrow>
     ln_handle l' = None \<and> mset open' = mset sockets"
  by (auto simp: listener_close_def held_def close_native_def split: option.splits)

lemma listen_loopback_held:
  assumes "listen_loopback os l open = (status, l', open')" and "mset open = mset (held l sockets)"
  shows "mset open' = mset (held l' sockets)" and "(ln_handle l' \<noteq> None) = status_ok status"
proof -
  obtain l1 open1 where closed: "listener_close l open = (l1, open1)" by (cases "listener_close l open")
  from listener_close_held [OF closed assms(2)] have "ln_handle l1 = None" "mset open1 = mset sockets" by simp_all
  with assms(1) closed show "mset open' = mset (held l' sockets)" "(ln_handle l' \<noteq> None) = status_ok status"
    by (auto simp: listen_loopback_def held_def close_native_def set_reuse_def net_error_def Let_def status_ok_def
        ok_status_def split: sum.splits if_splits option.splits)
qed

lemma accept_one_held:
  assumes "accept_one accepted text port l open = (answer, open')" and "mset open = mset (held l sockets)"
  shows "mset open' = mset (held l ((case answer of Inl _ \<Rightarrow> [] | Inr (h, _) \<Rightarrow> [h]) @ sockets))"
  using assms by (auto simp: accept_one_def held_def split: option.splits sum.splits)

lemma connect_loopback_held:
  assumes "connect_loopback os host open = (answer, open')" and "mset open = mset sockets"
  shows "mset open' = mset ((case answer of Inl _ \<Rightarrow> [] | Inr h \<Rightarrow> [h]) @ sockets)"
  using assms by (auto simp: connect_loopback_def close_native_def Let_def split: option.splits sum.splits if_splits)

definition socket_handles :: "u64 option \<Rightarrow> handles" where
  "socket_handles handle = (case handle of None \<Rightarrow> [] | Some h \<Rightarrow> [h])"

lemma assign_socket_held:
  assumes "assign_socket same this other open = (this', other', open')"
    and "mset open = mset (socket_handles this @ socket_handles other @ sockets)"
  shows "mset open' = mset (socket_handles this' @ socket_handles other' @ sockets)"
  using assms
  by (auto simp: assign_socket_def close_socket_def close_native_def socket_handles_def split: if_splits option.splits)

lemma assign_listener_held:
  assumes "assign_listener same this other open = (this', other', open')"
    and "mset open = mset (held this (held other sockets))"
  shows "mset open' = mset (held this' (held other' sockets))"
  using assms
  by (auto simp: assign_listener_def listener_close_def close_native_def held_def split: if_splits option.splits)

end
