(* ===== verification/Process.thy ===== *)
theory Process
  imports Canonical Errors
begin

text \<open>
  \<open>process.cpp\<close>, its POSIX branch: a child process with its output pipe. The operating system is data
  of the model: what successive \<open>read\<close> calls on the pipe find, and the answers of the calls that
  start, signal and wait for the child. An implementation pointer that is null is \<open>None\<close>.
\<close>

section \<open>The child and its output\<close>

record child_impl =
  ch_pid :: int
  ch_read_fd :: int
  ch_buffer :: string

record child_process =
  ch_impl :: "child_impl option"
  ch_process_id :: u64

text \<open>
  The pipe is the list of pieces that \<open>read\<close> finds; an empty piece or the end of the list is the end
  of the output or a failure, which the source does not distinguish. A call reads 512 characters at
  most.
\<close>

fun read_pipe :: "string list \<Rightarrow> string \<times> string list" where
  "read_pipe [] = ([], [])"
| "read_pipe (piece # rest) =
     (if length piece \<le> 512 then (piece, if piece = [] then piece # rest else rest)
      else (take 512 piece, drop 512 piece # rest))"

fun pipe_text :: "string list \<Rightarrow> string" where
  "pipe_text [] = []"
| "pipe_text (piece # rest) = (if piece = [] then [] else piece @ pipe_text rest)"

lemma read_pipe_text: "read_pipe pipe = (chunk, rest) \<Longrightarrow>
    pipe_text pipe = chunk @ pipe_text rest \<and> (chunk = [] \<longrightarrow> pipe_text pipe = [])"
  by (induction pipe) (auto split: if_splits)

definition strip_cr :: "string \<Rightarrow> string" where
  "strip_cr line = (if line \<noteq> [] \<and> last line = CHR 0x0D then butlast line else line)"

definition child_not_open :: status where
  "child_not_open = Status E_IoFailure ''child process is not open''"

definition output_ended :: status where
  "output_ended = Status E_IoFailure ''child output stream ended''"

definition is_newline :: "char \<Rightarrow> bool" where
  "is_newline ch \<longleftrightarrow> ch = CHR 0x0A"

function read_line_loop :: "string \<Rightarrow> string list \<Rightarrow> string result \<times> string \<times> string list" where
  "read_line_loop buffer pipe =
     (if \<exists>ch \<in> set buffer. is_newline ch then
        (Inr (strip_cr (takeWhile (\<lambda>ch. \<not> is_newline ch) buffer)),
         drop 1 (dropWhile (\<lambda>ch. \<not> is_newline ch) buffer), pipe)
      else case read_pipe pipe of
          (chunk, rest) \<Rightarrow>
            if chunk = [] then (Inl output_ended, buffer, rest) else read_line_loop (buffer @ chunk) rest)"
  by pat_completeness auto
termination
  by (relation "measure (\<lambda>(buffer, pipe). length (pipe_text pipe))") (auto dest!: read_pipe_text [OF sym])

declare read_line_loop.simps [simp del]

definition read_line :: "child_process \<Rightarrow> string list \<Rightarrow> string result \<times> child_process \<times> string list" where
  "read_line child pipe =
     (case ch_impl child of
        None \<Rightarrow> (Inl child_not_open, child, pipe)
      | Some impl \<Rightarrow>
          let (answer, buffer, rest) = read_line_loop (ch_buffer impl) pipe
          in (answer, child\<lparr>ch_impl := Some (impl\<lparr>ch_buffer := buffer\<rparr>)\<rparr>, rest))"

section \<open>The life of the child\<close>

definition new_child :: child_process where
  "new_child = \<lparr>ch_impl = None, ch_process_id = 0\<rparr>"

text \<open>
  The answers of \<open>pipe\<close> (the end to read) and of \<open>posix_spawn\<close> (its return code and the process it
  started). The argument vector is the program followed by the arguments.
\<close>

record spawn_os =
  sp_pipe :: "int option"
  sp_spawn :: "string list \<Rightarrow> int \<times> int"

definition spawn :: "spawn_os \<Rightarrow> string \<Rightarrow> string list \<Rightarrow> child_process result" where
  "spawn os program arguments =
     (case sp_pipe os of
        None \<Rightarrow> Inl (Status E_IoFailure ''pipe failed'')
      | Some read_fd \<Rightarrow>
          let (rc, pid) = sp_spawn os (program # arguments) in
          if rc \<noteq> 0 then Inl (Status E_IoFailure ''posix_spawn failed'')
          else Inr \<lparr>ch_impl = Some \<lparr>ch_pid = pid, ch_read_fd = read_fd, ch_buffer = []\<rparr>,
                 ch_process_id = word_of_int pid\<rparr>)"

text \<open>\<open>killed\<close> is the return value of \<open>kill\<close> for the signal that can not be handled.\<close>

definition terminate :: "(int \<Rightarrow> int) \<Rightarrow> child_process \<Rightarrow> status" where
  "terminate killed child =
     (case ch_impl child of
        None \<Rightarrow> child_not_open
      | Some impl \<Rightarrow>
          if killed (ch_pid impl) \<noteq> 0 then Status E_IoFailure ''kill failed'' else ok_status)"

definition running :: "(int \<Rightarrow> int) \<Rightarrow> child_process \<Rightarrow> bool" where
  "running waitpid child = (case ch_impl child of None \<Rightarrow> False | Some impl \<Rightarrow> waitpid (ch_pid impl) = 0)"

text \<open>The answer of a blocking \<open>waitpid\<close>: a failure, a normal exit with its code, or another end.\<close>

datatype wait_answer = Wait_Failed | Exited int | Ended_Otherwise

definition wait_child :: "(int \<Rightarrow> wait_answer) \<Rightarrow> child_process \<Rightarrow> int result" where
  "wait_child waitpid child =
     (case ch_impl child of
        None \<Rightarrow> Inl child_not_open
      | Some impl \<Rightarrow>
          (case waitpid (ch_pid impl) of
             Wait_Failed \<Rightarrow> Inl (Status E_IoFailure ''waitpid failed'')
           | Exited code \<Rightarrow> Inr code
           | Ended_Otherwise \<Rightarrow> Inr 1))"

text \<open>\<open>close\<close>: the descriptors that are closed, and the child after it.\<close>

definition close_child :: "child_process \<Rightarrow> int list \<times> child_process" where
  "close_child child =
     (case ch_impl child of
        None \<Rightarrow> ([], child)
      | Some impl \<Rightarrow> (if 0 \<le> ch_read_fd impl then [ch_read_fd impl] else [], new_child))"

text \<open>
  Moves: the source of a move owns no child afterwards; an assignment closes the child the target
  owned, unless both are the same object.
\<close>

definition move_child :: "child_process \<Rightarrow> child_process \<times> child_process" where
  "move_child other = (other, new_child)"

definition assign_child :: "bool \<Rightarrow> child_process \<Rightarrow> child_process \<Rightarrow> int list \<times> child_process \<times> child_process" where
  "assign_child same this other =
     (if same then ([], this, other) else (fst (close_child this), other, new_child))"

section \<open>Lines do not depend on the pieces\<close>

lemma takeWhile_newline:
  "\<exists>ch \<in> set a. is_newline ch \<Longrightarrow>
     takeWhile (\<lambda>ch. \<not> is_newline ch) (a @ b) = takeWhile (\<lambda>ch. \<not> is_newline ch) a \<and>
     dropWhile (\<lambda>ch. \<not> is_newline ch) (a @ b) = dropWhile (\<lambda>ch. \<not> is_newline ch) a @ b"
  by (induction a) auto

lemma read_line_loop_text:
  "read_line_loop buffer pipe = (answer, buffer', pipe') \<Longrightarrow>
   (let text = buffer @ pipe_text pipe in
    if \<exists>ch \<in> set text. is_newline ch then
      answer = Inr (strip_cr (takeWhile (\<lambda>ch. \<not> is_newline ch) text)) \<and>
      buffer' @ pipe_text pipe' = drop 1 (dropWhile (\<lambda>ch. \<not> is_newline ch) text)
    else answer = Inl output_ended \<and> buffer' @ pipe_text pipe' = text)"
proof (induction buffer pipe rule: read_line_loop.induct)
  case (1 buffer pipe)
  show ?case
  proof (cases "\<exists>ch \<in> set buffer. is_newline ch")
    case True
    then obtain y ys where "dropWhile (\<lambda>ch. \<not> is_newline ch) buffer = y # ys"
      by (metis dropWhile_eq_Nil_conv list.exhaust)
    with True 1(2) takeWhile_newline [OF True, of "pipe_text pipe"] show ?thesis
      by (subst (asm) read_line_loop.simps) (auto simp: Let_def)
  next
    case False
    obtain chunk rest where r: "read_pipe pipe = (chunk, rest)" by (cases "read_pipe pipe")
    note content = read_pipe_text [OF r]
    show ?thesis
    proof (cases "chunk = []")
      case True
      with 1(2) False r content show ?thesis
        by (subst (asm) read_line_loop.simps) (auto simp: Let_def)
    next
      case more: False
      with 1(2) False r have "read_line_loop (buffer @ chunk) rest = (answer, buffer', pipe')"
        by (subst (asm) read_line_loop.simps) simp
      from 1(1) [OF False r [symmetric] more this] content show ?thesis by simp
    qed
  qed
qed

end
