(* ===== verification/Concurrency.thy ===== *)
theory Concurrency
  imports AssignmentLaws
begin

text \<open>
  The threads of \<open>CoordinatorServer::run\<close> at the granularity of its locks. The handling of a frame is
  one step, since the engine is behind its mutex; the save that follows an accepted mutation is two
  more: \<open>save_state\<close> exports the engine, and only then takes the mutex of the persistence and
  writes. Between the two, other threads export and write. What holds under every interleaving is
  that the state file is an image of some earlier engine; what does not hold is that it is the last.
\<close>

section \<open>Threads\<close>

text \<open>
  Where the thread of a connection stands: it waits for a frame, its handler reported a mutation and
  the export is due, or it holds an exported state and waits for the mutex. The flag says that the
  connection ends with this save.
\<close>

datatype save_phase = Serving | Exporting bool | Writing durable_state bool

record service =
  rn_coordinator :: coordinator
  rn_phase :: "nat \<Rightarrow> save_phase"

definition wants_save :: "coordinator \<Rightarrow> bool" where
  "wants_save c \<longleftrightarrow> cf_persist_on_mutation (co_config c) \<and> cf_state_path (co_config c) \<noteq> []"

definition begin_save :: "bool \<Rightarrow> bool \<Rightarrow> nat \<Rightarrow> service \<Rightarrow> service" where
  "begin_save due closing pid s =
     (if due \<and> wants_save (rn_coordinator s) then s\<lparr>rn_phase := (rn_phase s)(pid := Exporting closing)\<rparr>
      else if closing then s\<lparr>rn_coordinator := drop_peer pid (rn_coordinator s)\<rparr>
      else s)"

definition run_frame :: "save_io \<Rightarrow> nat \<Rightarrow> frame_view \<Rightarrow> service \<Rightarrow> service" where
  "run_frame io pid view s =
     (let (c, mutated) = handle_message io pid view (rn_coordinator s)
      in begin_save mutated False pid (s\<lparr>rn_coordinator := c\<rparr>))"

definition run_end :: "nat \<Rightarrow> peer \<Rightarrow> service \<Rightarrow> service" where
  "run_end pid p s =
     (let c = rn_coordinator s in
      if pr_announced p \<and> pr_worker p \<noteq> 0 \<and> pr_boot p \<noteq> 0 then
        begin_save True True pid (s\<lparr>rn_coordinator := c\<lparr>co_engine :=
          snd (mark_worker_lost (pr_worker p) (pr_boot p) ''worker connection ended'' (co_engine c))\<rparr>\<rparr>)
      else begin_save False True pid s)"

definition run_export :: "nat \<Rightarrow> bool \<Rightarrow> service \<Rightarrow> service" where
  "run_export pid closing s =
     s\<lparr>rn_phase := (rn_phase s)(pid := Writing (export_state (co_engine (rn_coordinator s))) closing)\<rparr>"

definition run_write :: "save_io \<Rightarrow> nat \<Rightarrow> durable_state \<Rightarrow> bool \<Rightarrow> service \<Rightarrow> service" where
  "run_write io pid d closing s =
     (let c = rn_coordinator s;
          c1 = c\<lparr>co_files := snd (save_durable_state d (cf_state_path (co_config c)) io (co_files c))\<rparr>
      in \<lparr>rn_coordinator = (if closing then drop_peer pid c1 else c1), rn_phase = (rn_phase s)(pid := Serving)\<rparr>)"

inductive run_step :: "service \<Rightarrow> service \<Rightarrow> bool" where
  run_accept: "map_of (co_peers (rn_coordinator s)) pid = None \<Longrightarrow>
    run_step s (s\<lparr>rn_coordinator := register_peer pid (rn_coordinator s)\<rparr>)"
| run_handle: "map_of (co_peers (rn_coordinator s)) pid \<noteq> None \<Longrightarrow> rn_phase s pid = Serving \<Longrightarrow>
    receive_frame (lim_of (rn_coordinator s)) inc = (Inr view, rest) \<Longrightarrow> run_step s (run_frame io pid view s)"
| run_close: "map_of (co_peers (rn_coordinator s)) pid = Some p \<Longrightarrow> rn_phase s pid = Serving \<Longrightarrow>
    run_step s (run_end pid p s)"
| run_export: "rn_phase s pid = Exporting closing \<Longrightarrow> run_step s (run_export pid closing s)"
| run_write: "rn_phase s pid = Writing d closing \<Longrightarrow> run_step s (run_write io pid d closing s)"
| run_finish: "co_shutdown (rn_coordinator s) \<Longrightarrow> co_peers (rn_coordinator s) = [] \<Longrightarrow>
    run_step s (s\<lparr>rn_coordinator := finish_run io (rn_coordinator s)\<rparr>)"

definition idle :: "coordinator \<Rightarrow> service" where
  "idle c = \<lparr>rn_coordinator = c, rn_phase = (\<lambda>_. Serving)\<rparr>"

section \<open>The coarse steps are among the fine ones\<close>

lemma handle_message_config [simp]: "co_config (fst (handle_message io pid view c)) = co_config c"
  unfolding handle_message_def Let_def
  by (cases "fv_type view"; auto simp: handler_defs case_prod_beta Let_def split: sum.split)

lemma drop_peer_simps [simp]:
  "co_engine (drop_peer pid c) = co_engine c" "co_files (drop_peer pid c) = co_files c"
  "co_config (drop_peer pid c) = co_config c"
  by (simp_all add: drop_peer_def)

lemma save_now:
  assumes "wants_save c"
  shows "run_step\<^sup>*\<^sup>* \<lparr>rn_coordinator = c, rn_phase = (\<lambda>_. Serving)(pid := Exporting closing)\<rparr>
    (idle (if closing then drop_peer pid (persist io c) else persist io c))"
proof -
  let ?s = "\<lparr>rn_coordinator = c, rn_phase = (\<lambda>_. Serving)(pid := Exporting closing)\<rparr>"
  have "run_step ?s (run_export pid closing ?s)" by (rule run_step.run_export) simp
  moreover have "run_step (run_export pid closing ?s)
      (run_write io pid (export_state (co_engine c)) closing (run_export pid closing ?s))"
    by (rule run_step.run_write) (simp add: run_export_def)
  moreover have "run_write io pid (export_state (co_engine c)) closing (run_export pid closing ?s) =
      idle (if closing then drop_peer pid (persist io c) else persist io c)"
    using assms by (simp add: run_write_def run_export_def idle_def persist_def wants_save_def save_state_def
        case_prod_beta Let_def fun_eq_iff)
  ultimately show ?thesis by (metis converse_rtranclp_into_rtranclp r_into_rtranclp)
qed

lemma coarse_is_fine: "coordinator_step c c' \<Longrightarrow> run_step\<^sup>*\<^sup>* (idle c) (idle c')"
proof (induction rule: coordinator_step.induct)
  case (step_accept c pid)
  then show ?case using run_accept [of "idle c" pid] by (auto simp: idle_def)
next
  case (step_frame c pid inc view rest io)
  obtain c1 mutated where h: "handle_message io pid view c = (c1, mutated)" by (cases "handle_message io pid view c")
  then have cfg: "co_config c1 = co_config c" using handle_message_config [of io pid view c] by simp
  have "run_step (idle c) (run_frame io pid view (idle c))"
    using step_frame by (intro run_handle) (auto simp: idle_def)
  moreover have "run_step\<^sup>*\<^sup>* (run_frame io pid view (idle c)) (idle (handle_frame io pid view c))"
  proof (cases "mutated \<and> wants_save c1")
    case True
    then show ?thesis
      using save_now [of c1 pid False io] h by (simp add: run_frame_def begin_save_def idle_def handle_frame_def)
  next
    case False
    then show ?thesis
      using h by (auto simp: run_frame_def begin_save_def idle_def handle_frame_def persist_def wants_save_def)
  qed
  ultimately show ?case by (rule converse_rtranclp_into_rtranclp)
next
  case (step_end c pid p io)
  have "run_step (idle c) (run_end pid p (idle c))" using step_end by (intro run_close) (auto simp: idle_def)
  moreover have "run_step\<^sup>*\<^sup>* (run_end pid p (idle c)) (idle (connection_ended io pid p c))"
  proof (cases "pr_announced p \<and> pr_worker p \<noteq> 0 \<and> pr_boot p \<noteq> 0 \<and> wants_save c")
    case True
    then show ?thesis
      using save_now [of "c\<lparr>co_engine := snd (mark_worker_lost (pr_worker p) (pr_boot p)
          ''worker connection ended'' (co_engine c))\<rparr>" pid True io]
      by (simp add: run_end_def begin_save_def idle_def connection_ended_def wants_save_def)
  next
    case False
    then show ?thesis
      by (auto simp: run_end_def begin_save_def idle_def connection_ended_def wants_save_def persist_def)
  qed
  ultimately show ?case by (rule converse_rtranclp_into_rtranclp)
next
  case (step_finish c io)
  then show ?case using run_finish [of "idle c" io] by (auto simp: idle_def)
qed

section \<open>The state file under every interleaving\<close>

text \<open>The image of an engine that was, on the way to the present one.\<close>

definition image_of :: "engine \<Rightarrow> durable_state \<Rightarrow> bool" where
  "image_of e d \<longleftrightarrow> (\<exists>e0. reachable e0 \<and> engine_step\<^sup>*\<^sup>* e0 e \<and> d = export_state e0)"

definition image_file :: "bytes option \<Rightarrow> engine \<Rightarrow> bytes option \<Rightarrow> bool" where
  "image_file w e content \<longleftrightarrow> content = w \<or> content = None \<or>
     (\<exists>d. image_of e d \<and> content = Some (container (write_durable_payload d)))"

lemma image_now: "reachable e \<Longrightarrow> image_of e (export_state e)"
  by (auto simp: image_of_def)

lemma image_later: "image_of e d \<Longrightarrow> at_most_one e e' \<Longrightarrow> image_of e' d"
  by (auto simp: image_of_def at_most_one_def intro: rtranclp.rtrancl_into_rtrancl)

lemma image_file_later: "image_file w e content \<Longrightarrow> at_most_one e e' \<Longrightarrow> image_file w e' content"
  by (auto simp: image_file_def intro: image_later)

lemma reachable_later: "reachable e \<Longrightarrow> at_most_one e e' \<Longrightarrow> reachable e'"
  by (auto simp: at_most_one_def intro: reachable_step)

lemma saved_here:
  "image_of e d \<Longrightarrow> image_file w e (fs path) \<Longrightarrow> image_file w e (snd (save_durable_state d path io fs) path)"
  using save_content [of d path io fs] by (cases "save_durable_state d path io fs") (auto simp: image_file_def)

lemma saved_elsewhere:
  "path \<noteq> q \<Longrightarrow> path \<noteq> q @ ''.part'' \<Longrightarrow> snd (save_durable_state d q io fs) path = fs path"
  by (auto simp: save_durable_state_def fs_rename_def Let_def split: sum.split option.split)

lemma save_state_file:
  assumes "reachable (co_engine c)" and "image_file w (co_engine c) (co_files c path)"
    and "\<forall>q. path \<noteq> q @ ''.part''"
  shows "image_file w (co_engine c) (co_files (snd (save_state q io c)) path)"
  using assms saved_here [OF image_now, of "co_engine c" w "co_files c" path io]
    saved_elsewhere [of path q "export_state (co_engine c)" io "co_files c"]
  by (cases "path = q") (auto simp: save_state_def case_prod_beta)

lemma handle_message_file:
  assumes "reachable (co_engine c)" and "image_file w (co_engine c) (co_files c path)"
    and "\<forall>q. path \<noteq> q @ ''.part''"
  shows "image_file w (co_engine c) (co_files (fst (handle_message io pid view c)) path)"
proof (cases "fv_type view = MT_SaveState")
  case True
  then show ?thesis
    using assms save_state_file [OF assms]
    by (auto simp: handle_message_def handle_save_state_def decoded_def reply_error_def peer_send_def
        case_prod_beta Let_def split: sum.split)
next
  case False
  with assms(2) show ?thesis by (simp add: handle_message_files)
qed

text \<open>
  A service as it starts, with the content of its state file, and its steps while its identities
  last. A state path that ends like the name of a temporary file is excluded: a save to the path
  without the ending would write there.
\<close>

definition launched :: "bytes option \<Rightarrow> service \<Rightarrow> bool" where
  "launched w s \<longleftrightarrow> (\<exists>c. started c \<and> s = idle c \<and> co_files c (cf_state_path (co_config c)) = w \<and>
     (\<forall>q. cf_state_path (co_config c) \<noteq> q @ ''.part''))"

definition live_run :: "service \<Rightarrow> service \<Rightarrow> bool" where
  "live_run s s' \<longleftrightarrow> ids_room (eng_ids (co_engine (rn_coordinator s))) \<and> run_step s s'"

definition service_inv :: "bytes option \<Rightarrow> service \<Rightarrow> bool" where
  "service_inv w s \<longleftrightarrow> (let c = rn_coordinator s; path = cf_state_path (co_config c) in
     reachable (co_engine c) \<and> (\<forall>q. path \<noteq> q @ ''.part'') \<and> image_file w (co_engine c) (co_files c path) \<and>
     (\<forall>pid d closing. rn_phase s pid = Writing d closing \<longrightarrow> image_of (co_engine c) d))"

lemma begin_save_inv:
  "service_inv w s \<Longrightarrow> service_inv w (begin_save due closing pid s)"
  by (auto simp: service_inv_def begin_save_def Let_def)

lemma service_inv_step:
  assumes inv: "service_inv w s" and step: "run_step s s'" and room: "ids_room (eng_ids (co_engine (rn_coordinator s)))"
  shows "service_inv w s'"
  using step
proof cases
  case (run_accept pid)
  with inv show ?thesis by (simp add: service_inv_def Let_def register_peer_def)
next
  case (run_handle pid inc view rest io)
  let ?c = "rn_coordinator s" and ?c1 = "fst (handle_message io pid view (rn_coordinator s))"
  have later: "at_most_one (co_engine ?c) (co_engine ?c1)" by (rule handle_message_engine [OF room])
  have "service_inv w (s\<lparr>rn_coordinator := ?c1\<rparr>)"
    using inv handle_message_file [of ?c w "cf_state_path (co_config ?c)" io pid view]
      reachable_later [OF _ later] image_file_later [OF _ later] image_later [OF _ later]
    by (auto simp: service_inv_def Let_def)
  then show ?thesis unfolding run_handle(1) run_frame_def by (simp add: case_prod_beta begin_save_inv)
next
  case (run_close pid p)
  let ?c = "rn_coordinator s"
  let ?c1 = "?c\<lparr>co_engine := snd (mark_worker_lost (pr_worker p) (pr_boot p) ''worker connection ended'' (co_engine ?c))\<rparr>"
  have later: "at_most_one (co_engine ?c) (co_engine ?c1)"
    by (auto intro: at_most_one_step engine_step.intros)
  have "service_inv w (s\<lparr>rn_coordinator := ?c1\<rparr>)"
    using inv reachable_later [OF _ later] image_file_later [OF _ later] image_later [OF _ later]
    by (auto simp: service_inv_def Let_def)
  with inv show ?thesis unfolding run_close(1) run_end_def by (simp add: begin_save_inv Let_def)
next
  case (run_export pid closing)
  with inv show ?thesis by (auto simp: service_inv_def Let_def run_export_def image_now)
next
  case (run_write pid d closing io)
  with inv have "image_of (co_engine (rn_coordinator s)) d" by (auto simp: service_inv_def Let_def)
  with inv show ?thesis unfolding run_write(1)
    by (auto simp: service_inv_def Let_def run_write_def saved_here)
next
  case (run_finish io)
  with inv show ?thesis
    by (auto simp: service_inv_def Let_def finish_run_def save_state_file)
qed

interpretation interleaved: transition_invariant "launched w" live_run "service_inv w" for w
proof
  show "service_inv w s" if "launched w s" for s
    using that service.inv_initial by (auto simp: launched_def service_inv_def idle_def image_file_def)
  show "service_inv w s'" if "service_inv w s" "live_run s s'" for s s'
    using that service_inv_step unfolding live_run_def by blast
qed

text \<open>
  C15. Under every interleaving of the threads, with the export of a save and its write apart, the
  ledger of the engine is exact, and the state file holds what it held at the start, nothing, or the
  complete image of a state the engine was in since: never a mixture of two saves and never a torn
  write.
\<close>

theorem interleaved_saves_are_images:
  assumes "launched w s" and "live_run\<^sup>*\<^sup>* s s'"
  shows "engine_inv (co_engine (rn_coordinator s')) \<and>
    (co_files (rn_coordinator s') (cf_state_path (co_config (rn_coordinator s'))) \<in> {w, None} \<or>
     (\<exists>e0. reachable e0 \<and> engine_step\<^sup>*\<^sup>* e0 (co_engine (rn_coordinator s')) \<and>
        co_files (rn_coordinator s') (cf_state_path (co_config (rn_coordinator s'))) =
          Some (container (write_durable_payload (export_state e0)))))"
  using interleaved.inv_reachable [OF assms] reachable_inv
  unfolding service_inv_def image_file_def image_of_def Let_def by blast

section \<open>The last save is not the last state\<close>

text \<open>
  C16. A save can undo an acknowledged mutation on disk. Whenever two connections deliver two frames
  whose handlers both report a mutation, there is a run of the threads in which every save succeeds,
  both frames are answered and every thread is idle again, and the state file holds the state before
  the second mutation: the export is taken before the mutex of the persistence, so the older image
  can be written last.
\<close>

theorem stale_save_wins:
  fixes io :: save_io and s :: service
  assumes idle: "rn_phase s p = Serving" "rn_phase s q = Serving" "p \<noteq> q"
    and peers: "map_of (co_peers (rn_coordinator s)) p \<noteq> None" "map_of (co_peers mid) q \<noteq> None"
    and frames: "receive_frame (lim_of (rn_coordinator s)) inca = (Inr va, resta)"
      "receive_frame (lim_of mid) incb = (Inr vb, restb)"
    and first: "handle_message ioa p va (rn_coordinator s) = (mid, True)"
    and second: "handle_message iob q vb mid = (after, True)"
    and saves: "wants_save (rn_coordinator s)" "io_open io" "io_partial io = None" "io_rename io"
    and readable: "ok_durable_payload lim ((export_state (co_engine mid))\<lparr>du_integrity_note := product_banner\<rparr>)"
    and small: "length (write_durable_payload (export_state (co_engine mid))) \<le> unat (max_persistence_bytes lim)"
    and room: "unat (max_persistence_bytes lim) + 28 < 2 ^ 64"
  shows "\<exists>s'. run_step\<^sup>*\<^sup>* s s' \<and> rn_phase s' = rn_phase s \<and>
    co_engine (rn_coordinator s') = co_engine after \<and> co_sent (rn_coordinator s') = co_sent after \<and>
    load_durable_state lim (cf_state_path (co_config (rn_coordinator s))) (co_files (rn_coordinator s')) =
      Inr ((export_state (co_engine mid))\<lparr>du_integrity_note := product_banner\<rparr>)"
proof -
  let ?d1 = "export_state (co_engine mid)" and ?d2 = "export_state (co_engine after)"
  have config: "co_config mid = co_config (rn_coordinator s)" "co_config after = co_config (rn_coordinator s)"
    using first second handle_message_config [of ioa p va "rn_coordinator s"] handle_message_config [of iob q vb mid]
    by simp_all
  let ?s1 = "run_frame ioa p va s"
  let ?s2 = "run_export p False ?s1"
  let ?s3 = "run_frame iob q vb ?s2"
  let ?s4 = "run_export q False ?s3"
  let ?s5 = "run_write io q ?d2 False ?s4"
  let ?s6 = "run_write io p ?d1 False ?s5"
  have s1: "?s1 = \<lparr>rn_coordinator = mid, rn_phase = (rn_phase s)(p := Exporting False)\<rparr>"
    using first saves(1) config by (cases s) (simp add: run_frame_def begin_save_def wants_save_def)
  have s2: "?s2 = \<lparr>rn_coordinator = mid, rn_phase = (rn_phase s)(p := Writing ?d1 False)\<rparr>"
    by (simp add: s1 run_export_def)
  have s3: "?s3 = \<lparr>rn_coordinator = after, rn_phase = (rn_phase s)(p := Writing ?d1 False, q := Exporting False)\<rparr>"
    unfolding s2 using second saves(1) config by (simp add: run_frame_def begin_save_def wants_save_def)
  have s4: "?s4 = \<lparr>rn_coordinator = after, rn_phase = (rn_phase s)(p := Writing ?d1 False, q := Writing ?d2 False)\<rparr>"
    unfolding s3 by (simp add: run_export_def)
  have "run_step s ?s1" by (rule run_step.run_handle [OF peers(1) idle(1) frames(1)])
  moreover have "run_step ?s1 ?s2" by (rule run_step.run_export) (simp add: s1)
  moreover have "run_step ?s2 ?s3"
    by (rule run_step.run_handle [of _ q incb vb restb]) (use idle peers frames in \<open>simp_all add: s2\<close>)
  moreover have "run_step ?s3 ?s4" by (rule run_step.run_export) (simp add: s3)
  moreover have "run_step ?s4 ?s5" by (rule run_step.run_write) (simp add: s4)
  moreover have "run_step ?s5 ?s6" by (rule run_step.run_write) (simp add: s4 run_write_def idle)
  ultimately have "run_step\<^sup>*\<^sup>* s ?s6" by (meson converse_rtranclp_into_rtranclp rtranclp.rtrancl_refl)
  moreover have "rn_phase ?s6 = rn_phase s" using idle by (auto simp: s4 run_write_def fun_eq_iff)
  moreover have "co_engine (rn_coordinator ?s6) = co_engine after" "co_sent (rn_coordinator ?s6) = co_sent after"
    by (simp_all add: s4 run_write_def)
  moreover have "load_durable_state lim (cf_state_path (co_config (rn_coordinator s))) (co_files (rn_coordinator ?s6)) =
      Inr (?d1\<lparr>du_integrity_note := product_banner\<rparr>)"
  proof (rule saved_loads [OF _ _ readable small room])
    let ?fs = "co_files (rn_coordinator ?s5)" and ?path = "cf_state_path (co_config (rn_coordinator s))"
    show "save_durable_state ?d1 ?path io ?fs =
        (fst (save_durable_state ?d1 ?path io ?fs), co_files (rn_coordinator ?s6))"
      using config by (simp add: s4 run_write_def)
    show "status_ok (fst (save_durable_state ?d1 ?path io ?fs))"
      using saves by (simp add: save_durable_state_def encode_container Let_def)
  qed
  ultimately show ?thesis by blast
qed

section \<open>At concrete inputs\<close>

lemma received:
  assumes "36 + length payload \<le> unat (max_frame_size lim)"
  shows "\<exists>rest. receive_frame lim [Data (frame_bytes t k epoch payload)] =
    (Inr \<lparr>fv_type = t, fv_correlation_id = k, fv_coordinator_epoch = epoch, fv_payload = payload\<rparr>, rest)"
proof -
  have "stream_bytes [Data (frame_bytes t k epoch payload)] = frame_bytes t k epoch payload @ []" by simp
  from receive_whole_frame [OF assms this] show ?thesis by auto
qed

definition saving_config :: coordinator_config where
  "saving_config = plain_config\<lparr>cf_state_path := ''state''\<rparr>"

definition saving_cluster :: coordinator where
  "saving_cluster = plain_cluster\<lparr>co_config := saving_config\<rparr>"

lemma saving_launched: "launched None (idle saving_cluster)"
proof -
  have "coordinator_engine_config saving_config = coordinator_engine_config plain_config"
    by (simp add: coordinator_engine_config_def saving_config_def)
  moreover have "config_ok (coordinator_engine_config plain_config)"
    by (simp add: config_ok_def coordinator_engine_config_def plain_config_def default_limits_def)
  moreover from calculation
  have "\<exists>status. coordinator_start saving_config (\<lambda>_. None) ok_status 1 = Inr (status, saving_cluster)"
    by (simp add: coordinator_start_def coordinator_recover_def saving_cluster_def plain_cluster_def)
  moreover have "load_durable_state (cf_limits saving_config) (cf_state_path saving_config) (\<lambda>_. None) \<noteq> Inr d" for d
    by (simp add: load_durable_state_def)
  ultimately have "started saving_cluster" unfolding started_def by metis
  moreover have "''state'' \<noteq> q @ ''.part''" for q
    using arg_cong [of "''state''" "q @ ''.part''" last] by auto
  ultimately show ?thesis
    by (auto simp: launched_def saving_cluster_def saving_config_def plain_cluster_def)
qed

theorem interleaved_saves_are_images_witness:
  "engine_inv (co_engine (rn_coordinator
     (run_frame calm_io 4 lab_shutdown (idle (register_peer 4 saving_cluster)))))"
proof -
  let ?s = "idle (register_peer 4 saving_cluster)"
  have room: "ids_room (eng_ids (co_engine saving_cluster))"
    by (simp add: saving_cluster_def plain_cluster_def make_engine_def coordinator_engine_config_def ids_room_def)
  have "live_run (idle saving_cluster) ?s"
    using run_accept [of "idle saving_cluster" 4] room
    by (simp add: live_run_def idle_def saving_cluster_def plain_cluster_def)
  moreover have "36 + length ([] :: bytes) \<le> unat (max_frame_size default_limits)" by (simp add: default_limits_def)
  from received [OF this, of MT_Shutdown 1 0] obtain rest where
    "receive_frame (lim_of (rn_coordinator ?s)) [Data (frame_bytes MT_Shutdown 1 0 [])] = (Inr lab_shutdown, rest)"
    by (auto simp: lab_shutdown_def idle_def register_peer_def lim_of_def saving_cluster_def saving_config_def
        plain_config_def)
  then have "live_run ?s (run_frame calm_io 4 lab_shutdown ?s)"
    using run_handle [of ?s 4] room
    by (auto simp: live_run_def idle_def register_peer_def saving_cluster_def plain_cluster_def)
  ultimately have "live_run\<^sup>*\<^sup>* (idle saving_cluster) (run_frame calm_io 4 lab_shutdown ?s)"
    by (meson converse_rtranclp_into_rtranclp r_into_rtranclp)
  from interleaved_saves_are_images [OF saving_launched this] show ?thesis by simp
qed

text \<open>
  Two connections to the laboratory: on one the worker acknowledges its assignment, on the other the
  completion of the same placement arrives. The completion is accepted and acknowledged, and the
  state file still holds the assigned placement.
\<close>

definition lab_busy :: coordinator where
  "lab_busy = lab_cluster\<lparr>co_peers := [(4, new_peer), (5, new_peer)]\<rparr>"

definition lab_done :: frame_view where
  "lab_done = \<lparr>fv_type = MT_Completion, fv_correlation_id = 3, fv_coordinator_epoch = 0,
     fv_payload = encode_completion lab_claim\<rparr>"

definition lab_assigned :: engine where
  "lab_assigned = snd (mark_assigned 102 1 1 3 lab_engine)"

lemma lab_assigned_completes:
  "co_accepted (fst (report_completion lab_claim lab_assigned))"
  "map_option pl_state (map_of (ss_placements (eng_state (snd (report_completion lab_claim lab_assigned)))) 102) =
     Some PL_Completed"
  "map pl_state (du_placements (export_state lab_assigned)) = [PL_Assigned]"
  by code_simp+

lemma lab_busy_first:
  "\<exists>c1. handle_message calm_io 4 lab_ack lab_busy = (c1, True) \<and> co_engine c1 = lab_assigned \<and>
     co_peers c1 = co_peers lab_busy \<and> co_config c1 = co_config lab_busy"
proof -
  have "decode_authority lim (encode_authority a) = Inr a" for lim a
    unfolding decode_authority_def by (rule authority_payload.decode_encode) simp
  moreover have "isl (fst (mark_assigned 102 1 1 3 lab_engine)) = False" by code_simp
  ultimately show ?thesis
    by (simp add: lab_ack_def handle_message_def handle_progress_def decoded_def peer_send_def lab_assigned_def
        case_prod_beta lab_busy_def lab_cluster_def Let_def)
qed

lemma lab_busy_second:
  assumes "co_engine c1 = lab_assigned" and "lim_of c1 = default_limits"
  shows "\<exists>c2. handle_message calm_io 5 lab_done c1 = (c2, True) \<and>
    co_engine c2 = snd (report_completion lab_claim lab_assigned)"
proof -
  have "ok_completion_claim default_limits lab_claim" by code_simp
  then have "decode_completion default_limits (encode_completion lab_claim) = Inr lab_claim"
    unfolding decode_completion_def encode_completion_def by (rule completion_claim_codec.decode_encode)
  then show ?thesis using assms lab_assigned_completes(1)
    by (simp add: lab_done_def handle_message_def handle_completion_def decoded_def peer_send_def case_prod_beta Let_def)
qed

theorem stale_save_wins_witness:
  "\<exists>s' d. run_step\<^sup>*\<^sup>* (idle lab_busy) s' \<and> rn_phase s' = (\<lambda>_. Serving) \<and>
     map_option pl_state (map_of (ss_placements (eng_state (co_engine (rn_coordinator s')))) 102) = Some PL_Completed \<and>
     load_durable_state default_limits ''state'' (co_files (rn_coordinator s')) = Inr d \<and>
     map pl_state (du_placements d) = [PL_Assigned]"
proof -
  obtain c1 where c1: "handle_message calm_io 4 lab_ack lab_busy = (c1, True)" "co_engine c1 = lab_assigned"
    "co_peers c1 = co_peers lab_busy" "co_config c1 = co_config lab_busy" using lab_busy_first by blast
  have lim: "lim_of c1 = default_limits" using c1(4) by (simp add: lim_of_def lab_busy_def lab_cluster_def)
  obtain c2 where c2: "handle_message calm_io 5 lab_done c1 = (c2, True)"
    "co_engine c2 = snd (report_completion lab_claim lab_assigned)"
    using lab_busy_second [OF c1(2) lim] by blast
  have "36 + length (fv_payload lab_ack) \<le> unat (max_frame_size default_limits)"
    by (simp add: lab_ack_def encode_authority_def write_id_def default_limits_def)
  from received [OF this, of MT_AssignAck 2 0] obtain rest1 where
    f1: "receive_frame default_limits [Data (frame_bytes MT_AssignAck 2 0 (fv_payload lab_ack))] = (Inr lab_ack, rest1)"
    by (auto simp: lab_ack_def)
  have "36 + length (fv_payload lab_done) \<le> 500" by code_simp
  then have "36 + length (fv_payload lab_done) \<le> unat (max_frame_size default_limits)" by (simp add: default_limits_def)
  from received [OF this, of MT_Completion 3 0] obtain rest2 where
    f2: "receive_frame default_limits [Data (frame_bytes MT_Completion 3 0 (fv_payload lab_done))] = (Inr lab_done, rest2)"
    by (auto simp: lab_done_def)
  let ?s = "idle lab_busy"
  have coordinator: "rn_coordinator ?s = lab_busy" by (simp add: idle_def)
  have "\<exists>s'. run_step\<^sup>*\<^sup>* ?s s' \<and> rn_phase s' = rn_phase ?s \<and> co_engine (rn_coordinator s') = co_engine c2 \<and>
      co_sent (rn_coordinator s') = co_sent c2 \<and>
      load_durable_state default_limits (cf_state_path (co_config (rn_coordinator ?s))) (co_files (rn_coordinator s')) =
        Inr ((export_state (co_engine c1))\<lparr>du_integrity_note := product_banner\<rparr>)"
  proof (rule stale_save_wins [where p = 4 and q = 5 and mid = c1 and after = c2 and io = calm_io and ioa = calm_io
        and iob = calm_io and va = lab_ack and vb = lab_done])
    show "receive_frame (lim_of (rn_coordinator ?s)) [Data (frame_bytes MT_AssignAck 2 0 (fv_payload lab_ack))] = (Inr lab_ack, rest1)"
      using f1 by (simp add: idle_def lim_of_def lab_busy_def lab_cluster_def)
    show "receive_frame (lim_of c1) [Data (frame_bytes MT_Completion 3 0 (fv_payload lab_done))] = (Inr lab_done, rest2)"
      using f2 by (simp add: lim)
    show "handle_message calm_io 4 lab_ack (rn_coordinator ?s) = (c1, True)" using c1 by (simp add: coordinator)
    show "handle_message calm_io 5 lab_done c1 = (c2, True)" by (rule c2)
    show "ok_durable_payload default_limits ((export_state (co_engine c1))\<lparr>du_integrity_note := product_banner\<rparr>)"
      using lab_acked_readable by (simp add: c1 lab_assigned_def lab_acked_def)
    show "length (write_durable_payload (export_state (co_engine c1))) \<le> unat (max_persistence_bytes default_limits)"
      using lab_acked_small by (simp add: c1 lab_assigned_def lab_acked_def)
  qed (simp_all add: c1 idle_def lab_busy_def lab_cluster_def wants_save_def calm_io_def default_limits_def)
  then show ?thesis using lab_assigned_completes(2,3)
    by (auto simp: c1 c2 idle_def lab_busy_def lab_cluster_def)
qed

end
