(* ===== verification/Examples.thy ===== *)
theory Examples
  imports Cli Profiles Persistence
begin

text \<open>
  The scenarios of \<open>examples_main.cpp\<close> with the builders of \<open>test_support_examples.hpp\<close>, and the
  program of \<open>packaging/consumer\<close>. A scenario is what it prints and its exit code. They are run in
  \<open>ExampleRuns\<close>.
\<close>

section \<open>Builders\<close>

definition ex_base ::
  "resource_id \<Rightarrow> resource_class \<Rightarrow> string \<Rightarrow> worker_id \<Rightarrow> worker_boot_id \<Rightarrow> string \<Rightarrow> resource_advertisement" where
  "ex_base i c name worker boot host = \<lparr>
     adv_id = i, adv_resource_class = c, adv_name = name, adv_worker = worker, adv_boot = boot,
     adv_provenance = PV_Synthetic, adv_sharing = SM_Shared, adv_capabilities = [],
     adv_capacity = \<lparr>rcap_slots = 1, rcap_memory_bytes = 0, rcap_max_sessions = 1\<rparr>,
     adv_current_occupancy = 0, adv_health = HS_Healthy, adv_health_detail = [],
     adv_readiness = RD_Ready,
     adv_topology = unknown_topology\<lparr>topo_supplied := True,
       topo_host := \<lparr>td_id = topology_domain_from_name host, td_name = host\<rparr>\<rparr>,
     adv_locality = empty_locality, adv_accelerators = [], adv_model = None,
     adv_simulator = None, adv_dataset = None, adv_environment = None, adv_tenant = [],
     adv_labels = []\<rparr>"

definition ex_slots :: "u32 \<Rightarrow> resource_advertisement \<Rightarrow> resource_advertisement" where
  "ex_slots slots a =
     a\<lparr>adv_capacity := (adv_capacity a)\<lparr>rcap_slots := slots, rcap_max_sessions := slots\<rparr>\<rparr>"

definition ex_gpu :: "u64 \<Rightarrow> u64 \<Rightarrow> u64 \<Rightarrow> string \<Rightarrow> u32 \<Rightarrow> resource_advertisement" where
  "ex_gpu i worker boot host slots =
     (ex_slots slots (ex_base i RC_Gpu (''gpu-'' @ decimal_u64 i) worker boot host))\<lparr>
       adv_accelerators := [\<lparr>acc_id = i + 0x100, acc_model = ''example-accelerator'',
         acc_memory_bytes = 16 * 1024 * 1024 * 1024, acc_compute_capability_major = 0,
         acc_compute_capability_minor = 0, acc_root_complex = 0\<rparr>],
       adv_capabilities := profile_capabilities [''cuda''] default_limits\<rparr>"

definition ex_model :: "u64 \<Rightarrow> u64 \<Rightarrow> u64 \<Rightarrow> string \<Rightarrow> u64 \<Rightarrow> string \<Rightarrow> bool \<Rightarrow> resource_advertisement" where
  "ex_model i worker boot host model version resident =
     (ex_slots 4 (ex_base i RC_Model (''model-'' @ decimal_u64 i) worker boot host))\<lparr>
       adv_model := Some \<lparr>mdl_id = model, mdl_version = version, mdl_context_window = 0,
         mdl_tool_support = False, mdl_resident = resident, mdl_modalities = []\<rparr>\<rparr>"

definition ex_dataset :: "u64 \<Rightarrow> u64 \<Rightarrow> u64 \<Rightarrow> string \<Rightarrow> u64 \<Rightarrow> u64 \<Rightarrow> resource_advertisement" where
  "ex_dataset i worker boot host dataset version =
     (ex_slots 2 (ex_base i RC_Dataset (''dataset-'' @ decimal_u64 i) worker boot host))\<lparr>
       adv_dataset := Some \<lparr>ds_id = dataset, ds_version = version, ds_digest = ''sha256:example'',
         ds_size_bytes = 0\<rparr>,
       adv_locality := empty_locality\<lparr>loc_local_dataset_versions := [version]\<rparr>\<rparr>"

definition ex_simulator :: "u64 \<Rightarrow> u64 \<Rightarrow> u64 \<Rightarrow> string \<Rightarrow> u64 \<Rightarrow> string \<Rightarrow> resource_advertisement" where
  "ex_simulator i worker boot host simulator version =
     (ex_slots 2 (ex_base i RC_Simulator (''sim-'' @ decimal_u64 i) worker boot host))\<lparr>
       adv_simulator := Some \<lparr>sim_id = simulator, sim_version = version, sim_scenarios = [''steady''],
         sim_max_sessions = 2\<rparr>\<rparr>"

definition ex_virtual_environment ::
  "u64 \<Rightarrow> u64 \<Rightarrow> u64 \<Rightarrow> string \<Rightarrow> u64 \<Rightarrow> string \<Rightarrow> resource_advertisement" where
  "ex_virtual_environment i worker boot host environment digest =
     (ex_slots 4 (ex_base i RC_VirtualEnvironment (''venv-'' @ decimal_u64 i) worker boot host))\<lparr>
       adv_environment := Some \<lparr>env_id = environment, env_image_digest = digest,
         env_virtual_environment = i + 0x40, env_physical_environment = 0, env_eligibility_token = []\<rparr>\<rparr>"

definition ex_physical_rig :: "u64 \<Rightarrow> u64 \<Rightarrow> u64 \<Rightarrow> string \<Rightarrow> u64 \<Rightarrow> resource_advertisement" where
  "ex_physical_rig i worker boot host environment =
     (ex_base i RC_PhysicalEnvironment (''rig-'' @ decimal_u64 i) worker boot host)\<lparr>
       adv_sharing := SM_Exclusive,
       adv_environment := Some \<lparr>env_id = environment, env_image_digest = [], env_virtual_environment = 0,
         env_physical_environment = 0x1501, env_eligibility_token = ''calibrated''\<rparr>\<rparr>"

definition ex_requirement :: "resource_class \<Rightarrow> string \<Rightarrow> resource_requirement" where
  "ex_requirement c name = default_requirement\<lparr>rq_name := name, rq_resource_class := c, rq_min_slots := 1\<rparr>"

definition ex_request :: "u64 \<Rightarrow> u64 \<Rightarrow> resource_requirement list \<Rightarrow> schedule_request" where
  "ex_request i experiment requirements = default_request\<lparr>sr_id := i, sr_experiment := experiment,
     sr_experiment_generation := 1, sr_workload := ''example-workload'', sr_tenant := ''example-tenant'',
     sr_requirements := requirements\<rparr>"

text \<open>A default-constructed engine after the registrations, whose results are ignored.\<close>

definition ex_engine :: "resource_advertisement list \<Rightarrow> engine" where
  "ex_engine advertisements = fold (\<lambda>a e. snd (register_resource a e)) advertisements
     (make_engine \<lparr>cfg_limits = default_limits, cfg_default_weights = default_weights, cfg_id_seed = 1,
        cfg_record_audit = True\<rparr>)"

section \<open>Scenarios\<close>

definition print_selected :: "selected_resource \<Rightarrow> string" where
  "print_selected s = ''  selected '' @ id_to_string K_ResourceId (sel_resource s) @
     '' class='' @ resource_class_name (sel_resource_class s) @
     '' requirement='' @ sel_requirement_name s @ '' slots='' @ decimal_u32 (sel_slots s) @ newline"

definition print_decision :: "string \<Rightarrow> decision \<Rightarrow> string" where
  "print_decision title d =
     ''example '' @ title @ '' outcome='' @ decision_outcome_name (dc_outcome d) @
     '' failure='' @ error_code_name (dc_failure d) @ newline @
     (if dc_outcome d = DO_Placed then
        ''  placement '' @ id_to_string K_PlacementId (pl_id (dc_placement d)) @
        '' generation='' @ decimal_u64 (pl_generation (dc_placement d)) @ newline @
        concat (map print_selected (pl_resources (dc_placement d)))
      else ''  reason '' @ dc_failure_detail d @ newline)"

definition print_result :: "string \<Rightarrow> decision result \<Rightarrow> string" where
  "print_result title r = (case r of Inl _ \<Rightarrow> [] | Inr d \<Rightarrow> print_decision title d)"

definition example_model_gpu :: "string \<times> int" where
  "example_model_gpu =
     (let e = ex_engine [ex_gpu 0x1001 0x11 0x12 ''host-a'' 2,
            ex_model 0x1002 0x11 0x12 ''host-a'' 0x1f01 ''1.0'' True];
          gpu = (ex_requirement RC_Gpu ''accelerator'')\<lparr>rq_min_memory_bytes := 8 * 1024 * 1024 * 1024\<rparr>;
          model = (ex_requirement RC_Model ''model'')\<lparr>rq_model := Some 0x1f01, rq_model_version := ''1.0''\<rparr>;
          head = ''example model-gpu: a model endpoint and an accelerator must be placed together'' @ newline
      in case fst (submit_request (ex_request 0x2001 0x3001 [gpu, model]) e) of
          Inl s \<Rightarrow> (head @ ''error '' @ status_to_string s @ newline, 1)
        | Inr d \<Rightarrow> (head @ print_decision ''model-gpu'' d, 0))"

definition example_simulator_dataset :: "string \<times> int" where
  "example_simulator_dataset =
     (let e = ex_engine [ex_simulator 0x1101 0x21 0x22 ''host-b'' 0x1f02 ''2.0'',
            ex_dataset 0x1102 0x21 0x22 ''host-b'' 0x1f03 0x2f01];
          simulator = (ex_requirement RC_Simulator ''simulator'')\<lparr>
            rq_simulator := Some 0x1f02, rq_simulator_version := ''2.0''\<rparr>;
          dataset = (ex_requirement RC_Dataset ''dataset'')\<lparr>
            rq_dataset := Some 0x1f03, rq_dataset_version := Some 0x2f01\<rparr>;
          wrong_version = (ex_requirement RC_Dataset ''dataset'')\<lparr>
            rq_dataset := Some 0x1f03, rq_dataset_version := Some 0x2f09\<rparr>;
          head = ''example simulator-dataset: a simulator session and an exact dataset version'' @ newline;
          (r, e) = submit_request (ex_request 0x2002 0x3002 [simulator, dataset]) e
      in case r of
          Inl _ \<Rightarrow> (head, 1)
        | Inr d \<Rightarrow> (head @ print_decision ''simulator-dataset'' d @
            print_result ''simulator-dataset-wrong-version''
              (fst (submit_request (ex_request 0x2003 0x3003 [wrong_version]) e)), 0))"

definition example_dataset_locality :: "string \<times> int" where
  "example_dataset_locality =
     (let e = ex_engine [ex_gpu 0x1201 0x31 0x32 ''host-c'' 2,
            ex_dataset 0x1202 0x31 0x32 ''host-c'' 0x1f04 0x2f01,
            ex_gpu 0x1203 0x33 0x34 ''host-d'' 2, ex_dataset 0x1204 0x33 0x34 ''host-d'' 0x1f04 0x2f02];
          gpu = (ex_requirement RC_Gpu ''accelerator'')\<lparr>rq_affinity_group := 1\<rparr>;
          dataset = (ex_requirement RC_Dataset ''corpus'')\<lparr>rq_dataset := Some 0x1f04,
            rq_dataset_version := Some 0x2f02, rq_affinity_group := 1\<rparr>;
          request = (ex_request 0x2004 0x3004 [gpu, dataset])\<lparr>
            sr_affinity := [\<lparr>aff_group_a = 1, aff_group_b = 1, aff_scope = TS_Host\<rparr>]\<rparr>;
          head = ''example dataset-locality: two hosts hold different dataset versions'' @ newline
      in case fst (submit_request request e) of
          Inl _ \<Rightarrow> (head, 1)
        | Inr d \<Rightarrow> (head @ print_decision ''dataset-locality'' d, 0))"

definition example_topology_aware :: "string \<times> int" where
  "example_topology_aware =
     (let e = ex_engine [ex_gpu 0x1301 0x41 0x42 ''host-e'' 2, ex_gpu 0x1302 0x43 0x44 ''host-f'' 4];
          requirement = (ex_requirement RC_Gpu ''accelerator'')\<lparr>
            rq_required_domain := Some (topology_domain_from_name ''host-f''),
            rq_required_domain_scope := TS_Host\<rparr>;
          head = ''example topology-aware: pinned topology domain versus preferred locality'' @ newline
      in case fst (submit_request (ex_request 0x2005 0x3005 [requirement]) e) of
          Inl _ \<Rightarrow> (head, 1)
        | Inr d \<Rightarrow> (head @ print_decision ''topology-aware'' d, 0))"

definition example_exclusive_physical :: "string \<times> int" where
  "example_exclusive_physical =
     (let e = ex_engine [ex_physical_rig 0x1401 0x51 0x52 ''host-g'' 0x1f05];
          rig = (ex_requirement RC_PhysicalEnvironment ''rig'')\<lparr>rq_require_exclusive := True,
            rq_physical_environment := Some 0x1501\<rparr>;
          (placed, e) = submit_request ((ex_request 0x2006 0x3006 [rig])\<lparr>sr_exclusive := True\<rparr>) e;
          conflict = fst (submit_request ((ex_request 0x2007 0x3007 [rig])\<lparr>sr_exclusive := True\<rparr>) e)
      in (''example exclusive-physical: a SYNTHETIC robotics rig is scheduled exclusively'' @ newline @
          print_result ''exclusive-physical-first'' placed @
          print_result ''exclusive-physical-second'' conflict, 0))"

definition example_virtual_environment :: "string \<times> int" where
  "example_virtual_environment =
     (let e = ex_engine [ex_virtual_environment 0x1501 0x61 0x62 ''host-h'' 0x1f06 ''sha256:runtime-7''];
          environment = (ex_requirement RC_VirtualEnvironment ''environment'')\<lparr>
            rq_environment := Some 0x1f06, rq_environment_digest := ''sha256:runtime-7''\<rparr>;
          head = ''example virtual-environment: a pinned runtime image digest'' @ newline;
          (r, e) = submit_request (ex_request 0x2008 0x3008 [environment]) e
      in case r of
          Inl _ \<Rightarrow> (head, 1)
        | Inr d \<Rightarrow> (head @ print_decision ''virtual-environment'' d @
            print_result ''virtual-environment-wrong-digest'' (fst (submit_request (ex_request 0x2009 0x3009
              [environment\<lparr>rq_environment_digest := ''sha256:runtime-8''\<rparr>]) e)), 0))"

definition example_no_placement :: "string \<times> int" where
  "example_no_placement =
     (let e = ex_engine [ex_gpu 0x1601 0x71 0x72 ''host-i'' 1];
          requirement = (ex_requirement RC_Gpu ''accelerator'')\<lparr>
            rq_required_capabilities := profile_capabilities [''absent-capability''] default_limits\<rparr>;
          head = ''example no-placement: every rejection category is explained'' @ newline
      in case fst (submit_request (ex_request 0x200a 0x300a [requirement]) e) of
          Inl _ \<Rightarrow> (head, 1)
        | Inr d \<Rightarrow> (head @ print_decision ''no-placement'' d @ render_explanation (dc_explanation d), 0))"

definition example_cancellation :: "string \<times> int" where
  "example_cancellation =
     (let e = ex_engine [ex_gpu 0x1701 0x81 0x82 ''host-j'' 2];
          head = ''example cancellation: authority is revoked and capacity returns to baseline'' @ newline;
          (r, e) = submit_request (ex_request 0x200b 0x300b [ex_requirement RC_Gpu ''accelerator'']) e
      in case r of
          Inl _ \<Rightarrow> (head, 1)
        | Inr d \<Rightarrow>
            if dc_outcome d \<noteq> DO_Placed then (head, 1)
            else let (cancelled, e) = cancel_placement (pl_id (dc_placement d)) (pl_generation (dc_placement d))
                  (engine_epoch e) ''operator cancel'' e
              in (head @ ''example cancellation state='' @ placement_state_name (cn_state cancelled) @
                  '' released='' @ decimal_u64 (of_nat (length (cn_released_reservations cancelled))) @ newline @
                  render_accounting (accounting e), 0))"

definition example_resource_loss :: "string \<times> int" where
  "example_resource_loss =
     (let e = ex_engine [ex_gpu 0x1801 0x91 0x92 ''host-k'' 2];
          gpu = ex_requirement RC_Gpu ''accelerator'';
          head = ''example resource-loss: incarnation loss invalidates evidence and placements'' @ newline;
          (r, e) = submit_request (ex_request 0x200c 0x300c [gpu]) e
      in case r of
          Inl _ \<Rightarrow> (head, 1)
        | Inr d \<Rightarrow>
            if dc_outcome d \<noteq> DO_Placed then (head, 1)
            else let (loss, e) = mark_worker_lost 0x91 0x92 ''process died'' e
              in (head @ ''example resource-loss invalidated='' @
                  decimal_u64 (of_nat (length (lr_invalidated_resources loss))) @
                  '' affected='' @ decimal_u64 (of_nat (length (lr_affected_placements loss))) @
                  '' revoked='' @ decimal_u64 (of_nat (length (lr_released_reservations loss))) @ newline @
                  render_stale_resources (list_stale_resources e) @
                  print_result ''resource-loss-retry'' (fst (submit_request (ex_request 0x200d 0x300d [gpu]) e)), 0))"

text \<open>The completion the restart scenario replays: it names the placement and its old epoch.\<close>

definition ex_replayed :: "placement_record \<Rightarrow> coordinator_epoch \<Rightarrow> completion_claim" where
  "ex_replayed p epoch = \<lparr>cc_placement = pl_id p, cc_placement_generation = pl_generation p,
     cc_experiment = pl_experiment p, cc_experiment_generation = pl_experiment_generation p,
     cc_epoch = epoch, cc_worker_boot = 0, cc_resources = [], cc_resource_generations = [],
     cc_succeeded = True, cc_detail = []\<rparr>"

definition example_coordinator_restart :: "string \<times> int" where
  "example_coordinator_restart =
     (let origin = ex_engine [ex_gpu 0x1901 0xa1 0xa2 ''host-l'' 2];
          head = ''example coordinator-restart: epoch advances and prior authority is revoked'' @ newline;
          (r, origin) = submit_request (ex_request 0x200e 0x300e [ex_requirement RC_Gpu ''accelerator'']) origin
      in case r of
          Inl _ \<Rightarrow> (head, 1)
        | Inr d \<Rightarrow>
            if dc_outcome d \<noteq> DO_Placed then (head, 1)
            else (case import_state (export_state origin) (ex_engine []) of
                (Inl _, _) \<Rightarrow> (head, 1)
              | (Inr recovery, restarted) \<Rightarrow>
                  let outcome = fst (report_completion (ex_replayed (dc_placement d) (engine_epoch origin)) restarted)
                  in (head @ ''example coordinator-restart previous_epoch='' @
                        id_to_string K_CoordinatorEpoch (rc_previous_epoch recovery) @
                      '' current_epoch='' @ id_to_string K_CoordinatorEpoch (rc_current_epoch recovery) @
                      '' revalidation='' @ decimal_u64 (of_nat (length (rc_resources_requiring_revalidation recovery))) @
                      '' reconciled='' @ decimal_u64 (of_nat (length (rc_reconciled_placements recovery))) @
                      '' revoked='' @ decimal_u64 (of_nat (length (rc_revoked_reservations recovery))) @ newline @
                      ''example coordinator-restart replayed_completion='' @
                        error_code_name (st_code (co_status outcome)) @ newline, 0)))"

definition example_explanation :: "string \<times> int" where
  "example_explanation =
     (let e = ex_engine [ex_gpu 0x1a01 0xb1 0xb2 ''host-m'' 2, ex_gpu 0x1a02 0xb3 0xb4 ''host-n'' 8];
          head = ''example explanation: deterministic named ranking factors'' @ newline
      in case fst (submit_request (ex_request 0x200f 0x300f [ex_requirement RC_Gpu ''accelerator'']) e) of
          Inl _ \<Rightarrow> (head, 1)
        | Inr d \<Rightarrow> (head @ render_explanation (dc_explanation d), 0))"

definition kExamples :: "(string \<times> string \<times> int) list" where
  "kExamples = [(''model-gpu'', example_model_gpu), (''simulator-dataset'', example_simulator_dataset),
     (''dataset-locality'', example_dataset_locality), (''topology-aware'', example_topology_aware),
     (''exclusive-physical'', example_exclusive_physical),
     (''virtual-environment'', example_virtual_environment), (''no-placement'', example_no_placement),
     (''cancellation'', example_cancellation), (''resource-loss'', example_resource_loss),
     (''coordinator-restart'', example_coordinator_restart), (''explanation'', example_explanation)]"

definition examples_main :: "string list \<Rightarrow> string \<times> int" where
  "examples_main arguments =
     (if arguments = [] \<or> arguments ! 0 = ''--help'' then
        (''usage: lab-scheduler-examples <name>'' @ newline @
         concat (map (\<lambda>(name, _). ''  '' @ name @ newline) kExamples), 0)
      else case map_of kExamples (arguments ! 0) of
          Some run \<Rightarrow> run
        | None \<Rightarrow> (''error unknown example: '' @ arguments ! 0 @ newline, 2))"

section \<open>The consumer of the package\<close>

definition consumer_gpu :: resource_advertisement where
  "consumer_gpu = (ex_base 0x9001 RC_Gpu ''consumer-gpu'' 0x77 0x88 ''consumer-host'')\<lparr>
     adv_capacity := \<lparr>rcap_slots = 2, rcap_memory_bytes = 0, rcap_max_sessions = 2\<rparr>,
     adv_topology := unknown_topology\<lparr>topo_supplied := True,
       topo_host := unknown_domain\<lparr>td_id := topology_domain_from_name ''consumer-host''\<rparr>\<rparr>,
     adv_accelerators := [\<lparr>acc_id = 0x9002, acc_model = ''consumer-accelerator'',
       acc_memory_bytes = 8 * 1024 * 1024 * 1024, acc_compute_capability_major = 0,
       acc_compute_capability_minor = 0, acc_root_complex = 0\<rparr>],
     adv_capabilities := profile_capabilities [''cuda''] default_limits\<rparr>"

definition consumer_dataset :: resource_advertisement where
  "consumer_dataset = (ex_base 0x9003 RC_Dataset ''consumer-dataset'' 0x77 0x88 ''consumer-host'')\<lparr>
     adv_capacity := \<lparr>rcap_slots = 2, rcap_memory_bytes = 0, rcap_max_sessions = 2\<rparr>,
     adv_topology := unknown_topology\<lparr>topo_supplied := True,
       topo_host := unknown_domain\<lparr>td_id := topology_domain_from_name ''consumer-host''\<rparr>\<rparr>,
     adv_dataset := Some \<lparr>ds_id = 0x9004, ds_version = 0x9005, ds_digest = [], ds_size_bytes = 0\<rparr>\<rparr>"

definition consumer_request :: schedule_request where
  "consumer_request = default_request\<lparr>sr_id := 0xa001, sr_experiment := 0xb001,
     sr_experiment_generation := 1, sr_workload := ''consumer-workload'', sr_tenant := ''consumer-tenant'',
     sr_requirements :=
       [(ex_requirement RC_Gpu ''accelerator'')\<lparr>rq_min_memory_bytes := 4 * 1024 * 1024 * 1024,
          rq_required_capabilities := profile_capabilities [''cuda''] default_limits\<rparr>,
        (ex_requirement RC_Dataset ''corpus'')\<lparr>rq_dataset := Some 0x9004,
          rq_dataset_version := Some 0x9005\<rparr>]\<rparr>"

text \<open>What the program does once its request is placed.\<close>

definition consumer_release :: "string \<Rightarrow> decision \<Rightarrow> engine \<Rightarrow> string \<times> int" where
  "consumer_release head d e =
     (let (cancelled, e) = cancel_placement (pl_id (dc_placement d)) (pl_generation (dc_placement d))
            (engine_epoch e) ''consumer release'' e;
          report = accounting e; sound = list_all ic_ok (validate_invariants e);
          head = head @ ''consumer placed='' @
            decimal_u64 (of_nat (length (pl_resources (dc_placement d)))) @ '' resources'' @ newline @
            render_explanation (dc_explanation d) in
      if \<not> status_ok (cn_status cancelled) then
        (head @ ''consumer FAIL cancel: '' @ status_to_string (cn_status cancelled) @ newline, 1)
      else
        let head = head @ ''consumer reservations_active='' @ decimal_u64 (ar_active_reservations report) @
              '' reserved_slots='' @ decimal_u64 (ar_total_reserved_slots report) @
              '' invariants='' @ (if sound then ''ok'' else ''violated'') @ newline in
        case encode_durable_state (export_state e) of
          Inl _ \<Rightarrow> (head @ ''consumer FAIL encode'' @ newline, 1)
        | Inr encoded \<Rightarrow>
            if (case decode_durable_state default_limits encoded of Inl _ \<Rightarrow> True
                | Inr restored \<Rightarrow> \<not> status_ok (validate_durable_state restored)) then
              (head @ ''consumer FAIL persistence round trip'' @ newline, 1)
            else
              let head = head @ ''consumer persistence bytes='' @ decimal_u64 (of_nat (length encoded)) @ newline in
              if ar_active_reservations report \<noteq> 0 \<or> ar_total_reserved_slots report \<noteq> 0 \<or> \<not> sound then
                (head @ ''consumer FAIL accounting'' @ newline, 1)
              else (head @ ''consumer result PASS'' @ newline, 0))"

definition consumer_main :: "string \<times> int" where
  "consumer_main =
     (let head = ''consumer lab scheduler version=1.0.0'' @ newline;
          (gpu, e) = register_resource consumer_gpu (ex_engine []) in
      if isl gpu then (head @ ''consumer FAIL registration'' @ newline, 1)
      else let (dataset, e) = register_resource consumer_dataset e in
      if isl dataset then (head @ ''consumer FAIL registration'' @ newline, 1)
      else case submit_request consumer_request e of
          (Inl s, _) \<Rightarrow> (head @ ''consumer FAIL submit: '' @ status_to_string s @ newline, 1)
        | (Inr d, e) \<Rightarrow>
            if dc_outcome d \<noteq> DO_Placed then
              (head @ ''consumer FAIL placement: '' @ dc_failure_detail d @ newline, 1)
            else consumer_release head d e)"

end
