(* ===== verification/ExampleRuns.thy ===== *)
theory ExampleRuns
  imports Examples
begin

text \<open>
  Scenarios of \<open>Examples\<close>, evaluated: what the README promises of them is what the model decides.
\<close>

definition run_outcome :: "decision result \<Rightarrow> decision_outcome \<times> error_code \<times> resource_id list" where
  "run_outcome r = (case r of Inl s \<Rightarrow> (DO_NoPlacement, st_code s, [])
     | Inr d \<Rightarrow> (dc_outcome d, dc_failure d, map sel_resource (pl_resources (dc_placement d))))"

text \<open>A digest that is not the pinned one is refused.\<close>

lemma wrong_digest_run:
  "run_outcome (fst (submit_request
     (ex_request 0x2009 0x3009 [(ex_requirement RC_VirtualEnvironment ''environment'')\<lparr>
        rq_environment := Some 0x1f06, rq_environment_digest := ''sha256:runtime-8''\<rparr>])
     (ex_engine [ex_virtual_environment 0x1501 0x61 0x62 ''host-h'' 0x1f06 ''sha256:runtime-7'']))) =
   (DO_NoPlacement, E_EnvironmentUnavailable, [])"
  by code_simp

text \<open>The domain is pinned: the larger accelerator on the other host is no candidate.\<close>

lemma topology_aware_run:
  "run_outcome (fst (submit_request
     (ex_request 0x2005 0x3005 [(ex_requirement RC_Gpu ''accelerator'')\<lparr>
        rq_required_domain := Some (topology_domain_from_name ''host-f''),
        rq_required_domain_scope := TS_Host\<rparr>])
     (ex_engine [ex_gpu 0x1301 0x41 0x42 ''host-e'' 2, ex_gpu 0x1302 0x43 0x44 ''host-f'' 4]))) =
   (DO_Placed, E_Ok, [0x1302])"
  by code_simp

end
