(* ===== verification/Spec2Isabelle.thy ===== *)
theory Spec2Isabelle
  imports SchedulingLaws RecoveryLaws DataLaws Interchange AssignmentLaws Leases OfflineLaws Network Process Concurrency ExampleRuns
begin

text \<open>
  Lab Scheduler: a verified model of the scheduling engine.

  The program. A coordinator keeps a registry of laboratory resources that workers advertise
  (GPUs, models, simulators, data sets, environments), accepts scheduling requests of experiments,
  and answers each with a placement of all its requirements at once or with a refusal. A placement
  is backed by a reservation of slots and carries the authority to run: it is valid for one
  coordinator epoch, one placement generation and the incarnations of the workers it uses. The
  engine (\<open>src/src/engine_*.cpp\<close>) is a state record behind one mutex, so an operation is one atomic
  step of a state machine; everything above it (network, cluster service, command line tools)
  calls these operations.

  How it is modelled. C++ structs are records, enums are datatypes, identities, generations and
  counters are words of their width, \<open>std::map\<close> is the ordered association list \<open>omap\<close> of
  \<open>Prelude\<close> with the functions \<open>om_emplace\<close>, \<open>om_set\<close>, \<open>om_modify\<close> and \<open>om_erase\<close>, a \<open>Status\<close> is
  a code with its message and a \<open>Result\<close> is \<open>status + 'a\<close>. An operation of the engine is a
  function from its arguments and an \<open>engine\<close> (configuration, identity counter, state) to its
  result and the engine after it; the guards stand in the order of the code and every message text
  is kept. References into a map are keys, and a loop that mutates the map while it iterates is a
  fold over the keys.

  The theories, in the order of the dependencies.

  \<^item> \<open>Prelude\<close>, \<open>Errors\<close>, \<open>Canonical\<close>, \<open>Identity\<close>, \<open>Capability\<close>, \<open>Resource\<close>, \<open>Request\<close> model the
    value types (\<open>error\<close>, \<open>canonical\<close>, \<open>identity\<close>, \<open>limits\<close>, \<open>capability\<close>, \<open>topology\<close>,
    \<open>resource\<close>, \<open>request\<close>, \<open>placement\<close>, \<open>explanation\<close>): words that do not wrap, sorting with a
    comparator, ordered maps, FNV-1a, the text forms, validation and normalisation. Their lemmas
    are the round trips, the map laws (locales \<open>summed_store\<close>, \<open>name_table\<close>, interpreted on the
    model's functions) and what a successful validation guarantees.
  \<^item> \<open>EngineState\<close> models \<open>engine_state.cpp\<close> and \<open>engine_internal.hpp\<close>: the state, the audit log,
    release of reservations, termination of placements, worker incarnations, lookups and export.
  \<^item> \<open>Eligibility\<close>, \<open>Ranking\<close>, \<open>Search\<close>, \<open>Plan\<close>, \<open>Schedule\<close> model \<open>engine_scheduling.cpp\<close>: the
    hard filter with its reject reasons, the ranking factors and scores, the branch and bound
    search, the plans with their deduplication, the commit and \<open>submit_request\<close>. Their lemmas show
    that the filter is the conjunction of its constraints, that scores stay in range, that the
    pruning bound is admissible and that the search result is valid and optimal.
  \<^item> \<open>EngineResources\<close>, \<open>Lifecycle\<close>, \<open>Recovery\<close>, \<open>Accounting\<close> model the files of these names:
    registration, publication, retirement; assignment, completion, cancellation, reassignment,
    preemption; validation and import of a durable state; accounting and the self checks.
  \<^item> \<open>EngineInv\<close>, \<open>CommitInv\<close>, \<open>ScheduleInv\<close>, \<open>EngineSteps\<close>, \<open>RecoveryInv\<close> state the invariant
    \<open>engine_inv\<close> of the ledger (every reserved slot is claimed by exactly one active reservation,
    every live placement is backed, every unit points to a live placement, identities are below
    the counter) and show that every operation keeps it.
  \<^item> \<open>Reachable\<close> is the transition system: \<open>engine_step\<close> has a rule per operation, the locale
    \<open>transition_invariant\<close> carries the invariant to every reachable engine. \<open>History\<close> shows that
    every step respects the preorder \<open>history\<close> (nothing recorded is lost or revived) and extends
    the locale to \<open>transition_order\<close>.
  \<^item> \<open>Effects\<close> and \<open>Outcomes\<close> specify what an operation does to the tables: who is still exposed
    after the loss of a worker, when a completion is authorised, what a correct compound placement
    is (\<open>well_placed\<close>), what it takes (\<open>takes\<close>) and the four outcomes of a submission.
  \<^item> \<open>SchedulingLaws\<close>, \<open>LifecycleLaws\<close>, \<open>EngineLaws\<close>, \<open>RecoveryLaws\<close>, \<open>DataLaws\<close> and
    \<open>Interchange\<close> hold the properties of the engine, each with its application to the small
    laboratory of \<open>LabExample\<close>.
  \<^item> \<open>Codec\<close> models \<open>codec.cpp\<close>: a writer operation is the bytes it appends, a reader operation a
    function of the reader state to a failure or a value with the advanced reader. The locale
    \<open>record_codec\<close> states what a writer and a reader promise one another (a value is read back and
    exactly its bytes are consumed; what is accepted is admissible), \<open>canonical_codec\<close> adds that only
    encodings are accepted; round trips, prefix freedom, truncation and trailing bytes follow once
    and for all.
  \<^item> \<open>RecordParts\<close> and \<open>RecordCodec\<close> model \<open>record_codec.cpp\<close>: every writer and reader, and for each
    an \<open>ok_\<close> predicate with the values the reader can return. Every pair interprets one of the two
    locales; \<open>enumeration\<close> covers the enums. A capability list is accepted in any order, so what
    contains one is not canonical.
  \<^item> \<open>Checksum\<close> shows that FNV-1a and its lower half detect every change of a single byte.
    \<open>Persistence\<close> models \<open>persistence.cpp\<close>: the container, saving through a temporary file and
    loading, over a map of paths to contents and a record of the answers of the operating system.
    \<open>PersistenceLaws\<close> holds its properties, among them the way from an engine through the file back
    into an engine, and a request whose refusal makes the saved file unreadable.
  \<^item> \<open>Frame\<close> and \<open>Messages\<close> model \<open>protocol.cpp\<close>: the frame with its header and checksum, and the
    encoder and decoder of every payload, again as interpretations of \<open>record_codec\<close>.
    \<open>ProtocolLaws\<close> holds the properties of the frames.
  \<^item> \<open>Inspection\<close> models \<open>inspection.cpp\<close> and \<open>explanation_render.cpp\<close> (every report a function to
    its text) and \<open>Profiles\<close> models \<open>lab_profiles.cpp\<close>.
  \<^item> \<open>Socket\<close> models the transfer of frames of \<open>net.cpp\<close>: what \<open>recv\<close> delivers is a list of
    segments and faults, what \<open>send\<close> accepts a function of the call. \<open>Transport\<close> shows that framing
    does not depend on the segmentation.
  \<^item> \<open>Coordinator\<close> models \<open>CoordinatorServer\<close> of \<open>cluster.cpp\<close>: its start, one definition per message
    type, the loop of a connection, the end of a connection and of the run. The frames it sends are
    recorded in order with the connection they go to; the state file lives in the map of files of
    \<open>Persistence\<close>. \<open>coordinator_step\<close> interleaves the connections; the handling of one frame is one
    step. \<open>Worker\<close> models \<open>CoordinatorClient\<close> and \<open>WorkerAgent\<close> of the same file over the stream a
    socket delivers.
  \<^item> \<open>ClusterSteps\<close> shows that a frame makes at most one step of the engine and gets exactly one
    answer. \<open>ClusterLaws\<close> holds the properties of the coordinator (its ledger under any interleaving
    by an interpretation of \<open>transition_invariant\<close>, answers, unreadable payloads, connections,
    persistence) and the facts behind its defects. \<open>AssignmentLaws\<close> composes worker and coordinator:
    the conversation from a pushed assignment to the accepted completion.

  \<^item> \<open>Concurrency\<close> refines the steps of the coordinator to the granularity of its locks: the export of
    a save and its write are steps of their own (\<open>run_step\<close>), every coarse step is a run of fine ones
    (\<open>coarse_is_fine\<close>), and an interpretation of \<open>transition_invariant\<close> shows what the state file can
    hold. That the older of two saves can be written last is a theorem too.
  \<^item> \<open>Leases\<close> is the abstract specification of the engine, a book of leases with openings, closings
    and changes of capacity, and the locale \<open>forward_simulation\<close>, an extension of
    \<open>transition_invariant\<close>, whose interpretation shows that the engine refines the book.
  \<^item> \<open>ExportInv\<close> states what makes the records of an engine exportable (\<open>sound\<close>) and shows that
    every operation keeps it; \<open>RestartLaws\<close> concludes that the image an engine exports after a lasting
    run is valid, so that a restart is possible. Whether the file of such an image can be read back
    is a question of the bounds of the reader (\<open>loadable\<close> in \<open>PersistenceLaws\<close>), which an engine can leave.
  \<^item> \<open>Socket\<close> models the framing of \<open>net.cpp\<close> over a finite stream whose end is the end of the connection;
    \<open>Wire\<close> models it over a possibly infinite stream that may fall silent, where a receive need not
    return, and shows that the two agree as far as a finite stream lasts.
  \<^item> \<open>Network\<close> models the listeners and connections of \<open>net.cpp\<close> over the answers of the operating
    system and its list of open handles, none of which is lost on any path. \<open>Process\<close> models the POSIX
    branch of \<open>process.cpp\<close>; the lines it reads do not depend on the pieces the pipe delivers.
  \<^item> \<open>Cli\<close> models the three programs of \<open>apps\<close> from their arguments to their output and exit code, and
    \<open>OfflineLaws\<close> connects the inspection tool with the engine and the saved file.
  \<^item> \<open>Examples\<close> models the scenarios of \<open>examples\<close> and the package consumer on top of the engine;
    \<open>ExampleRuns\<close> evaluates some of them.

  Bounds and termination. All functions but one are total; there is no fuel. The loops of the sources
  are recursions over lists; the loops over a socket end because every turn takes bytes off the
  stream, and the theories prove it (\<open>receive_loop\<close>, \<open>send_loop\<close>, \<open>worker_run\<close>, \<open>read_line_loop\<close>). The
  exception is the thread of a connection (\<open>serve_connection\<close>), which waits for a peer that stays
  connected: it is a partial function over a possibly infinite stream, and what is proved is when it
  returns and when it does not. The
  search recurses over the list of plans; the evaluation bound of the configuration cuts the
  exploration as in the code. Where the sources may wrap a counter the model wraps, and the
  properties that need fresh identities ask for room for four more (\<open>ids_room\<close>), which one
  scheduling step consumes at most. The configuration is assumed to allow at least one reject reason
  and one ranked candidate (\<open>config_ok\<close>), without which the code reads past an empty vector or takes
  every resource for eligible.

  Assumptions of the recovery. An imported image must select distinct resources with at least one
  slot per placement (\<open>selections_ok\<close>) and leave room above its largest identity; the validation of
  the code does not check the first, and the exporter always produces it. That every exported image
  is valid asks for limits under which each table fits an image (\<open>persistable\<close>), for imports that
  carry the limits of the engine, and for generation counters that have not wrapped
  (\<open>lasting_step\<close>).

  Not modelled. The calls of the operating system themselves (sockets, files, pipes, processes,
  clock, random device): what they answer is a parameter of the operations that use them. Of the
  branches of the preprocessor the POSIX one is modelled. A signal that ends the process is not: the
  sources neither mask SIGPIPE nor pass MSG_NOSIGNAL, so a \<open>send\<close> to a closed connection may end the
  process where \<open>send_loop\<close> has the error of the call. Threads are the interleaving of the steps
  of \<open>run_step\<close>: the handling of a frame is one step, because the engine is behind its mutex, so the
  order in which two threads write their answers to different sockets is not told apart, and the save
  on request is one step. The programs \<open>cluster_proof_main.cpp\<close> and \<open>cuda_proof_main.cpp\<close> with its
  kernel, \<open>benchmarks\<close> and \<open>tests\<close> are scripts that drive other programs, a GPU or a clock and
  print what they see; they keep no state of their own.
\<close>

end
